(* ===== verification/Rust_Prelude.thy ===== *)
theory Rust_Prelude
  imports Main "HOL-Library.Sublist"
begin

text \<open>
  What the components share: the few operations of Rust's standard library on strings and
  options that the modelled code calls, with the facts the component proofs need of them.

  A Rust \<open>char\<close> is a value of HOL's \<open>char\<close> (a code point below 256) and a
  \<open>String\<close> or \<open>&str\<close> a list of them. The modelled code looks at characters only
  through equality with ASCII characters and through the classification functions below,
  whose Latin-1 part is complete.
\<close>

named_theorems scan_simps "equations that run a scanner one step"
named_theorems rule_simps "characterisations of the rule matchers"
named_theorems store_simps "how the store operations move the store"

subsection \<open>Characters the scanners name\<close>

abbreviation ch_tab :: char where "ch_tab \<equiv> CHR 0x09"
abbreviation ch_lf :: char where "ch_lf \<equiv> CHR 0x0A"
abbreviation ch_cr :: char where "ch_cr \<equiv> CHR 0x0D"
abbreviation ch_space :: char where "ch_space \<equiv> CHR 0x20"
abbreviation ch_dquote :: char where "ch_dquote \<equiv> CHR 0x22"
abbreviation ch_hash :: char where "ch_hash \<equiv> CHR 0x23"
abbreviation ch_dollar :: char where "ch_dollar \<equiv> CHR 0x24"
abbreviation ch_percent :: char where "ch_percent \<equiv> CHR 0x25"
abbreviation ch_amp :: char where "ch_amp \<equiv> CHR 0x26"
abbreviation ch_squote :: char where "ch_squote \<equiv> CHR 0x27"
abbreviation ch_lparen :: char where "ch_lparen \<equiv> CHR 0x28"
abbreviation ch_rparen :: char where "ch_rparen \<equiv> CHR 0x29"
abbreviation ch_star :: char where "ch_star \<equiv> CHR 0x2A"
abbreviation ch_comma :: char where "ch_comma \<equiv> CHR 0x2C"
abbreviation ch_dash :: char where "ch_dash \<equiv> CHR 0x2D"
abbreviation ch_dot :: char where "ch_dot \<equiv> CHR 0x2E"
abbreviation ch_slash :: char where "ch_slash \<equiv> CHR 0x2F"
abbreviation ch_colon :: char where "ch_colon \<equiv> CHR 0x3A"
abbreviation ch_semi :: char where "ch_semi \<equiv> CHR 0x3B"
abbreviation ch_lt :: char where "ch_lt \<equiv> CHR 0x3C"
abbreviation ch_gt :: char where "ch_gt \<equiv> CHR 0x3E"
abbreviation ch_question :: char where "ch_question \<equiv> CHR 0x3F"
abbreviation ch_at :: char where "ch_at \<equiv> CHR 0x40"
abbreviation ch_lbracket :: char where "ch_lbracket \<equiv> CHR 0x5B"
abbreviation ch_backslash :: char where "ch_backslash \<equiv> CHR 0x5C"
abbreviation ch_rbracket :: char where "ch_rbracket \<equiv> CHR 0x5D"
abbreviation ch_underscore :: char where "ch_underscore \<equiv> CHR 0x5F"
abbreviation ch_backtick :: char where "ch_backtick \<equiv> CHR 0x60"
abbreviation ch_lbrace :: char where "ch_lbrace \<equiv> CHR 0x7B"
abbreviation ch_pipe :: char where "ch_pipe \<equiv> CHR 0x7C"
abbreviation ch_rbrace :: char where "ch_rbrace \<equiv> CHR 0x7D"
abbreviation ch_tilde :: char where "ch_tilde \<equiv> CHR 0x7E"

subsection \<open>Classification of characters\<close>

text \<open>\<open>char::is_ascii_whitespace\<close>: space, tab, line feed, form feed, carriage return.\<close>

definition is_ascii_whitespace :: "char \<Rightarrow> bool" where
  "is_ascii_whitespace c \<longleftrightarrow>
     c = CHR 0x20 \<or> c = CHR 0x09 \<or> c = CHR 0x0A \<or> c = CHR 0x0C \<or> c = CHR 0x0D"

text \<open>\<open>char::is_whitespace\<close>: the \<open>White_Space\<close> code points below 256.\<close>

definition is_whitespace :: "char \<Rightarrow> bool" where
  "is_whitespace c \<longleftrightarrow>
     c = CHR 0x20 \<or> c = CHR 0x09 \<or> c = CHR 0x0A \<or> c = CHR 0x0B \<or> c = CHR 0x0C \<or>
     c = CHR 0x0D \<or> c = CHR 0x85 \<or> c = CHR 0xA0"

lemma ascii_whitespace_is_whitespace: "is_ascii_whitespace c \<Longrightarrow> is_whitespace c"
  by (auto simp: is_ascii_whitespace_def is_whitespace_def)

definition code :: "char \<Rightarrow> nat" where
  "code c = of_char c"

definition is_ascii_digit :: "char \<Rightarrow> bool" where
  "is_ascii_digit c \<longleftrightarrow> 48 \<le> code c \<and> code c \<le> 57"

definition is_ascii_alphanumeric :: "char \<Rightarrow> bool" where
  "is_ascii_alphanumeric c \<longleftrightarrow>
     is_ascii_digit c \<or> (65 \<le> code c \<and> code c \<le> 90) \<or> (97 \<le> code c \<and> code c \<le> 122)"

definition to_ascii_lowercase :: "char \<Rightarrow> char" where
  "to_ascii_lowercase c = (if 65 \<le> code c \<and> code c \<le> 90 then char_of (code c + 32) else c)"

definition lower :: "string \<Rightarrow> string" where
  "lower s = map to_ascii_lowercase s"

text \<open>\<open>str::eq_ignore_ascii_case\<close>.\<close>

definition eq_ignore_ascii_case :: "string \<Rightarrow> string \<Rightarrow> bool" where
  "eq_ignore_ascii_case s t \<longleftrightarrow> lower s = lower t"

lemma eq_ignore_ascii_case_refl [simp]: "eq_ignore_ascii_case s s"
  by (simp add: eq_ignore_ascii_case_def)

lemma eq_ignore_ascii_case_sym: "eq_ignore_ascii_case s t \<longleftrightarrow> eq_ignore_ascii_case t s"
  by (auto simp: eq_ignore_ascii_case_def)

lemma eq_ignore_ascii_case_trans:
  "eq_ignore_ascii_case s t \<Longrightarrow> eq_ignore_ascii_case t u \<Longrightarrow> eq_ignore_ascii_case s u"
  by (simp add: eq_ignore_ascii_case_def)

lemma length_lower [simp]: "length (lower s) = length s"
  by (simp add: lower_def)

lemma lower_append [simp]: "lower (s @ t) = lower s @ lower t"
  by (simp add: lower_def)

lemma eq_ignore_ascii_case_length: "eq_ignore_ascii_case s t \<Longrightarrow> length s = length t"
  by (metis eq_ignore_ascii_case_def length_lower)

text \<open>Lowercasing moves letters onto letters only, so it keeps every other character apart.\<close>

lemma code_char_of: "n < 256 \<Longrightarrow> code (char_of n) = n"
  by (simp add: code_def)

lemma code_to_ascii_lowercase:
  "code (to_ascii_lowercase c) = (if 65 \<le> code c \<and> code c \<le> 90 then code c + 32 else code c)"
  by (simp add: to_ascii_lowercase_def code_char_of)

lemma code_inject: "code c = code d \<longleftrightarrow> c = d"
  by (simp add: code_def)

lemma to_ascii_lowercase_eq:
  assumes "\<not> (97 \<le> code d \<and> code d \<le> 122)"
  shows "to_ascii_lowercase c = d \<longleftrightarrow> c = d \<and> \<not> (65 \<le> code d \<and> code d \<le> 90)"
  using assms by (auto simp: code_inject [symmetric] code_to_ascii_lowercase)

lemma in_set_lower:
  assumes "\<not> (97 \<le> code d \<and> code d \<le> 122)" and "\<not> (65 \<le> code d \<and> code d \<le> 90)"
  shows "d \<in> set (lower s) \<longleftrightarrow> d \<in> set s"
proof -
  have "to_ascii_lowercase c = d \<longleftrightarrow> c = d" for c
    using assms to_ascii_lowercase_eq by blast
  then show ?thesis by (induction s) (simp_all add: lower_def, metis)
qed

subsection \<open>Trimming, splitting and joining\<close>

definition trim_start_by :: "(char \<Rightarrow> bool) \<Rightarrow> string \<Rightarrow> string" where
  "trim_start_by p s = dropWhile p s"

definition trim_end_by :: "(char \<Rightarrow> bool) \<Rightarrow> string \<Rightarrow> string" where
  "trim_end_by p s = rev (dropWhile p (rev s))"

lemma not_whitespace_quote [simp]: "\<not> is_whitespace ch_squote"
  by (simp add: is_whitespace_def)

text \<open>\<open>str::trim\<close>.\<close>

definition trim :: "string \<Rightarrow> string" where
  "trim s = trim_end_by is_whitespace (trim_start_by is_whitespace s)"

lemma set_trim_subset: "set (trim s) \<subseteq> set s"
  unfolding trim_def trim_end_by_def trim_start_by_def set_rev
  by (metis set_dropWhileD set_rev subsetI)

lemma trim_id:
  assumes "s = [] \<or> (\<not> is_whitespace (hd s) \<and> \<not> is_whitespace (last s))"
  shows "trim s = s"
proof (cases s)
  case Nil
  then show ?thesis by (simp add: trim_def trim_start_by_def trim_end_by_def)
next
  case (Cons c cs)
  with assms have "\<not> is_whitespace c" and l: "\<not> is_whitespace (last s)" by auto
  with Cons have "trim_start_by is_whitespace s = s" by (simp add: trim_start_by_def)
  moreover have "dropWhile is_whitespace (rev s) = rev s"
    using l Cons by (metis dropWhile_eq_self_iff hd_rev)
  ultimately show ?thesis by (simp add: trim_def trim_end_by_def)
qed

lemma trim_eq_iff:
  "trim s = s \<longleftrightarrow> s = [] \<or> (\<not> is_whitespace (hd s) \<and> \<not> is_whitespace (last s))"
proof
  assume t: "trim s = s"
  show "s = [] \<or> (\<not> is_whitespace (hd s) \<and> \<not> is_whitespace (last s))"
  proof (cases s)
    case (Cons c cs)
    have l: "length (dropWhile p w) \<le> length w" for p and w :: string
      by (rule length_dropWhile_le)
    have "\<not> is_whitespace c"
    proof
      assume "is_whitespace c"
      then have "length (trim s) \<le> length cs"
        using Cons l [of is_whitespace "rev (dropWhile is_whitespace cs)"] l [of is_whitespace cs]
        by (simp add: trim_def trim_end_by_def trim_start_by_def)
      with t Cons show False by simp
    qed
    with t Cons have "dropWhile is_whitespace (rev s) = rev s"
      by (simp add: trim_def trim_end_by_def trim_start_by_def rev_swap)
    then have "\<not> is_whitespace (hd (rev s))" using Cons by (simp add: dropWhile_eq_self_iff)
    then have "\<not> is_whitespace (last s)" by (metis hd_rev)
    moreover have "\<not> is_whitespace (hd s)" using \<open>\<not> is_whitespace c\<close> Cons by simp
    ultimately show ?thesis by blast
  qed simp
qed (rule trim_id)

text \<open>\<open>str::strip_prefix\<close> and \<open>str::strip_suffix\<close>.\<close>

definition strip_prefix :: "string \<Rightarrow> string \<Rightarrow> string option" where
  "strip_prefix p s = (if prefix p s then Some (drop (length p) s) else None)"

definition strip_suffix :: "string \<Rightarrow> string \<Rightarrow> string option" where
  "strip_suffix p s = (if suffix p s then Some (take (length s - length p) s) else None)"

lemma strip_prefix_Some: "strip_prefix p s = Some t \<longleftrightarrow> s = p @ t"
  by (auto simp: strip_prefix_def prefix_def)

lemma strip_prefix_append [simp]: "strip_prefix p (p @ t) = Some t"
  by (simp add: strip_prefix_Some)

lemma strip_suffix_Some: "strip_suffix p s = Some t \<longleftrightarrow> s = t @ p"
  by (auto simp: strip_suffix_def suffix_def)

lemma strip_suffix_append [simp]: "strip_suffix p (t @ p) = Some t"
  by (simp add: strip_suffix_Some)

text \<open>\<open>str::split_once\<close> at a character.\<close>

fun split_once :: "char \<Rightarrow> string \<Rightarrow> (string \<times> string) option" where
  "split_once d [] = None"
| "split_once d (c # cs) =
     (if c = d then Some ([], cs)
      else map_option (\<lambda>(a, b). (c # a, b)) (split_once d cs))"

lemma split_once_Some:
  "split_once d s = Some (a, b) \<longleftrightarrow> s = a @ d # b \<and> d \<notin> set a"
proof (induction s arbitrary: a)
  case Nil
  then show ?case by simp
next
  case (Cons c s)
  then show ?case by (cases a) auto
qed

lemma split_once_None: "split_once d s = None \<longleftrightarrow> d \<notin> set s"
  by (induction s) auto

lemma split_once_append: "d \<notin> set a \<Longrightarrow> split_once d (a @ d # b) = Some (a, b)"
  by (simp add: split_once_Some)

text \<open>Words separated by a class of characters (\<open>split_ascii_whitespace\<close>,
  \<open>split_whitespace\<close>): the maximal runs without a separator.\<close>

fun words_by :: "(char \<Rightarrow> bool) \<Rightarrow> string \<Rightarrow> string \<Rightarrow> string list" where
  "words_by p acc [] = (if acc = [] then [] else [acc])"
| "words_by p acc (c # cs) =
     (if p c then (if acc = [] then words_by p [] cs else acc # words_by p [] cs)
      else words_by p (acc @ [c]) cs)"

abbreviation split_ascii_whitespace :: "string \<Rightarrow> string list" where
  "split_ascii_whitespace s \<equiv> words_by is_ascii_whitespace [] s"

abbreviation split_whitespace :: "string \<Rightarrow> string list" where
  "split_whitespace s \<equiv> words_by is_whitespace [] s"

lemma words_by_nonempty: "w \<in> set (words_by p acc s) \<Longrightarrow> w \<noteq> []"
  by (induction p acc s rule: words_by.induct) (auto split: if_splits)

text \<open>\<open>str::match_indices\<close>: the positions of the non-overlapping matches from left to right
  (the needles of the code are not empty). The third argument counts the characters of the
  last match still to be passed.\<close>

fun match_from :: "string \<Rightarrow> nat \<Rightarrow> nat \<Rightarrow> string \<Rightarrow> nat list" where
  "match_from needle pos skip [] = []"
| "match_from needle pos (Suc skip) (c # cs) = match_from needle (Suc pos) skip cs"
| "match_from needle pos 0 (c # cs) =
     (if prefix needle (c # cs) then pos # match_from needle (Suc pos) (length needle - 1) cs
      else match_from needle (Suc pos) 0 cs)"

definition match_indices :: "string \<Rightarrow> string \<Rightarrow> nat list" where
  "match_indices needle s = match_from needle 0 0 s"

lemma match_from_skip: "match_from needle pos k s = match_from needle (pos + k) 0 (drop k s)"
  by (induction needle pos k s rule: match_from.induct) auto

lemma match_from_hit:
  assumes "needle \<noteq> []"
  shows "match_from needle pos 0 (needle @ t) = pos # match_from needle (pos + length needle) 0 t"
proof -
  obtain x xs where n: "needle = x # xs" using assms by (cases needle) auto
  have "prefix needle (x # xs @ t)" by (simp add: n)
  then have "match_from needle pos 0 (x # xs @ t) =
      pos # match_from needle (Suc pos) (length needle - 1) (xs @ t)" by simp
  also have "\<dots> = pos # match_from needle (pos + length needle) 0 t"
    by (subst match_from_skip) (simp add: n)
  finally show ?thesis by (simp add: n)
qed

text \<open>A needle whose last character does not occur in it before cannot overlap itself, so every
  occurrence is found.\<close>

lemma no_overlap:
  assumes "(d @ [c]) @ t = pre @ (d @ [c]) @ post" and "c \<notin> set d" and "pre \<noteq> []"
  shows "\<exists>pre'. pre = (d @ [c]) @ pre'"
proof (cases "length pre \<le> length d")
  case True
  let ?k = "length d - length pre"
  from True assms(3) have k: "?k < length d" by (cases pre) auto
  have "c = ((d @ [c]) @ t) ! length d" by simp
  also have "\<dots> = (pre @ (d @ [c]) @ post) ! length d" by (simp only: assms(1))
  also have "\<dots> = ((d @ [c]) @ post) ! ?k" using True by (simp add: nth_append)
  also have "\<dots> = d ! ?k" using k by (simp add: nth_append)
  finally show ?thesis using k assms(2) nth_mem by metis
next
  case False
  from assms(1) obtain us where "d @ [c] = pre @ us \<and> us @ t = (d @ [c]) @ post \<or>
      (d @ [c]) @ us = pre \<and> t = us @ (d @ [c]) @ post"
    using append_eq_append_conv2 [of "d @ [c]" t pre "(d @ [c]) @ post"] by blast
  moreover have "us = []" if "d @ [c] = pre @ us"
    using False arg_cong [OF that, of length] by (cases us) auto
  ultimately show ?thesis by auto
qed

lemma occurrence_Cons:
  assumes "\<not> prefix n (x # xs)"
  shows "(\<exists>pre post. xs = pre @ n @ post \<and> at = Suc pos + length pre) \<longleftrightarrow>
    (\<exists>pre post. x # xs = pre @ n @ post \<and> at = pos + length pre)"
    (is "?l \<longleftrightarrow> ?r")
proof
  assume ?l
  then obtain pre post where "xs = pre @ n @ post" "at = Suc pos + length pre" by blast
  then show ?r by (intro exI [of _ "x # pre"] exI [of _ post]) simp
next
  assume ?r
  then obtain pre post where p: "x # xs = pre @ n @ post" "at = pos + length pre" by blast
  with assms obtain pre' where "pre = x # pre'" by (cases pre) (auto simp: prefix_def)
  with p show ?l by auto
qed

lemma match_from_iff:
  assumes "c \<notin> set d"
  shows "at \<in> set (match_from (d @ [c]) pos 0 s) \<longleftrightarrow>
    (\<exists>pre post. s = pre @ (d @ [c]) @ post \<and> at = pos + length pre)"
proof (induction s arbitrary: pos rule: length_induct)
  case (1 s)
  let ?n = "d @ [c]"
  show ?case
  proof (cases "prefix ?n s")
    case True
    then obtain t where s: "s = ?n @ t" by (auto simp: prefix_def)
    then have "match_from ?n pos 0 s = pos # match_from ?n (pos + length ?n) 0 t"
      using match_from_hit [of ?n pos t] by simp
    moreover have "length t < length s" using s by simp
    ultimately have "at \<in> set (match_from ?n pos 0 s) \<longleftrightarrow>
        at = pos \<or> (\<exists>pre post. t = pre @ ?n @ post \<and> at = pos + length ?n + length pre)"
      using 1 by simp
    also have "\<dots> \<longleftrightarrow> (\<exists>pre post. s = pre @ ?n @ post \<and> at = pos + length pre)"
    proof
      assume "at = pos \<or> (\<exists>pre post. t = pre @ ?n @ post \<and> at = pos + length ?n + length pre)"
      then show "\<exists>pre post. s = pre @ ?n @ post \<and> at = pos + length pre"
      proof
        assume "at = pos"
        then show ?thesis using s by (intro exI [of _ "[]"] exI [of _ t]) simp
      next
        assume "\<exists>pre post. t = pre @ ?n @ post \<and> at = pos + length ?n + length pre"
        then obtain pre post where "t = pre @ ?n @ post" "at = pos + length ?n + length pre" by blast
        then show ?thesis using s by (intro exI [of _ "?n @ pre"] exI [of _ post]) simp
      qed
    next
      assume "\<exists>pre post. s = pre @ ?n @ post \<and> at = pos + length pre"
      then obtain pre post where p: "s = pre @ ?n @ post" "at = pos + length pre" by blast
      show "at = pos \<or> (\<exists>pre post. t = pre @ ?n @ post \<and> at = pos + length ?n + length pre)"
      proof (cases "pre = []")
        case False
        with no_overlap [of d c t pre post] p s assms obtain pre' where "pre = ?n @ pre'" by auto
        with p s show ?thesis by auto
      qed (use p in simp)
    qed
    finally show ?thesis .
  next
    case False
    show ?thesis
    proof (cases s)
      case (Cons x xs)
      with False have "match_from ?n pos 0 s = match_from ?n (Suc pos) 0 xs" by simp
      moreover have "length xs < length s" using Cons by simp
      ultimately have "at \<in> set (match_from ?n pos 0 s) \<longleftrightarrow>
          (\<exists>pre post. xs = pre @ ?n @ post \<and> at = Suc pos + length pre)"
        using 1 by presburger
      also have "\<dots> \<longleftrightarrow> (\<exists>pre post. s = pre @ ?n @ post \<and> at = pos + length pre)"
        using occurrence_Cons [of ?n x xs at pos] False Cons by simp
      finally show ?thesis .
    qed (use False in auto)
  qed
qed

lemma match_indices_bex:
  assumes "c \<notin> set d"
  shows "(\<exists>at \<in> set (match_indices (d @ [c]) s). P (take at s)) \<longleftrightarrow>
    (\<exists>pre post. s = pre @ (d @ [c]) @ post \<and> P pre)"
proof
  assume "\<exists>at \<in> set (match_indices (d @ [c]) s). P (take at s)"
  then obtain pre post where "s = pre @ (d @ [c]) @ post" "P (take (length pre) s)"
    by (auto simp: match_indices_def match_from_iff [OF assms])
  then show "\<exists>pre post. s = pre @ (d @ [c]) @ post \<and> P pre"
    by (intro exI [of _ pre] exI [of _ post]) simp
next
  assume "\<exists>pre post. s = pre @ (d @ [c]) @ post \<and> P pre"
  then obtain pre post where p: "s = pre @ (d @ [c]) @ post" "P pre" by blast
  then have "length pre \<in> set (match_indices (d @ [c]) s)"
    unfolding match_indices_def match_from_iff [OF assms] by auto
  moreover have "P (take (length pre) s)" using p by simp
  ultimately show "\<exists>at \<in> set (match_indices (d @ [c]) s). P (take at s)" by blast
qed

lemma words_by_run:
  "words_by p acc s =
     (let w = acc @ takeWhile (\<lambda>c. \<not> p c) s; rest = dropWhile (\<lambda>c. \<not> p c) s
      in (if w = [] then [] else [w]) @ words_by p [] (drop 1 rest))"
  by (induction p acc s rule: words_by.induct) (auto simp: Let_def)

lemma words_by_drop: "words_by p [] s = words_by p [] (dropWhile p s)"
  by (induction s) auto

lemma words_by_first:
  assumes "words_by p [] s = w # ws"
  shows "w = takeWhile (\<lambda>c. \<not> p c) (dropWhile p s)" and "w \<noteq> []"
proof -
  show "w \<noteq> []" using assms words_by_nonempty [of w p "[]" s] by simp
  have "dropWhile p s \<noteq> []"
    using assms words_by_drop [of p s] by (metis list.distinct(1) words_by.simps(1))
  then obtain c cs where "dropWhile p s = c # cs" by (cases "dropWhile p s") auto
  then have "takeWhile (\<lambda>c. \<not> p c) (dropWhile p s) \<noteq> []"
    using hd_dropWhile [of p s] by simp
  then show "w = takeWhile (\<lambda>c. \<not> p c) (dropWhile p s)"
    using assms words_by_run [of p "[]" "dropWhile p s"] words_by_drop [of p s] by (simp add: Let_def)
qed

lemma dropWhile_stronger:
  assumes "\<And>c. p c \<Longrightarrow> q c" and "dropWhile p s = c # cs" and "\<not> q c"
  shows "dropWhile q s = c # cs"
  using assms(2) by (induction s) (use assms(1,3) in \<open>auto split: if_splits\<close>)

text \<open>\<open>str::find\<close> of a string, and \<open>str::split\<close> at a character.\<close>

fun find_str :: "string \<Rightarrow> string \<Rightarrow> nat option" where
  "find_str needle [] = (if needle = [] then Some 0 else None)"
| "find_str needle (c # cs) =
     (if prefix needle (c # cs) then Some 0 else map_option Suc (find_str needle cs))"

fun split_char :: "char \<Rightarrow> string \<Rightarrow> string list" where
  "split_char d [] = [[]]"
| "split_char d (c # cs) =
     (if c = d then [] # split_char d cs
      else (c # hd (split_char d cs)) # tl (split_char d cs))"

text \<open>Evaluated with one split of the rest.\<close>

lemma split_char_code [code]:
  "split_char d [] = [[]]"
  "split_char d (c # cs) =
     (let parts = split_char d cs in if c = d then [] # parts else (c # hd parts) # tl parts)"
  by (simp_all add: Let_def)

lemma find_str_append:
  assumes "\<And>u v. a = u @ v \<Longrightarrow> v \<noteq> [] \<Longrightarrow> \<not> prefix needle (v @ needle @ b)"
  shows "find_str needle (a @ needle @ b) = Some (length a)"
  using assms
proof (induction a)
  case Nil
  have "prefix needle (needle @ b)" by simp
  then show ?case by (cases "needle @ b") simp_all
next
  case (Cons c a)
  have "\<not> prefix needle (c # a @ needle @ b)" using Cons.prems [of "[]" "c # a"] by simp
  moreover have "find_str needle (a @ needle @ b) = Some (length a)"
    using Cons.prems by (intro Cons.IH) (metis append_Cons)
  ultimately show ?case by simp
qed

text \<open>Slicing at a byte offset: characters from \<open>0x80\<close> on take two bytes in UTF-8, and an
  offset inside a character makes the slice panic (\<open>None\<close>).\<close>

definition utf8_width :: "char \<Rightarrow> nat" where
  "utf8_width c = (if code c < 128 then 1 else 2)"

definition byte_len :: "string \<Rightarrow> nat" where
  "byte_len s = sum_list (map utf8_width s)"

fun split_at_byte :: "nat \<Rightarrow> string \<Rightarrow> (string \<times> string) option" where
  "split_at_byte n s =
     (if n = 0 then Some ([], s)
      else case s of
        [] \<Rightarrow> None
      | c # cs \<Rightarrow>
          if n < utf8_width c then None
          else map_option (\<lambda>(a, b). (c # a, b)) (split_at_byte (n - utf8_width c) cs))"

declare split_at_byte.simps [simp del]

definition is_ascii :: "string \<Rightarrow> bool" where
  "is_ascii s \<longleftrightarrow> list_all (\<lambda>c. code c < 128) s"

lemma is_ascii_simps [simp]:
  "is_ascii []" "is_ascii (c # s) \<longleftrightarrow> code c < 128 \<and> is_ascii s"
  "is_ascii (s @ t) \<longleftrightarrow> is_ascii s \<and> is_ascii t"
  by (simp_all add: is_ascii_def)

lemma byte_len_ascii: "is_ascii s \<Longrightarrow> byte_len s = length s"
  by (induction s) (auto simp: byte_len_def utf8_width_def)

lemma split_at_byte_ascii:
  "is_ascii s \<Longrightarrow> n \<le> length s \<Longrightarrow> split_at_byte n s = Some (take n s, drop n s)"
proof (induction s arbitrary: n)
  case Nil
  then show ?case by (simp add: split_at_byte.simps)
next
  case (Cons c s)
  then show ?case
    by (cases n) (auto simp: split_at_byte.simps [of _ "c # s"] split_at_byte.simps [of 0] utf8_width_def)
qed

text \<open>The decimal digits an unsigned integer is formatted with.\<close>

fun decimal :: "nat \<Rightarrow> string" where
  "decimal n =
     (if n < 10 then [char_of (48 + n)] else decimal (n div 10) @ [char_of (48 + n mod 10)])"

declare decimal.simps [simp del]

definition digits_value :: "string \<Rightarrow> nat" where
  "digits_value s = foldl (\<lambda>v c. 10 * v + (code c - 48)) 0 s"

lemma digits_value_decimal: "digits_value (decimal n) = n"
proof (induction n rule: decimal.induct)
  case (1 n)
  show ?case
  proof (cases "n < 10")
    case True
    then show ?thesis by (simp add: decimal.simps [of n] digits_value_def code_char_of)
  next
    case False
    have "digits_value (decimal n) = 10 * digits_value (decimal (n div 10)) + n mod 10"
      using False by (simp add: decimal.simps [of n] digits_value_def code_char_of)
    with 1 False show ?thesis by simp
  qed
qed

lemma decimal_digits: "list_all is_ascii_digit (decimal n)"
proof (induction n rule: decimal.induct)
  case (1 n)
  then show ?case
    by (cases "n < 10") (simp_all add: decimal.simps [of n] is_ascii_digit_def code_char_of)
qed

lemma decimal_inject [simp]: "decimal m = decimal n \<longleftrightarrow> m = n"
  by (metis digits_value_decimal)

text \<open>\<open>[&str]::join\<close>.\<close>

fun join :: "string \<Rightarrow> string list \<Rightarrow> string" where
  "join sep [] = []"
| "join sep [w] = w"
| "join sep (w # ws) = w @ sep @ join sep ws"

lemma join_Cons: "ws \<noteq> [] \<Longrightarrow> join sep (w # ws) = w @ sep @ join sep ws"
  by (cases ws) auto

text \<open>\<open>str::replace\<close>: the non-overlapping matches from left to right.\<close>

fun replace_from :: "string \<Rightarrow> string \<Rightarrow> nat \<Rightarrow> string \<Rightarrow> string" where
  "replace_from needle new skip [] = []"
| "replace_from needle new (Suc skip) (c # cs) = replace_from needle new skip cs"
| "replace_from needle new 0 (c # cs) =
     (if prefix needle (c # cs) then new @ replace_from needle new (length needle - 1) cs
      else c # replace_from needle new 0 cs)"

definition replace_str :: "string \<Rightarrow> string \<Rightarrow> string \<Rightarrow> string" where
  "replace_str needle new s = replace_from needle new 0 s"

lemma replace_str_Nil [simp]: "replace_str needle new [] = []"
  by (simp add: replace_str_def)

lemma replace_str_1: "replace_str [a] new (c # cs) = (if c = a then new else [c]) @ replace_str [a] new cs"
  by (simp add: replace_str_def)

lemma replace_str_2_hit: "replace_str [a, b] new (a # b # cs) = new @ replace_str [a, b] new cs"
  by (simp add: replace_str_def)

lemma replace_str_2_miss:
  "c \<noteq> a \<or> cs = [] \<or> hd cs \<noteq> b \<Longrightarrow> replace_str [a, b] new (c # cs) = c # replace_str [a, b] new cs"
  by (cases cs) (auto simp: replace_str_def)

text \<open>\<open>str::replace\<close> of one character by another.\<close>

definition replace_char :: "char \<Rightarrow> char \<Rightarrow> string \<Rightarrow> string" where
  "replace_char a b s = map (\<lambda>c. if c = a then b else c) s"

subsection \<open>Options\<close>

text \<open>\<open>Option::is_some_and\<close> and \<open>Option::is_none_or\<close>.\<close>

definition is_some_and :: "('a \<Rightarrow> bool) \<Rightarrow> 'a option \<Rightarrow> bool" where
  "is_some_and p x = (case x of None \<Rightarrow> False | Some v \<Rightarrow> p v)"

lemma is_some_and_iff: "is_some_and p x \<longleftrightarrow> (\<exists>v. x = Some v \<and> p v)"
  by (simp add: is_some_and_def split: option.split)

lemma is_some_and_simps [simp]: "is_some_and p None = False" "is_some_and p (Some v) = p v"
  by (simp_all add: is_some_and_def)

subsection \<open>Results\<close>

text \<open>\<open>Result<T, E>\<close> is \<open>'e + 'a\<close>, the error on the left. \<open>and_then\<close> is the
  operator \<open>?\<close>, \<open>try_each\<close> a loop whose body may return early with an error.\<close>

definition and_then :: "'e + 'a \<Rightarrow> ('a \<Rightarrow> 'e + 'b) \<Rightarrow> 'e + 'b" where
  "and_then r k = (case r of Inl e \<Rightarrow> Inl e | Inr x \<Rightarrow> k x)"

lemma and_then_simps [simp]: "and_then (Inl e) k = Inl e" "and_then (Inr x) k = k x"
  by (simp_all add: and_then_def)

lemma and_then_Inr: "and_then r k = Inr y \<longleftrightarrow> (\<exists>x. r = Inr x \<and> k x = Inr y)"
  by (cases r) auto

fun try_each :: "('a \<Rightarrow> 'e + unit) \<Rightarrow> 'a list \<Rightarrow> 'e + unit" where
  "try_each f [] = Inr ()"
| "try_each f (x # xs) = and_then (f x) (\<lambda>_. try_each f xs)"

lemma try_each_Inr: "try_each f xs = Inr u \<longleftrightarrow> (\<forall>x \<in> set xs. f x = Inr ())"
  by (induction xs) (auto simp: and_then_Inr)

text \<open>The same operator in a method that updates its receiver: an error leaves the method with
  the state as it stands.\<close>

definition try_in :: "'s \<Rightarrow> 'e + 'a \<Rightarrow> ('a \<Rightarrow> ('e + 'b) \<times> 's) \<Rightarrow> ('e + 'b) \<times> 's" where
  "try_in s r k = (case r of Inl e \<Rightarrow> (Inl e, s) | Inr x \<Rightarrow> k x)"

lemma try_in_simps [simp]: "try_in s (Inl e) k = (Inl e, s)" "try_in s (Inr x) k = k x"
  by (simp_all add: try_in_def)

lemma try_in_Inr: "try_in s r k = (Inr y, s') \<longleftrightarrow> (\<exists>x. r = Inr x \<and> k x = (Inr y, s'))"
  by (cases r) auto

text \<open>\<open>Option::ok_or\<close>, \<open>Result::map_err\<close>.\<close>

definition ok_or :: "'a option \<Rightarrow> 'e \<Rightarrow> 'e + 'a" where
  "ok_or x e = (case x of Some v \<Rightarrow> Inr v | None \<Rightarrow> Inl e)"

lemma ok_or_simps [simp]: "ok_or (Some v) e = Inr v" "ok_or None e = Inl e"
  by (simp_all add: ok_or_def)

definition map_err :: "('e \<Rightarrow> 'f) \<Rightarrow> 'e + 'a \<Rightarrow> 'f + 'a" where
  "map_err f r = (case r of Inl e \<Rightarrow> Inl (f e) | Inr x \<Rightarrow> Inr x)"

lemma map_err_simps [simp]: "map_err f (Inl e) = Inl (f e)" "map_err f (Inr x) = Inr x"
  by (simp_all add: map_err_def)

lemma map_err_Inr: "map_err f r = Inr x \<longleftrightarrow> r = Inr x"
  by (cases r) auto

text \<open>\<open>char::is_control\<close> (general category Cc), \<open>u8::is_ascii_alphabetic\<close>.\<close>

definition is_control :: "char \<Rightarrow> bool" where
  "is_control c \<longleftrightarrow> code c < 32 \<or> (127 \<le> code c \<and> code c < 160)"

definition is_ascii_alphabetic :: "char \<Rightarrow> bool" where
  "is_ascii_alphabetic c \<longleftrightarrow> (65 \<le> code c \<and> code c \<le> 90) \<or> (97 \<le> code c \<and> code c \<le> 122)"

text \<open>How \<open>{:?}\<close> writes a string: what has no glyph of its own is escaped.\<close>

fun hexadecimal :: "nat \<Rightarrow> string" where
  "hexadecimal n =
     (if n < 16 then [''0123456789abcdef'' ! n]
      else hexadecimal (n div 16) @ [''0123456789abcdef'' ! (n mod 16)])"

declare hexadecimal.simps [simp del]

definition debug_char :: "char \<Rightarrow> string" where
  "debug_char c =
     (if c = CHR 0x00 then [ch_backslash, CHR ''0'']
      else if c = ch_tab then [ch_backslash, CHR ''t'']
      else if c = ch_lf then [ch_backslash, CHR ''n'']
      else if c = ch_cr then [ch_backslash, CHR ''r'']
      else if c = ch_dquote \<or> c = ch_backslash then [ch_backslash, c]
      else if is_control c \<or> c = CHR 0xA0 \<or> c = CHR 0xAD then
        [ch_backslash, CHR ''u'', ch_lbrace] @ hexadecimal (code c) @ [ch_rbrace]
      else [c])"

definition debug_str :: "string \<Rightarrow> string" where
  "debug_str s = [ch_dquote] @ concat (map debug_char s) @ [ch_dquote]"

text \<open>\<open>str::trim_start_matches\<close> and \<open>str::trim_matches\<close>, \<open>str::rsplit_once\<close>, \<open>str::split_inclusive\<close> at line
  feeds, and the last part of \<open>str::rsplit\<close>.\<close>

function trim_start_str :: "string \<Rightarrow> string \<Rightarrow> string" where
  "trim_start_str p s = (if p \<noteq> [] \<and> prefix p s then trim_start_str p (drop (length p) s) else s)"
  by pat_completeness auto
termination
  by (relation "measure (\<lambda>(_, s). length s)") (auto simp: prefix_def)

declare trim_start_str.simps [simp del]

definition trim_both_by :: "(char \<Rightarrow> bool) \<Rightarrow> string \<Rightarrow> string" where
  "trim_both_by p s = trim_end_by p (trim_start_by p s)"

definition after_last :: "(char \<Rightarrow> bool) \<Rightarrow> string \<Rightarrow> string" where
  "after_last p s = rev (takeWhile (\<lambda>c. \<not> p c) (rev s))"

definition rsplit_once :: "char \<Rightarrow> string \<Rightarrow> (string \<times> string) option" where
  "rsplit_once d s =
     (if d \<in> set s then
        Some (take (length s - Suc (length (after_last (\<lambda>c. c = d) s))) s, after_last (\<lambda>c. c = d) s)
      else None)"

fun split_inclusive :: "char \<Rightarrow> string \<Rightarrow> string list" where
  "split_inclusive d [] = []"
| "split_inclusive d (c # cs) =
     (if c = d then [c] # split_inclusive d cs
      else case split_inclusive d cs of
        [] \<Rightarrow> [[c]]
      | l # ls \<Rightarrow> (c # l) # ls)"

lemma concat_split_inclusive [simp]: "concat (split_inclusive d s) = s"
  by (induction d s rule: split_inclusive.induct) (auto split: list.splits)

lemma split_inclusive_nonempty: "l \<in> set (split_inclusive d s) \<Longrightarrow> l \<noteq> []"
  by (induction d s arbitrary: l rule: split_inclusive.induct) (auto split: list.splits if_splits)

lemma split_char_append: "split_char d (a @ d # b) = split_char d a @ split_char d b"
proof (induction a)
  case Nil
  then show ?case by simp
next
  case (Cons c a)
  have "split_char d a \<noteq> []" by (cases a) simp_all
  with Cons show ?case by simp
qed

end
