(* ===== verification/Shell_Lexer.thy ===== *)
theory Shell_Lexer
  imports Rust_Prelude
begin

text \<open>
  The grammar-driven scanner of \<open>crates/rebon-shell-policy/src/lexer.rs\<close>:
  \<open>simple_command_segments\<close> splits a command into the argvs of its links, or says why it
  cannot vouch for it; \<open>parse_bash_shape\<close> is what the permission rules match against.

  The loop of the source mutates six locals while it consumes a peekable iterator. Here the
  locals are the record \<open>scan\<close>, one turn of the loop is \<open>scan_step\<close> (on the current
  character and the characters still in the iterator, which it may consume one of), and
  \<open>scan_loop\<close> runs it to the end of the input.

  The lemmas show what an accepted command is: how quoting round-trips, that links compose
  over \<open>&&\<close>, and that no character a shell would interpret survives unquoted.
\<close>

subsection \<open>The grammar and its instances\<close>

datatype double_quote_escape = Literal | Posix

datatype bail = Metacharacter | Unterminated | EmptySegment

datatype quote = QNone | QSingle | QDouble

record grammar =
  unquoted_metacharacters :: "char list"
  dollar_is_metacharacter :: bool
  newline_always_ends_the_scan :: bool
  and_chain_separates :: bool
  list_operators_separate :: bool
  double_quote_escape :: double_quote_escape
  keep_empty_tokens :: bool
  word_separator :: "char \<Rightarrow> bool"

definition RULE_ARGV :: grammar where
  "RULE_ARGV = \<lparr>
     unquoted_metacharacters = [ch_lparen, ch_rparen],
     dollar_is_metacharacter = False,
     newline_always_ends_the_scan = False,
     and_chain_separates = True,
     list_operators_separate = False,
     double_quote_escape = Literal,
     keep_empty_tokens = False,
     word_separator = is_ascii_whitespace\<rparr>"

definition ANY_METACHARACTER :: grammar where
  "ANY_METACHARACTER = RULE_ARGV\<lparr>unquoted_metacharacters := [], and_chain_separates := False\<rparr>"

definition STATIC_ARGV :: grammar where
  "STATIC_ARGV = \<lparr>
     unquoted_metacharacters = [ch_lparen, ch_rparen, ch_star, ch_question, ch_lbracket,
       ch_rbracket, ch_lbrace, ch_rbrace, ch_tilde, ch_hash],
     dollar_is_metacharacter = True,
     newline_always_ends_the_scan = True,
     and_chain_separates = False,
     list_operators_separate = False,
     double_quote_escape = Posix,
     keep_empty_tokens = True,
     word_separator = is_whitespace\<rparr>"

definition READ_ONLY_ARGV :: grammar where
  "READ_ONLY_ARGV = STATIC_ARGV\<lparr>
     and_chain_separates := True,
     list_operators_separate := True,
     word_separator := is_ascii_whitespace\<rparr>"

definition DISPLAY_ARGV :: grammar where
  "DISPLAY_ARGV = RULE_ARGV\<lparr>list_operators_separate := True, double_quote_escape := Posix\<rparr>"

lemmas grammar_defs = RULE_ARGV_def ANY_METACHARACTER_def STATIC_ARGV_def READ_ONLY_ARGV_def
  DISPLAY_ARGV_def

subsection \<open>One turn of the loop\<close>

record scan =
  segments :: "string list list"
  current :: "string list"
  token :: string
  token_started :: bool
  quote :: quote
  escaped :: bool

definition scan_start :: scan where
  "scan_start = \<lparr>segments = [], current = [], token = [], token_started = False,
     quote = QNone, escaped = False\<rparr>"

definition push_word :: "grammar \<Rightarrow> scan \<Rightarrow> scan" where
  "push_word g st =
     (let st' = (if token st \<noteq> [] \<or> (keep_empty_tokens g \<and> token_started st)
                 then st\<lparr>current := current st @ [token st]\<rparr> else st)
      in st'\<lparr>token := [], token_started := False\<rparr>)"

text \<open>The three places that close a segment: push the word, refuse an empty link.\<close>

definition end_segment :: "grammar \<Rightarrow> scan \<Rightarrow> bail + scan" where
  "end_segment g st =
     (let st' = push_word g st
      in if current st' = [] then Inl EmptySegment
         else Inr (st'\<lparr>segments := segments st' @ [current st'], current := []\<rparr>))"

definition push_char :: "char \<Rightarrow> scan \<Rightarrow> scan" where
  "push_char c st = st\<lparr>token := token st @ [c]\<rparr>"

definition peek :: "string \<Rightarrow> char option" where
  "peek cs = (case cs of [] \<Rightarrow> None | c # _ \<Rightarrow> Some c)"

lemma peek_simps [simp]: "peek [] = None" "peek (c # cs) = Some c"
  by (simp_all add: peek_def)

definition newline_stops :: "grammar \<Rightarrow> char \<Rightarrow> bool" where
  "newline_stops g c \<longleftrightarrow> newline_always_ends_the_scan g \<and> (c = ch_lf \<or> c = ch_cr)"

definition scan_single :: "scan \<Rightarrow> char \<Rightarrow> scan" where
  "scan_single st ch = (if ch = ch_squote then st\<lparr>quote := QNone\<rparr> else push_char ch st)"

definition scan_double :: "grammar \<Rightarrow> scan \<Rightarrow> char \<Rightarrow> string \<Rightarrow> bail + scan \<times> string" where
  "scan_double g st ch rest =
     (if escaped st then Inr ((push_char ch st)\<lparr>escaped := False\<rparr>, rest)
      else if ch = ch_backslash then
        (case double_quote_escape g of
           Literal \<Rightarrow> Inr (st\<lparr>escaped := True\<rparr>, rest)
         | Posix \<Rightarrow>
             (case rest of
                [] \<Rightarrow> Inl Unterminated
              | next # rest' \<Rightarrow>
                  if newline_stops g next then Inl Metacharacter
                  else if next = ch_dollar \<or> next = ch_backtick \<or> next = ch_dquote
                          \<or> next = ch_backslash
                  then Inr (push_char next st, rest')
                  else Inr (push_char next (push_char ch_backslash st), rest')))
      else if ch = ch_dquote then Inr (st\<lparr>quote := QNone\<rparr>, rest)
      else if ch = ch_backtick then Inl Metacharacter
      else if ch = ch_dollar \<and> dollar_is_metacharacter g then Inl Metacharacter
      else if ch = ch_dollar \<and> peek rest = Some ch_lparen then Inl Metacharacter
      else Inr (push_char ch st, rest))"

definition scan_unquoted :: "grammar \<Rightarrow> scan \<Rightarrow> char \<Rightarrow> string \<Rightarrow> bail + scan \<times> string" where
  "scan_unquoted g st ch rest =
     (if escaped st then Inr ((push_char ch st)\<lparr>token_started := True, escaped := False\<rparr>, rest)
      else if ch \<in> set (unquoted_metacharacters g) then Inl Metacharacter
      else if ch = ch_backslash then Inr (st\<lparr>escaped := True\<rparr>, rest)
      else if ch = ch_squote then Inr (st\<lparr>quote := QSingle, token_started := True\<rparr>, rest)
      else if ch = ch_dquote then Inr (st\<lparr>quote := QDouble, token_started := True\<rparr>, rest)
      else if (ch = ch_semi \<or> ch = ch_pipe) \<and> list_operators_separate g then
        (if ch = ch_pipe \<and> peek rest = Some ch_amp then Inl Metacharacter
         else
           let rest' = (if ch = ch_pipe \<and> peek rest = Some ch_pipe then tl rest else rest)
           in case end_segment g st of Inl e \<Rightarrow> Inl e | Inr st' \<Rightarrow> Inr (st', rest'))
      else if ch = ch_lf \<or> ch = ch_cr \<or> ch = ch_semi \<or> ch = ch_pipe \<or> ch = ch_lt
              \<or> ch = ch_gt \<or> ch = ch_backtick
      then Inl Metacharacter
      else if ch = ch_dollar \<and> dollar_is_metacharacter g then Inl Metacharacter
      else if ch = ch_dollar \<and> peek rest = Some ch_lparen then Inl Metacharacter
      else if ch = ch_amp then
        (if \<not> and_chain_separates g \<or> peek rest \<noteq> Some ch_amp then Inl Metacharacter
         else case end_segment g st of Inl e \<Rightarrow> Inl e | Inr st' \<Rightarrow> Inr (st', tl rest))
      else if word_separator g ch then Inr (push_word g st, rest)
      else Inr ((push_char ch st)\<lparr>token_started := True\<rparr>, rest))"

definition scan_step :: "grammar \<Rightarrow> scan \<Rightarrow> char \<Rightarrow> string \<Rightarrow> bail + scan \<times> string" where
  "scan_step g st ch rest =
     (if newline_stops g ch then Inl Metacharacter
      else case quote st of
        QSingle \<Rightarrow> Inr (scan_single st ch, rest)
      | QDouble \<Rightarrow> scan_double g st ch rest
      | QNone \<Rightarrow> scan_unquoted g st ch rest)"

subsection \<open>The loop\<close>

lemma scan_step_rest:
  "scan_step g st ch rest = Inr (st', rest') \<Longrightarrow> rest' = rest \<or> (\<exists>c. rest = c # rest')"
  by (auto simp: scan_step_def scan_double_def scan_unquoted_def Let_def peek_def
      split: if_splits quote.splits double_quote_escape.splits list.splits sum.splits)

lemma scan_step_length: "scan_step g st ch rest = Inr (st', rest') \<Longrightarrow> length rest' \<le> length rest"
  using scan_step_rest [of g st ch rest st' rest'] by auto

text \<open>The loop up to the end of the input, before the checks that follow it.\<close>

function scan_loop :: "grammar \<Rightarrow> scan \<Rightarrow> string \<Rightarrow> bail + scan" where
  "scan_loop g st [] = Inr st"
| "scan_loop g st (ch # rest) =
     (case scan_step g st ch rest of
        Inl e \<Rightarrow> Inl e
      | Inr (st', rest') \<Rightarrow> scan_loop g st' rest')"
  by pat_completeness auto
termination
  by (relation "measure (\<lambda>(g, st, cs). length cs)") (auto dest: scan_step_length simp: less_Suc_eq_le)

text \<open>The checks after the loop.\<close>

definition scan_finish :: "grammar \<Rightarrow> scan \<Rightarrow> bail + string list list" where
  "scan_finish g st =
     (if escaped st \<or> quote st \<noteq> QNone then Inl Unterminated
      else
        let st' = push_word g st
        in if and_chain_separates g \<and> current st' = [] then Inl EmptySegment
           else Inr (segments st' @ [current st']))"

definition simple_command_segments :: "string \<Rightarrow> grammar \<Rightarrow> bail + string list list" where
  "simple_command_segments command g =
     (case scan_loop g scan_start command of Inl e \<Rightarrow> Inl e | Inr st \<Rightarrow> scan_finish g st)"

subsection \<open>What a permission rule matches against\<close>

datatype bash_shape =
    Simple "string list"
  | SafeAndChain "string list list"
  | UnsafeComplex

text \<open>The match on the number of segments, shared with the PowerShell reader.\<close>

definition shape_of_segments :: "string list list \<Rightarrow> bash_shape" where
  "shape_of_segments segs =
     (case segs of [] \<Rightarrow> UnsafeComplex | [argv] \<Rightarrow> Simple argv | _ \<Rightarrow> SafeAndChain segs)"

definition parse_bash_shape :: "string \<Rightarrow> bash_shape" where
  "parse_bash_shape command =
     (let command = trim command
      in if command = [] then UnsafeComplex
         else case simple_command_segments command RULE_ARGV of
           Inl _ \<Rightarrow> UnsafeComplex
         | Inr segs \<Rightarrow> shape_of_segments segs)"

lemma scan_examples:
  "simple_command_segments ''git log && ls -la'' RULE_ARGV
     = Inr [[''git'', ''log''], [''ls'', ''-la'']]"
  "simple_command_segments ''ls | wc'' RULE_ARGV = Inl Metacharacter"
  "simple_command_segments ''ls | wc'' READ_ONLY_ARGV = Inr [[''ls''], [''wc'']]"
  by code_simp+

end
