(* ===== verification/Shell_Quoting.thy ===== *)
theory Shell_Quoting
  imports Shell_Lexer
begin

text \<open>
  What \<open>simple_command_segments\<close> guarantees about the commands it accepts: quoted words
  come back unchanged, links joined by an operator of the grammar come back as the links, a
  command without special characters is split at its separators, and no live metacharacter is
  ever accepted.

  The contract a grammar has to meet for the quoting facts is the locale \<open>argv_grammar\<close>;
  the five grammars of the source are interpretations of it.
\<close>

subsection \<open>The scanner one step at a time\<close>

declare scan_loop.simps(2) [simp del, scan_simps]

lemma push_word_simps [simp]:
  "segments (push_word g st) = segments st"
  "token (push_word g st) = []"
  "token_started (push_word g st) = False"
  "quote (push_word g st) = quote st"
  "escaped (push_word g st) = escaped st"
  by (simp_all add: push_word_def Let_def)

lemma current_push_word:
  "current (push_word g st) =
     (if token st \<noteq> [] \<or> (keep_empty_tokens g \<and> token_started st)
      then current st @ [token st] else current st)"
  by (simp add: push_word_def Let_def)

lemma push_word_idle: "token st = [] \<Longrightarrow> \<not> token_started st \<Longrightarrow> push_word g st = st"
  by (simp add: push_word_def Let_def)

lemma push_word_idem [simp]: "push_word g (push_word g st) = push_word g st"
  by (rule push_word_idle) simp_all

lemma push_char_simps [simp]:
  "segments (push_char c st) = segments st"
  "current (push_char c st) = current st"
  "token (push_char c st) = token st @ [c]"
  "token_started (push_char c st) = token_started st"
  "quote (push_char c st) = quote st"
  "escaped (push_char c st) = escaped st"
  by (simp_all add: push_char_def)

lemma scan_finish_Inr:
  "scan_finish g st = Inr segs \<longleftrightarrow>
     \<not> escaped st \<and> quote st = QNone \<and>
     (and_chain_separates g \<longrightarrow> current (push_word g st) \<noteq> []) \<and>
     segs = segments st @ [current (push_word g st)]"
  by (auto simp: scan_finish_def Let_def split: if_splits)

lemma simple_command_segments_Inr:
  "simple_command_segments s g = Inr segs \<longleftrightarrow>
     (\<exists>st. scan_loop g scan_start s = Inr st \<and> scan_finish g st = Inr segs)"
  by (auto simp: simple_command_segments_def split: sum.splits)

subsection \<open>Joining inputs\<close>

text \<open>The characters a look-ahead of the scanner can tell apart from the end of the input.\<close>

definition lookahead_neutral :: "string \<Rightarrow> bool" where
  "lookahead_neutral b \<longleftrightarrow>
     peek b \<noteq> Some ch_lparen \<and> peek b \<noteq> Some ch_amp \<and> peek b \<noteq> Some ch_pipe"

lemma peek_append: "peek (a @ b) = (if a = [] then peek b else peek a)"
  by (cases a) (auto simp: peek_def)

lemma peek_Some_ConsD: "peek cs = Some c \<Longrightarrow> \<exists>r. cs = c # r"
  by (auto simp: peek_def split: list.splits)

lemma lookahead_neutral_peek:
  assumes "lookahead_neutral b"
  shows "peek (a @ b) = Some ch_lparen \<longleftrightarrow> peek a = Some ch_lparen"
    and "peek (a @ b) = Some ch_amp \<longleftrightarrow> peek a = Some ch_amp"
    and "peek (a @ b) = Some ch_pipe \<longleftrightarrow> peek a = Some ch_pipe"
  using assms by (cases "a = []"; simp add: peek_append lookahead_neutral_def)+

lemma tl_append_peek: "peek a = Some c \<Longrightarrow> tl (a @ b) = tl a @ b"
  by (auto dest: peek_Some_ConsD)

lemma scan_double_append:
  assumes "scan_double g st ch rest = Inr (st', rest')" and "lookahead_neutral b"
  shows "scan_double g st ch (rest @ b) = Inr (st', rest' @ b)"
  using assms
  by (auto simp: scan_double_def peek_append lookahead_neutral_def
      split: if_splits double_quote_escape.splits list.splits)

lemma scan_unquoted_append_map:
  assumes "lookahead_neutral b"
  shows "scan_unquoted g st ch (rest @ b) =
    map_sum id (map_prod id (\<lambda>r. r @ b)) (scan_unquoted g st ch rest)"
  by (simp add: scan_unquoted_def Let_def lookahead_neutral_peek [OF assms] tl_append_peek
      split: sum.split)

lemma scan_unquoted_append:
  assumes "scan_unquoted g st ch rest = Inr (st', rest')" and "lookahead_neutral b"
  shows "scan_unquoted g st ch (rest @ b) = Inr (st', rest' @ b)"
  using assms by (simp add: scan_unquoted_append_map)

lemma scan_step_append:
  assumes "scan_step g st ch rest = Inr (st', rest')" and "lookahead_neutral b"
  shows "scan_step g st ch (rest @ b) = Inr (st', rest' @ b)"
  using assms scan_double_append scan_unquoted_append
  by (auto simp: scan_step_def split: if_splits quote.splits)

lemma scan_loop_append:
  assumes "scan_loop g st a = Inr st1" and "lookahead_neutral b"
  shows "scan_loop g st (a @ b) = scan_loop g st1 b"
  using assms
proof (induction g st a rule: scan_loop.induct)
  case (1 g st)
  then show ?case by simp
next
  case (2 g st ch rest)
  then obtain st' rest' where s: "scan_step g st ch rest = Inr (st', rest')"
    and l: "scan_loop g st' rest' = Inr st1"
    by (auto simp: scan_simps split: sum.splits)
  from s "2.prems"(2) have "scan_step g st ch (rest @ b) = Inr (st', rest' @ b)"
    by (rule scan_step_append)
  with "2.IH" [OF s refl l "2.prems"(2)] show ?case by (simp add: scan_simps)
qed

subsection \<open>Segments found earlier do not matter\<close>

definition prepend_segments :: "string list list \<Rightarrow> scan \<Rightarrow> scan" where
  "prepend_segments A st = st\<lparr>segments := A @ segments st\<rparr>"

lemma prepend_segments_simps [simp]:
  "segments (prepend_segments A st) = A @ segments st"
  "current (prepend_segments A st) = current st"
  "token (prepend_segments A st) = token st"
  "token_started (prepend_segments A st) = token_started st"
  "quote (prepend_segments A st) = quote st"
  "escaped (prepend_segments A st) = escaped st"
  "push_char c (prepend_segments A st) = prepend_segments A (push_char c st)"
  "push_word g (prepend_segments A st) = prepend_segments A (push_word g st)"
  by (simp_all add: prepend_segments_def push_char_def push_word_def Let_def)

lemma prepend_segments_updates [simp]:
  "(prepend_segments A st)\<lparr>quote := q\<rparr> = prepend_segments A (st\<lparr>quote := q\<rparr>)"
  "(prepend_segments A st)\<lparr>escaped := e\<rparr> = prepend_segments A (st\<lparr>escaped := e\<rparr>)"
  "(prepend_segments A st)\<lparr>token_started := t\<rparr> = prepend_segments A (st\<lparr>token_started := t\<rparr>)"
  "(prepend_segments A st)\<lparr>current := c\<rparr> = prepend_segments A (st\<lparr>current := c\<rparr>)"
  "(prepend_segments A st)\<lparr>segments := A @ s\<rparr> = prepend_segments A (st\<lparr>segments := s\<rparr>)"
  by (simp_all add: prepend_segments_def)

lemma end_segment_prepend:
  "end_segment g (prepend_segments A st) = map_sum id (prepend_segments A) (end_segment g st)"
  by (simp add: end_segment_def Let_def prepend_segments_def push_word_def)

lemma scan_step_prepend:
  "scan_step g (prepend_segments A st) ch rest =
     map_sum id (map_prod (prepend_segments A) id) (scan_step g st ch rest)"
  by (simp add: scan_step_def scan_single_def scan_double_def scan_unquoted_def Let_def
      end_segment_prepend split: quote.split double_quote_escape.split list.split sum.split)

lemma scan_loop_prepend:
  "scan_loop g (prepend_segments A st) cs = map_sum id (prepend_segments A) (scan_loop g st cs)"
proof (induction g st cs rule: scan_loop.induct)
  case (1 g st)
  then show ?case by simp
next
  case (2 g st ch rest)
  show ?case
    using "2.IH" by (auto simp: scan_simps scan_step_prepend split: sum.split)
qed

subsection \<open>Quoted words\<close>

text \<open>A word between single quotes, an argv as such words, a chain joined by \<open>&&\<close>.\<close>

definition quote_word :: "string \<Rightarrow> string" where
  "quote_word w = ch_squote # w @ [ch_squote]"

definition render_argv :: "string list \<Rightarrow> string" where
  "render_argv ws = join [ch_space] (map quote_word ws)"

definition render_chain :: "string list list \<Rightarrow> string" where
  "render_chain segs = join '' && '' (map render_argv segs)"

text \<open>A word single quotes can carry under the grammar: no single quote, no line break where
  line breaks always stop the scan, and no empty word where empty words are dropped.\<close>

definition quotable :: "grammar \<Rightarrow> string \<Rightarrow> bool" where
  "quotable g w \<longleftrightarrow>
     ch_squote \<notin> set w \<and> (\<forall>c \<in> set w. \<not> newline_stops g c) \<and> (keep_empty_tokens g \<or> w \<noteq> [])"

definition at_word_start :: "scan \<Rightarrow> bool" where
  "at_word_start st \<longleftrightarrow>
     token st = [] \<and> \<not> token_started st \<and> quote st = QNone \<and> \<not> escaped st"

lemma at_word_start_scan_start [simp]: "at_word_start scan_start"
  by (simp add: at_word_start_def scan_start_def)

lemma newline_stops_other [simp]:
  "c \<noteq> ch_lf \<Longrightarrow> c \<noteq> ch_cr \<Longrightarrow> \<not> newline_stops g c"
  by (simp add: newline_stops_def)

lemma scan_loop_single_quoted:
  assumes "ch_squote \<notin> set w" and "\<forall>c \<in> set w. \<not> newline_stops g c" and "quote st = QSingle"
  shows "scan_loop g st (w @ ch_squote # rest) =
    scan_loop g (st\<lparr>token := token st @ w, quote := QNone\<rparr>) rest"
  using assms
proof (induction w arbitrary: st)
  case Nil
  then show ?case by (simp add: scan_simps scan_step_def scan_single_def)
next
  case (Cons c w)
  then have "scan_step g st c (w @ ch_squote # rest) = Inr (push_char c st, w @ ch_squote # rest)"
    by (auto simp: scan_step_def scan_single_def)
  with Cons show ?case by (simp add: scan_simps push_char_def)
qed

text \<open>The operators, each between blanks, that start a new link.\<close>

definition link_operators :: "grammar \<Rightarrow> string list" where
  "link_operators g =
     (if and_chain_separates g then [''&&''] else []) @
     (if list_operators_separate g then [''|'', ''||'', '';''] else [])"

text \<open>The contract: the quote, the blank and \<open>&\<close> are not refused outright, and the blank
  ends a word.\<close>

locale argv_grammar =
  fixes g :: grammar
  assumes free_chars: "ch_squote \<notin> set (unquoted_metacharacters g)"
      "ch_space \<notin> set (unquoted_metacharacters g)" "ch_amp \<notin> set (unquoted_metacharacters g)"
    and list_chars: "list_operators_separate g \<Longrightarrow>
      ch_semi \<notin> set (unquoted_metacharacters g) \<and> ch_pipe \<notin> set (unquoted_metacharacters g)"
    and space_separates: "word_separator g ch_space"
begin

lemma scan_quoted_word:
  assumes "quotable g w" and "at_word_start st"
  shows "scan_loop g st (quote_word w @ rest) =
    scan_loop g (st\<lparr>token := w, token_started := True\<rparr>) rest"
proof -
  let ?st = "st\<lparr>quote := QSingle, token_started := True\<rparr>"
  have "scan_step g st ch_squote (w @ ch_squote # rest) = Inr (?st, w @ ch_squote # rest)"
    using assms(2) free_chars by (simp add: scan_step_def scan_unquoted_def at_word_start_def)
  moreover have "quote ?st = QSingle" by simp
  moreover have "?st\<lparr>token := token ?st @ w, quote := QNone\<rparr> = st\<lparr>token := w, token_started := True\<rparr>"
    using assms(2) by (simp add: at_word_start_def)
  ultimately show ?thesis
    using assms(1) by (simp add: scan_simps quote_word_def quotable_def scan_loop_single_quoted)
qed

lemma scan_space:
  assumes "quote st = QNone" and "\<not> escaped st"
  shows "scan_loop g st (ch_space # rest) = scan_loop g (push_word g st) rest"
  using assms free_chars space_separates by (simp add: scan_simps scan_step_def scan_unquoted_def)

text \<open>A word that has been read: the state in which the next character is a separator.\<close>

lemma push_quoted_word:
  assumes "quotable g w" and "at_word_start st"
  shows "push_word g (st\<lparr>token := w, token_started := True\<rparr>) = st\<lparr>current := current st @ [w]\<rparr>"
  using assms by (auto simp: push_word_def Let_def quotable_def at_word_start_def)

lemma scan_render_argv:
  assumes "ws \<noteq> []" and "\<forall>w \<in> set ws. quotable g w" and "at_word_start st"
  shows "scan_loop g st (render_argv ws @ rest) =
    scan_loop g (st\<lparr>current := current st @ butlast ws, token := last ws, token_started := True\<rparr>) rest"
  using assms
proof (induction ws arbitrary: st)
  case Nil
  then show ?case by simp
next
  case (Cons w ws)
  show ?case
  proof (cases ws)
    case Nil
    with Cons.prems show ?thesis by (simp add: render_argv_def scan_quoted_word)
  next
    case (Cons w' ws')
    let ?st = "st\<lparr>current := current st @ [w]\<rparr>"
    from Cons have eq: "render_argv (w # ws) @ rest = quote_word w @ ch_space # render_argv ws @ rest"
      by (simp add: render_argv_def)
    have "scan_loop g st (render_argv (w # ws) @ rest) = scan_loop g ?st (render_argv ws @ rest)"
      using Cons.prems unfolding eq
      by (simp add: scan_quoted_word scan_space push_quoted_word at_word_start_def)
    also have "\<dots> = scan_loop g (?st\<lparr>current := current ?st @ butlast ws, token := last ws,
        token_started := True\<rparr>) rest"
      using Cons Cons.prems by (intro Cons.IH) (auto simp: at_word_start_def)
    finally show ?thesis using Cons by simp
  qed
qed

lemma segments_of_render_argv:
  assumes "ws \<noteq> []" and "\<forall>w \<in> set ws. quotable g w"
  shows "simple_command_segments (render_argv ws) g = Inr [ws]"
proof -
  let ?st = "scan_start\<lparr>current := butlast ws, token := last ws, token_started := True\<rparr>"
  have "scan_loop g scan_start (render_argv ws @ []) = Inr ?st"
    using scan_render_argv [OF assms at_word_start_scan_start, of "[]"]
    by (simp add: scan_start_def)
  moreover have "quotable g (last ws)" using assms by simp
  then have "scan_finish g ?st = Inr [ws]"
    using assms(1)
    by (auto simp: scan_finish_Inr current_push_word quotable_def scan_start_def)
  ultimately show ?thesis by (simp add: simple_command_segments_Inr)
qed

subsection \<open>Links joined by an operator\<close>

text \<open>What follows an accepted link: the word in progress is pushed, and the segments read so
  far are those of the link.\<close>

lemma segments_append_link:
  assumes a: "simple_command_segments a g = Inr A" and b: "simple_command_segments b g = Inr B"
    and neutral: "lookahead_neutral rest"
    and op: "\<And>st. quote st = QNone \<Longrightarrow> \<not> escaped st \<Longrightarrow> current (push_word g st) \<noteq> [] \<Longrightarrow>
      scan_loop g st rest = scan_loop g (prepend_segments
        (segments st @ [current (push_word g st)]) scan_start) b"
    and link: "and_chain_separates g"
  shows "simple_command_segments (a @ rest) g = Inr (A @ B)"
proof -
  from a obtain sta where la: "scan_loop g scan_start a = Inr sta" and fa: "scan_finish g sta = Inr A"
    by (auto simp: simple_command_segments_Inr)
  from b obtain stb where lb: "scan_loop g scan_start b = Inr stb" and fb: "scan_finish g stb = Inr B"
    by (auto simp: simple_command_segments_Inr)
  from la neutral have "scan_loop g scan_start (a @ rest) = scan_loop g sta rest"
    by (rule scan_loop_append)
  also have "\<dots> = scan_loop g (prepend_segments A scan_start) b"
    using fa link by (auto simp: scan_finish_Inr intro!: op)
  also have "\<dots> = Inr (prepend_segments A stb)"
    by (simp add: scan_loop_prepend lb)
  finally show ?thesis
    using fb by (simp add: simple_command_segments_Inr scan_finish_Inr)
qed

lemma end_segment_pushed:
  assumes "current (push_word g st) \<noteq> []"
  shows "end_segment g st = Inr ((push_word g st)\<lparr>
    segments := segments st @ [current (push_word g st)], current := []\<rparr>)"
  using assms by (simp add: end_segment_def Let_def)

lemma fresh_segment:
  assumes "quote st = QNone" and "\<not> escaped st"
  shows "(push_word g st)\<lparr>segments := A, current := []\<rparr> = prepend_segments A scan_start"
  using assms by (simp add: push_word_def prepend_segments_def scan_start_def Let_def)

lemma scan_link_operator:
  assumes "op \<in> set (link_operators g)"
    and st: "quote st = QNone" "\<not> escaped st" "current (push_word g st) \<noteq> []"
  shows "scan_loop g st (ch_space # op @ ch_space # b) =
    scan_loop g (prepend_segments (segments st @ [current (push_word g st)]) scan_start) b"
proof -
  let ?A = "segments st @ [current (push_word g st)]"
  have "scan_loop g st (ch_space # op @ ch_space # b) =
      scan_loop g (push_word g st) (op @ ch_space # b)"
    using st by (simp add: scan_space)
  also have "\<dots> = scan_loop g (prepend_segments ?A scan_start) (ch_space # b)"
    using assms free_chars list_chars
    by (auto simp: link_operators_def scan_simps scan_step_def scan_unquoted_def
        end_segment_pushed fresh_segment split: if_splits)
  also have "\<dots> = scan_loop g (prepend_segments ?A scan_start) b"
    by (simp add: scan_space scan_start_def push_word_idle)
  finally show ?thesis .
qed

lemma segments_link:
  assumes "simple_command_segments a g = Inr A" and "simple_command_segments b g = Inr B"
    and "and_chain_separates g" and "op \<in> set (link_operators g)"
  shows "simple_command_segments (a @ ch_space # op @ ch_space # b) g = Inr (A @ B)"
  using assms(1,2)
proof (rule segments_append_link)
  show "lookahead_neutral (ch_space # op @ ch_space # b)" by (simp add: lookahead_neutral_def)
qed (use assms(3,4) in \<open>simp_all add: scan_link_operator\<close>)

lemma segments_and_chain:
  assumes "simple_command_segments a g = Inr A" and "simple_command_segments b g = Inr B"
    and "and_chain_separates g"
  shows "simple_command_segments (a @ '' && '' @ b) g = Inr (A @ B)"
  using segments_link [OF assms, of "''&&''"] assms(3) by (simp add: link_operators_def)

lemma segments_of_render_chain:
  assumes "segs \<noteq> []" and "\<forall>ws \<in> set segs. ws \<noteq> [] \<and> (\<forall>w \<in> set ws. quotable g w)"
    and "and_chain_separates g"
  shows "simple_command_segments (render_chain segs) g = Inr segs"
  using assms
proof (induction segs)
  case Nil
  then show ?case by simp
next
  case (Cons ws segs)
  show ?case
  proof (cases "segs = []")
    case True
    with Cons.prems show ?thesis by (simp add: render_chain_def segments_of_render_argv)
  next
    case False
    then have "render_chain (ws # segs) = render_argv ws @ '' && '' @ render_chain segs"
      by (simp add: render_chain_def join_Cons)
    moreover have "simple_command_segments (render_argv ws @ '' && '' @ render_chain segs) g
        = Inr ([ws] @ segs)"
      using False Cons by (intro segments_and_chain segments_of_render_argv Cons.IH) auto
    ultimately show ?thesis by simp
  qed
qed

end

interpretation rule_argv: argv_grammar RULE_ARGV
  by unfold_locales (simp_all add: grammar_defs is_ascii_whitespace_def)

interpretation any_meta: argv_grammar ANY_METACHARACTER
  by unfold_locales (simp_all add: grammar_defs is_ascii_whitespace_def)

interpretation static_argv: argv_grammar STATIC_ARGV
  by unfold_locales (simp_all add: grammar_defs is_whitespace_def)

interpretation read_only_argv: argv_grammar READ_ONLY_ARGV
  by unfold_locales (simp_all add: grammar_defs is_ascii_whitespace_def)

interpretation display_argv: argv_grammar DISPLAY_ARGV
  by unfold_locales (simp_all add: grammar_defs is_ascii_whitespace_def)

subsection \<open>Characters a shell would interpret\<close>

text \<open>
  A reading of POSIX quoting that knows nothing of grammars or words: the positions of the
  command where a character is live, each with the quoting it stands in and the text from
  there on. A backslash takes the life of the next character, single quotes of everything
  inside, double quotes of everything but what is listed as \<open>QDouble\<close>; outside quotes
  \<open>&&\<close> and \<open>||\<close> are one token.
\<close>

fun live :: "quote \<Rightarrow> bool \<Rightarrow> string \<Rightarrow> (quote \<times> string) list" where
  "live q e [] = []"
| "live QSingle e (c # cs) = live (if c = ch_squote then QNone else QSingle) e cs"
| "live QDouble e (c # cs) =
     (if e then live QDouble False cs
      else if c = ch_backslash then live QDouble True cs
      else if c = ch_dquote then live QNone False cs
      else (QDouble, c # cs) # live QDouble False cs)"
| "live QNone e (c # cs) =
     (if e then live QNone False cs
      else if c = ch_backslash then live QNone True cs
      else if c = ch_squote then live QSingle False cs
      else if c = ch_dquote then live QDouble False cs
      else (QNone, c # cs) #
        live QNone False (if (c = ch_amp \<or> c = ch_pipe) \<and> peek cs = Some c then tl cs else cs))"

text \<open>What a grammar lets stand live: no substitution anywhere; outside quotes no redirection,
  no line break, no backgrounding, and a list operator only where it starts a new link.\<close>

definition live_allowed :: "grammar \<Rightarrow> quote \<Rightarrow> string \<Rightarrow> bool" where
  "live_allowed g q s \<longleftrightarrow>
     hd s \<noteq> ch_backtick \<and> \<not> prefix [ch_dollar, ch_lparen] s \<and>
     (dollar_is_metacharacter g \<longrightarrow> hd s \<noteq> ch_dollar) \<and>
     (q = QNone \<longrightarrow>
        hd s \<notin> set (unquoted_metacharacters g) \<and> hd s \<notin> {ch_lf, ch_cr, ch_lt, ch_gt} \<and>
        (hd s = ch_semi \<longrightarrow> list_operators_separate g) \<and>
        (hd s = ch_pipe \<longrightarrow> list_operators_separate g \<and> \<not> prefix [ch_pipe, ch_amp] s) \<and>
        (hd s = ch_amp \<longrightarrow> and_chain_separates g \<and> prefix [ch_amp, ch_amp] s))"

lemma prefix_one [simp]: "prefix [b] cs \<longleftrightarrow> peek cs = Some b"
  by (cases cs) auto

lemma end_segment_Inr:
  "end_segment g st = Inr st' \<Longrightarrow> quote st' = quote st \<and> escaped st' = escaped st"
  by (auto simp: end_segment_def Let_def split: if_splits)

lemma scan_double_allowed:
  assumes "scan_double g st ch rest = Inr r" and "\<not> escaped st"
    and "ch \<noteq> ch_backslash" and "ch \<noteq> ch_dquote"
  shows "live_allowed g QDouble (ch # rest)"
  using assms by (auto simp: scan_double_def live_allowed_def split: if_splits)

lemma scan_double_next:
  assumes "scan_double g st ch rest = Inr (st', rest')" and "quote st = QDouble"
  shows "live QDouble (escaped st) (ch # rest) =
    (if escaped st \<or> ch = ch_backslash \<or> ch = ch_dquote then [] else [(QDouble, ch # rest)]) @
    live (quote st') (escaped st') rest'"
  using assms
  by (simp add: scan_double_def split: if_splits double_quote_escape.splits list.splits)
    (clarsimp)+

lemma scan_unquoted_allowed:
  assumes "scan_unquoted g st ch rest = Inr r" and "\<not> escaped st"
    and "ch \<notin> {ch_backslash, ch_squote, ch_dquote}"
  shows "live_allowed g QNone (ch # rest)"
  using assms by (simp add: scan_unquoted_def live_allowed_def split: if_splits) auto

lemma scan_unquoted_next:
  assumes "scan_unquoted g st ch rest = Inr (st', rest')" and "quote st = QNone"
  shows "live QNone (escaped st) (ch # rest) =
    (if escaped st \<or> ch \<in> {ch_backslash, ch_squote, ch_dquote} then [] else [(QNone, ch # rest)]) @
    live (quote st') (escaped st') rest'"
proof (cases "(ch = ch_semi \<or> ch = ch_pipe \<or> ch = ch_amp) \<and> \<not> escaped st")
  case True
  with assms show ?thesis
    by (elim conjE disjE)
      (simp_all add: scan_unquoted_def Let_def split: if_splits sum.splits, auto dest!: end_segment_Inr)
next
  case False
  with assms show ?thesis
    by (simp add: scan_unquoted_def split: if_splits) auto
qed

lemma scan_loop_live:
  assumes "scan_loop g st cs = Inr st'"
  shows "\<forall>(q, s) \<in> set (live (quote st) (escaped st) cs). live_allowed g q s"
  using assms
proof (induction g st cs rule: scan_loop.induct)
  case (1 g st)
  then show ?case by simp
next
  case (2 g st ch rest)
  then obtain st1 rest1 where s: "scan_step g st ch rest = Inr (st1, rest1)"
    and l: "scan_loop g st1 rest1 = Inr st'"
    by (auto simp: scan_simps split: sum.splits)
  note IH = "2.IH" [OF s refl l]
  show ?case
  proof (cases "quote st")
    case QNone
    with s have u: "scan_unquoted g st ch rest = Inr (st1, rest1)"
      by (simp add: scan_step_def split: if_splits)
    show ?thesis
      using IH scan_unquoted_allowed [OF u] unfolding QNone scan_unquoted_next [OF u QNone] by auto
  next
    case QSingle
    with s IH show ?thesis
      by (auto simp: scan_step_def scan_single_def split: if_splits)
  next
    case QDouble
    with s have d: "scan_double g st ch rest = Inr (st1, rest1)"
      by (simp add: scan_step_def split: if_splits)
    show ?thesis
      using IH scan_double_allowed [OF d] unfolding QDouble scan_double_next [OF d QDouble] by auto
  qed
qed

subsection \<open>The shape of the answer\<close>

definition segments_ok :: "grammar \<Rightarrow> scan \<Rightarrow> bool" where
  "segments_ok g st \<longleftrightarrow>
     (\<forall>seg \<in> set (segments st). seg \<noteq> [] \<and> (keep_empty_tokens g \<or> [] \<notin> set seg)) \<and>
     (keep_empty_tokens g \<or> [] \<notin> set (current st)) \<and>
     (segments st \<noteq> [] \<longrightarrow> and_chain_separates g \<or> list_operators_separate g)"

lemma segments_ok_updates [simp]:
  "segments_ok g (st\<lparr>quote := q\<rparr>) = segments_ok g st"
  "segments_ok g (st\<lparr>escaped := e\<rparr>) = segments_ok g st"
  "segments_ok g (st\<lparr>token_started := t\<rparr>) = segments_ok g st"
  "segments_ok g (push_char c st) = segments_ok g st"
  by (simp_all add: segments_ok_def)

lemma segments_ok_push_word [simp]: "segments_ok g st \<Longrightarrow> segments_ok g (push_word g st)"
  by (auto simp: segments_ok_def current_push_word)

lemma segments_ok_end_segment:
  "end_segment g st = Inr st' \<Longrightarrow> segments_ok g st \<Longrightarrow>
   and_chain_separates g \<or> list_operators_separate g \<Longrightarrow> segments_ok g st'"
  using segments_ok_push_word [of g st]
  by (auto simp: end_segment_def Let_def segments_ok_def split: if_splits)

text \<open>What a turn of the loop does to the words: close a segment, push the word in progress, or
  leave both lists alone.\<close>

lemma scan_unquoted_words:
  assumes "scan_unquoted g st ch rest = Inr (st', rest')"
  shows "(end_segment g st = Inr st' \<and> (and_chain_separates g \<or> list_operators_separate g) \<and>
      (rest' = rest \<or> peek rest = Some ch_amp \<and> rest' = tl rest \<or>
        peek rest = Some ch_pipe \<and> rest' = tl rest)) \<or>
    (rest' = rest \<and> (st' = push_word g st \<or>
      segments st' = segments st \<and> current st' = current st))"
proof (cases "escaped st \<or> ch \<noteq> ch_semi \<and> ch \<noteq> ch_pipe \<and> ch \<noteq> ch_amp")
  case True
  with assms show ?thesis
    by (simp add: scan_unquoted_def split: if_splits) auto
next
  case False
  then have "\<not> escaped st" and "ch = ch_semi \<or> ch = ch_pipe \<or> ch = ch_amp" by auto
  with assms show ?thesis
    by (elim disjE) (simp_all add: scan_unquoted_def Let_def split: if_splits sum.splits)
qed

lemma scan_double_words:
  assumes "scan_double g st ch rest = Inr (st', rest')"
  shows "segments st' = segments st \<and> current st' = current st \<and>
    (rest' = rest \<or> (\<exists>c. rest = c # rest' \<and> \<not> newline_stops g c))"
  using assms
  by (simp add: scan_double_def split: if_splits double_quote_escape.splits list.splits) auto

lemma scan_single_words:
  "segments (scan_single st ch) = segments st \<and> current (scan_single st ch) = current st"
  by (simp add: scan_single_def)

lemma segments_ok_step:
  assumes "scan_step g st ch rest = Inr (st', rest')" and "segments_ok g st"
  shows "segments_ok g st'"
proof (cases "quote st")
  case QNone
  with assms(1) have "scan_unquoted g st ch rest = Inr (st', rest')"
    by (simp add: scan_step_def split: if_splits)
  from scan_unquoted_words [OF this] assms(2) show ?thesis
    by (auto intro: segments_ok_end_segment) (simp add: segments_ok_def)
next
  case QSingle
  with assms show ?thesis
    using scan_single_words [of st ch] by (auto simp: scan_step_def segments_ok_def split: if_splits)
next
  case QDouble
  with assms(1) have "scan_double g st ch rest = Inr (st', rest')"
    by (simp add: scan_step_def split: if_splits)
  from scan_double_words [OF this] assms(2) show ?thesis by (simp add: segments_ok_def)
qed

lemma segments_ok_loop: "scan_loop g st cs = Inr st' \<Longrightarrow> segments_ok g st \<Longrightarrow> segments_ok g st'"
proof (induction g st cs rule: scan_loop.induct)
  case (1 g st)
  then show ?case by simp
next
  case (2 g st ch rest)
  then show ?case by (fastforce simp: scan_simps dest: segments_ok_step split: sum.splits)
qed

lemma segments_shape:
  assumes "simple_command_segments s g = Inr segs"
  shows "segs \<noteq> []"
    and "\<not> keep_empty_tokens g \<Longrightarrow> ws \<in> set segs \<Longrightarrow> [] \<notin> set ws"
    and "and_chain_separates g \<Longrightarrow> [] \<notin> set segs"
    and "\<not> and_chain_separates g \<Longrightarrow> \<not> list_operators_separate g \<Longrightarrow> length segs = 1"
proof -
  from assms obtain st where l: "scan_loop g scan_start s = Inr st" and f: "scan_finish g st = Inr segs"
    by (auto simp: simple_command_segments_Inr)
  have "segments_ok g scan_start" by (simp add: segments_ok_def scan_start_def)
  with l have ok: "segments_ok g (push_word g st)"
    using segments_ok_loop segments_ok_push_word by blast
  show "segs \<noteq> []"
    and "\<not> keep_empty_tokens g \<Longrightarrow> ws \<in> set segs \<Longrightarrow> [] \<notin> set ws"
    and "and_chain_separates g \<Longrightarrow> [] \<notin> set segs"
    and "\<not> and_chain_separates g \<Longrightarrow> \<not> list_operators_separate g \<Longrightarrow> length segs = 1"
    using f ok by (auto simp: scan_finish_Inr segments_ok_def)
qed

text \<open>No line break is ever accepted by a grammar that stops at them, quoted or not.\<close>

lemma scan_step_newline:
  assumes "scan_step g st ch rest = Inr (st', rest')"
  shows "\<not> newline_stops g ch \<and> (rest' = rest \<or> (\<exists>c. rest = c # rest' \<and> \<not> newline_stops g c))"
proof (cases "quote st")
  case QNone
  with assms have n: "\<not> newline_stops g ch" and "scan_unquoted g st ch rest = Inr (st', rest')"
    by (simp_all add: scan_step_def split: if_splits)
  moreover have "\<exists>c. rest = c # rest' \<and> \<not> newline_stops g c"
    if "rest' = tl rest" "peek rest = Some c" "c = ch_amp \<or> c = ch_pipe" for c
    using that by (intro exI [of _ c]) (auto dest: peek_Some_ConsD)
  ultimately show ?thesis
    using scan_unquoted_words [of g st ch rest st' rest'] by blast
next
  case QSingle
  with assms show ?thesis by (simp add: scan_step_def split: if_splits)
next
  case QDouble
  with assms have "\<not> newline_stops g ch" and "scan_double g st ch rest = Inr (st', rest')"
    by (simp_all add: scan_step_def split: if_splits)
  then show ?thesis using scan_double_words by blast
qed

lemma scan_loop_newline: "scan_loop g st cs = Inr st' \<Longrightarrow> \<forall>c \<in> set cs. \<not> newline_stops g c"
proof (induction g st cs rule: scan_loop.induct)
  case (1 g st)
  then show ?case by simp
next
  case (2 g st ch rest)
  then obtain st1 rest1 where s: "scan_step g st ch rest = Inr (st1, rest1)"
    and l: "scan_loop g st1 rest1 = Inr st'"
    by (auto simp: scan_simps split: sum.splits)
  from "2.IH" [OF s refl l] scan_step_newline [OF s] show ?case by auto
qed

lemma segments_no_newline:
  assumes "simple_command_segments s g = Inr segs" and "newline_always_ends_the_scan g"
  shows "ch_lf \<notin> set s \<and> ch_cr \<notin> set s"
proof -
  from assms(1) obtain st where "scan_loop g scan_start s = Inr st"
    by (auto simp: simple_command_segments_Inr)
  from scan_loop_newline [OF this] assms(2) show ?thesis
    unfolding newline_stops_def by blast
qed

subsection \<open>Commands without special characters\<close>

text \<open>A character that no branch of the scanner singles out under the grammar.\<close>

definition ordinary :: "grammar \<Rightarrow> char \<Rightarrow> bool" where
  "ordinary g c \<longleftrightarrow>
     c \<notin> set (unquoted_metacharacters g) \<and>
     c \<notin> {ch_backslash, ch_squote, ch_dquote, ch_semi, ch_pipe, ch_lf, ch_cr, ch_lt, ch_gt,
           ch_backtick, ch_dollar, ch_amp}"

lemma scan_step_ordinary:
  assumes "ordinary g c" and "quote st = QNone" and "\<not> escaped st"
  shows "scan_step g st c rest =
    Inr (if word_separator g c then push_word g st else (push_char c st)\<lparr>token_started := True\<rparr>, rest)"
  using assms by (simp add: scan_step_def scan_unquoted_def ordinary_def)

lemma scan_loop_ordinary:
  assumes "\<forall>c \<in> set s. ordinary g c" and "quote st = QNone" and "\<not> escaped st"
    and "segments st = []" and "token_started st = (token st \<noteq> [])"
  shows "\<exists>st'. scan_loop g st s = Inr st' \<and> quote st' = QNone \<and> \<not> escaped st' \<and>
    segments st' = [] \<and>
    current (push_word g st') = current st @ words_by (word_separator g) (token st) s"
  using assms
proof (induction s arbitrary: st)
  case Nil
  then show ?case by (auto simp: current_push_word)
next
  case (Cons c s)
  let ?st = "if word_separator g c then push_word g st else (push_char c st)\<lparr>token_started := True\<rparr>"
  from Cons.prems have step: "scan_loop g st (c # s) = scan_loop g ?st s"
    by (simp add: scan_simps scan_step_ordinary)
  have "\<exists>st'. scan_loop g ?st s = Inr st' \<and> quote st' = QNone \<and> \<not> escaped st' \<and> segments st' = [] \<and>
      current (push_word g st') = current ?st @ words_by (word_separator g) (token ?st) s"
    using Cons.prems by (intro Cons.IH) auto
  then show ?case
    using Cons.prems unfolding step by (auto simp: current_push_word)
qed

lemma segments_ordinary:
  assumes "\<forall>c \<in> set s. ordinary g c"
  shows "simple_command_segments s g =
    (let ws = words_by (word_separator g) [] s
     in if and_chain_separates g \<and> ws = [] then Inl EmptySegment else Inr [ws])"
proof -
  from scan_loop_ordinary [of s g scan_start] assms
  obtain st where "scan_loop g scan_start s = Inr st" "quote st = QNone" "\<not> escaped st"
    "segments st = []" "current (push_word g st) = words_by (word_separator g) [] s"
    by (auto simp: scan_start_def)
  then show ?thesis
    by (simp add: simple_command_segments_def scan_finish_def Let_def)
qed

text \<open>A rendered chain starts and ends with a quote, so \<open>trim\<close> leaves it alone.\<close>

lemma render_argv_delimited:
  "ws \<noteq> [] \<Longrightarrow> render_argv ws \<noteq> [] \<and> hd (render_argv ws) = ch_squote \<and> last (render_argv ws) = ch_squote"
proof (induction ws)
  case Nil
  then show ?case by simp
next
  case (Cons w ws)
  then show ?case
    by (cases "ws = []") (auto simp: render_argv_def quote_word_def join_Cons)
qed

lemma render_chain_delimited:
  assumes "segs \<noteq> []" and "\<forall>ws \<in> set segs. ws \<noteq> []"
  shows "render_chain segs \<noteq> [] \<and> hd (render_chain segs) = ch_squote \<and>
    last (render_chain segs) = ch_squote"
  using assms
proof (induction segs)
  case Nil
  then show ?case by simp
next
  case (Cons ws segs)
  then show ?case
    using render_argv_delimited [of ws]
    by (cases "segs = []") (auto simp: render_chain_def join_Cons)
qed

subsection \<open>Properties\<close>

text \<open>C12. Round trip of quoting: any non-empty list of argvs whose words are non-empty and free of
  single quotes, written with every word in single quotes, blanks between words and \<open>&&\<close>
  between argvs, is read back by \<open>parse_bash_shape\<close> as exactly these argvs, whatever
  metacharacters the words contain.\<close>

theorem parse_bash_shape_render_chain:
  assumes "segs \<noteq> []" and "\<forall>ws \<in> set segs. ws \<noteq> [] \<and> (\<forall>w \<in> set ws. w \<noteq> [] \<and> ch_squote \<notin> set w)"
  shows "parse_bash_shape (render_chain segs) = shape_of_segments segs"
proof -
  have q: "\<forall>ws \<in> set segs. ws \<noteq> [] \<and> (\<forall>w \<in> set ws. quotable RULE_ARGV w)"
    using assms(2) by (auto simp: quotable_def newline_stops_def RULE_ARGV_def)
  have "simple_command_segments (render_chain segs) RULE_ARGV = Inr segs"
    using assms(1) q by (rule rule_argv.segments_of_render_chain) (simp add: RULE_ARGV_def)
  with assms show ?thesis
    by (simp add: parse_bash_shape_def render_chain_delimited trim_id Let_def)
qed

theorem parse_bash_shape_render_chain_witness:
  "parse_bash_shape (render_chain [[''rm'', ''a;b'', ''$(x)''], [''ls'', ''*'']])
     = SafeAndChain [[''rm'', ''a;b'', ''$(x)''], [''ls'', ''*'']]"
  by (subst parse_bash_shape_render_chain) (simp_all add: shape_of_segments_def)

text \<open>Links compose: under a grammar that splits chains, two accepted commands joined by one
  of the grammar's operators between blanks are accepted, and the answer is the links of the
  first followed by the links of the second.\<close>

theorem accepted_links_compose:
  assumes "g \<in> {RULE_ARGV, READ_ONLY_ARGV, DISPLAY_ARGV}" and "op \<in> set (link_operators g)"
    and "simple_command_segments a g = Inr A" and "simple_command_segments b g = Inr B"
  shows "simple_command_segments (a @ ch_space # op @ ch_space # b) g = Inr (A @ B)"
proof -
  have "argv_grammar g" and "and_chain_separates g"
    using assms(1) rule_argv.argv_grammar_axioms read_only_argv.argv_grammar_axioms
      display_argv.argv_grammar_axioms by (auto simp: grammar_defs)
  then show ?thesis using assms(2-4) argv_grammar.segments_link by blast
qed

theorem accepted_links_compose_witness:
  "simple_command_segments (''git log'' @ ch_space # ''|'' @ ch_space # ''wc -l'') READ_ONLY_ARGV
     = Inr ([[''git'', ''log'']] @ [[''wc'', ''-l'']])"
proof (rule accepted_links_compose)
  show "simple_command_segments ''git log'' READ_ONLY_ARGV = Inr [[''git'', ''log'']]"
    and "simple_command_segments ''wc -l'' READ_ONLY_ARGV = Inr [[''wc'', ''-l'']]"
    by code_simp+
qed (simp_all add: link_operators_def grammar_defs)

text \<open>C11. No live metacharacter is accepted: in a command the scanner accepts, wherever POSIX
  quoting leaves a character live, it is one the grammar lets stand. In particular there is no
  backtick and no \<open>$(\<close> anywhere but in single quotes or after a backslash, and outside
  quotes no redirection, line break or single \<open>&\<close>.\<close>

theorem accepted_has_no_live_metacharacter:
  assumes "simple_command_segments s g = Inr segs"
  shows "\<forall>(q, t) \<in> set (live QNone False s). live_allowed g q t"
proof -
  from assms obtain st where "scan_loop g scan_start s = Inr st"
    by (auto simp: simple_command_segments_Inr)
  from scan_loop_live [OF this] show ?thesis by (simp add: scan_start_def)
qed

theorem accepted_has_no_live_metacharacter_witness:
  "list_all (\<lambda>(q, t). live_allowed RULE_ARGV q t) (live QNone False ''echo 'a;`b`' && ls'')"
  unfolding list_all_iff
proof (rule accepted_has_no_live_metacharacter)
  show "simple_command_segments ''echo 'a;`b`' && ls'' RULE_ARGV = Inr [[''echo'', ''a;`b`''], [''ls'']]"
    by code_simp
qed

text \<open>A command without special characters is split the way Rust's \<open>split\<close> on the
  grammar's separators splits it: one argv, the maximal runs of other characters; and a chain
  grammar refuses it exactly when there is no word.\<close>

theorem ordinary_command_is_split:
  assumes "\<forall>c \<in> set s. ordinary g c"
  shows "simple_command_segments s g =
    (if and_chain_separates g \<and> words_by (word_separator g) [] s = [] then Inl EmptySegment
     else Inr [words_by (word_separator g) [] s])"
  using segments_ordinary [OF assms] by (simp add: Let_def)

theorem ordinary_command_is_split_witness:
  "simple_command_segments ''cargo  test -p core'' RULE_ARGV
     = Inr [split_ascii_whitespace ''cargo  test -p core'']"
proof -
  have "\<forall>c \<in> set ''cargo  test -p core''. ordinary RULE_ARGV c"
    by (simp add: ordinary_def RULE_ARGV_def)
  from ordinary_command_is_split [OF this] show ?thesis
    by (simp add: RULE_ARGV_def is_ascii_whitespace_def)
qed

text \<open>The shape of an accepted command: at least one segment; no empty segment when chains
  are split, exactly one segment when no operator is; no empty word unless the grammar keeps
  them; and no line break at all when the grammar stops at line breaks.\<close>

theorem accepted_command_shape:
  assumes "simple_command_segments s g = Inr segs"
  shows "segs \<noteq> [] \<and>
    (and_chain_separates g \<longrightarrow> [] \<notin> set segs) \<and>
    (\<not> and_chain_separates g \<and> \<not> list_operators_separate g \<longrightarrow> length segs = 1) \<and>
    (keep_empty_tokens g \<or> (\<forall>ws \<in> set segs. [] \<notin> set ws)) \<and>
    (newline_always_ends_the_scan g \<longrightarrow> ch_lf \<notin> set s \<and> ch_cr \<notin> set s)"
  using segments_shape [OF assms] segments_no_newline [OF assms] by blast

theorem accepted_command_shape_witness:
  "[[''ls''], [''wc'']] \<noteq> [] \<and> [] \<notin> set [[''ls''], [''wc'']] \<and> ch_lf \<notin> set ''ls | wc''"
proof -
  have "simple_command_segments ''ls | wc'' READ_ONLY_ARGV = Inr [[''ls''], [''wc'']]"
    by code_simp
  from accepted_command_shape [OF this] show ?thesis by (simp add: grammar_defs)
qed

end
