(* ===== verification/PowerShell_Shape.thy ===== *)
theory PowerShell_Shape
  imports Shell_Lexer
begin

text \<open>
  \<open>crates/rebon-shell-policy/src/powershell_shape.rs\<close>: the PowerShell reader the permission
  rules match against, and the alias table that makes \<open>rm\<close> and \<open>Remove-Item\<close> the same
  command.

  The source walks a character vector by index. The model walks the characters from the index
  on, so the index test at the end is the empty list; the two inner loops over quoted text are
  \<open>ps_single\<close> and \<open>ps_double\<close>, which return the word in progress and what follows the
  closing quote.

  The lemmas show that single-quoted words come back unchanged whatever they contain, and that
  comparing names modulo aliases is an equivalence.
\<close>

subsection \<open>The reader\<close>

fun ps_single :: "string \<Rightarrow> string \<Rightarrow> (string \<times> string) option" where
  "ps_single tok [] = None"
| "ps_single tok (c # cs) =
     (if c = ch_squote then
        (case cs of
           [] \<Rightarrow> Some (tok, cs)
         | d # ds \<Rightarrow> if d = ch_squote then ps_single (tok @ [ch_squote]) ds else Some (tok, cs))
      else ps_single (tok @ [c]) cs)"

fun ps_double :: "string \<Rightarrow> string \<Rightarrow> (string \<times> string) option" where
  "ps_double tok [] = None"
| "ps_double tok (c # cs) =
     (if c = ch_backtick then
        (case cs of [] \<Rightarrow> None | d # ds \<Rightarrow> ps_double (tok @ [d]) ds)
      else if c = ch_dquote then
        (case cs of
           [] \<Rightarrow> Some (tok, cs)
         | d # ds \<Rightarrow> if d = ch_dquote then ps_double (tok @ [ch_dquote]) ds else Some (tok, cs))
      else if (c = ch_dollar \<or> c = ch_at) \<and> peek cs = Some ch_lparen then None
      else ps_double (tok @ [c]) cs)"

record ps_scan =
  ps_segments :: "string list list"
  ps_current :: "string list"
  ps_token :: string
  ps_started :: bool

definition ps_start :: ps_scan where
  "ps_start = \<lparr>ps_segments = [], ps_current = [], ps_token = [], ps_started = False\<rparr>"

definition push_token :: "ps_scan \<Rightarrow> ps_scan" where
  "push_token st =
     (if ps_started st
      then st\<lparr>ps_current := ps_current st @ [ps_token st], ps_token := [], ps_started := False\<rparr>
      else st)"

definition push_segment :: "ps_scan \<Rightarrow> ps_scan option" where
  "push_segment st =
     (let st' = push_token st
      in if ps_current st' = [] then None
         else Some (st'\<lparr>ps_segments := ps_segments st' @ [ps_current st'], ps_current := []\<rparr>))"

text \<open>\<open>--%\<close> standing alone as a token.\<close>

definition stop_parsing_here :: "ps_scan \<Rightarrow> char \<Rightarrow> string \<Rightarrow> bool" where
  "stop_parsing_here st ch rest \<longleftrightarrow>
     ch = ch_dash \<and> \<not> ps_started st \<and> prefix [ch_dash, ch_percent] rest \<and>
     (case drop 2 rest of [] \<Rightarrow> True | c # _ \<Rightarrow> is_whitespace c)"

definition ps_step :: "bool \<Rightarrow> ps_scan \<Rightarrow> char \<Rightarrow> string \<Rightarrow> (ps_scan \<times> string) option" where
  "ps_step lists_separate st ch rest =
     (if ch = ch_backtick then
        (case rest of
           [] \<Rightarrow> None
         | esc # rest' \<Rightarrow>
             Some (st\<lparr>ps_token := ps_token st @ [esc], ps_started := True\<rparr>, rest'))
      else if ch = ch_squote then
        map_option (\<lambda>(tok, rest'). (st\<lparr>ps_token := tok, ps_started := True\<rparr>, rest'))
          (ps_single (ps_token st) rest)
      else if ch = ch_dquote then
        map_option (\<lambda>(tok, rest'). (st\<lparr>ps_token := tok, ps_started := True\<rparr>, rest'))
          (ps_double (ps_token st) rest)
      else if (ch = ch_semi \<or> ch = ch_pipe) \<and> lists_separate then
        map_option (\<lambda>st'. (st', if ch = ch_pipe \<and> peek rest = Some ch_pipe then tl rest else rest))
          (push_segment st)
      else if ch \<in> {ch_lf, ch_cr, ch_semi, ch_pipe, ch_lbrace, ch_rbrace, ch_lparen, ch_rparen,
                    ch_lt, ch_gt} then None
      else if (ch = ch_dollar \<or> ch = ch_at) \<and> peek rest = Some ch_lparen then None
      else if ch = ch_at \<and> (peek rest = Some ch_squote \<or> peek rest = Some ch_dquote) then None
      else if ch = ch_amp then
        (if peek rest = Some ch_amp then map_option (\<lambda>st'. (st', tl rest)) (push_segment st)
         else None)
      else if is_whitespace ch then Some (push_token st, rest)
      else if stop_parsing_here st ch rest then None
      else Some (st\<lparr>ps_token := ps_token st @ [ch], ps_started := True\<rparr>, rest))"

lemma ps_single_length: "ps_single tok cs = Some (tok', rest) \<Longrightarrow> length rest < length cs"
  by (induction tok cs rule: ps_single.induct) (auto split: if_splits list.splits)

lemma ps_double_length: "ps_double tok cs = Some (tok', rest) \<Longrightarrow> length rest < length cs"
  by (induction tok cs rule: ps_double.induct) (auto split: if_splits list.splits)

lemma ps_step_length:
  "ps_step ls st ch rest = Some (st', rest') \<Longrightarrow> length rest' \<le> length rest"
  by (auto simp: ps_step_def dest: ps_single_length ps_double_length
      split: if_splits list.splits)

function ps_loop :: "bool \<Rightarrow> ps_scan \<Rightarrow> string \<Rightarrow> ps_scan option" where
  "ps_loop ls st [] = Some st"
| "ps_loop ls st (ch # rest) =
     (case ps_step ls st ch rest of
        None \<Rightarrow> None
      | Some (st', rest') \<Rightarrow> ps_loop ls st' rest')"
  by pat_completeness auto
termination
  by (relation "measure (\<lambda>(ls, st, cs). length cs)") (auto dest: ps_step_length simp: less_Suc_eq_le)

declare ps_loop.simps(2) [simp del, scan_simps]

definition powershell_segments :: "string \<Rightarrow> bool \<Rightarrow> string list list option" where
  "powershell_segments command lists_separate =
     (let command = trim command
      in if command = [] then None
         else case ps_loop lists_separate ps_start command of
           None \<Rightarrow> None
         | Some st \<Rightarrow> map_option ps_segments (push_segment st))"

definition parse_powershell_shape :: "string \<Rightarrow> bash_shape" where
  "parse_powershell_shape command =
     (case powershell_segments command False of
        None \<Rightarrow> UnsafeComplex
      | Some segs \<Rightarrow> shape_of_segments segs)"

subsection \<open>Aliases\<close>

definition BUILT_IN_ALIASES :: "(string \<times> string) list" where
  "BUILT_IN_ALIASES = [
    (''cat'', ''Get-Content''), (''cd'', ''Set-Location''), (''chdir'', ''Set-Location''),
    (''copy'', ''Copy-Item''), (''cp'', ''Copy-Item''), (''cpi'', ''Copy-Item''),
    (''del'', ''Remove-Item''), (''dir'', ''Get-ChildItem''), (''erase'', ''Remove-Item''),
    (''gc'', ''Get-Content''), (''gci'', ''Get-ChildItem''), (''gcm'', ''Get-Command''),
    (''gi'', ''Get-Item''), (''gm'', ''Get-Member''), (''gp'', ''Get-ItemProperty''),
    (''gps'', ''Get-Process''), (''group'', ''Group-Object''), (''iex'', ''Invoke-Expression''),
    (''ii'', ''Invoke-Item''), (''iwr'', ''Invoke-WebRequest''), (''kill'', ''Stop-Process''),
    (''ls'', ''Get-ChildItem''), (''mi'', ''Move-Item''), (''mount'', ''New-PSDrive''),
    (''move'', ''Move-Item''), (''mv'', ''Move-Item''), (''ni'', ''New-Item''),
    (''ps'', ''Get-Process''), (''pwd'', ''Get-Location''), (''rd'', ''Remove-Item''),
    (''rdr'', ''Remove-PSDrive''), (''ren'', ''Rename-Item''), (''ri'', ''Remove-Item''),
    (''rm'', ''Remove-Item''), (''rmdir'', ''Remove-Item''), (''rni'', ''Rename-Item''),
    (''rp'', ''Remove-ItemProperty''), (''sal'', ''Set-Alias''), (''saps'', ''Start-Process''),
    (''sc'', ''Set-Content''), (''select'', ''Select-Object''), (''si'', ''Set-Item''),
    (''sl'', ''Set-Location''), (''sls'', ''Select-String''), (''sp'', ''Set-ItemProperty''),
    (''spps'', ''Stop-Process''), (''spsv'', ''Stop-Service''), (''start'', ''Start-Process''),
    (''sv'', ''Set-Variable''), (''where'', ''Where-Object''), (''wget'', ''Invoke-WebRequest''),
    (''write'', ''Write-Output'')]"

definition canonical_cmdlet :: "string \<Rightarrow> string" where
  "canonical_cmdlet name =
     (if ch_backslash \<in> set name \<or> ch_slash \<in> set name \<or> ch_dot \<in> set name then name
      else case find (\<lambda>(alias, _). eq_ignore_ascii_case alias name) BUILT_IN_ALIASES of
        Some (_, cmdlet) \<Rightarrow> cmdlet
      | None \<Rightarrow> name)"

definition cmdlet_names_match :: "string \<Rightarrow> string \<Rightarrow> bool" where
  "cmdlet_names_match rule_token command_token \<longleftrightarrow>
     eq_ignore_ascii_case rule_token command_token \<or>
     eq_ignore_ascii_case (canonical_cmdlet rule_token) (canonical_cmdlet command_token)"

subsection \<open>Quoted words\<close>

text \<open>A word in single quotes, each quote inside it doubled.\<close>

fun double_quotes :: "string \<Rightarrow> string" where
  "double_quotes [] = []"
| "double_quotes (c # cs) =
     (if c = ch_squote then ch_squote # ch_squote # double_quotes cs else c # double_quotes cs)"

definition ps_quote_word :: "string \<Rightarrow> string" where
  "ps_quote_word w = ch_squote # double_quotes w @ [ch_squote]"

definition ps_render_argv :: "string list \<Rightarrow> string" where
  "ps_render_argv ws = join [ch_space] (map ps_quote_word ws)"

definition ps_render_chain :: "string list list \<Rightarrow> string" where
  "ps_render_chain segs = join '' && '' (map ps_render_argv segs)"

lemma ps_single_quoted:
  "peek rest \<noteq> Some ch_squote \<Longrightarrow> ps_single tok (double_quotes w @ ch_squote # rest) = Some (tok @ w, rest)"
  by (induction w arbitrary: tok) (auto simp: peek_def split: list.splits)

definition ps_at_word_start :: "ps_scan \<Rightarrow> bool" where
  "ps_at_word_start st \<longleftrightarrow> ps_token st = [] \<and> \<not> ps_started st"

lemma ps_loop_quoted_word:
  assumes "ps_at_word_start st" and "peek rest \<noteq> Some ch_squote"
  shows "ps_loop ls st (ps_quote_word w @ rest) =
    ps_loop ls (st\<lparr>ps_token := w, ps_started := True\<rparr>) rest"
  using assms by (simp add: ps_quote_word_def scan_simps ps_step_def ps_single_quoted ps_at_word_start_def)

lemma ps_loop_space: "ps_loop ls st (ch_space # rest) = ps_loop ls (push_token st) rest"
  by (simp add: scan_simps ps_step_def is_whitespace_def)

lemma ps_loop_render_argv:
  assumes "ws \<noteq> []" and "ps_at_word_start st" and "peek rest \<noteq> Some ch_squote"
  shows "ps_loop ls st (ps_render_argv ws @ rest) =
    ps_loop ls (st\<lparr>ps_current := ps_current st @ butlast ws, ps_token := last ws, ps_started := True\<rparr>) rest"
  using assms
proof (induction ws arbitrary: st)
  case Nil
  then show ?case by simp
next
  case (Cons w ws)
  show ?case
  proof (cases "ws = []")
    case True
    with Cons.prems show ?thesis by (simp add: ps_render_argv_def ps_loop_quoted_word)
  next
    case False
    let ?st = "st\<lparr>ps_current := ps_current st @ [w]\<rparr>"
    from False have eq: "ps_render_argv (w # ws) @ rest = ps_quote_word w @ ch_space # ps_render_argv ws @ rest"
      by (simp add: ps_render_argv_def join_Cons)
    have "push_token (st\<lparr>ps_token := w, ps_started := True\<rparr>) = ?st"
      using Cons.prems(2) by (simp add: push_token_def ps_at_word_start_def)
    then have "ps_loop ls st (ps_render_argv (w # ws) @ rest) = ps_loop ls ?st (ps_render_argv ws @ rest)"
      using Cons.prems unfolding eq by (simp add: ps_loop_quoted_word ps_loop_space)
    with False Cons show ?thesis by (simp add: ps_at_word_start_def)
  qed
qed

text \<open>The rest of a chain after one argv, and the whole chain.\<close>

lemma push_segment_argv:
  assumes "ws \<noteq> []" and "ps_at_word_start st" and "ps_current st = []"
  shows "push_segment (st\<lparr>ps_current := butlast ws, ps_token := last ws, ps_started := True\<rparr>) =
    Some (st\<lparr>ps_segments := ps_segments st @ [ws]\<rparr>)"
  using assms by (simp add: push_segment_def push_token_def ps_at_word_start_def)

lemma ps_loop_chain_operator:
  "ps_loop ls st ('' && '' @ rest) =
    (case push_segment (push_token st) of
       None \<Rightarrow> None
     | Some st' \<Rightarrow> ps_loop ls (push_token st') rest)"
  by (simp add: ps_loop_space) (simp add: scan_simps ps_step_def ps_loop_space is_whitespace_def split: option.split)

lemma push_token_idem [simp]: "push_token (push_token st) = push_token st"
  by (simp add: push_token_def)

lemma push_segment_push_token [simp]: "push_segment (push_token st) = push_segment st"
  by (simp add: push_segment_def)

lemma ps_loop_render_chain:
  assumes "segs \<noteq> []" and "[] \<notin> set segs" and "ps_at_word_start st" and "ps_current st = []"
  shows "Option.bind (ps_loop ls st (ps_render_chain segs)) push_segment =
    Some (st\<lparr>ps_segments := ps_segments st @ segs\<rparr>)"
  using assms
proof (induction segs arbitrary: st)
  case Nil
  then show ?case by simp
next
  case (Cons ws segs)
  from Cons.prems have "ws \<noteq> []" by auto
  show ?case
  proof (cases "segs = []")
    case True
    with Cons.prems ps_loop_render_argv [of ws st "[]" ls] show ?thesis
      by (simp add: ps_render_chain_def push_segment_argv)
  next
    case False
    let ?st = "st\<lparr>ps_segments := ps_segments st @ [ws]\<rparr>"
    from False have eq: "ps_render_chain (ws # segs) = ps_render_argv ws @ '' && '' @ ps_render_chain segs"
      by (simp add: ps_render_chain_def join_Cons)
    have "push_token ?st = ?st"
      using Cons.prems(3) by (simp add: push_token_def ps_at_word_start_def)
    then have "ps_loop ls st (ps_render_chain (ws # segs)) = ps_loop ls ?st (ps_render_chain segs)"
      using Cons.prems \<open>ws \<noteq> []\<close> unfolding eq
      by (simp add: ps_loop_render_argv ps_loop_chain_operator [simplified] push_segment_argv)
    then show ?thesis
      using False Cons by (simp add: ps_at_word_start_def)
  qed
qed

lemma ps_render_argv_delimited:
  "ws \<noteq> [] \<Longrightarrow> ps_render_argv ws \<noteq> [] \<and> hd (ps_render_argv ws) = ch_squote \<and>
    last (ps_render_argv ws) = ch_squote"
proof (induction ws)
  case Nil
  then show ?case by simp
next
  case (Cons w ws)
  then show ?case
    by (cases "ws = []") (auto simp: ps_render_argv_def ps_quote_word_def join_Cons)
qed

lemma ps_render_chain_delimited:
  assumes "segs \<noteq> []" and "[] \<notin> set segs"
  shows "ps_render_chain segs \<noteq> [] \<and> hd (ps_render_chain segs) = ch_squote \<and>
    last (ps_render_chain segs) = ch_squote"
  using assms
proof (induction segs)
  case Nil
  then show ?case by simp
next
  case (Cons ws segs)
  then show ?case
    using ps_render_argv_delimited [of ws]
    by (cases "segs = []") (auto simp: ps_render_chain_def join_Cons)
qed

lemma powershell_segments_render_chain:
  assumes "segs \<noteq> []" and "[] \<notin> set segs"
  shows "powershell_segments (ps_render_chain segs) ls = Some segs"
proof -
  have "trim (ps_render_chain segs) = ps_render_chain segs"
    using ps_render_chain_delimited [OF assms] by (simp add: trim_id)
  with ps_loop_render_chain [OF assms, of ps_start ls] ps_render_chain_delimited [OF assms] assms(1)
  show ?thesis
    by (simp add: powershell_segments_def ps_at_word_start_def ps_start_def Let_def
        split: option.splits bind_splits)
qed

subsection \<open>Names modulo aliases\<close>

lemma eq_ignore_ascii_case_contains:
  assumes "eq_ignore_ascii_case a b" and "d \<in> {ch_backslash, ch_slash, ch_dot}"
  shows "d \<in> set a \<longleftrightarrow> d \<in> set b"
proof -
  have "\<not> (97 \<le> code d \<and> code d \<le> 122)" and "\<not> (65 \<le> code d \<and> code d \<le> 90)"
    using assms(2) by (auto simp: code_def)
  then show ?thesis
    using assms(1) in_set_lower by (metis eq_ignore_ascii_case_def)
qed

lemma canonical_cmdlet_cong:
  assumes "eq_ignore_ascii_case a b"
  shows "eq_ignore_ascii_case (canonical_cmdlet a) (canonical_cmdlet b)"
proof -
  have "eq_ignore_ascii_case c a = eq_ignore_ascii_case c b" for c
    using assms by (simp add: eq_ignore_ascii_case_def)
  then show ?thesis
    using assms eq_ignore_ascii_case_contains [OF assms]
    by (auto simp: canonical_cmdlet_def simp del: BUILT_IN_ALIASES_def split: option.split)
qed

lemma cmdlet_names_match_iff:
  "cmdlet_names_match a b \<longleftrightarrow> lower (canonical_cmdlet a) = lower (canonical_cmdlet b)"
  using canonical_cmdlet_cong unfolding cmdlet_names_match_def eq_ignore_ascii_case_def by blast

subsection \<open>Properties\<close>

text \<open>Round trip of PowerShell quoting: any non-empty list of non-empty argvs, every word in
  single quotes with its own quotes doubled, is read back by \<open>parse_powershell_shape\<close> as
  exactly these argvs; the words may be empty and may hold any character.\<close>

theorem parse_powershell_shape_render_chain:
  assumes "segs \<noteq> []" and "[] \<notin> set segs"
  shows "parse_powershell_shape (ps_render_chain segs) = shape_of_segments segs"
  using powershell_segments_render_chain [OF assms] by (simp add: parse_powershell_shape_def)

theorem parse_powershell_shape_render_chain_witness:
  "parse_powershell_shape (ps_render_chain [[''rm'', [ch_squote], ''$(x)''], [''ls'', []]])
     = SafeAndChain [[''rm'', [ch_squote], ''$(x)''], [''ls'', []]]"
  by (subst parse_powershell_shape_render_chain) (simp_all add: shape_of_segments_def)

text \<open>Comparing command names modulo case and aliases is an equivalence relation: a rule
  written for a cmdlet matches every alias of it and every alias of an alias, in both
  directions, and no name matches two different cmdlets.\<close>

theorem cmdlet_names_match_equivp: "equivp cmdlet_names_match"
  by (rule equivpI)
    (auto simp: reflp_def symp_def transp_def cmdlet_names_match_iff)

end
