(* ===== verification/Json_Value.thy ===== *)
theory Json_Value
  imports Rust_Prelude
begin

text \<open>
  \<open>serde_json::Value\<close> as the modelled code uses it: built, looked into by key, and
  updated by key. An object is an association list with the first entry of a key deciding;
  \<open>json_insert\<close> keeps the keys distinct, as the map of the library does. No modelled code
  looks inside a number, so a number is an integer.
\<close>

datatype json =
    JNull
  | JBool bool
  | JNumber int
  | JString string
  | JArray "json list"
  | JObject "(string \<times> json) list"

text \<open>\<open>Value::get\<close> with a string key, \<open>Value::as_str\<close>, \<open>Value::as_array\<close>.\<close>

definition json_get :: "string \<Rightarrow> json \<Rightarrow> json option" where
  "json_get k v = (case v of JObject kvs \<Rightarrow> map_of kvs k | _ \<Rightarrow> None)"

definition as_str :: "json \<Rightarrow> string option" where
  "as_str v = (case v of JString s \<Rightarrow> Some s | _ \<Rightarrow> None)"

definition as_array :: "json \<Rightarrow> json list option" where
  "as_array v = (case v of JArray vs \<Rightarrow> Some vs | _ \<Rightarrow> None)"

definition is_object :: "json \<Rightarrow> bool" where
  "is_object v = (case v of JObject _ \<Rightarrow> True | _ \<Rightarrow> False)"

text \<open>\<open>input.get(key).and_then(Value::as_str)\<close>.\<close>

definition get_str :: "string \<Rightarrow> json \<Rightarrow> string option" where
  "get_str k v = Option.bind (json_get k v) as_str"

text \<open>\<open>Map::insert\<close> through \<open>as_object_mut\<close>: replaces the entry of the key or adds one;
  a value that is not an object is left alone.\<close>

fun insert_entry :: "string \<Rightarrow> json \<Rightarrow> (string \<times> json) list \<Rightarrow> (string \<times> json) list" where
  "insert_entry k v [] = [(k, v)]"
| "insert_entry k v ((k', v') # kvs) =
     (if k = k' then (k, v) # kvs else (k', v') # insert_entry k v kvs)"

definition json_insert :: "string \<Rightarrow> json \<Rightarrow> json \<Rightarrow> json" where
  "json_insert k v j = (case j of JObject kvs \<Rightarrow> JObject (insert_entry k v kvs) | _ \<Rightarrow> j)"

lemma map_of_insert_entry [simp]: "map_of (insert_entry k v kvs) = (map_of kvs)(k \<mapsto> v)"
  by (induction k v kvs rule: insert_entry.induct) (auto simp: fun_eq_iff)

lemma json_get_insert:
  "is_object j \<Longrightarrow> json_get k (json_insert k' v j) = (if k = k' then Some v else json_get k j)"
  by (auto simp: is_object_def json_get_def json_insert_def split: json.splits)

lemma get_str_insert:
  "is_object j \<Longrightarrow> get_str k (json_insert k' (JString s) j) = (if k = k' then Some s else get_str k j)"
  by (simp add: get_str_def json_get_insert as_str_def)

lemma get_str_object: "get_str k j = Some s \<Longrightarrow> is_object j"
  by (auto simp: get_str_def json_get_def is_object_def bind_eq_Some_conv split: json.splits)

lemma get_str_simps [simp]:
  "get_str k (JObject ((k', v) # kvs)) =
     (if k = k' then as_str v else get_str k (JObject kvs))"
  "get_str k (JObject []) = None"
  "as_str (JString s) = Some s"
  by (simp_all add: get_str_def json_get_def as_str_def)

text \<open>\<open>Value::as_object\<close>, \<open>Value::as_bool\<close>, \<open>Value::is_null\<close>, and indexing by a
  key, which reads a missing entry as \<open>null\<close>.\<close>

definition as_object :: "json \<Rightarrow> (string \<times> json) list option" where
  "as_object v = (case v of JObject kvs \<Rightarrow> Some kvs | _ \<Rightarrow> None)"

definition as_bool :: "json \<Rightarrow> bool option" where
  "as_bool v = (case v of JBool b \<Rightarrow> Some b | _ \<Rightarrow> None)"

definition is_null :: "json \<Rightarrow> bool" where
  "is_null v = (case v of JNull \<Rightarrow> True | _ \<Rightarrow> False)"

definition json_index :: "json \<Rightarrow> string \<Rightarrow> json" where
  "json_index v k = (case json_get k v of Some w \<Rightarrow> w | None \<Rightarrow> JNull)"

lemma as_object_simps [simp]:
  "as_object (JObject kvs) = Some kvs"
  "as_object v = Some kvs \<longleftrightarrow> v = JObject kvs"
  by (auto simp: as_object_def split: json.splits)

lemma as_str_Some: "as_str v = Some s \<longleftrightarrow> v = JString s"
  by (auto simp: as_str_def split: json.splits)

lemma as_array_Some: "as_array v = Some vs \<longleftrightarrow> v = JArray vs"
  by (auto simp: as_array_def split: json.splits)

lemma is_null_iff [simp]: "is_null v \<longleftrightarrow> v = JNull"
  by (cases v) (simp_all add: is_null_def)

end
