(* ===== verification/Read_Only.thy ===== *)
theory Read_Only
  imports Shell_Quoting PowerShell_Shape Json_Value
begin

text \<open>
  \<open>crates/rebon-shell-policy/src/read_only.rs\<close>: the allowlist of shell commands that run
  without a prompt in every mode, and the two predicates of \<open>lib.rs\<close> it calls
  (\<open>shell_command_input\<close>, \<open>is_session_credential_access_command\<close>).

  The groups of lemmas show that the judgment is a conjunction over the links of a command,
  that it accepts only inert commands whose programs are on the list, and that the search for
  PowerShell drives finds every occurrence.
\<close>

subsection \<open>Predicates of the crate root\<close>

definition shell_command_input :: "string \<Rightarrow> json \<Rightarrow> string option" where
  "shell_command_input tool_name input =
     (if tool_name \<notin> {''Bash'', ''BashTool'', ''PowerShell'', ''PowerShellTool''} then None
      else get_str ''command'' input)"

definition names_session_credentials :: "string \<Rightarrow> bool" where
  "names_session_credentials command =
     (let command = lower command
      in if sublist ''.owner.json'' command \<or> sublist ''.agent-token'' command then True
         else sublist ''state.json'' command \<and>
           (sublist ''.rebon'' command \<or> sublist ''jobs/'' command \<or>
            sublist (''jobs'' @ [ch_backslash]) command \<or>
            sublist ''rebon_config_dir'' command \<or> sublist ''rebon-config-dir'' command))"

definition is_session_credential_access_command :: "string \<Rightarrow> json \<Rightarrow> bool" where
  "is_session_credential_access_command tool_name input =
     (case shell_command_input tool_name input of
        None \<Rightarrow> False
      | Some command \<Rightarrow> names_session_credentials command)"

subsection \<open>The arguments of one program\<close>

definition find_args_only_read :: "string list \<Rightarrow> bool" where
  "find_args_only_read args \<longleftrightarrow>
     \<not> (\<exists>arg \<in> set args. arg \<in> set
          [''-exec'', ''-execdir'', ''-ok'', ''-okdir'', ''-delete'', ''-fprint'', ''-fprint0'',
           ''-fprintf'', ''-fls''])"

definition rg_args_only_read :: "string list \<Rightarrow> bool" where
  "rg_args_only_read args \<longleftrightarrow>
     \<not> (\<exists>arg \<in> set args. prefix ''--pre'' arg \<or> prefix ''--hostname-bin'' arg)"

definition sort_args_only_read :: "string list \<Rightarrow> bool" where
  "sort_args_only_read args \<longleftrightarrow>
     \<not> (\<exists>arg \<in> set args. prefix ''--output'' arg \<or> prefix ''--compress-program'' arg \<or>
          (prefix [ch_dash] arg \<and> \<not> prefix ''--'' arg \<and> CHR ''o'' \<in> set arg))"

text \<open>The loop that passes over git's global options.\<close>

fun git_subcommand_line :: "string list \<Rightarrow> string list" where
  "git_subcommand_line [] = []"
| "git_subcommand_line [flag] =
     (if flag = ''--no-pager'' \<or> flag = ''-P'' then [] else [flag])"
| "git_subcommand_line (flag # dir # tail) =
     (if flag = ''-C'' then git_subcommand_line tail
      else if flag = ''--no-pager'' \<or> flag = ''-P'' then git_subcommand_line (dir # tail)
      else flag # dir # tail)"

definition git_inspecting_subcommands :: "string list" where
  "git_inspecting_subcommands =
     [''status'', ''log'', ''show'', ''diff'', ''blame'', ''shortlog'', ''describe'', ''rev-parse'',
      ''rev-list'', ''ls-files'', ''ls-tree'', ''cat-file'', ''merge-base'', ''show-ref'',
      ''name-rev'', ''grep'', ''whatchanged'', ''count-objects'', ''version'']"

definition git_launching_option :: "string \<Rightarrow> string \<Rightarrow> bool" where
  "git_launching_option subcommand arg \<longleftrightarrow>
     prefix ''--output'' arg \<or> prefix ''--ext-diff'' arg \<or> prefix ''--open-files-in-pager'' arg \<or>
     (subcommand = ''grep'' \<and> prefix ''-O'' arg)"

definition git_args_only_read :: "string list \<Rightarrow> bool" where
  "git_args_only_read args =
     (case git_subcommand_line args of
        [] \<Rightarrow> False
      | subcommand # sub_args \<Rightarrow>
          (let first = (case sub_args of [] \<Rightarrow> None | a # _ \<Rightarrow> Some a)
           in if \<exists>arg \<in> set sub_args. git_launching_option subcommand arg then False
              else if subcommand \<in> set git_inspecting_subcommands then True
              else if subcommand = ''branch'' then
                (\<forall>arg \<in> set sub_args. arg \<in> set
                   [''-a'', ''-r'', ''-v'', ''-vv'', ''--all'', ''--remotes'', ''--show-current'', ''--list''])
              else if subcommand = ''tag'' then
                first = None \<or> first = Some ''-l'' \<or> first = Some ''--list''
              else if subcommand = ''remote'' then
                (\<forall>arg \<in> set sub_args. arg = ''-v'' \<or> arg = ''--verbose'')
              else if subcommand = ''stash'' \<or> subcommand = ''worktree'' then
                first = Some ''list'' \<or> (subcommand = ''stash'' \<and> first = Some ''show'')
              else if subcommand = ''reflog'' then
                \<not> (first = Some ''expire'' \<or> first = Some ''delete'')
              else if subcommand = ''config'' then
                (\<exists>arg \<in> set sub_args. arg \<in> set
                   [''--get'', ''--get-all'', ''--get-regexp'', ''--list'', ''-l'']) \<and>
                \<not> (\<exists>arg \<in> set sub_args. arg \<in> set
                   [''--add'', ''--unset'', ''--unset-all'', ''--replace-all'', ''--rename-section'',
                    ''--remove-section'', ''-e'', ''--edit''])
              else False))"

definition cargo_args_only_read :: "string list \<Rightarrow> bool" where
  "cargo_args_only_read args =
     (case args of
        [] \<Rightarrow> False
      | first # _ \<Rightarrow>
          if first = ''--version'' \<or> first = ''-V'' \<or> first = ''version'' then length args = 1
          else if first = ''metadata'' then ''--no-deps'' \<in> set args
          else False)"

subsection \<open>One argv\<close>

definition reading_programs :: "string list" where
  "reading_programs =
     [''cat'', ''head'', ''tail'', ''wc'', ''ls'', ''pwd'', ''echo'', ''grep'', ''egrep'', ''fgrep'',
      ''stat'', ''du'', ''df'', ''which'', ''whoami'', ''uname'', ''basename'', ''dirname'',
      ''realpath'', ''readlink'', ''diff'', ''cmp'', ''cut'', ''tr'', ''nl'', ''true'', ''false'']"

definition argv_only_reads :: "string list \<Rightarrow> bool" where
  "argv_only_reads argv =
     (case argv of
        [] \<Rightarrow> False
      | program # args \<Rightarrow>
          if \<exists>arg \<in> set args. arg = ''/proc'' \<or> prefix ''/proc/'' arg then False
          else if program \<in> set reading_programs then True
          else if program = ''find'' then find_args_only_read args
          else if program = ''rg'' then rg_args_only_read args
          else if program = ''sort'' then sort_args_only_read args
          else if program = ''uniq'' then (\<forall>arg \<in> set args. prefix [ch_dash] arg)
          else if program = ''git'' then git_args_only_read args
          else if program = ''cargo'' then cargo_args_only_read args
          else False)"

subsection \<open>One PowerShell argv\<close>

definition READ_ONLY_CMDLETS :: "string list" where
  "READ_ONLY_CMDLETS =
     [''Get-ChildItem'', ''Get-Content'', ''Select-String'', ''Get-Location'', ''Get-Item'',
      ''Get-ItemProperty'', ''Test-Path'', ''Resolve-Path'', ''Split-Path'', ''Join-Path'',
      ''Measure-Object'', ''Select-Object'', ''Sort-Object'', ''Format-Table'', ''Format-List'',
      ''Out-String'', ''Write-Output'', ''Get-Command'', ''Get-FileHash'']"

definition NON_FILESYSTEM_DRIVES :: "string list" where
  "NON_FILESYSTEM_DRIVES =
     [''env'', ''variable'', ''function'', ''alias'', ''cert'', ''hklm'', ''hkcu'', ''wsman'']"

definition names_a_non_filesystem_provider :: "string \<Rightarrow> bool" where
  "names_a_non_filesystem_provider word =
     (if sublist ''::'' word then True
      else (let word = lower word
            in \<exists>drive \<in> set NON_FILESYSTEM_DRIVES.
                 (let needle = drive @ [ch_colon]
                  in \<exists>at \<in> set (match_indices needle word).
                       (case rev (take at word) of
                          [] \<Rightarrow> True
                        | previous # _ \<Rightarrow> \<not> (is_ascii_alphanumeric previous \<or> previous = ch_underscore)))))"

definition native_program_only_reads :: "string list \<Rightarrow> bool" where
  "native_program_only_reads argv \<longleftrightarrow>
     hd argv \<in> {''git'', ''rg'', ''cargo''} \<and> argv_only_reads argv"

definition powershell_argv_only_reads :: "string list \<Rightarrow> bool" where
  "powershell_argv_only_reads argv =
     (case argv of
        [] \<Rightarrow> False
      | name # _ \<Rightarrow>
          if \<exists>word \<in> set argv. names_a_non_filesystem_provider word then False
          else (let cmdlet = canonical_cmdlet name
                in if \<exists>allowed \<in> set READ_ONLY_CMDLETS. eq_ignore_ascii_case allowed cmdlet then True
                   else if \<not> eq_ignore_ascii_case cmdlet name then False
                   else (let expands = (\<exists>word \<in> set argv. ch_dollar \<in> set word \<or> prefix [ch_at] word)
                         in \<not> expands \<and> native_program_only_reads argv)))"

subsection \<open>The whole command\<close>

definition is_read_only_shell_command :: "string \<Rightarrow> json \<Rightarrow> bool" where
  "is_read_only_shell_command tool_name input =
     (case get_str ''command'' input of
        None \<Rightarrow> False
      | Some command \<Rightarrow>
          if is_session_credential_access_command tool_name input then False
          else if tool_name = ''Bash'' \<or> tool_name = ''BashTool'' then
            (case simple_command_segments (trim command) READ_ONLY_ARGV of
               Inl _ \<Rightarrow> False
             | Inr segs \<Rightarrow> list_all argv_only_reads segs)
          else if tool_name = ''PowerShell'' \<or> tool_name = ''PowerShellTool'' then
            (case powershell_segments command True of
               None \<Rightarrow> False
             | Some segs \<Rightarrow> list_all powershell_argv_only_reads segs)
          else False)"

subsection \<open>Facts about the parts\<close>

lemma names_session_credentials_mono:
  assumes "sublist s t" and "names_session_credentials s"
  shows "names_session_credentials t"
proof -
  from assms(1) obtain p q where "t = p @ s @ q" by (auto simp: sublist_def)
  then have "sublist (lower s) (lower t)" unfolding sublist_def
    by (intro exI [of _ "lower p"] exI [of _ "lower q"]) simp
  then have "sublist x (lower s) \<Longrightarrow> sublist x (lower t)" for x
    using sublist_order.order.trans by blast
  with assms(2) show ?thesis unfolding names_session_credentials_def Let_def by meson
qed

lemma git_global_options_skip:
  "git_subcommand_line (''-C'' # dir # args) = git_subcommand_line args"
  "git_subcommand_line (''--no-pager'' # args) = git_subcommand_line args"
  "git_subcommand_line (''-P'' # args) = git_subcommand_line args"
  by (cases args; simp)+

text \<open>The global options git's own command line may start with here.\<close>

inductive git_globals :: "string list \<Rightarrow> bool" where
  none: "git_globals []"
| directory: "git_globals opts \<Longrightarrow> git_globals (''-C'' # dir # opts)"
| pager: "git_globals opts \<Longrightarrow> flag = ''--no-pager'' \<or> flag = ''-P'' \<Longrightarrow> git_globals (flag # opts)"

code_pred git_globals .

lemma git_subcommand_line_globals:
  "git_globals opts \<Longrightarrow> git_subcommand_line (opts @ args) = git_subcommand_line args"
  by (induction rule: git_globals.induct) (auto simp: git_global_options_skip simp del: git_subcommand_line.simps)


text \<open>A word that names a PowerShell drive outside the file system: a drive and a colon, not
  preceded by a letter, a digit or an underscore, in any case.\<close>

definition mentions_drive :: "string \<Rightarrow> string \<Rightarrow> bool" where
  "mentions_drive drive word \<longleftrightarrow>
     (\<exists>pre post. lower word = pre @ (drive @ [ch_colon]) @ post \<and>
        (pre = [] \<or> \<not> (is_ascii_alphanumeric (last pre) \<or> last pre = ch_underscore)))"

lemma drive_without_colon: "drive \<in> set NON_FILESYSTEM_DRIVES \<Longrightarrow> ch_colon \<notin> set drive"
  by (auto simp: NON_FILESYSTEM_DRIVES_def)

lemma rev_case_last:
  "(case rev w of [] \<Rightarrow> True | c # _ \<Rightarrow> P c) \<longleftrightarrow> w = [] \<or> P (last w)"
  by (cases w rule: rev_cases) auto

lemma names_a_non_filesystem_provider_iff:
  "names_a_non_filesystem_provider word \<longleftrightarrow>
     sublist ''::'' word \<or> (\<exists>drive \<in> set NON_FILESYSTEM_DRIVES. mentions_drive drive word)"
proof -
  let ?p = "\<lambda>w. w = [] \<or> \<not> (is_ascii_alphanumeric (last w) \<or> last w = ch_underscore)"
  have "(\<exists>at \<in> set (match_indices (drive @ [ch_colon]) (lower word)). ?p (take at (lower word)))
        \<longleftrightarrow> mentions_drive drive word" if "drive \<in> set NON_FILESYSTEM_DRIVES" for drive
    using match_indices_bex [OF drive_without_colon [OF that], of "lower word" ?p]
    by (simp only: mentions_drive_def)
  then show ?thesis
    unfolding names_a_non_filesystem_provider_def Let_def rev_case_last by (simp only: if_bool_eq_disj cong: bex_cong) blast
qed

lemma native_program_only_reads_Cons:
  "native_program_only_reads (name # args) \<longleftrightarrow>
     name \<in> {''git'', ''rg'', ''cargo''} \<and> argv_only_reads (name # args)"
  by (simp add: native_program_only_reads_def)

lemma powershell_argv_only_reads_Cons:
  "powershell_argv_only_reads (name # args) \<longleftrightarrow>
     (\<forall>word \<in> set (name # args). \<not> names_a_non_filesystem_provider word) \<and>
     ((\<exists>allowed \<in> set READ_ONLY_CMDLETS. eq_ignore_ascii_case allowed (canonical_cmdlet name)) \<or>
      eq_ignore_ascii_case (canonical_cmdlet name) name \<and>
      (\<forall>word \<in> set (name # args). ch_dollar \<notin> set word \<and> \<not> prefix [ch_at] word) \<and>
      native_program_only_reads (name # args))"
  by (auto simp: powershell_argv_only_reads_def Let_def)

lemma canonical_read_only_cmdlet:
  "list_all (\<lambda>cmdlet. canonical_cmdlet cmdlet = cmdlet) READ_ONLY_CMDLETS"
  by code_simp

lemma powershell_argv_only_reads_shape:
  assumes "powershell_argv_only_reads argv"
  shows "\<exists>name args. argv = name # args \<and>
    (\<forall>word \<in> set argv. \<not> sublist ''::'' word \<and>
       (\<forall>drive \<in> set NON_FILESYSTEM_DRIVES. \<not> mentions_drive drive word)) \<and>
    ((\<exists>cmdlet \<in> set READ_ONLY_CMDLETS. cmdlet_names_match cmdlet name) \<or>
     (name \<in> {''git'', ''rg'', ''cargo''} \<and> argv_only_reads argv \<and>
      (\<forall>word \<in> set argv. ch_dollar \<notin> set word \<and> \<not> prefix [ch_at] word)))"
proof (cases argv)
  case Nil
  with assms show ?thesis by (simp add: powershell_argv_only_reads_def)
next
  case (Cons name args)
  have "cmdlet \<in> set READ_ONLY_CMDLETS \<Longrightarrow> eq_ignore_ascii_case cmdlet (canonical_cmdlet name) \<Longrightarrow>
      cmdlet_names_match cmdlet name" for cmdlet
    using canonical_read_only_cmdlet by (simp add: cmdlet_names_match_def list_all_iff)
  then show ?thesis
    using assms unfolding Cons powershell_argv_only_reads_Cons native_program_only_reads_Cons
      names_a_non_filesystem_provider_iff by blast
qed

lemma read_only_rejects_empty: "simple_command_segments [] READ_ONLY_ARGV \<noteq> Inr A"
  by (simp add: simple_command_segments_def scan_finish_def Let_def grammar_defs scan_start_def push_word_def)

lemma bash_judgment:
  assumes "tool \<in> {''Bash'', ''BashTool''}"
  shows "is_read_only_shell_command tool (JObject [(''command'', JString c)]) \<longleftrightarrow>
    \<not> names_session_credentials c \<and>
    (case simple_command_segments (trim c) READ_ONLY_ARGV of
       Inl _ \<Rightarrow> False | Inr segs \<Rightarrow> list_all argv_only_reads segs)"
  using assms by (auto simp: is_read_only_shell_command_def is_session_credential_access_command_def
      shell_command_input_def)



lemma trim_link:
  "a \<noteq> [] \<Longrightarrow> b \<noteq> [] \<Longrightarrow> trim a = a \<Longrightarrow> trim b = b \<Longrightarrow> trim (a @ m @ b) = a @ m @ b"
  by (simp add: trim_eq_iff)

subsection \<open>Properties\<close>

text \<open>Judging a list of commands is judging its links: two commands the reader accepts, joined
  by \<open>&&\<close>, \<open>||\<close>, \<open>|\<close> or \<open>;\<close>, are read-only together exactly when both are
  and the joined text does not name a session's credential file.\<close>

theorem read_only_links_compose:
  assumes "tool \<in> {''Bash'', ''BashTool''}" and "op \<in> set (link_operators READ_ONLY_ARGV)"
    and "simple_command_segments a READ_ONLY_ARGV = Inr A"
    and "simple_command_segments b READ_ONLY_ARGV = Inr B"
    and "trim a = a" and "trim b = b"
  shows "is_read_only_shell_command tool
      (JObject [(''command'', JString (a @ ch_space # op @ ch_space # b))]) \<longleftrightarrow>
    \<not> names_session_credentials (a @ ch_space # op @ ch_space # b) \<and>
    is_read_only_shell_command tool (JObject [(''command'', JString a)]) \<and>
    is_read_only_shell_command tool (JObject [(''command'', JString b)])"
proof -
  let ?c = "a @ ch_space # op @ ch_space # b"
  have "a \<noteq> []" "b \<noteq> []" using assms(3,4) read_only_rejects_empty by metis+
  with assms(5,6) have t: "trim ?c = ?c" using trim_link [of a b "ch_space # op @ [ch_space]"] by simp
  have "and_chain_separates READ_ONLY_ARGV" by (simp add: grammar_defs)
  then have segs: "simple_command_segments ?c READ_ONLY_ARGV = Inr (A @ B)"
    using assms(2-4) read_only_argv.segments_link by blast
  have "sublist a ?c" by simp
  moreover have "sublist b ?c" unfolding sublist_def
    by (intro exI [of _ "a @ ch_space # op @ [ch_space]"] exI [of _ "[]"]) simp
  ultimately have sub: "sublist a ?c" "sublist b ?c" by blast+
  have "names_session_credentials a \<Longrightarrow> names_session_credentials ?c"
    and "names_session_credentials b \<Longrightarrow> names_session_credentials ?c"
    using sub names_session_credentials_mono by blast+
  then show ?thesis
    using assms(1) by (auto simp: bash_judgment t segs assms(3-6))
qed

theorem read_only_links_compose_witness:
  "is_read_only_shell_command ''Bash'' (JObject [(''command'', JString (''git log'' @ ch_space # ''|'' @ ch_space # ''wc -l''))])
     \<and> \<not> is_read_only_shell_command ''Bash'' (JObject [(''command'', JString (''git log'' @ ch_space # ''&&'' @ ch_space # ''rm x''))])"
proof -
  have "simple_command_segments ''git log'' READ_ONLY_ARGV = Inr [[''git'', ''log'']]"
    and "simple_command_segments ''wc -l'' READ_ONLY_ARGV = Inr [[''wc'', ''-l'']]"
    and "simple_command_segments ''rm x'' READ_ONLY_ARGV = Inr [[''rm'', ''x'']]"
    and "trim ''git log'' = ''git log''" "trim ''wc -l'' = ''wc -l''" "trim ''rm x'' = ''rm x''"
    by code_simp+
  moreover have "''|'' \<in> set (link_operators READ_ONLY_ARGV)" "''&&'' \<in> set (link_operators READ_ONLY_ARGV)"
    by (simp_all add: link_operators_def grammar_defs)
  moreover have "\<not> names_session_credentials (''git log'' @ ch_space # ''|'' @ ch_space # ''wc -l'')"
    and "is_read_only_shell_command ''Bash'' (JObject [(''command'', JString ''git log'')])"
    and "is_read_only_shell_command ''Bash'' (JObject [(''command'', JString ''wc -l'')])"
    and "\<not> is_read_only_shell_command ''Bash'' (JObject [(''command'', JString ''rm x'')])"
    by code_simp+
  ultimately show ?thesis
    using read_only_links_compose [of "''Bash''" "''|''" "''git log''" _ "''wc -l''"]
      read_only_links_compose [of "''Bash''" "''&&''" "''git log''" _ "''rm x''"] by simp
qed




text \<open>What a PowerShell command that runs without a prompt looks like: no word of it names a
  provider or a drive that is not a file system, and every link is a read-only cmdlet, by name,
  by case variant or by alias, or one of three native programs with read-only arguments none of
  which PowerShell would expand.\<close>

theorem powershell_read_only_command:
  assumes "is_read_only_shell_command tool (JObject [(''command'', JString c)])"
    and "tool \<in> {''PowerShell'', ''PowerShellTool''}"
  shows "\<exists>segs. powershell_segments c True = Some segs \<and>
    (\<forall>argv \<in> set segs. \<exists>name args. argv = name # args \<and>
       (\<forall>word \<in> set argv. \<not> sublist ''::'' word \<and>
          (\<forall>drive \<in> set NON_FILESYSTEM_DRIVES. \<not> mentions_drive drive word)) \<and>
       ((\<exists>cmdlet \<in> set READ_ONLY_CMDLETS. cmdlet_names_match cmdlet name) \<or>
        (name \<in> {''git'', ''rg'', ''cargo''} \<and> argv_only_reads argv \<and>
         (\<forall>word \<in> set argv. ch_dollar \<notin> set word \<and> \<not> prefix [ch_at] word))))"
proof -
  from assms obtain segs where "powershell_segments c True = Some segs"
    and "\<forall>argv \<in> set segs. powershell_argv_only_reads argv"
    by (auto simp: is_read_only_shell_command_def list_all_iff split: if_splits option.splits)
  then show ?thesis using powershell_argv_only_reads_shape by blast
qed

theorem powershell_read_only_command_witness:
  "\<exists>segs. powershell_segments ''DIR src; git log'' True = Some segs"
proof -
  have "is_read_only_shell_command ''PowerShell'' (JObject [(''command'', JString ''DIR src; git log'')])"
    by code_simp
  from powershell_read_only_command [OF this] show ?thesis by auto
qed

text \<open>How a command name is spelt does not matter in PowerShell: two names that are the same
  cmdlet modulo case and aliases, neither of them a native program of the list nor a provider
  path, get the same judgment with the same arguments.\<close>

theorem powershell_spelling_is_irrelevant:
  assumes "cmdlet_names_match n m"
    and "n \<notin> {''git'', ''rg'', ''cargo''}" and "m \<notin> {''git'', ''rg'', ''cargo''}"
    and "\<not> names_a_non_filesystem_provider n" and "\<not> names_a_non_filesystem_provider m"
  shows "powershell_argv_only_reads (n # args) = powershell_argv_only_reads (m # args)"
proof -
  have "eq_ignore_ascii_case a (canonical_cmdlet n) = eq_ignore_ascii_case a (canonical_cmdlet m)" for a
    using assms(1) by (simp add: cmdlet_names_match_iff eq_ignore_ascii_case_def)
  then show ?thesis
    using assms(2-5) by (auto simp: powershell_argv_only_reads_Cons native_program_only_reads_Cons)
qed

theorem powershell_spelling_is_irrelevant_witness:
  "powershell_argv_only_reads [''DIR'', ''src''] = powershell_argv_only_reads [''get-childitem'', ''src'']"
proof (rule powershell_spelling_is_irrelevant)
  show "cmdlet_names_match ''DIR'' ''get-childitem''" by code_simp
  show "\<not> names_a_non_filesystem_provider ''DIR''" by code_simp
  show "\<not> names_a_non_filesystem_provider ''get-childitem''" by code_simp
qed simp_all

subsection \<open>Findings\<close>

text \<open>The options refused are compared as whole prefixes, but programs that read their options with
  GNU \<open>getopt_long\<close> take any unambiguous abbreviation; and after \<open>--\<close> a word that starts
  with a dash is an operand.\<close>

lemma abbreviated_output_option_accepted:
  "is_read_only_shell_command ''Bash'' (JObject [(''command'', JString ''sort --outp=out in'')])"
  by code_simp

lemma uniq_output_operand_accepted:
  "is_read_only_shell_command ''Bash'' (JObject [(''command'', JString ''uniq -- -in -out'')])"
  by code_simp

end
