(* ===== verification/Rule_Value.thy ===== *)
theory Rule_Value
  imports Rust_Prelude
begin

text \<open>
  Permission rules and their text form: the rule types of
  \<open>crates/rebon-permissions/src/types.rs\<close> and the parser, printer and escaping of
  \<open>crates/rebon-permissions/src/rule_value.rs\<close>.

  The lemmas show that unescaping undoes escaping and that printing a rule and parsing it gives
  the rule back.
\<close>

subsection \<open>Rules\<close>

datatype permission_behavior = Allow | Deny | Ask

datatype permission_rule_source =
    UserSettings | ProjectSettings | LocalSettings | FlagSettings | PolicySettings
  | CliArg | Command | Session

record permission_rule_value =
  tool_name :: string
  rule_content :: "string option"

record permission_rule =
  rule_source :: permission_rule_source
  rule_behavior :: permission_behavior
  rule_value :: permission_rule_value

subsection \<open>Escaping\<close>

definition escape_rule_content :: "string \<Rightarrow> string" where
  "escape_rule_content content =
     replace_str [ch_rparen] [ch_backslash, ch_rparen]
       (replace_str [ch_lparen] [ch_backslash, ch_lparen]
         (replace_str [ch_backslash] [ch_backslash, ch_backslash] content))"

definition unescape_rule_content :: "string \<Rightarrow> string" where
  "unescape_rule_content content =
     replace_str [ch_backslash, ch_backslash] [ch_backslash]
       (replace_str [ch_backslash, ch_rparen] [ch_rparen]
         (replace_str [ch_backslash, ch_lparen] [ch_lparen] content))"

subsection \<open>Parsing and printing\<close>

definition is_unescaped :: "string \<Rightarrow> nat \<Rightarrow> bool" where
  "is_unescaped input idx \<longleftrightarrow>
     length (takeWhile (\<lambda>c. c = ch_backslash) (rev (take idx input))) mod 2 = 0"

definition find_first_unescaped_char :: "string \<Rightarrow> char \<Rightarrow> nat option" where
  "find_first_unescaped_char input needle =
     find (\<lambda>idx. input ! idx = needle \<and> is_unescaped input idx) [0..<length input]"

definition find_last_unescaped_char :: "string \<Rightarrow> char \<Rightarrow> nat option" where
  "find_last_unescaped_char input needle =
     find (\<lambda>idx. input ! idx = needle \<and> is_unescaped input idx) (rev [0..<length input])"

definition permission_rule_value_from_string :: "string \<Rightarrow> permission_rule_value" where
  "permission_rule_value_from_string rule_string =
     (let whole = \<lparr>tool_name = rule_string, rule_content = None\<rparr>
      in case find_first_unescaped_char rule_string ch_lparen of
           None \<Rightarrow> whole
         | Some open_paren_index \<Rightarrow>
             (case find_last_unescaped_char rule_string ch_rparen of
                None \<Rightarrow> whole
              | Some close_paren_index \<Rightarrow>
                  if close_paren_index \<le> open_paren_index then whole
                  else if close_paren_index \<noteq> length rule_string - 1 then whole
                  else (let tool = take open_paren_index rule_string;
                            raw_content = drop (open_paren_index + 1) (take close_paren_index rule_string)
                        in if tool = [] then whole
                           else if raw_content = [] \<or> raw_content = ''*''
                           then \<lparr>tool_name = tool, rule_content = None\<rparr>
                           else \<lparr>tool_name = tool,
                                 rule_content = Some (unescape_rule_content raw_content)\<rparr>)))"

definition permission_rule_value_to_string :: "permission_rule_value \<Rightarrow> string" where
  "permission_rule_value_to_string v =
     (case rule_content v of
        Some content \<Rightarrow>
          if content \<noteq> [] then tool_name v @ ''('' @ escape_rule_content content @ '')''
          else tool_name v
      | None \<Rightarrow> tool_name v)"

subsection \<open>Unescaping undoes escaping\<close>

text \<open>Escaping character by character, and what is left of it after each step of unescaping.\<close>

definition esc_char :: "char set \<Rightarrow> char \<Rightarrow> string" where
  "esc_char special c = (if c \<in> special then [ch_backslash, c] else [c])"

definition escape_chars :: "char set \<Rightarrow> string \<Rightarrow> string" where
  "escape_chars special s = concat (map (esc_char special) s)"

lemma escape_chars_simps [simp]:
  "escape_chars special [] = []"
  "escape_chars special (c # s) = esc_char special c @ escape_chars special s"
  by (simp_all add: escape_chars_def)

lemma hd_escape_chars:
  "c \<in> special \<Longrightarrow> c \<noteq> ch_backslash \<Longrightarrow> escape_chars special s = [] \<or> hd (escape_chars special s) \<noteq> c"
  by (cases s) (auto simp: esc_char_def)

lemma escape_rule_content_chars:
  "escape_rule_content s = escape_chars {ch_backslash, ch_lparen, ch_rparen} s"
  by (induction s) (auto simp: escape_rule_content_def esc_char_def replace_str_1)

lemma unescape_one:
  assumes "c \<noteq> ch_backslash" and "c \<in> special" and "ch_backslash \<in> special"
  shows "replace_str [ch_backslash, c] [c] (escape_chars special s) = escape_chars (special - {c}) s"
proof (induction s)
  case Nil
  then show ?case by simp
next
  case (Cons d s)
  have h: "escape_chars special s = [] \<or> hd (escape_chars special s) \<noteq> c"
    using assms hd_escape_chars by blast
  show ?case
    using Cons assms h
    by (cases "d = c"; cases "d = ch_backslash")
      (auto simp: esc_char_def replace_str_2_hit replace_str_2_miss)
qed

lemma unescape_backslash:
  "replace_str [ch_backslash, ch_backslash] [ch_backslash] (escape_chars {ch_backslash} s) = s"
  by (induction s) (auto simp: esc_char_def replace_str_2_hit replace_str_2_miss)

lemma unescape_escape: "unescape_rule_content (escape_rule_content s) = s"
proof -
  have "{ch_backslash, ch_lparen, ch_rparen} - {ch_lparen} - {ch_rparen} = {ch_backslash}" by auto
  then show ?thesis
    by (simp add: unescape_rule_content_def escape_rule_content_chars unescape_one unescape_backslash)
qed

subsection \<open>Finding the parentheses\<close>

definition trailing_backslashes :: "string \<Rightarrow> nat" where
  "trailing_backslashes s = length (takeWhile (\<lambda>c. c = ch_backslash) (rev s))"

lemma is_unescaped_iff: "is_unescaped s i \<longleftrightarrow> even (trailing_backslashes (take i s))"
  by (simp add: is_unescaped_def trailing_backslashes_def even_iff_mod_2_eq_zero)

lemma trailing_backslashes_simps [simp]:
  "trailing_backslashes [] = 0"
  "trailing_backslashes (s @ [c]) = (if c = ch_backslash then Suc (trailing_backslashes s) else 0)"
  by (simp_all add: trailing_backslashes_def)

lemma trailing_backslashes_two [simp]:
  "trailing_backslashes (s @ [c, d]) = (if d = ch_backslash then Suc (trailing_backslashes (s @ [c])) else 0)"
  using trailing_backslashes_simps(2) [of "s @ [c]" d] by simp

lemma trailing_backslashes_after:
  assumes "c \<noteq> ch_backslash"
  shows "trailing_backslashes (t @ c # s) = trailing_backslashes s"
proof (induction s rule: rev_induct)
  case Nil
  then show ?case using assms trailing_backslashes_simps(2) [of t c] by simp
next
  case (snoc d s)
  then show ?case
    using trailing_backslashes_simps(2) [of "t @ c # s" d] by simp
qed

lemma escape_chars_append: "escape_chars special (s @ t) = escape_chars special s @ escape_chars special t"
  by (simp add: escape_chars_def)

lemma even_trailing_escape:
  "ch_backslash \<in> special \<Longrightarrow> even (trailing_backslashes (escape_chars special s))"
proof (induction s rule: rev_induct)
  case Nil
  then show ?case by simp
next
  case (snoc d s)
  then show ?case by (simp add: escape_chars_append esc_char_def)
qed

lemma find_first_unescaped:
  assumes "needle \<notin> set t" and "even (trailing_backslashes t)"
  shows "find_first_unescaped_char (t @ needle # r) needle = Some (length t)"
proof -
  let ?s = "t @ needle # r"
  have "\<forall>j < length t. ?s ! j \<noteq> needle"
    using assms(1) by (auto simp: nth_append dest: nth_mem)
  moreover have "?s ! length t = needle" "is_unescaped ?s (length t)"
    using assms(2) by (simp_all add: is_unescaped_iff)
  ultimately show ?thesis
    unfolding find_first_unescaped_char_def find_Some_iff by (intro exI [of _ "length t"]) (simp add: nth_upt del: upt_Suc)
qed

lemma find_last_unescaped:
  assumes "even (trailing_backslashes u)"
  shows "find_last_unescaped_char (u @ [needle]) needle = Some (length u)"
  using assms by (simp add: find_last_unescaped_char_def is_unescaped_iff)

lemma find_first_unescaped_None:
  assumes "needle \<notin> set s"
  shows "find_first_unescaped_char s needle = None"
  using assms by (auto simp: find_first_unescaped_char_def find_None_iff dest: nth_mem)

lemma escape_rule_content_eq_simps:
  "escape_rule_content c = [] \<longleftrightarrow> c = []"
  "escape_rule_content c = ''*'' \<longleftrightarrow> c = ''*''"
  unfolding escape_rule_content_chars
  by (cases c; cases "tl c"; auto simp: esc_char_def split: if_splits)+

subsection \<open>Properties\<close>

text \<open>C17. Round trip of rules: a rule whose tool name is not empty, has no opening parenthesis and
  does not end in an odd number of backslashes, and whose content is absent or neither empty
  nor the wildcard, survives being printed and parsed, whatever parentheses and backslashes the
  content holds.\<close>

theorem permission_rule_value_round_trip:
  assumes "ch_lparen \<notin> set tool" and "tool \<noteq> []" and "even (trailing_backslashes tool)"
    and "content \<noteq> Some []" and "content \<noteq> Some ''*''"
  shows "permission_rule_value_from_string
      (permission_rule_value_to_string \<lparr>tool_name = tool, rule_content = content\<rparr>) =
    \<lparr>tool_name = tool, rule_content = content\<rparr>"
proof (cases content)
  case None
  with assms(1) show ?thesis
    by (simp add: permission_rule_value_to_string_def permission_rule_value_from_string_def
        find_first_unescaped_None)
next
  case (Some c)
  let ?e = "escape_rule_content c"
  let ?u = "tool @ ch_lparen # ?e"
  let ?s = "?u @ [ch_rparen]"
  have "permission_rule_value_to_string \<lparr>tool_name = tool, rule_content = content\<rparr> = ?s"
    using Some assms(4) by (simp add: permission_rule_value_to_string_def)
  moreover have "find_first_unescaped_char ?s ch_lparen = Some (length tool)"
    using find_first_unescaped [OF assms(1,3), of "?e @ [ch_rparen]"] by simp
  moreover have "even (trailing_backslashes ?u)"
    using even_trailing_escape by (simp add: trailing_backslashes_after escape_rule_content_chars)
  then have "find_last_unescaped_char ?s ch_rparen = Some (length ?u)"
    by (rule find_last_unescaped)
  moreover have "take (length tool) ?s = tool" "drop (length tool + 1) (take (length ?u) ?s) = ?e"
    by simp_all
  ultimately show ?thesis
    using assms(2,4,5) Some
    by (simp add: permission_rule_value_from_string_def Let_def escape_rule_content_eq_simps
        unescape_escape)
qed

theorem permission_rule_value_round_trip_witness:
  "permission_rule_value_from_string
      (permission_rule_value_to_string \<lparr>tool_name = ''Bash'', rule_content = Some ''f(x) && g()''\<rparr>) =
    \<lparr>tool_name = ''Bash'', rule_content = Some ''f(x) && g()''\<rparr>"
  by (rule permission_rule_value_round_trip) (simp_all add: trailing_backslashes_def)

end
