(* ===== verification/Shell_Runtime.thy ===== *)
theory Shell_Runtime
  imports Shell_Lexer Rule_Value
begin

text \<open>
  \<open>crates/rebon-permissions/src/shell_runtime.rs\<close>: which programs are bare shells, the first
  word of a command, the prefixes a prompt suggests, and the working-directory wrapper that rule
  authoring and rule evaluation both strip.

  The state of the editable prefix in the prompt is not modelled: it is a record of the dialog.
  A slice at a byte offset that falls inside a character panics in Rust; the functions that take
  such a slice return an option here, \<open>None\<close> for the panic.
\<close>

subsection \<open>Bare shells\<close>

definition BARE_SHELL_PREFIXES :: "string list" where
  "BARE_SHELL_PREFIXES =
     [''sh'', ''bash'', ''zsh'', ''fish'', ''csh'', ''tcsh'', ''ksh'', ''dash'', ''cmd'', ''powershell'',
      ''pwsh'', ''env'', ''xargs'', ''nice'', ''stdbuf'', ''nohup'', ''timeout'', ''time'', ''sudo'',
      ''doas'', ''pkexec'']"

definition strip_ascii_suffix :: "string \<Rightarrow> string \<Rightarrow> string option" where
  "strip_ascii_suffix value ending =
     (if byte_len ending \<le> byte_len value then
        (case split_at_byte (byte_len value - byte_len ending) value of
           None \<Rightarrow> None
         | Some (front, back) \<Rightarrow> Some (if eq_ignore_ascii_case back ending then front else value))
      else Some value)"

definition is_bare_shell_prefix :: "string \<Rightarrow> bool option" where
  "is_bare_shell_prefix cmd =
     (let is_quote = (\<lambda>ch. ch = ch_dquote \<or> ch = ch_squote);
          cmd = replace_char ch_backslash ch_slash (trim_end_by is_quote (trim_start_by is_quote cmd));
          basename = last (split_char ch_slash cmd)
      in map_option (\<lambda>basename. list_ex (\<lambda>shell. eq_ignore_ascii_case basename shell) BARE_SHELL_PREFIXES)
           (strip_ascii_suffix basename ''.exe''))"

text \<open>The part of a quoted word up to and including the closing quote.\<close>

fun up_to_quote :: "char \<Rightarrow> string \<Rightarrow> string option" where
  "up_to_quote q [] = None"
| "up_to_quote q (c # cs) = (if c = q then Some [c] else map_option (Cons c) (up_to_quote q cs))"

definition first_shell_word :: "string \<Rightarrow> string option" where
  "first_shell_word command =
     (case trim_start_by is_whitespace command of
        [] \<Rightarrow> None
      | first # chars \<Rightarrow>
          if first = ch_dquote \<or> first = ch_squote then
            (case up_to_quote first chars of
               Some quoted \<Rightarrow> Some (first # quoted)
             | None \<Rightarrow> Some (first # chars))
          else (case split_ascii_whitespace (first # chars) of [] \<Rightarrow> None | w # _ \<Rightarrow> Some w))"

definition has_unquoted_shell_metacharacter :: "string \<Rightarrow> bool" where
  "has_unquoted_shell_metacharacter command \<longleftrightarrow>
     simple_command_segments command ANY_METACHARACTER = Inl Metacharacter"

subsection \<open>Suggested prefixes\<close>

definition is_ascii_lowercase :: "char \<Rightarrow> bool" where
  "is_ascii_lowercase c \<longleftrightarrow> 97 \<le> code c \<and> code c \<le> 122"

definition is_env_assignment :: "string \<Rightarrow> bool" where
  "is_env_assignment word \<longleftrightarrow>
     (case split_once (CHR ''='') word of
        None \<Rightarrow> False
      | Some (name, _) \<Rightarrow>
          (case name of
             [] \<Rightarrow> False
           | first # chars \<Rightarrow>
               (first = ch_underscore \<or> is_ascii_alphabetic first) \<and>
               list_all (\<lambda>ch. ch = ch_underscore \<or> is_ascii_alphanumeric ch) chars))"

definition looks_like_subcommand :: "string \<Rightarrow> bool" where
  "looks_like_subcommand word \<longleftrightarrow>
     (let ok = list_all (\<lambda>ch. is_ascii_lowercase ch \<or> is_ascii_digit ch);
          parts = split_char ch_dash word; first = hd parts
      in first \<noteq> [] \<and> ok first \<and> is_ascii_lowercase (hd first) \<and>
         list_all (\<lambda>part. part \<noteq> [] \<and> ok part) (tl parts))"

text \<open>Passing over the environment assignments: \<open>None\<close> when one is not known to be safe.\<close>

fun skip_env_assignments :: "string set \<Rightarrow> string set \<Rightarrow> bool \<Rightarrow> string list \<Rightarrow> string list option" where
  "skip_env_assignments safe internal_only internal_build [] = Some []"
| "skip_env_assignments safe internal_only internal_build (t # ts) =
     (if is_env_assignment t then
        (let var_name = hd (split_char (CHR ''='') t)
         in if var_name \<notin> safe \<and> \<not> (internal_build \<and> var_name \<in> internal_only) then None
            else skip_env_assignments safe internal_only internal_build ts)
      else Some (t # ts))"

definition get_simple_command_prefix ::
  "string \<Rightarrow> string set \<Rightarrow> string set \<Rightarrow> bool \<Rightarrow> string option" where
  "get_simple_command_prefix command safe_env_vars internal_only_safe_env_vars internal_build =
     (case skip_env_assignments safe_env_vars internal_only_safe_env_vars internal_build
             (split_whitespace command) of
        Some (program # subcmd # _) \<Rightarrow>
          if looks_like_subcommand subcmd then Some (program @ '' '' @ subcmd) else None
      | _ \<Rightarrow> None)"

definition get_first_word_prefix ::
  "string \<Rightarrow> string set \<Rightarrow> string set \<Rightarrow> bool \<Rightarrow> string option option" where
  "get_first_word_prefix command safe_env_vars internal_only_safe_env_vars internal_build =
     (case skip_env_assignments safe_env_vars internal_only_safe_env_vars internal_build
             (split_whitespace command) of
        Some (cmd # _) \<Rightarrow>
          if \<not> looks_like_subcommand cmd then Some None
          else map_option (\<lambda>bare. if bare then None else Some cmd) (is_bare_shell_prefix cmd)
      | _ \<Rightarrow> Some None)"

subsection \<open>The working-directory wrapper\<close>

text \<open>One pair of surrounding quotes taken off, double quotes tried first.\<close>

definition unquote :: "string \<Rightarrow> string" where
  "unquote target =
     (case Option.bind (strip_prefix [ch_dquote] target) (strip_suffix [ch_dquote]) of
        Some inner \<Rightarrow> inner
      | None \<Rightarrow>
          (case Option.bind (strip_prefix [ch_squote] target) (strip_suffix [ch_squote]) of
             Some inner \<Rightarrow> inner
           | None \<Rightarrow> target))"

definition target_matches_cwd :: "string \<Rightarrow> string \<Rightarrow> bool" where
  "target_matches_cwd target cwd \<longleftrightarrow>
     eq_ignore_ascii_case (replace_char ch_backslash ch_slash (unquote (trim target)))
       (replace_char ch_backslash ch_slash cwd)"

definition strip_cwd_prefix :: "string \<Rightarrow> string \<Rightarrow> string option" where
  "strip_cwd_prefix command cwd =
     (let command = trim command
      in case (case strip_prefix ''cd '' command of
                 Some rest \<Rightarrow> Some rest
               | None \<Rightarrow> strip_prefix ''CD '' command) of
           None \<Rightarrow> None
         | Some after_cd \<Rightarrow>
             (case find_str '' && '' after_cd of
                None \<Rightarrow> None
              | Some sep_pos \<Rightarrow>
                  (let cd_target = unquote (trim (take sep_pos after_cd))
                   in if \<not> target_matches_cwd cd_target cwd then None
                      else Some (drop (sep_pos + 4) after_cd))))"

text \<open>A word in any case, followed by white space: what comes after the word.\<close>

definition after_word :: "string \<Rightarrow> string \<Rightarrow> string option" where
  "after_word w s =
     (if eq_ignore_ascii_case (take (length w) s) w then
        (case drop (length w) s of
           [] \<Rightarrow> None
         | c # cs \<Rightarrow> if is_whitespace c then Some (c # cs) else None)
      else None)"

text \<open>The text before and after the first \<open>;\<close> outside quotes.\<close>

fun cut_at_separator :: "char option \<Rightarrow> bool \<Rightarrow> string \<Rightarrow> (string \<times> string) option" where
  "cut_at_separator quoted esc [] = None"
| "cut_at_separator quoted esc (ch # cs) =
     (let more = (\<lambda>quoted esc. map_option (\<lambda>(a, b). (ch # a, b)) (cut_at_separator quoted esc cs))
      in if esc then more quoted False
         else if ch = ch_backtick \<and> quoted = Some ch_dquote then more quoted True
         else if ch = ch_squote \<or> ch = ch_dquote then
           (if quoted = Some ch then more None False
            else if quoted = None then more (Some ch) False
            else more quoted False)
         else if ch = ch_semi \<and> quoted = None then Some ([], cs)
         else more quoted False)"

definition strip_powershell_cwd_prefix :: "string \<Rightarrow> string \<Rightarrow> string option" where
  "strip_powershell_cwd_prefix command cwd =
     (let command = trim command
      in case (case after_word ''Set-Location'' command of
                 Some rest \<Rightarrow> Some rest
               | None \<Rightarrow> after_word ''cd'' command) of
           None \<Rightarrow> None
         | Some rest \<Rightarrow>
             (let arguments = trim_start_by is_whitespace rest;
                  arguments = (case after_word ''-LiteralPath'' arguments of
                      Some rest \<Rightarrow> trim_start_by is_whitespace rest
                    | None \<Rightarrow>
                        (case after_word ''-Path'' arguments of
                           Some rest \<Rightarrow> trim_start_by is_whitespace rest
                         | None \<Rightarrow> arguments))
              in case cut_at_separator None False arguments of
                   None \<Rightarrow> None
                 | Some (target, tail) \<Rightarrow>
                     if \<not> target_matches_cwd (trim target) cwd then None
                     else Some (trim_start_by is_whitespace tail)))"

definition command_without_cwd_prefix :: "string \<Rightarrow> string \<Rightarrow> string \<Rightarrow> string" where
  "command_without_cwd_prefix tool command cwd =
     (if cwd = [] then command
      else (let stripped =
              (if tool = ''Bash'' \<or> tool = ''BashTool'' then strip_cwd_prefix command cwd
               else if tool = ''PowerShell'' \<or> tool = ''PowerShellTool'' then
                 (case strip_powershell_cwd_prefix command cwd of
                    Some tail \<Rightarrow> Some tail
                  | None \<Rightarrow> strip_cwd_prefix command cwd)
               else None)
            in case stripped of Some tail \<Rightarrow> tail | None \<Rightarrow> command))"

subsection \<open>Bare shells are recognised in any case\<close>

lemma code_lower_other: "code d < 65 \<or> 90 < code d \<and> code d < 97 \<or> 122 < code d \<Longrightarrow>
  to_ascii_lowercase c = d \<longleftrightarrow> c = d"
  using to_ascii_lowercase_eq [of d c] by auto

lemma lower_special [simp]:
  "to_ascii_lowercase c = ch_backslash \<longleftrightarrow> c = ch_backslash"
  "to_ascii_lowercase c = ch_slash \<longleftrightarrow> c = ch_slash"
  "to_ascii_lowercase c = ch_dquote \<longleftrightarrow> c = ch_dquote"
  "to_ascii_lowercase c = ch_squote \<longleftrightarrow> c = ch_squote"
  by (rule code_lower_other; simp add: code_def)+

lemma lower_idem [simp]: "lower (lower s) = lower s"
  by (auto simp: lower_def code_inject [symmetric] code_to_ascii_lowercase)

lemma eq_ignore_lower [simp]: "eq_ignore_ascii_case (lower s) = eq_ignore_ascii_case s"
  by (simp add: fun_eq_iff eq_ignore_ascii_case_def)

lemma lower_trim_by:
  assumes "\<And>c. q (to_ascii_lowercase c) = q c"
  shows "trim_start_by q (lower s) = lower (trim_start_by q s)"
    and "trim_end_by q (lower s) = lower (trim_end_by q s)"
  using assms by (simp_all add: trim_start_by_def trim_end_by_def lower_def dropWhile_map rev_map o_def)

lemma lower_replace_slash: "replace_char ch_backslash ch_slash (lower s) = lower (replace_char ch_backslash ch_slash s)"
proof -
  have "to_ascii_lowercase ch_slash = ch_slash" by (simp only: lower_special)
  note slash = this [symmetric]
  show ?thesis by (simp add: replace_char_def lower_def) (use slash in blast)
qed

lemma split_char_not_Nil [simp]: "split_char d s \<noteq> []"
  by (cases s) auto

lemma lower_split_slash: "split_char ch_slash (lower s) = map lower (split_char ch_slash s)"
proof (induction s)
  case Nil
  then show ?case by (simp add: lower_def)
next
  case (Cons c s)
  then show ?case
    by (cases "split_char ch_slash s") (simp_all add: lower_def)
qed

lemma utf8_width_lower [simp]: "utf8_width (to_ascii_lowercase c) = utf8_width c"
  by (auto simp: utf8_width_def code_to_ascii_lowercase)

lemma byte_len_lower [simp]: "byte_len (lower s) = byte_len s"
  by (simp add: byte_len_def lower_def o_def)

lemma split_at_byte_lower:
  "split_at_byte n (lower s) = map_option (map_prod lower lower) (split_at_byte n s)"
proof (induction n s rule: split_at_byte.induct)
  case (1 n s)
  show ?case
  proof (cases "n = 0")
    case True
    then show ?thesis by (simp add: split_at_byte.simps lower_def)
  next
    case False
    show ?thesis
    proof (cases s)
      case Nil
      with False show ?thesis by (simp add: split_at_byte.simps lower_def)
    next
      case (Cons c cs)
      with False 1 show ?thesis
        by (simp add: split_at_byte.simps [of n "lower (c # cs)"] split_at_byte.simps [of n "c # cs"]
            option.map_comp o_def)
          (simp add: lower_def option.map_comp o_def case_prod_beta map_prod_def)
    qed
  qed
qed

lemma strip_ascii_suffix_lower:
  "strip_ascii_suffix (lower value) ending = map_option lower (strip_ascii_suffix value ending)"
  by (auto simp: strip_ascii_suffix_def split_at_byte_lower split: option.split)

lemma is_bare_shell_prefix_lower: "is_bare_shell_prefix (lower s) = is_bare_shell_prefix s"
  by (simp add: is_bare_shell_prefix_def Let_def lower_trim_by lower_replace_slash lower_split_slash
      last_map strip_ascii_suffix_lower option.map_comp o_def)

lemma is_bare_shell_prefix_cong:
  "eq_ignore_ascii_case s t \<Longrightarrow> is_bare_shell_prefix s = is_bare_shell_prefix t"
  by (metis eq_ignore_ascii_case_def is_bare_shell_prefix_lower)

lemma first_shell_word_plain:
  assumes "trim_start_by is_whitespace s = c # cs" and "c \<noteq> ch_dquote" and "c \<noteq> ch_squote"
    and "split_ascii_whitespace (c # cs) = w # ws"
  shows "first_shell_word s = Some w"
  using assms by (simp add: first_shell_word_def)

subsection \<open>Stripping undoes wrapping\<close>

lemma strip_cwd_prefix_wrapped:
  assumes "ch_amp \<notin> set cwd" and "ch_dquote \<notin> set cwd" and "ch_squote \<notin> set cwd"
    and "trim cwd = cwd" and "trim tail = tail" and "tail \<noteq> []"
  shows "strip_cwd_prefix (''cd '' @ cwd @ '' && '' @ tail) cwd = Some tail"
proof -
  let ?c = "''cd '' @ cwd @ '' && '' @ tail"
  have "\<not> prefix '' && '' (v @ '' && '' @ tail)" if "cwd = u @ v" "v \<noteq> []" for u v
  proof -
    from that assms(1) have "ch_amp \<notin> set v" by simp
    then show ?thesis using that(2)
      by (cases v; cases "tl v") auto
  qed
  then have f: "find_str '' && '' (cwd @ '' && '' @ tail) = Some (length cwd)"
    by (rule find_str_append)
  have "\<not> is_whitespace (last tail)" using assms(5,6) by (simp add: trim_eq_iff)
  then have "trim ?c = ?c"
    using assms(6) by (intro trim_id) (simp add: is_whitespace_def)
  moreover have "strip_prefix ''cd '' ?c = Some (cwd @ '' && '' @ tail)"
    by (rule strip_prefix_append)
  moreover have u: "unquote cwd = cwd"
    using assms(2,3) by (auto simp: unquote_def strip_prefix_Some split: option.split
        dest: bind_eq_Some_conv [THEN iffD1])
  moreover have "target_matches_cwd cwd cwd" by (simp add: target_matches_cwd_def assms(4) u)
  ultimately show ?thesis
    unfolding strip_cwd_prefix_def Let_def by (simp add: f assms(4) del: append.simps)
qed

end
