(* ===== verification/Tool_Facts.thy ===== *)
theory Tool_Facts
  imports Rust_Prelude
begin

text \<open>
  The tool facts of \<open>crates/rebon-tools-core/src/lib.rs\<close>: what every built-in tool is to
  policy, under its canonical name and its aliases, and the lookups the policy makes.
\<close>

datatype tool_kind = FileRead | FileEdit | Shell | Search | Agent | Task | Web | Other

definition touches_a_file :: "tool_kind \<Rightarrow> bool" where
  "touches_a_file kind \<longleftrightarrow> kind = FileRead \<or> kind = FileEdit"

record primary_input =
  label :: string
  field :: string

record builtin_tool_facts =
  facts_name :: string
  aliases :: "string list"
  kind :: tool_kind
  file_target_field :: "string option"
  primary_input :: "primary_input option"

definition tool_matches_name :: "string \<Rightarrow> string list \<Rightarrow> string \<Rightarrow> bool" where
  "tool_matches_name tool names candidate \<longleftrightarrow> tool = candidate \<or> candidate \<in> set names"

definition facts_match :: "builtin_tool_facts \<Rightarrow> string \<Rightarrow> bool" where
  "facts_match f candidate = tool_matches_name (facts_name f) (aliases f) candidate"

definition facts :: "string \<Rightarrow> string list \<Rightarrow> tool_kind \<Rightarrow> string option \<Rightarrow> builtin_tool_facts" where
  "facts name names knd target =
     \<lparr>facts_name = name, aliases = names, kind = knd, file_target_field = target,
      primary_input = (case target of
          Some fld \<Rightarrow> Some \<lparr>label = ''path'', field = fld\<rparr> | None \<Rightarrow> None)\<rparr>"

definition facts_showing ::
  "string \<Rightarrow> string list \<Rightarrow> tool_kind \<Rightarrow> string \<Rightarrow> string \<Rightarrow> builtin_tool_facts" where
  "facts_showing name names knd lbl fld =
     \<lparr>facts_name = name, aliases = names, kind = knd, file_target_field = None,
      primary_input = Some \<lparr>label = lbl, field = fld\<rparr>\<rparr>"

definition SKILL_TOOL_NAME :: string where
  "SKILL_TOOL_NAME = ''Skill''"

definition BUILTIN_TOOL_FACTS :: "builtin_tool_facts list" where
  "BUILTIN_TOOL_FACTS =
    [facts ''Read'' [''FileReadTool''] FileRead (Some ''file_path''),
     facts ''Write'' [''FileWriteTool''] FileEdit (Some ''file_path''),
     facts ''Edit'' [''FileEditTool''] FileEdit (Some ''file_path''),
     facts ''MultiEdit'' [''MultiEditTool'', ''FileMultiEditTool''] FileEdit (Some ''file_path''),
     facts_showing ''Glob'' [''GlobTool''] Search ''pattern'' ''pattern'',
     facts_showing ''Grep'' [''GrepTool''] Search ''pattern'' ''pattern'',
     facts_showing ''Bash'' [''BashTool'', ''bash''] Shell ''command'' ''command'',
     facts_showing ''PowerShell'' [''PowerShellTool''] Shell ''command'' ''command'',
     facts ''NotebookEdit'' [''NotebookEditTool''] FileEdit (Some ''notebook_path''),
     facts_showing ''Agent'' [''AgentTool'', ''Task''] Agent ''prompt'' ''prompt'',
     facts ''TaskCreate'' [''TaskCreateTool''] Task None,
     facts ''TaskGet'' [''TaskGetTool''] Task None,
     facts ''TaskList'' [''TaskListTool''] Task None,
     facts ''TaskUpdate'' [''TaskUpdateTool''] Task None,
     facts ''TaskStop'' [''TaskStopTool''] Task None,
     facts ''TodoWrite'' [''TodoWriteTool''] Task None,
     facts ''ListPeers'' [''ListPeersTool''] Task None,
     facts_showing ''WebFetch'' [''WebFetchTool''] Web ''url'' ''url'',
     facts_showing ''WebSearch'' [''WebSearchTool''] Web ''query'' ''query'',
     facts SKILL_TOOL_NAME [''SkillTool''] Other None]"

definition builtin_tool_facts_for_name :: "string \<Rightarrow> builtin_tool_facts option" where
  "builtin_tool_facts_for_name name = find (\<lambda>f. facts_match f name) BUILTIN_TOOL_FACTS"

definition tool_kind_for_name :: "string \<Rightarrow> tool_kind" where
  "tool_kind_for_name name =
     (case builtin_tool_facts_for_name name of Some f \<Rightarrow> kind f | None \<Rightarrow> Other)"

definition tool_names_of_kind :: "tool_kind \<Rightarrow> string list" where
  "tool_names_of_kind knd = map facts_name (filter (\<lambda>f. kind f = knd) BUILTIN_TOOL_FACTS)"

definition file_target_field_for_name :: "string \<Rightarrow> string option" where
  "file_target_field_for_name name = Option.bind (builtin_tool_facts_for_name name) file_target_field"

subsection \<open>Facts about the table\<close>

text \<open>Exactly the tools that touch a file have a field naming it, and no name belongs to two rows,
  so the first row that matches is the only one.\<close>

lemma file_kinds_have_a_target:
  "list_all (\<lambda>f. touches_a_file (kind f) = (file_target_field f \<noteq> None)) BUILTIN_TOOL_FACTS"
  by code_simp

lemma names_are_distinct:
  "distinct (concat (map (\<lambda>f. facts_name f # aliases f) BUILTIN_TOOL_FACTS))"
  by code_simp

lemma facts_of_name:
  assumes "builtin_tool_facts_for_name name = Some f"
  shows "f \<in> set BUILTIN_TOOL_FACTS" and "facts_match f name"
  using assms by (auto simp: builtin_tool_facts_for_name_def find_Some_iff)

lemma distinct_concat_unique:
  assumes "distinct (concat (map h xs))" and "x \<in> set xs" and "y \<in> set xs"
    and "a \<in> set (h x)" and "a \<in> set (h y)"
  shows "x = y"
  using assms by (induction xs) auto

lemma facts_match_unique:
  assumes "f \<in> set BUILTIN_TOOL_FACTS" and "facts_match f name"
  shows "builtin_tool_facts_for_name name = Some f"
proof -
  obtain g where g: "builtin_tool_facts_for_name name = Some g"
    using assms by (cases "builtin_tool_facts_for_name name")
      (auto simp: builtin_tool_facts_for_name_def find_None_iff)
  have "name \<in> set (facts_name f # aliases f)" and "name \<in> set (facts_name g # aliases g)"
    using assms(2) facts_of_name(2) [OF g] by (auto simp: facts_match_def tool_matches_name_def)
  then have "g = f"
    using distinct_concat_unique [OF names_are_distinct, of g f name] assms(1) facts_of_name(1) [OF g]
    by blast
  with g show ?thesis by simp
qed

lemma facts_of_builtin:
  "builtin_tool_facts_for_name ''Read'' = Some (facts ''Read'' [''FileReadTool''] FileRead (Some ''file_path''))"
  "builtin_tool_facts_for_name ''Bash'' = Some (facts_showing ''Bash'' [''BashTool'', ''bash''] Shell ''command'' ''command'')"
  "builtin_tool_facts_for_name ''BashTool'' = Some (facts_showing ''Bash'' [''BashTool'', ''bash''] Shell ''command'' ''command'')"
  "builtin_tool_facts_for_name ''PowerShell'' = Some (facts_showing ''PowerShell'' [''PowerShellTool''] Shell ''command'' ''command'')"
  "builtin_tool_facts_for_name ''PowerShellTool'' = Some (facts_showing ''PowerShell'' [''PowerShellTool''] Shell ''command'' ''command'')"
  "builtin_tool_facts_for_name ''Monitor'' = None"
  "builtin_tool_facts_for_name ''MonitorTool'' = None"
  by (rule facts_match_unique; simp add: BUILTIN_TOOL_FACTS_def facts_match_def tool_matches_name_def
      facts_def facts_showing_def)+
    (simp_all add: builtin_tool_facts_for_name_def BUILTIN_TOOL_FACTS_def facts_match_def
      tool_matches_name_def facts_def facts_showing_def SKILL_TOOL_NAME_def)

end
