(* ===== verification/Policy.thy ===== *)
theory Policy
  imports PowerShell_Shape Shell_Runtime Tool_Facts Json_Value
begin

text \<open>
  \<open>crates/rebon-core/src/policy.rs\<close>: the store of permission rules, the matchers that
  decide whether a rule covers a tool call, the evaluator and the broker in front of the prompt.

  The store is the list of its rules in insertion order; the lock around it is not modelled
  (a poisoned lock is a panic). The URL parser of the \<open>url\<close> crate is the parameter \<open>H\<close>, from a
  URL to its host; pushing a rule can panic on a slice of its first word, which is \<open>None\<close>.
\<close>

datatype policy_outcome =
    AutoAllow permission_rule_value
  | AutoDeny permission_rule_value
  | PassThrough

type_synonym url_host = "string \<Rightarrow> string option"

subsection \<open>Which tools a rule is about\<close>

definition mcp_server_scope_matches :: "string \<Rightarrow> string \<Rightarrow> bool" where
  "mcp_server_scope_matches rule_tool call_tool \<longleftrightarrow>
     (case strip_prefix ''mcp__'' rule_tool of
        None \<Rightarrow> False
      | Some server \<Rightarrow>
          if server = [] \<or> sublist ''__'' server then False
          else is_some_and (\<lambda>tail. prefix ''__'' tail \<and> length tail > 2)
                 (Option.bind (strip_prefix ''mcp__'' call_tool) (strip_prefix server)))"

definition umbrella :: "tool_kind \<Rightarrow> string list" where
  "umbrella knd =
     (if knd = FileEdit then [''Edit'', ''FileEdit'', ''FileEditTool'']
      else if knd = FileRead then [''FileRead'', ''FileReadTool'']
      else [])"

definition rule_applies_to_tool :: "string \<Rightarrow> string \<Rightarrow> bool" where
  "rule_applies_to_tool rule_tool call_tool =
     (if rule_tool = [] then False
      else if eq_ignore_ascii_case rule_tool call_tool then True
      else if mcp_server_scope_matches rule_tool call_tool then True
      else if is_some_and (\<lambda>f. facts_match f rule_tool \<or> rule_tool \<in> set (umbrella (kind f)))
                (builtin_tool_facts_for_name call_tool) then True
      else (call_tool = ''Write'' \<and> rule_tool = ''FileWrite'') \<or>
           (call_tool = ''Mcp'' \<and> (rule_tool = ''McpTool'' \<or> rule_tool = ''MCPTool'')))"

subsection \<open>Rules that would allow any shell command\<close>

definition is_shell_tool_name :: "string \<Rightarrow> bool" where
  "is_shell_tool_name tool \<longleftrightarrow>
     list_ex (\<lambda>name. eq_ignore_ascii_case tool name)
       [''Bash'', ''BashTool'', ''PowerShell'', ''PowerShellTool'', ''Monitor'', ''MonitorTool'']"

definition is_bare_shell_wildcard_tool_name :: "string \<Rightarrow> bool option" where
  "is_bare_shell_wildcard_tool_name tool =
     (case split_ascii_whitespace tool of
        [first, second] \<Rightarrow> if second = ''*'' then is_bare_shell_prefix first else Some False
      | _ \<Rightarrow> Some False)"

definition is_unsafe_shell_command_rule :: "string \<Rightarrow> bool option" where
  "is_unsafe_shell_command_rule content =
     (case (case strip_suffix '':*'' content of
              Some head \<Rightarrow> Some head
            | None \<Rightarrow> strip_suffix '':'' content) of
        Some head \<Rightarrow>
          (case first_shell_word head of None \<Rightarrow> Some False | Some w \<Rightarrow> is_bare_shell_prefix w)
      | None \<Rightarrow>
          (let first = (case first_shell_word content of None \<Rightarrow> [] | Some w \<Rightarrow> w)
           in if trim (drop (length first) content) = [] then is_bare_shell_prefix first
              else Some False))"

definition is_unsafe_shell_allow_rule :: "permission_rule_value \<Rightarrow> bool option" where
  "is_unsafe_shell_allow_rule v =
     Option.bind
       (if rule_content v = None then is_bare_shell_wildcard_tool_name (tool_name v) else Some False)
       (\<lambda>wildcard.
          if wildcard then Some True
          else if \<not> is_shell_tool_name (tool_name v) then Some False
          else case rule_content v of
            None \<Rightarrow> Some True
          | Some content \<Rightarrow>
              (let content = trim content
               in if content = [] \<or> content = ''*'' then Some True
                  else is_unsafe_shell_command_rule content))"

subsection \<open>The store\<close>

record policy_store =
  rules :: "permission_rule list"

definition new_store :: policy_store where
  "new_store = \<lparr>rules = []\<rparr>"

definition try_push_rule :: "permission_rule \<Rightarrow> policy_store \<Rightarrow> policy_store option" where
  "try_push_rule r s =
     (case (if rule_behavior r = Allow then is_unsafe_shell_allow_rule (rule_value r) else Some False) of
        None \<Rightarrow> None
      | Some True \<Rightarrow> Some s
      | Some False \<Rightarrow> Some (s\<lparr>rules := rules s @ [r]\<rparr>))"

definition rule_from_string ::
  "permission_behavior \<Rightarrow> permission_rule_source \<Rightarrow> string \<Rightarrow> permission_rule" where
  "rule_from_string behavior source raw =
     \<lparr>rule_source = source, rule_behavior = behavior,
      rule_value = permission_rule_value_from_string raw\<rparr>"

fun push_strings ::
  "string list \<Rightarrow> permission_behavior \<Rightarrow> permission_rule_source \<Rightarrow> policy_store \<Rightarrow> policy_store option" where
  "push_strings [] behavior source s = Some s"
| "push_strings (raw # raws) behavior source s =
     Option.bind (try_push_rule (rule_from_string behavior source raw) s)
       (push_strings raws behavior source)"

definition from_strings ::
  "string list \<Rightarrow> permission_behavior \<Rightarrow> permission_rule_source \<Rightarrow> policy_store option" where
  "from_strings strings behavior source = push_strings strings behavior source new_store"

definition store_allow :: "string \<Rightarrow> permission_rule_source \<Rightarrow> policy_store \<Rightarrow> policy_store option" where
  "store_allow raw source s = try_push_rule (rule_from_string Allow source raw) s"

definition store_deny :: "string \<Rightarrow> permission_rule_source \<Rightarrow> policy_store \<Rightarrow> policy_store option" where
  "store_deny raw source s = try_push_rule (rule_from_string Deny source raw) s"

definition store_clear :: "policy_store \<Rightarrow> policy_store" where
  "store_clear s = s\<lparr>rules := []\<rparr>"

subsection \<open>Matching one command\<close>

definition prefix_rest :: "string list \<Rightarrow> nat \<Rightarrow> string" where
  "prefix_rest argv n = join '' '' (drop n argv)"

definition matches_bash_prefix_rule :: "string \<Rightarrow> string \<Rightarrow> string list \<Rightarrow> bool" where
  "matches_bash_prefix_rule head tail argv =
     (let head_tokens = split_ascii_whitespace head
      in if head_tokens = [] \<or> length argv < length head_tokens then False
         else if \<not> list_all (\<lambda>(h, c). eq_ignore_ascii_case h c) (zip head_tokens argv) then False
         else if tail = ''*'' \<or> tail = [] then True
         else prefix_rest argv (length head_tokens) = tail)"

definition matches_bash_exact_segment_rule :: "string \<Rightarrow> string list \<Rightarrow> bool" where
  "matches_bash_exact_segment_rule rule argv =
     (let rule_tokens = split_ascii_whitespace rule
      in length rule_tokens = length argv \<and>
         list_all (\<lambda>(r, c). eq_ignore_ascii_case r c) (zip rule_tokens argv))"

definition matches_bash_segment_rule :: "string \<Rightarrow> string list \<Rightarrow> bool" where
  "matches_bash_segment_rule rule argv =
     (case split_once ch_colon rule of
        Some (head, tail) \<Rightarrow> matches_bash_prefix_rule head tail argv
      | None \<Rightarrow> matches_bash_exact_segment_rule rule argv)"

definition powershell_token_matches :: "nat \<Rightarrow> string \<Rightarrow> string \<Rightarrow> bool" where
  "powershell_token_matches index rule_token command_token =
     (if index = 0 then cmdlet_names_match rule_token command_token
      else eq_ignore_ascii_case rule_token command_token)"

definition powershell_tokens_match :: "string list \<Rightarrow> string list \<Rightarrow> bool" where
  "powershell_tokens_match rule_tokens argv =
     list_all (\<lambda>(index, r, c). powershell_token_matches index r c)
       (zip [0..<length rule_tokens] (zip rule_tokens argv))"

definition matches_powershell_prefix_rule :: "string \<Rightarrow> string \<Rightarrow> string list \<Rightarrow> bool" where
  "matches_powershell_prefix_rule head tail argv =
     (let head_tokens = split_ascii_whitespace head
      in if head_tokens = [] \<or> length argv < length head_tokens then False
         else if \<not> powershell_tokens_match head_tokens argv then False
         else if tail = ''*'' \<or> tail = [] then True
         else prefix_rest argv (length head_tokens) = tail)"

definition matches_powershell_exact_segment_rule :: "string \<Rightarrow> string list \<Rightarrow> bool" where
  "matches_powershell_exact_segment_rule rule argv =
     (let rule_tokens = split_ascii_whitespace rule
      in length rule_tokens = length argv \<and> powershell_tokens_match rule_tokens argv)"

definition matches_exact_bash_rule :: "string \<Rightarrow> string \<Rightarrow> bool" where
  "matches_exact_bash_rule rule command \<longleftrightarrow> ch_colon \<notin> set rule \<and> command = rule"

definition bash_chain_segments_allowed ::
  "string list list \<Rightarrow> permission_rule list \<Rightarrow> string \<Rightarrow> bool" where
  "bash_chain_segments_allowed segs rs tool =
     list_all (\<lambda>segment. list_ex (\<lambda>r.
       rule_behavior r = Allow \<and> rule_applies_to_tool (tool_name (rule_value r)) tool \<and>
       is_some_and (\<lambda>content. matches_bash_segment_rule content segment)
         (rule_content (rule_value r))) rs) segs"

definition powershell_chain_segments_allowed ::
  "string list list \<Rightarrow> permission_rule list \<Rightarrow> string \<Rightarrow> bool" where
  "powershell_chain_segments_allowed segs rs tool =
     list_all (\<lambda>segment. list_ex (\<lambda>r.
       rule_behavior r = Allow \<and> rule_applies_to_tool (tool_name (rule_value r)) tool \<and>
       is_some_and (\<lambda>content. case split_once ch_colon content of
           Some (head, tail) \<Rightarrow> matches_powershell_prefix_rule head tail segment
         | None \<Rightarrow> matches_powershell_exact_segment_rule content segment)
         (rule_content (rule_value r))) rs) segs"

definition matches_bash_rule ::
  "string \<Rightarrow> permission_behavior \<Rightarrow> string \<Rightarrow> permission_rule list \<Rightarrow> string \<Rightarrow> bool" where
  "matches_bash_rule rule behavior command rs tool =
     (let command = trim command
      in if command = [] then False
         else if matches_exact_bash_rule rule command then True
         else case split_once ch_colon rule of
           None \<Rightarrow> False
         | Some (head, tail) \<Rightarrow>
             (case (behavior, parse_bash_shape command) of
                (_, UnsafeComplex) \<Rightarrow> False
              | (_, Simple argv) \<Rightarrow> matches_bash_prefix_rule head tail argv
              | (Allow, SafeAndChain segs) \<Rightarrow> bash_chain_segments_allowed segs rs tool
              | (_, SafeAndChain segs) \<Rightarrow> list_ex (matches_bash_prefix_rule head tail) segs))"

definition matches_powershell_rule ::
  "string \<Rightarrow> permission_behavior \<Rightarrow> string \<Rightarrow> permission_rule list \<Rightarrow> string \<Rightarrow> bool" where
  "matches_powershell_rule rule behavior command rs tool =
     (let command = trim command
      in if command = [] then False
         else if matches_exact_bash_rule rule command then True
         else case split_once ch_colon rule of
           None \<Rightarrow> False
         | Some (head, tail) \<Rightarrow>
             (case (behavior, parse_powershell_shape command) of
                (_, UnsafeComplex) \<Rightarrow> False
              | (_, Simple argv) \<Rightarrow> matches_powershell_prefix_rule head tail argv
              | (Allow, SafeAndChain segs) \<Rightarrow> powershell_chain_segments_allowed segs rs tool
              | (_, SafeAndChain segs) \<Rightarrow> list_ex (matches_powershell_prefix_rule head tail) segs))"

subsection \<open>Matching paths, servers and hosts\<close>

definition matches_path_rule :: "string \<Rightarrow> string \<Rightarrow> bool" where
  "matches_path_rule rule path =
     (let rule = replace_char ch_backslash ch_slash rule;
          path = replace_char ch_backslash ch_slash path
      in if rule = ''*'' \<or> rule = ''**'' then True
         else case strip_suffix ''/**'' rule of
           Some p \<Rightarrow> path = p \<or> prefix (p @ ''/'') path
         | None \<Rightarrow>
             (case strip_suffix ''/*'' rule of
                Some p \<Rightarrow>
                  (case strip_prefix (p @ ''/'') path of
                     Some rest \<Rightarrow> ch_slash \<notin> set rest
                   | None \<Rightarrow> False)
              | None \<Rightarrow> rule = path))"

definition matches_mcp_rule :: "string \<Rightarrow> string \<Rightarrow> string \<Rightarrow> bool" where
  "matches_mcp_rule rule server name =
     (case split_once ch_colon rule of
        Some (r_server, r_name) \<Rightarrow>
          if r_server \<noteq> [] \<and> \<not> eq_ignore_ascii_case r_server server then False
          else if r_name = ''*'' \<or> r_name = [] then True
          else eq_ignore_ascii_case r_name name
      | None \<Rightarrow> eq_ignore_ascii_case rule server)"

definition matches_literal_or_star :: "string \<Rightarrow> string \<Rightarrow> bool" where
  "matches_literal_or_star rule target \<longleftrightarrow> rule = ''*'' \<or> rule = target"

definition web_fetch_hostname :: "url_host \<Rightarrow> string \<Rightarrow> string option" where
  "web_fetch_hostname H url =
     (case H url of None \<Rightarrow> None | Some host \<Rightarrow> if host = [] then None else Some (lower host))"

definition matches_web_fetch_rule ::
  "url_host \<Rightarrow> string \<Rightarrow> permission_behavior \<Rightarrow> string \<Rightarrow> bool" where
  "matches_web_fetch_rule H rule behavior url =
     (let is_dot = (\<lambda>c. c = ch_dot);
          rule_host = Option.bind (strip_prefix ''domain:'' rule) (\<lambda>host.
            let host = trim_end_by is_dot (trim host)
            in if host \<noteq> [] \<and> ch_star \<notin> set host then Some host else None)
      in case rule_host of
           None \<Rightarrow> behavior \<noteq> Allow
         | Some rule_host \<Rightarrow>
             (case web_fetch_hostname H url of
                None \<Rightarrow> False
              | Some host \<Rightarrow> eq_ignore_ascii_case (trim_end_by is_dot host) rule_host))"

subsection \<open>Matching a call\<close>

text \<open>\<open>input.get(key).and_then(as_str).unwrap_or("")\<close>.\<close>

definition str_or_empty :: "string \<Rightarrow> json \<Rightarrow> string" where
  "str_or_empty key input = (case get_str key input of Some s \<Rightarrow> s | None \<Rightarrow> [])"

text \<open>The directories an \<open>Agent\<close> call asks for.\<close>

definition agent_targets :: "json \<Rightarrow> string list" where
  "agent_targets input =
     (let cwd = (case get_str ''cwd'' input of Some c \<Rightarrow> [c] | None \<Rightarrow> []);
          roots = (case Option.bind (json_get ''allowed_roots'' input) as_array of
                     Some vs \<Rightarrow> List.map_filter as_str vs | None \<Rightarrow> [])
      in filter (\<lambda>target. target \<noteq> []) (map trim (cwd @ roots)))"

definition matches_input ::
  "url_host \<Rightarrow> permission_rule_value \<Rightarrow> permission_behavior \<Rightarrow> string \<Rightarrow> json \<Rightarrow>
   permission_rule list \<Rightarrow> bool" where
  "matches_input H v behavior tool input rs =
     (case rule_content v of
        None \<Rightarrow> True
      | Some content \<Rightarrow>
          if content = [] then True
          else case file_target_field_for_name tool of
            Some fld \<Rightarrow> matches_path_rule content (str_or_empty fld input)
          | None \<Rightarrow>
              if tool \<in> {''Bash'', ''BashTool''} then
                matches_bash_rule content behavior (str_or_empty ''command'' input) rs tool
              else if tool \<in> {''PowerShell'', ''PowerShellTool''} then
                matches_powershell_rule content behavior (str_or_empty ''command'' input) rs tool
              else if tool \<in> {''Mcp'', ''McpTool'', ''MCPTool''} then
                matches_mcp_rule content (str_or_empty ''server'' input) (str_or_empty ''name'' input)
              else if tool \<in> {''Agent'', ''AgentTool''} then
                (let targets = agent_targets input
                 in if targets = [] then behavior \<noteq> Allow
                    else list_all (matches_path_rule content) targets)
              else if tool \<in> {''Glob'', ''GlobTool'', ''Grep'', ''GrepTool''} then
                matches_literal_or_star content (str_or_empty ''pattern'' input)
              else if tool \<in> {''WebFetch'', ''WebFetchTool''} then
                matches_web_fetch_rule H content behavior (str_or_empty ''url'' input)
              else if tool \<in> {''Monitor'', ''MonitorTool''} then
                (case get_str ''command'' input of
                   Some command \<Rightarrow> matches_bash_rule content behavior command rs tool
                 | None \<Rightarrow> matches_web_fetch_rule H content behavior (str_or_empty ''ws'' input))
              else (case (case get_str ''target'' input of
                            Some t \<Rightarrow> Some t | None \<Rightarrow> get_str ''name'' input) of
                      Some target \<Rightarrow> matches_literal_or_star content target
                    | None \<Rightarrow> behavior \<noteq> Allow))"

definition normalize_shell_input :: "string \<Rightarrow> json \<Rightarrow> string option \<Rightarrow> json" where
  "normalize_shell_input tool input cwd =
     (case cwd of
        None \<Rightarrow> input
      | Some cwd \<Rightarrow>
          if cwd = [] then input
          else if tool \<notin> {''Bash'', ''PowerShell'', ''BashTool'', ''PowerShellTool''} then input
          else case get_str ''command'' input of
            None \<Rightarrow> input
          | Some command \<Rightarrow>
              (case (if tool \<in> {''Bash'', ''BashTool''} then strip_cwd_prefix command cwd
                     else case strip_powershell_cwd_prefix command cwd of
                       Some tail \<Rightarrow> Some tail
                     | None \<Rightarrow> strip_cwd_prefix command cwd) of
                 Some tail \<Rightarrow> json_insert ''command'' (JString tail) input
               | None \<Rightarrow> input))"

text \<open>Whether one rule of the store covers the call; \<open>rs\<close> are all rules of the store.\<close>

definition rule_matches ::
  "url_host \<Rightarrow> permission_rule list \<Rightarrow> string \<Rightarrow> json \<Rightarrow> permission_rule \<Rightarrow> bool" where
  "rule_matches H rs tool input r \<longleftrightarrow>
     rule_applies_to_tool (tool_name (rule_value r)) tool \<and>
     matches_input H (rule_value r) (rule_behavior r) tool input rs"

subsection \<open>The evaluator\<close>

text \<open>One pass over the rules for one target of a batch: the deny rule that ends it, or whether
  the target is allowed, whether some rule asks, and the first allow rule seen.\<close>

fun batch_rules ::
  "url_host \<Rightarrow> permission_rule list \<Rightarrow> string \<Rightarrow> json \<Rightarrow> permission_rule list \<Rightarrow>
   bool \<Rightarrow> bool \<Rightarrow> permission_rule_value option \<Rightarrow>
   permission_rule_value + bool \<times> bool \<times> permission_rule_value option" where
  "batch_rules H rs tool target_input [] allowed ask first_allow = Inr (allowed, ask, first_allow)"
| "batch_rules H rs tool target_input (r # rest) allowed ask first_allow =
     (if \<not> rule_matches H rs tool target_input r
      then batch_rules H rs tool target_input rest allowed ask first_allow
      else case rule_behavior r of
        Deny \<Rightarrow> Inl (rule_value r)
      | Ask \<Rightarrow> batch_rules H rs tool target_input rest allowed True first_allow
      | Allow \<Rightarrow> batch_rules H rs tool target_input rest True ask
                   (case first_allow of None \<Rightarrow> Some (rule_value r) | Some v \<Rightarrow> Some v))"

fun batch_targets ::
  "url_host \<Rightarrow> permission_rule list \<Rightarrow> string \<Rightarrow> json list \<Rightarrow>
   bool \<Rightarrow> bool \<Rightarrow> permission_rule_value option \<Rightarrow>
   permission_rule_value + bool \<times> bool \<times> permission_rule_value option" where
  "batch_targets H rs tool [] all_allowed ask first_allow = Inr (all_allowed, ask, first_allow)"
| "batch_targets H rs tool (target # targets) all_allowed ask first_allow =
     (case get_str ''path'' target of
        None \<Rightarrow> batch_targets H rs tool targets False ask first_allow
      | Some path \<Rightarrow>
          (case batch_rules H rs tool (JObject [(''file_path'', JString path)]) rs False ask first_allow of
             Inl v \<Rightarrow> Inl v
           | Inr (allowed, ask', first_allow') \<Rightarrow>
               batch_targets H rs tool targets (all_allowed \<and> allowed) ask' first_allow'))"

definition evaluate_read_batch ::
  "url_host \<Rightarrow> policy_store \<Rightarrow> string \<Rightarrow> json \<Rightarrow> (policy_outcome \<times> bool) option" where
  "evaluate_read_batch H s tool input =
     (if \<not> is_some_and (\<lambda>f. facts_name f = ''Read'') (builtin_tool_facts_for_name tool) \<or>
         json_get ''targets'' input = None
      then None
      else case Option.bind (json_get ''targets'' input) as_array of
        None \<Rightarrow> Some (PassThrough, False)
      | Some targets \<Rightarrow>
          (case batch_targets H (rules s) tool targets (targets \<noteq> []) False None of
             Inl v \<Rightarrow> Some (AutoDeny v, False)
           | Inr (all_allowed, ask, first_allow) \<Rightarrow>
               Some (if all_allowed \<and> \<not> ask then AutoAllow (the first_allow) else PassThrough, ask)))"

fun evaluate_rules ::
  "url_host \<Rightarrow> permission_rule list \<Rightarrow> string \<Rightarrow> json \<Rightarrow> permission_rule list \<Rightarrow>
   permission_rule_value option \<Rightarrow> policy_outcome" where
  "evaluate_rules H rs tool input [] matching_allow =
     (case matching_allow of Some v \<Rightarrow> AutoAllow v | None \<Rightarrow> PassThrough)"
| "evaluate_rules H rs tool input (r # rest) matching_allow =
     (if \<not> rule_applies_to_tool (tool_name (rule_value r)) tool
      then evaluate_rules H rs tool input rest matching_allow
      else if \<not> matches_input H (rule_value r) (rule_behavior r) tool input rs
      then evaluate_rules H rs tool input rest matching_allow
      else case rule_behavior r of
        Deny \<Rightarrow> AutoDeny (rule_value r)
      | Allow \<Rightarrow> evaluate_rules H rs tool input rest
                   (case matching_allow of None \<Rightarrow> Some (rule_value r) | Some v \<Rightarrow> Some v)
      | Ask \<Rightarrow> evaluate_rules H rs tool input rest matching_allow)"

definition evaluate ::
  "url_host \<Rightarrow> policy_store \<Rightarrow> string \<Rightarrow> json \<Rightarrow> string option \<Rightarrow> policy_outcome" where
  "evaluate H s tool input cwd =
     (case evaluate_read_batch H s tool input of
        Some (outcome, _) \<Rightarrow> outcome
      | None \<Rightarrow> evaluate_rules H (rules s) tool (normalize_shell_input tool input cwd) (rules s) None)"

subsection \<open>The broker\<close>

record permission_request =
  title :: string
  message :: string
  request_options :: "string list"
  request_metadata :: "json option"

definition new_request :: "string \<Rightarrow> string \<Rightarrow> permission_request" where
  "new_request t m = \<lparr>title = t, message = m, request_options = [], request_metadata = None\<rparr>"

definition with_options :: "string list \<Rightarrow> permission_request \<Rightarrow> permission_request" where
  "with_options opts req = req\<lparr>request_options := opts\<rparr>"

definition with_metadata :: "json \<Rightarrow> permission_request \<Rightarrow> permission_request" where
  "with_metadata meta req = req\<lparr>request_metadata := Some meta\<rparr>"

record permission_decision =
  behavior :: permission_behavior
  updated_input :: "json option"
  request :: "permission_request option"
  reason :: "string option"

definition decision_allow :: "json \<Rightarrow> permission_decision" where
  "decision_allow input =
     \<lparr>behavior = Allow, updated_input = Some input, request = None, reason = None\<rparr>"

definition decision_deny :: "string \<Rightarrow> permission_decision" where
  "decision_deny why =
     \<lparr>behavior = Deny, updated_input = None, request = None, reason = Some why\<rparr>"

definition decision_ask :: "permission_request \<Rightarrow> json option \<Rightarrow> permission_decision" where
  "decision_ask req input =
     \<lparr>behavior = Ask, updated_input = input, request = Some req, reason = None\<rparr>"

text \<open>The errors a tool call ends in; the tool comes first.\<close>

datatype tool_error =
    UnknownTool string
  | InvalidInput string string "int option"
  | PermissionDenied string string
  | CallCancelled string string
  | Presented string string string string
  | Execution string string

text \<open>\<open>resolve\<close>: the error of this broker, or what the delegate answers to the decision it is
  handed. The delegate is a parameter.\<close>

definition resolve ::
  "url_host \<Rightarrow> policy_store \<Rightarrow> (json \<Rightarrow> permission_decision \<Rightarrow> 'r) \<Rightarrow> string \<Rightarrow> json \<Rightarrow>
   string option \<Rightarrow> permission_decision \<Rightarrow> tool_error + 'r" where
  "resolve H s delegate tool input cwd decision =
     (let effective_input = (case updated_input decision of Some i \<Rightarrow> i | None \<Rightarrow> input);
          batch = evaluate_read_batch H s tool effective_input
      in if batch \<noteq> None \<and> behavior decision = Deny then Inr (delegate input decision)
         else if batch = Some (PassThrough, True) \<and> behavior decision \<noteq> Deny then
           Inr (delegate input (decision_ask
             (new_request ''Read files'' ''A stored rule requires approval for this batch.'')
             (Some effective_input)))
         else case (case batch of
                      Some (outcome, _) \<Rightarrow> outcome
                    | None \<Rightarrow> evaluate H s tool input cwd) of
           AutoAllow matched \<Rightarrow>
             Inr (delegate input (decision_allow (if batch \<noteq> None then effective_input else input)))
         | AutoDeny matched \<Rightarrow>
             Inl (PermissionDenied tool
               (''denied by stored rule: '' @ tool_name matched @
                (case rule_content matched of Some c \<Rightarrow> ''('' @ c @ '')'' | None \<Rightarrow> [])))
         | PassThrough \<Rightarrow> Inr (delegate input decision))"

end
