(* ===== verification/Policy_Facts.thy ===== *)
theory Policy_Facts
  imports Policy
begin

text \<open>
  What the policy of \<open>Policy\<close> guarantees: deny rules decide first wherever they stand in the
  store, the order of the rules does not matter, deny rules only ever restrict, no reachable
  store holds a rule that allows every shell command, chains are allowed link by link, and a
  batch of reads is judged like its reads.
\<close>

subsection \<open>The evaluator as a choice of the first rule\<close>

definition deny_hit :: "url_host \<Rightarrow> permission_rule list \<Rightarrow> string \<Rightarrow> json \<Rightarrow> permission_rule \<Rightarrow> bool" where
  "deny_hit H rs tool input r \<longleftrightarrow> rule_behavior r = Deny \<and> rule_matches H rs tool input r"

definition allow_hit :: "url_host \<Rightarrow> permission_rule list \<Rightarrow> string \<Rightarrow> json \<Rightarrow> permission_rule \<Rightarrow> bool" where
  "allow_hit H rs tool input r \<longleftrightarrow> rule_behavior r = Allow \<and> rule_matches H rs tool input r"

definition ask_hit :: "url_host \<Rightarrow> permission_rule list \<Rightarrow> string \<Rightarrow> json \<Rightarrow> permission_rule \<Rightarrow> bool" where
  "ask_hit H rs tool input r \<longleftrightarrow> rule_behavior r = Ask \<and> rule_matches H rs tool input r"

lemmas hit_defs = deny_hit_def allow_hit_def ask_hit_def

lemma evaluate_rules_first:
  "evaluate_rules H rs tool input xs m =
     (case find (deny_hit H rs tool input) xs of
        Some r \<Rightarrow> AutoDeny (rule_value r)
      | None \<Rightarrow>
          (case m of
             Some v \<Rightarrow> AutoAllow v
           | None \<Rightarrow>
               (case find (allow_hit H rs tool input) xs of
                  Some r \<Rightarrow> AutoAllow (rule_value r)
                | None \<Rightarrow> PassThrough)))"
proof (induction xs arbitrary: m)
  case Nil
  then show ?case by (simp split: option.split)
next
  case (Cons r xs)
  then show ?case
    by (cases "rule_behavior r"; cases "rule_matches H rs tool input r")
      (auto simp: hit_defs [of H rs tool input r] rule_matches_def split: option.split)
qed

lemma batch_rules_first:
  "batch_rules H rs tool input xs allowed ask m =
     (case find (deny_hit H rs tool input) xs of
        Some r \<Rightarrow> Inl (rule_value r)
      | None \<Rightarrow> Inr (allowed \<or> list_ex (allow_hit H rs tool input) xs,
                     ask \<or> list_ex (ask_hit H rs tool input) xs,
                     (case m of Some v \<Rightarrow> Some v
                      | None \<Rightarrow> map_option rule_value (find (allow_hit H rs tool input) xs))))"
proof (induction xs arbitrary: allowed ask m)
  case Nil
  then show ?case by (simp split: option.split)
next
  case (Cons r xs)
  then show ?case
    by (cases "rule_behavior r"; cases "rule_matches H rs tool input r")
      (auto simp: hit_defs [of H rs tool input r] split: option.split)
qed

lemma find_None_list_ex: "find P xs = None \<longleftrightarrow> \<not> list_ex P xs"
  by (auto simp: find_None_iff list_ex_iff)

lemma find_Some_list_ex: "find P xs = Some r \<Longrightarrow> list_ex P xs"
  using find_None_list_ex [of P xs] by simp

subsection \<open>The class of an outcome\<close>

fun outcome_class :: "policy_outcome \<Rightarrow> permission_behavior option" where
  "outcome_class (AutoAllow v) = Some Allow"
| "outcome_class (AutoDeny v) = Some Deny"
| "outcome_class PassThrough = None"

lemma outcome_class_rules:
  "outcome_class (evaluate_rules H rs tool input xs None) =
     (if list_ex (deny_hit H rs tool input) xs then Some Deny
      else if list_ex (allow_hit H rs tool input) xs then Some Allow else None)"
  unfolding evaluate_rules_first
  by (auto simp: find_None_list_ex dest: find_Some_list_ex split: option.split)

text \<open>The targets of a batch: the single read a target stands for.\<close>

definition target_input :: "json \<Rightarrow> json option" where
  "target_input target =
     map_option (\<lambda>path. JObject [(''file_path'', JString path)]) (get_str ''path'' target)"

definition target_hit ::
  "(json \<Rightarrow> permission_rule \<Rightarrow> bool) \<Rightarrow> permission_rule list \<Rightarrow> json \<Rightarrow> bool" where
  "target_hit hit rs target \<longleftrightarrow> is_some_and (\<lambda>input. list_ex (hit input) rs) (target_input target)"

lemma find_cases_list_ex:
  "(case find P xs of Some r \<Rightarrow> f r | None \<Rightarrow> z) = (if list_ex P xs then f (the (find P xs)) else z)"
  using find_None_list_ex [of P xs] by (cases "find P xs") auto

lemma batch_targets_verdict:
  "map_sum (\<lambda>_. ()) (\<lambda>(all_allowed, ask, _). (all_allowed, ask)) (batch_targets H rs tool ts b ask m) =
     (if list_ex (target_hit (deny_hit H rs tool) rs) ts then Inl ()
      else Inr (b \<and> list_all (target_hit (allow_hit H rs tool) rs) ts,
                ask \<or> list_ex (target_hit (ask_hit H rs tool) rs) ts))"
proof (induction ts arbitrary: b ask m)
  case Nil
  then show ?case by simp
next
  case (Cons t ts)
  show ?case
  proof (cases "get_str ''path'' t")
    case None
    with Cons show ?thesis by (simp add: target_hit_def [of _ _ t] target_input_def [of t])
  next
    case (Some path)
    with Cons show ?thesis
      by (simp add: target_hit_def [of _ _ t] target_input_def [of t] batch_rules_first find_cases_list_ex)
  qed
qed

lemma batch_targets_class:
  "(\<exists>v. batch_targets H rs tool ts b ask m = Inl v) \<longleftrightarrow> list_ex (target_hit (deny_hit H rs tool) rs) ts"
  "batch_targets H rs tool ts b ask m = Inr (b', ask', m') \<Longrightarrow>
     b' = (b \<and> list_all (target_hit (allow_hit H rs tool) rs) ts) \<and>
     ask' = (ask \<or> list_ex (target_hit (ask_hit H rs tool) rs) ts)"
  using batch_targets_verdict [of H rs tool ts b ask m]
  by (cases "batch_targets H rs tool ts b ask m"; auto split: if_splits)+

lemma batch_targets_first_allow:
  "batch_targets H rs tool ts b ask m = Inr (True, ask', m') \<Longrightarrow> ts \<noteq> [] \<or> m \<noteq> None \<Longrightarrow> m' \<noteq> None"
proof (induction ts arbitrary: b ask m)
  case Nil
  then show ?case by simp
next
  case (Cons t ts)
  from Cons.prems(1) obtain path where path: "get_str ''path'' t = Some path"
    by (cases "get_str ''path'' t") (use batch_targets_class(2) in fastforce)+
  then obtain allowed ask1 m1 where
      1: "batch_rules H rs tool (JObject [(''file_path'', JString path)]) rs False ask m = Inr (allowed, ask1, m1)"
    and 2: "batch_targets H rs tool ts (b \<and> allowed) ask1 m1 = Inr (True, ask', m')"
    using Cons.prems(1) by (auto split: sum.splits)
  have "allowed" using batch_targets_class(2) [OF 2] by simp
  with 1 have "list_ex (allow_hit H rs tool (JObject [(''file_path'', JString path)])) rs"
    unfolding batch_rules_first by (simp split: option.splits)
  then obtain r where "find (allow_hit H rs tool (JObject [(''file_path'', JString path)])) rs = Some r"
    using find_None_list_ex not_None_eq by metis
  with 1 have "m1 \<noteq> None"
    unfolding batch_rules_first by (auto split: option.splits)
  with Cons.IH [OF 2] show ?case by simp
qed

text \<open>A call is a batch when \<open>Read\<close> is called with a \<open>targets\<close> field.\<close>

definition is_batch :: "string \<Rightarrow> json \<Rightarrow> bool" where
  "is_batch tool input \<longleftrightarrow>
     is_some_and (\<lambda>f. facts_name f = ''Read'') (builtin_tool_facts_for_name tool) \<and>
     json_get ''targets'' input \<noteq> None"

definition batch_list :: "json \<Rightarrow> json list option" where
  "batch_list input = Option.bind (json_get ''targets'' input) as_array"

lemma evaluate_not_batch:
  "\<not> is_batch tool input \<Longrightarrow>
     evaluate H s tool input cwd = evaluate_rules H (rules s) tool (normalize_shell_input tool input cwd) (rules s) None"
  by (auto simp: evaluate_def evaluate_read_batch_def is_batch_def)

lemma evaluate_batch_class:
  assumes "is_batch tool input"
  shows "outcome_class (evaluate H s tool input cwd) =
    (case batch_list input of
       None \<Rightarrow> None
     | Some ts \<Rightarrow>
         if list_ex (target_hit (deny_hit H (rules s) tool) (rules s)) ts then Some Deny
         else if ts \<noteq> [] \<and> list_all (target_hit (allow_hit H (rules s) tool) (rules s)) ts \<and>
                 \<not> list_ex (target_hit (ask_hit H (rules s) tool) (rules s)) ts then Some Allow
         else None)"
proof (cases "batch_list input")
  case None
  with assms show ?thesis
    by (auto simp: evaluate_def evaluate_read_batch_def is_batch_def batch_list_def)
next
  case (Some ts)
  let ?b = "batch_targets H (rules s) tool ts (ts \<noteq> []) False None"
  from assms Some have e: "evaluate H s tool input cwd =
      (case ?b of Inl v \<Rightarrow> AutoDeny v
       | Inr (all_allowed, ask, first_allow) \<Rightarrow>
           if all_allowed \<and> \<not> ask then AutoAllow (the first_allow) else PassThrough)"
    by (auto simp: evaluate_def evaluate_read_batch_def is_batch_def batch_list_def split: sum.split)
  show ?thesis
  proof (cases ?b)
    case (Inl v)
    then have "list_ex (target_hit (deny_hit H (rules s) tool) (rules s)) ts"
      using batch_targets_class(1) by blast
    with Inl Some e show ?thesis by simp
  next
    case (Inr r)
    then obtain b' ask' m' where r: "?b = Inr (b', ask', m')" by (cases r) auto
    then have "\<not> list_ex (target_hit (deny_hit H (rules s) tool) (rules s)) ts"
      using batch_targets_class(1) [of H "rules s" tool ts] by (metis sum.distinct(1))
    with batch_targets_class(2) [OF r] r Some e show ?thesis by simp
  qed
qed

lemma evaluate_class:
  assumes "\<not> is_batch tool input"
  shows "outcome_class (evaluate H s tool input cwd) =
    (let hit = (\<lambda>h. list_ex (h H (rules s) tool (normalize_shell_input tool input cwd)) (rules s))
     in if hit deny_hit then Some Deny else if hit allow_hit then Some Allow else None)"
  using assms by (simp add: evaluate_not_batch outcome_class_rules Let_def)

subsection \<open>Only the allow rules of the store matter to a match\<close>

definition allows :: "permission_rule list \<Rightarrow> permission_rule set" where
  "allows rs = {r \<in> set rs. rule_behavior r = Allow}"

lemma chain_allowed_cong:
  assumes "allows rs = allows rs'"
  shows "bash_chain_segments_allowed segs rs tool = bash_chain_segments_allowed segs rs' tool"
    and "powershell_chain_segments_allowed segs rs tool = powershell_chain_segments_allowed segs rs' tool"
proof -
  have "(\<exists>r \<in> set rs. rule_behavior r = Allow \<and> Q r) \<longleftrightarrow> (\<exists>r \<in> set rs'. rule_behavior r = Allow \<and> Q r)" for Q
    using assms by (auto simp: allows_def set_eq_iff)
  then show "bash_chain_segments_allowed segs rs tool = bash_chain_segments_allowed segs rs' tool"
    and "powershell_chain_segments_allowed segs rs tool = powershell_chain_segments_allowed segs rs' tool"
    unfolding bash_chain_segments_allowed_def powershell_chain_segments_allowed_def list_ex_iff list_all_iff
    by simp_all
qed

lemma matches_input_cong:
  assumes "allows rs = allows rs'"
  shows "matches_input H v b tool input rs = matches_input H v b tool input rs'"
proof -
  have "matches_bash_rule rule b command rs tool = matches_bash_rule rule b command rs' tool"
    and "matches_powershell_rule rule b command rs tool = matches_powershell_rule rule b command rs' tool"
    for rule b command
    by (simp_all only: matches_bash_rule_def matches_powershell_rule_def chain_allowed_cong [OF assms])
  then show ?thesis by (simp only: matches_input_def)
qed

lemma hits_cong:
  assumes "allows rs = allows rs'"
  shows "deny_hit H rs tool = deny_hit H rs' tool" and "allow_hit H rs tool = allow_hit H rs' tool"
    and "ask_hit H rs tool = ask_hit H rs' tool"
  using matches_input_cong [OF assms]
  by (simp_all add: fun_eq_iff hit_defs rule_matches_def)

lemma list_ex_set: "set xs = set ys \<Longrightarrow> list_ex P xs = list_ex P ys"
  by (simp add: list_ex_iff)

lemma target_hit_set: "set rs = set rs' \<Longrightarrow> target_hit h rs = target_hit h rs'"
  by (simp add: fun_eq_iff target_hit_def list_ex_iff)

subsection \<open>Rules and shells\<close>

text \<open>Every name a rule can have to apply to a shell call is a shell tool name.\<close>

definition shell_calls :: "string list" where
  "shell_calls = [''Bash'', ''BashTool'', ''PowerShell'', ''PowerShellTool'', ''Monitor'', ''MonitorTool'']"

lemma shell_call_names:
  "list_all (\<lambda>tool. is_shell_tool_name tool \<and> \<not> prefix ''mcp__'' tool \<and>
     (case builtin_tool_facts_for_name tool of
        None \<Rightarrow> True
      | Some f \<Rightarrow> umbrella (kind f) = [] \<and> list_all is_shell_tool_name (facts_name f # aliases f))) shell_calls"
  by code_simp

lemma rule_applies_cases:
  assumes "rule_applies_to_tool rt tool"
  shows "eq_ignore_ascii_case rt tool \<or> prefix ''mcp__'' tool \<or>
    (\<exists>f. builtin_tool_facts_for_name tool = Some f \<and>
       (rt \<in> set (facts_name f # aliases f) \<or> rt \<in> set (umbrella (kind f)))) \<or>
    tool = ''Write'' \<or> tool = ''Mcp''"
proof -
  have "mcp_server_scope_matches rt tool \<Longrightarrow> prefix ''mcp__'' tool"
    by (auto simp: mcp_server_scope_matches_def strip_prefix_def is_some_and_iff split: option.splits if_splits)
  moreover have "facts_match f rt \<Longrightarrow> rt \<in> set (facts_name f # aliases f)" for f
    by (auto simp: facts_match_def tool_matches_name_def)
  ultimately show ?thesis
    using assms unfolding rule_applies_to_tool_def is_some_and_iff by (metis (no_types, lifting))
qed

lemma applies_to_shell:
  assumes "rule_applies_to_tool rt tool" and "tool \<in> set shell_calls"
  shows "is_shell_tool_name rt"
proof -
  from assms(2) shell_call_names have t: "is_shell_tool_name tool" "\<not> prefix ''mcp__'' tool"
    and f: "builtin_tool_facts_for_name tool = Some f \<Longrightarrow>
      umbrella (kind f) = [] \<and> list_all is_shell_tool_name (facts_name f # aliases f)" for f
    by (auto simp: list_all_iff)
  have "eq_ignore_ascii_case rt tool \<Longrightarrow> is_shell_tool_name rt"
    using t(1) unfolding is_shell_tool_name_def list_ex_iff by (meson eq_ignore_ascii_case_trans)
  moreover have "tool \<noteq> ''Write''" "tool \<noteq> ''Mcp''"
    using assms(2) by (auto simp: shell_calls_def)
  moreover have "is_shell_tool_name rt" if "builtin_tool_facts_for_name tool = Some g"
    "rt \<in> set (facts_name g # aliases g) \<or> rt \<in> set (umbrella (kind g))" for g
    using f [OF that(1)] that(2) by (auto simp: list_all_iff)
  ultimately show ?thesis using rule_applies_cases [OF assms(1)] t(2) by blast
qed

subsection \<open>Reachable stores\<close>

inductive store_reachable :: "policy_store \<Rightarrow> bool" where
  new: "store_reachable new_store"
| push: "store_reachable s \<Longrightarrow> try_push_rule r s = Some s' \<Longrightarrow> store_reachable s'"
| clear: "store_reachable s \<Longrightarrow> store_reachable (store_clear s)"

definition store_safe :: "policy_store \<Rightarrow> bool" where
  "store_safe s \<longleftrightarrow>
     (\<forall>r \<in> set (rules s). rule_behavior r = Allow \<longrightarrow> is_unsafe_shell_allow_rule (rule_value r) = Some False)"

lemma try_push_rule_rules:
  "try_push_rule r s = Some s' \<Longrightarrow>
     rules s' = rules s \<or>
     (rules s' = rules s @ [r] \<and> (rule_behavior r = Allow \<longrightarrow> is_unsafe_shell_allow_rule (rule_value r) = Some False))"
  by (auto simp: try_push_rule_def split: option.splits if_splits bool.splits)

lemma push_strings_reachable:
  "push_strings raws b src s = Some s' \<Longrightarrow> store_reachable s \<Longrightarrow> store_reachable s'"
  by (induction raws arbitrary: s) (auto simp: bind_eq_Some_conv intro: store_reachable.push)

lemma reachable_safe: "store_reachable s \<Longrightarrow> store_safe s"
proof (induction rule: store_reachable.induct)
  case new
  then show ?case by (simp add: store_safe_def new_store_def)
next
  case (push s r s')
  then show ?case using try_push_rule_rules [OF push.hyps(2)] by (auto simp: store_safe_def)
next
  case (clear s)
  then show ?case by (simp add: store_safe_def store_clear_def)
qed

subsection \<open>Shell calls\<close>

text \<open>The command a rule is matched against.\<close>

definition judged_command :: "string \<Rightarrow> string \<Rightarrow> string option \<Rightarrow> string" where
  "judged_command tool command cwd =
     (case cwd of None \<Rightarrow> command | Some d \<Rightarrow> command_without_cwd_prefix tool command d)"

lemma normalize_shell_command:
  assumes "tool \<in> {''Bash'', ''BashTool'', ''PowerShell'', ''PowerShellTool''}"
    and "get_str ''command'' input = Some command"
  shows "get_str ''command'' (normalize_shell_input tool input cwd) = Some (judged_command tool command cwd)"
  using assms get_str_object [OF assms(2)]
  by (auto simp: normalize_shell_input_def judged_command_def command_without_cwd_prefix_def
      get_str_insert split: option.split)

lemma bash_facts:
  assumes "tool \<in> {''Bash'', ''BashTool''}"
  shows "\<not> is_batch tool input" and "file_target_field_for_name tool = None" and "tool \<in> set shell_calls"
  using assms by (auto simp: is_batch_def file_target_field_for_name_def facts_of_builtin
      facts_showing_def shell_calls_def)

lemma safe_shell_content:
  assumes "store_safe s" and "r \<in> set (rules s)" and "rule_behavior r = Allow"
    and "rule_applies_to_tool (tool_name (rule_value r)) tool" and "tool \<in> set shell_calls"
  shows "\<exists>content. rule_content (rule_value r) = Some content \<and> content \<noteq> [] \<and>
    trim content \<noteq> [] \<and> is_unsafe_shell_command_rule (trim content) = Some False"
proof -
  have "is_unsafe_shell_allow_rule (rule_value r) = Some False"
    using assms(1-3) by (simp add: store_safe_def)
  moreover have "is_shell_tool_name (tool_name (rule_value r))"
    using assms(4,5) by (rule applies_to_shell)
  moreover have "trim [] = []" by (simp add: trim_eq_iff)
  ultimately show ?thesis
    by (auto simp: is_unsafe_shell_allow_rule_def Let_def bind_eq_Some_conv split: option.splits if_splits)
qed

text \<open>What an allow rule of a safe store needs to cover a Bash call.\<close>

lemma bash_allow_hit:
  assumes "store_safe s" and "tool \<in> {''Bash'', ''BashTool''}" and "r \<in> set (rules s)"
    and "allow_hit H (rules s) tool input r" and "get_str ''command'' input = Some command"
  shows "\<exists>content. rule_content (rule_value r) = Some content \<and>
    rule_applies_to_tool (tool_name (rule_value r)) tool \<and>
    is_unsafe_shell_command_rule (trim content) = Some False \<and>
    matches_bash_rule content Allow command (rules s) tool"
proof -
  from assms(4) have a: "rule_behavior r = Allow" "rule_applies_to_tool (tool_name (rule_value r)) tool"
    and m: "matches_input H (rule_value r) Allow tool input (rules s)"
    by (auto simp: allow_hit_def rule_matches_def)
  from safe_shell_content [OF assms(1,3) a bash_facts(3) [OF assms(2)]]
  obtain content where c: "rule_content (rule_value r) = Some content" "content \<noteq> []"
    "is_unsafe_shell_command_rule (trim content) = Some False" by blast
  have "matches_bash_rule content Allow command (rules s) tool"
    using m c assms(2,5) bash_facts(2) [OF assms(2)]
    by (simp add: matches_input_def str_or_empty_def)
  with a c show ?thesis by blast
qed

lemma auto_allow_rule:
  assumes "\<not> is_batch tool input" and "evaluate H s tool input cwd = AutoAllow v"
  shows "\<exists>r \<in> set (rules s). allow_hit H (rules s) tool (normalize_shell_input tool input cwd) r \<and> v = rule_value r"
    and "\<forall>r \<in> set (rules s). \<not> deny_hit H (rules s) tool (normalize_shell_input tool input cwd) r"
  using assms
  by (auto simp: evaluate_not_batch evaluate_rules_first find_None_iff find_Some_iff split: option.splits)

lemma bash_prefix_segment:
  "split_once ch_colon content = Some (head, tail) \<Longrightarrow>
     matches_bash_segment_rule content argv = matches_bash_prefix_rule head tail argv"
  by (simp add: matches_bash_segment_rule_def)

lemma bash_chain_iff:
  "bash_chain_segments_allowed segs rs tool \<longleftrightarrow>
     (\<forall>argv \<in> set segs. \<exists>r \<in> set rs.
        rule_behavior r = Allow \<and> rule_applies_to_tool (tool_name (rule_value r)) tool \<and>
        is_some_and (\<lambda>content. matches_bash_segment_rule content argv) (rule_content (rule_value r)))"
  by (simp add: bash_chain_segments_allowed_def list_all_iff list_ex_iff)

lemma matches_bash_allow:
  assumes "matches_bash_rule content Allow command rs tool"
  shows "content = trim command \<or>
    (case parse_bash_shape (trim command) of
       UnsafeComplex \<Rightarrow> False
     | Simple argv \<Rightarrow> matches_bash_segment_rule content argv
     | SafeAndChain segs \<Rightarrow> bash_chain_segments_allowed segs rs tool)"
  using assms
  by (auto simp: matches_bash_rule_def matches_exact_bash_rule_def Let_def bash_prefix_segment
      split: if_splits option.splits bash_shape.splits)

subsection \<open>Bare shells\<close>

lemma head_word_of_wildcard_rule:
  assumes "split_once ch_colon content = Some (head, tail)" and "tail = [] \<or> tail = ''*''"
    and "split_ascii_whitespace head = w # ws"
    and "\<forall>c \<in> set w. \<not> is_whitespace c" and "ch_dquote \<notin> set w" and "ch_squote \<notin> set w"
  shows "is_unsafe_shell_command_rule (trim content) = is_bare_shell_prefix w"
proof -
  let ?h = "dropWhile is_ascii_whitespace head"
  from words_by_first [OF assms(3)] have w: "w = takeWhile (\<lambda>c. \<not> is_ascii_whitespace c) ?h" "w \<noteq> []" .
  then obtain c cs where h: "?h = c # cs" and cw: "c \<in> set w" by (cases ?h) (auto split: if_splits)
  with assms(4-6) have c: "\<not> is_whitespace c" "c \<noteq> ch_dquote" "c \<noteq> ch_squote" by auto
  have d: "dropWhile is_whitespace head = c # cs"
    using ascii_whitespace_is_whitespace h c(1) by (rule dropWhile_stronger)
  have content: "content = head @ ch_colon # tail" and "ch_colon \<notin> set head"
    using assms(1) by (simp_all add: split_once_Some)
  have nw: "\<not> is_whitespace ch_colon" "\<not> is_whitespace ch_star" by (simp_all add: is_whitespace_def)
  have "dropWhile is_whitespace content = (c # cs) @ ch_colon # tail"
    using d content by (metis dropWhile_append1 dropWhile_eq_Nil_conv list.distinct(1))
  moreover have "trim_end_by is_whitespace ((c # cs) @ ch_colon # tail) = (c # cs) @ ch_colon # tail"
    using assms(2) nw by (auto simp: trim_end_by_def)
  ultimately have t: "trim content = (c # cs) @ ch_colon # tail"
    by (simp add: trim_def trim_start_by_def)
  have "split_ascii_whitespace (c # cs) = w # ws"
    using assms(3) words_by_drop [of is_ascii_whitespace head] h by simp
  then have f: "first_shell_word (c # cs) = Some w"
    using c by (intro first_shell_word_plain) (simp_all add: trim_start_by_def)
  show ?thesis
  proof (cases "tail = []")
    case True
    have "strip_suffix '':*'' (trim content) = None"
      using True t by (cases "strip_suffix '':*'' (trim content)") (auto simp: strip_suffix_Some)
    moreover have "strip_suffix '':'' (trim content) = Some (c # cs)"
      using True t strip_suffix_append [of "'':''" "c # cs"] by simp
    ultimately show ?thesis using f by (simp add: is_unsafe_shell_command_rule_def)
  next
    case False
    then have "strip_suffix '':*'' (trim content) = Some (c # cs)"
      using assms(2) t strip_suffix_append [of "'':*''" "c # cs"] by simp
    then show ?thesis using f by (simp add: is_unsafe_shell_command_rule_def)
  qed
qed

lemma lower_whitespace [simp]: "is_whitespace (to_ascii_lowercase c) = is_whitespace c"
proof -
  have "to_ascii_lowercase c = d \<longleftrightarrow> c = d" if "d \<in> {CHR 0x20, CHR 0x09, CHR 0x0A, CHR 0x0B, CHR 0x0C,
      CHR 0x0D, CHR 0x85, CHR 0xA0}" for d
    by (rule code_lower_other) (use that in \<open>auto simp: code_def\<close>)
  then show ?thesis by (simp add: is_whitespace_def)
qed

text \<open>Words without blanks and quotes, up to case.\<close>

definition plain_word :: "string \<Rightarrow> bool" where
  "plain_word w \<longleftrightarrow> (\<forall>c \<in> set w. \<not> is_whitespace c \<and> c \<noteq> ch_dquote \<and> c \<noteq> ch_squote)"

lemma plain_word_lower: "plain_word (lower w) = plain_word w"
  by (simp add: plain_word_def lower_def)

lemma plain_word_cong: "eq_ignore_ascii_case a b \<Longrightarrow> plain_word a = plain_word b"
  by (metis eq_ignore_ascii_case_def plain_word_lower)

lemma wildcard_rule_spares_shells:
  assumes "is_unsafe_shell_command_rule (trim content) = Some False"
    and "split_once ch_colon content = Some (head, tail)"
    and "matches_bash_prefix_rule head tail (p # args)"
    and "is_bare_shell_prefix p = Some True" and "plain_word p"
  shows "tail \<noteq> [] \<and> tail \<noteq> ''*''"
proof (rule ccontr)
  assume "\<not> (tail \<noteq> [] \<and> tail \<noteq> ''*'')"
  then have tail: "tail = [] \<or> tail = ''*''" by blast
  from assms(3) obtain w ws where w: "split_ascii_whitespace head = w # ws" and e: "eq_ignore_ascii_case w p"
    by (cases "split_ascii_whitespace head")
      (auto simp: matches_bash_prefix_rule_def Let_def split: if_splits)
  from e assms(5) have "plain_word w" using plain_word_cong by blast
  then have "is_unsafe_shell_command_rule (trim content) = is_bare_shell_prefix w"
    by (intro head_word_of_wildcard_rule [OF assms(2) tail w]) (auto simp: plain_word_def)
  with is_bare_shell_prefix_cong [OF e] assms(1,4) show False by simp
qed

subsection \<open>Server scopes\<close>

lemma scope_iff_general:
  "(case strip_prefix p rule of
      None \<Rightarrow> False
    | Some server \<Rightarrow>
        if server = [] \<or> sublist u server then False
        else is_some_and (\<lambda>tail. prefix u tail \<and> length tail > length u)
               (Option.bind (strip_prefix p call) (strip_prefix server))) \<longleftrightarrow>
   (\<exists>server tool. rule = p @ server \<and> call = p @ server @ u @ tool \<and>
      server \<noteq> [] \<and> \<not> sublist u server \<and> tool \<noteq> [])"
proof (cases "strip_prefix p rule")
  case None
  then have "rule \<noteq> p @ server" for server using strip_prefix_append [of p server] by auto
  with None show ?thesis by simp
next
  case (Some server)
  then have "rule = p @ server" by (simp add: strip_prefix_Some)
  with Some show ?thesis
    by (auto simp: is_some_and_iff bind_eq_Some_conv strip_prefix_Some prefix_def)
qed

lemma length_scope_mark: "length ''__'' = 2"
  by simp

subsection \<open>Batches and single reads\<close>

definition single_read :: "string \<Rightarrow> json" where
  "single_read path = JObject [(''file_path'', JString path)]"

definition read_batch :: "string list \<Rightarrow> json" where
  "read_batch paths = JObject [(''targets'', JArray (map (\<lambda>path. JObject [(''path'', JString path)]) paths))]"

lemma is_batch_read_batch: "is_batch ''Read'' (read_batch paths)"
  by (simp add: is_batch_def facts_of_builtin facts_def read_batch_def json_get_def)

lemma batch_list_read_batch:
  "batch_list (read_batch paths) = Some (map (\<lambda>path. JObject [(''path'', JString path)]) paths)"
  by (simp add: read_batch_def batch_list_def json_get_def as_array_def)

lemma not_batch_single_read: "\<not> is_batch ''Read'' (single_read path)"
  by (simp add: is_batch_def single_read_def json_get_def)

lemma normalize_single_read: "normalize_shell_input ''Read'' (single_read path) cwd = single_read path"
  by (simp add: normalize_shell_input_def split: option.split)

lemma target_hit_path:
  "target_hit hit rs (JObject [(''path'', JString path)]) = list_ex (hit (single_read path)) rs"
  by (simp add: target_hit_def target_input_def single_read_def)

subsection \<open>Properties\<close>

text \<open>C14. Precedence: a call that is not a batch of reads is denied by the first deny rule of the
  store that covers it, wherever that stands; else it is allowed by the first allow rule that
  covers it; else nothing is decided. Ask rules decide nothing.\<close>

theorem evaluate_takes_first_deny_then_first_allow:
  assumes "\<not> is_batch tool input"
  shows "evaluate H s tool input cwd =
    (let call = normalize_shell_input tool input cwd
     in case find (deny_hit H (rules s) tool call) (rules s) of
          Some r \<Rightarrow> AutoDeny (rule_value r)
        | None \<Rightarrow>
            (case find (allow_hit H (rules s) tool call) (rules s) of
               Some r \<Rightarrow> AutoAllow (rule_value r)
             | None \<Rightarrow> PassThrough))"
  by (simp add: evaluate_not_batch [OF assms] evaluate_rules_first Let_def split: option.split)

theorem evaluate_takes_first_deny_then_first_allow_witness:
  "evaluate (\<lambda>_. None)
     \<lparr>rules = [rule_from_string Allow UserSettings ''Glob'', rule_from_string Deny UserSettings ''Glob(*.pem)'']\<rparr>
     ''Glob'' (JObject [(''pattern'', JString ''*.pem'')]) None
   = AutoDeny \<lparr>tool_name = ''Glob'', rule_content = Some ''*.pem''\<rparr>"
  by (subst evaluate_takes_first_deny_then_first_allow; code_simp)

text \<open>The order of the rules and their repetition do not matter: two stores with the same
  rules allow, deny or leave open the same calls, batches of reads included.\<close>

theorem evaluate_order_irrelevant:
  assumes "set (rules s) = set (rules s')"
  shows "outcome_class (evaluate H s tool input cwd) = outcome_class (evaluate H s' tool input cwd)"
proof -
  have "allows (rules s) = allows (rules s')" using assms by (simp add: allows_def)
  note h = hits_cong [OF this]
  show ?thesis
  proof (cases "is_batch tool input")
    case True
    show ?thesis
      unfolding evaluate_batch_class [OF True] h target_hit_set [OF assms] ..
  next
    case False
    show ?thesis
      unfolding evaluate_class [OF False] Let_def h list_ex_set [OF assms] ..
  qed
qed

theorem evaluate_order_irrelevant_witness:
  "outcome_class (evaluate (\<lambda>_. None)
      \<lparr>rules = [rule_from_string Deny UserSettings ''Bash(rm:*)'', rule_from_string Allow UserSettings ''Bash(ls:*)'']\<rparr>
      ''Bash'' (JObject [(''command'', JString ''ls && rm x'')]) None) =
   outcome_class (evaluate (\<lambda>_. None)
      \<lparr>rules = [rule_from_string Allow UserSettings ''Bash(ls:*)'', rule_from_string Deny UserSettings ''Bash(rm:*)'']\<rparr>
      ''Bash'' (JObject [(''command'', JString ''ls && rm x'')]) None)"
  by (rule evaluate_order_irrelevant) auto

text \<open>Deny rules only restrict: whatever the call, inserting a deny rule anywhere in the store
  leaves the verdict as it was or turns it into a denial.\<close>

theorem deny_rule_only_restricts:
  assumes "rule_behavior d = Deny"
  shows "outcome_class (evaluate H \<lparr>rules = xs @ d # ys\<rparr> tool input cwd)
    \<in> {outcome_class (evaluate H \<lparr>rules = xs @ ys\<rparr> tool input cwd), Some Deny}"
proof -
  have "allows (xs @ d # ys) = allows (xs @ ys)" using assms by (auto simp: allows_def)
  note h = hits_cong [OF this]
  have not_d: "\<not> allow_hit H rs tool call d" "\<not> ask_hit H rs tool call d" for rs call
    using assms by (simp_all add: hit_defs)
  have t: "target_hit (allow_hit H rs tool) (xs @ d # ys) = target_hit (allow_hit H rs tool) (xs @ ys)"
    "target_hit (ask_hit H rs tool) (xs @ d # ys) = target_hit (ask_hit H rs tool) (xs @ ys)"
    "target_hit (deny_hit H rs tool) (xs @ ys) x \<Longrightarrow> target_hit (deny_hit H rs tool) (xs @ d # ys) x" for rs x
    using not_d by (auto simp: fun_eq_iff target_hit_def is_some_and_iff)
  show ?thesis
  proof (cases "is_batch tool input")
    case True
    have "list_ex (target_hit (deny_hit H rs tool) (xs @ ys)) ts \<Longrightarrow>
        list_ex (target_hit (deny_hit H rs tool) (xs @ d # ys)) ts" for rs ts
      using t(3) by (auto simp: list_ex_iff)
    then show ?thesis
      unfolding evaluate_batch_class [OF True] policy_store.simps h t
      by (simp split: option.split)
  next
    case False
    show ?thesis
      unfolding evaluate_class [OF False] policy_store.simps h Let_def
      using not_d by simp
  qed
qed

theorem deny_rule_only_restricts_witness:
  "outcome_class (evaluate (\<lambda>_. None) \<lparr>rules = [rule_from_string Allow UserSettings ''Glob''] @
       rule_from_string Deny UserSettings ''Glob(*.pem)'' # []\<rparr>
     ''Glob'' (JObject [(''pattern'', JString ''*.pem'')]) None)
   \<in> {outcome_class (evaluate (\<lambda>_. None) \<lparr>rules = [rule_from_string Allow UserSettings ''Glob''] @ []\<rparr>
     ''Glob'' (JObject [(''pattern'', JString ''*.pem'')]) None), Some Deny}"
  by (rule deny_rule_only_restricts) (simp add: rule_from_string_def)



text \<open>C13. A Bash call that runs without a prompt is covered link by link: an allow rule is the
  exact text of the command, or the command is a list of simple commands and every one of them
  is covered by an allow rule of the store. A command the reader cannot vouch for is only ever
  allowed by its exact text.\<close>

theorem bash_allow_covers_every_link:
  assumes "store_reachable s" and "tool \<in> {''Bash'', ''BashTool''}"
    and "get_str ''command'' input = Some command"
    and "evaluate H s tool input cwd = AutoAllow v"
  shows "\<exists>content. rule_content v = Some content \<and>
    (content = trim (judged_command tool command cwd) \<or>
     (case parse_bash_shape (trim (judged_command tool command cwd)) of
        UnsafeComplex \<Rightarrow> False
      | Simple argv \<Rightarrow> matches_bash_segment_rule content argv
      | SafeAndChain segs \<Rightarrow> \<forall>argv \<in> set segs. \<exists>r \<in> set (rules s).
          rule_behavior r = Allow \<and> rule_applies_to_tool (tool_name (rule_value r)) tool \<and>
          is_some_and (\<lambda>content. matches_bash_segment_rule content argv) (rule_content (rule_value r))))"
proof -
  let ?call = "normalize_shell_input tool input cwd"
  let ?c = "judged_command tool command cwd"
  have call: "get_str ''command'' ?call = Some ?c"
    using assms(2,3) by (intro normalize_shell_command) auto
  from auto_allow_rule(1) [OF bash_facts(1) [OF assms(2)] assms(4)] obtain r where r: "r \<in> set (rules s)"
    "allow_hit H (rules s) tool ?call r" "v = rule_value r" by blast
  from bash_allow_hit [OF reachable_safe [OF assms(1)] assms(2) r(1,2) call] r(3) obtain content
    where v: "rule_content v = Some content" and m: "matches_bash_rule content Allow ?c (rules s) tool"
    by blast
  from v matches_bash_allow [OF m] show ?thesis
    by (auto simp: bash_chain_iff split: bash_shape.splits)
qed

theorem bash_allow_covers_every_link_witness:
  "\<exists>content. rule_content \<lparr>tool_name = ''Bash'', rule_content = Some ''ls:*''\<rparr> = Some content"
proof -
  let ?s = "\<lparr>rules = [rule_from_string Allow UserSettings ''Bash(ls:*)'']\<rparr>"
  have "try_push_rule (rule_from_string Allow UserSettings ''Bash(ls:*)'') new_store = Some ?s"
    by code_simp
  then have "store_reachable ?s" using store_reachable.push store_reachable.new by blast
  moreover have "evaluate (\<lambda>_. None) ?s ''Bash'' (JObject [(''command'', JString ''ls -l && ls'')]) None =
      AutoAllow \<lparr>tool_name = ''Bash'', rule_content = Some ''ls:*''\<rparr>"
    by code_simp
  ultimately show ?thesis
    using bash_allow_covers_every_link
      [of ?s "''Bash''" "JObject [(''command'', JString ''ls -l && ls'')]" "''ls -l && ls''"] by auto
qed

text \<open>Bare shells need an exact grant: in a store the operations can build, a Bash call whose
  program is a shell or a launcher (written without blanks or quotes, in any case, with any path)
  is allowed only by a rule that spells out its whole command or its whole argument list; no
  prefix rule covers it.\<close>

theorem bare_shell_needs_exact_grant:
  assumes "store_reachable s" and "tool \<in> {''Bash'', ''BashTool''}"
    and "get_str ''command'' input = Some command"
    and "parse_bash_shape (trim (judged_command tool command cwd)) = Simple (program # args)"
    and "is_bare_shell_prefix program = Some True" and "plain_word program"
    and "evaluate H s tool input cwd = AutoAllow v"
  shows "\<exists>content. rule_content v = Some content \<and>
    (content = trim (judged_command tool command cwd) \<or>
     (\<exists>head tail. split_once ch_colon content = Some (head, tail) \<and> tail \<noteq> [] \<and> tail \<noteq> ''*'' \<and>
        tail = prefix_rest (program # args) (length (split_ascii_whitespace head))))"
proof -
  let ?call = "normalize_shell_input tool input cwd"
  let ?c = "judged_command tool command cwd"
  have call: "get_str ''command'' ?call = Some ?c"
    using assms(2,3) by (intro normalize_shell_command) auto
  from auto_allow_rule(1) [OF bash_facts(1) [OF assms(2)] assms(7)] obtain r where r: "r \<in> set (rules s)"
    "allow_hit H (rules s) tool ?call r" "v = rule_value r" by blast
  from bash_allow_hit [OF reachable_safe [OF assms(1)] assms(2) r(1,2) call] r(3) obtain content
    where v: "rule_content v = Some content" "is_unsafe_shell_command_rule (trim content) = Some False"
    and m: "matches_bash_rule content Allow ?c (rules s) tool" by blast
  show ?thesis
  proof (cases "content = trim ?c")
    case False
    with m assms(4) obtain head tail where p: "split_once ch_colon content = Some (head, tail)"
      "matches_bash_prefix_rule head tail (program # args)"
      by (auto simp: matches_bash_rule_def matches_exact_bash_rule_def Let_def split: if_splits option.splits)
    from wildcard_rule_spares_shells [OF v(2) p assms(5,6)] have t: "tail \<noteq> [] \<and> tail \<noteq> ''*''" .
    with p(2) have "tail = prefix_rest (program # args) (length (split_ascii_whitespace head))"
      by (auto simp: matches_bash_prefix_rule_def Let_def split: if_splits)
    with v(1) p(1) t show ?thesis by blast
  qed (use v(1) in blast)
qed

theorem bare_shell_needs_exact_grant_witness:
  "\<exists>content. rule_content \<lparr>tool_name = ''Bash'', rule_content = Some ''bash:-c ls''\<rparr> = Some content"
proof -
  let ?s = "\<lparr>rules = [rule_from_string Allow UserSettings ''Bash(bash:-c ls)'']\<rparr>"
  let ?i = "JObject [(''command'', JString ''bash -c ls'')]"
  have "try_push_rule (rule_from_string Allow UserSettings ''Bash(bash:-c ls)'') new_store = Some ?s"
    by code_simp
  then have "store_reachable ?s" using store_reachable.push store_reachable.new by blast
  moreover have "evaluate (\<lambda>_. None) ?s ''Bash'' ?i None =
      AutoAllow \<lparr>tool_name = ''Bash'', rule_content = Some ''bash:-c ls''\<rparr>"
    by code_simp
  moreover have "parse_bash_shape (trim (judged_command ''Bash'' ''bash -c ls'' None)) = Simple [''bash'', ''-c'', ''ls'']"
    by code_simp
  moreover have "is_bare_shell_prefix ''bash'' = Some True" "plain_word ''bash''" by code_simp+
  ultimately show ?thesis
    using bare_shell_needs_exact_grant [of ?s "''Bash''" ?i "''bash -c ls''" None] by auto
qed

text \<open>A batch of reads is judged like its reads: it is denied exactly when one of the single
  reads it stands for is denied, and allowed exactly when there is a read, every one is allowed
  and no ask rule covers any.\<close>

theorem batch_of_reads_is_its_reads:
  "(outcome_class (evaluate H s ''Read'' (read_batch paths) cwd) = Some Deny \<longleftrightarrow>
      list_ex (\<lambda>path. outcome_class (evaluate H s ''Read'' (single_read path) cwd) = Some Deny) paths) \<and>
   (outcome_class (evaluate H s ''Read'' (read_batch paths) cwd) = Some Allow \<longleftrightarrow>
      paths \<noteq> [] \<and>
      list_all (\<lambda>path. outcome_class (evaluate H s ''Read'' (single_read path) cwd) = Some Allow \<and>
        \<not> list_ex (ask_hit H (rules s) ''Read'' (single_read path)) (rules s)) paths)"
proof -
  note e = evaluate_batch_class [OF is_batch_read_batch, of H s paths cwd]
    evaluate_class [OF not_batch_single_read, of H s _ cwd] batch_list_read_batch normalize_single_read
  show ?thesis
    by (auto simp: e Let_def list_all_iff list_ex_iff target_hit_path)
qed

text \<open>C20. Writing a rule and judging a call see the same command: on a shell call with a working
  directory the rules are matched against the text \<open>command_without_cwd_prefix\<close> gives, which is
  what the prompt records; and that text is the command itself when it was wrapped in a
  \<open>cd\<close> into that directory.\<close>

theorem authoring_and_evaluation_agree:
  assumes "tool \<in> {''Bash'', ''BashTool'', ''PowerShell'', ''PowerShellTool''}"
    and "get_str ''command'' input = Some command" and "cwd \<noteq> []"
  shows "get_str ''command'' (normalize_shell_input tool input (Some cwd)) =
      Some (command_without_cwd_prefix tool command cwd) \<and>
    (\<forall>rest. tool = ''Bash'' \<and> command = ''cd '' @ cwd @ '' && '' @ rest \<and> trim cwd = cwd \<and>
       ch_amp \<notin> set cwd \<and> ch_dquote \<notin> set cwd \<and> ch_squote \<notin> set cwd \<and> trim rest = rest \<and> rest \<noteq> [] \<longrightarrow>
       command_without_cwd_prefix tool command cwd = rest)"
  using normalize_shell_command [OF assms(1,2), of "Some cwd"] assms(3) strip_cwd_prefix_wrapped
  by (auto simp: judged_command_def command_without_cwd_prefix_def)

theorem authoring_and_evaluation_agree_witness:
  "get_str ''command'' (normalize_shell_input ''Bash'' (JObject [(''command'', JString ''cd /w && ls'')]) (Some ''/w''))
     = Some ''ls''"
proof -
  have "command_without_cwd_prefix ''Bash'' ''cd /w && ls'' ''/w'' = ''ls''" by code_simp
  with authoring_and_evaluation_agree
    [of "''Bash''" "JObject [(''command'', JString ''cd /w && ls'')]" "''cd /w && ls''" "''/w''"]
  show ?thesis by simp
qed

text \<open>The broker never asks its delegate about a call a deny rule covers, hands a call no rule
  decides to the delegate unchanged, and turns a call an allow rule covers into an allow decision.\<close>

theorem broker_vetoes_denied_calls:
  assumes "\<not> is_batch tool (case updated_input decision of Some i \<Rightarrow> i | None \<Rightarrow> input)"
    and "\<not> is_batch tool input"
  shows "(list_ex (deny_hit H (rules s) tool (normalize_shell_input tool input cwd)) (rules s) \<longrightarrow>
      (\<exists>why. \<forall>delegate. resolve H s delegate tool input cwd decision = Inl (PermissionDenied tool why))) \<and>
    (\<not> list_ex (deny_hit H (rules s) tool (normalize_shell_input tool input cwd)) (rules s) \<longrightarrow>
      resolve H s delegate tool input cwd decision =
        Inr (delegate input
          (if list_ex (allow_hit H (rules s) tool (normalize_shell_input tool input cwd)) (rules s)
           then decision_allow input else decision)))"
proof -
  have "evaluate_read_batch H s tool (case updated_input decision of Some i \<Rightarrow> i | None \<Rightarrow> input) = None"
    using assms(1) by (auto simp: evaluate_read_batch_def is_batch_def)
  then show ?thesis
    by (auto simp: resolve_def Let_def evaluate_not_batch [OF assms(2)] evaluate_rules_first
        find_cases_list_ex split: if_splits)
qed

theorem broker_vetoes_denied_calls_witness:
  "resolve (\<lambda>_. None) \<lparr>rules = []\<rparr> (\<lambda>input d. d) ''Glob'' (JObject []) None (decision_allow JNull)
     = Inr (decision_allow JNull)"
  using broker_vetoes_denied_calls [where tool = "''Glob''" and decision = "decision_allow JNull"
      and input = "JObject []" and H = "\<lambda>_. None" and s = "\<lparr>rules = []\<rparr>" and cwd = None
      and delegate = "\<lambda>input d. d"]
  by (simp add: is_batch_def decision_allow_def json_get_def)

text \<open>A server-scope rule \<open>mcp__server\<close> covers a call exactly when the call is
  \<open>mcp__server__tool\<close> for some tool name, provided the server name holds no double underscore.\<close>

theorem mcp_server_scope_iff:
  "mcp_server_scope_matches rule call \<longleftrightarrow>
     (\<exists>server tool. rule = ''mcp__'' @ server \<and> call = ''mcp__'' @ server @ ''__'' @ tool \<and>
        server \<noteq> [] \<and> \<not> sublist ''__'' server \<and> tool \<noteq> [])"
  using scope_iff_general [where p = "''mcp__''" and u = "''__''" and rule = rule and call = call]
  by (simp only: mcp_server_scope_matches_def length_scope_mark)

subsection \<open>Findings\<close>

text \<open>A rule written for \<open>Task\<close> still governs the \<open>Agent\<close> tool, through its alias.\<close>

lemma task_rule_governs_agent: "rule_applies_to_tool ''Task'' ''Agent''"
  by code_simp

text \<open>A path rule compares texts, so a parent directory inside the path escapes the prefix.\<close>

lemma path_rule_covers_parent_escape: "matches_path_rule ''src/**'' ''src/../secrets/key''"
  by code_simp

text \<open>Pushing an allow rule whose first word has a character of two bytes four bytes before its end
  panics on the slice of \<open>strip_ascii_suffix\<close>.\<close>

lemma non_ascii_allow_rule_panics:
  "store_allow (''Bash('' @ [CHR 0xE9, CHR 0xE9] @ ''x:*)'') UserSettings new_store = None"
  by code_simp

text \<open>A chain is allowed on the strength of a prefix rule that covers none of its links, as long as
  exact rules cover them; without any prefix rule the same chain is not allowed.\<close>

lemma unrelated_prefix_rule_enables_chain:
  "evaluate (\<lambda>_. None) \<lparr>rules = map (rule_from_string Allow UserSettings) [''Bash(ls)'', ''Bash(pwd)'']\<rparr>
     ''Bash'' (JObject [(''command'', JString ''ls && pwd'')]) None = PassThrough"
  "evaluate (\<lambda>_. None) \<lparr>rules = map (rule_from_string Allow UserSettings) [''Bash(ls)'', ''Bash(pwd)'', ''Bash(git:*)'']\<rparr>
     ''Bash'' (JObject [(''command'', JString ''ls && pwd'')]) None
   = AutoAllow \<lparr>tool_name = ''Bash'', rule_content = Some ''git:*''\<rparr>"
  by code_simp+

end
