(* ===== verification/Permission_Modes.thy ===== *)
theory Permission_Modes
  imports Rule_Value
begin

text \<open>
  The permission modes: \<open>PermissionMode\<close> of \<open>crates/rebon-permissions/src/types.rs\<close>, the
  vocabulary and the default-mode picker of \<open>mode_choice.rs\<close>, the capability table of
  \<open>mode_policy.rs\<close> and the mode questions of \<open>AutoModeHooks\<close> in \<open>denial_sink.rs\<close>.
  The prompt symbols are glyphs outside the character model and are left out.
\<close>

datatype permission_mode =
    AcceptEdits | BypassPermissions | Default | DontAsk | Plan | Auto | Bubble

text \<open>The derived order of the enum is the order of its variants.\<close>

fun mode_rank :: "permission_mode \<Rightarrow> nat" where
  "mode_rank AcceptEdits = 0"
| "mode_rank BypassPermissions = 1"
| "mode_rank Default = 2"
| "mode_rank DontAsk = 3"
| "mode_rank Plan = 4"
| "mode_rank Auto = 5"
| "mode_rank Bubble = 6"

lemma mode_rank_inject: "mode_rank m = mode_rank n \<longleftrightarrow> m = n"
  by (cases m; cases n) simp_all

instantiation permission_mode :: linorder
begin

definition less_eq_permission_mode :: "permission_mode \<Rightarrow> permission_mode \<Rightarrow> bool" where
  "less_eq_permission_mode m n \<longleftrightarrow> mode_rank m \<le> mode_rank n"

definition less_permission_mode :: "permission_mode \<Rightarrow> permission_mode \<Rightarrow> bool" where
  "less_permission_mode m n \<longleftrightarrow> mode_rank m < mode_rank n"

instance
  by standard (auto simp: less_eq_permission_mode_def less_permission_mode_def mode_rank_inject [symmetric])

end

definition mode_as_wire :: "permission_mode \<Rightarrow> string" where
  "mode_as_wire m =
     (case m of
        AcceptEdits \<Rightarrow> ''acceptEdits''
      | BypassPermissions \<Rightarrow> ''bypassPermissions''
      | Default \<Rightarrow> ''default''
      | DontAsk \<Rightarrow> ''dontAsk''
      | Plan \<Rightarrow> ''plan''
      | Auto \<Rightarrow> ''auto''
      | Bubble \<Rightarrow> ''bubble'')"

definition mode_from_wire :: "string \<Rightarrow> permission_mode" where
  "mode_from_wire value =
     (if value = ''acceptEdits'' then AcceptEdits
      else if value = ''bypassPermissions'' then BypassPermissions
      else if value = ''default'' then Default
      else if value = ''dontAsk'' then DontAsk
      else if value = ''plan'' then Plan
      else if value = ''auto'' then Auto
      else Default)"

definition is_session_scoped :: "permission_mode \<Rightarrow> bool" where
  "is_session_scoped m \<longleftrightarrow> m = Plan \<or> m = BypassPermissions"

subsection \<open>The user-addressable modes\<close>

datatype external_permission_mode =
    ExtAcceptEdits | ExtBypassPermissions | ExtDefault | ExtDontAsk | ExtPlan

definition EXTERNAL_PERMISSION_MODES :: "external_permission_mode list" where
  "EXTERNAL_PERMISSION_MODES = [ExtAcceptEdits, ExtBypassPermissions, ExtDefault, ExtDontAsk, ExtPlan]"

definition PERMISSION_MODES :: "permission_mode list" where
  "PERMISSION_MODES = [AcceptEdits, BypassPermissions, Default, DontAsk, Plan, Auto]"

definition external_as_wire :: "external_permission_mode \<Rightarrow> string" where
  "external_as_wire m =
     (case m of
        ExtAcceptEdits \<Rightarrow> ''acceptEdits''
      | ExtBypassPermissions \<Rightarrow> ''bypassPermissions''
      | ExtDefault \<Rightarrow> ''default''
      | ExtDontAsk \<Rightarrow> ''dontAsk''
      | ExtPlan \<Rightarrow> ''plan'')"

definition permission_mode_from :: "external_permission_mode \<Rightarrow> permission_mode" where
  "permission_mode_from m =
     (case m of
        ExtAcceptEdits \<Rightarrow> AcceptEdits
      | ExtBypassPermissions \<Rightarrow> BypassPermissions
      | ExtDefault \<Rightarrow> Default
      | ExtDontAsk \<Rightarrow> DontAsk
      | ExtPlan \<Rightarrow> Plan)"

definition is_external_permission_mode :: "permission_mode \<Rightarrow> bool \<Rightarrow> bool" where
  "is_external_permission_mode m is_internal_build =
     (if \<not> is_internal_build then True else \<not> (m = Auto \<or> m = Bubble))"

definition to_external_permission_mode :: "permission_mode \<Rightarrow> external_permission_mode" where
  "to_external_permission_mode m =
     (case m of
        AcceptEdits \<Rightarrow> ExtAcceptEdits
      | BypassPermissions \<Rightarrow> ExtBypassPermissions
      | Default \<Rightarrow> ExtDefault
      | DontAsk \<Rightarrow> ExtDontAsk
      | Plan \<Rightarrow> ExtPlan
      | Auto \<Rightarrow> ExtDefault
      | Bubble \<Rightarrow> ExtDefault)"

definition permission_mode_title :: "permission_mode \<Rightarrow> string" where
  "permission_mode_title m =
     (case m of
        Default \<Rightarrow> ''Default''
      | Plan \<Rightarrow> ''Plan Mode''
      | AcceptEdits \<Rightarrow> ''Accept edits''
      | BypassPermissions \<Rightarrow> ''Bypass Permissions''
      | DontAsk \<Rightarrow> ''Don'' @ [ch_squote] @ ''t Ask''
      | Auto \<Rightarrow> ''Auto mode''
      | Bubble \<Rightarrow> ''Default'')"

definition permission_mode_short_title :: "permission_mode \<Rightarrow> string" where
  "permission_mode_short_title m =
     (case m of
        Default \<Rightarrow> ''Default''
      | Plan \<Rightarrow> ''Plan''
      | AcceptEdits \<Rightarrow> ''Accept''
      | BypassPermissions \<Rightarrow> ''Bypass''
      | DontAsk \<Rightarrow> ''DontAsk''
      | Auto \<Rightarrow> ''Auto''
      | Bubble \<Rightarrow> ''Default'')"

definition is_default_mode :: "permission_mode option \<Rightarrow> bool" where
  "is_default_mode m \<longleftrightarrow> m = Some Default \<or> m = None"

definition default_mode_picker_options :: "bool \<Rightarrow> bool \<Rightarrow> permission_mode list" where
  "default_mode_picker_options internal_modes_enabled show_auto_in_default_mode_picker =
     (let priority_order = [Default, Plan];
          excluded = [BypassPermissions] @
            (if internal_modes_enabled \<and> \<not> show_auto_in_default_mode_picker then [Auto] else []);
          all_modes = (if internal_modes_enabled then PERMISSION_MODES
                       else map permission_mode_from EXTERNAL_PERMISSION_MODES)
      in priority_order @
         filter (\<lambda>m. m \<notin> set priority_order \<and> m \<notin> set excluded) all_modes)"

subsection \<open>What a mode means for a class of calls\<close>

datatype permission_capability = ReadFiles | WriteFiles | RunCommands | Network | Dangerous

definition permission_mode_capability_behavior ::
  "permission_mode \<Rightarrow> permission_capability \<Rightarrow> permission_behavior" where
  "permission_mode_capability_behavior m c =
     (if c = ReadFiles then Allow
      else if m = BypassPermissions then Allow
      else if m = DontAsk \<or> m = Plan then Deny
      else if c = WriteFiles \<and> (m = AcceptEdits \<or> m = Auto) then Allow
      else if m = Auto \<and> (c = RunCommands \<or> c = Network \<or> c = Dangerous) then Ask
      else Ask)"

subsection \<open>The hooks of auto mode\<close>

text \<open>\<open>PermissionModeProvider\<close>: the mode now, and the mode plan mode was entered from.\<close>

record mode_provider =
  current_mode :: permission_mode
  plan_entered_from :: "permission_mode option"

definition is_auto :: "mode_provider \<Rightarrow> bool" where
  "is_auto p \<longleftrightarrow> current_mode p = Auto"

definition auto_gates :: "mode_provider \<Rightarrow> permission_mode \<Rightarrow> bool" where
  "auto_gates p m =
     (case m of
        Auto \<Rightarrow> True
      | Plan \<Rightarrow> plan_entered_from p = Some Auto
      | _ \<Rightarrow> False)"

definition is_bypass :: "mode_provider \<Rightarrow> bool" where
  "is_bypass p \<longleftrightarrow> current_mode p = BypassPermissions"

subsection \<open>Properties\<close>

text \<open>How far a behavior goes: refusing, asking, running.\<close>

fun leniency :: "permission_behavior \<Rightarrow> nat" where
  "leniency Deny = 0"
| "leniency Ask = 1"
| "leniency Allow = 2"

text \<open>The modes on the wire: what a mode is written as is read back as that mode, except that
  \<open>bubble\<close> and everything unknown read as the default; the user-addressable modes are written
  like the modes they stand for, and mapping a mode to them and back changes only \<open>auto\<close> and
  \<open>bubble\<close>, into the default.\<close>

theorem mode_wire_round_trip:
  "mode_from_wire (mode_as_wire m) = (if m = Bubble then Default else m) \<and>
   mode_as_wire (permission_mode_from e) = external_as_wire e \<and>
   to_external_permission_mode (permission_mode_from e) = e \<and>
   permission_mode_from (to_external_permission_mode m) = (if m = Auto \<or> m = Bubble then Default else m)"
  by (cases m; cases e)
    (simp_all add: mode_from_wire_def mode_as_wire_def external_as_wire_def permission_mode_from_def
      to_external_permission_mode_def)

text \<open>The default-mode picker never offers to bypass permissions or \<open>bubble\<close>, offers no mode
  twice, starts with default and plan, offers auto exactly to internal builds that ask for it,
  and offers every other mode.\<close>

theorem picker_never_offers_bypass:
  "BypassPermissions \<notin> set (default_mode_picker_options internal show_auto) \<and>
   distinct (default_mode_picker_options internal show_auto) \<and>
   take 2 (default_mode_picker_options internal show_auto) = [Default, Plan] \<and>
   set (default_mode_picker_options internal show_auto) =
     {Default, Plan, AcceptEdits, DontAsk} \<union> (if internal \<and> show_auto then {Auto} else {})"
  by (cases internal; cases show_auto)
    (auto simp: default_mode_picker_options_def PERMISSION_MODES_def EXTERNAL_PERMISSION_MODES_def
      permission_mode_from_def)

text \<open>The capability table is ordered: for every class of calls \<open>plan\<close> and \<open>dontAsk\<close> are
  the strictest modes, then default and \<open>bubble\<close>, then accept-edits and auto, and bypass is the
  most lenient; reading is allowed in every mode, and dangerous calls run unasked in bypass only.\<close>

theorem capability_table_is_ordered:
  "(let lenient = (\<lambda>m. leniency (permission_mode_capability_behavior m c))
    in lenient Plan = lenient DontAsk \<and> lenient DontAsk \<le> lenient Default \<and>
       lenient Default = lenient Bubble \<and> lenient Default \<le> lenient AcceptEdits \<and>
       lenient AcceptEdits = lenient Auto \<and> lenient Auto \<le> lenient BypassPermissions) \<and>
   permission_mode_capability_behavior m ReadFiles = Allow \<and>
   (permission_mode_capability_behavior m Dangerous = Allow \<longleftrightarrow> m = BypassPermissions)"
  by (cases c; cases m) (simp_all add: permission_mode_capability_behavior_def)

end
