(* ===== verification/Denial_Store.thy ===== *)
theory Denial_Store
  imports Rust_Prelude "HOL-Library.Word"
begin

text \<open>
  \<open>crates/rebon-permissions/src/auto_mode_denials.rs\<close>: the ring buffer of denied calls, the
  status of a record and what closing the \<open>/permissions\<close> dialog does to the store.

  Records are kept newest first, as in the source; the sequence number is a 64-bit word that
  saturates. A step relation over the operations gives the reachable stores.
\<close>

subsection \<open>Records\<close>

definition AUTO_MODE_DENIAL_DEFAULT_CAPACITY :: nat where
  "AUTO_MODE_DENIAL_DEFAULT_CAPACITY = 20"

datatype denial_status = Pending | Approved | Retried | Resolved

definition status_as_wire :: "denial_status \<Rightarrow> string" where
  "status_as_wire s =
     (case s of
        Pending \<Rightarrow> ''pending''
      | Approved \<Rightarrow> ''approved''
      | Retried \<Rightarrow> ''retried''
      | Resolved \<Rightarrow> ''resolved'')"

record denial_input =
  in_tool_use_id :: string
  in_tool_name :: string
  in_tool_input :: string
  in_reason :: string
  in_display :: string
  in_timestamp_ms :: "64 word"
  in_task_id :: "string option"
  in_conversation_id :: "string option"

record denial =
  denial_id :: string
  denial_tool_use_id :: string
  denial_tool_name :: string
  denial_tool_input :: string
  denial_reason :: string
  denial_display :: string
  denial_timestamp_ms :: "64 word"
  status :: denial_status
  denial_task_id :: "string option"
  denial_conversation_id :: "string option"

definition is_pending :: "denial \<Rightarrow> bool" where
  "is_pending d \<longleftrightarrow> status d = Pending"

definition is_handled :: "denial \<Rightarrow> bool" where
  "is_handled d \<longleftrightarrow> status d = Approved \<or> status d = Retried \<or> status d = Resolved"

subsection \<open>The store\<close>

record denial_store =
  denials :: "denial list"
  next_seq :: "64 word"
  capacity :: nat

definition with_capacity :: "nat \<Rightarrow> denial_store" where
  "with_capacity cap = \<lparr>denials = [], next_seq = 0, capacity = max cap 1\<rparr>"

definition saturating_inc :: "64 word \<Rightarrow> 64 word" where
  "saturating_inc w = (if w = - 1 then w else w + 1)"

definition allocate_id :: "denial_store \<Rightarrow> string \<times> denial_store" where
  "allocate_id s =
     (''auto-mode-denial-'' @ decimal (unat (next_seq s)), s\<lparr>next_seq := saturating_inc (next_seq s)\<rparr>)"

text \<open>The loop that drops records from the back.\<close>

fun pop_back_to :: "nat \<Rightarrow> 'a list \<Rightarrow> 'a list" where
  "pop_back_to cap xs = (if length xs > cap then pop_back_to cap (butlast xs) else xs)"

declare pop_back_to.simps [simp del]

definition record_denial :: "denial_input \<Rightarrow> denial_store \<Rightarrow> string \<times> denial_store" where
  "record_denial input s =
     (let (fresh, s) = allocate_id s;
          d = \<lparr>denial_id = fresh, denial_tool_use_id = in_tool_use_id input,
               denial_tool_name = in_tool_name input, denial_tool_input = in_tool_input input,
               denial_reason = in_reason input, denial_display = in_display input,
               denial_timestamp_ms = in_timestamp_ms input, status = Pending,
               denial_task_id = in_task_id input, denial_conversation_id = in_conversation_id input\<rparr>
      in (fresh, s\<lparr>denials := pop_back_to (capacity s) (d # denials s)\<rparr>))"

definition get_denial :: "string \<Rightarrow> denial_store \<Rightarrow> denial option" where
  "get_denial key s = find (\<lambda>d. denial_id d = key) (denials s)"

definition pending :: "denial_store \<Rightarrow> denial list" where
  "pending s = filter is_pending (denials s)"

text \<open>The first record with the id moves to the target, when its status allows it.\<close>

fun transition_in :: "string \<Rightarrow> denial_status \<Rightarrow> denial_status list \<Rightarrow> denial list \<Rightarrow> bool \<times> denial list" where
  "transition_in key target allowed [] = (False, [])"
| "transition_in key target allowed (d # ds) =
     (if denial_id d = key then
        (if status d \<in> set allowed then (True, d\<lparr>status := target\<rparr> # ds) else (False, d # ds))
      else (let (ok, ds') = transition_in key target allowed ds in (ok, d # ds')))"

definition transition ::
  "string \<Rightarrow> denial_status \<Rightarrow> denial_status list \<Rightarrow> denial_store \<Rightarrow> bool \<times> denial_store" where
  "transition key target allowed s =
     (let (ok, ds) = transition_in key target allowed (denials s) in (ok, s\<lparr>denials := ds\<rparr>))"

definition mark_approved :: "string \<Rightarrow> denial_store \<Rightarrow> bool \<times> denial_store" where
  "mark_approved key s = transition key Approved [Pending] s"

definition mark_retried :: "string \<Rightarrow> denial_store \<Rightarrow> bool \<times> denial_store" where
  "mark_retried key s = transition key Retried [Pending, Approved] s"

definition resolve_denial :: "string \<Rightarrow> denial_store \<Rightarrow> bool \<times> denial_store" where
  "resolve_denial key s = transition key Resolved [Pending, Approved, Retried] s"

definition remove_denial :: "string \<Rightarrow> denial_store \<Rightarrow> bool \<times> denial_store" where
  "remove_denial key s =
     (let ds = filter (\<lambda>d. denial_id d \<noteq> key) (denials s)
      in (length ds \<noteq> length (denials s), s\<lparr>denials := ds\<rparr>))"

definition clear_resolved :: "denial_store \<Rightarrow> nat \<times> denial_store" where
  "clear_resolved s =
     (let ds = filter (\<lambda>d. status d \<noteq> Resolved) (denials s)
      in (length (denials s) - length ds, s\<lparr>denials := ds\<rparr>))"

definition clear_all :: "denial_store \<Rightarrow> denial_store" where
  "clear_all s = s\<lparr>denials := []\<rparr>"

subsection \<open>Closing the dialog\<close>

record close_selection =
  approved_ids :: "string list"
  retry_ids :: "string list"

record replay_request =
  replay_denial_id :: string
  replay_tool_use_id :: string
  replay_tool_name :: string
  replay_tool_input :: string
  replay_reason :: string
  replay_task_id :: "string option"
  replay_conversation_id :: "string option"

record close_outcome =
  to_retry :: "replay_request list"
  approved_only_ids :: "string list"
  missing_ids :: "string list"

definition no_outcome :: close_outcome where
  "no_outcome = \<lparr>to_retry = [], approved_only_ids = [], missing_ids = []\<rparr>"

definition replay_of :: "denial \<Rightarrow> replay_request" where
  "replay_of d =
     \<lparr>replay_denial_id = denial_id d, replay_tool_use_id = denial_tool_use_id d,
      replay_tool_name = denial_tool_name d, replay_tool_input = denial_tool_input d,
      replay_reason = denial_reason d, replay_task_id = denial_task_id d,
      replay_conversation_id = denial_conversation_id d\<rparr>"

definition close_retry ::
  "string \<Rightarrow> denial_store \<times> close_outcome \<Rightarrow> denial_store \<times> close_outcome" where
  "close_retry key acc =
     (let (s, out) = acc
      in case get_denial key s of
           Some d \<Rightarrow>
             (let (ok, s') = mark_retried key s
              in if ok then (s', out\<lparr>to_retry := to_retry out @ [replay_of d]\<rparr>)
                 else (s', out\<lparr>missing_ids := missing_ids out @ [key]\<rparr>))
         | None \<Rightarrow> (s, out\<lparr>missing_ids := missing_ids out @ [key]\<rparr>))"

definition close_approve ::
  "string set \<Rightarrow> string \<Rightarrow> denial_store \<times> close_outcome \<Rightarrow> denial_store \<times> close_outcome" where
  "close_approve retry_set key acc =
     (let (s, out) = acc
      in if key \<in> retry_set then (s, out)
         else case get_denial key s of
           Some d \<Rightarrow>
             (let (ok, s') = mark_approved key s
              in if ok then (s', out\<lparr>approved_only_ids := approved_only_ids out @ [key]\<rparr>)
                 else (s', out\<lparr>missing_ids := missing_ids out @ [key]\<rparr>))
         | None \<Rightarrow> (s, out\<lparr>missing_ids := missing_ids out @ [key]\<rparr>))"

definition resolve_denials_for_permissions_close ::
  "denial_store \<Rightarrow> close_selection \<Rightarrow> denial_store \<times> close_outcome" where
  "resolve_denials_for_permissions_close s sel =
     (let acc = fold close_retry (retry_ids sel) (s, no_outcome)
      in fold (close_approve (set (retry_ids sel))) (approved_ids sel) acc)"

end
