(* ===== verification/Denial_Facts.thy ===== *)
theory Denial_Facts
  imports Denial_Store
begin

text \<open>
  What the denial store guarantees: it never outgrows its capacity, its ids are unique and newest
  first, a record's payload never changes and its status only moves forward, and closing the
  dialog replays every selected record that may still be replayed exactly once.
\<close>

subsection \<open>The parts of the store operations\<close>

lemma pop_back_to_take: "pop_back_to cap xs = take cap xs"
proof (induction cap xs rule: pop_back_to.induct)
  case (1 cap xs)
  show ?case
  proof (cases "length xs > cap")
    case True
    with 1 have "pop_back_to cap xs = take cap (butlast xs)" by (simp add: pop_back_to.simps [of cap xs])
    with True show ?thesis by (simp add: take_butlast)
  next
    case False
    then show ?thesis by (simp add: pop_back_to.simps [of cap xs])
  qed
qed

definition may_move :: "denial_status list \<Rightarrow> denial \<Rightarrow> bool" where
  "may_move allowed d \<longleftrightarrow> status d \<in> set allowed"

lemma transition_in_get:
  "fst (transition_in key target allowed ds) =
     (\<exists>d. find (\<lambda>d. denial_id d = key) ds = Some d \<and> may_move allowed d)"
  "find (\<lambda>d. denial_id d = k) (snd (transition_in key target allowed ds)) =
     map_option (\<lambda>d. if k = key \<and> may_move allowed d then d\<lparr>status := target\<rparr> else d)
       (find (\<lambda>d. denial_id d = k) ds)"
  by (induction ds) (auto simp: may_move_def option.map_ident split: prod.splits)

lemma transition_get [store_simps]:
  "fst (transition key target allowed s) = (\<exists>d. get_denial key s = Some d \<and> may_move allowed d)"
  "get_denial k (snd (transition key target allowed s)) =
     map_option (\<lambda>d. if k = key \<and> may_move allowed d then d\<lparr>status := target\<rparr> else d) (get_denial k s)"
  using transition_in_get [where key = key and target = target and allowed = allowed and ds = "denials s"]
  by (cases "transition_in key target allowed (denials s)"; simp add: transition_def get_denial_def)+

lemma transition_in_ids [simp]:
  "map denial_id (snd (transition_in key target allowed ds)) = map denial_id ds"
  "length (snd (transition_in key target allowed ds)) = length ds"
  by (induction ds) (auto split: prod.splits)

lemma transition_in_origin:
  "d' \<in> set (snd (transition_in key target allowed ds)) \<Longrightarrow>
     \<exists>d \<in> set ds. d' = d \<or> (may_move allowed d \<and> d' = d\<lparr>status := target\<rparr>)"
  by (induction ds) (auto simp: may_move_def split: prod.splits if_splits)

lemma transition_store [simp]:
  "next_seq (snd (transition key target allowed s)) = next_seq s"
  "capacity (snd (transition key target allowed s)) = capacity s"
  "denials (snd (transition key target allowed s)) = snd (transition_in key target allowed (denials s))"
  by (simp_all add: transition_def split: prod.split)

lemmas mark_defs = mark_approved_def mark_retried_def resolve_denial_def

subsection \<open>What closing the dialog does\<close>

text \<open>The first occurrences of a list, in order.\<close>

definition firsts :: "'a list \<Rightarrow> 'a list" where
  "firsts xs = rev (remdups (rev xs))"

lemma firsts_simps [simp]:
  "firsts [] = []"
  "firsts (xs @ [x]) = (if x \<in> set xs then firsts xs else firsts xs @ [x])"
  "set (firsts xs) = set xs" "distinct (firsts xs)"
  by (simp_all add: firsts_def)

definition retriable :: "denial_store \<Rightarrow> string \<Rightarrow> bool" where
  "retriable s key \<longleftrightarrow> is_some_and (may_move [Pending, Approved]) (get_denial key s)"

definition approvable :: "denial_store \<Rightarrow> string \<Rightarrow> bool" where
  "approvable s key \<longleftrightarrow> is_some_and (may_move [Pending]) (get_denial key s)"

definition after_retry :: "string list \<Rightarrow> string \<Rightarrow> denial \<Rightarrow> denial" where
  "after_retry ids k d =
     (if k \<in> set ids \<and> may_move [Pending, Approved] d then d\<lparr>status := Retried\<rparr> else d)"

definition after_close :: "close_selection \<Rightarrow> string \<Rightarrow> denial \<Rightarrow> denial" where
  "after_close sel k d =
     (if k \<in> set (retry_ids sel) then after_retry (retry_ids sel) k d
      else if k \<in> set (approved_ids sel) \<and> may_move [Pending] d then d\<lparr>status := Approved\<rparr>
      else d)"

lemma moved_once [simp]:
  "may_move [Pending, Approved] (d\<lparr>status := Retried\<rparr>) = False"
  "may_move [Pending] (d\<lparr>status := Approved\<rparr>) = False"
  by (simp_all add: may_move_def)

lemma close_retry_step:
  assumes "close_retry key (s, out) = (s', out')"
  shows "out' = (if retriable s key then out\<lparr>to_retry := to_retry out @ [replay_of (the (get_denial key s))]\<rparr>
      else out\<lparr>missing_ids := missing_ids out @ [key]\<rparr>)"
    and "get_denial k s' = get_denial k (snd (mark_retried key s))"
proof -
  have ok: "fst (mark_retried key s) = retriable s key"
    unfolding mark_retried_def transition_get(1) by (auto simp: retriable_def is_some_and_iff)
  show "out' = (if retriable s key then out\<lparr>to_retry := to_retry out @ [replay_of (the (get_denial key s))]\<rparr>
      else out\<lparr>missing_ids := missing_ids out @ [key]\<rparr>)"
    using assms ok
    by (cases "get_denial key s") (auto simp: close_retry_def retriable_def split: prod.splits if_splits)
  show "get_denial k s' = get_denial k (snd (mark_retried key s))"
  proof (cases "get_denial key s")
    case None
    with assms have "s' = s" by (simp add: close_retry_def)
    with None show ?thesis
      by (cases "k = key") (simp_all add: mark_retried_def transition_get option.map_ident)
  next
    case (Some d)
    with assms have "s' = snd (mark_retried key s)"
      by (auto simp: close_retry_def split: prod.splits if_splits)
    then show ?thesis by simp
  qed
qed

lemma close_retry_fold:
  assumes "fold close_retry ids (s, out) = (s', out')"
  shows "to_retry out' = to_retry out @
      map (\<lambda>key. replay_of (the (get_denial key s))) (filter (retriable s) (firsts ids)) \<and>
    approved_only_ids out' = approved_only_ids out \<and>
    (\<forall>k. get_denial k s' = map_option (after_retry ids k) (get_denial k s))"
  using assms
proof (induction ids arbitrary: s' out' rule: rev_induct)
  case Nil
  then show ?case by (simp add: after_retry_def option.map_ident)
next
  case (snoc key ids)
  obtain s1 out1 where f: "fold close_retry ids (s, out) = (s1, out1)" by fastforce
  note ih = snoc.IH [OF f]
  have "close_retry key (s1, out1) = (s', out')" using snoc.prems f by simp
  note step = close_retry_step [OF this]
  have r: "retriable s1 key = (retriable s key \<and> key \<notin> set ids)"
    using ih by (cases "get_denial key s") (auto simp: retriable_def after_retry_def)
  have "get_denial k s' = map_option (after_retry (ids @ [key]) k) (get_denial k s)" for k
    unfolding step(2) mark_retried_def transition_get(2)
    using ih by (cases "get_denial k s") (auto simp: after_retry_def)
  moreover have "key \<notin> set ids \<Longrightarrow> get_denial key s1 = get_denial key s"
    using ih by (simp add: after_retry_def option.map_ident)
  ultimately show ?case using ih step(1) r by simp
qed

lemma close_approve_step:
  assumes "close_approve R key (s, out) = (s', out')"
  shows "to_retry out' = to_retry out \<and>
    approved_only_ids out' = approved_only_ids out @ (if key \<notin> R \<and> approvable s key then [key] else []) \<and>
    get_denial k s' = (if key \<in> R then get_denial k s else get_denial k (snd (mark_approved key s)))"
proof -
  have ok: "fst (mark_approved key s) = approvable s key"
    unfolding mark_approved_def transition_get(1) by (auto simp: approvable_def is_some_and_iff)
  show ?thesis
  proof (cases "get_denial key s")
    case None
    with assms show ?thesis
      by (cases "k = key")
        (auto simp: close_approve_def mark_approved_def transition_get option.map_ident approvable_def split: if_splits)
  next
    case (Some d)
    with assms ok show ?thesis by (auto simp: close_approve_def split: prod.splits if_splits)
  qed
qed

definition after_approve :: "string set \<Rightarrow> string list \<Rightarrow> string \<Rightarrow> denial \<Rightarrow> denial" where
  "after_approve R ids k d =
     (if k \<notin> R \<and> k \<in> set ids \<and> may_move [Pending] d then d\<lparr>status := Approved\<rparr> else d)"

lemma close_approve_fold:
  assumes "fold (close_approve R) ids (s, out) = (s', out')"
  shows "to_retry out' = to_retry out \<and>
    approved_only_ids out' = approved_only_ids out @ filter (\<lambda>key. key \<notin> R \<and> approvable s key) (firsts ids) \<and>
    (\<forall>k. get_denial k s' = map_option (after_approve R ids k) (get_denial k s))"
  using assms
proof (induction ids arbitrary: s' out' rule: rev_induct)
  case Nil
  then show ?case by (simp add: after_approve_def option.map_ident)
next
  case (snoc key ids)
  obtain s1 out1 where f: "fold (close_approve R) ids (s, out) = (s1, out1)" by fastforce
  note ih = snoc.IH [OF f]
  have "close_approve R key (s1, out1) = (s', out')" using snoc.prems f by simp
  note step = close_approve_step [OF this]
  have r: "key \<notin> R \<Longrightarrow> approvable s1 key = (approvable s key \<and> key \<notin> set ids)"
    using ih by (cases "get_denial key s") (auto simp: approvable_def after_approve_def)
  have "get_denial k s' = map_option (after_approve R (ids @ [key]) k) (get_denial k s)" for k
    using step [of k] ih
    by (cases "get_denial k s") (auto simp: mark_approved_def transition_get after_approve_def)
  then show ?case using ih step r by auto
qed

lemma close_outcome:
  assumes "resolve_denials_for_permissions_close s sel = (s', out)"
  shows "to_retry out = map (\<lambda>key. replay_of (the (get_denial key s)))
      (filter (retriable s) (firsts (retry_ids sel))) \<and>
    approved_only_ids out =
      filter (\<lambda>key. key \<notin> set (retry_ids sel) \<and> approvable s key) (firsts (approved_ids sel)) \<and>
    (\<forall>k. get_denial k s' = map_option (after_close sel k) (get_denial k s))"
proof -
  obtain s1 out1 where f: "fold close_retry (retry_ids sel) (s, no_outcome) = (s1, out1)" by fastforce
  with assms have g: "fold (close_approve (set (retry_ids sel))) (approved_ids sel) (s1, out1) = (s', out)"
    by (simp add: resolve_denials_for_permissions_close_def)
  note r = close_retry_fold [OF f] and a = close_approve_fold [OF g]
  have "approvable s1 key = approvable s key" if "key \<notin> set (retry_ids sel)" for key
    using r that by (cases "get_denial key s") (auto simp: approvable_def after_retry_def)
  then have "filter (\<lambda>key. key \<notin> set (retry_ids sel) \<and> approvable s1 key) (firsts (approved_ids sel)) =
      filter (\<lambda>key. key \<notin> set (retry_ids sel) \<and> approvable s key) (firsts (approved_ids sel))"
    by (auto intro: filter_cong)
  moreover have "get_denial k s' = map_option (after_close sel k) (get_denial k s)" for k
    using r a by (cases "get_denial k s") (auto simp: after_close_def after_retry_def after_approve_def)
  ultimately show ?thesis using r a by (simp add: no_outcome_def)
qed

subsection \<open>Reachable stores\<close>

inductive denial_step :: "denial_store \<Rightarrow> denial_store \<Rightarrow> bool" where
  recorded: "denial_step s (snd (record_denial input s))"
| approved: "denial_step s (snd (mark_approved key s))"
| retried: "denial_step s (snd (mark_retried key s))"
| resolved: "denial_step s (snd (resolve_denial key s))"
| removed: "denial_step s (snd (remove_denial key s))"
| cleared_resolved: "denial_step s (snd (clear_resolved s))"
| cleared: "denial_step s (clear_all s)"

inductive_cases denial_stepE: "denial_step s s'"

inductive denial_reachable :: "denial_store \<Rightarrow> bool" where
  start: "denial_reachable (with_capacity cap)"
| step: "denial_reachable s \<Longrightarrow> denial_step s s' \<Longrightarrow> denial_reachable s'"

text \<open>Closing the dialog is a sequence of steps.\<close>

lemma close_retry_reachable: "denial_reachable s \<Longrightarrow> denial_reachable (fst (close_retry key (s, out)))"
  using denial_step.retried [of s key] denial_reachable.step
  by (auto simp: close_retry_def split: option.split prod.split)

lemma close_approve_reachable: "denial_reachable s \<Longrightarrow> denial_reachable (fst (close_approve R key (s, out)))"
  using denial_step.approved [of s key] denial_reachable.step
  by (auto simp: close_approve_def split: option.split prod.split)

lemma fold_reachable:
  assumes "\<And>key s out. denial_reachable s \<Longrightarrow> denial_reachable (fst (f key (s, out)))"
  shows "denial_reachable s \<Longrightarrow> denial_reachable (fst (fold f ids (s, out)))"
  by (induction ids arbitrary: s out) (use assms in \<open>auto, metis prod.collapse\<close>)

lemma close_reachable:
  "denial_reachable s \<Longrightarrow> denial_reachable (fst (resolve_denials_for_permissions_close s sel))"
  unfolding resolve_denials_for_permissions_close_def Let_def
  using fold_reachable [of close_retry] fold_reachable [of "close_approve (set (retry_ids sel))"]
    close_retry_reachable close_approve_reachable by (metis prod.collapse)

text \<open>The sequence number in an id.\<close>

definition id_prefix :: string where
  "id_prefix = ''auto-mode-denial-''"

definition seq_of :: "string \<Rightarrow> nat" where
  "seq_of key = digits_value (drop (length id_prefix) key)"

lemma seq_of_id [simp]: "seq_of (id_prefix @ decimal n) = n"
  by (simp add: seq_of_def digits_value_decimal)

definition ids_ok :: "64 word \<Rightarrow> string list \<Rightarrow> bool" where
  "ids_ok n ids \<longleftrightarrow>
     (\<forall>k \<in> set ids. k = id_prefix @ decimal (seq_of k) \<and> seq_of k < unat n) \<and>
     sorted_wrt (\<lambda>k l. seq_of k > seq_of l) ids"

definition denial_inv :: "denial_store \<Rightarrow> bool" where
  "denial_inv s \<longleftrightarrow>
     1 \<le> capacity s \<and> length (denials s) \<le> capacity s \<and>
     (next_seq s \<noteq> - 1 \<longrightarrow> ids_ok (next_seq s) (map denial_id (denials s)))"

lemma saturating_inc_unat: "saturating_inc w \<noteq> - 1 \<Longrightarrow> w \<noteq> - 1 \<and> unat (saturating_inc w) = unat w + 1"
  by (auto simp: saturating_inc_def) (metis add.commute add_eq_0_iff unatSuc)

lemma ids_ok_filter: "ids_ok n (map denial_id ds) \<Longrightarrow> ids_ok n (map denial_id (filter P ds))"
  by (auto simp: ids_ok_def sorted_wrt_map intro: sorted_wrt_filter)

lemma ids_ok_take: "ids_ok n ids \<Longrightarrow> ids_ok n (take k ids)"
  by (auto simp: ids_ok_def intro: sorted_wrt_take dest: in_set_takeD)

lemma ids_ok_fresh:
  "ids_ok n ids \<Longrightarrow> unat m = unat n + 1 \<Longrightarrow> ids_ok m ((id_prefix @ decimal (unat n)) # ids)"
  by (auto simp: ids_ok_def)

lemma denial_inv_filter:
  assumes "denial_inv s"
  shows "denial_inv (s\<lparr>denials := filter P (denials s)\<rparr>)"
  using assms ids_ok_filter by (auto simp: denial_inv_def intro: le_trans [OF length_filter_le])

lemma denial_inv_ids:
  assumes "denial_inv s" and "map denial_id (denials s') = map denial_id (denials s)"
    and "next_seq s' = next_seq s" and "capacity s' = capacity s"
  shows "denial_inv s'"
  using assms unfolding denial_inv_def by (metis length_map)

definition new_denial :: "string \<Rightarrow> denial_input \<Rightarrow> denial" where
  "new_denial key input =
     \<lparr>denial_id = key, denial_tool_use_id = in_tool_use_id input,
      denial_tool_name = in_tool_name input, denial_tool_input = in_tool_input input,
      denial_reason = in_reason input, denial_display = in_display input,
      denial_timestamp_ms = in_timestamp_ms input, status = Pending,
      denial_task_id = in_task_id input, denial_conversation_id = in_conversation_id input\<rparr>"

lemma record_denial_store:
  "denials (snd (record_denial input s)) =
     take (capacity s) (new_denial (id_prefix @ decimal (unat (next_seq s))) input # denials s)"
  "next_seq (snd (record_denial input s)) = saturating_inc (next_seq s)"
  "capacity (snd (record_denial input s)) = capacity s"
  by (simp_all add: record_denial_def allocate_id_def pop_back_to_take id_prefix_def new_denial_def)

lemma denial_inv_record:
  assumes "denial_inv s"
  shows "denial_inv (snd (record_denial input s))"
proof -
  define d where "d = new_denial (id_prefix @ decimal (unat (next_seq s))) input"
  then have d: "denials (snd (record_denial input s)) = take (capacity s) (d # denials s)"
    "denial_id d = id_prefix @ decimal (unat (next_seq s))"
    by (simp_all add: record_denial_store(1) new_denial_def)
  have "ids_ok (saturating_inc (next_seq s)) (map denial_id (d # denials s))"
    if "saturating_inc (next_seq s) \<noteq> - 1"
    using saturating_inc_unat [OF that] assms d(2) by (simp add: denial_inv_def ids_ok_fresh)
  then show ?thesis
    using assms d record_denial_store(2,3) [of input s]
    by (auto simp: denial_inv_def take_map [symmetric] simp del: take_Suc_Cons intro: ids_ok_take)
qed

lemma denial_inv_clear: "denial_inv s \<Longrightarrow> denial_inv (clear_all s)"
  by (simp add: denial_inv_def clear_all_def ids_ok_def)

lemma denial_inv_step: "denial_step s s' \<Longrightarrow> denial_inv s \<Longrightarrow> denial_inv s'"
  by (induction rule: denial_step.induct)
    (auto intro: denial_inv_record denial_inv_ids denial_inv_filter
      simp: mark_defs remove_denial_def clear_resolved_def Let_def denial_inv_clear)

lemma denial_reachable_inv: "denial_reachable s \<Longrightarrow> denial_inv s"
proof (induction rule: denial_reachable.induct)
  case (start cap)
  then show ?case by (simp add: denial_inv_def with_capacity_def ids_ok_def)
next
  case (step s s')
  then show ?case by (blast intro: denial_inv_step)
qed

lemma ids_ok_distinct: "ids_ok n ids \<Longrightarrow> distinct ids"
proof -
  have "sorted_wrt (\<lambda>k l. seq_of k > seq_of l) ids \<Longrightarrow> distinct ids"
    by (induction ids) auto
  then show "ids_ok n ids \<Longrightarrow> distinct ids" by (simp add: ids_ok_def)
qed

lemma step_seq: "denial_step s s' \<Longrightarrow> next_seq s' = next_seq s \<or> next_seq s' = saturating_inc (next_seq s)"
  by (induction rule: denial_step.induct)
    (simp_all add: record_denial_store mark_defs remove_denial_def clear_resolved_def clear_all_def Let_def)

subsection \<open>Properties\<close>

text \<open>How far a record has come.\<close>

fun status_rank :: "denial_status \<Rightarrow> nat" where
  "status_rank Pending = 0"
| "status_rank Approved = 1"
| "status_rank Retried = 2"
| "status_rank Resolved = 3"

text \<open>C21. The ring buffer: a reachable store never holds more records than its capacity, which is at
  least one; and while its sequence number has not reached the end of its range, no two records
  share an id and the records stand newest first.\<close>

theorem denial_store_bounded_and_unique:
  assumes "denial_reachable s"
  shows "1 \<le> capacity s \<and> length (denials s) \<le> capacity s \<and>
    (next_seq s = - 1 \<or>
      distinct (map denial_id (denials s)) \<and>
      sorted_wrt (\<lambda>k l. seq_of k > seq_of l) (map denial_id (denials s)))"
proof -
  have i: "denial_inv s" using assms by (rule denial_reachable_inv)
  have "distinct (map denial_id (denials s)) \<and>
      sorted_wrt (\<lambda>k l. seq_of k > seq_of l) (map denial_id (denials s))" if "next_seq s \<noteq> - 1"
  proof -
    have o: "ids_ok (next_seq s) (map denial_id (denials s))" using i that by (simp add: denial_inv_def)
    from ids_ok_distinct [OF o] o show ?thesis by (simp add: ids_ok_def)
  qed
  with i show ?thesis unfolding denial_inv_def by blast
qed

definition sample_input :: denial_input where
  "sample_input = \<lparr>in_tool_use_id = ''t1'', in_tool_name = ''Bash'', in_tool_input = ''{}'',
     in_reason = ''r'', in_display = ''d'', in_timestamp_ms = 0, in_task_id = None,
     in_conversation_id = None\<rparr>"

lemma sample_reachable:
  "denial_reachable (snd (record_denial sample_input (with_capacity 0)))"
  using denial_reachable.start denial_step.recorded by (rule denial_reachable.step)

theorem denial_store_bounded_and_unique_witness:
  "length (denials (snd (record_denial sample_input (with_capacity 0)))) \<le> 1"
  using denial_store_bounded_and_unique [OF sample_reachable] record_denial_store(3) [of sample_input "with_capacity 0"]
  by (simp add: with_capacity_def)

text \<open>Records keep their payload and only move forward: across any operation a record that stays
  in the store is the same record up to its status, and the status goes from pending over
  approved and retried to resolved, never back.\<close>

theorem denial_records_only_move_forward:
  assumes "denial_reachable s" and "denial_step s s'" and "next_seq s' \<noteq> - 1"
    and "d \<in> set (denials s)" and "d' \<in> set (denials s')" and "denial_id d' = denial_id d"
  shows "d' = d\<lparr>status := status d'\<rparr> \<and> status_rank (status d) \<le> status_rank (status d')"
proof -
  have "next_seq s \<noteq> - 1"
    using assms(3) step_seq [OF assms(2)] by (auto simp: saturating_inc_def)
  then have ok: "ids_ok (next_seq s) (map denial_id (denials s))"
    using denial_reachable_inv [OF assms(1)] by (simp add: denial_inv_def)
  then have old: "e = d" if "e \<in> set (denials s)" "denial_id e = denial_id d" for e
    using ids_ok_distinct [OF ok] that assms(4) by (auto simp: distinct_map inj_on_def)
  have same: ?thesis if "d' \<in> set (denials s)" using old [OF that assms(6)] by simp
  have moved: ?thesis if "d' \<in> set (snd (transition_in key target allowed (denials s)))"
    "\<forall>x \<in> set allowed. status_rank x \<le> status_rank target" for key target allowed
  proof -
    note moves = that
    obtain e where e: "e \<in> set (denials s)" "d' = e \<or> (may_move allowed e \<and> d' = e\<lparr>status := target\<rparr>)"
      using transition_in_origin [OF moves(1)] by blast
    with assms(6) have "denial_id e = denial_id d" by auto
    with e(1) have "e = d" by (rule old)
    with e(2) moves(2) show ?thesis by (auto simp: may_move_def)
  qed
  from assms(2) show ?thesis
  proof cases
    case (recorded input)
    then have "d' = new_denial (id_prefix @ decimal (unat (next_seq s))) input \<or> d' \<in> set (denials s)"
      using assms(5) by (auto simp: record_denial_store simp del: take_Suc_Cons dest: in_set_takeD)
    moreover have "denial_id d \<noteq> id_prefix @ decimal (unat (next_seq s))"
      using ok assms(4) by (auto simp: ids_ok_def)
    ultimately show ?thesis using same assms(6) by (auto simp: new_denial_def)
  qed (use assms(5) same moved in \<open>auto simp: mark_defs remove_denial_def clear_resolved_def clear_all_def Let_def\<close>)
qed

theorem denial_records_only_move_forward_witness:
  "status_rank Pending \<le> status_rank (status ((hd (denials (snd (record_denial sample_input (with_capacity 0)))))\<lparr>status := Retried\<rparr>))"
proof -
  let ?s = "snd (record_denial sample_input (with_capacity 0))"
  let ?d = "new_denial (id_prefix @ decimal 0) sample_input"
  have s: "denials ?s = [?d]" "next_seq ?s = 1"
    by (simp_all add: record_denial_store with_capacity_def saturating_inc_def)
  have n: "next_seq (snd (mark_retried (denial_id ?d) ?s)) \<noteq> - 1"
    by (simp add: mark_retried_def s)
  have d': "?d\<lparr>status := Retried\<rparr> \<in> set (denials (snd (mark_retried (denial_id ?d) ?s)))"
    by (simp add: mark_retried_def s(1)) (simp add: new_denial_def)
  have "?d \<in> set (denials ?s)" by (simp add: s)
  from denial_records_only_move_forward [OF sample_reachable denial_step.retried n this d']
  show ?thesis by (simp add: s new_denial_def)
qed

text \<open>What closing the dialog does, exactly: the calls replayed are, in the order of the
  selection and each once, the selected records that were pending or approved, with the payload
  that was recorded; the approved ones are the pending records selected for approval and not for
  retry; and every record ends in the status that follows, all others untouched.\<close>

theorem closing_replays_each_selected_record_once:
  "(let (s', out) = resolve_denials_for_permissions_close s sel
    in to_retry out = map (\<lambda>key. replay_of (the (get_denial key s)))
         (filter (retriable s) (firsts (retry_ids sel))) \<and>
       approved_only_ids out =
         filter (\<lambda>key. key \<notin> set (retry_ids sel) \<and> approvable s key) (firsts (approved_ids sel)) \<and>
       (\<forall>k. get_denial k s' = map_option (after_close sel k) (get_denial k s)))"
  using close_outcome by (auto split: prod.split)

text \<open>No call is replayed twice: closing the dialog again, with any selection, replays no record
  that was already replayed by the first closing.\<close>

theorem closing_again_replays_nothing_twice:
  assumes "resolve_denials_for_permissions_close s sel = (s1, out1)"
    and "resolve_denials_for_permissions_close s1 sel' = (s2, out2)"
  shows "set (map replay_denial_id (to_retry out1)) \<inter> set (map replay_denial_id (to_retry out2)) = {}"
proof -
  have key: "get_denial key t = Some d \<Longrightarrow> denial_id d = key" for key t d
    by (auto simp: get_denial_def find_Some_iff)
  have ids: "set (map replay_denial_id (map (\<lambda>key. replay_of (the (get_denial key t))) (filter (retriable t) ks)))
      = {k \<in> set ks. retriable t k}" for t ks
  proof -
    have "retriable t k \<Longrightarrow> replay_denial_id (replay_of (the (get_denial k t))) = k" for k
      using key by (auto simp: retriable_def is_some_and_iff replay_of_def)
    then have "(\<lambda>k. replay_denial_id (replay_of (the (get_denial k t)))) ` {k \<in> set ks. retriable t k} =
        (\<lambda>k. k) ` {k \<in> set ks. retriable t k}"
      by (intro image_cong) auto
    then show ?thesis by (simp add: image_image)
  qed
  have "\<not> retriable s1 k" if "k \<in> set (retry_ids sel)" "retriable s k" for k
    using close_outcome [OF assms(1)] that
    by (auto simp: retriable_def is_some_and_iff after_close_def after_retry_def)
  moreover have "set (map replay_denial_id (to_retry out1)) = {k \<in> set (retry_ids sel). retriable s k}"
    using close_outcome [OF assms(1)] ids [of s "firsts (retry_ids sel)"] by (simp only: firsts_simps)
  moreover have "set (map replay_denial_id (to_retry out2)) = {k \<in> set (retry_ids sel'). retriable s1 k}"
    using close_outcome [OF assms(2)] ids [of s1 "firsts (retry_ids sel')"] by (simp only: firsts_simps)
  ultimately show ?thesis by blast
qed

theorem closing_again_replays_nothing_twice_witness:
  "set (map replay_denial_id (to_retry (snd (resolve_denials_for_permissions_close (with_capacity 3)
      \<lparr>approved_ids = [], retry_ids = [''x'']\<rparr>)))) \<inter>
   set (map replay_denial_id (to_retry (snd (resolve_denials_for_permissions_close
     (fst (resolve_denials_for_permissions_close (with_capacity 3) \<lparr>approved_ids = [], retry_ids = [''x'']\<rparr>))
     \<lparr>approved_ids = [], retry_ids = [''x'']\<rparr>)))) = {}"
  by (rule closing_again_replays_nothing_twice) (rule prod.collapse [symmetric])+

subsection \<open>Findings\<close>

text \<open>The replays come in the order of the selection, not newest first.\<close>

lemma replays_follow_the_selection:
  "(let s = snd (record_denial sample_input (snd (record_denial sample_input (with_capacity 3))))
    in map denial_id (denials s) = [''auto-mode-denial-1'', ''auto-mode-denial-0''] \<and>
       map replay_denial_id (to_retry (snd (resolve_denials_for_permissions_close s
         \<lparr>approved_ids = [], retry_ids = [''auto-mode-denial-0'', ''auto-mode-denial-1'']\<rparr>)))
       = [''auto-mode-denial-0'', ''auto-mode-denial-1''])"
  by code_simp

end
