(* ===== verification/Verdict_Cache.thy ===== *)
theory Verdict_Cache
  imports Rust_Prelude
begin

text \<open>
  \<open>crates/rebon-permissions/src/verdict_cache.rs\<close>: the remembered verdicts of the auto-mode
  classifier and the one-shot exemptions of \<open>/permissions approve\<close>. The mutex around the cache
  and the answers of a poisoned one are not modelled.

  The three queues share one contract, the locale \<open>bounded_fifo\<close>: a queue of distinct keys
  that drops its oldest entries. The lemmas show the bounds, that a denial sticks, and that an
  exemption admits at most one call.
\<close>

subsection \<open>Bounded queues\<close>

fun pop_front_to :: "nat \<Rightarrow> 'a list \<Rightarrow> 'a list" where
  "pop_front_to cap [] = []"
| "pop_front_to cap (x # xs) = (if length (x # xs) > cap then pop_front_to cap xs else x # xs)"

lemma pop_front_to_drop: "pop_front_to cap xs = drop (length xs - cap) xs"
  by (induction xs) (auto simp: Suc_diff_le)

definition fifo_ok :: "nat \<Rightarrow> ('a \<Rightarrow> 'k) \<Rightarrow> 'a list \<Rightarrow> bool" where
  "fifo_ok cap key xs \<longleftrightarrow> length xs \<le> cap \<and> distinct (map key xs)"

locale bounded_fifo =
  fixes cap :: nat and key :: "'a \<Rightarrow> 'k"
  assumes cap_positive: "0 < cap"
begin

lemma empty_ok: "fifo_ok cap key []"
  by (simp add: fifo_ok_def)

lemma push_ok:
  assumes "fifo_ok cap key xs" and "key x \<notin> key ` set xs"
  shows "fifo_ok cap key (pop_front_to cap (xs @ [x]))"
  using assms by (auto simp: fifo_ok_def pop_front_to_drop drop_map [symmetric] simp del: drop_append)

lemma newest_kept: "x \<in> set (pop_front_to cap (xs @ [x]))"
  using cap_positive by (simp add: pop_front_to_drop)

lemma push_keys: "set (pop_front_to cap (xs @ [x])) \<subseteq> insert x (set xs)"
  using set_drop_subset [of "length (xs @ [x]) - cap" "xs @ [x]"] by (simp add: pop_front_to_drop)

lemma retain_ok: "fifo_ok cap key xs \<Longrightarrow> fifo_ok cap key (filter P xs)"
  by (auto simp: fifo_ok_def distinct_map_filter intro: le_trans [OF length_filter_le])

text \<open>The entry under a key that occurs once is found.\<close>

lemma newest_found:
  assumes "key x \<notin> key ` set xs"
  shows "find (\<lambda>y. key y = key x) (pop_front_to cap (xs @ [x])) = Some x"
proof -
  let ?q = "pop_front_to cap (xs @ [x])"
  have only: "y = x" if "y \<in> set ?q" "key y = key x" for y
    using subsetD [OF push_keys that(1)] that(2) assms by (metis image_eqI insertE)
  show ?thesis
  proof (cases "find (\<lambda>y. key y = key x) ?q")
    case None
    with newest_kept [of x xs] show ?thesis unfolding find_None_iff by blast
  next
    case (Some z)
    then have "z \<in> set ?q" and "key z = key x"
      using nth_mem by (fastforce simp: find_Some_iff)+
    with only Some show ?thesis by simp
  qed
qed

end

subsection \<open>The cache\<close>

definition DENIED_CAPACITY :: nat where "DENIED_CAPACITY = 64"
definition EXEMPTION_CAPACITY :: nat where "EXEMPTION_CAPACITY = 32"
definition ALLOWED_CAPACITY :: nat where "ALLOWED_CAPACITY = 128"

interpretation denied_queue: bounded_fifo DENIED_CAPACITY "fst :: string \<times> string \<Rightarrow> string"
  by unfold_locales (simp add: DENIED_CAPACITY_def)

interpretation exemption_queue: bounded_fifo EXEMPTION_CAPACITY "id :: string \<Rightarrow> string"
  by unfold_locales (simp add: EXEMPTION_CAPACITY_def)

interpretation allowed_queue: bounded_fifo ALLOWED_CAPACITY "id :: string \<Rightarrow> string"
  by unfold_locales (simp add: ALLOWED_CAPACITY_def)

record verdict_cache =
  denied :: "(string \<times> string) list"
  exemptions :: "string list"
  allowed :: "string list"

definition empty_cache :: verdict_cache where
  "empty_cache = \<lparr>denied = [], exemptions = [], allowed = []\<rparr>"

definition fingerprint :: "string \<Rightarrow> string \<Rightarrow> string" where
  "fingerprint tool material = tool @ CHR 0x00 # material"

definition denied_reason :: "string \<Rightarrow> string \<Rightarrow> verdict_cache \<Rightarrow> string option" where
  "denied_reason tool material c =
     map_option snd (find (\<lambda>e. fst e = fingerprint tool material) (denied c))"

definition mark_denied :: "string \<Rightarrow> string \<Rightarrow> string \<Rightarrow> verdict_cache \<Rightarrow> bool \<times> verdict_cache" where
  "mark_denied tool material why c =
     (let key = fingerprint tool material
      in if list_ex (\<lambda>e. fst e = key) (denied c) then (False, c)
         else (True, c\<lparr>allowed := filter (\<lambda>e. e \<noteq> key) (allowed c),
                       denied := pop_front_to DENIED_CAPACITY (denied c @ [(key, why)])\<rparr>))"

definition is_allowed :: "string \<Rightarrow> string \<Rightarrow> verdict_cache \<Rightarrow> bool" where
  "is_allowed tool material c = list_ex (\<lambda>e. e = fingerprint tool material) (allowed c)"

definition mark_allowed :: "string \<Rightarrow> string \<Rightarrow> verdict_cache \<Rightarrow> verdict_cache" where
  "mark_allowed tool material c =
     (let key = fingerprint tool material
      in if list_ex (\<lambda>e. e = key) (allowed c) then c
         else c\<lparr>allowed := pop_front_to ALLOWED_CAPACITY (allowed c @ [key])\<rparr>)"

definition forget_verdict :: "string \<Rightarrow> string \<Rightarrow> verdict_cache \<Rightarrow> verdict_cache" where
  "forget_verdict tool material c =
     (let key = fingerprint tool material
      in c\<lparr>denied := filter (\<lambda>e. fst e \<noteq> key) (denied c),
           allowed := filter (\<lambda>e. e \<noteq> key) (allowed c)\<rparr>)"

definition exempt_once :: "string \<Rightarrow> string \<Rightarrow> verdict_cache \<Rightarrow> verdict_cache" where
  "exempt_once tool input c =
     (let key = fingerprint tool input;
          c = c\<lparr>denied := filter (\<lambda>e. fst e \<noteq> key) (denied c)\<rparr>
      in if list_ex (\<lambda>e. e = key) (exemptions c) then c
         else c\<lparr>exemptions := pop_front_to EXEMPTION_CAPACITY (exemptions c @ [key])\<rparr>)"

definition take_exemption :: "string \<Rightarrow> string \<Rightarrow> verdict_cache \<Rightarrow> bool \<times> verdict_cache" where
  "take_exemption tool input c =
     (let key = fingerprint tool input;
          left = filter (\<lambda>e. e \<noteq> key) (exemptions c)
      in (length left \<noteq> length (exemptions c), c\<lparr>exemptions := left\<rparr>))"

subsection \<open>Sequences of operations\<close>

datatype cache_op =
    MarkDenied string string string
  | MarkAllowed string string
  | ForgetVerdict string string
  | ExemptOnce string string
  | TakeExemption string string

fun apply_op :: "cache_op \<Rightarrow> verdict_cache \<Rightarrow> bool \<times> verdict_cache" where
  "apply_op (MarkDenied t m r) c = mark_denied t m r c"
| "apply_op (MarkAllowed t m) c = (True, mark_allowed t m c)"
| "apply_op (ForgetVerdict t m) c = (True, forget_verdict t m c)"
| "apply_op (ExemptOnce t m) c = (True, exempt_once t m c)"
| "apply_op (TakeExemption t m) c = take_exemption t m c"

fun run_ops :: "cache_op list \<Rightarrow> verdict_cache \<Rightarrow> verdict_cache" where
  "run_ops [] c = c"
| "run_ops (op # ops) c = run_ops ops (snd (apply_op op c))"

text \<open>How often an exemption was installed and how often one was taken.\<close>

fun installs :: "string \<Rightarrow> cache_op list \<Rightarrow> nat" where
  "installs key [] = 0"
| "installs key (op # ops) =
     (case op of ExemptOnce t m \<Rightarrow> if fingerprint t m = key then 1 else 0 | _ \<Rightarrow> 0) + installs key ops"

fun admissions :: "string \<Rightarrow> cache_op list \<Rightarrow> verdict_cache \<Rightarrow> nat" where
  "admissions key [] c = 0"
| "admissions key (op # ops) c =
     (case op of
        TakeExemption t m \<Rightarrow> if fingerprint t m = key \<and> fst (apply_op op c) then 1 else 0
      | _ \<Rightarrow> 0) + admissions key ops (snd (apply_op op c))"

lemma fingerprint_inject:
  assumes "CHR 0x00 \<notin> set t" and "CHR 0x00 \<notin> set t'"
  shows "fingerprint t m = fingerprint t' m' \<longleftrightarrow> t = t' \<and> m = m'"
proof
  assume "fingerprint t m = fingerprint t' m'"
  with split_once_append [OF assms(1), of m] split_once_append [OF assms(2), of m']
  have "Some (t, m) = Some (t', m')" unfolding fingerprint_def by metis
  then show "t = t' \<and> m = m'" by simp
qed simp

definition cache_ok :: "verdict_cache \<Rightarrow> bool" where
  "cache_ok c \<longleftrightarrow>
     fifo_ok DENIED_CAPACITY fst (denied c) \<and> fifo_ok EXEMPTION_CAPACITY id (exemptions c) \<and>
     fifo_ok ALLOWED_CAPACITY id (allowed c)"

lemma cache_ok_parts:
  "cache_ok c \<Longrightarrow> fifo_ok DENIED_CAPACITY fst (denied c)"
  "cache_ok c \<Longrightarrow> fifo_ok EXEMPTION_CAPACITY id (exemptions c)"
  "cache_ok c \<Longrightarrow> fifo_ok ALLOWED_CAPACITY id (allowed c)"
  by (simp_all add: cache_ok_def)

lemma cache_ok_mark_denied:
  assumes "cache_ok c"
  shows "cache_ok (snd (mark_denied t m r c))"
proof (cases "list_ex (\<lambda>e. fst e = fingerprint t m) (denied c)")
  case False
  then have "fst (fingerprint t m, r) \<notin> fst ` set (denied c)" by (auto simp: list_ex_iff)
  with False cache_ok_parts [OF assms] show ?thesis
    by (simp add: mark_denied_def Let_def cache_ok_def denied_queue.push_ok allowed_queue.retain_ok)
qed (use assms in \<open>simp add: mark_denied_def Let_def\<close>)

lemma cache_ok_mark_allowed:
  assumes "cache_ok c"
  shows "cache_ok (mark_allowed t m c)"
proof (cases "list_ex (\<lambda>e. e = fingerprint t m) (allowed c)")
  case False
  then have "id (fingerprint t m) \<notin> id ` set (allowed c)" by (auto simp: list_ex_iff)
  from allowed_queue.push_ok [OF cache_ok_parts(3) [OF assms] this] False cache_ok_parts [OF assms]
  show ?thesis by (simp add: mark_allowed_def Let_def cache_ok_def)
qed (use assms in \<open>simp add: mark_allowed_def Let_def\<close>)

lemma cache_ok_exempt_once:
  assumes "cache_ok c"
  shows "cache_ok (exempt_once t m c)"
proof (cases "list_ex (\<lambda>e. e = fingerprint t m) (exemptions c)")
  case True
  with cache_ok_parts [OF assms] show ?thesis
    by (simp add: exempt_once_def Let_def cache_ok_def denied_queue.retain_ok)
next
  case False
  then have "id (fingerprint t m) \<notin> id ` set (exemptions c)" by (auto simp: list_ex_iff)
  from exemption_queue.push_ok [OF cache_ok_parts(2) [OF assms] this] False cache_ok_parts [OF assms]
  show ?thesis by (simp add: exempt_once_def Let_def cache_ok_def denied_queue.retain_ok)
qed

lemma cache_ok_forget: "cache_ok c \<Longrightarrow> cache_ok (forget_verdict t m c)"
  by (simp add: cache_ok_def forget_verdict_def Let_def denied_queue.retain_ok allowed_queue.retain_ok)

lemma cache_ok_take: "cache_ok c \<Longrightarrow> cache_ok (snd (take_exemption t m c))"
  by (simp add: cache_ok_def take_exemption_def Let_def exemption_queue.retain_ok)

lemma cache_ok_apply: "cache_ok c \<Longrightarrow> cache_ok (snd (apply_op op c))"
  by (cases op)
    (simp_all add: cache_ok_mark_denied cache_ok_mark_allowed cache_ok_exempt_once
      cache_ok_forget cache_ok_take)

lemma cache_ok_run: "cache_ok c \<Longrightarrow> cache_ok (run_ops ops c)"
  by (induction ops arbitrary: c) (auto intro: cache_ok_apply)

lemma cache_ok_empty: "cache_ok empty_cache"
  by (simp add: cache_ok_def empty_cache_def denied_queue.empty_ok exemption_queue.empty_ok allowed_queue.empty_ok)

lemma exemption_pushed:
  "key \<in> set (pop_front_to EXEMPTION_CAPACITY (xs @ [x])) \<Longrightarrow> key = x \<or> key \<in> set xs"
  by (drule subsetD [OF exemption_queue.push_keys]) simp

lemma exemptions_kept:
  "exemptions (snd (mark_denied t m r c)) = exemptions c"
  "exemptions (mark_allowed t m c) = exemptions c"
  "exemptions (forget_verdict t m c) = exemptions c"
  by (simp_all add: mark_denied_def mark_allowed_def forget_verdict_def Let_def)

lemma exemptions_installed:
  "key \<in> set (exemptions (exempt_once t m c)) \<Longrightarrow> key = fingerprint t m \<or> key \<in> set (exemptions c)"
  using exemption_pushed [of key "exemptions c" "fingerprint t m"]
  by (auto simp: exempt_once_def Let_def split: if_splits)

lemma exemption_step:
  assumes "key \<in> set (exemptions (snd (apply_op op c)))"
  shows "key \<in> set (exemptions c) \<or> (\<exists>t m. op = ExemptOnce t m \<and> fingerprint t m = key)"
proof (cases op)
  case (ExemptOnce t m)
  with assms exemptions_installed [of key t m c] show ?thesis by auto
next
  case (TakeExemption t m)
  with assms show ?thesis by (simp add: take_exemption_def Let_def)
qed (use assms in \<open>simp_all add: exemptions_kept\<close>)

lemma take_exemption_iff:
  "fst (take_exemption t m c) \<longleftrightarrow> fingerprint t m \<in> set (exemptions c)"
  "fingerprint t m \<notin> set (exemptions (snd (take_exemption t m c)))"
proof -
  have "length (filter P xs) \<noteq> length xs \<longleftrightarrow> (\<exists>x \<in> set xs. \<not> P x)" for P and xs :: "string list"
    by (metis filter_True length_filter_less less_irrefl)
  then show "fst (take_exemption t m c) \<longleftrightarrow> fingerprint t m \<in> set (exemptions c)"
    by (auto simp: take_exemption_def Let_def)
  show "fingerprint t m \<notin> set (exemptions (snd (take_exemption t m c)))"
    by (simp add: take_exemption_def Let_def)
qed

lemma admissions_bound:
  "admissions key ops c \<le> installs key ops + (if key \<in> set (exemptions c) then 1 else 0)"
proof (induction ops arbitrary: c)
  case Nil
  then show ?case by simp
next
  case (Cons op ops)
  let ?c = "snd (apply_op op c)"
  show ?case
  proof (cases op)
    case (TakeExemption t m)
    then show ?thesis
      using Cons [of ?c] exemption_step [of key op c] take_exemption_iff [of t m c]
      by (auto split: if_splits)
  next
    case (ExemptOnce t m)
    then show ?thesis
      using Cons [of ?c] exemption_step [of key op c] by (auto split: if_splits)
  qed (use Cons [of ?c] exemption_step [of key op c] in \<open>auto split: if_splits\<close>)
qed

subsection \<open>Properties\<close>

text \<open>The cache is bounded and free of duplicates: after any sequence of operations each of its
  three queues is within its capacity and holds no key twice.\<close>

theorem cache_stays_bounded:
  "length (denied (run_ops ops empty_cache)) \<le> 64 \<and> distinct (map fst (denied (run_ops ops empty_cache))) \<and>
   length (exemptions (run_ops ops empty_cache)) \<le> 32 \<and> distinct (exemptions (run_ops ops empty_cache)) \<and>
   length (allowed (run_ops ops empty_cache)) \<le> 128 \<and> distinct (allowed (run_ops ops empty_cache))"
  using cache_ok_run [OF cache_ok_empty, of ops]
  by (simp add: cache_ok_def fifo_ok_def DENIED_CAPACITY_def EXEMPTION_CAPACITY_def ALLOWED_CAPACITY_def)

text \<open>An exemption admits one call: in any sequence of operations an invocation is admitted by an
  exemption at most as often as exemptions were installed for it.\<close>

theorem exemption_admits_at_most_once:
  "admissions (fingerprint tool input) ops empty_cache \<le> installs (fingerprint tool input) ops"
  using admissions_bound [of "fingerprint tool input" ops empty_cache] by (simp add: empty_cache_def)

text \<open>Denials stick: marking a call denied says whether it was new, leaves it denied with the
  reason it was first denied for, drops a remembered allow of a newly denied call, and doing it
  again with any reason changes nothing; and the denial never answers for another tool.\<close>

theorem denial_sticks:
  assumes "mark_denied t m why c = (new, c')"
  shows "new = (denied_reason t m c = None) \<and>
    denied_reason t m c' = Some (case denied_reason t m c of Some r \<Rightarrow> r | None \<Rightarrow> why) \<and>
    \<not> (new \<and> is_allowed t m c') \<and>
    mark_denied t m why' c' = (False, c') \<and>
    (CHR 0x00 \<notin> set t \<and> CHR 0x00 \<notin> set t' \<and> t \<noteq> t' \<and> denied_reason t' m' c = None \<longrightarrow>
       denied_reason t' m' c' = None)"
proof (cases "list_ex (\<lambda>e. fst e = fingerprint t m) (denied c)")
  case True
  with assms have "new = False" "c' = c" by (auto simp: mark_denied_def Let_def)
  moreover have "denied_reason t m c \<noteq> None"
    using True by (auto simp: denied_reason_def find_None_iff list_ex_iff)
  ultimately show ?thesis using True by (auto simp: mark_denied_def Let_def)
next
  case False
  with assms have n: "new" and c': "denied c' = pop_front_to DENIED_CAPACITY (denied c @ [(fingerprint t m, why)])"
    and a: "allowed c' = filter (\<lambda>e. e \<noteq> fingerprint t m) (allowed c)"
    by (auto simp: mark_denied_def Let_def)
  have none: "denied_reason t m c = None"
    using False by (auto simp: denied_reason_def find_None_iff list_ex_iff)
  have fresh: "fst (fingerprint t m, why) \<notin> fst ` set (denied c)"
    using False by (auto simp: list_ex_iff)
  have found: "denied_reason t m c' = Some why"
    using denied_queue.newest_found [OF fresh] by (simp add: denied_reason_def c')
  then have "list_ex (\<lambda>e. fst e = fingerprint t m) (denied c')"
    by (auto simp: denied_reason_def find_Some_iff list_ex_iff)
  then have again: "mark_denied t m why' c' = (False, c')" by (simp add: mark_denied_def Let_def)
  have other: "denied_reason t' m' c' = None"
    if "CHR 0x00 \<notin> set t" "CHR 0x00 \<notin> set t'" "t \<noteq> t'" "denied_reason t' m' c = None"
  proof -
    have "fst e \<noteq> fingerprint t' m'" if "e \<in> set (denied c')" for e
    proof -
      have "e = (fingerprint t m, why) \<or> e \<in> set (denied c)"
        using subsetD [OF denied_queue.push_keys that [unfolded c']] by simp
      then show ?thesis
        using \<open>denied_reason t' m' c = None\<close> fingerprint_inject [of t t' m m'] \<open>t \<noteq> t'\<close>
          \<open>CHR 0x00 \<notin> set t\<close> \<open>CHR 0x00 \<notin> set t'\<close>
        by (cases e) (auto simp: denied_reason_def find_None_iff)
    qed
    then show ?thesis by (force simp: denied_reason_def find_None_iff)
  qed
  show ?thesis using n none found again other a by (auto simp: is_allowed_def list_ex_iff)
qed

theorem denial_sticks_witness:
  "denied_reason ''Bash'' ''k'' (snd (mark_denied ''Bash'' ''k'' ''r'' empty_cache)) = Some ''r''"
  using denial_sticks [of "''Bash''" "''k''" "''r''" empty_cache True "snd (mark_denied ''Bash'' ''k'' ''r'' empty_cache)"]
  by (simp add: mark_denied_def empty_cache_def denied_reason_def)

subsection \<open>Findings\<close>

text \<open>A denial of a call that is denied already leaves a later remembered allow in place.\<close>

lemma denial_does_not_supersede_later_allow:
  "is_allowed ''Bash'' ''k'' (run_ops [MarkDenied ''Bash'' ''k'' ''r'', MarkAllowed ''Bash'' ''k'',
     MarkDenied ''Bash'' ''k'' ''r''] empty_cache)"
  by code_simp

end
