(* ===== verification/Ordered_Map.thy ===== *)
theory Ordered_Map
  imports Main "HOL-Library.List_Lexorder" "HOL-Library.Char_ord"
begin

text \<open>
  \<open>BTreeMap\<close> and \<open>BTreeSet\<close> of Rust's standard library, whose iteration order the plugin
  components return to their callers: lists ordered by key. A map is an association list
  with strictly increasing keys, a set a strictly increasing list. Strings are ordered
  character by character, as Rust orders them.

  The locale \<open>finite_store\<close> is the contract the components rely on; both containers are
  instances of it.
\<close>

subsection \<open>Maps\<close>

fun map_insert :: "'k::linorder \<Rightarrow> 'v \<Rightarrow> ('k \<times> 'v) list \<Rightarrow> ('k \<times> 'v) list" where
  "map_insert k v [] = [(k, v)]"
| "map_insert k v ((k', v') # m) =
     (if k < k' then (k, v) # (k', v') # m
      else if k = k' then (k, v) # m
      else (k', v') # map_insert k v m)"

definition map_remove :: "'k \<Rightarrow> ('k \<times> 'v) list \<Rightarrow> ('k \<times> 'v) list" where
  "map_remove k m = filter (\<lambda>e. fst e \<noteq> k) m"

definition contains_key :: "'k \<Rightarrow> ('k \<times> 'v) list \<Rightarrow> bool" where
  "contains_key k m = list_ex (\<lambda>e. fst e = k) m"

definition keys :: "('k \<times> 'v) list \<Rightarrow> 'k list" where
  "keys m = map fst m"

text \<open>\<open>collect\<close> into a map: later entries replace earlier ones.\<close>

definition map_collect :: "('k::linorder \<times> 'v) list \<Rightarrow> ('k \<times> 'v) list" where
  "map_collect es = fold (\<lambda>(k, v). map_insert k v) es []"

definition map_ordered :: "('k::linorder \<times> 'v) list \<Rightarrow> bool" where
  "map_ordered m \<longleftrightarrow> sorted_wrt (<) (keys m)"

subsection \<open>Sets\<close>

definition set_insert :: "'k::linorder \<Rightarrow> 'k list \<Rightarrow> 'k list" where
  "set_insert k s = insort_insert k s"

definition set_remove :: "'k \<Rightarrow> 'k list \<Rightarrow> 'k list" where
  "set_remove k s = filter (\<lambda>x. x \<noteq> k) s"

definition set_collect :: "'k::linorder list \<Rightarrow> 'k list" where
  "set_collect xs = fold set_insert xs []"

definition set_ordered :: "'k::linorder list \<Rightarrow> bool" where
  "set_ordered s \<longleftrightarrow> sorted s \<and> distinct s"

subsection \<open>The contract\<close>

locale finite_store =
  fixes ok :: "'s \<Rightarrow> bool" and look :: "'s \<Rightarrow> 'k \<Rightarrow> 'v option"
    and put :: "'k \<Rightarrow> 'v \<Rightarrow> 's \<Rightarrow> 's" and drop_key :: "'k \<Rightarrow> 's \<Rightarrow> 's" and empty :: 's
  assumes ok_empty: "ok empty"
    and ok_put: "ok s \<Longrightarrow> ok (put k v s)"
    and ok_drop: "ok s \<Longrightarrow> ok (drop_key k s)"
    and look_empty: "look empty = (\<lambda>_. None)"
    and look_put: "look (put k v s) = (look s)(k \<mapsto> v)"
    and look_drop: "look (drop_key k s) = (look s)(k := None)"
begin

lemma dom_put: "dom (look (put k v s)) = insert k (dom (look s))"
  by (simp add: look_put)

lemma dom_drop: "dom (look (drop_key k s)) = dom (look s) - {k}"
  by (simp add: look_drop)

lemma drop_put: "look s k = None \<Longrightarrow> look (drop_key k (put k v s)) = look s"
  by (simp add: look_put look_drop fun_upd_idem)

end

lemma map_of_map_insert: "map_of (map_insert k v m) = (map_of m)(k \<mapsto> v)"
  by (induction k v m rule: map_insert.induct) (auto simp: fun_eq_iff)

lemma map_of_map_remove: "map_of (map_remove k m) = (map_of m)(k := None)"
  by (induction m) (auto simp: map_remove_def fun_eq_iff)

lemma set_keys: "set (keys m) = dom (map_of m)"
  by (simp add: keys_def dom_map_of_conv_image_fst)

lemma contains_key_iff: "contains_key k m \<longleftrightarrow> map_of m k \<noteq> None"
  by (induction m) (auto simp: contains_key_def)

lemma keys_map_insert: "set (keys (map_insert k v m)) = insert k (set (keys m))"
  by (simp add: set_keys map_of_map_insert)

lemma ordered_map_insert: "map_ordered m \<Longrightarrow> map_ordered (map_insert k v m)"
proof (induction k v m rule: map_insert.induct)
  case (2 k v k' v' m)
  then show ?case
    using keys_map_insert [of k v m] by (auto simp: map_ordered_def keys_def)
qed (simp add: map_ordered_def keys_def)

lemma ordered_map_remove: "map_ordered m \<Longrightarrow> map_ordered (map_remove k m)"
  by (induction m) (auto simp: map_ordered_def keys_def map_remove_def)

lemma ordered_distinct: "map_ordered m \<Longrightarrow> distinct (keys m)"
  by (simp add: map_ordered_def strict_sorted_iff)

lemma map_of_entry: "map_ordered m \<Longrightarrow> (k, v) \<in> set m \<longleftrightarrow> map_of m k = Some v"
  using ordered_distinct [of m] by (auto simp: keys_def dest: map_of_SomeD)

interpretation btree_map: finite_store map_ordered map_of map_insert map_remove "[]"
  by unfold_locales
    (auto simp: map_ordered_def keys_def map_of_map_insert map_of_map_remove
      intro: ordered_map_insert [unfolded map_ordered_def keys_def]
      ordered_map_remove [unfolded map_ordered_def keys_def])

lemma map_of_collect: "map_of (map_collect es) = map_of (rev es)"
proof -
  have "map_of (fold (\<lambda>(k, v). map_insert k v) es m) = map_of m ++ map_of (rev es)" for m
    by (induction es arbitrary: m) (auto simp: map_of_map_insert map_add_def fun_eq_iff split: option.splits)
  then show ?thesis by (simp add: map_collect_def)
qed

lemma set_set_insert [simp]: "set (set_insert k s) = insert k (set s)"
  by (simp add: set_insert_def set_insort_insert)

lemma set_set_remove [simp]: "set (set_remove k s) = set s - {k}"
  by (auto simp: set_remove_def)

lemma set_set_collect [simp]: "set (set_collect xs) = set xs"
proof -
  have "set (fold set_insert xs s) = set s \<union> set xs" for s
    by (induction xs arbitrary: s) auto
  then show ?thesis by (simp add: set_collect_def)
qed

lemma ordered_set_insert: "set_ordered s \<Longrightarrow> set_ordered (set_insert k s)"
  by (simp add: set_ordered_def set_insert_def sorted_insort_insert distinct_insort_insert)

lemma ordered_set_remove: "set_ordered s \<Longrightarrow> set_ordered (set_remove k s)"
  by (simp add: set_ordered_def set_remove_def sorted_wrt_filter)

lemma ordered_set_collect: "set_ordered (set_collect xs)"
proof -
  have "set_ordered s \<Longrightarrow> set_ordered (fold set_insert xs s)" for s
    by (induction xs arbitrary: s) (auto intro: ordered_set_insert)
  then show ?thesis by (simp add: set_collect_def set_ordered_def)
qed

interpretation btree_set:
  finite_store set_ordered "\<lambda>s k. if k \<in> set s then Some () else None"
    "\<lambda>k _. set_insert k" set_remove "[]"
  by unfold_locales
    (auto simp: fun_eq_iff intro: ordered_set_insert ordered_set_remove,
      simp add: set_ordered_def)

end
