(* ===== verification/Plugin_Methods.thy ===== *)
theory Plugin_Methods
  imports Rust_Prelude Ordered_Map
begin

text \<open>
  \<open>crates/rebon-plugin-protocol/src/methods.rs\<close>: the payloads the plugin wire layer decides
  about, and their validation. Strings are measured in UTF-8 bytes, as \<open>str::len\<close> does. A
  \<open>Payload\<close> (\<open>payload.rs\<close>) is the exact JSON text it arrived as; nothing here parses one.

  The lemmas turn each validator into the condition it checks.
\<close>

subsection \<open>Payload texts and errors\<close>

type_synonym payload = string

definition payload_null :: payload where "payload_null = ''null''"

definition payload_is_null :: "payload \<Rightarrow> bool" where
  "payload_is_null p \<longleftrightarrow> trim p = ''null''"

definition MAX_NAME_BYTES :: nat where "MAX_NAME_BYTES = 128"
definition MAX_DECLARATIONS :: nat where "MAX_DECLARATIONS = 256"
definition MAX_DESCRIPTION_BYTES :: nat where "MAX_DESCRIPTION_BYTES = 4096"
definition MAX_PATH_BYTES :: nat where "MAX_PATH_BYTES = 4096"
definition PLATFORM_PLUGIN_ID :: string where "PLATFORM_PLUGIN_ID = ''$rebon/platform''"

datatype payload_error =
    EmptyName string
  | NameTooLong string string
  | ControlCharacter string string
  | TooManyDeclarations string nat
  | DuplicateDeclaration string string
  | EmptyDescription string
  | DescriptionTooLong string nat
  | ReservedPluginId
  | PathTooLong string string
  | PathNotAbsolute string string
  | PathNotRelative string string
  | PathEscapes string string
  | UndeclaredAdapter string
  | UnknownLlmSignal string

fun payload_error_code :: "payload_error \<Rightarrow> string" where
  "payload_error_code (EmptyName _) = ''[EMPTY_NAME]''"
| "payload_error_code (NameTooLong _ _) = ''[NAME_TOO_LONG]''"
| "payload_error_code (ControlCharacter _ _) = ''[CONTROL_CHARACTER]''"
| "payload_error_code (TooManyDeclarations _ _) = ''[TOO_MANY_DECLARATIONS]''"
| "payload_error_code (DuplicateDeclaration _ _) = ''[DUPLICATE_DECLARATION]''"
| "payload_error_code (EmptyDescription _) = ''[EMPTY_DESCRIPTION]''"
| "payload_error_code (DescriptionTooLong _ _) = ''[DESCRIPTION_TOO_LONG]''"
| "payload_error_code ReservedPluginId = ''[RESERVED_PLUGIN_ID]''"
| "payload_error_code (PathTooLong _ _) = ''[PATH_TOO_LONG]''"
| "payload_error_code (PathNotAbsolute _ _) = ''[PATH_NOT_ABSOLUTE]''"
| "payload_error_code (PathNotRelative _ _) = ''[PATH_NOT_RELATIVE]''"
| "payload_error_code (PathEscapes _ _) = ''[PATH_ESCAPES]''"
| "payload_error_code (UndeclaredAdapter _) = ''[UNDECLARED_ADAPTER]''"
| "payload_error_code (UnknownLlmSignal _) = ''[UNKNOWN_LLM_SIGNAL]''"

subsection \<open>Names, paths, declarations\<close>

definition validate_name :: "string \<Rightarrow> string \<Rightarrow> payload_error + unit" where
  "validate_name what name =
     (if name = [] then Inl (EmptyName what)
      else if byte_len name > MAX_NAME_BYTES then Inl (NameTooLong what name)
      else if list_ex is_control name then Inl (ControlCharacter what name)
      else Inr ())"

fun looks_absolute :: "string \<Rightarrow> bool" where
  "looks_absolute [] = False"
| "looks_absolute (c # cs) =
     (c = ch_slash \<or> c = ch_backslash \<or>
      (case cs of
         d # s # _ \<Rightarrow> d = ch_colon \<and> is_ascii_alphabetic c \<and> (s = ch_slash \<or> s = ch_backslash)
       | _ \<Rightarrow> False))"

definition validate_path_shape :: "string \<Rightarrow> string \<Rightarrow> payload_error + unit" where
  "validate_path_shape what path =
     (if path = [] then Inl (EmptyName what)
      else if byte_len path > MAX_PATH_BYTES then Inl (PathTooLong what path)
      else if list_ex is_control path then Inl (ControlCharacter what path)
      else Inr ())"

definition validate_absolute_path :: "string \<Rightarrow> string \<Rightarrow> payload_error + unit" where
  "validate_absolute_path what path =
     and_then (validate_path_shape what path) (\<lambda>_.
       if \<not> looks_absolute path then Inl (PathNotAbsolute what path) else Inr ())"

definition validate_relative_path :: "string \<Rightarrow> string \<Rightarrow> payload_error + unit" where
  "validate_relative_path what path =
     and_then (validate_path_shape what path) (\<lambda>_.
       if looks_absolute path then Inl (PathNotRelative what path)
       else if list_ex (\<lambda>c. c = ch_backslash) path
         \<or> list_ex (\<lambda>part. part = ''..'' \<or> part = []) (split_char ch_slash path)
       then Inl (PathEscapes what path)
       else Inr ())"

definition validate_plugin_id :: "string \<Rightarrow> payload_error + unit" where
  "validate_plugin_id plugin =
     and_then (validate_name ''plugin'' plugin) (\<lambda>_.
       if plugin = PLATFORM_PLUGIN_ID then Inl ReservedPluginId else Inr ())"

fun declarations_from :: "string \<Rightarrow> string list \<Rightarrow> string list \<Rightarrow> payload_error + unit" where
  "declarations_from what seen [] = Inr ()"
| "declarations_from what seen (name # names) =
     and_then (validate_name what name) (\<lambda>_.
       if name \<in> set seen then Inl (DuplicateDeclaration what name)
       else declarations_from what (set_insert name seen) names)"

definition validate_declarations :: "string \<Rightarrow> string list \<Rightarrow> payload_error + unit" where
  "validate_declarations what names =
     (if length names > MAX_DECLARATIONS then Inl (TooManyDeclarations what (length names))
      else declarations_from what [] names)"

subsection \<open>What a plugin declares and what it registers\<close>

record load_request =
  load_plugin :: string
  load_root :: string
  load_entry :: string
  load_services :: "string list"
  load_topics :: "string list"
  load_published :: "string list"
  load_providers :: "string list"
  load_tools :: "string list"
  load_commands :: "string list"
  load_seats :: "string list"
  load_invokable :: "string list"
  load_config :: payload

definition validate_load :: "load_request \<Rightarrow> payload_error + unit" where
  "validate_load r =
     and_then (validate_plugin_id (load_plugin r)) (\<lambda>_.
     and_then (validate_absolute_path ''root'' (load_root r)) (\<lambda>_.
     and_then (validate_relative_path ''entry'' (load_entry r)) (\<lambda>_.
     and_then (validate_declarations ''service'' (load_services r)) (\<lambda>_.
     and_then (validate_declarations ''topic'' (load_topics r)) (\<lambda>_.
     and_then (validate_declarations ''topic'' (load_published r)) (\<lambda>_.
     and_then (validate_declarations ''provider'' (load_providers r)) (\<lambda>_.
     and_then (validate_declarations ''tool'' (load_tools r)) (\<lambda>_.
     and_then (validate_declarations ''command'' (load_commands r)) (\<lambda>_.
     and_then (validate_declarations ''tool'' (load_invokable r)) (\<lambda>_.
       validate_declarations ''seat'' (load_seats r)))))))))))"

record tool_definition =
  tool_name :: string
  tool_description :: string
  tool_schema :: payload

definition validate_tool :: "tool_definition \<Rightarrow> payload_error + unit" where
  "validate_tool t =
     and_then (validate_name ''tool'' (tool_name t)) (\<lambda>_.
       if tool_description t = [] then Inl (EmptyDescription (tool_name t))
       else if byte_len (tool_description t) > MAX_DESCRIPTION_BYTES
       then Inl (DescriptionTooLong (tool_name t) (byte_len (tool_description t)))
       else Inr ())"

datatype command_category = CommandCategory | AgentCategory

datatype command_surface = Tui | Desktop | Acp | Web | Mobile

datatype command_kind =
    PromptCommand
  | ExplainCommand string
  | PanelCommand string
  | OutputCommand

record command_definition =
  command_name :: string
  command_aliases :: "string list"
  command_zh_aliases :: "string list"
  command_hint :: "string option"
  command_description :: string
  command_category :: command_category
  command_surfaces :: "command_surface list"
  command_kind :: command_kind

definition validate_command :: "command_definition \<Rightarrow> payload_error + unit" where
  "validate_command d =
     and_then (validate_name ''command'' (command_name d)) (\<lambda>_.
     and_then (try_each (validate_name ''command'') (command_aliases d)) (\<lambda>_.
     and_then (try_each (validate_name ''command'') (command_zh_aliases d)) (\<lambda>_.
       if command_description d = [] then Inl (EmptyDescription (command_name d))
       else if byte_len (command_description d) > MAX_DESCRIPTION_BYTES
       then Inl (DescriptionTooLong (command_name d) (byte_len (command_description d)))
       else case command_kind d of
         PromptCommand \<Rightarrow> Inr ()
       | ExplainCommand text \<Rightarrow> if text = [] then Inl (EmptyDescription (command_name d)) else Inr ()
       | PanelCommand dialog \<Rightarrow> validate_name ''dialog'' dialog
       | OutputCommand \<Rightarrow> Inr ())))"

record ready_report =
  ready_plugin :: string
  ready_services :: "string list"
  ready_topics :: "string list"
  ready_providers :: "string list"
  ready_adapters :: "(string \<times> payload) list"
  ready_tools :: "tool_definition list"
  ready_commands :: "command_definition list"

definition validate_ready :: "ready_report \<Rightarrow> payload_error + unit" where
  "validate_ready r =
     and_then (validate_plugin_id (ready_plugin r)) (\<lambda>_.
     and_then (validate_declarations ''service'' (ready_services r)) (\<lambda>_.
     and_then (validate_declarations ''topic'' (ready_topics r)) (\<lambda>_.
     and_then (validate_declarations ''provider'' (ready_providers r)) (\<lambda>_.
     and_then (try_each (\<lambda>provider.
         if \<not> list_ex (\<lambda>name. name = provider) (ready_providers r)
         then Inl (UndeclaredAdapter provider) else Inr ()) (keys (ready_adapters r))) (\<lambda>_.
     and_then (validate_declarations ''tool'' (map tool_name (ready_tools r))) (\<lambda>_.
     and_then (try_each validate_tool (ready_tools r)) (\<lambda>_.
     and_then (validate_declarations ''command'' (map command_name (ready_commands r))) (\<lambda>_.
       try_each validate_command (ready_commands r)))))))))"

subsection \<open>Requests\<close>

record command_invoke =
  invoke_name :: string
  invoke_raw :: string
  invoke_rest :: string
  invoke_surface :: command_surface

definition validate_command_invoke :: "command_invoke \<Rightarrow> payload_error + unit" where
  "validate_command_invoke r = validate_name ''command'' (invoke_name r)"

record unload_request = unload_plugin :: string

definition validate_unload :: "unload_request \<Rightarrow> payload_error + unit" where
  "validate_unload r = validate_plugin_id (unload_plugin r)"

record drain_report =
  drain_plugin :: string
  outstanding_calls :: "string list"
  revoked_subscriptions :: "string list"

definition validate_drain :: "drain_report \<Rightarrow> payload_error + unit" where
  "validate_drain r =
     and_then (validate_plugin_id (drain_plugin r)) (\<lambda>_.
     and_then (validate_declarations ''call'' (outstanding_calls r)) (\<lambda>_.
       validate_declarations ''subscription'' (revoked_subscriptions r)))"

record service_call = call_service :: string call_request :: payload

definition validate_service_call :: "service_call \<Rightarrow> payload_error + unit" where
  "validate_service_call r = validate_name ''service'' (call_service r)"

record subscribe_request = subscribe_id :: string subscribe_topic :: string

definition validate_subscribe :: "subscribe_request \<Rightarrow> payload_error + unit" where
  "validate_subscribe r =
     and_then (validate_name ''subscription'' (subscribe_id r)) (\<lambda>_.
       validate_name ''topic'' (subscribe_topic r))"

record unsubscribe_request = unsubscribe_id :: string

definition validate_unsubscribe :: "unsubscribe_request \<Rightarrow> payload_error + unit" where
  "validate_unsubscribe r = validate_name ''subscription'' (unsubscribe_id r)"

record emit_request = emit_topic :: string emit_event :: payload

definition validate_emit :: "emit_request \<Rightarrow> payload_error + unit" where
  "validate_emit r = validate_name ''topic'' (emit_topic r)"

record tool_invoke = invoke_tool :: string invoke_input :: payload

definition validate_tool_invoke :: "tool_invoke \<Rightarrow> payload_error + unit" where
  "validate_tool_invoke r = validate_name ''tool'' (invoke_tool r)"

record llm_stream = stream_provider :: string stream_request :: payload

definition validate_llm_stream :: "llm_stream \<Rightarrow> payload_error + unit" where
  "validate_llm_stream r = validate_name ''provider'' (stream_provider r)"

definition LLM_CONTROL_SIGNALS :: "string list" where
  "LLM_CONTROL_SIGNALS = [''reset'', ''endTurn'', ''invalidate'']"

record llm_control = control_provider :: string control_signal :: string

definition validate_llm_control :: "llm_control \<Rightarrow> payload_error + unit" where
  "validate_llm_control r =
     and_then (validate_name ''provider'' (control_provider r)) (\<lambda>_.
       if control_signal r \<notin> set LLM_CONTROL_SIGNALS then Inl (UnknownLlmSignal (control_signal r))
       else Inr ())"

record seat_call = call_seat :: string call_method :: string call_params :: payload

definition validate_seat_call :: "seat_call \<Rightarrow> payload_error + unit" where
  "validate_seat_call r =
     and_then (validate_name ''seat'' (call_seat r)) (\<lambda>_. validate_name ''method'' (call_method r))"

record event_delivery =
  delivery_subscription :: string
  delivery_topic :: string
  delivery_event :: payload

definition validate_delivery :: "event_delivery \<Rightarrow> payload_error + unit" where
  "validate_delivery r =
     and_then (validate_name ''subscription'' (delivery_subscription r)) (\<lambda>_.
       validate_name ''topic'' (delivery_topic r))"

subsection \<open>What the validators check\<close>

definition good_name :: "string \<Rightarrow> bool" where
  "good_name name \<longleftrightarrow> name \<noteq> [] \<and> byte_len name \<le> 128 \<and> \<not> list_ex is_control name"

lemma validate_name_ok: "validate_name what name = Inr u \<longleftrightarrow> good_name name"
  by (auto simp: validate_name_def good_name_def MAX_NAME_BYTES_def)

lemma validate_plugin_id_ok:
  "validate_plugin_id p = Inr u \<longleftrightarrow> good_name p \<and> p \<noteq> PLATFORM_PLUGIN_ID"
  by (auto simp: validate_plugin_id_def and_then_Inr validate_name_ok)

lemma declarations_from_ok:
  "declarations_from what seen names = Inr u \<longleftrightarrow>
     list_all good_name names \<and> distinct names \<and> set names \<inter> set seen = {}"
  by (induction what seen names rule: declarations_from.induct)
    (auto simp: and_then_Inr validate_name_ok)

lemma validate_declarations_ok:
  "validate_declarations what names = Inr u \<longleftrightarrow>
     length names \<le> 256 \<and> list_all good_name names \<and> distinct names"
  by (auto simp: validate_declarations_def declarations_from_ok MAX_DECLARATIONS_def)

text \<open>An accepted entry path stays below the package root: no part of it is a step up, and it
  does not start anywhere else.\<close>

lemma validate_relative_path_ok:
  "validate_relative_path what path = Inr u \<Longrightarrow>
     path \<noteq> [] \<and> ''..'' \<notin> set (split_char ch_slash path) \<and> [] \<notin> set (split_char ch_slash path) \<and>
     ch_backslash \<notin> set path \<and> \<not> looks_absolute path"
  by (auto simp: validate_relative_path_def validate_path_shape_def and_then_Inr list_ex_iff
      split: if_splits)

lemma validate_ready_providers:
  "validate_ready r = Inr u \<Longrightarrow> set (keys (ready_adapters r)) \<subseteq> set (ready_providers r)"
  by (auto simp: validate_ready_def and_then_Inr try_each_Inr list_ex_iff split: if_splits)

end
