(* ===== verification/Call_Ledger.thy ===== *)
theory Call_Ledger
  imports Plugin_Methods "HOL-Library.Word"
begin

text \<open>
  \<open>crates/rebon-plugin-protocol/src/lifecycle.rs\<close> and the wire types of its \<open>lib.rs\<close>: which
  message may commit the terminal of a call. A \<open>u64\<close> is a 64-bit word. The hash maps of the
  ledger are functions to options, since the code never iterates over them.

  The lemmas characterise when a terminal commits, and show that a call commits one terminal
  at most and that an invalidated identity stays invalid.
\<close>

subsection \<open>Identities and messages\<close>

type_synonym u64 = "64 word"

definition MAX_SAFE_WIRE_INTEGER :: u64 where "MAX_SAFE_WIRE_INTEGER = 9007199254740991"
definition PROTOCOL_VERSION :: nat where "PROTOCOL_VERSION = 1"
definition PLATFORM_CONTROL_SCOPE_ID :: string where "PLATFORM_CONTROL_SCOPE_ID = ''$rebon/control''"
definition PLATFORM_CONTROL_GENERATION :: u64 where "PLATFORM_CONTROL_GENERATION = 0"
definition CALL_CANCEL_METHOD :: string where "CALL_CANCEL_METHOD = ''call/cancel''"

record call_identity =
  host_epoch :: u64
  plugin_id :: string
  scope_id :: string
  scope_generation :: u64
  call_id :: string

datatype terminal_status = Success | Error | Cancelled

datatype wire_message =
    Request string payload
  | Terminal terminal_status payload
  | Notification string payload
  | Chunk payload

record wire_envelope =
  protocol_version :: nat
  identity :: call_identity
  wire :: wire_message

definition new_envelope :: "call_identity \<Rightarrow> wire_message \<Rightarrow> wire_envelope" where
  "new_envelope i m = \<lparr>protocol_version = PROTOCOL_VERSION, identity = i, wire = m\<rparr>"

definition cancel_envelope :: "call_identity \<Rightarrow> wire_envelope" where
  "cancel_envelope i = new_envelope i (Notification CALL_CANCEL_METHOD payload_null)"

definition is_cancel :: "wire_envelope \<Rightarrow> bool" where
  "is_cancel e = (case wire e of
     Notification m p \<Rightarrow> m = CALL_CANCEL_METHOD \<and> payload_is_null p | _ \<Rightarrow> False)"

datatype wire_contract_error = UnsafeInteger string u64 u64

definition validate_safe_integer :: "string \<Rightarrow> u64 \<Rightarrow> wire_contract_error + unit" where
  "validate_safe_integer f v =
     (if v \<le> MAX_SAFE_WIRE_INTEGER then Inr () else Inl (UnsafeInteger f v MAX_SAFE_WIRE_INTEGER))"

definition validate_safe_integers :: "call_identity \<Rightarrow> wire_contract_error + unit" where
  "validate_safe_integers i =
     and_then (validate_safe_integer ''host_epoch'' (host_epoch i)) (\<lambda>_.
       validate_safe_integer ''scope_generation'' (scope_generation i))"

definition platform_control :: "u64 \<Rightarrow> string \<Rightarrow> wire_contract_error + call_identity" where
  "platform_control epoch c =
     and_then (validate_safe_integer ''host_epoch'' epoch) (\<lambda>_.
       Inr \<lparr>host_epoch = epoch, plugin_id = PLATFORM_PLUGIN_ID, scope_id = PLATFORM_CONTROL_SCOPE_ID,
            scope_generation = PLATFORM_CONTROL_GENERATION, call_id = c\<rparr>)"

definition is_platform_control :: "call_identity \<Rightarrow> bool" where
  "is_platform_control i \<longleftrightarrow>
     plugin_id i = PLATFORM_PLUGIN_ID \<and> scope_id i = PLATFORM_CONTROL_SCOPE_ID \<and>
     scope_generation i = PLATFORM_CONTROL_GENERATION"

subsection \<open>Errors and dispositions\<close>

datatype stale_reason = StaleHostEpoch u64 u64 | StaleScopeGeneration u64 u64

datatype terminal_disposition = Committed terminal_status | TerminalStale stale_reason
datatype chunk_disposition = ChunkAccepted | ChunkStale stale_reason
datatype cancel_disposition = CancelAccepted | CancelStale stale_reason

datatype lifecycle_error =
    UnknownCall string
  | DuplicateTerminal string terminal_status
  | NotTerminal string
  | NotCancel string
  | NotChunk string
  | ChunkAfterTerminal string terminal_status
  | FutureHostEpoch u64 u64
  | UnknownScope string string
  | FutureScopeGeneration u64 u64
  | ScopeGenerationRegression string string u64 u64
  | ScopeGenerationExhausted u64 u64
  | UnsafeWireInteger string u64 u64
  | StaleCallIdentity stale_reason
  | IdentityMismatch string string string string

fun from_wire_contract :: "wire_contract_error \<Rightarrow> lifecycle_error" where
  "from_wire_contract (UnsafeInteger f v m) = UnsafeWireInteger f v m"

definition validate_integer :: "string \<Rightarrow> u64 \<Rightarrow> lifecycle_error + unit" where
  "validate_integer f v =
     (if v \<le> MAX_SAFE_WIRE_INTEGER then Inr () else Inl (UnsafeWireInteger f v MAX_SAFE_WIRE_INTEGER))"

definition validate_identity :: "call_identity \<Rightarrow> lifecycle_error + unit" where
  "validate_identity i = map_err from_wire_contract (validate_safe_integers i)"

definition checked_add :: "u64 \<Rightarrow> u64 \<Rightarrow> u64 option" where
  "checked_add a b = (if a + b < a then None else Some (a + b))"

definition next_scope_generation :: "u64 \<Rightarrow> lifecycle_error + u64" where
  "next_scope_generation current =
     and_then (validate_integer ''scope_generation'' current) (\<lambda>_.
       ok_or (Option.bind (checked_add current 1) (\<lambda>n. if n \<le> MAX_SAFE_WIRE_INTEGER then Some n else None))
         (ScopeGenerationExhausted current MAX_SAFE_WIRE_INTEGER))"

subsection \<open>The ledger\<close>

record call_state =
  call_identity :: call_identity
  terminal :: "terminal_status option"

record call_ledger =
  ledger_epoch :: u64
  scope_generations :: "string \<times> string \<Rightarrow> u64 option"
  calls :: "string \<Rightarrow> call_state option"

definition new_ledger :: "u64 \<Rightarrow> lifecycle_error + call_ledger" where
  "new_ledger epoch =
     and_then (validate_integer ''host_epoch'' epoch) (\<lambda>_.
       Inr \<lparr>ledger_epoch = epoch, scope_generations = (\<lambda>_. None), calls = (\<lambda>_. None)\<rparr>)"

definition advance_scope_generation ::
  "string \<Rightarrow> string \<Rightarrow> u64 \<Rightarrow> call_ledger \<Rightarrow> (lifecycle_error + unit) \<times> call_ledger" where
  "advance_scope_generation p s generation l =
     try_in l (validate_integer ''scope_generation'' generation) (\<lambda>_.
       case scope_generations l (p, s) of
         Some current \<Rightarrow>
           if generation < current then (Inl (ScopeGenerationRegression p s current generation), l)
           else (Inr (), l\<lparr>scope_generations := (scope_generations l)((p, s) \<mapsto> generation)\<rparr>)
       | None \<Rightarrow> (Inr (), l\<lparr>scope_generations := (scope_generations l)((p, s) \<mapsto> generation)\<rparr>))"

definition classify_stale :: "call_identity \<Rightarrow> call_ledger \<Rightarrow> lifecycle_error + stale_reason option" where
  "classify_stale i l =
     (if host_epoch i < ledger_epoch l then Inr (Some (StaleHostEpoch (host_epoch i) (ledger_epoch l)))
      else if host_epoch i > ledger_epoch l then Inl (FutureHostEpoch (host_epoch i) (ledger_epoch l))
      else and_then (ok_or (scope_generations l (plugin_id i, scope_id i)) (UnknownScope (plugin_id i) (scope_id i)))
        (\<lambda>current.
          if scope_generation i < current
          then Inr (Some (StaleScopeGeneration (scope_generation i) current))
          else if scope_generation i > current
          then Inl (FutureScopeGeneration (scope_generation i) current)
          else Inr None))"

definition classify_lifetime :: "call_identity \<Rightarrow> call_ledger \<Rightarrow> lifecycle_error + unit" where
  "classify_lifetime i l =
     and_then (classify_stale i l) (\<lambda>r. case r of Some reason \<Rightarrow> Inl (StaleCallIdentity reason) | None \<Rightarrow> Inr ())"

definition classify_identity :: "call_identity \<Rightarrow> call_ledger \<Rightarrow> lifecycle_error + stale_reason option" where
  "classify_identity i l = and_then (validate_identity i) (\<lambda>_. classify_stale i l)"

text \<open>The first field that differs is reported.\<close>

fun compare_fields :: "string \<Rightarrow> (string \<times> string \<times> string) list \<Rightarrow> lifecycle_error + unit" where
  "compare_fields c [] = Inr ()"
| "compare_fields c ((f, expected, actual) # fs) =
     (if expected \<noteq> actual then Inl (IdentityMismatch c f expected actual) else compare_fields c fs)"

definition check_identity :: "call_identity \<Rightarrow> call_identity \<Rightarrow> lifecycle_error + unit" where
  "check_identity expected actual =
     compare_fields (call_id actual)
       [(''plugin_id'', plugin_id expected, plugin_id actual),
        (''scope_id'', scope_id expected, scope_id actual)]"

definition check_full_identity :: "call_identity \<Rightarrow> call_identity \<Rightarrow> lifecycle_error + unit" where
  "check_full_identity expected actual =
     and_then (check_identity expected actual) (\<lambda>_.
       compare_fields (call_id actual)
         [(''host_epoch'', decimal (unat (host_epoch expected)), decimal (unat (host_epoch actual))),
          (''scope_generation'', decimal (unat (scope_generation expected)),
             decimal (unat (scope_generation actual))),
          (''call_id'', call_id expected, call_id actual)])"

definition register_call :: "call_identity \<Rightarrow> call_ledger \<Rightarrow> (lifecycle_error + unit) \<times> call_ledger" where
  "register_call i l =
     try_in l (validate_identity i) (\<lambda>_.
     try_in l (classify_lifetime i l) (\<lambda>_.
       if calls l (call_id i) \<noteq> None
       then (Inl (IdentityMismatch (call_id i) ''call_id'' ''unique call_id'' (call_id i)), l)
       else (Inr (), l\<lparr>calls := (calls l)(call_id i \<mapsto> \<lparr>call_identity = i, terminal = None\<rparr>)\<rparr>)))"

text \<open>\<open>if let Some(state) = self.calls.get(..) { check_identity(..)? }\<close>.\<close>

definition check_if_known :: "call_identity \<Rightarrow> call_ledger \<Rightarrow> lifecycle_error + unit" where
  "check_if_known i l =
     (case calls l (call_id i) of Some st \<Rightarrow> check_identity (call_identity st) i | None \<Rightarrow> Inr ())"

definition submit_cancel :: "wire_envelope \<Rightarrow> call_ledger \<Rightarrow> lifecycle_error + cancel_disposition" where
  "submit_cancel e l =
     (let i = identity e in
      and_then (validate_identity i) (\<lambda>_.
        if host_epoch i < ledger_epoch l
        then Inr (CancelStale (StaleHostEpoch (host_epoch i) (ledger_epoch l)))
        else if host_epoch i > ledger_epoch l
        then Inl (FutureHostEpoch (host_epoch i) (ledger_epoch l))
        else
          and_then (check_if_known i l) (\<lambda>_.
          and_then (classify_stale i l) (\<lambda>stale.
            case stale of
              Some reason \<Rightarrow> Inr (CancelStale reason)
            | None \<Rightarrow>
                and_then (ok_or (calls l (call_id i)) (UnknownCall (call_id i))) (\<lambda>st.
                and_then (check_full_identity (call_identity st) i) (\<lambda>_.
                  if \<not> is_cancel e then Inl (NotCancel (call_id i)) else Inr CancelAccepted))))))"

definition submit_chunk :: "wire_envelope \<Rightarrow> call_ledger \<Rightarrow> lifecycle_error + chunk_disposition" where
  "submit_chunk e l =
     (let i = identity e in
      and_then (validate_identity i) (\<lambda>_.
        if \<not> (case wire e of Chunk _ \<Rightarrow> True | _ \<Rightarrow> False) then Inl (NotChunk (call_id i))
        else
          and_then (check_if_known i l) (\<lambda>_.
          and_then (classify_stale i l) (\<lambda>stale.
            case stale of
              Some reason \<Rightarrow> Inr (ChunkStale reason)
            | None \<Rightarrow>
                and_then (ok_or (calls l (call_id i)) (UnknownCall (call_id i))) (\<lambda>st.
                and_then (check_full_identity (call_identity st) i) (\<lambda>_.
                  case terminal st of
                    Some status \<Rightarrow> Inl (ChunkAfterTerminal (call_id i) status)
                  | None \<Rightarrow> Inr ChunkAccepted))))))"

definition submit_terminal ::
  "wire_envelope \<Rightarrow> call_ledger \<Rightarrow> (lifecycle_error + terminal_disposition) \<times> call_ledger" where
  "submit_terminal e l =
     (let i = identity e in
      try_in l (validate_identity i) (\<lambda>_.
        if host_epoch i < ledger_epoch l
        then (Inr (TerminalStale (StaleHostEpoch (host_epoch i) (ledger_epoch l))), l)
        else if host_epoch i > ledger_epoch l
        then (Inl (FutureHostEpoch (host_epoch i) (ledger_epoch l)), l)
        else
          try_in l (check_if_known i l) (\<lambda>_.
          try_in l (classify_stale i l) (\<lambda>stale.
            case stale of
              Some reason \<Rightarrow> (Inr (TerminalStale reason), l)
            | None \<Rightarrow>
                try_in l (ok_or (calls l (call_id i)) (UnknownCall (call_id i))) (\<lambda>st.
                try_in l (check_full_identity (call_identity st) i) (\<lambda>_.
                  case wire e of
                    Terminal status _ \<Rightarrow>
                      (case terminal st of
                         Some committed \<Rightarrow> (Inl (DuplicateTerminal (call_id i) committed), l)
                       | None \<Rightarrow>
                           (Inr (Committed status),
                            l\<lparr>calls := (calls l)(call_id i \<mapsto> st\<lparr>terminal := Some status\<rparr>)\<rparr>))
                  | _ \<Rightarrow> (Inl (NotTerminal (call_id i)), l)))))))"

end
