(* ===== verification/Plugin_Registry.thy ===== *)
theory Plugin_Registry
  imports Call_Ledger
begin

text \<open>
  \<open>crates/rebon-plugin-protocol/src/registry.rs\<close>: which plugins are loaded, what they were
  allowed to register, and whether work may be routed to them. The map of plugins is a
  function to options, since the code never iterates over it; the sets and maps of one plugin
  are the ordered containers of \<open>Ordered_Map\<close>. A method that mutates the registry returns its
  result with the registry it leaves.
\<close>

subsection \<open>Phases, errors, state\<close>

datatype plugin_phase = Admitted | Ready | Draining | Unloaded

definition phase_routable :: "plugin_phase \<Rightarrow> bool" where
  "phase_routable ph \<longleftrightarrow> (case ph of Ready \<Rightarrow> True | _ \<Rightarrow> False)"

datatype call_closed = PluginUnaffected | DrainFinished

record subscription =
  sub_topic :: string
  sub_scope :: string
  sub_generation :: u64

datatype registry_error =
    BadPayload payload_error
  | AlreadyLoaded string
  | UnknownPlugin string
  | NotReady string plugin_phase
  | StaleProvider string plugin_phase
  | Undeclared string string string
  | UnknownService string string
  | UnknownProvider string string
  | UnknownTool string string
  | UnknownCommand string string
  | UnknownTopic string string
  | UnauthorizedTool string string
  | UnauthorizedSeat string string
  | UnauthorizedTopic string string
  | DuplicateCall string
  | UnknownPluginCall string string
  | DuplicateSubscription string string
  | UnknownSubscription string string
  | StaleSubscription string string u64 u64
  | TopicMismatch string string string
  | DrainIncomplete string nat
  | PluginIdentityMismatch string string

definition UNKNOWN_PLUGIN_CODE :: string where "UNKNOWN_PLUGIN_CODE = ''[UNKNOWN_PLUGIN]''"

fun registry_error_code :: "registry_error \<Rightarrow> string" where
  "registry_error_code (BadPayload e) = payload_error_code e"
| "registry_error_code (AlreadyLoaded _) = ''[PLUGIN_ALREADY_LOADED]''"
| "registry_error_code (UnknownPlugin _) = UNKNOWN_PLUGIN_CODE"
| "registry_error_code (NotReady _ _) = ''[PLUGIN_NOT_READY]''"
| "registry_error_code (StaleProvider _ _) = ''[STALE_PROVIDER]''"
| "registry_error_code (Undeclared _ _ _) = ''[UNAUTHORIZED_REGISTER]''"
| "registry_error_code (UnknownService _ _) = ''[UNKNOWN_SERVICE]''"
| "registry_error_code (UnknownProvider _ _) = ''[UNKNOWN_PROVIDER]''"
| "registry_error_code (UnknownTool _ _) = ''[UNKNOWN_TOOL]''"
| "registry_error_code (UnknownCommand _ _) = ''[UNKNOWN_COMMAND]''"
| "registry_error_code (UnknownTopic _ _) = ''[UNKNOWN_TOPIC]''"
| "registry_error_code (UnauthorizedTool _ _) = ''[UNAUTHORIZED_TOOL]''"
| "registry_error_code (UnauthorizedSeat _ _) = ''[UNAUTHORIZED_SEAT]''"
| "registry_error_code (UnauthorizedTopic _ _) = ''[UNAUTHORIZED_TOPIC]''"
| "registry_error_code (DuplicateCall _) = ''[DUPLICATE_CALL]''"
| "registry_error_code (UnknownPluginCall _ _) = ''[UNKNOWN_CALL]''"
| "registry_error_code (DuplicateSubscription _ _) = ''[DUPLICATE_SUBSCRIPTION]''"
| "registry_error_code (UnknownSubscription _ _) = ''[UNKNOWN_SUBSCRIPTION]''"
| "registry_error_code (StaleSubscription _ _ _ _) = ''[STALE_SUBSCRIPTION]''"
| "registry_error_code (TopicMismatch _ _ _) = ''[TOPIC_MISMATCH]''"
| "registry_error_code (DrainIncomplete _ _) = ''[DRAIN_INCOMPLETE]''"
| "registry_error_code (PluginIdentityMismatch _ _) = ''[IDENTITY_MISMATCH]''"

record plugin_state =
  phase_slot :: "plugin_phase option"
  declared_services :: "string list"
  declared_topics :: "string list"
  declared_llm_providers :: "string list"
  declared_tools :: "string list"
  declared_commands :: "string list"
  declared_invokable_tools :: "string list"
  declared_seats :: "string list"
  declared_published_topics :: "string list"
  services :: "string list"
  topics :: "string list"
  llm_providers :: "string list"
  llm_adapters :: "(string \<times> payload) list"
  tools :: "(string \<times> tool_definition) list"
  commands :: "(string \<times> command_definition) list"
  subscriptions :: "(string \<times> subscription) list"
  in_flight :: "string list"

definition default_plugin :: plugin_state where
  "default_plugin = \<lparr>phase_slot = None, declared_services = [], declared_topics = [],
     declared_llm_providers = [], declared_tools = [], declared_commands = [],
     declared_invokable_tools = [], declared_seats = [], declared_published_topics = [],
     services = [], topics = [], llm_providers = [], llm_adapters = [], tools = [], commands = [],
     subscriptions = [], in_flight = []\<rparr>"

definition state_phase :: "plugin_state \<Rightarrow> plugin_phase" where
  "state_phase st = (case phase_slot st of Some ph \<Rightarrow> ph | None \<Rightarrow> Admitted)"

type_synonym plugin_registry = "string \<Rightarrow> plugin_state option"

definition new_registry :: plugin_registry where "new_registry = (\<lambda>_. None)"

subsection \<open>What can be asked\<close>

definition plugin_phase_of :: "string \<Rightarrow> plugin_registry \<Rightarrow> plugin_phase option" where
  "plugin_phase_of p reg = map_option state_phase (reg p)"

definition services_of :: "string \<Rightarrow> plugin_registry \<Rightarrow> string list option" where
  "services_of p reg = map_option services (reg p)"

definition subscription_of :: "string \<Rightarrow> string \<Rightarrow> plugin_registry \<Rightarrow> subscription option" where
  "subscription_of p s reg = Option.bind (reg p) (\<lambda>st. map_of (subscriptions st) s)"

definition subscriptions_of :: "string \<Rightarrow> plugin_registry \<Rightarrow> (string \<times> string) list" where
  "subscriptions_of p reg = (case reg p of
     Some st \<Rightarrow> map (\<lambda>(k, s). (k, sub_topic s)) (subscriptions st) | None \<Rightarrow> [])"

definition in_flight_of :: "string \<Rightarrow> plugin_registry \<Rightarrow> string list" where
  "in_flight_of p reg = (case reg p of Some st \<Rightarrow> in_flight st | None \<Rightarrow> [])"

definition commands_of :: "string \<Rightarrow> plugin_registry \<Rightarrow> command_definition list" where
  "commands_of p reg = (case reg p of Some st \<Rightarrow> map snd (commands st) | None \<Rightarrow> [])"

definition llm_providers_of :: "string \<Rightarrow> plugin_registry \<Rightarrow> string list option" where
  "llm_providers_of p reg = map_option llm_providers (reg p)"

definition llm_adapters_of :: "string \<Rightarrow> plugin_registry \<Rightarrow> (string \<times> payload) list" where
  "llm_adapters_of p reg = (case reg p of Some st \<Rightarrow> llm_adapters st | None \<Rightarrow> [])"

definition invokable_tools_of :: "string \<Rightarrow> plugin_registry \<Rightarrow> string list option" where
  "invokable_tools_of p reg = map_option declared_invokable_tools (reg p)"

definition tools_of :: "string \<Rightarrow> plugin_registry \<Rightarrow> tool_definition list" where
  "tools_of p reg = (case reg p of Some st \<Rightarrow> map snd (tools st) | None \<Rightarrow> [])"

definition seats_of :: "string \<Rightarrow> plugin_registry \<Rightarrow> string list option" where
  "seats_of p reg = map_option declared_seats (reg p)"

definition not_routable :: "string \<Rightarrow> plugin_phase \<Rightarrow> registry_error" where
  "not_routable p ph = (case ph of
     Draining \<Rightarrow> StaleProvider p ph | Unloaded \<Rightarrow> StaleProvider p ph | _ \<Rightarrow> NotReady p ph)"

definition routable :: "plugin_registry \<Rightarrow> string \<Rightarrow> registry_error + plugin_state" where
  "routable reg p =
     and_then (ok_or (reg p) (UnknownPlugin p)) (\<lambda>st.
       if \<not> phase_routable (state_phase st) then Inl (not_routable p (state_phase st)) else Inr st)"

subsection \<open>Loading\<close>

definition admit_load :: "load_request \<Rightarrow> plugin_registry \<Rightarrow> (registry_error + unit) \<times> plugin_registry" where
  "admit_load r reg =
     try_in reg (map_err BadPayload (validate_load r)) (\<lambda>_.
       if is_some_and (\<lambda>st. state_phase st \<noteq> Unloaded) (reg (load_plugin r))
       then (Inl (AlreadyLoaded (load_plugin r)), reg)
       else (Inr (), reg(load_plugin r \<mapsto> default_plugin
         \<lparr>phase_slot := Some Admitted,
          declared_services := set_collect (load_services r),
          declared_topics := set_collect (load_topics r),
          declared_llm_providers := set_collect (load_providers r),
          declared_commands := set_collect (load_commands r),
          declared_tools := set_collect (load_tools r),
          declared_invokable_tools := set_collect (load_invokable r),
          declared_seats := set_collect (load_seats r),
          declared_published_topics := set_collect (load_published r)\<rparr>)))"

definition reject_load :: "string \<Rightarrow> plugin_registry \<Rightarrow> (registry_error + unit) \<times> plugin_registry" where
  "reject_load p reg =
     (case map_option state_phase (reg p) of
        Some ph \<Rightarrow> if ph = Admitted then (Inr (), reg(p := None)) else (Inl (NotReady p ph), reg)
      | None \<Rightarrow> (Inl (UnknownPlugin p), reg))"

fun within_declared :: "string \<Rightarrow> (string \<times> string list \<times> string list) list \<Rightarrow> registry_error + unit" where
  "within_declared p [] = Inr ()"
| "within_declared p ((what, declared, registered) # rest) =
     (case find (\<lambda>name. name \<notin> set declared) registered of
        Some name \<Rightarrow> Inl (Undeclared p what name)
      | None \<Rightarrow> within_declared p rest)"

definition accept_ready :: "ready_report \<Rightarrow> plugin_registry \<Rightarrow> (registry_error + unit) \<times> plugin_registry" where
  "accept_ready r reg =
     try_in reg (map_err BadPayload (validate_ready r)) (\<lambda>_.
     try_in reg (ok_or (reg (ready_plugin r)) (UnknownPlugin (ready_plugin r))) (\<lambda>st.
       if state_phase st \<noteq> Admitted then (Inl (NotReady (ready_plugin r) (state_phase st)), reg)
       else
         try_in reg (within_declared (ready_plugin r)
           [(''service'', declared_services st, ready_services r),
            (''topic'', declared_topics st, ready_topics r),
            (''provider'', declared_llm_providers st, ready_providers r),
            (''tool'', declared_tools st, map tool_name (ready_tools r)),
            (''command'', declared_commands st, map command_name (ready_commands r))]) (\<lambda>_.
         (Inr (), reg(ready_plugin r \<mapsto> st
           \<lparr>services := set_collect (ready_services r),
            topics := set_collect (ready_topics r),
            llm_providers := set_collect (ready_providers r),
            llm_adapters := ready_adapters r,
            tools := map_collect (map (\<lambda>t. (tool_name t, t)) (ready_tools r)),
            commands := map_collect (map (\<lambda>c. (command_name c, c)) (ready_commands r)),
            phase_slot := Some Ready\<rparr>)))))"

subsection \<open>Routing work to a plugin\<close>

definition account_call ::
  "call_identity \<Rightarrow> plugin_state \<Rightarrow> plugin_registry \<Rightarrow> (registry_error + unit) \<times> plugin_registry" where
  "account_call i st reg =
     (if call_id i \<in> set (in_flight st) then (Inl (DuplicateCall (call_id i)), reg)
      else (Inr (), reg(plugin_id i \<mapsto> st\<lparr>in_flight := set_insert (call_id i) (in_flight st)\<rparr>)))"

definition admit_service_call ::
  "call_identity \<Rightarrow> service_call \<Rightarrow> plugin_registry \<Rightarrow> (registry_error + unit) \<times> plugin_registry" where
  "admit_service_call i r reg =
     try_in reg (map_err BadPayload (validate_service_call r)) (\<lambda>_.
     try_in reg (routable reg (plugin_id i)) (\<lambda>st.
       if call_service r \<notin> set (services st)
       then (Inl (UnknownService (plugin_id i) (call_service r)), reg)
       else account_call i st reg))"

definition admit_llm_stream ::
  "call_identity \<Rightarrow> llm_stream \<Rightarrow> plugin_registry \<Rightarrow> (registry_error + unit) \<times> plugin_registry" where
  "admit_llm_stream i r reg =
     try_in reg (map_err BadPayload (validate_llm_stream r)) (\<lambda>_.
     try_in reg (routable reg (plugin_id i)) (\<lambda>st.
       if stream_provider r \<notin> set (llm_providers st)
       then (Inl (UnknownProvider (plugin_id i) (stream_provider r)), reg)
       else account_call i st reg))"

definition admit_llm_control ::
  "call_identity \<Rightarrow> llm_control \<Rightarrow> plugin_registry \<Rightarrow> (registry_error + unit) \<times> plugin_registry" where
  "admit_llm_control i r reg =
     try_in reg (map_err BadPayload (validate_llm_control r)) (\<lambda>_.
     try_in reg (routable reg (plugin_id i)) (\<lambda>st.
       if control_provider r \<notin> set (llm_providers st)
       then (Inl (UnknownProvider (plugin_id i) (control_provider r)), reg)
       else account_call i st reg))"

definition admit_command_invoke ::
  "call_identity \<Rightarrow> command_invoke \<Rightarrow> plugin_registry \<Rightarrow> (registry_error + unit) \<times> plugin_registry" where
  "admit_command_invoke i r reg =
     try_in reg (map_err BadPayload (validate_command_invoke r)) (\<lambda>_.
     try_in reg (routable reg (plugin_id i)) (\<lambda>st.
       if is_some_and (\<lambda>c. command_kind c = PromptCommand \<or> command_kind c = OutputCommand)
            (map_of (commands st) (invoke_name r))
       then account_call i st reg
       else (Inl (UnknownCommand (plugin_id i) (invoke_name r)), reg)))"

definition admit_tool_call ::
  "call_identity \<Rightarrow> tool_invoke \<Rightarrow> plugin_registry \<Rightarrow> (registry_error + unit) \<times> plugin_registry" where
  "admit_tool_call i r reg =
     try_in reg (map_err BadPayload (validate_tool_invoke r)) (\<lambda>_.
     try_in reg (routable reg (plugin_id i)) (\<lambda>st.
       if \<not> contains_key (invoke_tool r) (tools st)
       then (Inl (UnknownTool (plugin_id i) (invoke_tool r)), reg)
       else account_call i st reg))"

definition unloaded_plugin :: plugin_state where
  "unloaded_plugin = default_plugin\<lparr>phase_slot := Some Unloaded\<rparr>"

definition complete_call ::
  "string \<Rightarrow> string \<Rightarrow> plugin_registry \<Rightarrow> (registry_error + call_closed) \<times> plugin_registry" where
  "complete_call p c reg =
     try_in reg (ok_or (reg p) (UnknownPlugin p)) (\<lambda>st.
       if c \<notin> set (in_flight st) then (Inl (UnknownPluginCall p c), reg)
       else
         let st = st\<lparr>in_flight := set_remove c (in_flight st)\<rparr>
         in if state_phase st \<noteq> Draining \<or> in_flight st \<noteq> []
            then (Inr PluginUnaffected, reg(p \<mapsto> st))
            else (Inr DrainFinished, reg(p \<mapsto> unloaded_plugin)))"

subsection \<open>What a plugin may reach for\<close>

definition admit_tool_invoke ::
  "call_identity \<Rightarrow> tool_invoke \<Rightarrow> plugin_registry \<Rightarrow> registry_error + unit" where
  "admit_tool_invoke i r reg =
     and_then (map_err BadPayload (validate_tool_invoke r)) (\<lambda>_.
     and_then (ok_or (reg (plugin_id i)) (UnknownPlugin (plugin_id i))) (\<lambda>st.
       if \<not> phase_routable (state_phase st) then Inl (not_routable (plugin_id i) (state_phase st))
       else if invoke_tool r \<notin> set (declared_invokable_tools st)
       then Inl (UnauthorizedTool (plugin_id i) (invoke_tool r))
       else Inr ()))"

definition admit_seat_call ::
  "call_identity \<Rightarrow> seat_call \<Rightarrow> plugin_registry \<Rightarrow> registry_error + unit" where
  "admit_seat_call i r reg =
     and_then (map_err BadPayload (validate_seat_call r)) (\<lambda>_.
     and_then (ok_or (reg (plugin_id i)) (UnknownPlugin (plugin_id i))) (\<lambda>st.
       if \<not> phase_routable (state_phase st) then Inl (not_routable (plugin_id i) (state_phase st))
       else if call_seat r \<notin> set (declared_seats st)
       then Inl (UnauthorizedSeat (plugin_id i) (call_seat r))
       else Inr ()))"

definition admit_event_emit ::
  "call_identity \<Rightarrow> emit_request \<Rightarrow> plugin_registry \<Rightarrow> registry_error + unit" where
  "admit_event_emit i r reg =
     and_then (map_err BadPayload (validate_emit r)) (\<lambda>_.
     and_then (ok_or (reg (plugin_id i)) (UnknownPlugin (plugin_id i))) (\<lambda>st.
       if \<not> phase_routable (state_phase st) then Inl (not_routable (plugin_id i) (state_phase st))
       else if emit_topic r \<notin> set (declared_published_topics st)
       then Inl (UnauthorizedTopic (plugin_id i) (emit_topic r))
       else Inr ()))"

subsection \<open>Subscriptions\<close>

definition subscribe ::
  "call_identity \<Rightarrow> subscribe_request \<Rightarrow> plugin_registry \<Rightarrow> (registry_error + unit) \<times> plugin_registry" where
  "subscribe i r reg =
     try_in reg (map_err BadPayload (validate_subscribe r)) (\<lambda>_.
     try_in reg (routable reg (plugin_id i)) (\<lambda>st.
       if subscribe_topic r \<notin> set (topics st)
       then (Inl (UnknownTopic (plugin_id i) (subscribe_topic r)), reg)
       else if contains_key (subscribe_id r) (subscriptions st)
       then (Inl (DuplicateSubscription (plugin_id i) (subscribe_id r)), reg)
       else (Inr (), reg(plugin_id i \<mapsto> st\<lparr>subscriptions :=
         map_insert (subscribe_id r)
           \<lparr>sub_topic = subscribe_topic r, sub_scope = scope_id i, sub_generation = scope_generation i\<rparr>
           (subscriptions st)\<rparr>))))"

definition unsubscribe ::
  "string \<Rightarrow> unsubscribe_request \<Rightarrow> plugin_registry \<Rightarrow> (registry_error + unit) \<times> plugin_registry" where
  "unsubscribe p r reg =
     try_in reg (map_err BadPayload (validate_unsubscribe r)) (\<lambda>_.
     try_in reg (ok_or (reg p) (UnknownPlugin p)) (\<lambda>st.
       if contains_key (unsubscribe_id r) (subscriptions st)
       then (Inr (), reg(p \<mapsto> st\<lparr>subscriptions := map_remove (unsubscribe_id r) (subscriptions st)\<rparr>))
       else (Inl (UnknownSubscription p (unsubscribe_id r)), reg)))"

definition admit_event_delivery ::
  "call_identity \<Rightarrow> event_delivery \<Rightarrow> plugin_registry \<Rightarrow> registry_error + unit" where
  "admit_event_delivery i d reg =
     and_then (map_err BadPayload (validate_delivery d)) (\<lambda>_.
     and_then (ok_or (reg (plugin_id i)) (UnknownPlugin (plugin_id i))) (\<lambda>st.
       if \<not> phase_routable (state_phase st) then Inl (not_routable (plugin_id i) (state_phase st))
       else
         and_then (ok_or (map_of (subscriptions st) (delivery_subscription d))
             (UnknownSubscription (plugin_id i) (delivery_subscription d))) (\<lambda>s.
           if sub_topic s \<noteq> delivery_topic d
           then Inl (TopicMismatch (delivery_subscription d) (sub_topic s) (delivery_topic d))
           else if sub_scope s \<noteq> scope_id i \<or> sub_generation s \<noteq> scope_generation i
           then Inl (StaleSubscription (delivery_subscription d) (sub_scope s) (sub_generation s)
                  (scope_generation i))
           else Inr ())))"

definition revoke_stale_subscriptions ::
  "string \<Rightarrow> string \<Rightarrow> u64 \<Rightarrow> plugin_registry \<Rightarrow> (string \<times> string) list \<times> plugin_registry" where
  "revoke_stale_subscriptions p scope current reg =
     (case reg p of
        None \<Rightarrow> ([], reg)
      | Some st \<Rightarrow>
          let stale = map fst (filter (\<lambda>(_, s). sub_scope s = scope \<and> sub_generation s < current)
                        (subscriptions st))
          in (map (Pair p) stale,
              reg(p \<mapsto> st\<lparr>subscriptions := fold map_remove stale (subscriptions st)\<rparr>)))"

subsection \<open>Unloading\<close>

definition begin_unload ::
  "unload_request \<Rightarrow> plugin_registry \<Rightarrow> (registry_error + drain_report) \<times> plugin_registry" where
  "begin_unload r reg =
     try_in reg (map_err BadPayload (validate_unload r)) (\<lambda>_.
     try_in reg (ok_or (reg (unload_plugin r)) (UnknownPlugin (unload_plugin r))) (\<lambda>st.
       case state_phase st of
         Ready \<Rightarrow>
           (Inr \<lparr>drain_plugin = unload_plugin r, outstanding_calls = in_flight st,
                 revoked_subscriptions = keys (subscriptions st)\<rparr>,
            reg(unload_plugin r \<mapsto> st\<lparr>phase_slot := Some Draining, subscriptions := []\<rparr>))
       | Admitted \<Rightarrow> (Inl (NotReady (unload_plugin r) Admitted), reg)
       | ph \<Rightarrow> (Inl (StaleProvider (unload_plugin r) ph), reg)))"

definition finish_unload :: "string \<Rightarrow> plugin_registry \<Rightarrow> (registry_error + unit) \<times> plugin_registry" where
  "finish_unload p reg =
     try_in reg (ok_or (reg p) (UnknownPlugin p)) (\<lambda>st.
       if state_phase st \<noteq> Draining then (Inl (NotReady p (state_phase st)), reg)
       else if in_flight st \<noteq> [] then (Inl (DrainIncomplete p (length (in_flight st))), reg)
       else (Inr (), reg(p \<mapsto> unloaded_plugin)))"

end
