(* ===== verification/Registry_Facts.thy ===== *)
theory Registry_Facts
  imports Plugin_Registry
begin

text \<open>
  What the plugin registry guarantees in every reachable state: a plugin offers nothing its
  manifest did not declare, a drain refuses new work and ends with its last call, and an event
  is delivered to the live subscription of the exact scope incarnation only.
\<close>

subsection \<open>The registry as a state machine\<close>

inductive registry_step :: "plugin_registry \<Rightarrow> plugin_registry \<Rightarrow> bool" where
  load: "registry_step reg (snd (admit_load r reg))"
| reject: "registry_step reg (snd (reject_load p reg))"
| ready: "registry_step reg (snd (accept_ready report reg))"
| service: "registry_step reg (snd (admit_service_call i sc reg))"
| stream: "registry_step reg (snd (admit_llm_stream i ls reg))"
| control: "registry_step reg (snd (admit_llm_control i lc reg))"
| command: "registry_step reg (snd (admit_command_invoke i ci reg))"
| tool: "registry_step reg (snd (admit_tool_call i ti reg))"
| complete: "registry_step reg (snd (complete_call p c reg))"
| subscribe: "registry_step reg (snd (subscribe i sr reg))"
| unsubscribe: "registry_step reg (snd (unsubscribe p ur reg))"
| revoke: "registry_step reg (snd (revoke_stale_subscriptions p scope g reg))"
| unload: "registry_step reg (snd (begin_unload ulr reg))"
| finish: "registry_step reg (snd (finish_unload p reg))"

inductive registry_reachable :: "plugin_registry \<Rightarrow> bool" where
  start: "registry_reachable new_registry"
| step: "registry_reachable reg \<Longrightarrow> registry_step reg reg' \<Longrightarrow> registry_reachable reg'"

definition within_manifest :: "plugin_state \<Rightarrow> bool" where
  "within_manifest st \<longleftrightarrow>
     set (services st) \<subseteq> set (declared_services st) \<and>
     set (topics st) \<subseteq> set (declared_topics st) \<and>
     set (llm_providers st) \<subseteq> set (declared_llm_providers st) \<and>
     set (keys (llm_adapters st)) \<subseteq> set (llm_providers st) \<and>
     set (keys (tools st)) \<subseteq> set (declared_tools st) \<and>
     set (keys (commands st)) \<subseteq> set (declared_commands st)"

definition nothing_offered :: "plugin_state \<Rightarrow> bool" where
  "nothing_offered st \<longleftrightarrow>
     services st = [] \<and> topics st = [] \<and> llm_providers st = [] \<and> llm_adapters st = [] \<and>
     tools st = [] \<and> commands st = []"

definition phase_ok :: "plugin_state \<Rightarrow> bool" where
  "phase_ok st \<longleftrightarrow>
     (subscriptions st = [] \<or> state_phase st = Ready) \<and>
     (in_flight st = [] \<or> state_phase st = Ready \<or> state_phase st = Draining) \<and>
     (nothing_offered st \<or> state_phase st = Ready \<or> state_phase st = Draining) \<and>
     list_all (\<lambda>e. sub_topic (snd e) \<in> set (topics st)) (subscriptions st) \<and>
     map_ordered (subscriptions st) \<and> set_ordered (in_flight st)"

definition plugin_ok :: "plugin_state \<Rightarrow> bool" where
  "plugin_ok st \<longleftrightarrow> within_manifest st \<and> phase_ok st"

definition registry_ok :: "plugin_registry \<Rightarrow> bool" where
  "registry_ok reg \<longleftrightarrow> (\<forall>p st. reg p = Some st \<longrightarrow> plugin_ok st)"

lemma registry_ok_upd: "registry_ok reg \<Longrightarrow> plugin_ok st \<Longrightarrow> registry_ok (reg(p \<mapsto> st))"
  by (auto simp: registry_ok_def)

lemma registry_ok_del: "registry_ok reg \<Longrightarrow> registry_ok (reg(p := None))"
  by (auto simp: registry_ok_def)

lemma registry_ok_get: "registry_ok reg \<Longrightarrow> reg p = Some st \<Longrightarrow> plugin_ok st"
  by (auto simp: registry_ok_def)

lemma registry_ok_try:
  "registry_ok reg \<Longrightarrow> (\<And>x. r = Inr x \<Longrightarrow> registry_ok (snd (k x))) \<Longrightarrow> registry_ok (snd (try_in reg r k))"
  by (cases r) simp_all

lemma state_phase_update [simp]:
  "state_phase (st\<lparr>in_flight := xs\<rparr>) = state_phase st"
  "state_phase (st\<lparr>subscriptions := ss\<rparr>) = state_phase st"
  "state_phase (st\<lparr>phase_slot := Some ph\<rparr>) = ph"
  by (simp_all add: state_phase_def)

lemma phase_routable_iff: "phase_routable ph \<longleftrightarrow> ph = Ready"
  by (cases ph) (simp_all add: phase_routable_def)

lemma routable_ok: "routable reg p = Inr st \<longleftrightarrow> reg p = Some st \<and> state_phase st = Ready"
  by (cases "reg p"; cases "state_phase (the (reg p))")
    (auto simp: routable_def phase_routable_def)

lemma ok_or_Inr: "ok_or x e = Inr v \<longleftrightarrow> x = Some v"
  by (cases x) simp_all

lemma within_declared_ok:
  "within_declared p rows = Inr u \<longleftrightarrow> list_all (\<lambda>(what, declared, registered). set registered \<subseteq> set declared) rows"
  by (induction p rows rule: within_declared.induct)
    (auto simp: find_None_iff find_Some_iff dest: nth_mem split: option.splits)

lemma plugin_ok_account:
  "plugin_ok st \<Longrightarrow> state_phase st = Ready \<Longrightarrow> plugin_ok (st\<lparr>in_flight := set_insert c (in_flight st)\<rparr>)"
  by (simp add: plugin_ok_def within_manifest_def phase_ok_def nothing_offered_def ordered_set_insert)

lemma account_call_keeps:
  "registry_ok reg \<Longrightarrow> routable reg (plugin_id i) = Inr st \<Longrightarrow> registry_ok (snd (account_call i st reg))"
  by (auto simp: account_call_def routable_ok intro: registry_ok_upd plugin_ok_account registry_ok_get)

lemma admissions_keep:
  assumes "registry_ok reg"
  shows "registry_ok (snd (admit_service_call i sc reg))"
    and "registry_ok (snd (admit_llm_stream i ls reg))"
    and "registry_ok (snd (admit_llm_control i lc reg))"
    and "registry_ok (snd (admit_command_invoke i ci reg))"
    and "registry_ok (snd (admit_tool_call i ti reg))"
  using assms
  by (auto simp: admit_service_call_def admit_llm_stream_def admit_llm_control_def
      admit_command_invoke_def admit_tool_call_def intro!: registry_ok_try account_call_keeps)

lemma plugin_ok_fresh: "nothing_offered st \<Longrightarrow> subscriptions st = [] \<Longrightarrow> in_flight st = [] \<Longrightarrow> plugin_ok st"
  by (simp add: plugin_ok_def within_manifest_def phase_ok_def nothing_offered_def keys_def
      btree_map.ok_empty btree_set.ok_empty)

lemma default_plugin_empty:
  "nothing_offered default_plugin" "subscriptions default_plugin = []" "in_flight default_plugin = []"
  by (simp_all add: default_plugin_def nothing_offered_def)

lemma plugin_ok_unloaded: "plugin_ok unloaded_plugin"
  using default_plugin_empty by (intro plugin_ok_fresh) (simp_all add: unloaded_plugin_def nothing_offered_def)

lemma admit_load_keeps: "registry_ok reg \<Longrightarrow> registry_ok (snd (admit_load r reg))"
  unfolding admit_load_def
  by (rule registry_ok_try, assumption)
    (use default_plugin_empty in \<open>auto simp: nothing_offered_def intro!: registry_ok_upd plugin_ok_fresh\<close>)

lemma reject_load_keeps: "registry_ok reg \<Longrightarrow> registry_ok (snd (reject_load p reg))"
  by (auto simp: reject_load_def intro: registry_ok_del split: option.splits)

lemma keys_map_collect: "set (keys (map_collect es)) = fst ` set es"
  by (simp add: set_keys map_of_collect dom_map_of_conv_image_fst)

lemma plugin_ok_registered:
  assumes "plugin_ok st" and "state_phase st = Admitted" and "validate_ready r = Inr u"
    and "set (ready_services r) \<subseteq> set (declared_services st)"
    and "set (ready_topics r) \<subseteq> set (declared_topics st)"
    and "set (ready_providers r) \<subseteq> set (declared_llm_providers st)"
    and "tool_name ` set (ready_tools r) \<subseteq> set (declared_tools st)"
    and "command_name ` set (ready_commands r) \<subseteq> set (declared_commands st)"
  shows "plugin_ok (st
           \<lparr>services := set_collect (ready_services r),
            topics := set_collect (ready_topics r),
            llm_providers := set_collect (ready_providers r),
            llm_adapters := ready_adapters r,
            tools := map_collect (map (\<lambda>t. (tool_name t, t)) (ready_tools r)),
            commands := map_collect (map (\<lambda>c. (command_name c, c)) (ready_commands r)),
            phase_slot := Some Ready\<rparr>)"
  using assms validate_ready_providers [OF assms(3)]
  by (simp add: plugin_ok_def within_manifest_def phase_ok_def keys_map_collect image_image state_phase_def
      btree_map.ok_empty btree_set.ok_empty)

lemma accept_ready_keeps: "registry_ok reg \<Longrightarrow> registry_ok (snd (accept_ready r reg))"
  unfolding accept_ready_def
  by (intro registry_ok_try)
    (auto simp: ok_or_Inr map_err_Inr within_declared_ok simp del: within_declared.simps
      intro!: registry_ok_try registry_ok_upd plugin_ok_registered dest: registry_ok_get)

lemma plugin_ok_complete:
  "plugin_ok st \<Longrightarrow> in_flight st \<noteq> [] \<Longrightarrow> plugin_ok (st\<lparr>in_flight := set_remove c (in_flight st)\<rparr>)"
  by (auto simp: plugin_ok_def within_manifest_def phase_ok_def nothing_offered_def ordered_set_remove)

lemma complete_call_keeps: "registry_ok reg \<Longrightarrow> registry_ok (snd (complete_call p c reg))"
  unfolding complete_call_def
  by (rule registry_ok_try, assumption)
    (auto simp: ok_or_Inr Let_def plugin_ok_unloaded
      intro!: registry_ok_upd plugin_ok_complete dest: registry_ok_get)

lemma plugin_ok_subscriptions:
  "plugin_ok st \<Longrightarrow> ss = [] \<or> state_phase st = Ready \<Longrightarrow> set ss \<subseteq> set (subscriptions st) \<Longrightarrow>
     map_ordered ss \<Longrightarrow> plugin_ok (st\<lparr>subscriptions := ss\<rparr>)"
  by (auto simp: plugin_ok_def within_manifest_def phase_ok_def nothing_offered_def list_all_iff)

lemma set_map_insert: "set (map_insert k v m) \<subseteq> insert (k, v) (set m)"
  by (induction k v m rule: map_insert.induct) auto

lemma plugin_ok_subscribe:
  "plugin_ok st \<Longrightarrow> state_phase st = Ready \<Longrightarrow> sub_topic s \<in> set (topics st) \<Longrightarrow>
     plugin_ok (st\<lparr>subscriptions := map_insert k s (subscriptions st)\<rparr>)"
  using set_map_insert [of k s "subscriptions st"]
  by (auto simp: plugin_ok_def within_manifest_def phase_ok_def nothing_offered_def list_all_iff
      ordered_map_insert)

lemma subscribe_keeps: "registry_ok reg \<Longrightarrow> registry_ok (snd (subscribe i r reg))"
  unfolding subscribe_def
  by (intro registry_ok_try)
    (auto simp: routable_ok intro!: registry_ok_upd plugin_ok_subscribe dest: registry_ok_get)

lemma set_map_remove: "set (map_remove k m) \<subseteq> set m" "set (fold map_remove ks m) \<subseteq> set m"
proof -
  show "set (map_remove k m) \<subseteq> set m" for k and m :: "('a \<times> 'b) list"
    by (auto simp: map_remove_def)
  then show "set (fold map_remove ks m) \<subseteq> set m"
    by (induction ks arbitrary: m) (simp, fastforce)
qed

lemma plugin_ok_map_ordered: "plugin_ok st \<Longrightarrow> map_ordered (subscriptions st)"
  by (simp add: plugin_ok_def phase_ok_def)

lemma ordered_fold_remove: "map_ordered m \<Longrightarrow> map_ordered (fold map_remove ks m)"
  by (induction ks arbitrary: m) (simp_all add: ordered_map_remove)

lemma plugin_ok_fewer_subscriptions:
  "plugin_ok st \<Longrightarrow> set ss \<subseteq> set (subscriptions st) \<Longrightarrow> map_ordered ss \<Longrightarrow> plugin_ok (st\<lparr>subscriptions := ss\<rparr>)"
  by (rule plugin_ok_subscriptions) (auto simp: plugin_ok_def phase_ok_def)

lemma unsubscribe_keeps: "registry_ok reg \<Longrightarrow> registry_ok (snd (unsubscribe p r reg))"
  unfolding unsubscribe_def
  by (intro registry_ok_try)
    (auto simp: ok_or_Inr intro!: registry_ok_upd plugin_ok_fewer_subscriptions
      ordered_map_remove plugin_ok_map_ordered dest: registry_ok_get subsetD [OF set_map_remove(1)])

lemma revoke_keeps: "registry_ok reg \<Longrightarrow> registry_ok (snd (revoke_stale_subscriptions p s g reg))"
  by (auto simp: revoke_stale_subscriptions_def Let_def intro!: registry_ok_upd plugin_ok_fewer_subscriptions
      ordered_fold_remove plugin_ok_map_ordered dest: registry_ok_get subsetD [OF set_map_remove(2)] split: option.splits)

lemma plugin_ok_draining:
  "plugin_ok st \<Longrightarrow> plugin_ok (st\<lparr>phase_slot := Some Draining, subscriptions := []\<rparr>)"
  by (auto simp: plugin_ok_def within_manifest_def phase_ok_def nothing_offered_def state_phase_def
      btree_map.ok_empty)

lemma begin_unload_keeps: "registry_ok reg \<Longrightarrow> registry_ok (snd (begin_unload r reg))"
  unfolding begin_unload_def
  by (intro registry_ok_try)
    (auto simp: ok_or_Inr intro!: registry_ok_upd plugin_ok_draining dest: registry_ok_get
      split: plugin_phase.splits)

lemma finish_unload_keeps: "registry_ok reg \<Longrightarrow> registry_ok (snd (finish_unload p reg))"
  unfolding finish_unload_def
  by (intro registry_ok_try) (auto intro!: registry_ok_upd plugin_ok_unloaded)

lemmas registry_keeps = admit_load_keeps reject_load_keeps accept_ready_keeps admissions_keep
  complete_call_keeps subscribe_keeps unsubscribe_keeps revoke_keeps begin_unload_keeps finish_unload_keeps

lemma registry_step_keeps: "registry_step reg reg' \<Longrightarrow> registry_ok reg \<Longrightarrow> registry_ok reg'"
  by (induction rule: registry_step.induct) (simp_all add: registry_keeps)

lemma registry_reachable_ok: "registry_reachable reg \<Longrightarrow> registry_ok reg"
  by (induction rule: registry_reachable.induct)
    (auto simp: registry_ok_def new_registry_def intro: registry_step_keeps [unfolded registry_ok_def, rule_format])

subsection \<open>Routing\<close>

lemma account_call_Inr:
  "account_call i st reg = (Inr u, reg') \<longleftrightarrow>
     call_id i \<notin> set (in_flight st) \<and>
     reg' = reg(plugin_id i \<mapsto> st\<lparr>in_flight := set_insert (call_id i) (in_flight st)\<rparr>)"
  by (auto simp: account_call_def)

lemmas admission_defs = admit_service_call_def admit_llm_stream_def admit_llm_control_def
  admit_command_invoke_def admit_tool_call_def

lemma ready_plugin_within:
  assumes "registry_ok reg" and "reg p = Some st"
  shows "within_manifest st" and "phase_ok st"
  using registry_ok_get [OF assms] by (simp_all add: plugin_ok_def)

lemma not_routable_cases [simp]:
  "not_routable p Draining = StaleProvider p Draining"
  "not_routable p Unloaded = StaleProvider p Unloaded"
  "not_routable p Admitted = NotReady p Admitted"
  by (simp_all add: not_routable_def)

lemma routable_draining: "reg p = Some st \<Longrightarrow> state_phase st = Draining \<Longrightarrow> routable reg p = Inl (StaleProvider p Draining)"
  by (simp add: routable_def phase_routable_def)

subsection \<open>Drains\<close>

lemma begin_unload_Inr:
  "begin_unload r reg = (Inr report, reg') \<longleftrightarrow>
     good_name (unload_plugin r) \<and> unload_plugin r \<noteq> PLATFORM_PLUGIN_ID \<and>
     (\<exists>st. reg (unload_plugin r) = Some st \<and> state_phase st = Ready \<and>
       report = \<lparr>drain_plugin = unload_plugin r, outstanding_calls = in_flight st,
                 revoked_subscriptions = keys (subscriptions st)\<rparr> \<and>
       reg' = reg(unload_plugin r \<mapsto> st\<lparr>phase_slot := Some Draining, subscriptions := []\<rparr>))"
  by (cases "reg (unload_plugin r)"; cases "state_phase (the (reg (unload_plugin r)))")
    (auto simp: begin_unload_def try_in_Inr map_err_Inr validate_unload_def validate_plugin_id_ok)

text \<open>Completing calls one after the other, with the results in order.\<close>

fun complete_all ::
  "string \<Rightarrow> string list \<Rightarrow> plugin_registry \<Rightarrow> (registry_error + call_closed) list \<times> plugin_registry" where
  "complete_all p [] reg = ([], reg)"
| "complete_all p (c # cs) reg =
     (fst (complete_call p c reg) # fst (complete_all p cs (snd (complete_call p c reg))),
      snd (complete_all p cs (snd (complete_call p c reg))))"

lemma state_phase_draining: "state_phase (st\<lparr>phase_slot := Some Draining, subscriptions := []\<rparr>) = Draining"
  by (simp add: state_phase_def)

lemma complete_call_draining:
  assumes "reg p = Some st" and "state_phase st = Draining" and "c \<in> set (in_flight st)"
  shows "complete_call p c reg =
    (if set_remove c (in_flight st) = [] then (Inr DrainFinished, reg(p \<mapsto> unloaded_plugin))
     else (Inr PluginUnaffected, reg(p \<mapsto> st\<lparr>in_flight := set_remove c (in_flight st)\<rparr>)))"
  using assms by (simp add: complete_call_def Let_def)

lemma set_remove_Nil: "set_remove c xs = [] \<longleftrightarrow> set xs \<subseteq> {c}"
  by (auto simp: set_remove_def filter_empty_conv)

lemma complete_all_draining:
  assumes "reg p = Some st" and "state_phase st = Draining"
    and "cs \<noteq> []" and "distinct cs" and "set cs = set (in_flight st)"
  shows "fst (complete_all p cs reg) = replicate (length cs - 1) (Inr PluginUnaffected) @ [Inr DrainFinished] \<and>
    plugin_phase_of p (snd (complete_all p cs reg)) = Some Unloaded"
  using assms
proof (induction cs arbitrary: reg st)
  case (Cons c cs)
  note step = complete_call_draining [of reg p st c, OF Cons.prems(1,2)]
  show ?case
  proof (cases "cs = []")
    case True
    with Cons.prems(5) have "set_remove c (in_flight st) = []" and "c \<in> set (in_flight st)"
      by (auto simp: set_remove_Nil)
    with True step show ?thesis
      by (simp add: plugin_phase_of_def unloaded_plugin_def state_phase_def)
  next
    case False
    have left: "set cs = set (set_remove c (in_flight st))" using Cons.prems(4,5) by auto
    with False have "set_remove c (in_flight st) \<noteq> []" by (metis set_empty)
    then have call: "complete_call p c reg =
        (Inr PluginUnaffected, reg(p \<mapsto> st\<lparr>in_flight := set_remove c (in_flight st)\<rparr>))"
      using step Cons.prems(5) by auto
    have "fst (complete_all p cs (snd (complete_call p c reg))) =
          replicate (length cs - 1) (Inr PluginUnaffected) @ [Inr DrainFinished] \<and>
        plugin_phase_of p (snd (complete_all p cs (snd (complete_call p c reg)))) = Some Unloaded"
      using Cons.prems(2,4) False left
      by (intro Cons.IH [of _ "st\<lparr>in_flight := set_remove c (in_flight st)\<rparr>"]) (simp_all add: call)
    with False call show ?thesis by (cases cs) simp_all
  qed
qed simp

subsection \<open>Deliveries\<close>

lemma admit_event_delivery_Inr:
  "admit_event_delivery i d reg = Inr u \<longleftrightarrow>
     good_name (delivery_subscription d) \<and> good_name (delivery_topic d) \<and>
     plugin_phase_of (plugin_id i) reg = Some Ready \<and>
     subscription_of (plugin_id i) (delivery_subscription d) reg =
       Some \<lparr>sub_topic = delivery_topic d, sub_scope = scope_id i, sub_generation = scope_generation i\<rparr>"
  by (cases "reg (plugin_id i)"; cases "map_of (subscriptions (the (reg (plugin_id i)))) (delivery_subscription d)")
    (auto simp: admit_event_delivery_def validate_delivery_def map_err_Inr and_then_Inr validate_name_ok
      plugin_phase_of_def subscription_of_def phase_routable_iff)

lemma map_of_fold_remove: "map_of (fold map_remove ks m) k = (if k \<in> set ks then None else map_of m k)"
  by (induction ks arbitrary: m) (auto simp: map_of_map_remove)

lemma subscription_after_revoke:
  assumes "reg p = Some st" and "map_ordered (subscriptions st)"
  shows "subscription_of q k (snd (revoke_stale_subscriptions p scope g reg)) =
    (case subscription_of q k reg of
       Some s \<Rightarrow> if q = p \<and> sub_scope s = scope \<and> sub_generation s < g then None else Some s
     | None \<Rightarrow> None)"
proof -
  have "k \<in> fst ` {e \<in> set (subscriptions st). case e of (_, s) \<Rightarrow> sub_scope s = scope \<and> sub_generation s < g} \<longleftrightarrow>
      is_some_and (\<lambda>s. sub_scope s = scope \<and> sub_generation s < g) (map_of (subscriptions st) k)"
    using map_of_entry [OF assms(2), of k] by (force simp: is_some_and_iff)
  with assms(1) show ?thesis
    by (auto simp: revoke_stale_subscriptions_def Let_def subscription_of_def map_of_fold_remove
        is_some_and_iff split: option.splits)
qed

lemma phase_after_revoke:
  "plugin_phase_of q (snd (revoke_stale_subscriptions p scope g reg)) = plugin_phase_of q reg"
  by (auto simp: revoke_stale_subscriptions_def Let_def plugin_phase_of_def split: option.splits)

lemma subscription_after_revoke_ok:
  assumes "registry_ok reg"
  shows "subscription_of q k (snd (revoke_stale_subscriptions p scope g reg)) = Some s \<longleftrightarrow>
    subscription_of q k reg = Some s \<and> \<not> (q = p \<and> sub_scope s = scope \<and> sub_generation s < g)"
proof (cases "reg p")
  case None
  then show ?thesis by (auto simp: revoke_stale_subscriptions_def subscription_of_def)
next
  case (Some st)
  with assms have "map_ordered (subscriptions st)" by (auto dest: registry_ok_get plugin_ok_map_ordered)
  from subscription_after_revoke [of reg p st q k scope g, OF Some this] show ?thesis
    by (auto split: option.splits if_splits)
qed

subsection \<open>A loaded plugin\<close>

text \<open>One plugin, loaded and ready, with a subscription and a call in flight: the state the
  witnesses below evaluate.\<close>

definition demo_load :: load_request where
  "demo_load = \<lparr>load_plugin = ''p'', load_root = ''/pkg'', load_entry = ''i.mjs'',
     load_services = [''compose''], load_topics = [''t''], load_published = [], load_providers = [],
     load_tools = [], load_commands = [], load_seats = [], load_invokable = [], load_config = ''null''\<rparr>"

definition demo_ready :: ready_report where
  "demo_ready = \<lparr>ready_plugin = ''p'', ready_services = [''compose''], ready_topics = [''t''],
     ready_providers = [], ready_adapters = [], ready_tools = [], ready_commands = []\<rparr>"

definition demo_identity :: "string \<Rightarrow> call_identity" where
  "demo_identity c = \<lparr>host_epoch = 7, plugin_id = ''p'', scope_id = ''s'', scope_generation = 0, call_id = c\<rparr>"

definition demo_registry :: plugin_registry where
  "demo_registry =
     snd (admit_service_call (demo_identity ''c1'') \<lparr>call_service = ''compose'', call_request = ''1''\<rparr>
       (snd (subscribe (demo_identity ''c0'') \<lparr>subscribe_id = ''k'', subscribe_topic = ''t''\<rparr>
         (snd (accept_ready demo_ready (snd (admit_load demo_load new_registry)))))))"

lemma demo_reachable: "registry_reachable demo_registry"
  unfolding demo_registry_def
  by (rule registry_reachable.step [OF registry_reachable.step [OF registry_reachable.step
        [OF registry_reachable.step [OF registry_reachable.start]]]])
    (rule registry_step.intros)+

definition demo_plugin :: plugin_state where
  "demo_plugin = the (demo_registry ''p'')"

lemma demo_loaded: "demo_registry ''p'' = Some demo_plugin"
proof -
  have "demo_registry ''p'' \<noteq> None" by code_simp
  then show ?thesis by (auto simp: demo_plugin_def)
qed

subsection \<open>Properties\<close>

text \<open>The manifest is the ceiling: in every reachable registry a plugin offers only services,
  topics, providers, tools and commands its manifest declared, and describes only adapters it
  serves; and a service, model, command or tool call is routed to a plugin only when it is ready
  and declared what is called.\<close>

theorem routed_work_was_declared:
  assumes "registry_reachable reg" and "reg (plugin_id i) = Some st"
  shows "within_manifest st \<and>
    (fst (admit_service_call i sc reg) = Inr () \<longrightarrow>
       state_phase st = Ready \<and> call_service sc \<in> set (declared_services st)) \<and>
    (fst (admit_llm_stream i ls reg) = Inr () \<longrightarrow>
       state_phase st = Ready \<and> stream_provider ls \<in> set (declared_llm_providers st)) \<and>
    (fst (admit_llm_control i lc reg) = Inr () \<longrightarrow>
       state_phase st = Ready \<and> control_provider lc \<in> set (declared_llm_providers st)) \<and>
    (fst (admit_command_invoke i ci reg) = Inr () \<longrightarrow>
       state_phase st = Ready \<and> invoke_name ci \<in> set (declared_commands st)) \<and>
    (fst (admit_tool_call i ti reg) = Inr () \<longrightarrow>
       state_phase st = Ready \<and> invoke_tool ti \<in> set (declared_tools st))"
proof -
  have w: "within_manifest st"
    using registry_reachable_ok [OF assms(1)] assms(2) by (rule ready_plugin_within)
  have fst_Inr: "fst r = Inr () \<longleftrightarrow> (\<exists>reg'. r = (Inr (), reg'))" for r :: "(registry_error + unit) \<times> plugin_registry"
    by (cases r) auto
  have key: "map_of m k \<noteq> None \<Longrightarrow> k \<in> set (keys m)" for m :: "(string \<times> 'x) list" and k
    by (auto simp: set_keys)
  show ?thesis
    using w assms(2) key [of "commands st" "invoke_name ci"] key [of "tools st" "invoke_tool ti"]
    by (auto simp: admission_defs fst_Inr try_in_Inr routable_ok within_manifest_def is_some_and_iff
        contains_key_iff split: if_splits)
qed

theorem routed_work_was_declared_witness:
  "''compose'' \<in> set (declared_services demo_plugin)"
proof -
  have "fst (admit_service_call (demo_identity ''c2'') \<lparr>call_service = ''compose'', call_request = ''1''\<rparr>
      demo_registry) = Inr ()"
    by code_simp
  moreover have "demo_registry (plugin_id (demo_identity ''c2'')) = Some demo_plugin"
    using demo_loaded by (simp add: demo_identity_def)
  ultimately show ?thesis
    using routed_work_was_declared [OF demo_reachable, of "demo_identity ''c2''" demo_plugin
        "\<lparr>call_service = ''compose'', call_request = ''1''\<rparr>"]
    by simp
qed

text \<open>C20. A drain ends with its last call: unloading reports exactly the calls in flight, admits
  no new work, refuses to finish while a call is outstanding and finishes at once when none is;
  and completing the outstanding calls, in any order, leaves the plugin unaffected up to the
  last one, whose completion unloads it.\<close>

theorem drain_ends_with_last_call:
  assumes "begin_unload r reg = (Inr report, reg')" and "plugin_id i = unload_plugin r"
    and "distinct cs" and "set cs = set (outstanding_calls report)"
  shows "outstanding_calls report = in_flight_of (unload_plugin r) reg \<and>
    fst (admit_service_call i sc reg') \<noteq> Inr () \<and> fst (admit_llm_stream i ls reg') \<noteq> Inr () \<and>
    fst (admit_llm_control i lc reg') \<noteq> Inr () \<and> fst (admit_command_invoke i ci reg') \<noteq> Inr () \<and>
    fst (admit_tool_call i ti reg') \<noteq> Inr () \<and>
    fst (finish_unload (unload_plugin r) reg') =
      (if cs = [] then Inr ()
       else Inl (DrainIncomplete (unload_plugin r) (length (outstanding_calls report)))) \<and>
    (cs \<noteq> [] \<longrightarrow>
       fst (complete_all (unload_plugin r) cs reg') =
         replicate (length cs - 1) (Inr PluginUnaffected) @ [Inr DrainFinished] \<and>
       plugin_phase_of (unload_plugin r) (snd (complete_all (unload_plugin r) cs reg')) = Some Unloaded)"
proof -
  let ?p = "unload_plugin r"
  from assms(1) obtain st where st: "reg ?p = Some st" and rep: "outstanding_calls report = in_flight st"
    and reg': "reg' = reg(?p \<mapsto> st\<lparr>phase_slot := Some Draining, subscriptions := []\<rparr>)"
    unfolding begin_unload_Inr by auto
  have dr: "reg' ?p = Some (st\<lparr>phase_slot := Some Draining, subscriptions := []\<rparr>)" by (simp add: reg')
  note n = routable_draining [of reg' ?p, OF dr state_phase_draining]
  have "fst (try_in reg' (routable reg' (plugin_id i)) k) \<noteq> Inr ()" for k :: "plugin_state \<Rightarrow> (registry_error + unit) \<times> plugin_registry"
    by (simp add: n assms(2))
  then have refuse: "fst (try_in reg' v (\<lambda>_. try_in reg' (routable reg' (plugin_id i)) k)) \<noteq> Inr ()"
    for v :: "registry_error + unit" and k
    by (cases v) auto
  have fin: "fst (finish_unload ?p reg') = (if in_flight st = [] then Inr () else Inl (DrainIncomplete ?p (length (in_flight st))))"
    by (simp add: finish_unload_def dr state_phase_draining)
  have "cs = [] \<longleftrightarrow> in_flight st = []" using assms(4) rep by (metis set_empty)
  with fin rep st refuse show ?thesis
    using complete_all_draining [of reg' ?p _ cs, OF dr state_phase_draining] assms(3,4)
    by (auto simp: admission_defs in_flight_of_def)
qed

theorem drain_ends_with_last_call_witness:
  "fst (complete_all ''p'' [''c1''] (snd (begin_unload \<lparr>unload_plugin = ''p''\<rparr> demo_registry))) =
     [Inr DrainFinished]"
proof -
  have u: "begin_unload \<lparr>unload_plugin = ''p''\<rparr> demo_registry =
      (Inr \<lparr>drain_plugin = ''p'', outstanding_calls = [''c1''], revoked_subscriptions = [''k'']\<rparr>,
       snd (begin_unload \<lparr>unload_plugin = ''p''\<rparr> demo_registry))"
    by (rule prod_eqI) (code_simp, simp)
  have i: "plugin_id (demo_identity ''c2'') = unload_plugin \<lparr>unload_plugin = ''p''\<rparr>"
    by (simp add: demo_identity_def)
  have d: "distinct [''c1'']"
    and c: "set [''c1''] = set (outstanding_calls
      \<lparr>drain_plugin = ''p'', outstanding_calls = [''c1''], revoked_subscriptions = [''k'']\<rparr>)"
    by simp_all
  note all = drain_ends_with_last_call [OF u i d c]
  have "fst (complete_all (unload_plugin \<lparr>unload_plugin = ''p''\<rparr>) [''c1'']
        (snd (begin_unload \<lparr>unload_plugin = ''p''\<rparr> demo_registry))) =
      replicate (length [''c1''] - 1) (Inr PluginUnaffected) @ [Inr DrainFinished]"
    by (rule all [THEN conjunct2, THEN conjunct2, THEN conjunct2, THEN conjunct2, THEN conjunct2,
          THEN conjunct2, THEN conjunct2, THEN mp, THEN conjunct1]) simp
  then show ?thesis by simp
qed

text \<open>Revocation cuts exactly the past: in every reachable registry an event is delivered
  only to a ready plugin that holds the subscription on that topic under the scope incarnation
  the delivery names, and advancing a scope's generation takes away the deliveries of that plugin
  to older incarnations of that scope, and no others.\<close>

theorem revocation_cuts_older_incarnations:
  assumes "registry_reachable reg"
  shows "admit_event_delivery i d (snd (revoke_stale_subscriptions p scope g reg)) = Inr () \<longleftrightarrow>
    good_name (delivery_subscription d) \<and> good_name (delivery_topic d) \<and>
    plugin_phase_of (plugin_id i) reg = Some Ready \<and>
    subscription_of (plugin_id i) (delivery_subscription d) reg =
      Some \<lparr>sub_topic = delivery_topic d, sub_scope = scope_id i, sub_generation = scope_generation i\<rparr> \<and>
    \<not> (plugin_id i = p \<and> scope_id i = scope \<and> scope_generation i < g)"
  by (auto simp: admit_event_delivery_Inr phase_after_revoke
      subscription_after_revoke_ok [OF registry_reachable_ok [OF assms]])

theorem revocation_cuts_older_incarnations_witness:
  "admit_event_delivery (demo_identity ''e'')
     \<lparr>delivery_subscription = ''k'', delivery_topic = ''t'', delivery_event = ''1''\<rparr>
     (snd (revoke_stale_subscriptions ''p'' ''s'' 1 demo_registry)) \<noteq> Inr ()"
  using revocation_cuts_older_incarnations [OF demo_reachable, of "demo_identity ''e''"
      "\<lparr>delivery_subscription = ''k'', delivery_topic = ''t'', delivery_event = ''1''\<rparr>" "''p''" "''s''" 1]
  by (simp add: demo_identity_def)

end
