(* ===== verification/Supervisor_State.thy ===== *)
theory Supervisor_State
  imports Plugin_Registry Json_Value
begin

text \<open>
  \<open>crates/rebon-plugin-supervisor/src/state.rs\<close>: what the supervisor of a plugin host knows,
  with no process attached. The map of scopes is a function to options, since the code never
  iterates over it; pending calls and owed answers are ordered maps, since a failure answers the
  pending calls in that order. The JSON encoder of \<open>serde_json\<close>, which turns the failure payload
  into its text, is the parameter \<open>encode\<close>.
\<close>

subsection \<open>Failures, errors, inbound frames\<close>

record host_failure =
  failure_reason :: string
  failure_diagnostics :: "string option"

definition new_failure :: "string \<Rightarrow> host_failure" where
  "new_failure why = \<lparr>failure_reason = why, failure_diagnostics = None\<rparr>"

definition with_diagnostics :: "string \<Rightarrow> host_failure \<Rightarrow> host_failure" where
  "with_diagnostics d f = f\<lparr>failure_diagnostics := (if trim d \<noteq> [] then Some d else None)\<rparr>"

definition HOST_FAILED_CODE :: string where "HOST_FAILED_CODE = ''[PLUGIN_HOST_FAILED]''"

definition failure_payload :: "(json \<Rightarrow> payload) \<Rightarrow> host_failure \<Rightarrow> payload" where
  "failure_payload encode f =
     (let fields = map_insert ''code'' (JString HOST_FAILED_CODE) [];
          fields = map_insert ''message'' (JString (failure_reason f)) fields;
          fields = (case failure_diagnostics f of
            Some d \<Rightarrow> map_insert ''diagnostics'' (JString d) fields | None \<Rightarrow> fields)
      in encode (JObject fields))"

definition display_failure :: "host_failure \<Rightarrow> string" where
  "display_failure f = (case failure_diagnostics f of
     Some d \<Rightarrow> failure_reason f @ '': '' @ d | None \<Rightarrow> failure_reason f)"

datatype state_error =
    HostFailed host_failure
  | Lifecycle lifecycle_error
  | ScopeNeverOpened string string
  | ScopeAlreadyClosed string string

datatype inbound =
    InTerminal string terminal_status payload
  | InStale string
  | InRequest call_identity string payload
  | InNotification call_identity string payload
  | InChunk string payload

record scope_state =
  generation :: u64
  is_open :: bool

record supervisor_state =
  epoch :: u64
  ledger :: call_ledger
  registry :: plugin_registry
  pending :: "(string \<times> call_identity) list"
  owed :: "(string \<times> call_identity) list"
  scopes :: "string \<times> string \<Rightarrow> scope_state option"
  failure :: "host_failure option"
  next_call :: u64

subsection \<open>Starting\<close>

definition register_control_scope :: "call_ledger \<Rightarrow> (state_error + unit) \<times> call_ledger" where
  "register_control_scope l =
     (case advance_scope_generation PLATFORM_PLUGIN_ID PLATFORM_CONTROL_SCOPE_ID PLATFORM_CONTROL_GENERATION l of
        (r, l') \<Rightarrow> (map_err Lifecycle r, l'))"

definition new_state :: "u64 \<Rightarrow> state_error + supervisor_state" where
  "new_state e =
     and_then (map_err Lifecycle (new_ledger e)) (\<lambda>l.
       case register_control_scope l of
         (Inl x, _) \<Rightarrow> Inl x
       | (Inr _, l') \<Rightarrow>
           Inr \<lparr>epoch = e, ledger = l', registry = new_registry, pending = [], owed = [],
                scopes = (\<lambda>_. None), failure = None, next_call = 0\<rparr>)"

definition is_alive :: "supervisor_state \<Rightarrow> bool" where
  "is_alive s \<longleftrightarrow> failure s = None"

definition pending_calls :: "supervisor_state \<Rightarrow> string list" where
  "pending_calls s = keys (pending s)"

definition owed_answers :: "supervisor_state \<Rightarrow> string list" where
  "owed_answers s = keys (owed s)"

definition call_name :: "u64 \<Rightarrow> u64 \<Rightarrow> string" where
  "call_name e n = ''c'' @ decimal (unat e) @ ''-'' @ decimal (unat n)"

definition next_call_id :: "supervisor_state \<Rightarrow> string \<times> supervisor_state" where
  "next_call_id s =
     (let s = s\<lparr>next_call := next_call s + 1\<rparr> in (call_name (epoch s) (next_call s), s))"

definition ensure_alive :: "supervisor_state \<Rightarrow> state_error + unit" where
  "ensure_alive s = (case failure s of Some f \<Rightarrow> Inl (HostFailed f) | None \<Rightarrow> Inr ())"

subsection \<open>Scopes\<close>

text \<open>The identity a method builds last, with the call id it draws.\<close>

definition scoped_identity ::
  "string \<Rightarrow> string \<Rightarrow> u64 \<Rightarrow> supervisor_state \<Rightarrow> call_identity \<times> supervisor_state" where
  "scoped_identity p sc g s =
     (let (c, s) = next_call_id s
      in (\<lparr>host_epoch = epoch s, plugin_id = p, scope_id = sc, scope_generation = g, call_id = c\<rparr>, s))"

definition open_scope ::
  "string \<Rightarrow> string \<Rightarrow> supervisor_state \<Rightarrow> (state_error + call_identity) \<times> supervisor_state" where
  "open_scope p sc s =
     try_in s (ensure_alive s) (\<lambda>_.
       let g = (case scopes s (p, sc) of Some st \<Rightarrow> generation st | None \<Rightarrow> 0)
       in case advance_scope_generation p sc g (ledger s) of
            (Inl x, l) \<Rightarrow> (Inl (Lifecycle x), s\<lparr>ledger := l\<rparr>)
          | (Inr _, l) \<Rightarrow>
              let s = s\<lparr>ledger := l, scopes := (scopes s)((p, sc) \<mapsto> \<lparr>generation = g, is_open = True\<rparr>)\<rparr>;
                  (i, s) = scoped_identity p sc g s
              in (Inr i, s))"

definition close_scope ::
  "string \<Rightarrow> string \<Rightarrow> supervisor_state \<Rightarrow>
     (state_error + call_identity \<times> (string \<times> string) list) \<times> supervisor_state" where
  "close_scope p sc s =
     try_in s (ensure_alive s) (\<lambda>_.
     try_in s (ok_or (scopes s (p, sc)) (ScopeNeverOpened p sc)) (\<lambda>current.
       if \<not> is_open current then (Inl (ScopeAlreadyClosed p sc), s)
       else
         try_in s (map_err Lifecycle (next_scope_generation (generation current))) (\<lambda>g.
           case advance_scope_generation p sc g (ledger s) of
             (Inl x, l) \<Rightarrow> (Inl (Lifecycle x), s\<lparr>ledger := l\<rparr>)
           | (Inr _, l) \<Rightarrow>
               let s = s\<lparr>ledger := l,
                         scopes := (scopes s)((p, sc) \<mapsto> \<lparr>generation = g, is_open = False\<rparr>)\<rparr>;
                   (revoked, reg) = revoke_stale_subscriptions p sc g (registry s);
                   s = s\<lparr>registry := reg\<rparr>;
                   (i, s) = scoped_identity p sc g s
               in (Inr (i, revoked), s))))"

definition scope_call_identity ::
  "string \<Rightarrow> string \<Rightarrow> supervisor_state \<Rightarrow> (state_error + call_identity) \<times> supervisor_state" where
  "scope_call_identity p sc s =
     try_in s (ensure_alive s) (\<lambda>_.
     try_in s (ok_or (scopes s (p, sc)) (ScopeNeverOpened p sc)) (\<lambda>st.
       if \<not> is_open st then (Inl (ScopeAlreadyClosed p sc), s)
       else let (i, s) = scoped_identity p sc (generation st) s in (Inr i, s)))"

subsection \<open>Calls\<close>

definition begin_call :: "call_identity \<Rightarrow> supervisor_state \<Rightarrow> (state_error + unit) \<times> supervisor_state" where
  "begin_call i s =
     try_in s (ensure_alive s) (\<lambda>_.
       case register_call i (ledger s) of
         (Inl x, l) \<Rightarrow> (Inl (Lifecycle x), s\<lparr>ledger := l\<rparr>)
       | (Inr _, l) \<Rightarrow> (Inr (), s\<lparr>ledger := l, pending := map_insert (call_id i) i (pending s)\<rparr>))"

definition pending_identity :: "string \<Rightarrow> supervisor_state \<Rightarrow> call_identity option" where
  "pending_identity c s = map_of (pending s) c"

definition admit_cancel :: "wire_envelope \<Rightarrow> supervisor_state \<Rightarrow> state_error + bool" where
  "admit_cancel e s =
     and_then (map_err Lifecycle (submit_cancel e (ledger s))) (\<lambda>d.
       Inr (case d of CancelAccepted \<Rightarrow> True | _ \<Rightarrow> False))"

definition commit_inbound_terminal ::
  "wire_envelope \<Rightarrow> supervisor_state \<Rightarrow> (state_error + bool) \<times> supervisor_state" where
  "commit_inbound_terminal e s =
     (let s = s\<lparr>owed := map_remove (call_id (identity e)) (owed s)\<rparr>
      in case submit_terminal e (ledger s) of
           (Inl x, l) \<Rightarrow> (Inl (Lifecycle x), s\<lparr>ledger := l\<rparr>)
         | (Inr d, l) \<Rightarrow>
             (Inr (case d of Committed _ \<Rightarrow> True | TerminalStale _ \<Rightarrow> False), s\<lparr>ledger := l\<rparr>))"

definition accept_inbound ::
  "wire_envelope \<Rightarrow> supervisor_state \<Rightarrow> (state_error + inbound) \<times> supervisor_state" where
  "accept_inbound e s =
     (let i = identity e in
      case wire e of
        Notification m p \<Rightarrow> (Inr (InNotification i m p), s)
      | Request m p \<Rightarrow>
          try_in s (map_err Lifecycle (classify_identity i (ledger s))) (\<lambda>stale.
            if stale \<noteq> None then (Inr (InStale (call_id i)), s)
            else
              case register_call i (ledger s) of
                (Inl x, l) \<Rightarrow> (Inl (Lifecycle x), s\<lparr>ledger := l\<rparr>)
              | (Inr _, l) \<Rightarrow>
                  (Inr (InRequest i m p),
                   s\<lparr>ledger := l, owed := map_insert (call_id i) i (owed s)\<rparr>))
      | Chunk p \<Rightarrow>
          try_in s (map_err Lifecycle (submit_chunk e (ledger s))) (\<lambda>d.
            case d of
              ChunkStale _ \<Rightarrow> (Inr (InStale (call_id i)), s)
            | ChunkAccepted \<Rightarrow> (Inr (InChunk (call_id i) p), s))
      | Terminal _ p \<Rightarrow>
          (case submit_terminal e (ledger s) of
             (Inl x, l) \<Rightarrow> (Inl (Lifecycle x), s\<lparr>ledger := l\<rparr>)
           | (Inr (TerminalStale _), l) \<Rightarrow> (Inr (InStale (call_id i)), s\<lparr>ledger := l\<rparr>)
           | (Inr (Committed status), l) \<Rightarrow>
               (Inr (InTerminal (call_id i) status p),
                s\<lparr>ledger := l, pending := map_remove (call_id i) (pending s)\<rparr>)))"

subsection \<open>Failing and restarting\<close>

fun answer_all :: "payload \<Rightarrow> call_identity list \<Rightarrow> call_ledger \<Rightarrow> wire_envelope list \<times> call_ledger" where
  "answer_all p [] l = ([], l)"
| "answer_all p (i # is) l =
     (let envelope = new_envelope i (Terminal Error p);
          l = snd (submit_terminal envelope l);
          (es, l) = answer_all p is l
      in (envelope # es, l))"

definition fail_all ::
  "(json \<Rightarrow> payload) \<Rightarrow> host_failure \<Rightarrow> supervisor_state \<Rightarrow> wire_envelope list \<times> supervisor_state" where
  "fail_all encode f s =
     (let f = (case failure s of Some first \<Rightarrow> first | None \<Rightarrow> f);
          s = s\<lparr>failure := Some f, owed := []\<rparr>;
          (es, l) = answer_all (failure_payload encode f) (map snd (pending s)) (ledger s)
      in (es, s\<lparr>pending := [], ledger := l\<rparr>))"

definition restart ::
  "(json \<Rightarrow> payload) \<Rightarrow> u64 \<Rightarrow> supervisor_state \<Rightarrow> (state_error + wire_envelope list) \<times> supervisor_state" where
  "restart encode e s =
     (let (answers, s) = fail_all encode (new_failure ''plugin host restarted'') s;
          s = s\<lparr>epoch := e\<rparr>
      in case new_ledger e of
           Inl x \<Rightarrow> (Inl (Lifecycle x), s)
         | Inr l \<Rightarrow>
             case register_control_scope l of
               (Inl x, l) \<Rightarrow> (Inl x, s\<lparr>ledger := l\<rparr>)
             | (Inr _, l) \<Rightarrow>
                 (Inr answers,
                  s\<lparr>ledger := l, registry := new_registry, scopes := (\<lambda>_. None), pending := [],
                    owed := [], next_call := 0, failure := None\<rparr>))"

end
