(* ===== verification/Ledger_Facts.thy ===== *)
theory Ledger_Facts
  imports Call_Ledger
begin

text \<open>
  What the call ledger guarantees: the exact condition under which a terminal commits, that a
  call commits at most one terminal whatever is submitted in whatever order, and that an
  identity whose epoch or scope incarnation was invalidated never gets anything through again.
\<close>

subsection \<open>What the checks establish\<close>

definition safe_identity :: "call_identity \<Rightarrow> bool" where
  "safe_identity i \<longleftrightarrow>
     host_epoch i \<le> MAX_SAFE_WIRE_INTEGER \<and> scope_generation i \<le> MAX_SAFE_WIRE_INTEGER"

definition current_identity :: "call_identity \<Rightarrow> call_ledger \<Rightarrow> bool" where
  "current_identity i l \<longleftrightarrow>
     host_epoch i = ledger_epoch l \<and>
     scope_generations l (plugin_id i, scope_id i) = Some (scope_generation i)"

definition stale_identity :: "call_identity \<Rightarrow> call_ledger \<Rightarrow> bool" where
  "stale_identity i l \<longleftrightarrow>
     host_epoch i < ledger_epoch l \<or>
     host_epoch i = ledger_epoch l \<and>
       is_some_and (\<lambda>g. scope_generation i < g) (scope_generations l (plugin_id i, scope_id i))"

lemma validate_identity_ok: "validate_identity i = Inr u \<longleftrightarrow> safe_identity i"
  by (auto simp: validate_identity_def validate_safe_integers_def validate_safe_integer_def
      map_err_Inr and_then_Inr safe_identity_def)

lemma classify_current: "classify_stale i l = Inr None \<longleftrightarrow> current_identity i l"
  by (cases "scope_generations l (plugin_id i, scope_id i)")
    (auto simp: classify_stale_def current_identity_def)

lemma classify_is_stale: "(\<exists>r. classify_stale i l = Inr (Some r)) \<longleftrightarrow> stale_identity i l"
  by (cases "scope_generations l (plugin_id i, scope_id i)")
    (auto simp: classify_stale_def stale_identity_def)

lemma not_current_and_stale: "stale_identity i l \<Longrightarrow> \<not> current_identity i l"
  by (auto simp: stale_identity_def current_identity_def)

lemma classify_lifetime_ok: "classify_lifetime i l = Inr u \<longleftrightarrow> current_identity i l"
  by (auto simp: classify_lifetime_def and_then_Inr classify_current [symmetric] split: option.splits)

lemma check_identity_ok:
  "check_identity i j = Inr u \<longleftrightarrow> plugin_id i = plugin_id j \<and> scope_id i = scope_id j"
  by (auto simp: check_identity_def)

lemma check_full_identity_ok: "check_full_identity i j = Inr u \<longleftrightarrow> i = j"
  by (cases i; cases j) (auto simp: check_full_identity_def and_then_Inr check_identity_ok simp flip: word_unat_eq_iff)

lemmas ledger_checks =
  validate_identity_ok check_identity_ok check_full_identity_ok classify_lifetime_ok

text \<open>The message of a registered, current call passes every check before the message itself.\<close>

lemma check_if_known_self:
  "calls l (call_id i) = Some st \<Longrightarrow> call_identity st = i \<Longrightarrow> check_if_known i l = Inr ()"
  by (simp add: check_if_known_def check_identity_ok)

lemma submit_terminal_commits:
  "submit_terminal e l = (Inr (Committed status), l') \<longleftrightarrow>
     (\<exists>p st. wire e = Terminal status p \<and> safe_identity (identity e) \<and>
       current_identity (identity e) l \<and> calls l (call_id (identity e)) = Some st \<and>
       call_identity st = identity e \<and> terminal st = None \<and>
       l' = l\<lparr>calls := (calls l)(call_id (identity e) \<mapsto> st\<lparr>terminal := Some status\<rparr>)\<rparr>)"
  (is "?commits \<longleftrightarrow> ?ready")
proof
  assume ?commits
  then show ?ready
    by (auto simp: submit_terminal_def Let_def try_in_Inr ledger_checks classify_current ok_or_def
        split: if_splits option.splits wire_message.splits)
next
  assume ?ready
  then obtain p st where st: "wire e = Terminal status p" "safe_identity (identity e)"
    "current_identity (identity e) l" "calls l (call_id (identity e)) = Some st"
    "call_identity st = identity e" "terminal st = None"
    and l': "l' = l\<lparr>calls := (calls l)(call_id (identity e) \<mapsto> st\<lparr>terminal := Some status\<rparr>)\<rparr>"
    by blast
  have "validate_identity (identity e) = Inr ()" using st(2) by (simp add: ledger_checks)
  moreover have "classify_stale (identity e) l = Inr None" using st(3) by (simp add: classify_current)
  moreover have "check_full_identity (call_identity st) (identity e) = Inr ()"
    using st(5) by (simp add: ledger_checks)
  moreover have "host_epoch (identity e) = ledger_epoch l" using st(3) by (simp add: current_identity_def)
  ultimately show ?commits
    using st check_if_known_self [OF st(4,5)] by (simp add: submit_terminal_def Let_def l')
qed

lemma commit_effect:
  assumes "fst (submit_terminal e l) = Inr (Committed status)"
  obtains st where "calls l (call_id (identity e)) = Some st" and "call_identity st = identity e"
    and "terminal st = None" and "current_identity (identity e) l"
    and "snd (submit_terminal e l) =
           l\<lparr>calls := (calls l)(call_id (identity e) \<mapsto> st\<lparr>terminal := Some status\<rparr>)\<rparr>"
proof -
  from assms have "submit_terminal e l = (Inr (Committed status), snd (submit_terminal e l))"
    by (simp add: prod_eq_iff)
  then show thesis using that unfolding submit_terminal_commits by blast
qed

lemma submit_terminal_else:
  "(\<exists>status. fst (submit_terminal e l) = Inr (Committed status)) \<or> snd (submit_terminal e l) = l"
  by (auto simp: submit_terminal_def Let_def try_in_def split: sum.splits option.splits wire_message.splits)

lemma stale_never_commits: "stale_identity (identity e) l \<Longrightarrow> fst (submit_terminal e l) \<noteq> Inr (Committed status)"
  using submit_terminal_commits [of e l status "snd (submit_terminal e l)"] not_current_and_stale
  by (metis prod.collapse)

lemma accepted_chunk_is_current:
  "submit_chunk e l = Inr ChunkAccepted \<Longrightarrow>
     current_identity (identity e) l \<and>
     is_some_and (\<lambda>st. call_identity st = identity e \<and> terminal st = None) (calls l (call_id (identity e)))"
  by (auto simp: submit_chunk_def Let_def and_then_Inr ledger_checks classify_current ok_or_def
      split: if_splits option.splits)

lemma accepted_cancel_is_current:
  "submit_cancel e l = Inr CancelAccepted \<Longrightarrow>
     current_identity (identity e) l \<and> is_cancel e \<and>
     is_some_and (\<lambda>st. call_identity st = identity e) (calls l (call_id (identity e)))"
  by (auto simp: submit_cancel_def Let_def and_then_Inr ledger_checks classify_current ok_or_def
      split: if_splits option.splits)

lemma register_call_ok:
  "register_call i l = (Inr u, l') \<longleftrightarrow>
     safe_identity i \<and> current_identity i l \<and> calls l (call_id i) = None \<and>
     l' = l\<lparr>calls := (calls l)(call_id i \<mapsto> \<lparr>call_identity = i, terminal = None\<rparr>)\<rparr>"
  by (auto simp: register_call_def try_in_Inr ledger_checks split: if_splits)

lemma register_call_else: "(\<exists>u. fst (register_call i l) = Inr u) \<or> snd (register_call i l) = l"
  by (auto simp: register_call_def try_in_def split: sum.splits)

subsection \<open>Sequences of ledger operations\<close>

datatype ledger_op =
    AdvanceScope string string u64
  | RegisterCall call_identity
  | SubmitTerminal wire_envelope

fun ledger_step :: "ledger_op \<Rightarrow> call_ledger \<Rightarrow> call_ledger" where
  "ledger_step (AdvanceScope p s g) l = snd (advance_scope_generation p s g l)"
| "ledger_step (RegisterCall i) l = snd (register_call i l)"
| "ledger_step (SubmitTerminal e) l = snd (submit_terminal e l)"

fun ledger_run :: "ledger_op list \<Rightarrow> call_ledger \<Rightarrow> call_ledger" where
  "ledger_run [] l = l"
| "ledger_run (op # ops) l = ledger_run ops (ledger_step op l)"

text \<open>The number of terminals that committed for one call id.\<close>

fun commits :: "string \<Rightarrow> ledger_op list \<Rightarrow> call_ledger \<Rightarrow> nat" where
  "commits c [] l = 0"
| "commits c (op # ops) l =
     (case op of
        SubmitTerminal e \<Rightarrow>
          (case fst (submit_terminal e l) of
             Inr (Committed _) \<Rightarrow> if call_id (identity e) = c then 1 else 0
           | _ \<Rightarrow> 0)
      | _ \<Rightarrow> 0) + commits c ops (ledger_step op l)"

definition terminated :: "string \<Rightarrow> call_ledger \<Rightarrow> bool" where
  "terminated c l \<longleftrightarrow> is_some_and (\<lambda>st. terminal st \<noteq> None) (calls l c)"

lemma commit_terminates:
  assumes "fst (submit_terminal e l) = Inr (Committed s)"
  shows "terminated (call_id (identity e)) (snd (submit_terminal e l))"
    and "\<not> terminated (call_id (identity e)) l"
  by (rule commit_effect [OF assms]; simp add: terminated_def)+

lemma submit_terminal_terminated:
  assumes "terminated c l"
  shows "terminated c (snd (submit_terminal e l))"
proof (cases "\<exists>s. fst (submit_terminal e l) = Inr (Committed s)")
  case True
  then obtain s where "fst (submit_terminal e l) = Inr (Committed s)" by blast
  then show ?thesis
    by (rule commit_effect) (use assms in \<open>auto simp: terminated_def is_some_and_iff\<close>)
qed (use assms submit_terminal_else [of e l] in auto)

lemma ledger_step_terminated: "terminated c l \<Longrightarrow> terminated c (ledger_step op l)"
proof (cases op)
  case (RegisterCall i)
  assume "terminated c l"
  with RegisterCall register_call_else [of i l] show ?thesis
    using register_call_ok [of i l _ "snd (register_call i l)"]
    by (auto simp: terminated_def prod_eq_iff is_some_and_iff)
next
  case (AdvanceScope p s g)
  assume "terminated c l"
  with AdvanceScope show ?thesis
    by (auto simp: advance_scope_generation_def try_in_def terminated_def split: sum.splits option.splits)
qed (simp add: submit_terminal_terminated)

lemma commits_bound: "commits c ops l \<le> (if terminated c l then 0 else 1)"
proof (induction ops arbitrary: l)
  case (Cons op ops)
  have step: "terminated c l \<Longrightarrow> terminated c (ledger_step op l)" by (rule ledger_step_terminated)
  show ?case
  proof (cases op)
    case (SubmitTerminal e)
    with Cons [of "ledger_step op l"] step commit_terminates [of e l]
    show ?thesis by (auto split: sum.split terminal_disposition.split if_splits)
  qed (use Cons [of "ledger_step op l"] step in \<open>auto split: if_splits\<close>)
qed simp

subsection \<open>Generations only advance\<close>

lemma submit_terminal_frame:
  "ledger_epoch (snd (submit_terminal e l)) = ledger_epoch l"
  "scope_generations (snd (submit_terminal e l)) = scope_generations l"
  using submit_terminal_else [of e l] by (auto elim: commit_effect)

lemma register_call_frame:
  "ledger_epoch (snd (register_call i l)) = ledger_epoch l"
  "scope_generations (snd (register_call i l)) = scope_generations l"
  by (auto simp: register_call_def try_in_def split: sum.splits)

lemma advance_frame:
  "ledger_epoch (snd (advance_scope_generation p s g l)) = ledger_epoch l"
  "calls (snd (advance_scope_generation p s g l)) = calls l"
  by (auto simp: advance_scope_generation_def try_in_def split: sum.splits option.splits)

lemmas ledger_frames = submit_terminal_frame register_call_frame advance_frame

lemma advance_ok:
  "advance_scope_generation p s g l = (Inr u, l') \<longleftrightarrow>
     g \<le> MAX_SAFE_WIRE_INTEGER \<and> (case scope_generations l (p, s) of Some current \<Rightarrow> current \<le> g | None \<Rightarrow> True) \<and>
     l' = l\<lparr>scope_generations := (scope_generations l)((p, s) \<mapsto> g)\<rparr>"
  by (auto simp: advance_scope_generation_def try_in_Inr validate_integer_def split: option.splits if_splits)

lemma advance_else:
  "(\<exists>u. fst (advance_scope_generation p s g l) = Inr u) \<or> snd (advance_scope_generation p s g l) = l"
  by (auto simp: advance_scope_generation_def try_in_def split: sum.splits option.splits)

lemma generation_advances:
  assumes "scope_generations l k = Some g"
  shows "is_some_and (\<lambda>g'. g \<le> g') (scope_generations (ledger_step op l) k)"
proof (cases op)
  case (AdvanceScope p s g')
  show ?thesis
  proof (cases "fst (advance_scope_generation p s g' l)")
    case (Inr u)
    then have "advance_scope_generation p s g' l = (Inr u, snd (advance_scope_generation p s g' l))"
      by (simp add: prod_eq_iff)
    with assms AdvanceScope show ?thesis unfolding advance_ok
      by (auto simp: is_some_and_iff split: option.splits)
  next
    case (Inl x)
    with advance_else [of p s g' l] assms AdvanceScope show ?thesis by auto
  qed
qed (use assms in \<open>simp_all add: ledger_frames\<close>)

lemma ledger_step_epoch: "ledger_epoch (ledger_step op l) = ledger_epoch l"
  by (cases op) (simp_all add: ledger_frames)

lemma stale_step: "stale_identity i l \<Longrightarrow> stale_identity i (ledger_step op l)"
  using generation_advances [of l "(plugin_id i, scope_id i)" _ op]
  by (fastforce simp: stale_identity_def ledger_step_epoch is_some_and_iff)

lemma stale_run: "stale_identity i l \<Longrightarrow> stale_identity i (ledger_run ops l)"
  by (induction ops arbitrary: l) (auto intro: stale_step)

subsection \<open>Properties\<close>

text \<open>C19. A call commits one terminal at most: over any sequence of scope advances, registrations
  and terminals, from any state of the ledger, the number of terminals that commit for a call id
  is at most one, and none commits for a call that has its terminal already.\<close>

theorem terminal_commits_at_most_once:
  "commits c ops l \<le> 1 \<and> (terminated c l \<longrightarrow> commits c ops l = 0)"
  using commits_bound [of c ops l] by (auto split: if_splits)

theorem terminal_commits_at_most_once_witness:
  "commits ''c'' [] \<lparr>ledger_epoch = 0, scope_generations = (\<lambda>_. None),
     calls = [''c'' \<mapsto> \<lparr>call_identity = \<lparr>host_epoch = 0, plugin_id = ''p'', scope_id = ''s'',
       scope_generation = 0, call_id = ''c''\<rparr>, terminal = Some Success\<rparr>]\<rparr> = 0"
  using terminal_commits_at_most_once [of "''c''" "[]" "\<lparr>ledger_epoch = 0, scope_generations = (\<lambda>_. None),
     calls = [''c'' \<mapsto> \<lparr>call_identity = \<lparr>host_epoch = 0, plugin_id = ''p'', scope_id = ''s'',
       scope_generation = 0, call_id = ''c''\<rparr>, terminal = Some Success\<rparr>]\<rparr>"]
  by (simp add: terminated_def)

text \<open>Invalidation is final: once the host epoch or the scope incarnation of an identity has
  been passed, no later sequence of operations makes the identity current again, and under it no
  call registers, no chunk and no cancel is accepted and no terminal commits.\<close>

theorem invalidated_identity_stays_invalid:
  assumes "stale_identity i l" and "identity e = i"
  shows "stale_identity i (ledger_run ops l) \<and>
    (\<forall>u. fst (register_call i (ledger_run ops l)) \<noteq> Inr u) \<and>
    (\<forall>status. fst (submit_terminal e (ledger_run ops l)) \<noteq> Inr (Committed status)) \<and>
    submit_chunk e (ledger_run ops l) \<noteq> Inr ChunkAccepted \<and>
    submit_cancel e (ledger_run ops l) \<noteq> Inr CancelAccepted"
proof -
  let ?l = "ledger_run ops l"
  have s: "stale_identity i ?l" using assms(1) by (rule stale_run)
  then have n: "\<not> current_identity i ?l" by (rule not_current_and_stale)
  have "fst (register_call i ?l) \<noteq> Inr u" for u
    using n register_call_ok [of i ?l u "snd (register_call i ?l)"] by (metis prod.collapse)
  moreover have "fst (submit_terminal e ?l) \<noteq> Inr (Committed status)" for status
    using s assms(2) stale_never_commits by blast
  ultimately show ?thesis
    using s n assms(2) accepted_chunk_is_current accepted_cancel_is_current by blast
qed

theorem invalidated_identity_stays_invalid_witness:
  "submit_chunk (new_envelope \<lparr>host_epoch = 3, plugin_id = ''p'', scope_id = ''s'',
       scope_generation = 0, call_id = ''c''\<rparr> (Chunk ''1''))
     (ledger_run [AdvanceScope ''p'' ''s'' 0]
       \<lparr>ledger_epoch = 4, scope_generations = (\<lambda>_. None), calls = (\<lambda>_. None)\<rparr>) \<noteq> Inr ChunkAccepted"
  using invalidated_identity_stays_invalid
    [of "\<lparr>host_epoch = 3, plugin_id = ''p'', scope_id = ''s'', scope_generation = 0, call_id = ''c''\<rparr>"
        "\<lparr>ledger_epoch = 4, scope_generations = (\<lambda>_. None), calls = (\<lambda>_. None)\<rparr>"
        "new_envelope \<lparr>host_epoch = 3, plugin_id = ''p'', scope_id = ''s'',
           scope_generation = 0, call_id = ''c''\<rparr> (Chunk ''1'')"
        "[AdvanceScope ''p'' ''s'' 0]"]
  by (simp add: stale_identity_def new_envelope_def)

end
