(* ===== verification/Supervisor_Facts.thy ===== *)
theory Supervisor_Facts
  imports Supervisor_State Ledger_Facts
begin

text \<open>
  What the supervisor state guarantees in every reachable state: calls are accounted for on the
  ledger, a failure answers every call in flight exactly once and for good, a delivered terminal
  closes its call, call ids never repeat, and what closing a scope does to the calls in it.
\<close>

subsection \<open>Registered calls on the ledger\<close>

definition registered :: "call_identity \<Rightarrow> call_ledger \<Rightarrow> bool" where
  "registered i l \<longleftrightarrow> is_some_and (\<lambda>st. call_identity st = i) (calls l (call_id i))"

definition settled :: "call_identity \<Rightarrow> call_ledger \<Rightarrow> bool" where
  "settled i l \<longleftrightarrow> safe_identity i \<and> (current_identity i l \<or> stale_identity i l)"

definition ledger_ok :: "call_ledger \<Rightarrow> bool" where
  "ledger_ok l \<longleftrightarrow> (\<forall>c st. calls l c = Some st \<longrightarrow>
     call_id (call_identity st) = c \<and> settled (call_identity st) l)"

lemma settled_step:
  assumes "settled i l"
  shows "settled i (ledger_step op l)"
proof -
  have "current_identity i l \<Longrightarrow> current_identity i (ledger_step op l) \<or> stale_identity i (ledger_step op l)"
    using generation_advances [of l "(plugin_id i, scope_id i)" "scope_generation i" op]
    by (auto simp: current_identity_def stale_identity_def ledger_step_epoch is_some_and_iff order.order_iff_strict)
  with assms stale_step show ?thesis by (auto simp: settled_def)
qed

lemma calls_after_step:
  "calls (ledger_step op l) c = Some st \<Longrightarrow>
     is_some_and (\<lambda>st'. call_identity st' = call_identity st) (calls l c) \<or>
     (\<exists>i. op = RegisterCall i \<and> call_identity st = i \<and> call_id i = c \<and> safe_identity i \<and> current_identity i l)"
proof (cases op)
  case (RegisterCall i)
  assume c: "calls (ledger_step op l) c = Some st"
  show ?thesis
  proof (cases "fst (register_call i l)")
    case (Inl x)
    with register_call_else [of i l] c RegisterCall show ?thesis by auto
  next
    case (Inr u)
    then have "register_call i l = (Inr u, snd (register_call i l))" by (simp add: prod_eq_iff)
    with c RegisterCall show ?thesis unfolding register_call_ok by (auto split: if_splits)
  qed
next
  case (SubmitTerminal e)
  assume c: "calls (ledger_step op l) c = Some st"
  show ?thesis
  proof (cases "\<exists>s. fst (submit_terminal e l) = Inr (Committed s)")
    case True
    then obtain s where "fst (submit_terminal e l) = Inr (Committed s)" by blast
    then show ?thesis by (rule commit_effect) (use c SubmitTerminal in \<open>auto split: if_splits\<close>)
  next
    case False
    with submit_terminal_else [of e l] c SubmitTerminal show ?thesis by auto
  qed
qed (simp add: ledger_frames)

lemma registered_step: "registered i l \<Longrightarrow> registered i (ledger_step op l)"
proof (cases op)
  case (RegisterCall j)
  assume r: "registered i l"
  show ?thesis
  proof (cases "fst (register_call j l)")
    case (Inl x)
    with register_call_else [of j l] r RegisterCall show ?thesis by auto
  next
    case (Inr u)
    then have "register_call j l = (Inr u, snd (register_call j l))" by (simp add: prod_eq_iff)
    with r RegisterCall show ?thesis unfolding register_call_ok by (auto simp: registered_def)
  qed
next
  case (SubmitTerminal e)
  assume r: "registered i l"
  show ?thesis
  proof (cases "\<exists>s. fst (submit_terminal e l) = Inr (Committed s)")
    case True
    then obtain s where "fst (submit_terminal e l) = Inr (Committed s)" by blast
    then show ?thesis
      by (rule commit_effect) (use r SubmitTerminal in \<open>auto simp: registered_def\<close>)
  next
    case False
    with submit_terminal_else [of e l] r SubmitTerminal show ?thesis by auto
  qed
qed (simp add: registered_def ledger_frames)

lemma ledger_ok_step:
  assumes "ledger_ok l"
  shows "ledger_ok (ledger_step op l)"
  unfolding ledger_ok_def
proof (intro allI impI)
  fix c st assume "calls (ledger_step op l) c = Some st"
  from calls_after_step [OF this] show "call_id (call_identity st) = c \<and> settled (call_identity st) (ledger_step op l)"
  proof
    assume "is_some_and (\<lambda>st'. call_identity st' = call_identity st) (calls l c)"
    with assms have "call_id (call_identity st) = c" and "settled (call_identity st) l"
      unfolding ledger_ok_def is_some_and_iff by metis+
    with settled_step show ?thesis by blast
  next
    assume "\<exists>i. op = RegisterCall i \<and> call_identity st = i \<and> call_id i = c \<and> safe_identity i \<and> current_identity i l"
    then have "call_id (call_identity st) = c" and "settled (call_identity st) l"
      by (auto simp: settled_def)
    with settled_step show ?thesis by blast
  qed
qed

lemma registered_settled: "ledger_ok l \<Longrightarrow> registered i l \<Longrightarrow> settled i l"
  by (auto simp: ledger_ok_def registered_def is_some_and_iff)

lemma registered_after_register: "fst (register_call i l) = Inr u \<Longrightarrow> registered i (snd (register_call i l))"
  using register_call_ok [of i l u "snd (register_call i l)"] by (auto simp: registered_def prod_eq_iff)

text \<open>What the supervisor's terminal for a registered call does: afterwards the call has its
  terminal or is stale.\<close>

definition done_with :: "call_identity \<Rightarrow> call_ledger \<Rightarrow> bool" where
  "done_with i l \<longleftrightarrow> registered i l \<and> (terminated (call_id i) l \<or> stale_identity i l)"

lemma done_with_step: "done_with i l \<Longrightarrow> done_with i (ledger_step op l)"
  using registered_step ledger_step_terminated stale_step by (auto simp: done_with_def)

lemma terminal_settles:
  assumes "ledger_ok l" and "registered i l"
  shows "done_with i (snd (submit_terminal (new_envelope i (Terminal status p)) l))"
proof -
  let ?e = "new_envelope i (Terminal status p)"
  have r: "registered i (snd (submit_terminal ?e l))"
    using registered_step [OF assms(2), of "SubmitTerminal ?e"] by simp
  have s: "settled i l" using assms by (rule registered_settled)
  show ?thesis
  proof (cases "stale_identity i l \<or> terminated (call_id i) l")
    case True
    with r stale_step [of i l "SubmitTerminal ?e"] submit_terminal_terminated [of "call_id i" l ?e]
    show ?thesis by (auto simp: done_with_def)
  next
    case False
    with s have "current_identity i l" and "safe_identity i" by (auto simp: settled_def)
    with assms(2) False have "\<exists>l'. submit_terminal ?e l = (Inr (Committed status), l')"
      unfolding submit_terminal_commits
      by (auto simp: new_envelope_def registered_def is_some_and_iff terminated_def)
    with r commit_terminates [of ?e l status] show ?thesis
      by (auto simp: done_with_def new_envelope_def)
  qed
qed

lemma terminated_refuses:
  assumes "safe_identity (identity e)" and "current_identity (identity e) l"
    and "calls l (call_id (identity e)) = Some st" and "call_identity st = identity e"
    and "terminal st = Some status" and "wire e = Terminal status' p"
  shows "submit_terminal e l = (Inl (DuplicateTerminal (call_id (identity e)) status), l)"
proof -
  have "validate_identity (identity e) = Inr ()" using assms(1) by (simp add: ledger_checks)
  moreover have "classify_stale (identity e) l = Inr None" using assms(2) by (simp add: classify_current)
  moreover have "check_full_identity (call_identity st) (identity e) = Inr ()"
    using assms(4) by (simp add: ledger_checks)
  moreover have "host_epoch (identity e) = ledger_epoch l" using assms(2) by (simp add: current_identity_def)
  ultimately show ?thesis
    using assms(3,5,6) check_if_known_self [OF assms(3,4)] by (simp add: submit_terminal_def Let_def)
qed

text \<open>A call that is done with gets nothing delivered any more.\<close>

lemma done_with_refuses:
  assumes "done_with i l" and "call_id (identity e) = call_id i"
  shows "fst (submit_terminal e l) \<noteq> Inr (Committed status)" and "submit_chunk e l \<noteq> Inr ChunkAccepted"
proof -
  show "fst (submit_terminal e l) \<noteq> Inr (Committed status)"
  proof
    assume "fst (submit_terminal e l) = Inr (Committed status)"
    then show False
    proof (rule commit_effect)
      fix st assume "calls l (call_id (identity e)) = Some st" "call_identity st = identity e"
        "terminal st = None" "current_identity (identity e) l"
      with assms show False
        by (auto simp: done_with_def registered_def terminated_def is_some_and_iff dest: not_current_and_stale)
    qed
  qed
  show "submit_chunk e l \<noteq> Inr ChunkAccepted"
  proof
    assume "submit_chunk e l = Inr ChunkAccepted"
    with accepted_chunk_is_current assms show False
      by (fastforce simp: done_with_def registered_def terminated_def is_some_and_iff dest: not_current_and_stale)
  qed
qed

subsection \<open>The supervisor as a state machine\<close>

inductive supervisor_step :: "(json \<Rightarrow> payload) \<Rightarrow> supervisor_state \<Rightarrow> supervisor_state \<Rightarrow> bool"
  for encode where
  draw_id: "supervisor_step encode s (snd (next_call_id s))"
| open_scope: "supervisor_step encode s (snd (open_scope p sc s))"
| close_scope: "supervisor_step encode s (snd (close_scope p sc s))"
| identify: "supervisor_step encode s (snd (scope_call_identity p sc s))"
| begin_call: "supervisor_step encode s (snd (begin_call i s))"
| commit: "supervisor_step encode s (snd (commit_inbound_terminal e s))"
| inbound: "supervisor_step encode s (snd (accept_inbound e s))"
| registry: "supervisor_step encode s (s\<lparr>registry := reg\<rparr>)"
| fail: "supervisor_step encode s (snd (fail_all encode f s))"
| restart: "supervisor_step encode s (snd (restart encode e s))"

inductive supervisor_reachable :: "(json \<Rightarrow> payload) \<Rightarrow> supervisor_state \<Rightarrow> bool" for encode where
  start: "new_state e = Inr s \<Longrightarrow> supervisor_reachable encode s"
| step: "supervisor_reachable encode s \<Longrightarrow> supervisor_step encode s s' \<Longrightarrow> supervisor_reachable encode s'"

definition calls_ok :: "(string \<times> call_identity) list \<Rightarrow> call_ledger \<Rightarrow> bool" where
  "calls_ok m l \<longleftrightarrow> map_ordered m \<and> list_all (\<lambda>(k, i). call_id i = k \<and> registered i l) m"

definition scopes_ok :: "supervisor_state \<Rightarrow> bool" where
  "scopes_ok s \<longleftrightarrow> (\<forall>k st. scopes s k = Some st \<longrightarrow> scope_generations (ledger s) k = Some (generation st))"

definition supervisor_ok :: "supervisor_state \<Rightarrow> bool" where
  "supervisor_ok s \<longleftrightarrow>
     ledger_ok (ledger s) \<and> calls_ok (pending s) (ledger s) \<and> calls_ok (owed s) (ledger s) \<and>
     scopes_ok s \<and> (failure s = None \<longrightarrow> ledger_epoch (ledger s) = epoch s)"

lemma calls_ok_step: "calls_ok m l \<Longrightarrow> calls_ok m (ledger_step op l)"
  by (auto simp: calls_ok_def list_all_iff registered_step split: prod.splits)

lemma calls_ok_insert:
  "calls_ok m l \<Longrightarrow> registered i l \<Longrightarrow> calls_ok (map_insert (call_id i) i m) l"
proof -
  have "set (map_insert k v m) \<subseteq> insert (k, v) (set m)" for k :: string and v :: call_identity
    by (induction k v m rule: map_insert.induct) auto
  then show "calls_ok m l \<Longrightarrow> registered i l \<Longrightarrow> calls_ok (map_insert (call_id i) i m) l"
    by (fastforce simp: calls_ok_def list_all_iff ordered_map_insert)
qed

lemma calls_ok_remove: "calls_ok m l \<Longrightarrow> calls_ok (map_remove k m) l"
  using ordered_map_remove [of m k] by (auto simp: calls_ok_def list_all_iff map_remove_def)

lemma calls_ok_empty: "calls_ok [] l"
  by (simp add: calls_ok_def btree_map.ok_empty)

text \<open>A state whose ledger made one step that leaves the generations alone.\<close>

lemma supervisor_ok_ledger:
  assumes "supervisor_ok s" and "l = ledger_step op (ledger s)"
    and "scope_generations l = scope_generations (ledger s)"
  shows "supervisor_ok (s\<lparr>ledger := l\<rparr>)"
  using assms ledger_ok_step calls_ok_step ledger_step_epoch
  by (auto simp: supervisor_ok_def scopes_ok_def)

lemma supervisor_ok_owed:
  "supervisor_ok s \<Longrightarrow> calls_ok m (ledger s) \<Longrightarrow> supervisor_ok (s\<lparr>owed := m\<rparr>)"
  "supervisor_ok s \<Longrightarrow> calls_ok m (ledger s) \<Longrightarrow> supervisor_ok (s\<lparr>pending := m\<rparr>)"
  "supervisor_ok s \<Longrightarrow> supervisor_ok (s\<lparr>next_call := n\<rparr>)"
  "supervisor_ok s \<Longrightarrow> supervisor_ok (s\<lparr>registry := reg\<rparr>)"
  "supervisor_ok s \<Longrightarrow> supervisor_ok (s\<lparr>failure := Some f\<rparr>)"
  by (auto simp: supervisor_ok_def scopes_ok_def)

lemma supervisor_ok_register:
  assumes "supervisor_ok s"
  shows "supervisor_ok (s\<lparr>ledger := snd (register_call i (ledger s))\<rparr>)"
  using assms by (rule supervisor_ok_ledger [where op = "RegisterCall i"]) (simp_all add: ledger_frames)

lemma supervisor_ok_terminal:
  assumes "supervisor_ok s"
  shows "supervisor_ok (s\<lparr>ledger := snd (submit_terminal e (ledger s))\<rparr>)"
  using assms by (rule supervisor_ok_ledger [where op = "SubmitTerminal e"]) (simp_all add: ledger_frames)

lemma supervisor_ok_calls:
  "supervisor_ok s \<Longrightarrow> calls_ok (pending s) (ledger s)" "supervisor_ok s \<Longrightarrow> calls_ok (owed s) (ledger s)"
  "supervisor_ok s \<Longrightarrow> ledger_ok (ledger s)" "supervisor_ok s \<Longrightarrow> scopes_ok s"
  by (simp_all add: supervisor_ok_def)

lemma supervisor_ok_advance:
  assumes "supervisor_ok s" and "advance_scope_generation p sc g (ledger s) = (Inr u, l)"
  shows "supervisor_ok (s\<lparr>ledger := l, scopes := (scopes s)((p, sc) \<mapsto> \<lparr>generation = g, is_open = b\<rparr>)\<rparr>)"
proof -
  have l: "l = ledger_step (AdvanceScope p sc g) (ledger s)" using assms(2) by simp
  have "scope_generations l = (scope_generations (ledger s))((p, sc) \<mapsto> g)"
    using assms(2) unfolding advance_ok by simp
  moreover have "ledger_ok l" "calls_ok (pending s) l" "calls_ok (owed s) l" "ledger_epoch l = ledger_epoch (ledger s)"
    using assms(1) ledger_ok_step [of "ledger s" "AdvanceScope p sc g"]
      calls_ok_step [of _ "ledger s" "AdvanceScope p sc g"]
      ledger_step_epoch [of "AdvanceScope p sc g" "ledger s"]
    unfolding l by (simp_all only: supervisor_ok_def)
  ultimately show ?thesis using assms(1) by (auto simp: supervisor_ok_def scopes_ok_def)
qed

lemma advance_failed: "advance_scope_generation p sc g l = (Inl x, l') \<Longrightarrow> l' = l"
  using advance_else [of p sc g l] by (auto simp: prod_eq_iff)

lemma supervisor_ok_identity:
  "supervisor_ok s \<Longrightarrow> supervisor_ok (snd (scoped_identity p sc g s))"
  by (simp add: scoped_identity_def next_call_id_def Let_def supervisor_ok_owed)

lemma supervisor_ok_try:
  "supervisor_ok s \<Longrightarrow> (\<And>x. r = Inr x \<Longrightarrow> supervisor_ok (snd (k x))) \<Longrightarrow> supervisor_ok (snd (try_in s r k))"
  by (cases r) simp_all

lemma open_scope_keeps:
  assumes "supervisor_ok s"
  shows "supervisor_ok (snd (open_scope p sc s))"
  unfolding open_scope_def
proof (rule supervisor_ok_try [OF assms])
  fix u
  let ?g = "case scopes s (p, sc) of Some st \<Rightarrow> generation st | None \<Rightarrow> 0"
  show "supervisor_ok (snd (let g = ?g in case advance_scope_generation p sc g (ledger s) of
            (Inl x, l) \<Rightarrow> (Inl (Lifecycle x), s\<lparr>ledger := l\<rparr>)
          | (Inr _, l) \<Rightarrow>
              let s = s\<lparr>ledger := l, scopes := (scopes s)((p, sc) \<mapsto> \<lparr>generation = g, is_open = True\<rparr>)\<rparr>;
                  (i, s) = scoped_identity p sc g s
              in (Inr i, s)))"
  proof (cases "advance_scope_generation p sc ?g (ledger s)")
    case (Pair r l)
    then show ?thesis
    proof (cases r)
      case (Inl x)
      with Pair have "l = ledger s" by (simp add: advance_failed)
      with Pair Inl assms show ?thesis by (simp add: Let_def)
    next
      case (Inr w)
      with Pair have "advance_scope_generation p sc ?g (ledger s) = (Inr w, l)" by simp
      from supervisor_ok_identity [OF supervisor_ok_advance [OF assms this, of True], of p sc ?g]
      show ?thesis by (simp add: Pair Inr Let_def split_beta)
    qed
  qed
qed

lemma close_scope_keeps:
  assumes "supervisor_ok s"
  shows "supervisor_ok (snd (close_scope p sc s))"
proof -
  have "supervisor_ok (snd (case advance_scope_generation p sc g (ledger s) of
             (Inl x, l) \<Rightarrow> (Inl (Lifecycle x), s\<lparr>ledger := l\<rparr>)
           | (Inr _, l) \<Rightarrow>
               let s = s\<lparr>ledger := l,
                         scopes := (scopes s)((p, sc) \<mapsto> \<lparr>generation = g, is_open = False\<rparr>)\<rparr>;
                   (revoked, reg) = revoke_stale_subscriptions p sc g (registry s);
                   s = s\<lparr>registry := reg\<rparr>;
                   (i, s) = scoped_identity p sc g s
               in (Inr (i, revoked), s)))" for g
  proof (cases "advance_scope_generation p sc g (ledger s)")
    case (Pair r l)
    then show ?thesis
    proof (cases r)
      case (Inl x)
      with Pair have "l = ledger s" by (simp add: advance_failed)
      with Pair Inl assms show ?thesis by simp
    next
      case (Inr w)
      with Pair have "advance_scope_generation p sc g (ledger s) = (Inr w, l)" by simp
      from supervisor_ok_identity [OF supervisor_ok_owed(4) [OF supervisor_ok_advance [OF assms this, of False]],
          of p sc g "snd (revoke_stale_subscriptions p sc g (registry s))"]
      show ?thesis by (simp add: Pair Inr Let_def split_beta)
    qed
  qed
  with assms show ?thesis
    unfolding close_scope_def by (auto intro!: supervisor_ok_try)
qed

lemma scope_call_identity_keeps:
  "supervisor_ok s \<Longrightarrow> supervisor_ok (snd (scope_call_identity p sc s))"
  unfolding scope_call_identity_def
  by (auto intro!: supervisor_ok_try supervisor_ok_identity simp: Let_def split_beta)

lemma register_pair: "register_call i l = (Inr u, l') \<Longrightarrow> registered i l'"
  using registered_after_register [of i l u] by simp

lemma begin_call_keeps:
  assumes "supervisor_ok s"
  shows "supervisor_ok (snd (begin_call i s))"
proof -
  have ok: "supervisor_ok (s\<lparr>ledger := snd (register_call i (ledger s))\<rparr>)"
    using assms by (rule supervisor_ok_register)
  have "supervisor_ok (s\<lparr>ledger := l, pending := map_insert (call_id i) i (pending s)\<rparr>)"
    if "register_call i (ledger s) = (Inr u, l)" for u l
    using supervisor_ok_owed(2) [OF ok, of "map_insert (call_id i) i (pending s)"]
      supervisor_ok_calls(1) [OF ok] register_pair [OF that] that
    by (simp add: calls_ok_insert)
  with ok assms show ?thesis
    unfolding begin_call_def by (auto intro!: supervisor_ok_try split: prod.split sum.split)
qed

lemma commit_keeps:
  assumes "supervisor_ok s"
  shows "supervisor_ok (snd (commit_inbound_terminal e s))"
proof -
  let ?s = "s\<lparr>owed := map_remove (call_id (identity e)) (owed s)\<rparr>"
  have "supervisor_ok ?s"
    using assms by (simp add: supervisor_ok_owed(1) calls_ok_remove supervisor_ok_calls(2))
  from supervisor_ok_terminal [OF this, of e] show ?thesis
    by (auto simp: commit_inbound_terminal_def Let_def split: prod.split sum.split)
qed

lemma accept_inbound_keeps:
  assumes "supervisor_ok s"
  shows "supervisor_ok (snd (accept_inbound e s))"
proof (cases "wire e")
  case (Request m p)
  let ?i = "identity e"
  have ok: "supervisor_ok (s\<lparr>ledger := snd (register_call ?i (ledger s))\<rparr>)"
    using assms by (rule supervisor_ok_register)
  have "supervisor_ok (s\<lparr>ledger := l, owed := map_insert (call_id ?i) ?i (owed s)\<rparr>)"
    if "register_call ?i (ledger s) = (Inr u, l)" for u l
    using supervisor_ok_owed(1) [OF ok, of "map_insert (call_id ?i) ?i (owed s)"]
      supervisor_ok_calls(2) [OF ok] register_pair [OF that] that
    by (simp add: calls_ok_insert)
  with ok assms Request show ?thesis
    by (auto simp: accept_inbound_def Let_def intro!: supervisor_ok_try split: prod.split sum.split)
next
  case (Terminal status p)
  have ok: "supervisor_ok (s\<lparr>ledger := snd (submit_terminal e (ledger s))\<rparr>)"
    using assms by (rule supervisor_ok_terminal)
  from supervisor_ok_owed(2) [OF ok, of "map_remove (call_id (identity e)) (pending s)"]
    supervisor_ok_calls(1) [OF ok]
  have "supervisor_ok (s\<lparr>ledger := snd (submit_terminal e (ledger s)),
      pending := map_remove (call_id (identity e)) (pending s)\<rparr>)"
    by (simp add: calls_ok_remove)
  with ok Terminal show ?thesis
    by (auto simp: accept_inbound_def Let_def split: prod.split sum.split terminal_disposition.split)
qed (use assms in \<open>auto simp: accept_inbound_def Let_def intro!: supervisor_ok_try split: chunk_disposition.split\<close>)

subsection \<open>Failing and restarting\<close>

abbreviation failure_answer :: "payload \<Rightarrow> call_identity \<Rightarrow> wire_envelope" where
  "failure_answer p i \<equiv> new_envelope i (Terminal Error p)"

lemma answer_all_run:
  "answer_all p is l =
     (map (failure_answer p) is, ledger_run (map (\<lambda>i. SubmitTerminal (failure_answer p i)) is) l)"
  by (induction p "is" l rule: answer_all.induct) (simp_all add: Let_def split_beta)

lemma ledger_run_keeps:
  "ledger_ok l \<Longrightarrow> ledger_ok (ledger_run ops l)"
  "calls_ok m l \<Longrightarrow> calls_ok m (ledger_run ops l)"
  "ledger_epoch (ledger_run ops l) = ledger_epoch l"
  by (induction ops arbitrary: l) (simp_all add: ledger_ok_step calls_ok_step ledger_step_epoch)

lemma ledger_run_terminals: "scope_generations (ledger_run (map SubmitTerminal es) l) = scope_generations l"
  by (induction es arbitrary: l) (simp_all add: ledger_frames)

lemma answered_run:
  "ledger_ok l \<Longrightarrow> done_with i l \<Longrightarrow> done_with i (ledger_run ops l)"
  by (induction ops arbitrary: l) (simp_all add: done_with_step ledger_ok_step)

lemma answers_settle:
  assumes "ledger_ok l" and "list_all (\<lambda>i. registered i l) is" and "i \<in> set is"
  shows "done_with i (ledger_run (map (\<lambda>i. SubmitTerminal (failure_answer p i)) is) l)"
  using assms
proof (induction "is" arbitrary: l)
  case (Cons j js)
  let ?op = "SubmitTerminal (failure_answer p j)"
  have ok: "ledger_ok (ledger_step ?op l)" using Cons.prems(1) by (rule ledger_ok_step)
  show ?case
  proof (cases "i = j")
    case True
    with Cons.prems terminal_settles [of l i Error p] have "done_with i (ledger_step ?op l)" by simp
    with ok show ?thesis by (simp add: answered_run)
  next
    case False
    with Cons.prems ok have "list_all (\<lambda>i. registered i (ledger_step ?op l)) js" and "i \<in> set js"
      by (auto simp: list_all_iff registered_step simp del: ledger_step.simps)
    with Cons.IH ok show ?thesis by simp
  qed
qed simp

lemma fail_all_eq:
  "fail_all encode f s =
     (let f = (case failure s of Some first \<Rightarrow> first | None \<Rightarrow> f);
          p = failure_payload encode f
      in (map (failure_answer p) (map snd (pending s)),
          s\<lparr>failure := Some f, owed := [], pending := [],
            ledger := ledger_run (map SubmitTerminal (map (failure_answer p) (map snd (pending s)))) (ledger s)\<rparr>))"
  by (simp add: fail_all_def Let_def answer_all_run o_def)

lemma fail_all_keeps: "supervisor_ok s \<Longrightarrow> supervisor_ok (snd (fail_all encode f s))"
  unfolding fail_all_eq Let_def snd_conv
  by (simp add: supervisor_ok_def scopes_ok_def ledger_run_keeps ledger_run_terminals calls_ok_empty del: map_map)

lemma fresh_ledger:
  assumes "new_ledger e = Inr l"
  obtains l' where "register_control_scope l = (Inr (), l')" and "ledger_ok l'" and "ledger_epoch l' = e"
proof -
  have l: "l = \<lparr>ledger_epoch = e, scope_generations = (\<lambda>_. None), calls = (\<lambda>_. None)\<rparr>"
    using assms by (auto simp: new_ledger_def and_then_Inr)
  show thesis
    by (rule that) (auto simp: register_control_scope_def advance_scope_generation_def validate_integer_def
        PLATFORM_CONTROL_GENERATION_def MAX_SAFE_WIRE_INTEGER_def l ledger_ok_def)
qed

lemma new_state_ok:
  assumes "new_state e = Inr s"
  shows "supervisor_ok s"
proof -
  from assms obtain l where l: "new_ledger e = Inr l" by (auto simp: new_state_def and_then_Inr map_err_Inr)
  then obtain l' where "register_control_scope l = (Inr (), l')" "ledger_ok l'" "ledger_epoch l' = e"
    by (rule fresh_ledger)
  with assms l show ?thesis
    by (auto simp: new_state_def supervisor_ok_def scopes_ok_def calls_ok_empty)
qed

lemma restart_keeps:
  assumes "supervisor_ok s"
  shows "supervisor_ok (snd (restart encode e s))"
proof -
  let ?s = "snd (fail_all encode (new_failure ''plugin host restarted'') s)"
  have ok: "supervisor_ok ?s" using assms by (rule fail_all_keeps)
  have dead: "failure ?s \<noteq> None" by (simp add: fail_all_eq Let_def)
  show ?thesis
  proof (cases "new_ledger e")
    case (Inl x)
    with ok dead show ?thesis
      by (auto simp: restart_def Let_def split_beta supervisor_ok_def scopes_ok_def)
  next
    case (Inr l)
    then obtain l' where "register_control_scope l = (Inr (), l')" "ledger_ok l'" "ledger_epoch l' = e"
      by (rule fresh_ledger)
    with Inr show ?thesis
      by (simp add: restart_def Let_def split_beta supervisor_ok_def scopes_ok_def calls_ok_empty)
  qed
qed

lemma next_call_id_keeps: "supervisor_ok s \<Longrightarrow> supervisor_ok (snd (next_call_id s))"
  by (simp add: next_call_id_def Let_def supervisor_ok_owed)

lemma supervisor_step_keeps: "supervisor_step encode s s' \<Longrightarrow> supervisor_ok s \<Longrightarrow> supervisor_ok s'"
  by (induction rule: supervisor_step.induct)
    (simp_all add: next_call_id_keeps open_scope_keeps close_scope_keeps scope_call_identity_keeps
      begin_call_keeps commit_keeps accept_inbound_keeps fail_all_keeps restart_keeps supervisor_ok_owed)

lemma supervisor_reachable_ok: "supervisor_reachable encode s \<Longrightarrow> supervisor_ok s"
  by (induction rule: supervisor_reachable.induct) (auto intro: new_state_ok supervisor_step_keeps)

subsection \<open>Deliveries\<close>

lemma accept_terminal:
  assumes "accept_inbound e s = (Inr (InTerminal c status p), s')"
  shows "c = call_id (identity e)"
    and "fst (submit_terminal e (ledger s)) = Inr (Committed status)"
    and "s' = s\<lparr>ledger := snd (submit_terminal e (ledger s)), pending := map_remove c (pending s)\<rparr>"
  using assms
  by (auto simp: accept_inbound_def Let_def try_in_def map_err_def
      split: wire_message.splits prod.splits sum.splits terminal_disposition.splits chunk_disposition.splits if_splits)

lemma accept_chunk:
  assumes "accept_inbound e s = (Inr (InChunk c p), s')"
  shows "c = call_id (identity e)" and "submit_chunk e (ledger s) = Inr ChunkAccepted"
  using assms
  by (auto simp: accept_inbound_def Let_def try_in_def map_err_def
      split: wire_message.splits prod.splits sum.splits terminal_disposition.splits chunk_disposition.splits if_splits)

definition delivers :: "string \<Rightarrow> (state_error + inbound) \<Rightarrow> bool" where
  "delivers c r \<longleftrightarrow> (case r of
     Inr (InTerminal k _ _) \<Rightarrow> k = c | Inr (InChunk k _) \<Rightarrow> k = c | _ \<Rightarrow> False)"

lemma done_with_not_delivered:
  assumes "done_with i (ledger s)"
  shows "\<not> delivers (call_id i) (fst (accept_inbound e s))"
proof
  obtain r s' where a: "accept_inbound e s = (r, s')" by fastforce
  assume "delivers (call_id i) (fst (accept_inbound e s))"
  then consider (terminal) status p where "r = Inr (InTerminal (call_id i) status p)"
    | (chunk) p where "r = Inr (InChunk (call_id i) p)"
    by (auto simp: delivers_def a split: sum.splits inbound.splits)
  then show False
  proof cases
    case terminal
    with accept_terminal [of e s "call_id i"] a done_with_refuses(1) [OF assms] show False by metis
  next
    case chunk
    with accept_chunk [of e s "call_id i"] a done_with_refuses(2) [OF assms] show False by metis
  qed
qed

lemma pending_registered:
  assumes "supervisor_ok s" and "map_of (pending s) c = Some i"
  shows "call_id i = c" and "registered i (ledger s)" and "settled i (ledger s)"
proof -
  have "(c, i) \<in> set (pending s)" using assms(2) by (rule map_of_SomeD)
  with assms(1) show "call_id i = c" and r: "registered i (ledger s)"
    by (auto simp: supervisor_ok_def calls_ok_def list_all_iff)
  with assms(1) registered_settled show "settled i (ledger s)" by (auto simp: supervisor_ok_def)
qed

lemma pending_keys:
  assumes "supervisor_ok s"
  shows "map call_id (map snd (pending s)) = keys (pending s)" "distinct (keys (pending s))"
    "list_all (\<lambda>i. registered i (ledger s)) (map snd (pending s))"
    "i \<in> set (map snd (pending s)) \<Longrightarrow> map_of (pending s) (call_id i) = Some i"
proof -
  have ok: "calls_ok (pending s) (ledger s)" using assms by (rule supervisor_ok_calls)
  then show "map call_id (map snd (pending s)) = keys (pending s)"
    and "list_all (\<lambda>i. registered i (ledger s)) (map snd (pending s))"
    by (auto simp: keys_def calls_ok_def list_all_iff)
  show d: "distinct (keys (pending s))" using ok by (simp add: calls_ok_def ordered_distinct)
  show "map_of (pending s) (call_id i) = Some i" if "i \<in> set (map snd (pending s))"
  proof -
    from that obtain k where "(k, i) \<in> set (pending s)" by auto
    moreover from this ok have "call_id i = k" by (auto simp: calls_ok_def list_all_iff)
    ultimately show ?thesis using d by (simp add: keys_def)
  qed
qed

subsection \<open>Call ids\<close>

fun draw_ids :: "nat \<Rightarrow> supervisor_state \<Rightarrow> string list \<times> supervisor_state" where
  "draw_ids 0 s = ([], s)"
| "draw_ids (Suc n) s =
     (let (c, s) = next_call_id s; (cs, s) = draw_ids n s in (c # cs, s))"

lemma call_name_inject: "call_name e n = call_name e' n' \<longleftrightarrow> e = e' \<and> n = n'"
proof
  have dash: "ch_dash \<notin> set (decimal k)" for k
    using decimal_digits [of k] by (auto simp: list_all_iff is_ascii_digit_def code_def)
  assume "call_name e n = call_name e' n'"
  then have "decimal (unat e) @ ch_dash # decimal (unat n) = decimal (unat e') @ ch_dash # decimal (unat n')"
    by (simp add: call_name_def)
  with split_once_append [OF dash, of "unat e" "decimal (unat n)"]
    split_once_append [OF dash, of "unat e'" "decimal (unat n')"]
  have "Some (decimal (unat e), decimal (unat n)) = Some (decimal (unat e'), decimal (unat n'))" by metis
  then show "e = e' \<and> n = n'" by (simp add: word_unat_eq_iff)
qed simp

lemma draw_ids_names:
  "fst (draw_ids n s) = map (\<lambda>k. call_name (epoch s) (next_call s + 1 + of_nat k)) [0..<n]"
proof (induction n arbitrary: s)
  case (Suc n)
  have "map (\<lambda>k. call_name (epoch s) (next_call s + 1 + of_nat k)) [0..<Suc n] =
      call_name (epoch s) (next_call s + 1) #
        map (\<lambda>k. call_name (epoch s) (next_call s + 1 + 1 + of_nat k)) [0..<n]"
    by (subst upt_conv_Cons) (simp_all add: map_Suc_upt [symmetric] comp_def add_ac del: map_Suc_upt upt_Suc)
  with Suc show ?case by (simp add: next_call_id_def Let_def split_beta)
qed simp

lemma draws_distinct:
  assumes "unat (next_call s) + n < 2 ^ 64"
  shows "distinct (fst (draw_ids n s))"
proof -
  have "inj_on (\<lambda>k. call_name (epoch s) (next_call s + 1 + of_nat k)) {0..<n}"
  proof (rule inj_onI)
    fix j k assume j: "j \<in> {0..<n}" and k: "k \<in> {0..<n}"
      and eq: "call_name (epoch s) (next_call s + 1 + of_nat j) = call_name (epoch s) (next_call s + 1 + of_nat k)"
    then have "(of_nat j :: u64) = of_nat k" by (simp add: call_name_inject)
    then have "unat (of_nat j :: u64) = unat (of_nat k :: u64)" by simp
    with j k assms show "j = k" by (simp add: unat_of_nat take_bit_nat_eq_self)
  qed
  then show ?thesis by (simp add: draw_ids_names distinct_map)
qed

subsection \<open>Calls in a closed scope\<close>

lemma next_generation_greater: "next_scope_generation g = Inr g' \<Longrightarrow> g < g' \<and> g' = g + 1"
  by (auto simp: next_scope_generation_def and_then_Inr checked_add_def ok_or_def bind_eq_Some_conv
      order.strict_iff_order split: option.splits if_splits)

lemma close_scope_Inr:
  assumes "close_scope p sc s = (Inr r, s')"
  obtains st l where "scopes s (p, sc) = Some st" and "is_open st" and "failure s = None"
    and "generation st < generation st + 1"
    and "advance_scope_generation p sc (generation st + 1) (ledger s) = (Inr (), l)"
    and "ledger s' = l" and "pending s' = pending s" and "failure s' = None"
proof -
  from assms obtain st g where st: "scopes s (p, sc) = Some st" "is_open st" "failure s = None"
    "next_scope_generation (generation st) = Inr g"
    by (auto simp: close_scope_def try_in_Inr ok_or_def map_err_Inr ensure_alive_def split: option.splits if_splits)
  obtain x l where l: "advance_scope_generation p sc g (ledger s) = (x, l)" by fastforce
  have "x = Inr ()"
    using assms st l by (cases x) (auto simp: close_scope_def ensure_alive_def)
  with assms st l next_generation_greater [of "generation st" g] show thesis
    by (intro that [of st l])
      (auto simp: close_scope_def ensure_alive_def Let_def split_beta scoped_identity_def next_call_id_def)
qed

lemma settled_after_advance:
  assumes "settled i l" and "advance_scope_generation (plugin_id i) (scope_id i) g' l = (Inr u, l')"
    and "scope_generations l (plugin_id i, scope_id i) = Some g" and "g < g'"
  shows "stale_identity i l'"
proof -
  have "l' = l\<lparr>scope_generations := (scope_generations l)((plugin_id i, scope_id i) \<mapsto> g')\<rparr>"
    using assms(2) unfolding advance_ok by simp
  with assms show ?thesis
    by (auto simp: settled_def current_identity_def stale_identity_def)
qed

lemma stale_terminal:
  assumes "registered (identity e) l" and "safe_identity (identity e)" and "stale_identity (identity e) l"
  shows "\<exists>r. submit_terminal e l = (Inr (TerminalStale r), l)"
proof -
  have v: "validate_identity (identity e) = Inr ()" using assms(2) by (simp add: ledger_checks)
  obtain r where "classify_stale (identity e) l = Inr (Some r)"
    using assms(3) classify_is_stale by blast
  moreover have "check_if_known (identity e) l = Inr ()"
    using assms(1) by (auto simp: registered_def is_some_and_iff check_if_known_self)
  ultimately show ?thesis
    using v assms(3) by (auto simp: submit_terminal_def Let_def stale_identity_def)
qed

lemma accept_keeps_pending:
  assumes "c \<in> set (pending_calls s)"
    and "\<And>status. fst (submit_terminal e (ledger s)) = Inr (Committed status) \<Longrightarrow> call_id (identity e) \<noteq> c"
  shows "c \<in> set (pending_calls (snd (accept_inbound e s)))"
proof (cases "wire e")
  case (Terminal status p)
  have "k \<noteq> c \<Longrightarrow> c \<in> set (keys (map_remove k m)) \<longleftrightarrow> c \<in> set (keys m)"
    for k and m :: "(string \<times> call_identity) list"
    by (auto simp: set_keys map_of_map_remove)
  with assms Terminal show ?thesis
    by (auto simp: accept_inbound_def Let_def pending_calls_def split: prod.split sum.split terminal_disposition.split)
qed (use assms(1) in \<open>auto simp: accept_inbound_def Let_def try_in_def pending_calls_def
    split: prod.split sum.split chunk_disposition.split\<close>)

subsection \<open>A host with a call in flight\<close>

definition demo_call :: call_identity where
  "demo_call = \<lparr>host_epoch = 7, plugin_id = ''p'', scope_id = ''s'', scope_generation = 0, call_id = ''c7-2''\<rparr>"

definition demo_start :: supervisor_state where
  "demo_start = (case new_state 7 of Inr s \<Rightarrow> s | Inl _ \<Rightarrow> undefined)"

definition demo_supervisor :: supervisor_state where
  "demo_supervisor = snd (begin_call demo_call (snd (open_scope ''p'' ''s'' demo_start)))"

lemma demo_supervisor_reachable: "supervisor_reachable encode demo_supervisor"
proof -
  have "\<exists>s. new_state 7 = Inr s"
    by (simp add: new_state_def new_ledger_def validate_integer_def MAX_SAFE_WIRE_INTEGER_def
        register_control_scope_def advance_scope_generation_def PLATFORM_CONTROL_GENERATION_def)
  then have "new_state 7 = Inr demo_start" by (auto simp: demo_start_def)
  then show ?thesis
    unfolding demo_supervisor_def
    by (intro supervisor_reachable.step [OF supervisor_reachable.step [OF supervisor_reachable.start]])
      (rule supervisor_step.intros | assumption)+
qed

lemma demo_pending: "pending demo_supervisor = [(''c7-2'', demo_call)]"
  by code_simp

subsection \<open>Properties\<close>

text \<open>C18. No caller waits forever on a dead host: in every reachable state a failure answers each
  pending call once, under its own identity, with an error that carries the first failure; it
  leaves nothing pending and nothing owed, a second failure answers nobody again, and nothing
  that arrives later is delivered to an answered call.\<close>

theorem failure_answers_every_call:
  assumes "supervisor_reachable encode s" and "fail_all encode f s = (es, s')"
  shows "map (\<lambda>e. call_id (identity e)) es = pending_calls s \<and> distinct (pending_calls s) \<and>
    list_all (\<lambda>e. map_of (pending s) (call_id (identity e)) = Some (identity e) \<and>
      wire e = Terminal Error (failure_payload encode (the (failure s')))) es \<and>
    failure s' = Some (case failure s of Some first \<Rightarrow> first | None \<Rightarrow> f) \<and>
    pending_calls s' = [] \<and> owed_answers s' = [] \<and> fst (fail_all encode f' s') = [] \<and>
    list_all (\<lambda>c. \<not> delivers c (fst (accept_inbound e s'))) (pending_calls s)"
proof -
  have ok: "supervisor_ok s" using assms(1) by (rule supervisor_reachable_ok)
  let ?f = "case failure s of Some first \<Rightarrow> first | None \<Rightarrow> f"
  let ?p = "failure_payload encode ?f"
  have es: "es = map (failure_answer ?p) (map snd (pending s))"
    and s': "s' = s\<lparr>failure := Some ?f, owed := [], pending := [],
      ledger := ledger_run (map (\<lambda>i. SubmitTerminal (failure_answer ?p i)) (map snd (pending s))) (ledger s)\<rparr>"
    using assms(2) by (auto simp: fail_all_eq Let_def o_def)
  have ids: "map (\<lambda>e. call_id (identity e)) es = pending_calls s"
    using pending_keys(1) [OF ok] by (simp add: es pending_calls_def new_envelope_def o_def)
  have "\<not> delivers c (fst (accept_inbound e s'))" if "c \<in> set (pending_calls s)" for c
  proof -
    have "c \<in> set (map call_id (map snd (pending s)))"
      using that unfolding pending_keys(1) [OF ok] by (simp add: pending_calls_def)
    then obtain i where i: "i \<in> set (map snd (pending s))" "c = call_id i"
      by (metis (no_types, lifting) imageE list.set_map)
    have "done_with i (ledger s')"
      using answers_settle [OF supervisor_ok_calls(3) [OF ok] pending_keys(3) [OF ok] i(1), of ?p]
      by (simp add: s' del: map_map)
    with i(2) done_with_not_delivered show ?thesis by blast
  qed
  then have late: "list_all (\<lambda>c. \<not> delivers c (fst (accept_inbound e s'))) (pending_calls s)"
    by (simp add: list_all_iff)
  have answers: "list_all (\<lambda>e. map_of (pending s) (call_id (identity e)) = Some (identity e) \<and>
      wire e = Terminal Error (failure_payload encode (the (failure s')))) es"
  proof -
    have "map_of (pending s) (call_id i) = Some i" if "(k, i) \<in> set (pending s)" for k i
      using pending_keys(4) [OF ok, of i] that by force
    then show ?thesis by (auto simp: es s' list_all_iff new_envelope_def)
  qed
  have left: "failure s' = Some ?f \<and> pending_calls s' = [] \<and> owed_answers s' = [] \<and> fst (fail_all encode f' s') = []"
    by (simp add: s' pending_calls_def owed_answers_def keys_def fail_all_eq Let_def)
  show ?thesis
    using ids late answers left pending_keys(2) [OF ok] by (simp only: pending_calls_def simp_thms)
qed

theorem failure_answers_every_call_witness:
  "map (\<lambda>e. call_id (identity e)) (fst (fail_all (\<lambda>_. ''1'') (new_failure ''gone'') demo_supervisor)) = [''c7-2'']"
  using failure_answers_every_call [OF demo_supervisor_reachable, of "\<lambda>_. ''1''" "new_failure ''gone''"
      "fst (fail_all (\<lambda>_. ''1'') (new_failure ''gone'') demo_supervisor)"
      "snd (fail_all (\<lambda>_. ''1'') (new_failure ''gone'') demo_supervisor)"]
  by (simp add: pending_calls_def keys_def demo_pending)

text \<open>A delivered terminal closes its call: when a frame is delivered as the terminal of a
  call, the frame carried the identity the call was registered under, the call leaves the
  pending ones and no other does, and the same frame arriving again is refused as a duplicate
  and changes nothing.\<close>

theorem delivered_terminal_closes_call:
  assumes "accept_inbound e s = (Inr (InTerminal c status p), s')"
  shows "c = call_id (identity e) \<and> registered (identity e) (ledger s) \<and>
    pending_calls s' = filter (\<lambda>k. k \<noteq> c) (pending_calls s) \<and>
    accept_inbound e s' = (Inl (Lifecycle (DuplicateTerminal c status)), s')"
proof -
  note t = accept_terminal [OF assms]
  show ?thesis
    using t(2)
  proof (rule commit_effect)
    fix st
    assume st: "calls (ledger s) (call_id (identity e)) = Some st" "call_identity st = identity e"
      "terminal st = None" "current_identity (identity e) (ledger s)"
      and l: "snd (submit_terminal e (ledger s)) =
        ledger s\<lparr>calls := (calls (ledger s))(call_id (identity e) \<mapsto> st\<lparr>terminal := Some status\<rparr>)\<rparr>"
    have "submit_terminal e (ledger s) = (Inr (Committed status), snd (submit_terminal e (ledger s)))"
      using t(2) by (simp add: prod_eq_iff)
    then obtain q where w: "wire e = Terminal status q" "safe_identity (identity e)"
      unfolding submit_terminal_commits by blast
    have "submit_terminal e (snd (submit_terminal e (ledger s))) =
        (Inl (DuplicateTerminal (call_id (identity e)) status), snd (submit_terminal e (ledger s)))"
      by (rule terminated_refuses [of _ _ "st\<lparr>terminal := Some status\<rparr>"])
        (use st w in \<open>simp_all add: l current_identity_def\<close>)
    then have "accept_inbound e s' = (Inl (Lifecycle (DuplicateTerminal c status)), s')"
      using w(1) t(1) by (simp add: accept_inbound_def t(3))
    with st t(1) show ?thesis
      by (simp add: t(3) registered_def pending_calls_def keys_def map_remove_def filter_map o_def)
  qed
qed

theorem delivered_terminal_closes_call_witness:
  "pending_calls (snd (accept_inbound (new_envelope demo_call (Terminal Success ''1'')) demo_supervisor)) = []"
proof -
  have "accept_inbound (new_envelope demo_call (Terminal Success ''1'')) demo_supervisor =
      (Inr (InTerminal ''c7-2'' Success ''1''),
       snd (accept_inbound (new_envelope demo_call (Terminal Success ''1'')) demo_supervisor))"
    by (rule prod_eqI) (code_simp, simp)
  from delivered_terminal_closes_call [OF this] show ?thesis
    by (simp add: pending_calls_def keys_def demo_pending)
qed

text \<open>Call ids never repeat: two ids are equal only when they were drawn in the same epoch at
  the same count, and the ids drawn in one epoch are distinct until the 64-bit counter wraps.\<close>

theorem call_ids_never_repeat:
  "(call_name e n = call_name e' n' \<longleftrightarrow> e = e' \<and> n = n') \<and>
   (unat (next_call s) + k < 2 ^ 64 \<longrightarrow> distinct (fst (draw_ids k s)))"
  using call_name_inject draws_distinct by blast

theorem call_ids_never_repeat_witness: "distinct (fst (draw_ids 3 demo_start))"
proof -
  have "next_call demo_start = 0" by code_simp
  then show ?thesis using call_ids_never_repeat [of 0 0 0 0 demo_start 3] by simp
qed

text \<open>Closing a scope strands the calls in it: after a scope is closed, the terminal of a call
  that was pending in it is discarded as stale, and no frame of the host, whatever it is, takes
  the call out of the pending ones.\<close>

theorem closed_scope_strands_pending_call:
  assumes "supervisor_reachable encode s" and "map_of (pending s) c = Some i"
    and "close_scope (plugin_id i) (scope_id i) s = (Inr r, s')"
  shows "accept_inbound (new_envelope i (Terminal status p)) s' = (Inr (InStale c), s') \<and>
    c \<in> set (pending_calls (snd (accept_inbound e s')))"
proof -
  have ok: "supervisor_ok s" using assms(1) by (rule supervisor_reachable_ok)
  note i = pending_registered [OF ok assms(2)]
  from assms(3) obtain st l where st: "scopes s (plugin_id i, scope_id i) = Some st"
    "generation st < generation st + 1"
    "advance_scope_generation (plugin_id i) (scope_id i) (generation st + 1) (ledger s) = (Inr (), l)"
    and s': "ledger s' = l" "pending s' = pending s"
    by (rule close_scope_Inr) blast
  have "scope_generations (ledger s) (plugin_id i, scope_id i) = Some (generation st)"
    using ok st(1) by (auto simp: supervisor_ok_def scopes_ok_def)
  from settled_after_advance [OF i(3) st(3) this st(2)] have stale: "stale_identity i l" .
  have reg: "registered i l"
    using registered_step [OF i(2), of "AdvanceScope (plugin_id i) (scope_id i) (generation st + 1)"] st(3) by simp
  have "\<exists>x. submit_terminal (new_envelope i (Terminal status p)) l = (Inr (TerminalStale x), l)"
    using i(3) reg stale by (intro stale_terminal) (simp_all add: new_envelope_def settled_def)
  then have "accept_inbound (new_envelope i (Terminal status p)) s' = (Inr (InStale c), s')"
    using i(1) s' by (auto simp: accept_inbound_def Let_def new_envelope_def)
  moreover have "c \<in> set (pending_calls (snd (accept_inbound e s')))"
  proof (rule accept_keeps_pending)
    show "c \<in> set (pending_calls s')" using assms(2) s' by (auto simp: pending_calls_def set_keys)
    show "fst (submit_terminal e (ledger s')) = Inr (Committed x) \<Longrightarrow> call_id (identity e) \<noteq> c" for x
      using done_with_refuses(1) [of i l e x] reg stale i(1) s' by (auto simp: done_with_def)
  qed
  ultimately show ?thesis ..
qed


theorem closed_scope_strands_pending_call_witness:
  "fst (accept_inbound (new_envelope demo_call (Terminal Success ''1''))
     (snd (close_scope ''p'' ''s'' demo_supervisor))) = Inr (InStale ''c7-2'')"
proof -
  have m: "map_of (pending demo_supervisor) ''c7-2'' = Some demo_call" by (simp add: demo_pending)
  obtain r s' where c: "close_scope ''p'' ''s'' demo_supervisor = (r, s')" by fastforce
  have "\<not> (case fst (close_scope ''p'' ''s'' demo_supervisor) of Inl _ \<Rightarrow> True | Inr _ \<Rightarrow> False)" by code_simp
  then obtain x where "r = Inr x" using c by (cases r) auto
  with c have "close_scope (plugin_id demo_call) (scope_id demo_call) demo_supervisor = (Inr x, s')"
    by (simp add: demo_call_def)
  from closed_scope_strands_pending_call [OF demo_supervisor_reachable m this, of Success "''1''"] c
  show ?thesis by simp
qed

end
