(* ===== verification/Session_Frame.thy ===== *)
theory Session_Frame
  imports Json_Value "HOL-Library.Word"
begin

text \<open>
  \<open>crates/rebon-bridge/src/session_stream.rs\<close>: the frames of a remote-control session, the
  objects they are written as and read back from, and the keys the server stores them under.
  The bodies they carry are those of \<open>config.rs\<close>.

  A frame is written as the list of its fields in the order of the serializer. The readers of
  nested bodies are what the \<open>serde\<close> attributes of those types say: a field with a default may
  be missing, an optional field may also be \<open>null\<close>, unknown fields are ignored. (\<open>serde\<close> also reads a
  struct from an array of its fields, a form nothing writes, which is not modelled.) An integer
  field holds what its width can hold.
\<close>

subsection \<open>What a session is doing\<close>

datatype session_run_state =
    StateStarting | StateRunning | StateIdle | StateNeedsInput | StateStopped | StateFailed
  | StateOther string

definition KNOWN_RUN_STATES :: "session_run_state list" where
  "KNOWN_RUN_STATES =
     [StateStarting, StateRunning, StateIdle, StateNeedsInput, StateStopped, StateFailed]"

definition run_state_as_str :: "session_run_state \<Rightarrow> string" where
  "run_state_as_str s =
     (case s of
        StateStarting \<Rightarrow> ''starting''
      | StateRunning \<Rightarrow> ''running''
      | StateIdle \<Rightarrow> ''idle''
      | StateNeedsInput \<Rightarrow> ''needs_input''
      | StateStopped \<Rightarrow> ''stopped''
      | StateFailed \<Rightarrow> ''failed''
      | StateOther word \<Rightarrow> word)"

definition run_state_parse :: "string \<Rightarrow> session_run_state" where
  "run_state_parse word =
     (case find (\<lambda>s. run_state_as_str s = word) KNOWN_RUN_STATES of
        Some s \<Rightarrow> s
      | None \<Rightarrow> StateOther word)"

definition run_state_is_terminal :: "session_run_state \<Rightarrow> bool" where
  "run_state_is_terminal s \<longleftrightarrow> s = StateStopped \<or> s = StateFailed"

definition run_state_is_known :: "session_run_state \<Rightarrow> bool" where
  "run_state_is_known s \<longleftrightarrow> (case s of StateOther _ \<Rightarrow> False | _ \<Rightarrow> True)"

subsection \<open>Bodies\<close>

text \<open>\<open>valid_rebon_session_id\<close> of \<open>config.rs\<close>: the id names something on the disk.\<close>

definition MAX_REBON_SESSION_ID :: nat where "MAX_REBON_SESSION_ID = 128"

definition valid_rebon_session_id :: "string \<Rightarrow> bool" where
  "valid_rebon_session_id i \<longleftrightarrow>
     i \<noteq> [] \<and> byte_len i \<le> MAX_REBON_SESSION_ID \<and> \<not> prefix ''.'' i \<and>
     list_all (\<lambda>c. is_ascii_alphanumeric c \<or> c = ch_dot \<or> c = ch_underscore \<or> c = ch_dash) i"

record answered_by =
  ab_device_id :: string
  ab_label :: "string option"
  ab_connection_id :: "string option"
  ab_event_id :: "64 word option"

definition display_name :: "answered_by \<Rightarrow> string" where
  "display_name a =
     (case ab_label a of
        Some l \<Rightarrow> if l \<noteq> [] then l else ab_device_id a
      | None \<Rightarrow> ab_device_id a)"

record control_response_body =
  cr_subtype :: string
  cr_request_id :: string
  cr_response :: "json option"
  cr_error :: "string option"

definition response_success :: "string \<Rightarrow> json option \<Rightarrow> control_response_body" where
  "response_success rid body =
     \<lparr>cr_subtype = ''success'', cr_request_id = rid, cr_response = body, cr_error = None\<rparr>"

definition response_error :: "string \<Rightarrow> string \<Rightarrow> control_response_body" where
  "response_error rid why =
     \<lparr>cr_subtype = ''error'', cr_request_id = rid, cr_response = None, cr_error = Some why\<rparr>"

record permission_response_body =
  pr_subtype :: string
  pr_request_id :: string
  pr_response :: json

record question_answer =
  selected_options :: "nat list"
  other_text :: "string option"

record unknown_frame =
  uf_frame_type :: string
  uf_payload :: "(string \<times> json) list"

subsection \<open>Frames\<close>

datatype frame_origin = Worker | Controller | Server

datatype session_frame =
    SessionMessage "string option" json
  | SessionState session_run_state "string option"
  | PermissionRequest string json
  | ControlResponse control_response_body
  | SessionBound string
  | Prompt string "json list"
  | CancelFrame
  | PermissionResponse permission_response_body
  | QuestionResponse string "question_answer list"
  | ControlRequest string string json
  | StreamError string string "string option" "answered_by option"
  | OtherFrame unknown_frame

fun frame_type :: "session_frame \<Rightarrow> string" where
  "frame_type (SessionMessage _ _) = ''session_message''"
| "frame_type (SessionState _ _) = ''session_state''"
| "frame_type (PermissionRequest _ _) = ''permission_request''"
| "frame_type (ControlResponse _) = ''control_response''"
| "frame_type (SessionBound _) = ''session_bound''"
| "frame_type (Prompt _ _) = ''prompt''"
| "frame_type CancelFrame = ''cancel''"
| "frame_type (PermissionResponse _) = ''permission_response''"
| "frame_type (QuestionResponse _ _) = ''question_response''"
| "frame_type (ControlRequest _ _ _) = ''control_request''"
| "frame_type (StreamError _ _ _ _) = ''stream_error''"
| "frame_type (OtherFrame u) = uf_frame_type u"

fun frame_origin_of :: "session_frame \<Rightarrow> frame_origin option" where
  "frame_origin_of (SessionMessage _ _) = Some Worker"
| "frame_origin_of (SessionState _ _) = Some Worker"
| "frame_origin_of (PermissionRequest _ _) = Some Worker"
| "frame_origin_of (ControlResponse _) = Some Worker"
| "frame_origin_of (SessionBound _) = Some Worker"
| "frame_origin_of (Prompt _ _) = Some Controller"
| "frame_origin_of CancelFrame = Some Controller"
| "frame_origin_of (PermissionResponse _) = Some Controller"
| "frame_origin_of (QuestionResponse _ _) = Some Controller"
| "frame_origin_of (ControlRequest _ _ _) = Some Controller"
| "frame_origin_of (StreamError _ _ _ _) = Some Server"
| "frame_origin_of (OtherFrame _) = None"

definition message_with_id :: "string \<Rightarrow> json \<Rightarrow> session_frame" where
  "message_with_id i message = SessionMessage (Some i) message"

definition idempotency_key :: "session_frame \<Rightarrow> string option" where
  "idempotency_key f =
     (case f of
        SessionMessage (Some i) _ \<Rightarrow> Some (''session_message:'' @ i)
      | PermissionRequest rid _ \<Rightarrow> Some (''permission_request:'' @ rid)
      | SessionBound i \<Rightarrow> Some (''session_bound:'' @ i)
      | _ \<Rightarrow> None)"

definition idempotency_id :: "session_frame \<Rightarrow> string option" where
  "idempotency_id f =
     (case f of
        SessionMessage (Some i) _ \<Rightarrow> Some i
      | PermissionRequest rid _ \<Rightarrow> Some rid
      | SessionBound i \<Rightarrow> Some i
      | _ \<Rightarrow> None)"

definition already_answered :: "string \<Rightarrow> answered_by \<Rightarrow> session_frame" where
  "already_answered rid by_whom =
     StreamError ''already_answered''
       (rid @ '' was already answered by '' @ display_name by_whom) (Some rid) (Some by_whom)"

definition answered_request_id :: "session_frame \<Rightarrow> string option" where
  "answered_request_id f =
     (case f of
        PermissionResponse r \<Rightarrow> Some (pr_request_id r)
      | QuestionResponse rid _ \<Rightarrow> Some rid
      | _ \<Rightarrow> None)"

subsection \<open>Writing a frame\<close>

definition opt_entry :: "string \<Rightarrow> ('a \<Rightarrow> json) \<Rightarrow> 'a option \<Rightarrow> (string \<times> json) list" where
  "opt_entry k enc x = (case x of Some v \<Rightarrow> [(k, enc v)] | None \<Rightarrow> [])"

definition control_response_json :: "control_response_body \<Rightarrow> json" where
  "control_response_json r =
     JObject ([(''subtype'', JString (cr_subtype r)), (''request_id'', JString (cr_request_id r))] @
       opt_entry ''response'' (\<lambda>v. v) (cr_response r) @ opt_entry ''error'' JString (cr_error r))"

definition permission_response_json :: "permission_response_body \<Rightarrow> json" where
  "permission_response_json r =
     JObject [(''subtype'', JString (pr_subtype r)), (''request_id'', JString (pr_request_id r)),
       (''response'', pr_response r)]"

definition question_answer_json :: "question_answer \<Rightarrow> json" where
  "question_answer_json a =
     JObject ([(''selected_options'', JArray (map (\<lambda>n. JNumber (int n)) (selected_options a)))] @
       opt_entry ''other_text'' JString (other_text a))"

definition answered_by_json :: "answered_by \<Rightarrow> json" where
  "answered_by_json a =
     JObject ([(''device_id'', JString (ab_device_id a))] @
       opt_entry ''label'' JString (ab_label a) @
       opt_entry ''connection_id'' JString (ab_connection_id a) @
       opt_entry ''event_id'' (\<lambda>n. JNumber (int (unat n))) (ab_event_id a))"

fun frame_fields :: "session_frame \<Rightarrow> (string \<times> json) list" where
  "frame_fields (SessionMessage i message) = opt_entry ''message_id'' JString i @ [(''message'', message)]"
| "frame_fields (SessionState s detail) =
     (''state'', JString (run_state_as_str s)) # opt_entry ''detail'' JString detail"
| "frame_fields (PermissionRequest rid request) =
     [(''request_id'', JString rid), (''request'', request)]"
| "frame_fields (ControlResponse r) = [(''response'', control_response_json r)]"
| "frame_fields (SessionBound i) = [(''rebon_session_id'', JString i)]"
| "frame_fields (Prompt text attachments) =
     (''text'', JString text) # (if attachments = [] then [] else [(''attachments'', JArray attachments)])"
| "frame_fields CancelFrame = []"
| "frame_fields (PermissionResponse r) = [(''response'', permission_response_json r)]"
| "frame_fields (QuestionResponse rid answers) =
     [(''request_id'', JString rid), (''answers'', JArray (map question_answer_json answers))]"
| "frame_fields (ControlRequest rid subtype params) =
     [(''request_id'', JString rid), (''subtype'', JString subtype)] @
     (if params = JNull then [] else [(''params'', params)])"
| "frame_fields (StreamError c message rid by_whom) =
     [(''code'', JString c), (''message'', JString message)] @
     opt_entry ''request_id'' JString rid @ opt_entry ''answered_by'' answered_by_json by_whom"
| "frame_fields (OtherFrame u) = uf_payload u"

definition frame_object :: "session_frame \<Rightarrow> (string \<times> json) list" where
  "frame_object f =
     (case f of
        OtherFrame u \<Rightarrow> uf_payload u
      | _ \<Rightarrow> (''type'', JString (frame_type f)) # frame_fields f)"

subsection \<open>Reading a frame\<close>

datatype frame_error =
    TypeNotAString
  | NoType
  | FieldNotAString string string
  | FieldMissing string string
  | FieldMalformed string string
  | NotASessionId

definition take_string :: "string \<Rightarrow> (string \<times> json) list \<Rightarrow> string \<Rightarrow> frame_error + string" where
  "take_string ty m field =
     (case map_of m field of
        Some (JString v) \<Rightarrow> Inr v
      | Some _ \<Rightarrow> Inl (FieldNotAString ty field)
      | None \<Rightarrow> Inl (FieldMissing ty field))"

definition take_optional_string ::
  "string \<Rightarrow> (string \<times> json) list \<Rightarrow> string \<Rightarrow> frame_error + string option" where
  "take_optional_string ty m field =
     (case map_of m field of
        Some (JString v) \<Rightarrow> Inr (Some v)
      | Some JNull \<Rightarrow> Inr None
      | None \<Rightarrow> Inr None
      | Some _ \<Rightarrow> Inl (FieldNotAString ty field))"

definition take_value :: "(string \<times> json) list \<Rightarrow> string \<Rightarrow> json" where
  "take_value m field = (case map_of m field of Some v \<Rightarrow> v | None \<Rightarrow> JNull)"

definition take_typed ::
  "(json \<Rightarrow> 'a option) \<Rightarrow> string \<Rightarrow> (string \<times> json) list \<Rightarrow> string \<Rightarrow> frame_error + 'a" where
  "take_typed dec ty m field =
     (case map_of m field of
        None \<Rightarrow> Inl (FieldMissing ty field)
      | Some v \<Rightarrow> ok_or (dec v) (FieldMalformed ty field))"

definition take_optional_typed ::
  "(json \<Rightarrow> 'a option) \<Rightarrow> string \<Rightarrow> (string \<times> json) list \<Rightarrow> string \<Rightarrow> frame_error + 'a option" where
  "take_optional_typed dec ty m field =
     (case map_of m field of
        None \<Rightarrow> Inr None
      | Some JNull \<Rightarrow> Inr None
      | Some v \<Rightarrow> ok_or (map_option Some (dec v)) (FieldMalformed ty field))"

text \<open>The readers of the bodies: a required field, an optional one, a field with an alias (given
  under both names it is a duplicate).\<close>

definition opt_field :: "(json \<Rightarrow> 'a option) \<Rightarrow> json option \<Rightarrow> 'a option option" where
  "opt_field dec v =
     (case v of
        None \<Rightarrow> Some None
      | Some JNull \<Rightarrow> Some None
      | Some w \<Rightarrow> map_option Some (dec w))"

definition aliased :: "(string \<times> json) list \<Rightarrow> string \<Rightarrow> string \<Rightarrow> json option option" where
  "aliased m k k' =
     (case (map_of m k, map_of m k') of
        (Some _, Some _) \<Rightarrow> None
      | (Some v, None) \<Rightarrow> Some (Some v)
      | (None, v) \<Rightarrow> Some v)"

definition as_width :: "nat \<Rightarrow> json \<Rightarrow> nat option" where
  "as_width w v =
     (case v of JNumber n \<Rightarrow> if 0 \<le> n \<and> n < 2 ^ w then Some (nat n) else None | _ \<Rightarrow> None)"

definition dec_run_state :: "json \<Rightarrow> session_run_state option" where
  "dec_run_state v =
     Option.bind (as_str v) (\<lambda>word. if word = [] then None else Some (run_state_parse word))"

definition dec_control_response :: "json \<Rightarrow> control_response_body option" where
  "dec_control_response v =
     Option.bind (as_object v) (\<lambda>m.
     Option.bind (Option.bind (map_of m ''subtype'') as_str) (\<lambda>ty.
     Option.bind (Option.bind (map_of m ''request_id'') as_str) (\<lambda>rid.
     Option.bind (opt_field Some (map_of m ''response'')) (\<lambda>body.
     Option.bind (opt_field as_str (map_of m ''error'')) (\<lambda>why.
     Some \<lparr>cr_subtype = ty, cr_request_id = rid, cr_response = body, cr_error = why\<rparr>)))))"

definition dec_permission_response :: "json \<Rightarrow> permission_response_body option" where
  "dec_permission_response v =
     Option.bind (as_object v) (\<lambda>m.
     Option.bind (Option.bind (map_of m ''subtype'') as_str) (\<lambda>ty.
     Option.bind (Option.bind (map_of m ''request_id'') as_str) (\<lambda>rid.
     Option.bind (map_of m ''response'') (\<lambda>body.
     Some \<lparr>pr_subtype = ty, pr_request_id = rid, pr_response = body\<rparr>))))"

definition dec_question_answer :: "json \<Rightarrow> question_answer option" where
  "dec_question_answer v =
     Option.bind (as_object v) (\<lambda>m.
     Option.bind (aliased m ''selected_options'' ''selectedOptions'') (\<lambda>so.
     Option.bind
       (case so of
          None \<Rightarrow> Some []
        | Some w \<Rightarrow> Option.bind (as_array w) (\<lambda>vs. those (map (as_width 64) vs))) (\<lambda>options.
     Option.bind (Option.bind (aliased m ''other_text'' ''otherText'') (opt_field as_str)) (\<lambda>text.
     Some \<lparr>selected_options = options, other_text = text\<rparr>))))"

definition dec_answered_by :: "json \<Rightarrow> answered_by option" where
  "dec_answered_by v =
     Option.bind (as_object v) (\<lambda>m.
     Option.bind (Option.bind (map_of m ''device_id'') as_str) (\<lambda>dev.
     Option.bind (opt_field as_str (map_of m ''label'')) (\<lambda>l.
     Option.bind (opt_field as_str (map_of m ''connection_id'')) (\<lambda>conn.
     Option.bind (opt_field (as_width 64) (map_of m ''event_id'')) (\<lambda>ev.
     Some \<lparr>ab_device_id = dev, ab_label = l, ab_connection_id = conn,
           ab_event_id = map_option of_nat ev\<rparr>)))))"

definition dec_list :: "(json \<Rightarrow> 'a option) \<Rightarrow> json \<Rightarrow> 'a list option" where
  "dec_list dec v = Option.bind (as_array v) (\<lambda>vs. those (map dec vs))"

text \<open>\<open>SessionFrame::from_object\<close>. Every field is taken at most once, so what a removal leaves in
  the map is not looked at again; an unknown frame keeps the map as it came.\<close>

definition frame_of_kind :: "string \<Rightarrow> (string \<times> json) list \<Rightarrow> frame_error + session_frame" where
  "frame_of_kind ty m =
     (if ty = ''session_message'' then
        and_then (take_optional_string ty m ''message_id'') (\<lambda>i.
        Inr (SessionMessage i (take_value m ''message'')))
      else if ty = ''session_state'' then
        and_then (take_typed dec_run_state ty m ''state'') (\<lambda>s.
        and_then (take_optional_string ty m ''detail'') (\<lambda>detail.
        Inr (SessionState s detail)))
      else if ty = ''permission_request'' then
        and_then (take_string ty m ''request_id'') (\<lambda>rid.
        Inr (PermissionRequest rid (take_value m ''request'')))
      else if ty = ''control_response'' then
        and_then (take_typed dec_control_response ty m ''response'') (\<lambda>r.
        Inr (ControlResponse r))
      else if ty = ''session_bound'' then
        and_then (take_string ty m ''rebon_session_id'') (\<lambda>i.
        if \<not> valid_rebon_session_id i then Inl NotASessionId else Inr (SessionBound i))
      else if ty = ''prompt'' then
        and_then (take_string ty m ''text'') (\<lambda>text.
        and_then
          (case map_of m ''attachments'' of
             None \<Rightarrow> Inr []
           | Some JNull \<Rightarrow> Inr []
           | Some v \<Rightarrow> ok_or (as_array v) (FieldMalformed ty ''attachments'')) (\<lambda>attachments.
        Inr (Prompt text attachments)))
      else if ty = ''cancel'' then Inr CancelFrame
      else if ty = ''permission_response'' then
        and_then (take_typed dec_permission_response ty m ''response'') (\<lambda>r.
        Inr (PermissionResponse r))
      else if ty = ''question_response'' then
        and_then (take_string ty m ''request_id'') (\<lambda>rid.
        and_then (take_typed (dec_list dec_question_answer) ty m ''answers'') (\<lambda>answers.
        Inr (QuestionResponse rid answers)))
      else if ty = ''control_request'' then
        and_then (take_string ty m ''request_id'') (\<lambda>rid.
        and_then (take_string ty m ''subtype'') (\<lambda>subtype.
        Inr (ControlRequest rid subtype (take_value m ''params''))))
      else if ty = ''stream_error'' then
        and_then (take_string ty m ''code'') (\<lambda>c.
        and_then (take_string ty m ''message'') (\<lambda>message.
        and_then (take_optional_string ty m ''request_id'') (\<lambda>rid.
        and_then (take_optional_typed dec_answered_by ty m ''answered_by'') (\<lambda>by_whom.
        Inr (StreamError c message rid by_whom)))))
      else Inr (OtherFrame \<lparr>uf_frame_type = ty, uf_payload = m\<rparr>))"

definition frame_from_object :: "(string \<times> json) list \<Rightarrow> frame_error + session_frame" where
  "frame_from_object m =
     (case map_of m ''type'' of
        Some (JString ty) \<Rightarrow> frame_of_kind ty m
      | Some _ \<Rightarrow> Inl TypeNotAString
      | None \<Rightarrow> Inl NoType)"

subsection \<open>Delivered frames\<close>

definition EVENT_ID_KEY :: string where "EVENT_ID_KEY = ''event_id''"

record delivered_frame =
  df_event_id :: "64 word option"
  df_frame :: session_frame

datatype delivered_error = BadEventId | BadFrame frame_error

definition delivered_object :: "delivered_frame \<Rightarrow> (string \<times> json) list" where
  "delivered_object d =
     (case df_event_id d of
        Some i \<Rightarrow> insert_entry EVENT_ID_KEY (JNumber (int (unat i))) (frame_object (df_frame d))
      | None \<Rightarrow> frame_object (df_frame d))"

definition remove_entry :: "string \<Rightarrow> (string \<times> json) list \<Rightarrow> (string \<times> json) list" where
  "remove_entry k m = filter (\<lambda>(k', _). k' \<noteq> k) m"

definition delivered_from_object :: "(string \<times> json) list \<Rightarrow> delivered_error + delivered_frame" where
  "delivered_from_object m =
     and_then
       (case map_of m EVENT_ID_KEY of
          None \<Rightarrow> Inr None
        | Some v \<Rightarrow> ok_or (map_option (\<lambda>n. Some (of_nat n)) (as_width 64 v)) BadEventId) (\<lambda>i.
     and_then (map_err BadFrame (frame_from_object (remove_entry EVENT_ID_KEY m))) (\<lambda>f.
     Inr \<lparr>df_event_id = i, df_frame = f\<rparr>))"

text \<open>\<open>stamp_event_id\<close>: the key spliced into the stored text.\<close>

definition stamp_event_id :: "string \<Rightarrow> 64 word \<Rightarrow> string option" where
  "stamp_event_id frame_json event_id =
     (case strip_prefix ''{'' (trim_start_by is_whitespace frame_json) of
        None \<Rightarrow> None
      | Some body \<Rightarrow>
          if prefix ''}'' (trim_start_by is_whitespace body) \<or>
             \<not> suffix ''}'' (trim_end_by is_whitespace frame_json) then None
          else Some ([ch_lbrace, ch_dquote] @ EVENT_ID_KEY @ [ch_dquote, ch_colon] @
                 decimal (unat event_id) @ [ch_comma] @ body))"

end
