(* ===== verification/Frame_Facts.thy ===== *)
theory Frame_Facts
  imports Session_Frame
begin

text \<open>
  What the frame codec guarantees: a frame that was read is read back unchanged from what it is
  written as, delivered frames keep their event id, and the keys the server stores frames under
  tell frames of different kinds apart.
\<close>

subsection \<open>Bodies\<close>

named_theorems codec_simps "how the readers of a frame act on a written one"

lemma opt_field_simps [codec_simps]:
  "opt_field dec None = Some None"
  "opt_field as_str (Some (JString s)) = Some (Some s)"
  by (auto simp: opt_field_def as_str_def opt_entry_def split: option.splits json.splits)

lemma opt_entry_simps [codec_simps]:
  "map_of (opt_entry k enc x) k = map_option enc x"
  "k \<noteq> k' \<Longrightarrow> map_of (opt_entry k enc x) k' = None"
  by (auto simp: opt_entry_def split: option.splits)

lemma opt_field_str [codec_simps]: "opt_field as_str (map_option JString x) = Some x"
  by (cases x) (simp_all add: opt_field_def as_str_def)

lemma opt_field_str_case [codec_simps]:
  "opt_field as_str (case x of Some v \<Rightarrow> Some (JString v) | None \<Rightarrow> None) = Some x"
  by (cases x) (simp_all add: opt_field_def as_str_def)

lemma as_width_int [codec_simps]: "as_width w (JNumber (int n)) = (if n < 2 ^ w then Some n else None)"
proof -
  have "int n < 2 ^ w \<longleftrightarrow> n < 2 ^ w" by (metis of_nat_less_iff of_nat_numeral of_nat_power)
  then show ?thesis by (simp add: as_width_def)
qed

lemma as_width_uint [codec_simps]: "as_width 64 (JNumber (uint (n :: 64 word))) = Some (unat n)"
proof -
  have "unat n < 2 ^ 64" using unsigned_less [of n] by simp
  then have "as_width 64 (JNumber (int (unat n))) = Some (unat n)" by (simp only: as_width_int if_True)
  then show ?thesis by simp
qed

lemma dec_control_response_json:
  "cr_response r \<noteq> Some JNull \<Longrightarrow> dec_control_response (control_response_json r) = Some r"
  by (cases "cr_response r"; cases "cr_error r")
    (auto simp: dec_control_response_def control_response_json_def opt_entry_def opt_field_def
      as_str_def split: json.splits)

lemma dec_permission_response_json: "dec_permission_response (permission_response_json r) = Some r"
  by (simp add: dec_permission_response_def permission_response_json_def)

lemma those_map_Some: "(\<And>x. x \<in> set xs \<Longrightarrow> f (g x) = Some x) \<Longrightarrow> those (map f (map g xs)) = Some xs"
  by (induction xs) auto

lemma those_Some_iff: "those xs = Some ys \<longleftrightarrow> xs = map Some ys"
  by (induction xs arbitrary: ys) (auto split: option.splits simp: Cons_eq_map_conv)

definition answer_ok :: "question_answer \<Rightarrow> bool" where
  "answer_ok a \<longleftrightarrow> list_all (\<lambda>n. n < 2 ^ 64) (selected_options a)"

lemma dec_question_answer_json:
  assumes "answer_ok a"
  shows "dec_question_answer (question_answer_json a) = Some a"
proof -
  have "those (map (as_width 64) (map (\<lambda>n. JNumber (int n)) (selected_options a))) = Some (selected_options a)"
    using assms by (intro those_map_Some) (auto simp: as_width_int answer_ok_def list_all_iff)
  then show ?thesis
    by (simp add: dec_question_answer_def question_answer_json_def aliased_def codec_simps as_array_def
        split: option.splits)
qed

lemma dec_answered_by_json: "dec_answered_by (answered_by_json a) = Some a"
  by (cases "ab_label a"; cases "ab_connection_id a"; cases "ab_event_id a")
    (auto simp: dec_answered_by_def answered_by_json_def opt_entry_def opt_field_def as_str_def
      as_width_uint)

subsection \<open>Frames\<close>

definition KNOWN_TYPES :: "string list" where
  "KNOWN_TYPES =
     [''session_message'', ''session_state'', ''permission_request'', ''control_response'',
      ''session_bound'', ''prompt'', ''cancel'', ''permission_response'', ''question_response'',
      ''control_request'', ''stream_error'']"

fun frame_ok :: "session_frame \<Rightarrow> bool" where
  "frame_ok (SessionState s _) \<longleftrightarrow> dec_run_state (JString (run_state_as_str s)) = Some s"
| "frame_ok (ControlResponse r) \<longleftrightarrow> cr_response r \<noteq> Some JNull"
| "frame_ok (SessionBound i) \<longleftrightarrow> valid_rebon_session_id i"
| "frame_ok (QuestionResponse _ answers) \<longleftrightarrow> list_all answer_ok answers"
| "frame_ok (OtherFrame u) \<longleftrightarrow>
     map_of (uf_payload u) ''type'' = Some (JString (uf_frame_type u)) \<and>
     uf_frame_type u \<notin> set KNOWN_TYPES"
| "frame_ok _ \<longleftrightarrow> True"

lemma take_simps [codec_simps]:
  "map_of m k = Some (JString s) \<Longrightarrow> take_string ty m k = Inr s"
  "map_of m k = map_option JString x \<Longrightarrow> take_optional_string ty m k = Inr x"
  "map_of m k = Some v \<Longrightarrow> dec v = Some y \<Longrightarrow> take_typed dec ty m k = Inr y"
  "map_of m k = Some v \<Longrightarrow> take_value m k = v"
  by (auto simp: take_string_def take_optional_string_def take_typed_def take_value_def split: option.splits)

lemma take_optional_answered_by [codec_simps]:
  assumes "map_of m k = Some (answered_by_json a)"
  shows "take_optional_typed dec_answered_by ty m k = Inr (Some a)"
proof -
  obtain m' where "answered_by_json a = JObject m'" by (simp add: answered_by_json_def)
  with assms dec_answered_by_json [of a] show ?thesis by (simp add: take_optional_typed_def)
qed

lemma dec_answers:
  "list_all answer_ok answers \<Longrightarrow>
     dec_list dec_question_answer (JArray (map question_answer_json answers)) = Some answers"
  unfolding dec_list_def as_array_def
  by (simp only: json.case option.simps Option.bind.simps)
    (rule those_map_Some, simp add: dec_question_answer_json list_all_iff)

lemma frame_write_read: "frame_ok f \<Longrightarrow> frame_from_object (frame_object f) = Inr f"
proof (cases f)
  case (OtherFrame u)
  assume "frame_ok f"
  with OtherFrame show ?thesis
    by (simp add: frame_object_def frame_from_object_def frame_of_kind_def KNOWN_TYPES_def)
next
  case (ControlResponse r)
  assume "frame_ok f"
  with ControlResponse show ?thesis
    by (simp add: frame_object_def frame_from_object_def frame_of_kind_def codec_simps
        dec_control_response_json)
next
  case (QuestionResponse rid answers)
  assume "frame_ok f"
  with QuestionResponse dec_answers [of answers] show ?thesis
    by (simp add: frame_object_def frame_from_object_def frame_of_kind_def codec_simps)
next
  case (SessionMessage i m)
  then show ?thesis
    by (cases i) (simp_all add: frame_object_def frame_from_object_def frame_of_kind_def opt_entry_def
        take_optional_string_def take_value_def)
next
  case (SessionState s d)
  assume "frame_ok f"
  with SessionState show ?thesis
    by (cases d) (simp_all add: frame_object_def frame_from_object_def frame_of_kind_def opt_entry_def
        take_optional_string_def take_typed_def)
next
  case (StreamError c m r a)
  then show ?thesis
    by (cases r; cases a)
      (simp_all add: frame_object_def frame_from_object_def frame_of_kind_def opt_entry_def
        take_string_def take_optional_string_def take_optional_answered_by,
       simp_all add: take_optional_typed_def)
qed (simp_all add: frame_object_def frame_from_object_def frame_of_kind_def codec_simps
    as_array_def dec_permission_response_json take_value_def)

text \<open>What is read can be read again.\<close>

lemma opt_field_Some: "opt_field Some v = Some x \<Longrightarrow> x \<noteq> Some JNull"
  by (auto simp: opt_field_def split: option.splits json.splits)

lemma dec_control_response_ok: "dec_control_response v = Some r \<Longrightarrow> cr_response r \<noteq> Some JNull"
  by (auto simp: dec_control_response_def bind_eq_Some_conv dest: opt_field_Some)

lemma those_all: "those xs = Some ys \<Longrightarrow> (\<And>x y. x \<in> set xs \<Longrightarrow> x = Some y \<Longrightarrow> P y) \<Longrightarrow> list_all P ys"
  by (auto simp: those_Some_iff list_all_iff)

lemma dec_question_answer_ok: "dec_question_answer v = Some a \<Longrightarrow> answer_ok a"
proof -
  have "list_all (\<lambda>n. n < 2 ^ w) ns" if "those (map (as_width w) vs) = Some ns" for vs ns w
  proof (rule those_all [OF that])
    fix x n
    assume "x \<in> set (map (as_width w) vs)" "x = Some n"
    then obtain u where "as_width w u = Some n" by auto
    then show "n < 2 ^ w"
      by (auto simp: as_width_def nat_less_iff split: json.splits if_splits)
  qed
  then show "dec_question_answer v = Some a \<Longrightarrow> answer_ok a"
    by (fastforce simp: dec_question_answer_def bind_eq_Some_conv answer_ok_def split: option.splits)
qed

lemma dec_answers_ok:
  assumes "dec_list dec_question_answer v = Some answers"
  shows "list_all answer_ok answers"
proof -
  obtain vs where "those (map dec_question_answer vs) = Some answers"
    using assms by (auto simp: dec_list_def bind_eq_Some_conv)
  then show ?thesis
    by (rule those_all) (metis dec_question_answer_ok image_iff list.set_map)
qed

lemma run_state_parse_as_str [simp]: "run_state_as_str (run_state_parse word) = word"
  by (simp add: run_state_parse_def run_state_as_str_def KNOWN_RUN_STATES_def)

lemma dec_run_state_ok: "dec_run_state v = Some s \<Longrightarrow> dec_run_state (JString (run_state_as_str s)) = Some s"
  by (auto simp: dec_run_state_def bind_eq_Some_conv as_str_Some split: if_splits)

lemma take_typed_Inr: "take_typed dec ty m k = Inr y \<longleftrightarrow> (\<exists>v. map_of m k = Some v \<and> dec v = Some y)"
  by (auto simp: take_typed_def ok_or_def split: option.splits)

lemma frame_read_ok:
  assumes "frame_from_object m = Inr f"
  shows "frame_ok f"
proof -
  obtain ty where ty: "map_of m ''type'' = Some (JString ty)" and f: "frame_of_kind ty m = Inr f"
    using assms by (auto simp: frame_from_object_def split: option.splits json.splits)
  consider "ty \<notin> set KNOWN_TYPES" | "ty \<in> set KNOWN_TYPES" by blast
  then show ?thesis
  proof cases
    case 1
    with f have "f = OtherFrame \<lparr>uf_frame_type = ty, uf_payload = m\<rparr>"
      by (simp add: frame_of_kind_def KNOWN_TYPES_def)
    with 1 ty show ?thesis by simp
  next
    case 2
    then show ?thesis
      using f unfolding KNOWN_TYPES_def
      by (auto simp: frame_of_kind_def and_then_Inr take_typed_Inr dec_run_state_ok dec_answers_ok
          dest: dec_control_response_ok split: if_splits)
  qed
qed

text \<open>A frame that was read off the wire, whatever object it came from, is read back unchanged
  from the object it is written as: relaying a frame loses nothing of it.\<close>

theorem frame_relay_round_trip:
  assumes "frame_from_object m = Inr f"
  shows "frame_from_object (frame_object f) = Inr f"
  using frame_write_read [OF frame_read_ok [OF assms]] .

lemma frame_relay_round_trip_witness:
  "frame_from_object (frame_object (SessionState (StateOther ''resting'') None)) =
     Inr (SessionState (StateOther ''resting'') None)"
proof -
  have "frame_from_object
      [(''extra'', JNull), (''type'', JString ''session_state''), (''state'', JString ''resting'')] =
      Inr (SessionState (StateOther ''resting'') None)"
    by code_simp
  from frame_relay_round_trip [OF this] show ?thesis .
qed

subsection \<open>Delivered frames\<close>

lemma insert_entry_new: "k \<notin> fst ` set m \<Longrightarrow> insert_entry k v m = m @ [(k, v)]"
  by (induction k v m rule: insert_entry.induct) auto

lemma remove_entry_absent: "k \<notin> fst ` set m \<Longrightarrow> remove_entry k m = m"
  unfolding remove_entry_def by (rule filter_True) force

lemma map_of_remove_entry: "map_of (remove_entry k m) k' = (if k = k' then None else map_of m k')"
  by (induction m) (auto simp: remove_entry_def)

lemma delivered_round_trip:
  assumes "frame_ok (df_frame d)" and "EVENT_ID_KEY \<notin> fst ` set (frame_object (df_frame d))"
  shows "delivered_from_object (delivered_object d) = Inr d"
proof -
  have m: "map_of (frame_object (df_frame d)) EVENT_ID_KEY = None"
    using assms(2) by (simp add: map_of_eq_None_iff)
  show ?thesis
  proof (cases "df_event_id d")
    case None
    then show ?thesis
      using m by (simp add: delivered_from_object_def delivered_object_def frame_write_read assms(1)
          remove_entry_absent [OF assms(2)])
  next
    case (Some i)
    have "remove_entry EVENT_ID_KEY (frame_object (df_frame d) @ [(EVENT_ID_KEY, v)]) =
        frame_object (df_frame d)" for v
      using remove_entry_absent [OF assms(2)] by (simp add: remove_entry_def)
    with Some m show ?thesis
      by (simp add: delivered_from_object_def delivered_object_def frame_write_read assms(1)
          insert_entry_new [OF assms(2)] as_width_uint map_add_def)
  qed
qed

subsection \<open>Storage keys\<close>

text \<open>Two frames stored under one key are of one kind and carry one id.\<close>

lemma idempotency_key_determines:
  assumes "idempotency_key f = Some k" and "idempotency_key g = Some k"
  shows "frame_type f = frame_type g \<and> idempotency_id f = idempotency_id g"
  using assms by (cases f; cases g) (auto simp: idempotency_key_def idempotency_id_def split: option.splits)

end
