(* ===== verification/Remote_Permission.thy ===== *)
theory Remote_Permission
  imports Session_Frame
begin

text \<open>
  \<open>crates/rebon-bridge/src/remote_permission.rs\<close> and \<open>control_request.rs\<close>, with the response
  shape of \<open>permission_callbacks.rs\<close>: how a controller's decision becomes one of the options of a
  permission prompt, and what answers a control request. The text a JSON value is kept as
  (\<open>Value::to_string\<close>) is the parameter \<open>json_text\<close>.
\<close>

subsection \<open>Decisions and options\<close>

datatype bridge_permission_behavior = BehaviorAllow | BehaviorDeny

definition parse_behavior :: "string \<Rightarrow> bridge_permission_behavior option" where
  "parse_behavior v =
     (if v = ''allow'' then Some BehaviorAllow
      else if v = ''deny'' then Some BehaviorDeny
      else None)"

record bridge_permission_response =
  behavior :: bridge_permission_behavior
  updated_input :: "string option"
  updated_permissions :: "string option"
  bp_message :: "string option"

definition new_response :: "bridge_permission_behavior \<Rightarrow> bridge_permission_response" where
  "new_response b =
     \<lparr>behavior = b, updated_input = None, updated_permissions = None, bp_message = None\<rparr>"

datatype rebon_permission_option = AllowOnce | AllowAlways | AllowAlwaysGeneralized | RejectOnce

definition ALL_OPTIONS :: "rebon_permission_option list" where
  "ALL_OPTIONS = [AllowOnce, AllowAlways, AllowAlwaysGeneralized, RejectOnce]"

definition option_as_str :: "rebon_permission_option \<Rightarrow> string" where
  "option_as_str p =
     (case p of
        AllowOnce \<Rightarrow> ''allow_once''
      | AllowAlways \<Rightarrow> ''allow_always''
      | AllowAlwaysGeneralized \<Rightarrow> ''allow_always_generalized''
      | RejectOnce \<Rightarrow> ''reject_once'')"

definition option_parse :: "string \<Rightarrow> rebon_permission_option option" where
  "option_parse option_id = find (\<lambda>p. option_as_str p = option_id) ALL_OPTIONS"

definition option_allows :: "rebon_permission_option \<Rightarrow> bool" where
  "option_allows p \<longleftrightarrow> p \<noteq> RejectOnce"

definition option_persists :: "rebon_permission_option \<Rightarrow> bool" where
  "option_persists p \<longleftrightarrow> p = AllowAlways \<or> p = AllowAlwaysGeneralized"

record remote_permission_policy =
  allow_persistent_rules :: bool
  allow_updated_input :: bool

definition one_shot :: remote_permission_policy where
  "one_shot = \<lparr>allow_persistent_rules = False, allow_updated_input = False\<rparr>"

record remote_permission_answer =
  answer_option :: rebon_permission_option
  answer_input :: "string option"
  answer_message :: "string option"

datatype remote_permission_refusal =
    PersistentRuleNotAllowed
  | PersistentDenyUnsupported
  | UpdatedInputNotAllowed
  | UpdatedInputOnDeny

definition refusal_text :: "remote_permission_refusal \<Rightarrow> string" where
  "refusal_text r =
     (case r of
        PersistentRuleNotAllowed \<Rightarrow>
          ''remote decisions apply to this call only; send it without updated_permissions''
      | PersistentDenyUnsupported \<Rightarrow>
          ''Rebon cannot remember a denial; send it without updated_permissions''
      | UpdatedInputNotAllowed \<Rightarrow>
          ''this machine does not accept an edited tool input from a remote decision''
      | UpdatedInputOnDeny \<Rightarrow> ''a denial cannot carry updated_input'')"

definition map_remote_decision ::
  "bridge_permission_response \<Rightarrow> remote_permission_policy \<Rightarrow>
     remote_permission_refusal + remote_permission_answer" where
  "map_remote_decision d policy =
     (let allow = behavior d = BehaviorAllow;
          persistent = updated_permissions d \<noteq> None
      in if \<not> allow \<and> updated_input d \<noteq> None then Inl UpdatedInputOnDeny
         else if persistent \<and> \<not> allow_persistent_rules policy then Inl PersistentRuleNotAllowed
         else if persistent \<and> \<not> allow then Inl PersistentDenyUnsupported
         else if updated_input d \<noteq> None \<and> \<not> allow_updated_input policy then Inl UpdatedInputNotAllowed
         else Inr \<lparr>answer_option =
                     (if allow then (if persistent then AllowAlways else AllowOnce) else RejectOnce),
                   answer_input = updated_input d,
                   answer_message = bp_message d\<rparr>)"

subsection \<open>Reading a decision\<close>

datatype remote_decision_parse_error =
    NotAnObject
  | MissingBehavior
  | UnknownBehavior string
  | BadField string
  | ConflictingSpellings string

definition take_either ::
  "(string \<times> json) list \<Rightarrow> string \<Rightarrow> string \<Rightarrow> remote_decision_parse_error + json option" where
  "take_either m snake camel =
     (let present = (\<lambda>key. case map_of m key of
                       Some v \<Rightarrow> if is_null v then None else Some v
                     | None \<Rightarrow> None)
      in case (present snake, present camel) of
           (Some _, Some _) \<Rightarrow> Inl (ConflictingSpellings snake)
         | (v, None) \<Rightarrow> Inr v
         | (None, v) \<Rightarrow> Inr v)"

definition parse_remote_decision ::
  "(json \<Rightarrow> string) \<Rightarrow> json \<Rightarrow> remote_decision_parse_error + bridge_permission_response" where
  "parse_remote_decision json_text value =
     and_then (ok_or (as_object value) NotAnObject) (\<lambda>m.
     and_then
       (case map_of m ''behavior'' of
          Some (JString b) \<Rightarrow> ok_or (parse_behavior b) (UnknownBehavior b)
        | Some _ \<Rightarrow> Inl (BadField ''behavior'')
        | None \<Rightarrow> Inl MissingBehavior) (\<lambda>b.
     and_then (take_either m ''updated_input'' ''updatedInput'') (\<lambda>input.
     and_then (take_either m ''updated_permissions'' ''updatedPermissions'') (\<lambda>rules.
     and_then
       (case rules of
          None \<Rightarrow> Inr None
        | Some (JArray []) \<Rightarrow> Inr None
        | Some (JArray (r # rs)) \<Rightarrow> Inr (Some (json_text (JArray (r # rs))))
        | Some _ \<Rightarrow> Inl (BadField ''updated_permissions'')) (\<lambda>permissions.
     and_then
       (case map_of m ''message'' of
          None \<Rightarrow> Inr None
        | Some JNull \<Rightarrow> Inr None
        | Some (JString s) \<Rightarrow> Inr (Some s)
        | Some _ \<Rightarrow> Inl (BadField ''message'')) (\<lambda>message.
     Inr ((new_response b)
            \<lparr>updated_input := map_option json_text input,
             updated_permissions := permissions,
             bp_message := message\<rparr>)))))))"

subsection \<open>Control requests\<close>

datatype control_subtype =
    Initialize | SetModel | SetMaxThinkingTokens | SetPermissionMode | Interrupt
  | OtherSubtype string

definition control_subtype_parse :: "string \<Rightarrow> control_subtype" where
  "control_subtype_parse w =
     (if w = ''initialize'' then Initialize
      else if w = ''set_model'' then SetModel
      else if w = ''set_max_thinking_tokens'' then SetMaxThinkingTokens
      else if w = ''set_permission_mode'' then SetPermissionMode
      else if w = ''interrupt'' then Interrupt
      else OtherSubtype w)"

definition wire_name :: "control_subtype \<Rightarrow> string" where
  "wire_name s =
     (case s of
        Initialize \<Rightarrow> ''initialize''
      | SetModel \<Rightarrow> ''set_model''
      | SetMaxThinkingTokens \<Rightarrow> ''set_max_thinking_tokens''
      | SetPermissionMode \<Rightarrow> ''set_permission_mode''
      | Interrupt \<Rightarrow> ''interrupt''
      | OtherSubtype name \<Rightarrow> name)"

definition needs_verdict :: "control_subtype \<Rightarrow> bool" where
  "needs_verdict s \<longleftrightarrow>
     s = SetModel \<or> s = SetMaxThinkingTokens \<or> s = SetPermissionMode \<or> s = Interrupt"

datatype control_effect = Now | NextTurn

datatype control_verdict = Applied control_effect | Rejected string

record control_plan_input =
  in_request_id :: string
  in_subtype :: control_subtype
  outbound_only :: bool
  in_verdict :: "control_verdict option"
  in_pid :: "32 word"

definition OUTBOUND_ONLY_ERROR :: string where
  "OUTBOUND_ONLY_ERROR =
     ''This session is outbound-only. Enable Remote Control locally to allow inbound control.''"

definition unsupported_control_error :: "string \<Rightarrow> string" where
  "unsupported_control_error subtype = subtype @ '' is not supported by this bridge''"

record initialize_response_body =
  body_commands :: "string list"
  output_style :: string
  available_output_styles :: "string list"
  body_models :: "string list"
  body_pid :: "32 word"

definition new_initialize_body :: "32 word \<Rightarrow> initialize_response_body" where
  "new_initialize_body pid =
     \<lparr>body_commands = [], output_style = ''normal'', available_output_styles = [''normal''],
      body_models = [], body_pid = pid\<rparr>"

datatype control_response_plan =
    SuccessApplied string control_effect
  | SuccessInitialize string initialize_response_body
  | ControlError string string

definition outcome_label :: "control_response_plan \<Rightarrow> string" where
  "outcome_label p = (case p of ControlError _ _ \<Rightarrow> ''error'' | _ \<Rightarrow> ''success'')"

definition plan_server_control_response :: "control_plan_input \<Rightarrow> control_response_plan" where
  "plan_server_control_response i =
     (let rid = in_request_id i
      in if outbound_only i \<and> in_subtype i \<noteq> Initialize then ControlError rid OUTBOUND_ONLY_ERROR
         else case in_subtype i of
           Initialize \<Rightarrow> SuccessInitialize rid (new_initialize_body (in_pid i))
         | OtherSubtype name \<Rightarrow>
             ControlError rid (''REPL bridge does not handle control_request subtype: '' @ name)
         | changing \<Rightarrow>
             (case in_verdict i of
                Some (Applied e) \<Rightarrow> SuccessApplied rid e
              | Some (Rejected e) \<Rightarrow> ControlError rid e
              | None \<Rightarrow> ControlError rid (unsupported_control_error (wire_name changing))))"

text \<open>The body of a \<open>control_response\<close> frame, and reading the effect back out of it.\<close>

definition effect_json :: "control_effect \<Rightarrow> json" where
  "effect_json e = JObject [(''applies'', JString (case e of Now \<Rightarrow> ''now'' | NextTurn \<Rightarrow> ''next_turn''))]"

definition initialize_json :: "initialize_response_body \<Rightarrow> json" where
  "initialize_json b =
     JObject [(''commands'', JArray (map JString (body_commands b))),
       (''output_style'', JString (output_style b)),
       (''available_output_styles'', JArray (map JString (available_output_styles b))),
       (''models'', JArray (map JString (body_models b))),
       (''pid'', JNumber (int (unat (body_pid b))))]"

definition control_response_of_plan :: "control_response_plan \<Rightarrow> control_response_body" where
  "control_response_of_plan p =
     (case p of
        SuccessApplied rid e \<Rightarrow> response_success rid (Some (effect_json e))
      | SuccessInitialize rid b \<Rightarrow> response_success rid (Some (initialize_json b))
      | ControlError rid e \<Rightarrow> response_error rid e)"

definition dec_applied :: "json \<Rightarrow> control_effect option" where
  "dec_applied v =
     Option.bind (as_object v) (\<lambda>m.
     Option.bind (Option.bind (map_of m ''applies'') as_str) (\<lambda>w.
     if w = ''now'' then Some Now else if w = ''next_turn'' then Some NextTurn else None))"

definition applied :: "control_response_body \<Rightarrow> control_effect option" where
  "applied r =
     (if cr_subtype r \<noteq> ''success'' then None
      else case cr_response r of None \<Rightarrow> None | Some body \<Rightarrow> dec_applied body)"

subsection \<open>Lemmas\<close>

lemma option_parse_as_str [simp]: "option_parse (option_as_str p) = Some p"
  by (cases p) (simp_all add: option_parse_def option_as_str_def ALL_OPTIONS_def)

lemma control_subtype_parse_wire_name: "needs_verdict s \<Longrightarrow> control_subtype_parse (wire_name s) = s"
  by (auto simp: needs_verdict_def wire_name_def control_subtype_parse_def)

text \<open>A decision that is taken allows exactly when the controller said so, and leaves a rule
  behind only where the policy lets it and the controller asked for one.\<close>

lemma map_remote_decision_Inr:
  assumes "map_remote_decision d policy = Inr a"
  shows "option_allows (answer_option a) \<longleftrightarrow> behavior d = BehaviorAllow"
    and "option_persists (answer_option a) \<longleftrightarrow> updated_permissions d \<noteq> None"
    and "option_persists (answer_option a) \<longrightarrow> allow_persistent_rules policy"
    and "answer_input a = updated_input d"
    and "answer_input a \<noteq> None \<longrightarrow> allow_updated_input policy \<and> behavior d = BehaviorAllow"
  using assms
  by (cases "behavior d";
      auto simp: map_remote_decision_def option_allows_def option_persists_def Let_def split: if_splits)+

lemma one_shot_answer:
  assumes "map_remote_decision d one_shot = Inr a"
  shows "answer_option a = (if behavior d = BehaviorAllow then AllowOnce else RejectOnce)"
    and "answer_input a = None" and "updated_permissions d = None" and "updated_input d = None"
  using assms by (auto simp: map_remote_decision_def one_shot_def Let_def split: if_splits)

lemma parse_remote_decision_behavior:
  assumes "parse_remote_decision json_text v = Inr d"
  shows "get_str ''behavior'' v = Some (if behavior d = BehaviorAllow then ''allow'' else ''deny'')"
proof -
  let ?word = "\<lambda>m. case map_of m ''behavior'' of
          Some (JString b) \<Rightarrow> ok_or (parse_behavior b) (UnknownBehavior b)
        | Some _ \<Rightarrow> Inl (BadField ''behavior'')
        | None \<Rightarrow> Inl MissingBehavior"
  obtain m b u p t where m: "ok_or (as_object v) NotAnObject = Inr m" and b: "?word m = Inr b"
    and d: "Inr ((new_response b)\<lparr>updated_input := u, updated_permissions := p, bp_message := t\<rparr>) =
      (Inr d :: remote_decision_parse_error + _)"
    using assms unfolding parse_remote_decision_def and_then_Inr by blast
  from m have v: "v = JObject m" by (cases v) (auto simp: as_object_def)
  from d have "behavior d = b" by (auto simp: new_response_def)
  moreover have "map_of m ''behavior'' = Some (JString (if b = BehaviorAllow then ''allow'' else ''deny''))"
    using b by (auto simp: parse_behavior_def ok_or_def split: option.splits json.splits if_splits)
  ultimately show ?thesis by (simp add: v get_str_def json_get_def as_str_def)
qed

lemma control_success_iff:
  "outcome_label (plan_server_control_response i) = ''success'' \<longleftrightarrow>
     in_subtype i = Initialize \<or>
     (needs_verdict (in_subtype i) \<and> \<not> outbound_only i \<and> (\<exists>e. in_verdict i = Some (Applied e)))"
  by (auto simp: outcome_label_def plan_server_control_response_def needs_verdict_def Let_def
      split: control_subtype.splits option.splits control_verdict.splits)

lemma dec_applied_effect [simp]: "dec_applied (effect_json e) = Some e"
  by (cases e) (simp_all add: dec_applied_def effect_json_def as_str_def)

lemma dec_applied_initialize [simp]: "dec_applied (initialize_json b) = None"
  by (simp add: dec_applied_def initialize_json_def)

lemma applied_of_plan:
  "applied (control_response_of_plan p) = (case p of SuccessApplied _ e \<Rightarrow> Some e | _ \<Rightarrow> None)"
  by (cases p) (simp_all add: applied_def control_response_of_plan_def response_success_def response_error_def)

end
