(* ===== verification/Session_Host.thy ===== *)
theory Session_Host
  imports Json_Value "HOL-Library.Word"
begin

text \<open>
  What the session host tells a client about a session, from \<open>crates/rebon-session-host\<close>: the
  permission prompt an owner is parked on (\<open>state.rs\<close>), the questions inside one and the answers
  to them (\<open>legacy_foreground.rs\<close>), status snapshots and stream events (\<open>protocol.rs\<close>). Of a status
  snapshot the model holds the fields its readers here look at.
\<close>

subsection \<open>Permission prompts\<close>

datatype permission_option_kind = KindAllowOnce | KindAllowAlways | KindRejectOnce | KindRejectAlways

record prompt_option =
  po_option_id :: string
  po_label :: string
  po_kind :: string

definition parse_permission_option_kind :: "string \<Rightarrow> permission_option_kind option" where
  "parse_permission_option_kind k =
     (if k \<in> {''AllowOnce'', ''allow_once''} then Some KindAllowOnce
      else if k \<in> {''AllowAlways'', ''allow_always''} then Some KindAllowAlways
      else if k \<in> {''RejectOnce'', ''reject_once''} then Some KindRejectOnce
      else if k \<in> {''RejectAlways'', ''reject_always''} then Some KindRejectAlways
      else None)"

record ipc_endpoint =
  ep_pid :: "32 word"
  ep_port :: "16 word"
  ep_token :: string

record permission_query =
  query_id :: "64 word"
  query_turn :: "64 word"
  query_endpoint :: "ipc_endpoint option"
  query_tool :: "string option"
  query_tool_call :: "string option"
  query_session :: "string option"
  query_title :: "string option"
  query_message :: "string option"
  query_input :: "json option"
  query_metadata :: "json option"
  query_options :: "prompt_option list"

subsection \<open>Questions\<close>

record question_option =
  qo_label :: string
  qo_description :: string
  qo_preview :: "string option"

record question =
  q_header :: string
  q_question :: string
  multi_select :: bool
  q_options :: "question_option list"

record host_answer =
  fa_selected :: "nat list"
  fa_other :: "string option"

definition question_option_of :: "json \<Rightarrow> question_option option" where
  "question_option_of v =
     Option.bind (get_str ''label'' v) (\<lambda>l.
     Option.bind (get_str ''description'' v) (\<lambda>d.
     Option.bind
       (case json_get ''preview'' v of
          None \<Rightarrow> Some None
        | Some JNull \<Rightarrow> Some None
        | Some p \<Rightarrow> map_option Some (as_str p)) (\<lambda>p.
     Some \<lparr>qo_label = l, qo_description = d, qo_preview = p\<rparr>)))"

definition question_of :: "json \<Rightarrow> question option" where
  "question_of v =
     Option.bind (Option.bind (json_get ''options'' v) as_array) (\<lambda>opts.
     if \<not> (2 \<le> length opts \<and> length opts \<le> 4) then None
     else
       Option.bind (those (map question_option_of opts)) (\<lambda>options.
       Option.bind (get_str ''header'' v) (\<lambda>h.
       Option.bind (get_str ''question'' v) (\<lambda>q.
       Option.bind
         (case json_get ''multiSelect'' v of
            None \<Rightarrow> Some False
          | Some JNull \<Rightarrow> Some False
          | Some m \<Rightarrow> as_bool m) (\<lambda>m.
       Some \<lparr>q_header = h, q_question = q, multi_select = m, q_options = options\<rparr>)))))"

definition ask_user_questions_from_permission :: "permission_query \<Rightarrow> question list option" where
  "ask_user_questions_from_permission p =
     (if query_tool p \<noteq> Some ''AskUserQuestion'' then None
      else
        Option.bind (Option.bind (Option.bind (query_input p) (json_get ''questions'')) as_array) (\<lambda>qs.
        if \<not> (1 \<le> length qs \<and> length qs \<le> 4) then None
        else those (map question_of qs)))"

text \<open>The checks of one answer, and the entries it adds to the updated tool input.\<close>

fun adjacent_equal :: "nat list \<Rightarrow> bool" where
  "adjacent_equal (a # b # xs) \<longleftrightarrow> a = b \<or> adjacent_equal (b # xs)"
| "adjacent_equal _ \<longleftrightarrow> False"

definition answer_question ::
  "question \<Rightarrow> host_answer \<Rightarrow> string + (string \<times> (string \<times> json) list)" where
  "answer_question q a =
     (let selected = sort (fa_selected a);
          other = trim (case fa_other a of Some t \<Rightarrow> t | None \<Rightarrow> [])
      in if adjacent_equal selected then Inl ''question answer contains duplicate option indices''
         else if \<not> multi_select q \<and> length selected > 1 then
           Inl ''single-select question cannot select multiple options''
         else if list_ex (\<lambda>i. length (q_options q) \<le> i) selected then
           Inl ''question answer contains an out-of-range option index''
         else if selected = [] \<and> other = [] then
           Inl ''question answer must select an option or provide other text''
         else
           let labels = map (\<lambda>i. qo_label (q_options q ! i)) selected
           in Inr
             (if labels = [] then other
              else if multi_select q then join '', '' labels
              else hd labels,
              (if multi_select q then []
               else case selected of
                 [] \<Rightarrow> []
               | i # _ \<Rightarrow>
                   (case qo_preview (q_options q ! i) of
                      Some p \<Rightarrow> [(''preview'', JString p)]
                    | None \<Rightarrow> [])) @
              (if labels \<noteq> [] \<and> other \<noteq> [] then [(''notes'', JString other)] else [])))"

fun answer_maps ::
  "(question \<times> host_answer) list \<Rightarrow> (string \<times> json) list \<Rightarrow> (string \<times> json) list \<Rightarrow>
     string + ((string \<times> json) list \<times> (string \<times> json) list)" where
  "answer_maps [] answers annotations = Inr (answers, annotations)"
| "answer_maps ((q, a) # qas) answers annotations =
     and_then (answer_question q a) (\<lambda>(text, annotation).
       answer_maps qas (insert_entry (q_question q) (JString text) answers)
         (if annotation = [] then annotations
          else insert_entry (q_question q) (JObject annotation) annotations))"

definition build_ask_user_question_updated_input ::
  "permission_query \<Rightarrow> host_answer list \<Rightarrow> string + json" where
  "build_ask_user_question_updated_input p answers =
     and_then (ok_or (ask_user_questions_from_permission p)
       ''permission query is not a valid AskUserQuestion prompt'') (\<lambda>questions.
     if length questions \<noteq> length answers then
       Inl (''question answer count '' @ decimal (length answers) @
            '' does not match prompt count '' @ decimal (length questions))
     else
       and_then (ok_or (query_input p) ''AskUserQuestion prompt has no tool input'') (\<lambda>input.
       and_then (answer_maps (zip questions answers) [] []) (\<lambda>(answer_map, annotations_map).
       if \<not> is_object input then Inl ''AskUserQuestion tool input must be an object''
       else
         let input = json_insert ''answers'' (JObject answer_map) input
         in Inr (if annotations_map = [] then input
                 else json_insert ''annotations'' (JObject annotations_map) input))))"

subsection \<open>Status and events\<close>

datatype job_status =
    JobQueued | JobRunning | JobNeedsInput | JobIdle | JobSucceeded | JobFailed | JobStopped

text \<open>Of \<open>SessionStatusSnapshot\<close> the fields that say what the session is doing; the others (model, mode,
  usage, leases) are shown to clients and decide nothing here.\<close>

record status_snapshot =
  snap_status :: job_status
  busy :: bool
  pending_permission :: "permission_query option"
  ask_user_questions :: "question list option"
  last_command_error :: "string option"

datatype turn_state = TurnRunning | TurnIdle

text \<open>Of the events the model keeps the fields the runner reads (not the turn generation of a hello and the
  stop reason of a turn); a gap spans a range.\<close>

datatype session_event =
    Hello "64 word" status_snapshot "64 word"
  | SessionUpdate "64 word" json
  | Turn "64 word" turn_state "string option"
  | Status "64 word" status_snapshot
  | PermissionEvent "64 word" permission_query
  | Gap "64 word" "64 word"

definition event_cursor :: "session_event \<Rightarrow> 64 word option" where
  "event_cursor e =
     (case e of
        Hello c _ _ \<Rightarrow> Some c
      | SessionUpdate c _ \<Rightarrow> Some c
      | Turn c _ _ \<Rightarrow> Some c
      | Status c _ \<Rightarrow> Some c
      | PermissionEvent c _ \<Rightarrow> Some c
      | Gap _ _ \<Rightarrow> None)"

subsection \<open>What an accepted answer is\<close>

lemma adjacent_equal_sorted: "sorted xs \<Longrightarrow> adjacent_equal xs \<longleftrightarrow> \<not> distinct xs"
proof (induction xs rule: adjacent_equal.induct)
  case (1 a b xs)
  then show ?case by (auto simp: order_antisym)
qed auto

definition answer_fits :: "question \<Rightarrow> host_answer \<Rightarrow> bool" where
  "answer_fits q a \<longleftrightarrow>
     distinct (fa_selected a) \<and> (\<forall>i \<in> set (fa_selected a). i < length (q_options q)) \<and>
     (multi_select q \<or> length (fa_selected a) \<le> 1) \<and>
     (fa_selected a \<noteq> [] \<or> trim (case fa_other a of Some t \<Rightarrow> t | None \<Rightarrow> []) \<noteq> [])"

lemma answer_question_iff: "(\<exists>r. answer_question q a = Inr r) \<longleftrightarrow> answer_fits q a"
proof -
  let ?s = "sort (fa_selected a)"
  have adj: "adjacent_equal ?s \<longleftrightarrow> \<not> distinct (fa_selected a)" by (simp add: adjacent_equal_sorted)
  have range: "list_ex (\<lambda>i. length (q_options q) \<le> i) ?s \<longleftrightarrow>
      \<not> (\<forall>i \<in> set (fa_selected a). i < length (q_options q))"
    by (simp add: list_ex_iff) (metis not_le)
  have empty: "?s = [] \<longleftrightarrow> fa_selected a = []" by (metis length_0_conv length_sort)
  show ?thesis
    unfolding answer_question_def Let_def adj range empty answer_fits_def
    by (simp add: not_le)
qed

lemma answer_maps_iff:
  "(\<exists>r. answer_maps qas m n = Inr r) \<longleftrightarrow> (\<forall>(q, a) \<in> set qas. answer_fits q a)"
proof (induction qas m n rule: answer_maps.induct)
  case (2 q a qas m n)
  show ?case
  proof (cases "answer_question q a")
    case (Inl e)
    then have "\<not> answer_fits q a" using answer_question_iff [of q a] by auto
    then show ?thesis by (auto simp: Inl)
  next
    case (Inr r)
    obtain t ann where "r = (t, ann)" by (cases r)
    moreover have "answer_fits q a" using answer_question_iff [of q a] Inr by auto
    ultimately show ?thesis using 2 by (simp add: Inr)
  qed
qed simp

lemma question_of_shape: "question_of v = Some q \<Longrightarrow> 2 \<le> length (q_options q) \<and> length (q_options q) \<le> 4"
proof -
  have "those xs = Some ys \<Longrightarrow> length ys = length xs" for xs :: "question_option option list" and ys
    by (induction xs arbitrary: ys) (auto split: option.splits)
  then show "question_of v = Some q \<Longrightarrow> 2 \<le> length (q_options q) \<and> length (q_options q) \<le> 4"
    by (fastforce simp: question_of_def bind_eq_Some_conv split: if_splits)
qed

lemma questions_need_object:
  "ask_user_questions_from_permission p = Some qs \<Longrightarrow> \<exists>i. query_input p = Some i \<and> is_object i"
  by (auto simp: ask_user_questions_from_permission_def bind_eq_Some_conv json_get_def is_object_def
      split: if_splits json.splits)

text \<open>The answers to a question prompt are taken exactly when there is one per question and each
  fits its question.\<close>

lemma question_answers_accepted_iff:
  "(\<exists>i. build_ask_user_question_updated_input p answers = Inr i) \<longleftrightarrow>
     (\<exists>qs. ask_user_questions_from_permission p = Some qs \<and> list_all2 answer_fits qs answers)"
proof (cases "ask_user_questions_from_permission p")
  case None
  then show ?thesis by (simp add: build_ask_user_question_updated_input_def)
next
  case (Some qs)
  obtain input where input: "query_input p = Some input" "is_object input"
    using questions_need_object [OF Some] by blast
  have zip: "list_all2 answer_fits qs answers \<longleftrightarrow>
      length qs = length answers \<and> (\<forall>(q, a) \<in> set (zip qs answers). answer_fits q a)"
    by (auto simp: list_all2_iff)
  show ?thesis
  proof (cases "length qs = length answers")
    case False
    then show ?thesis using zip Some by (simp add: build_ask_user_question_updated_input_def)
  next
    case True
    then show ?thesis
      using answer_maps_iff [of "zip qs answers" "[]" "[]"] zip Some input
      by (cases "answer_maps (zip qs answers) [] []")
        (auto simp: build_ask_user_question_updated_input_def Let_def)
  qed
qed

end
