(* ===== verification/Rc_Downlink.thy ===== *)
theory Rc_Downlink
  imports Remote_Permission Session_Host
begin

text \<open>
  \<open>crates/rebon-rc-runner/src/core/downlink.rs\<close>: what the runner of a remote-control session does
  with a controller's frame, and what it answers; with the two callers that put it to work,
  \<open>inbound\<close>, \<open>answer\<close> and \<open>control_verdict\<close> of \<open>session.rs\<close> and \<open>answer_permission\<close>,
  \<open>answer_question\<close> of \<open>host.rs\<close>.

  The digest that makes a prompt's request id (\<open>ids.rs\<close>) is the parameter \<open>digest\<close>, the text a JSON
  value is kept as the parameter \<open>json_text\<close>. The process that owns the session is the record
  \<open>session_port\<close> of its answers; an operation returns the calls it makes on the owner beside its
  result. An error of the host is its text.
\<close>

type_synonym prompt_digest = "64 word \<times> 64 word \<times> ipc_endpoint option \<Rightarrow> string"

definition permission_request_id :: "prompt_digest \<Rightarrow> permission_query \<Rightarrow> string" where
  "permission_request_id digest q =
     ''perm-'' @ digest (query_id q, query_turn q, query_endpoint q)"

subsection \<open>Reading a frame\<close>

record image_attachment =
  image_id :: "32 word"
  image_data :: string
  media_type :: string
  filename :: "string option"

record permission_command =
  pc_request_id :: string
  pc_decision :: "string + remote_permission_answer"

record question_command =
  qc_request_id :: string
  qc_answers :: "string + host_answer list"

datatype control_command =
    CmdInitialize string
  | CmdSetModel string "string option"
  | CmdSetMaxThinkingTokens string
  | CmdSetPermissionMode string "string option"
  | CmdInterrupt string
  | CmdUnsupported string string

fun command_request_id :: "control_command \<Rightarrow> string" where
  "command_request_id (CmdInitialize rid) = rid"
| "command_request_id (CmdSetModel rid _) = rid"
| "command_request_id (CmdSetMaxThinkingTokens rid) = rid"
| "command_request_id (CmdSetPermissionMode rid _) = rid"
| "command_request_id (CmdInterrupt rid) = rid"
| "command_request_id (CmdUnsupported rid _) = rid"

fun command_subtype :: "control_command \<Rightarrow> control_subtype" where
  "command_subtype (CmdInitialize _) = Initialize"
| "command_subtype (CmdSetModel _ _) = SetModel"
| "command_subtype (CmdSetMaxThinkingTokens _) = SetMaxThinkingTokens"
| "command_subtype (CmdSetPermissionMode _ _) = SetPermissionMode"
| "command_subtype (CmdInterrupt _) = Interrupt"
| "command_subtype (CmdUnsupported _ s) = OtherSubtype s"

datatype inbound_action =
    InPrompt string "image_attachment list" nat
  | InCancel
  | InPermission permission_command
  | InQuestion question_command
  | InControl control_command
  | InIgnored string

definition image_attachment_of :: "json \<Rightarrow> nat \<Rightarrow> image_attachment option" where
  "image_attachment_of block index =
     (if get_str ''type'' block \<noteq> Some ''image'' then None
      else
        Option.bind (get_str ''data'' block) (\<lambda>data.
        Option.bind
          (Option.bind
            (case json_get ''mimeType'' block of Some v \<Rightarrow> Some v | None \<Rightarrow> json_get ''mediaType'' block)
            as_str) (\<lambda>mt.
        Some \<lparr>image_id = (if index + 1 < 2 ^ 32 then of_nat (index + 1) else - 1),
              image_data = data,
              media_type = mt,
              filename = get_str ''name'' block\<rparr>)))"

fun collect_images ::
  "json list \<Rightarrow> image_attachment list \<Rightarrow> nat \<Rightarrow> image_attachment list \<times> nat" where
  "collect_images [] images skipped = (images, skipped)"
| "collect_images (a # as) images skipped =
     (case image_attachment_of a (length images) of
        Some i \<Rightarrow> collect_images as (images @ [i]) skipped
      | None \<Rightarrow> collect_images as images (skipped + 1))"

definition parse_error_text :: "remote_decision_parse_error \<Rightarrow> string" where
  "parse_error_text e =
     (case e of
        NotAnObject \<Rightarrow> ''a permission decision must be an object''
      | MissingBehavior \<Rightarrow> ''a permission decision needs a behavior''
      | UnknownBehavior b \<Rightarrow> ''unknown permission behavior '' @ debug_str b
      | BadField f \<Rightarrow> ''`'' @ f @ ''` has the wrong type''
      | ConflictingSpellings f \<Rightarrow> ''`'' @ f @ ''` is given under two spellings'')"

definition permission_command_of ::
  "(json \<Rightarrow> string) \<Rightarrow> permission_response_body \<Rightarrow> remote_permission_policy \<Rightarrow> permission_command" where
  "permission_command_of json_text r policy =
     \<lparr>pc_request_id = pr_request_id r,
      pc_decision =
        (if pr_subtype r \<noteq> ''success'' then
           Inl (''a `'' @ pr_subtype r @ ''` permission response carries no decision'')
         else
           and_then (map_err parse_error_text (parse_remote_decision json_text (pr_response r))) (\<lambda>d.
           map_err refusal_text (map_remote_decision d policy)))\<rparr>"

definition question_command_of :: "string \<Rightarrow> question_answer list \<Rightarrow> question_command" where
  "question_command_of rid answers =
     \<lparr>qc_request_id = rid,
      qc_answers =
        (if answers = [] then Inl ''a question response needs one answer per question''
         else Inr (map (\<lambda>a. \<lparr>fa_selected = selected_options a, fa_other = other_text a\<rparr>) answers))\<rparr>"

definition param_text :: "json \<Rightarrow> string \<Rightarrow> string option" where
  "param_text params key =
     (case map_option trim (get_str key params) of
        Some v \<Rightarrow> if v \<noteq> [] then Some v else None
      | None \<Rightarrow> None)"

definition control_command_of :: "string \<Rightarrow> string \<Rightarrow> json \<Rightarrow> control_command" where
  "control_command_of rid subtype params =
     (case control_subtype_parse subtype of
        Initialize \<Rightarrow> CmdInitialize rid
      | SetModel \<Rightarrow> CmdSetModel rid (param_text params ''model'')
      | SetMaxThinkingTokens \<Rightarrow> CmdSetMaxThinkingTokens rid
      | SetPermissionMode \<Rightarrow>
          CmdSetPermissionMode rid
            (case param_text params ''mode'' of
               Some m \<Rightarrow> Some m
             | None \<Rightarrow> param_text params ''permission_mode'')
      | Interrupt \<Rightarrow> CmdInterrupt rid
      | OtherSubtype s \<Rightarrow> CmdUnsupported rid s)"

definition classify ::
  "(json \<Rightarrow> string) \<Rightarrow> session_frame \<Rightarrow> remote_permission_policy \<Rightarrow> inbound_action" where
  "classify json_text f policy =
     (case f of
        Prompt text attachments \<Rightarrow>
          (let (images, skipped) = collect_images attachments [] 0 in InPrompt text images skipped)
      | CancelFrame \<Rightarrow> InCancel
      | PermissionResponse r \<Rightarrow> InPermission (permission_command_of json_text r policy)
      | QuestionResponse rid answers \<Rightarrow> InQuestion (question_command_of rid answers)
      | ControlRequest rid subtype params \<Rightarrow> InControl (control_command_of rid subtype params)
      | StreamError _ _ _ _ \<Rightarrow> InIgnored ''the server could not route a frame''
      | SessionMessage _ _ \<Rightarrow> InIgnored ''a worker frame''
      | SessionState _ _ \<Rightarrow> InIgnored ''a worker frame''
      | PermissionRequest _ _ \<Rightarrow> InIgnored ''a worker frame''
      | ControlResponse _ \<Rightarrow> InIgnored ''a worker frame''
      | SessionBound _ \<Rightarrow> InIgnored ''a worker frame''
      | OtherFrame _ \<Rightarrow> InIgnored ''a frame type this build does not know'')"

subsection \<open>Answering\<close>

definition control_response :: "control_command \<Rightarrow> control_verdict option \<Rightarrow> 32 word \<Rightarrow> session_frame" where
  "control_response command v pid =
     ControlResponse (control_response_of_plan (plan_server_control_response
       \<lparr>in_request_id = command_request_id command, in_subtype = command_subtype command,
        outbound_only = False, in_verdict = v, in_pid = pid\<rparr>))"

datatype applies_from = Immediately | AtNextTurn | AtNextSession

definition option_verdict :: "applies_from \<Rightarrow> control_verdict" where
  "option_verdict a = Applied (case a of Immediately \<Rightarrow> Now | AtNextTurn \<Rightarrow> NextTurn | AtNextSession \<Rightarrow> NextTurn)"

definition interrupt_verdict :: "string + bool \<Rightarrow> control_verdict" where
  "interrupt_verdict r = (case r of Inr _ \<Rightarrow> Applied Now | Inl e \<Rightarrow> Rejected e)"

definition missing_parameter :: "string \<Rightarrow> string \<Rightarrow> control_verdict" where
  "missing_parameter subtype key = Rejected (subtype @ '' needs params.'' @ key)"

definition permission_refusal :: "string \<Rightarrow> string \<Rightarrow> session_frame" where
  "permission_refusal rid why = ControlResponse (response_error rid why)"

datatype answer_plan =
    NotPendingPlan
  | PermissionPlan "64 word" "string option"
  | QuestionsPlan "64 word" "64 word"

definition named ::
  "prompt_digest \<Rightarrow> permission_query option \<Rightarrow> string \<Rightarrow> permission_query option" where
  "named digest pending rid =
     (case pending of
        Some q \<Rightarrow> if permission_request_id digest q = rid then Some q else None
      | None \<Rightarrow> None)"

definition option_for :: "permission_query \<Rightarrow> rebon_permission_option \<Rightarrow> string + string" where
  "option_for q answer =
     and_then
       (case answer of
          AllowOnce \<Rightarrow> Inr KindAllowOnce
        | AllowAlways \<Rightarrow> Inr KindAllowAlways
        | RejectOnce \<Rightarrow> Inr KindRejectOnce
        | AllowAlwaysGeneralized \<Rightarrow> Inl ''a generalized rule cannot be granted remotely'') (\<lambda>wanted.
     ok_or
       (map_option po_option_id
         (find (\<lambda>p. parse_permission_option_kind (po_kind p) = Some wanted) (query_options q)))
       (''this prompt offers no `'' @ option_as_str answer @ ''` option''))"

definition plan_permission_answer ::
  "prompt_digest \<Rightarrow> permission_query option \<Rightarrow> string \<Rightarrow> rebon_permission_option \<Rightarrow> string + answer_plan" where
  "plan_permission_answer digest pending rid answer =
     (case named digest pending rid of
        None \<Rightarrow> Inr NotPendingPlan
      | Some q \<Rightarrow>
          if ask_user_questions_from_permission q \<noteq> None then
            (if answer \<noteq> RejectOnce then
               Inl ''this prompt is a question; answer it with question_response, or deny it''
             else Inr (PermissionPlan (query_id q)
                    (case option_for q RejectOnce of Inr oid \<Rightarrow> Some oid | Inl _ \<Rightarrow> None)))
          else
            and_then (option_for q answer) (\<lambda>oid. Inr (PermissionPlan (query_id q) (Some oid))))"

definition plan_question_answer ::
  "prompt_digest \<Rightarrow> permission_query option \<Rightarrow> string \<Rightarrow> host_answer list \<Rightarrow> string + answer_plan" where
  "plan_question_answer digest pending rid answers =
     (case named digest pending rid of
        None \<Rightarrow> Inr NotPendingPlan
      | Some q \<Rightarrow>
          if ask_user_questions_from_permission q = None then
            Inl ''this prompt is a permission request, not a question; answer it with permission_response''
          else
            and_then
              (map_err (\<lambda>e. ''the answers do not fit the questions: '' @ e)
                (build_ask_user_question_updated_input q answers)) (\<lambda>_.
            Inr (QuestionsPlan (query_id q) (query_turn q))))"

subsection \<open>The owner of the session\<close>

datatype permission_outcome = OutcomeApplied | OutcomeAlreadyResolved

datatype host_call_error = StaleGeneration | HostCallFailed string

record session_port =
  port_status :: "string + permission_query option"
  port_answer_permission :: "64 word \<Rightarrow> string option \<Rightarrow> string + permission_outcome"
  port_answer_questions :: "64 word \<Rightarrow> 64 word \<Rightarrow> host_answer list \<Rightarrow> host_call_error + unit"
  port_set_model :: "string \<Rightarrow> string + applies_from"
  port_set_permission_mode :: "string \<Rightarrow> string + unit"
  port_cancel_turn :: "string + bool"

datatype owner_call =
    CallPrompt string "image_attachment list"
  | CallCancelTurn
  | CallAnswerPermission "64 word" "string option"
  | CallAnswerQuestions "64 word" "64 word" "host_answer list"
  | CallSetModel string
  | CallSetPermissionMode string

datatype answer_outcome = AnswerApplied | AnswerNotPending

definition host_answer_permission ::
  "prompt_digest \<Rightarrow> session_port \<Rightarrow> string \<Rightarrow> rebon_permission_option \<Rightarrow>
     (string + answer_outcome) \<times> owner_call list" where
  "host_answer_permission digest port rid choice =
     try_in [] (port_status port) (\<lambda>pending.
     try_in [] (plan_permission_answer digest pending rid choice) (\<lambda>plan.
     case plan of
       PermissionPlan qid oid \<Rightarrow>
         (and_then (port_answer_permission port qid oid) (\<lambda>r.
            Inr (case r of OutcomeApplied \<Rightarrow> AnswerApplied | OutcomeAlreadyResolved \<Rightarrow> AnswerNotPending)),
          [CallAnswerPermission qid oid])
     | _ \<Rightarrow> (Inr AnswerNotPending, [])))"

definition host_answer_question ::
  "prompt_digest \<Rightarrow> (host_call_error \<Rightarrow> string) \<Rightarrow> session_port \<Rightarrow> string \<Rightarrow> host_answer list \<Rightarrow>
     (string + answer_outcome) \<times> owner_call list" where
  "host_answer_question digest error_text port rid answers =
     try_in [] (port_status port) (\<lambda>pending.
     try_in [] (plan_question_answer digest pending rid answers) (\<lambda>plan.
     case plan of
       QuestionsPlan qid turn \<Rightarrow>
         (case port_answer_questions port qid turn answers of
            Inr _ \<Rightarrow> Inr AnswerApplied
          | Inl StaleGeneration \<Rightarrow> Inr AnswerNotPending
          | Inl e \<Rightarrow> Inl (error_text e),
          [CallAnswerQuestions qid turn answers])
     | _ \<Rightarrow> (Inr AnswerNotPending, [])))"

definition control_verdict_for ::
  "session_port \<Rightarrow> control_command \<Rightarrow> control_verdict option \<times> owner_call list" where
  "control_verdict_for port command =
     (case command of
        CmdInitialize _ \<Rightarrow> (None, [])
      | CmdSetMaxThinkingTokens _ \<Rightarrow> (None, [])
      | CmdUnsupported _ _ \<Rightarrow> (None, [])
      | CmdSetModel _ None \<Rightarrow> (Some (missing_parameter ''set_model'' ''model''), [])
      | CmdSetModel _ (Some m) \<Rightarrow>
          (Some (case port_set_model port m of Inr a \<Rightarrow> option_verdict a | Inl e \<Rightarrow> Rejected e),
           [CallSetModel m])
      | CmdSetPermissionMode _ None \<Rightarrow> (Some (missing_parameter ''set_permission_mode'' ''mode''), [])
      | CmdSetPermissionMode _ (Some m) \<Rightarrow>
          (Some (case port_set_permission_mode port m of Inr _ \<Rightarrow> Applied Now | Inl e \<Rightarrow> Rejected e),
           [CallSetPermissionMode m])
      | CmdInterrupt _ \<Rightarrow> (Some (interrupt_verdict (port_cancel_turn port)), [CallCancelTurn]))"

text \<open>\<open>answer\<close> and \<open>inbound\<close>: the frames to send and the calls made on the owner. \<open>local\<close> says
  whether the session is open.\<close>

definition answer_frames ::
  "string \<Rightarrow> (string + answer_outcome) \<times> owner_call list \<Rightarrow> session_frame list \<times> owner_call list" where
  "answer_frames rid outcome =
     (case fst outcome of
        Inr AnswerApplied \<Rightarrow> []
      | Inr AnswerNotPending \<Rightarrow> [permission_refusal rid ''that prompt is no longer pending'']
      | Inl e \<Rightarrow> [permission_refusal rid e],
      snd outcome)"

definition answer_prompt ::
  "bool \<Rightarrow> string \<Rightarrow> (string + answer_outcome) \<times> owner_call list \<Rightarrow>
     session_frame list \<times> owner_call list" where
  "answer_prompt local rid outcome =
     (if \<not> local then
        ([permission_refusal rid ''the session is not open on this machine yet''], [])
      else answer_frames rid outcome)"

definition runner_inbound ::
  "prompt_digest \<Rightarrow> (json \<Rightarrow> string) \<Rightarrow> (host_call_error \<Rightarrow> string) \<Rightarrow> remote_permission_policy \<Rightarrow>
     32 word \<Rightarrow> bool \<Rightarrow> session_port \<Rightarrow> session_frame \<Rightarrow> session_frame list \<times> owner_call list" where
  "runner_inbound digest json_text error_text policy pid local port f =
     (case classify json_text f policy of
        InPrompt text images _ \<Rightarrow> ([], if local then [CallPrompt text images] else [])
      | InCancel \<Rightarrow> ([], if local then [CallCancelTurn] else [])
      | InPermission command \<Rightarrow>
          (case pc_decision command of
             Inl why \<Rightarrow> ([permission_refusal (pc_request_id command) why], [])
           | Inr a \<Rightarrow> answer_prompt local (pc_request_id command)
               (host_answer_permission digest port (pc_request_id command) (answer_option a)))
      | InQuestion command \<Rightarrow>
          (case qc_answers command of
             Inl why \<Rightarrow> ([permission_refusal (qc_request_id command) why], [])
           | Inr answers \<Rightarrow> answer_prompt local (qc_request_id command)
               (host_answer_question digest error_text port (qc_request_id command) answers))
      | InControl command \<Rightarrow>
          if local then
            (let (v, calls) = control_verdict_for port command in ([control_response command v pid], calls))
          else ([], [])
      | InIgnored _ \<Rightarrow> ([], []))"

end
