(* ===== verification/Remote_Facts.thy ===== *)
theory Remote_Facts
  imports Rc_Downlink
begin

text \<open>
  What a remote controller can do to a session: its decisions land on the prompt they name, once
  and never as a standing rule, or are refused; its answers fit the questions they answer; and it
  is told of a change only when the owner made it.
\<close>

subsection \<open>Reading a decision\<close>

lemma named_Some: "named digest pending rid = Some q \<longleftrightarrow> pending = Some q \<and> permission_request_id digest q = rid"
  by (auto simp: named_def split: option.splits)

definition option_of_kind :: "permission_query \<Rightarrow> permission_option_kind \<Rightarrow> string \<Rightarrow> bool" where
  "option_of_kind q k oid \<longleftrightarrow>
     (\<exists>p \<in> set (query_options q). po_option_id p = oid \<and> parse_permission_option_kind (po_kind p) = Some k)"

lemma find_in_set: "find P xs = Some x \<Longrightarrow> x \<in> set xs \<and> P x"
  by (metis find_Some_iff nth_mem)

lemma option_for_Inr:
  "option_for q AllowOnce = Inr oid \<Longrightarrow> option_of_kind q KindAllowOnce oid"
  "option_for q RejectOnce = Inr oid \<Longrightarrow> option_of_kind q KindRejectOnce oid"
  by (auto simp: option_for_def option_of_kind_def ok_or_def dest!: find_in_set split: option.splits)

text \<open>What may be sent to the owner for a decision: an option of the prompt of the kind that was
  asked for, and nothing but a rejection when the prompt is a question.\<close>

definition decision_fits :: "permission_query \<Rightarrow> string option \<Rightarrow> string option \<Rightarrow> bool" where
  "decision_fits q word oid \<longleftrightarrow>
     (case oid of
        Some i \<Rightarrow>
          (word = Some ''allow'' \<and> ask_user_questions_from_permission q = None \<and>
             option_of_kind q KindAllowOnce i) \<or>
          (word = Some ''deny'' \<and> option_of_kind q KindRejectOnce i)
      | None \<Rightarrow> word = Some ''deny'' \<and> ask_user_questions_from_permission q \<noteq> None)"

lemma permission_decision_Inr:
  assumes "pc_decision (permission_command_of json_text r one_shot) = Inr a"
  shows "(answer_option a = AllowOnce \<and> get_str ''behavior'' (pr_response r) = Some ''allow'') \<or>
    (answer_option a = RejectOnce \<and> get_str ''behavior'' (pr_response r) = Some ''deny'')"
proof -
  obtain d where d: "parse_remote_decision json_text (pr_response r) = Inr d"
    and a: "map_remote_decision d one_shot = Inr a"
    using assms
    by (auto simp: permission_command_of_def and_then_Inr map_err_Inr split: if_splits)
  show ?thesis
    using one_shot_answer(1) [OF a] parse_remote_decision_behavior [OF d] by auto
qed

lemma plan_permission_fits:
  assumes "plan_permission_answer digest pending rid c = Inr (PermissionPlan qid oid)"
    and "(c = AllowOnce \<and> word = Some ''allow'') \<or> (c = RejectOnce \<and> word = Some ''deny'')"
  shows "\<exists>q. pending = Some q \<and> permission_request_id digest q = rid \<and> qid = query_id q \<and>
    decision_fits q word oid"
proof -
  obtain q where q: "named digest pending rid = Some q"
    using assms(1) by (auto simp: plan_permission_answer_def split: option.splits)
  then have qq: "pending = Some q" "permission_request_id digest q = rid" by (simp_all add: named_Some)
  show ?thesis
  proof (cases "ask_user_questions_from_permission q = None")
    case True
    then obtain i where "option_for q c = Inr i" "qid = query_id q" "oid = Some i"
      using assms(1) q by (auto simp: plan_permission_answer_def and_then_Inr)
    with assms(2) qq True option_for_Inr [of q i] show ?thesis
      by (auto simp: decision_fits_def)
  next
    case False
    then have "c = RejectOnce" "qid = query_id q"
      and oid: "oid = (case option_for q RejectOnce of Inr i \<Rightarrow> Some i | Inl _ \<Rightarrow> None)"
      using assms(1) q by (auto simp: plan_permission_answer_def split: if_splits)
    with assms(2) qq False option_for_Inr(2) [of q] show ?thesis
      by (cases "option_for q RejectOnce") (auto simp: decision_fits_def)
  qed
qed

subsection \<open>Decisions\<close>

definition refused :: "string \<Rightarrow> session_frame list \<Rightarrow> bool" where
  "refused rid frames \<longleftrightarrow> (\<exists>why. frames = [permission_refusal rid why])"

lemma refused_intro [simp]: "refused rid [permission_refusal rid why]"
  by (auto simp: refused_def)

lemma not_applied_refused:
  "res \<noteq> Inr AnswerApplied \<Longrightarrow> refused rid (fst (answer_frames rid (res, calls)))"
  by (auto simp: answer_frames_def split: sum.splits answer_outcome.splits)

lemma applied_silent: "fst (answer_frames rid (Inr AnswerApplied, calls)) = []"
  by (simp add: answer_frames_def)

lemma snd_answer_frames [simp]: "snd (answer_frames rid r) = snd r"
  by (simp add: answer_frames_def)

lemma outcome_applied:
  "(case r of OutcomeApplied \<Rightarrow> AnswerApplied | OutcomeAlreadyResolved \<Rightarrow> AnswerNotPending) = AnswerApplied
     \<longleftrightarrow> r = OutcomeApplied"
  "AnswerApplied = (case r of OutcomeApplied \<Rightarrow> AnswerApplied | OutcomeAlreadyResolved \<Rightarrow> AnswerNotPending)
     \<longleftrightarrow> r = OutcomeApplied"
  by (cases r; simp)+

lemma host_answer_permission_cases:
  obtains (none) res where "host_answer_permission digest port rid c = (res, [])" "res \<noteq> Inr AnswerApplied"
  | (sent) pending qid oid res where
      "port_status port = Inr pending"
      "plan_permission_answer digest pending rid c = Inr (PermissionPlan qid oid)"
      "host_answer_permission digest port rid c = (res, [CallAnswerPermission qid oid])"
      "res = Inr AnswerApplied \<longleftrightarrow> port_answer_permission port qid oid = Inr OutcomeApplied"
proof (cases "port_status port")
  case (Inl e)
  then show thesis by (intro none [of "Inl e"]) (simp_all add: host_answer_permission_def)
next
  case (Inr pending)
  show thesis
  proof (cases "plan_permission_answer digest pending rid c")
    case (Inl e)
    with Inr show thesis by (intro none [of "Inl e"]) (simp_all add: host_answer_permission_def)
  next
    case p: (Inr plan)
    show thesis
    proof (cases plan)
      case (PermissionPlan qid oid)
      show thesis
        using Inr p PermissionPlan
        by (intro sent [of pending qid oid])
          (auto simp: host_answer_permission_def and_then_Inr outcome_applied)
    qed (use Inr p in \<open>auto intro!: none [of "Inr AnswerNotPending"] simp: host_answer_permission_def\<close>)
  qed
qed

text \<open>C22. A remote decision under the one-shot policy either reaches the owner as the answer to the
  very prompt it names, with an option of that prompt of the kind that was asked for (allow once
  or reject once, never a standing rule, and never an allow on a question), or reaches nobody;
  and the controller is sent a refusal with its request id exactly when the answer did not land.\<close>

theorem remote_decision_lands_or_is_refused:
  "case runner_inbound digest json_text error_text one_shot pid local port (PermissionResponse r) of
     (frames, calls) \<Rightarrow>
       (calls = [] \<and> refused (pr_request_id r) frames) \<or>
       (\<exists>q oid. port_status port = Inr (Some q) \<and>
          permission_request_id digest q = pr_request_id r \<and>
          decision_fits q (get_str ''behavior'' (pr_response r)) oid \<and>
          calls = [CallAnswerPermission (query_id q) oid] \<and>
          (if port_answer_permission port (query_id q) oid = Inr OutcomeApplied then frames = []
           else refused (pr_request_id r) frames))"
proof -
  let ?c = "permission_command_of json_text r one_shot"
  have rid: "pc_request_id ?c = pr_request_id r" by (simp add: permission_command_of_def)
  show ?thesis
  proof (cases "pc_decision ?c")
    case (Inl why)
    then show ?thesis by (simp add: runner_inbound_def classify_def rid)
  next
    case (Inr a)
    note decision = permission_decision_Inr [OF Inr]
    show ?thesis
    proof (cases local)
      case False
      with Inr show ?thesis by (simp add: runner_inbound_def classify_def answer_prompt_def rid)
    next
      case True
      let ?h = "host_answer_permission digest port (pr_request_id r) (answer_option a)"
      have eq: "runner_inbound digest json_text error_text one_shot pid local port (PermissionResponse r) =
          answer_frames (pr_request_id r) ?h"
        using Inr True by (simp add: runner_inbound_def classify_def answer_prompt_def rid)
      show ?thesis
      proof (cases digest port "pr_request_id r" "answer_option a" rule: host_answer_permission_cases)
        case (none res)
        then show ?thesis
          unfolding eq by (auto simp: case_prod_beta not_applied_refused)
      next
        case (sent pending qid oid res)
        obtain q where q: "pending = Some q" "permission_request_id digest q = pr_request_id r"
            "qid = query_id q" "decision_fits q (get_str ''behavior'' (pr_response r)) oid"
          using plan_permission_fits [OF sent(2) decision] by blast
        with sent show ?thesis
          unfolding eq
          by (auto simp: case_prod_beta not_applied_refused applied_silent intro!: disjI2 exI [of _ q])
      qed
    qed
  qed
qed

subsection \<open>Answers to questions\<close>

definition host_answers :: "question_answer list \<Rightarrow> host_answer list" where
  "host_answers answers = map (\<lambda>a. \<lparr>fa_selected = selected_options a, fa_other = other_text a\<rparr>) answers"

lemma plan_question_fits:
  assumes "plan_question_answer digest pending rid answers = Inr (QuestionsPlan qid turn)"
  shows "\<exists>q qs. pending = Some q \<and> permission_request_id digest q = rid \<and> qid = query_id q \<and>
    turn = query_turn q \<and> ask_user_questions_from_permission q = Some qs \<and> list_all2 answer_fits qs answers"
proof -
  obtain q where q: "named digest pending rid = Some q"
    using assms by (auto simp: plan_question_answer_def split: option.splits)
  with assms have "\<exists>i. build_ask_user_question_updated_input q answers = Inr i"
    and "qid = query_id q" "turn = query_turn q"
    by (auto simp: plan_question_answer_def and_then_Inr map_err_Inr split: if_splits)
  with q show ?thesis unfolding question_answers_accepted_iff by (auto simp: named_Some)
qed

lemma plan_question_not_permission: "plan_question_answer digest pending rid answers \<noteq> Inr (PermissionPlan qid oid)"
  by (auto simp: plan_question_answer_def and_then_Inr split: option.splits)

lemma host_answer_question_cases:
  obtains (none) res where "host_answer_question digest error_text port rid answers = (res, [])"
      "res \<noteq> Inr AnswerApplied"
  | (sent) pending qid turn res where
      "port_status port = Inr pending"
      "plan_question_answer digest pending rid answers = Inr (QuestionsPlan qid turn)"
      "host_answer_question digest error_text port rid answers = (res, [CallAnswerQuestions qid turn answers])"
      "res = Inr AnswerApplied \<longleftrightarrow> port_answer_questions port qid turn answers = Inr ()"
proof (cases "port_status port")
  case (Inl e)
  then show thesis by (intro none [of "Inl e"]) (simp_all add: host_answer_question_def)
next
  case (Inr pending)
  show thesis
  proof (cases "plan_question_answer digest pending rid answers")
    case (Inl e)
    with Inr show thesis by (intro none [of "Inl e"]) (simp_all add: host_answer_question_def)
  next
    case p: (Inr plan)
    show thesis
    proof (cases plan)
      case (QuestionsPlan qid turn)
      show thesis
        using Inr p QuestionsPlan
        by (intro sent [of pending qid turn])
          (auto simp: host_answer_question_def split: sum.splits host_call_error.splits)
    qed (use Inr p in \<open>auto intro!: none [of "Inr AnswerNotPending"] simp: host_answer_question_def\<close>)
  qed
qed

text \<open>The answers of a controller to a question reach the owner only as the answers to the very
  question prompt they name, one per question, each within the options it was offered, without
  repetition, at most one where one was asked for, and never empty; otherwise nothing is sent and
  the controller is refused under its request id.\<close>

theorem remote_answers_fit_or_are_refused:
  "case runner_inbound digest json_text error_text policy pid local port (QuestionResponse rid answers) of
     (frames, calls) \<Rightarrow>
       (calls = [] \<and> refused rid frames) \<or>
       (\<exists>q qs. port_status port = Inr (Some q) \<and> permission_request_id digest q = rid \<and>
          ask_user_questions_from_permission q = Some qs \<and>
          list_all2 answer_fits qs (host_answers answers) \<and>
          calls = [CallAnswerQuestions (query_id q) (query_turn q) (host_answers answers)] \<and>
          (if port_answer_questions port (query_id q) (query_turn q) (host_answers answers) = Inr ()
           then frames = [] else refused rid frames))"
proof (cases "answers = [] \<or> \<not> local")
  case True
  then show ?thesis
    by (auto simp: runner_inbound_def classify_def question_command_of_def answer_prompt_def)
next
  case False
  let ?h = "host_answer_question digest error_text port rid (host_answers answers)"
  have eq: "runner_inbound digest json_text error_text policy pid local port (QuestionResponse rid answers) =
      answer_frames rid ?h"
    using False
    by (simp add: runner_inbound_def classify_def question_command_of_def answer_prompt_def host_answers_def)
  show ?thesis
  proof (cases digest error_text port rid "host_answers answers" rule: host_answer_question_cases)
    case (none res)
    then show ?thesis unfolding eq by (auto simp: case_prod_beta not_applied_refused)
  next
    case (sent pending qid turn res)
    from plan_question_fits [OF sent(2)] obtain q qs where
      "pending = Some q" "permission_request_id digest q = rid" "qid = query_id q" "turn = query_turn q"
      "ask_user_questions_from_permission q = Some qs" "list_all2 answer_fits qs (host_answers answers)"
      by blast
    with sent show ?thesis
      unfolding eq
      by (auto simp: case_prod_beta not_applied_refused applied_silent intro!: disjI2 exI [of _ q])
  qed
qed

subsection \<open>Control requests\<close>

text \<open>The change an owner was asked for and accepted, with the moment it takes effect.\<close>

definition owner_did :: "session_port \<Rightarrow> owner_call list \<Rightarrow> control_effect \<Rightarrow> bool" where
  "owner_did port calls e \<longleftrightarrow>
     (case calls of
        [CallSetModel m] \<Rightarrow> (\<exists>a. port_set_model port m = Inr a \<and> (e = Now \<longleftrightarrow> a = Immediately))
      | [CallSetPermissionMode m] \<Rightarrow> port_set_permission_mode port m = Inr () \<and> e = Now
      | [CallCancelTurn] \<Rightarrow> (\<exists>b. port_cancel_turn port = Inr b) \<and> e = Now
      | _ \<Rightarrow> False)"

lemma applied_response:
  "applied (control_response_of_plan (plan_server_control_response i)) = Some e \<longleftrightarrow>
     needs_verdict (in_subtype i) \<and> \<not> outbound_only i \<and> in_verdict i = Some (Applied e)"
  by (auto simp: applied_of_plan plan_server_control_response_def needs_verdict_def Let_def
      split: control_subtype.splits option.splits control_verdict.splits)

lemma response_rid: "cr_request_id (control_response_of_plan (plan_server_control_response i)) = in_request_id i"
  by (auto simp: control_response_of_plan_def plan_server_control_response_def response_success_def
      response_error_def Let_def split: control_subtype.splits option.splits control_verdict.splits)

lemma verdict_applied_iff:
  "fst (control_verdict_for port c) = Some (Applied e) \<longleftrightarrow> owner_did port (snd (control_verdict_for port c)) e"
  by (cases e)
    (auto simp: control_verdict_for_def owner_did_def missing_parameter_def option_verdict_def
      interrupt_verdict_def split: control_command.splits option.splits sum.splits applies_from.splits)

lemma verdict_needed: "fst (control_verdict_for port c) = Some v \<Longrightarrow> needs_verdict (command_subtype c)"
  by (auto simp: control_verdict_for_def needs_verdict_def split: control_command.splits option.splits)

text \<open>A control request on an open session is answered by exactly one response that carries its
  request id, and the response says a change was applied, and when, exactly if the owner was asked
  for that one change and accepted it.\<close>

theorem control_answer_is_what_happened:
  "\<exists>r calls. runner_inbound digest json_text error_text policy pid True port
        (ControlRequest rid subtype params) = ([ControlResponse r], calls) \<and>
      cr_request_id r = rid \<and> (applied r = Some e \<longleftrightarrow> owner_did port calls e)"
proof -
  let ?c = "control_command_of rid subtype params"
  have "command_request_id ?c = rid"
    by (simp add: control_command_of_def split: control_subtype.splits)
  then show ?thesis
    using verdict_applied_iff [of port ?c e] verdict_needed [of port ?c "Applied e"]
    by (auto simp: runner_inbound_def classify_def case_prod_beta control_response_def applied_response
        response_rid)
qed

end
