(* ===== verification/Rc_Work.thy ===== *)
theory Rc_Work
  imports Session_Frame
begin

text \<open>
  \<open>crates/rebon-rc-runner/src/core/work.rs\<close> and \<open>owner.rs\<close>: whether a polled work item is served,
  what the end of its session stream or a heartbeat obliges the runner to, how long it waits before
  it reconnects, and what it may do about a session somebody holds. The items are those of
  \<open>rebon-bridge/src/config.rs\<close>, the stream errors those of \<open>stream_client.rs\<close> and \<open>api_client.rs\<close>.

  The decoder of a work secret (base64 and \<open>serde_json\<close>) is the parameter \<open>decode\<close>, the ledger's
  memory of a session the parameter \<open>remembered\<close>. A \<open>Duration\<close> is its nanoseconds, bounded by
  \<open>DURATION_MAX\<close>.
\<close>

subsection \<open>Work items\<close>

datatype work_data_type = SessionWork | Healthcheck

record work_data =
  data_type :: work_data_type
  data_id :: string

record work_response =
  wr_id :: string
  wr_response_type :: string
  wr_environment_id :: string
  wr_state :: string
  wr_data :: work_data
  wr_secret :: string
  wr_created_at :: string

record session_work =
  sw_project :: string
  sw_prompt :: "string option"
  sw_resume :: "string option"

record work_item =
  wi_response :: work_response
  wi_session :: "session_work option"

record work_secret =
  session_token :: string
  secret_session :: "string option"
  ingress_url :: string

datatype resume_target = NewSession | Requested string | Remembered string

definition resume_session_id :: "resume_target \<Rightarrow> string option" where
  "resume_session_id t = (case t of NewSession \<Rightarrow> None | Requested i \<Rightarrow> Some i | Remembered i \<Rightarrow> Some i)"

record remembered_session =
  rs_rebon_session_id :: string
  rs_project :: string

record session_plan =
  plan_work_id :: string
  plan_rc_session :: string
  plan_project :: string
  plan_prompt :: "string option"
  plan_resume :: resume_target
  plan_secret :: work_secret

datatype work_plan =
    PlanHealthcheck string work_secret
  | PlanRefuse string string
  | PlanSession session_plan

definition resume_for ::
  "session_work \<Rightarrow> string \<Rightarrow> (string \<Rightarrow> remembered_session option) \<Rightarrow> string + resume_target" where
  "resume_for session rc_session remembered =
     (case sw_resume session of
        Some i \<Rightarrow>
          if \<not> valid_rebon_session_id i then Inl ''the resume target is not a plain session id''
          else Inr (Requested i)
      | None \<Rightarrow>
          (case remembered rc_session of
             Some known \<Rightarrow>
               if rs_project known = sw_project session \<and>
                  valid_rebon_session_id (rs_rebon_session_id known)
               then Inr (Remembered (rs_rebon_session_id known))
               else Inr NewSession
           | None \<Rightarrow> Inr NewSession))"

text \<open>The prompt, unless it is blank.\<close>

definition prompt_of :: "session_work \<Rightarrow> string option" where
  "prompt_of s = (case sw_prompt s of Some p \<Rightarrow> if trim p \<noteq> [] then Some p else None | None \<Rightarrow> None)"

definition plan_work ::
  "(string \<Rightarrow> work_secret option) \<Rightarrow> work_item \<Rightarrow> string list \<Rightarrow>
     (string \<Rightarrow> remembered_session option) \<Rightarrow> work_plan" where
  "plan_work decode item projects remembered =
     (let response = wi_response item;
          work_id = wr_id response;
          rc_session = data_id (wr_data response)
      in case decode (wr_secret response) of
        None \<Rightarrow> PlanRefuse work_id ''the work secret does not decode''
      | Some secret \<Rightarrow>
          (case data_type (wr_data response) of
             Healthcheck \<Rightarrow> PlanHealthcheck work_id secret
           | SessionWork \<Rightarrow>
               if secret_session secret \<noteq> Some rc_session then
                 PlanRefuse work_id ''the work secret is for another session''
               else
                 (case wi_session item of
                    None \<Rightarrow> PlanRefuse work_id
                      ''session work without a project (the server predates projects)''
                  | Some session \<Rightarrow>
                      if sw_project session \<notin> set projects then
                        PlanRefuse work_id
                          (''this machine does not serve the project '' @ sw_project session)
                      else
                        (case resume_for session rc_session remembered of
                           Inl why \<Rightarrow> PlanRefuse work_id why
                         | Inr resume \<Rightarrow>
                             let prompt = prompt_of session
                             in if prompt = None \<and> resume = NewSession then
                                  PlanRefuse work_id
                                    ''session work with neither a prompt nor a session to resume''
                                else PlanSession
                                  \<lparr>plan_work_id = work_id, plan_rc_session = rc_session,
                                   plan_project = sw_project session, plan_prompt = prompt,
                                   plan_resume = resume, plan_secret = secret\<rparr>))))"

subsection \<open>How a stream ends\<close>

datatype close_reason =
    CloseNormal | CloseSuperseded | CloseLeaseGone | CloseTimeout | CloseResourceLimit
  | CloseProtocolError | CloseOther "16 word" string | CloseNetwork

definition close_classify :: "16 word \<Rightarrow> string \<Rightarrow> close_reason" where
  "close_classify c why =
     (if c = 1000 then CloseNormal
      else if c = 4426 then CloseSuperseded
      else if c = 4409 then CloseLeaseGone
      else if c = 4408 then CloseTimeout
      else if c = 4413 then CloseResourceLimit
      else if c = 4422 then CloseProtocolError
      else CloseOther c why)"

definition close_code :: "close_reason \<Rightarrow> 16 word option" where
  "close_code r =
     (case r of
        CloseNormal \<Rightarrow> Some 1000
      | CloseSuperseded \<Rightarrow> Some 4426
      | CloseLeaseGone \<Rightarrow> Some 4409
      | CloseTimeout \<Rightarrow> Some 4408
      | CloseResourceLimit \<Rightarrow> Some 4413
      | CloseProtocolError \<Rightarrow> Some 4422
      | CloseOther c _ \<Rightarrow> Some c
      | CloseNetwork \<Rightarrow> None)"

definition is_reconnectable :: "close_reason \<Rightarrow> bool" where
  "is_reconnectable r \<longleftrightarrow> r \<noteq> CloseSuperseded \<and> r \<noteq> CloseLeaseGone \<and> r \<noteq> CloseProtocolError"

definition close_debug :: "close_reason \<Rightarrow> string" where
  "close_debug r =
     (case r of
        CloseNormal \<Rightarrow> ''Normal''
      | CloseSuperseded \<Rightarrow> ''Superseded''
      | CloseLeaseGone \<Rightarrow> ''LeaseGone''
      | CloseTimeout \<Rightarrow> ''Timeout''
      | CloseResourceLimit \<Rightarrow> ''ResourceLimit''
      | CloseProtocolError \<Rightarrow> ''ProtocolError''
      | CloseOther c why \<Rightarrow> ''Other { code: '' @ decimal (unat c) @ '', reason: '' @ debug_str why @ '' }''
      | CloseNetwork \<Rightarrow> ''Network'')"

datatype api_error =
    ApiUnauthorized string | ApiPermanent string | ApiTransient string | ApiProtocol string
  | ApiOther string

definition api_is_transient :: "api_error \<Rightarrow> bool" where
  "api_is_transient e \<longleftrightarrow> (case e of ApiTransient _ \<Rightarrow> True | _ \<Rightarrow> False)"

definition api_error_text :: "api_error \<Rightarrow> string" where
  "api_error_text e =
     (case e of
        ApiUnauthorized d \<Rightarrow> ''bridge api unauthorized: '' @ d
      | ApiPermanent d \<Rightarrow> ''bridge api permanent failure: '' @ d
      | ApiTransient d \<Rightarrow> ''bridge api transient failure: '' @ d
      | ApiProtocol d \<Rightarrow> ''bridge api protocol error: '' @ d
      | ApiOther d \<Rightarrow> ''bridge api error: '' @ d)"

datatype stream_error =
    StreamConfig string
  | StreamRejected "16 word" api_error
  | StreamTransport string
  | StreamProtocol string
  | StreamClosed close_reason

definition stream_error_text :: "stream_error \<Rightarrow> string" where
  "stream_error_text e =
     (case e of
        StreamConfig d \<Rightarrow> ''invalid session stream options: '' @ d
      | StreamRejected _ a \<Rightarrow> ''session stream rejected: '' @ api_error_text a
      | StreamTransport d \<Rightarrow> ''session stream transport failure: '' @ d
      | StreamProtocol d \<Rightarrow> ''session stream protocol failure: '' @ d
      | StreamClosed r \<Rightarrow> ''session stream closed: '' @ close_debug r)"

definition stream_is_transient :: "stream_error \<Rightarrow> bool" where
  "stream_is_transient e \<longleftrightarrow>
     (case e of
        StreamRejected _ a \<Rightarrow> api_is_transient a
      | StreamTransport _ \<Rightarrow> True
      | StreamClosed r \<Rightarrow> is_reconnectable r
      | StreamConfig _ \<Rightarrow> False
      | StreamProtocol _ \<Rightarrow> False)"

definition is_lease_gone :: "stream_error \<Rightarrow> bool" where
  "is_lease_gone e \<longleftrightarrow>
     (case e of
        StreamRejected status _ \<Rightarrow> status = 409
      | StreamClosed r \<Rightarrow> r = CloseLeaseGone
      | _ \<Rightarrow> False)"

definition rejected :: "16 word \<Rightarrow> stream_error" where
  "rejected status =
     (let detail = ''session stream upgrade: HTTP '' @ decimal (unat status)
      in StreamRejected status
           (if status = 401 then ApiUnauthorized detail
            else if status = 429 \<or> (500 \<le> status \<and> status \<le> 599) then ApiTransient detail
            else if 400 \<le> status \<and> status \<le> 499 then ApiPermanent detail
            else ApiProtocol detail))"

datatype exit_reason = StandDown string | Retire string

definition retires :: "exit_reason \<Rightarrow> bool" where
  "retires e \<longleftrightarrow> (case e of Retire _ \<Rightarrow> True | _ \<Rightarrow> False)"

datatype stream_verdict = Reconnect | Exit exit_reason

definition after_stream_close :: "close_reason \<Rightarrow> stream_verdict" where
  "after_stream_close r =
     (case r of
        CloseSuperseded \<Rightarrow> Exit (Retire ''another worker connection took this session'')
      | CloseLeaseGone \<Rightarrow> Exit (StandDown ''the work item's lease is gone'')
      | CloseProtocolError \<Rightarrow> Exit (Retire ''the server refused a frame as malformed'')
      | _ \<Rightarrow> Reconnect)"

definition after_stream_error :: "stream_error \<Rightarrow> stream_verdict" where
  "after_stream_error e =
     (if is_lease_gone e then Exit (StandDown ''the work item's lease is gone'')
      else
        let otherwise =
              (if stream_is_transient e then Reconnect
               else case e of
                 StreamProtocol _ \<Rightarrow> Reconnect
               | _ \<Rightarrow> Exit (Retire (''the session stream cannot be opened: '' @ stream_error_text e)))
        in case e of
             StreamClosed r \<Rightarrow> after_stream_close r
           | StreamRejected status _ \<Rightarrow>
               if status = 401 then Exit (StandDown ''the session token was refused'') else otherwise
           | _ \<Rightarrow> otherwise)"

record heartbeat_outcome =
  lease_extended :: bool
  hb_state :: string

datatype lease_verdict = Held | Lost string | LeaseUnknown

definition after_heartbeat :: "api_error + heartbeat_outcome \<Rightarrow> lease_verdict" where
  "after_heartbeat r =
     (case r of
        Inr o' \<Rightarrow>
          if lease_extended o' then Held
          else Lost (''the lease was not extended ('' @ hb_state o' @ '')'')
      | Inl (ApiPermanent detail) \<Rightarrow> Lost detail
      | Inl _ \<Rightarrow> LeaseUnknown)"

subsection \<open>Backoff\<close>

definition DURATION_MAX :: nat where
  "DURATION_MAX = (2 ^ 64 - 1) * 1000000000 + 999999999"

definition saturating_mul :: "nat \<Rightarrow> nat \<Rightarrow> nat" where
  "saturating_mul d n = min (d * n) DURATION_MAX"

record backoff =
  backoff_base :: nat
  backoff_max :: nat
  attempt :: "32 word"

definition new_backoff :: "nat \<Rightarrow> nat \<Rightarrow> backoff" where
  "new_backoff b m = \<lparr>backoff_base = b, backoff_max = m, attempt = 0\<rparr>"

definition next_delay :: "backoff \<Rightarrow> nat \<times> backoff" where
  "next_delay b =
     (let factor = push_bit (unat (min (attempt b) 16)) (1 :: 32 word);
          attempt' = (if attempt b = - 1 then - 1 else attempt b + 1)
      in (min (saturating_mul (backoff_base b) (unat factor)) (backoff_max b),
          b\<lparr>attempt := attempt'\<rparr>))"

definition reset_backoff :: "backoff \<Rightarrow> backoff" where
  "reset_backoff b = b\<lparr>attempt := 0\<rparr>"

subsection \<open>Who holds the session\<close>

datatype job_view = NoJob | JobStarting | JobHalted | JobGone

datatype owner_view = Reachable | Unreachable | Opaque | Free job_view

datatype owner_refusal = RefuseUnreachable | RefuseHeldByTerminal | RefuseStopped

datatype open_action = Attach | AwaitWorker | Revive | Host | Refuse owner_refusal

datatype follow_action =
    Connect | Wait | WaitReadOnly owner_refusal | FollowRevive | FollowHost | End owner_refusal

definition refusal_describe :: "owner_refusal \<Rightarrow> string" where
  "refusal_describe r =
     (case r of
        RefuseUnreachable \<Rightarrow>
          ''the session is held by a Rebon process on this machine that is not answering''
      | RefuseHeldByTerminal \<Rightarrow>
          ''the session is open in a terminal on this machine; it can be driven from there''
      | RefuseStopped \<Rightarrow> ''the session was stopped on this machine'')"

definition open_action_for :: "owner_view \<Rightarrow> open_action" where
  "open_action_for v =
     (case v of
        Reachable \<Rightarrow> Attach
      | Unreachable \<Rightarrow> Refuse RefuseUnreachable
      | Opaque \<Rightarrow> Refuse RefuseHeldByTerminal
      | Free NoJob \<Rightarrow> Host
      | Free JobStarting \<Rightarrow> AwaitWorker
      | Free JobHalted \<Rightarrow> Refuse RefuseStopped
      | Free JobGone \<Rightarrow> Revive)"

definition follow_action_for :: "owner_view \<Rightarrow> follow_action" where
  "follow_action_for v =
     (case v of
        Reachable \<Rightarrow> Connect
      | Unreachable \<Rightarrow> WaitReadOnly RefuseUnreachable
      | Opaque \<Rightarrow> WaitReadOnly RefuseHeldByTerminal
      | Free NoJob \<Rightarrow> FollowHost
      | Free JobStarting \<Rightarrow> Wait
      | Free JobHalted \<Rightarrow> End RefuseStopped
      | Free JobGone \<Rightarrow> FollowRevive)"

subsection \<open>What is served\<close>

text \<open>A work item is served as a session exactly when its secret decodes and is for the session
  it names, it carries session work for a project on this machine's list, its resume target is a
  plain session id if it names one, and there is a prompt that is not blank or a session to resume.
  The plan then names that project, that prompt, and a session from the item or else from memory.\<close>

theorem work_is_served_iff:
  "plan_work decode item projects remembered = PlanSession p \<longleftrightarrow>
     (\<exists>secret session resume.
        decode (wr_secret (wi_response item)) = Some secret \<and>
        data_type (wr_data (wi_response item)) = SessionWork \<and>
        secret_session secret = Some (data_id (wr_data (wi_response item))) \<and>
        wi_session item = Some session \<and>
        sw_project session \<in> set projects \<and>
        resume_for session (data_id (wr_data (wi_response item))) remembered = Inr resume \<and>
        \<not> (prompt_of session = None \<and> resume = NewSession) \<and>
        p = \<lparr>plan_work_id = wr_id (wi_response item),
             plan_rc_session = data_id (wr_data (wi_response item)),
             plan_project = sw_project session, plan_prompt = prompt_of session,
             plan_resume = resume, plan_secret = secret\<rparr>)"
  unfolding plan_work_def Let_def
  by (cases "decode (wr_secret (wi_response item))";
      cases "data_type (wr_data (wi_response item))";
      cases "wi_session item";
      cases "resume_for (the (wi_session item)) (data_id (wr_data (wi_response item))) remembered")
    auto

lemma resume_for_valid:
  "resume_for session rc remembered = Inr t \<Longrightarrow> resume_session_id t = Some i \<Longrightarrow> valid_rebon_session_id i"
  by (auto simp: resume_for_def resume_session_id_def split: option.splits if_splits)

subsection \<open>What an ended stream obliges to\<close>

lemma after_close_reconnects: "after_stream_close r = Reconnect \<longleftrightarrow> is_reconnectable r"
  by (cases r) (simp_all add: after_stream_close_def is_reconnectable_def)

lemma close_classify_code: "close_code (close_classify c why) = Some c"
  by (simp add: close_classify_def close_code_def)

text \<open>An upgrade that the server refuses with a status.\<close>

lemma rejection_verdict:
  "after_stream_error (rejected status) =
     (if status = 409 then Exit (StandDown ''the work item's lease is gone'')
      else if status = 401 then Exit (StandDown ''the session token was refused'')
      else if status = 429 \<or> (500 \<le> status \<and> status \<le> 599) then Reconnect
      else Exit (Retire (''the session stream cannot be opened: '' @ stream_error_text (rejected status))))"
  by (auto simp: after_stream_error_def is_lease_gone_def rejected_def Let_def stream_is_transient_def
      api_is_transient_def)

subsection \<open>The delays of a backoff\<close>

fun delays :: "nat \<Rightarrow> backoff \<Rightarrow> nat list" where
  "delays 0 b = []"
| "delays (Suc n) b = (let (d, b') = next_delay b in d # delays n b')"

lemma factor_value: "unat (push_bit (unat (min (a :: 32 word) 16)) (1 :: 32 word)) = 2 ^ min (unat a) 16"
proof -
  have m: "unat (min a 16) = min (unat a) 16"
    by (auto simp: min_def word_le_nat_alt)
  have "unat (push_bit k (1 :: 32 word)) = 2 ^ k" if "k \<le> 16" for k
  proof -
    have "(2 :: nat) ^ k \<le> 2 ^ 16" using that by (rule power_increasing) simp
    moreover have "push_bit k (1 :: 32 word) = of_nat (2 ^ k)" by (simp add: push_bit_eq_mult)
    ultimately show ?thesis by (simp only: unat_of_nat) simp
  qed
  then show ?thesis by (simp add: m)
qed

lemma next_delay_value:
  "next_delay b =
     (min (saturating_mul (backoff_base b) (2 ^ min (unat (attempt b)) 16)) (backoff_max b),
      b\<lparr>attempt := if attempt b = - 1 then - 1 else attempt b + 1\<rparr>)"
  unfolding next_delay_def Let_def factor_value ..

lemma attempt_steps:
  "unat (if a = - 1 then - 1 else a + 1) = min (Suc (unat (a :: 32 word))) (2 ^ 32 - 1)"
proof (cases "a = - 1")
  case True
  then show ?thesis by (simp add: unsigned_minus_1_eq_mask mask_eq_exp_minus_1)
next
  case False
  then have "unat a < 2 ^ 32 - 1"
    using unsigned_less [of a, where ?'a = nat] word_unat_eq_iff [of a "- 1"]
    by (simp add: unsigned_minus_1_eq_mask mask_eq_exp_minus_1)
  then have "unat (a + 1) = Suc (unat a)" by (simp add: unat_word_ariths)
  with False \<open>unat a < 2 ^ 32 - 1\<close> show ?thesis by simp
qed

lemma delays_nth:
  "k < n \<Longrightarrow> delays n b ! k =
     min (saturating_mul (backoff_base b) (2 ^ min (unat (attempt b) + k) 16)) (backoff_max b)"
proof (induction n arbitrary: b k)
  case (Suc n)
  let ?b = "b\<lparr>attempt := if attempt b = - 1 then - 1 else attempt b + 1\<rparr>"
  show ?case
  proof (cases k)
    case 0
    then show ?thesis by (simp add: next_delay_value)
  next
    case k: (Suc j)
    have a: "unat (attempt ?b) = min (Suc (unat (attempt b))) (2 ^ 32 - 1)"
      using attempt_steps [of "attempt b"] by simp
    have "min (unat (attempt ?b) + j) 16 = min (unat (attempt b) + k) 16"
      unfolding a k by (simp add: min_def)
    with Suc.IH [of j ?b] Suc.prems k show ?thesis by (simp add: next_delay_value)
  qed
qed simp

text \<open>However often it is asked, the backoff waits the base delay doubled once per attempt,
  at most sixteen times, and never longer than its ceiling: the attempt counter and the product
  saturate and never wrap.\<close>

theorem backoff_doubles_up_to_ceiling:
  assumes "k < n"
  shows "delays n (new_backoff b m) ! k = min (min (b * 2 ^ min k 16) DURATION_MAX) m"
  using delays_nth [OF assms, of "new_backoff b m"] by (simp add: new_backoff_def saturating_mul_def)

theorem backoff_doubles_up_to_ceiling_witness:
  "delays 5 (new_backoff 1000 5000) ! 3 = 5000"
  using backoff_doubles_up_to_ceiling [of 3 5 1000 5000] by (simp add: DURATION_MAX_def)

end
