(* ===== verification/Rc_Ledger.thy ===== *)
theory Rc_Ledger
  imports Rc_Work Ordered_Map
begin

text \<open>
  \<open>crates/rebon-rc-runner/src/ledger.rs\<close>: what this machine did for remote control, across restarts
  of the runner. The file is the state: absent, unreadable, or a ledger; the sessions are an ordered
  map, the prompt claims a queue. The lock and the file operations are the record \<open>ledger_io\<close> of the
  errors they give; a write that fails leaves the file as it was, as it is atomic.
\<close>

definition LEDGER_VERSION :: "32 word" where "LEDGER_VERSION = 1"
definition MAX_SESSIONS :: nat where "MAX_SESSIONS = 1024"
definition MAX_PROMPTS :: nat where "MAX_PROMPTS = 512"

record session_entry =
  entry_session :: string
  entry_project :: string
  entry_cwd :: string
  entry_job :: "string option"
  entry_environment :: string
  updated_at_ms :: "64 word"

record prompt_claim =
  claim_work_id :: string
  at_ms :: "64 word"

record ledger_file =
  version :: "32 word"
  sessions :: "(string \<times> session_entry) list"
  prompts :: "prompt_claim list"

definition default_ledger :: ledger_file where
  "default_ledger = \<lparr>version = LEDGER_VERSION, sessions = [], prompts = []\<rparr>"

datatype ledger_disk = NoFile | BadFile string | Stored ledger_file

record ledger_io =
  io_path :: string
  io_open :: "string option"
  io_write :: "string option"

definition io_ok :: ledger_io where "io_ok = \<lparr>io_path = ''ledger.json'', io_open = None, io_write = None\<rparr>"

definition newer_version_text :: "string \<Rightarrow> ledger_file \<Rightarrow> string" where
  "newer_version_text path file =
     path @ '' was written by a newer Rebon (version '' @ decimal (unat (version file)) @
     ''); refusing to rewrite it''"

text \<open>\<open>Ledger::with\<close>: the action says whether it changed the file.\<close>

definition with_ledger ::
  "ledger_io \<Rightarrow> (ledger_file \<Rightarrow> ('a \<times> bool) \<times> ledger_file) \<Rightarrow> ledger_disk \<Rightarrow>
     (string + 'a) \<times> ledger_disk" where
  "with_ledger io action disk =
     (case io_open io of
        Some e \<Rightarrow> (Inl e, disk)
      | None \<Rightarrow>
          try_in disk
            (case disk of
               NoFile \<Rightarrow> Inr default_ledger
             | BadFile e \<Rightarrow> Inl e
             | Stored file \<Rightarrow> Inr file) (\<lambda>file.
          if version file > LEDGER_VERSION then (Inl (newer_version_text (io_path io) file), disk)
          else
            let ((value, changed), file') = action file
            in if changed then
                 (case io_write io of
                    Some e \<Rightarrow> (Inl e, disk)
                  | None \<Rightarrow> (Inr value, Stored (file'\<lparr>version := LEDGER_VERSION\<rparr>)))
               else (Inr value, disk)))"

definition ledger_session ::
  "ledger_io \<Rightarrow> string \<Rightarrow> ledger_disk \<Rightarrow> (string + session_entry option) \<times> ledger_disk" where
  "ledger_session io rc disk =
     with_ledger io (\<lambda>file. ((map_of (sessions file) rc, False), file)) disk"

definition ledger_remembered :: "ledger_io \<Rightarrow> ledger_disk \<Rightarrow> string \<Rightarrow> remembered_session option" where
  "ledger_remembered io disk rc =
     (case fst (ledger_session io rc disk) of
        Inr (Some e) \<Rightarrow> Some \<lparr>rs_rebon_session_id = entry_session e, rs_project = entry_project e\<rparr>
      | _ \<Rightarrow> None)"

text \<open>\<open>min_by_key\<close> returns the first of the least.\<close>

fun oldest_entry :: "(string \<times> session_entry) list \<Rightarrow> (string \<times> session_entry) option" where
  "oldest_entry [] = None"
| "oldest_entry (e # es) =
     (case oldest_entry es of
        None \<Rightarrow> Some e
      | Some e' \<Rightarrow> if updated_at_ms (snd e') < updated_at_ms (snd e) then Some e' else Some e)"

lemma oldest_entry_mem: "oldest_entry es = Some e \<Longrightarrow> e \<in> set es"
  by (induction es arbitrary: e) (auto split: option.splits if_splits)

lemma oldest_entry_None: "oldest_entry es = None \<longleftrightarrow> es = []"
  by (cases es) (auto split: option.splits)

lemma map_remove_shorter: "e \<in> set m \<Longrightarrow> length (map_remove (fst e) m) < length m"
  unfolding map_remove_def by (rule length_filter_less) simp_all

function evict_sessions :: "nat \<Rightarrow> (string \<times> session_entry) list \<Rightarrow> (string \<times> session_entry) list" where
  "evict_sessions cap m =
     (if length m > cap then
        (case oldest_entry m of
           Some e \<Rightarrow> evict_sessions cap (map_remove (fst e) m)
         | None \<Rightarrow> m)
      else m)"
  by pat_completeness auto
termination
  by (relation "measure (\<lambda>(_, m). length m)")
    (auto dest!: oldest_entry_mem intro: map_remove_shorter)

declare evict_sessions.simps [simp del]

definition record_session ::
  "ledger_io \<Rightarrow> nat \<Rightarrow> string \<Rightarrow> session_entry \<Rightarrow> ledger_disk \<Rightarrow> (string + unit) \<times> ledger_disk" where
  "record_session io max_sessions rc e disk =
     with_ledger io (\<lambda>file.
       (((), True), file\<lparr>sessions := evict_sessions max_sessions (map_insert rc e (sessions file))\<rparr>)) disk"

fun pop_claims :: "nat \<Rightarrow> prompt_claim list \<Rightarrow> prompt_claim list" where
  "pop_claims cap [] = []"
| "pop_claims cap (c # cs) = (if length (c # cs) > cap then pop_claims cap cs else c # cs)"

definition claim_prompt ::
  "ledger_io \<Rightarrow> nat \<Rightarrow> string \<Rightarrow> 64 word \<Rightarrow> ledger_disk \<Rightarrow> (string + bool) \<times> ledger_disk" where
  "claim_prompt io max_prompts work_id now_ms disk =
     with_ledger io (\<lambda>file.
       if list_ex (\<lambda>c. claim_work_id c = work_id) (prompts file) then ((False, False), file)
       else ((True, True),
             file\<lparr>prompts := pop_claims max_prompts
               (prompts file @ [\<lparr>claim_work_id = work_id, at_ms = now_ms\<rparr>])\<rparr>)) disk"

subsection \<open>Claims\<close>

lemma pop_claims_drop: "pop_claims cap cs = drop (length cs - cap) cs"
  by (induction cs) (auto simp: Suc_diff_le)

text \<open>Later operations on the ledger, and how many prompts they were granted.\<close>

datatype rc_ledger_op =
    ClaimOp ledger_io string "64 word"
  | RecordOp ledger_io string session_entry

fun run_rc_ledger :: "rc_ledger_op list \<Rightarrow> ledger_disk \<Rightarrow> nat \<times> ledger_disk" where
  "run_rc_ledger [] disk = (0, disk)"
| "run_rc_ledger (ClaimOp io w t # ops) disk =
     (let (r, disk') = claim_prompt io MAX_PROMPTS w t disk;
          (n, disk'') = run_rc_ledger ops disk'
      in (if r = Inr True then Suc n else n, disk''))"
| "run_rc_ledger (RecordOp io rc e # ops) disk =
     run_rc_ledger ops (snd (record_session io MAX_SESSIONS rc e disk))"

definition claimed_within :: "string \<Rightarrow> nat \<Rightarrow> ledger_disk \<Rightarrow> bool" where
  "claimed_within w k disk \<longleftrightarrow>
     (\<exists>file pre c post. disk = Stored file \<and> prompts file = pre @ c # post \<and>
        claim_work_id c = w \<and> length post \<le> k)"

lemma claim_granted:
  assumes "claim_prompt io cap w t disk = (Inr True, disk')" and "0 < cap"
  shows "claimed_within w 0 disk'"
proof -
  obtain cs lf where "disk' = Stored lf"
    and p: "prompts lf = pop_claims cap (cs @ [\<lparr>claim_work_id = w, at_ms = t\<rparr>])"
    using assms(1)
    by (auto simp: claim_prompt_def with_ledger_def try_in_Inr Let_def split: option.splits if_splits)
  moreover have "prompts lf = drop (Suc (length cs) - cap) cs @ [\<lparr>claim_work_id = w, at_ms = t\<rparr>]"
    unfolding p using assms(2) by (simp add: pop_claims_drop)
  ultimately show ?thesis unfolding claimed_within_def
    by (intro exI [of _ lf] exI [of _ "drop (Suc (length cs) - cap) cs"]
        exI [of _ "\<lparr>claim_work_id = w, at_ms = t\<rparr>"] exI [of _ "[]"]) simp
qed

lemma claimed_refuses:
  assumes "claimed_within w k disk"
  shows "fst (claim_prompt io cap w t disk) \<noteq> Inr True"
proof -
  obtain lf where "disk = Stored lf" "list_ex (\<lambda>c. claim_work_id c = w) (prompts lf)"
    using assms by (auto simp: claimed_within_def list_ex_iff)
  then show ?thesis by (simp add: claim_prompt_def with_ledger_def split: option.splits)
qed

lemma claim_keeps_disk:
  "fst (claim_prompt io cap w t disk) \<noteq> Inr True \<Longrightarrow> snd (claim_prompt io cap w t disk) = disk"
  by (auto simp: claim_prompt_def with_ledger_def try_in_def Let_def split: option.splits sum.splits)

lemma claim_step:
  assumes "claimed_within w k disk" and "claim_prompt io cap v t disk = (Inr True, disk')"
    and "Suc (Suc k) \<le> cap"
  shows "claimed_within w (Suc k) disk'"
proof -
  obtain lf pre c post where lf: "disk = Stored lf" "prompts lf = pre @ c # post"
      "claim_work_id c = w" "length post \<le> k"
    using assms(1) by (auto simp: claimed_within_def)
  let ?new = "\<lparr>claim_work_id = v, at_ms = t\<rparr>"
  have "disk' = Stored (lf\<lparr>prompts := pop_claims cap ((pre @ c # post) @ [?new]),
      version := LEDGER_VERSION\<rparr>)"
    using assms(2) lf(1,2)
    by (auto simp: claim_prompt_def with_ledger_def Let_def split: option.splits if_splits)
  moreover have "pop_claims cap ((pre @ c # post) @ [?new]) =
      drop (length (pre @ c # post @ [?new]) - cap) pre @ c # (post @ [?new])"
    using assms(3) lf(4) by (simp add: pop_claims_drop)
  ultimately show ?thesis
    using lf unfolding claimed_within_def
    by (intro exI [of _ "lf\<lparr>prompts := pop_claims cap ((pre @ c # post) @ [?new]),
        version := LEDGER_VERSION\<rparr>"] exI [of _ "drop (length (pre @ c # post @ [?new]) - cap) pre"]
        exI [of _ c] exI [of _ "post @ [?new]"]) simp
qed

lemma record_keeps_prompts:
  "\<exists>lf'. snd (record_session io cap rc e (Stored lf)) = Stored lf' \<and> prompts lf' = prompts lf"
  by (simp add: record_session_def with_ledger_def Let_def split: option.splits)

lemma record_keeps_claims:
  "claimed_within w k disk \<Longrightarrow> claimed_within w k (snd (record_session io cap rc e disk))"
  unfolding claimed_within_def using record_keeps_prompts by metis

lemma run_keeps_claim:
  assumes "claimed_within w k disk" and "run_rc_ledger ops disk = (n, disk')" and "k + n < MAX_PROMPTS"
  shows "claimed_within w (k + n) disk'"
  using assms
proof (induction ops disk arbitrary: k n disk' rule: run_rc_ledger.induct)
  case (2 io v t ops disk)
  obtain r d where r: "claim_prompt io MAX_PROMPTS v t disk = (r, d)" by fastforce
  obtain m d' where m: "run_rc_ledger ops d = (m, d')" by fastforce
  have n: "n = (if r = Inr True then Suc m else m)" "disk' = d'"
    using 2(3) r m by (auto simp: Let_def)
  show ?case
  proof (cases "r = Inr True")
    case True
    have "claimed_within w (Suc k) d"
      using claim_step [OF 2(2), of io MAX_PROMPTS v t d] r True n 2(4) by simp
    with 2(1) [OF r [symmetric] refl this m] n True 2(4) show ?thesis by simp
  next
    case False
    then have "d = disk" using claim_keeps_disk [of io MAX_PROMPTS v t disk] r by simp
    with 2(1) [OF r [symmetric] refl _ m] n False 2(2,4) show ?thesis by simp
  qed
next
  case (3 io rc e ops disk)
  then show ?case using record_keeps_claims by simp
qed simp

text \<open>The prompt of a work item is granted once: whatever the ledger does afterwards, through
  restarts and failed reads and writes, a second claim of the same item is not granted until as
  many other prompts have been granted as the ledger remembers.\<close>

theorem prompt_is_granted_once:
  assumes "claim_prompt io MAX_PROMPTS w t disk = (Inr True, disk1)"
    and "run_rc_ledger ops disk1 = (n, disk2)" and "n < MAX_PROMPTS"
  shows "fst (claim_prompt io' MAX_PROMPTS w t' disk2) \<noteq> Inr True"
  using claimed_refuses run_keeps_claim [OF claim_granted [OF assms(1)] assms(2)] assms(3)
  by (auto simp: MAX_PROMPTS_def)

theorem prompt_is_granted_once_witness:
  "fst (claim_prompt io_ok MAX_PROMPTS ''wrk_1'' 3
     (snd (run_rc_ledger [ClaimOp io_ok ''wrk_2'' 2, ClaimOp io_ok ''wrk_1'' 2]
       (snd (claim_prompt io_ok MAX_PROMPTS ''wrk_1'' 1 NoFile))))) \<noteq> Inr True"
proof (rule prompt_is_granted_once)
  show "claim_prompt io_ok MAX_PROMPTS ''wrk_1'' 1 NoFile =
      (Inr True, snd (claim_prompt io_ok MAX_PROMPTS ''wrk_1'' 1 NoFile))"
    by (rule prod_eqI) (code_simp, simp)
  show "run_rc_ledger [ClaimOp io_ok ''wrk_2'' 2, ClaimOp io_ok ''wrk_1'' 2]
        (snd (claim_prompt io_ok MAX_PROMPTS ''wrk_1'' 1 NoFile)) =
      (1, snd (run_rc_ledger [ClaimOp io_ok ''wrk_2'' 2, ClaimOp io_ok ''wrk_1'' 2]
        (snd (claim_prompt io_ok MAX_PROMPTS ''wrk_1'' 1 NoFile))))"
    by (rule prod_eqI) (code_simp, simp)
  show "1 < MAX_PROMPTS" by (simp add: MAX_PROMPTS_def)
qed

subsection \<open>Sessions\<close>

lemma oldest_entry_least: "oldest_entry es = Some e \<Longrightarrow> x \<in> set es \<Longrightarrow> updated_at_ms (snd e) \<le> updated_at_ms (snd x)"
proof (induction es arbitrary: e)
  case (Cons y es)
  show ?case
  proof (cases "oldest_entry es")
    case None
    then show ?thesis using Cons.prems by (simp add: oldest_entry_None)
  next
    case (Some z)
    have "x = y \<or> updated_at_ms (snd z) \<le> updated_at_ms (snd x)" using Cons Some by auto
    with Cons.prems Some show ?thesis by (auto split: if_splits)
  qed
qed simp

lemma evict_sessions_subset: "set (evict_sessions cap m) \<subseteq> set m"
proof (induction cap m rule: evict_sessions.induct)
  case (1 cap m)
  then show ?case by (auto simp: evict_sessions.simps [of cap m] map_remove_def split: option.splits)
qed

lemma evict_sessions_bounded: "length (evict_sessions cap m) \<le> cap"
proof (induction cap m rule: evict_sessions.induct)
  case (1 cap m)
  then show ?case
    by (auto simp: evict_sessions.simps [of cap m] oldest_entry_None split: option.splits)
qed

lemma evict_sessions_ordered: "map_ordered m \<Longrightarrow> map_ordered (evict_sessions cap m)"
proof (induction cap m rule: evict_sessions.induct)
  case (1 cap m)
  then show ?case
    by (auto simp: evict_sessions.simps [of cap m] ordered_map_remove split: option.splits)
qed

lemma evict_sessions_newest:
  "map_ordered m \<Longrightarrow> kept \<in> set (evict_sessions cap m) \<Longrightarrow> gone \<in> set m \<Longrightarrow>
     gone \<notin> set (evict_sessions cap m) \<Longrightarrow> updated_at_ms (snd gone) \<le> updated_at_ms (snd kept)"
proof (induction cap m rule: evict_sessions.induct)
  case (1 cap m)
  show ?case
  proof (cases "length m > cap \<and> oldest_entry m \<noteq> None")
    case False
    with 1 show ?thesis by (auto simp: evict_sessions.simps [of cap m] split: option.splits)
  next
    case True
    then obtain e where e: "oldest_entry m = Some e" and len: "length m > cap" by auto
    have step: "evict_sessions cap m = evict_sessions cap (map_remove (fst e) m)"
      using e len by (simp add: evict_sessions.simps [of cap m])
    show ?thesis
    proof (cases "gone \<in> set (map_remove (fst e) m)")
      case True
      with 1(1) [OF len e] 1(2-5) step show ?thesis by (simp add: ordered_map_remove)
    next
      case False
      then have "fst gone = fst e" using 1(4) by (simp add: map_remove_def)
      then have "gone = e"
        using map_of_entry [OF 1(2)] 1(4) oldest_entry_mem [OF e] by (cases gone; cases e) auto
      moreover have "kept \<in> set m" using 1(3) evict_sessions_subset by blast
      ultimately show ?thesis using oldest_entry_least [OF e] by simp
    qed
  qed
qed

text \<open>Recording a session leaves at most the bound of sessions in the ledger; each is the new
  entry or one that was there; and one that was there, or the new one, is dropped only where every
  session that stays is at least as recent.\<close>

theorem recording_keeps_the_newest:
  assumes "record_session io cap rc e (Stored lf) = (Inr (), Stored lf')"
    and "map_ordered (sessions lf)"
  shows "map_ordered (sessions lf') \<and> length (sessions lf') \<le> cap \<and>
    set (sessions lf') \<subseteq> set (map_insert rc e (sessions lf)) \<and>
    (gone \<in> set (map_insert rc e (sessions lf)) - set (sessions lf') \<and> kept \<in> set (sessions lf')
       \<longrightarrow> updated_at_ms (snd gone) \<le> updated_at_ms (snd kept))"
proof -
  let ?m = "map_insert rc e (sessions lf)"
  have eq: "sessions lf' = evict_sessions cap ?m"
    using assms(1)
    by (auto simp: record_session_def with_ledger_def Let_def split: option.splits if_splits)
  note ord = ordered_map_insert [OF assms(2), of rc e]
  show ?thesis
    unfolding eq
    using evict_sessions_ordered [OF ord] evict_sessions_bounded evict_sessions_subset
      evict_sessions_newest [OF ord, of kept cap gone] by auto
qed

definition demo_entry :: "64 word \<Rightarrow> session_entry" where
  "demo_entry t =
     \<lparr>entry_session = ''local'', entry_project = ''/srv/app'', entry_cwd = ''/srv/app'', entry_job = None,
      entry_environment = ''env'', updated_at_ms = t\<rparr>"

definition demo_ledger :: ledger_file where
  "demo_ledger = default_ledger\<lparr>sessions := [(''a'', demo_entry 1), (''b'', demo_entry 2)]\<rparr>"

theorem recording_keeps_the_newest_witness:
  "updated_at_ms (demo_entry 1) \<le> updated_at_ms (demo_entry 2)"
proof -
  let ?after = "demo_ledger\<lparr>sessions := [(''b'', demo_entry 2), (''c'', demo_entry 3)]\<rparr>"
  have r: "record_session io_ok 2 ''c'' (demo_entry 3) (Stored demo_ledger) = (Inr (), Stored ?after)"
    by code_simp
  have o: "map_ordered (sessions demo_ledger)" by code_simp
  have i: "map_insert ''c'' (demo_entry 3) (sessions demo_ledger) =
      [(''a'', demo_entry 1), (''b'', demo_entry 2), (''c'', demo_entry 3)]"
    by code_simp
  have "demo_entry 1 \<noteq> demo_entry 2" by (simp add: demo_entry_def)
  then show ?thesis
    using recording_keeps_the_newest [OF r o, of "(''a'', demo_entry 1)" "(''b'', demo_entry 2)"]
    unfolding i by simp
qed

end
