(* ===== verification/Rc_Limits.thy ===== *)
theory Rc_Limits
  imports Json_Value
begin

text \<open>
  \<open>crates/rebon-rc-runner/src/core/limits.rs\<close>: keeping every frame under the size cap of the server.
  Text is split, everything else loses the ends of its longest strings, and what still does not fit
  becomes a stub.

  The serialized size of a value is the parameter \<open>json_len\<close>; the marker of a cut, which begins
  with a character outside the model, is the parameter \<open>cut_marker\<close> of the number of bytes cut. A
  reference into a value is the path to it: the positions of the items and entries on the way.
\<close>

subsection \<open>Splitting text\<close>

definition MAX_FRAME_BYTES :: nat where "MAX_FRAME_BYTES = 256 * 1024"
definition FRAME_BUDGET_BYTES :: nat where "FRAME_BUDGET_BYTES = 200 * 1024"
definition TEXT_PIECE_BYTES :: nat where "TEXT_PIECE_BYTES = 32 * 1024"
definition MIN_CUT_BYTES :: nat where "MIN_CUT_BYTES = 1024"

definition is_char_boundary :: "nat \<Rightarrow> string \<Rightarrow> bool" where
  "is_char_boundary index s \<longleftrightarrow> split_at_byte index s \<noteq> None"

fun boundary_below :: "string \<Rightarrow> nat \<Rightarrow> nat" where
  "boundary_below s 0 = 0"
| "boundary_below s (Suc n) = (if is_char_boundary (Suc n) s then Suc n else boundary_below s n)"

definition floor_char_boundary :: "string \<Rightarrow> nat \<Rightarrow> nat" where
  "floor_char_boundary s index = (if byte_len s \<le> index then byte_len s else boundary_below s index)"

lemma byte_len_simps [simp]:
  "byte_len [] = 0" "byte_len (c # s) = utf8_width c + byte_len s"
  "byte_len (s @ t) = byte_len s + byte_len t"
  by (simp_all add: byte_len_def)

lemma utf8_width_bounds: "0 < utf8_width c" "utf8_width c \<le> 2"
  by (simp_all add: utf8_width_def)

lemma byte_len_0 [simp]: "byte_len a = 0 \<longleftrightarrow> a = []"
  by (cases a) (simp_all add: utf8_width_def)

lemma split_at_byte_Some: "split_at_byte n s = Some (a, b) \<longleftrightarrow> s = a @ b \<and> byte_len a = n"
proof (induction s arbitrary: n a b)
  case Nil
  then show ?case by (cases "n = 0") (auto simp: split_at_byte.simps [of n] split_at_byte.simps [of 0])
next
  case (Cons c s)
  show ?case
  proof (cases "n = 0")
    case True
    then show ?thesis by (auto simp: split_at_byte.simps [of 0] simp del: byte_len_simps(2))
  next
    case False
    show ?thesis
    proof (cases "n < utf8_width c")
      case True
      with False show ?thesis
        by (cases a) (auto simp: split_at_byte.simps [of n])
    next
      case w: False
      with False Cons.IH [of "n - utf8_width c"] show ?thesis
        by (cases a) (auto simp: split_at_byte.simps [of n])
    qed
  qed
qed

lemma boundary_iff: "is_char_boundary n s \<longleftrightarrow> (\<exists>a b. s = a @ b \<and> byte_len a = n)"
  unfolding is_char_boundary_def using split_at_byte_Some [of n s]
  by (metis not_None_eq surj_pair)

lemma boundary_0 [simp]: "is_char_boundary 0 s"
  unfolding boundary_iff by (rule exI [of _ "[]"]) simp

lemma boundary_below_boundary: "is_char_boundary (boundary_below s n) s"
  by (induction n) auto

lemma boundary_below_le: "boundary_below s n \<le> n"
  by (induction n) (auto intro: le_SucI)

lemma floor_boundary: "is_char_boundary (floor_char_boundary s n) s"
proof (cases "byte_len s \<le> n")
  case True
  then show ?thesis by (auto simp: floor_char_boundary_def boundary_iff intro: exI [of _ s])
qed (simp add: floor_char_boundary_def boundary_below_boundary)

lemma floor_le: "floor_char_boundary s n \<le> n"
  using boundary_below_le by (auto simp: floor_char_boundary_def)

text \<open>Of two neighbouring offsets inside a text one is a boundary, as no character is wider than
  two bytes here.\<close>

lemma boundary_near: "n < byte_len s \<Longrightarrow> is_char_boundary n s \<or> is_char_boundary (Suc n) s"
proof (induction s arbitrary: n)
  case (Cons c s)
  show ?case
  proof (cases "n < utf8_width c")
    case True
    then have "n = 0 \<or> Suc n = byte_len [c]" using utf8_width_bounds(2) [of c] by auto
    then show ?thesis unfolding boundary_iff by (metis append_Cons append_Nil byte_len_simps(1))
  next
    case False
    have step: "is_char_boundary k s \<Longrightarrow> is_char_boundary (utf8_width c + k) (c # s)" for k
      unfolding boundary_iff by (metis append_Cons byte_len_simps(2))
    have "n - utf8_width c < byte_len s" using Cons.prems False by simp
    from Cons.IH [OF this] show ?thesis
    proof
      assume "is_char_boundary (n - utf8_width c) s"
      from step [OF this] False show ?thesis by simp
    next
      assume "is_char_boundary (Suc (n - utf8_width c)) s"
      from step [OF this] False show ?thesis by simp
    qed
  qed
qed simp

lemma floor_progress: "2 \<le> n \<Longrightarrow> s \<noteq> [] \<Longrightarrow> 0 < floor_char_boundary s n"
proof -
  assume "2 \<le> n" "s \<noteq> []"
  have pos: "0 < byte_len s" using \<open>s \<noteq> []\<close> utf8_width_bounds(1) by (cases s) auto
  show ?thesis
  proof (cases "byte_len s \<le> n")
    case False
    obtain m where m: "n = Suc (Suc m)" using \<open>2 \<le> n\<close> by (metis add_2_eq_Suc le_Suc_ex)
    have "is_char_boundary (Suc m) s \<or> is_char_boundary (Suc (Suc m)) s"
      using boundary_near [of "Suc m" s] False m by simp
    then have "0 < boundary_below s n" unfolding m by auto
    with False show ?thesis by (simp add: floor_char_boundary_def)
  qed (use pos in \<open>simp add: floor_char_boundary_def\<close>)
qed

function split_text :: "nat \<Rightarrow> string \<Rightarrow> string list" where
  "split_text max_bytes rest =
     (if byte_len rest > max max_bytes 4 then
        (case split_at_byte (floor_char_boundary rest (max max_bytes 4)) rest of
           Some (head, tail) \<Rightarrow> head # split_text max_bytes tail
         | None \<Rightarrow> [])
      else [rest])"
  by pat_completeness auto
termination
proof (relation "measure (\<lambda>(_, rest). byte_len rest)")
  fix max_bytes rest p head tail
  assume "max max_bytes 4 < byte_len rest"
    and p: "split_at_byte (floor_char_boundary rest (max max_bytes 4)) rest = Some p" "(head, tail) = p"
  then have "split_at_byte (floor_char_boundary rest (max max_bytes 4)) rest = Some (head, tail)" by simp
  then have "rest = head @ tail" "byte_len head = floor_char_boundary rest (max max_bytes 4)"
    unfolding split_at_byte_Some by simp_all
  moreover have "0 < floor_char_boundary rest (max max_bytes 4)"
    using \<open>max max_bytes 4 < byte_len rest\<close> by (intro floor_progress) auto
  ultimately show "((max_bytes, tail), max_bytes, rest) \<in> measure (\<lambda>(_, rest). byte_len rest)" by simp
qed simp

declare split_text.simps [simp del]

text \<open>Splitting a text for the frame cap always ends, cuts it into pieces that join back to
  the text, none of them above the limit (four bytes at least), and none empty unless the text is.\<close>

theorem split_text_pieces:
  "concat (split_text n s) = s \<and>
   list_all (\<lambda>p. byte_len p \<le> max n 4) (split_text n s) \<and>
   split_text n s \<noteq> [] \<and> ([] \<in> set (split_text n s) \<longleftrightarrow> s = [])"
proof (induction n s rule: split_text.induct)
  case (1 n s)
  show ?case
  proof (cases "byte_len s > max n 4")
    case False
    then show ?thesis by (auto simp: split_text.simps [of n s])
  next
    case True
    obtain a b where ab: "split_at_byte (floor_char_boundary s (max n 4)) s = Some (a, b)"
      using floor_boundary [of s "max n 4"] by (auto simp: is_char_boundary_def)
    then have s: "s = a @ b" and a: "byte_len a = floor_char_boundary s (max n 4)"
      by (simp_all add: split_at_byte_Some)
    have len: "byte_len a \<le> max n 4" unfolding a by (rule floor_le)
    have "s \<noteq> []" using True by auto
    then have "0 < byte_len a" unfolding a by (intro floor_progress) (auto simp: le_max_iff_disj)
    then have "a \<noteq> []" by auto
    moreover have "b \<noteq> []" using s len True by auto
    moreover have "split_text n s = a # split_text n b"
      using True ab by (simp add: split_text.simps [of n s])
    ultimately show ?thesis
      using "1.IH" [OF True ab refl] len \<open>s \<noteq> []\<close> s by simp
  qed
qed

subsection \<open>Fitting a message\<close>

datatype fit = Unchanged | Truncated nat | Omitted nat

definition later_max ::
  "(nat list \<times> string) option \<Rightarrow> (nat list \<times> string) option \<Rightarrow> (nat list \<times> string) option" where
  "later_max x y =
     (case (x, y) of
        (None, _) \<Rightarrow> y
      | (_, None) \<Rightarrow> x
      | (Some (_, s), Some (_, t)) \<Rightarrow> if byte_len s \<le> byte_len t then y else x)"

definition below :: "nat \<Rightarrow> (nat list \<times> string) option \<Rightarrow> (nat list \<times> string) option" where
  "below i x = map_option (\<lambda>(p, s). (i # p, s)) x"

fun longest_string :: "json \<Rightarrow> (nat list \<times> string) option"
and longest_item :: "nat \<Rightarrow> json list \<Rightarrow> (nat list \<times> string) option"
and longest_entry :: "nat \<Rightarrow> (string \<times> json) list \<Rightarrow> (nat list \<times> string) option" where
  "longest_string (JString s) = Some ([], s)"
| "longest_string (JArray vs) = longest_item 0 vs"
| "longest_string (JObject kvs) = longest_entry 0 kvs"
| "longest_string JNull = None"
| "longest_string (JBool b) = None"
| "longest_string (JNumber n) = None"
| "longest_item i [] = None"
| "longest_item i (v # vs) = later_max (below i (longest_string v)) (longest_item (Suc i) vs)"
| "longest_entry i [] = None"
| "longest_entry i ((k, v) # kvs) =
     later_max (if k = ''_meta'' then None else below i (longest_string v)) (longest_entry (Suc i) kvs)"

fun replace_at :: "nat list \<Rightarrow> string \<Rightarrow> json \<Rightarrow> json" where
  "replace_at [] s v = JString s"
| "replace_at (i # p) s (JArray vs) = JArray (vs[i := replace_at p s (vs ! i)])"
| "replace_at (i # p) s (JObject kvs) =
     JObject (kvs[i := (fst (kvs ! i), replace_at p s (snd (kvs ! i)))])"
| "replace_at (i # p) s v = v"

text \<open>One cut of the loop: the longest string loses what the message is over, and a margin for the
  marker, but keeps \<open>MIN_CUT_BYTES\<close>.\<close>

definition cut_longest ::
  "(json \<Rightarrow> nat) \<Rightarrow> (nat \<Rightarrow> string) \<Rightarrow> nat \<Rightarrow> json \<Rightarrow> (json \<times> nat) option" where
  "cut_longest json_len cut_marker budget message =
     (case longest_string message of
        None \<Rightarrow> None
      | Some (p, longest) \<Rightarrow>
          let excess = json_len message - budget; len = byte_len longest
          in if len \<le> MIN_CUT_BYTES then None
             else
               let keep = floor_char_boundary longest (max (len - (excess + 96)) MIN_CUT_BYTES);
                   lost = len - keep
               in case split_at_byte keep longest of
                    None \<Rightarrow> None
                  | Some (head, _) \<Rightarrow> Some (replace_at p (head @ cut_marker lost) message, lost))"

fun fit_loop ::
  "(json \<Rightarrow> nat) \<Rightarrow> (nat \<Rightarrow> string) \<Rightarrow> nat \<Rightarrow> nat \<Rightarrow> json \<Rightarrow> nat \<Rightarrow> json \<times> nat" where
  "fit_loop json_len cut_marker budget 0 message dropped = (message, dropped)"
| "fit_loop json_len cut_marker budget (Suc n) message dropped =
     (if json_len message \<le> budget then (message, dropped)
      else case cut_longest json_len cut_marker budget message of
        None \<Rightarrow> (message, dropped)
      | Some (message', lost) \<Rightarrow> fit_loop json_len cut_marker budget n message' (dropped + lost))"

definition mark_object :: "json \<Rightarrow> json \<Rightarrow> json" where
  "mark_object note v =
     (case v of
        JObject kvs \<Rightarrow>
          let meta = (case map_of kvs ''_meta'' of
                Some m \<Rightarrow> if is_object m then m else JObject []
              | None \<Rightarrow> JObject [])
          in json_insert ''_meta'' (json_insert ''rebonRc'' note meta) v
      | _ \<Rightarrow> v)"

definition mark_note :: "json \<Rightarrow> json \<Rightarrow> json" where
  "mark_note note message =
     (case json_get ''update'' message of
        Some (JObject kvs) \<Rightarrow> json_insert ''update'' (mark_object note (JObject kvs)) message
      | _ \<Rightarrow> mark_object note message)"

definition is_small :: "(json \<Rightarrow> nat) \<Rightarrow> json \<Rightarrow> bool" where
  "is_small json_len v \<longleftrightarrow> json_len v \<le> MIN_CUT_BYTES"

definition small_entries :: "(json \<Rightarrow> nat) \<Rightarrow> string list \<Rightarrow> json \<Rightarrow> (string \<times> json) list" where
  "small_entries json_len ks source =
     concat (map (\<lambda>k. case json_get k source of
         Some v \<Rightarrow> if is_small json_len v then [(k, v)] else []
       | None \<Rightarrow> []) ks)"

definition omitted_stub :: "(json \<Rightarrow> nat) \<Rightarrow> json \<Rightarrow> nat \<Rightarrow> json" where
  "omitted_stub json_len message original =
     (let note = JObject [(''omittedBytes'', JNumber (int original))]
      in case json_get ''update'' message of
           Some source \<Rightarrow>
             JObject (small_entries json_len [''sessionId'', ''turnGeneration''] message @
               [(''update'', JObject
                  (small_entries json_len [''sessionUpdate'', ''toolCallId'', ''status'', ''kind'', ''title''] source @
                   [(''_meta'', JObject [(''rebonRc'', note)])]))])
         | None \<Rightarrow> JObject [(''_meta'', JObject [(''rebonRc'', note)])])"

definition fit_message ::
  "(json \<Rightarrow> nat) \<Rightarrow> (nat \<Rightarrow> string) \<Rightarrow> json \<Rightarrow> nat \<Rightarrow> json \<times> fit" where
  "fit_message json_len cut_marker message budget =
     (let original = json_len message
      in if original \<le> budget then (message, Unchanged)
         else
           let (message', dropped) = fit_loop json_len cut_marker budget 256 message 0;
               marked = mark_note (JObject [(''truncatedBytes'', JNumber (int dropped))]) message'
           in if json_len message' \<le> budget \<and> json_len marked \<le> budget then (marked, Truncated dropped)
              else (omitted_stub json_len
                      (if json_len message' \<le> budget then marked else message') original,
                    Omitted original))"

text \<open>A message that fits is sent as it is, and only then; one that was truncated fits the budget,
  marker and note included; only a stub, which says how large the message was, is left unmeasured.\<close>

theorem fitted_message_fits:
  "case fit_message json_len cut_marker message budget of (m, f) \<Rightarrow>
     (f = Unchanged \<longleftrightarrow> json_len message \<le> budget) \<and>
     (case f of
        Unchanged \<Rightarrow> m = message
      | Truncated _ \<Rightarrow> json_len m \<le> budget
      | Omitted original \<Rightarrow> original = json_len message \<and> budget < original)"
  by (auto simp: fit_message_def Let_def case_prod_beta)

end
