(* ===== verification/Rc_Uplink.thy ===== *)
theory Rc_Uplink
  imports Rc_Downlink Rc_Limits
begin

text \<open>
  \<open>crates/rebon-rc-runner/src/core/uplink.rs\<close>, with \<open>state.rs\<close> and the message ids of \<open>ids.rs\<close>:
  from the event stream of the process that owns a session to the frames its controllers see. A
  method returns what it wants done and the uplink it leaves.

  The record \<open>uplink_env\<close> holds what the uplink is given and the libraries it calls: the projection
  of a prompt to its request payload, the digest of \<open>ids.rs\<close>, the serialized size of a value and the
  marker of a cut (see \<open>Rc_Limits\<close>).
\<close>

record uplink_env =
  projection :: "permission_query \<Rightarrow> json"
  prompt_digest_of :: prompt_digest
  size_of :: "json \<Rightarrow> nat"
  marker_of :: "nat \<Rightarrow> string"

subsection \<open>Reported states\<close>

record reported =
  reported_state :: session_run_state
  reported_detail :: "string option"

definition new_reported :: "session_run_state \<Rightarrow> reported" where
  "new_reported s = \<lparr>reported_state = s, reported_detail = None\<rparr>"

definition reported_with :: "session_run_state \<Rightarrow> string \<Rightarrow> reported" where
  "reported_with s d = \<lparr>reported_state = s, reported_detail = Some d\<rparr>"

definition reported_frame :: "reported \<Rightarrow> session_frame" where
  "reported_frame r = SessionState (reported_state r) (reported_detail r)"

definition reported_for_status :: "status_snapshot \<Rightarrow> reported" where
  "reported_for_status s =
     (if pending_permission s \<noteq> None \<or> ask_user_questions s \<noteq> None \<or> snap_status s = JobNeedsInput then
        new_reported StateNeedsInput
      else if busy s then new_reported StateRunning
      else case snap_status s of
        JobRunning \<Rightarrow> new_reported StateRunning
      | JobNeedsInput \<Rightarrow> new_reported StateNeedsInput
      | JobQueued \<Rightarrow> new_reported StateStarting
      | JobIdle \<Rightarrow> new_reported StateIdle
      | JobSucceeded \<Rightarrow> new_reported StateIdle
      | JobFailed \<Rightarrow>
          (case last_command_error s of
             Some e \<Rightarrow> reported_with StateFailed e
           | None \<Rightarrow> new_reported StateFailed)
      | JobStopped \<Rightarrow> new_reported StateStopped)"

definition reported_for_turn :: "turn_state \<Rightarrow> string option \<Rightarrow> bool \<Rightarrow> reported" where
  "reported_for_turn t stop_refused permission_pending =
     (case t of
        TurnRunning \<Rightarrow>
          if permission_pending then new_reported StateNeedsInput
          else (case stop_refused of
                  Some why \<Rightarrow> reported_with StateRunning (''the turn did not stop: '' @ why)
                | None \<Rightarrow> new_reported StateRunning)
      | TurnIdle \<Rightarrow> new_reported StateIdle)"

definition observe :: "reported option \<Rightarrow> reported \<Rightarrow> session_frame option \<times> reported option" where
  "observe prev next =
     (if prev = Some next then (None, prev) else (Some (reported_frame next), Some next))"

subsection \<open>Ids\<close>

definition stream_identity :: "64 word \<Rightarrow> string \<Rightarrow> string" where
  "stream_identity epoch generation =
     (if epoch \<noteq> 0 then ''e'' @ hexadecimal (unat epoch) else ''g'' @ generation)"

definition unannounced :: "string \<Rightarrow> string" where
  "unannounced generation = ''g'' @ generation"

definition message_id :: "string \<Rightarrow> 64 word \<Rightarrow> 64 word \<Rightarrow> string" where
  "message_id ident first final =
     ident @ ''.'' @ decimal (unat first) @ ''-'' @ decimal (unat final)"

definition message_piece_id :: "string \<Rightarrow> nat \<Rightarrow> string" where
  "message_piece_id base piece = base @ ''.p'' @ decimal piece"

subsection \<open>Coalescing\<close>

definition TEXT_CHUNKS :: "string list" where
  "TEXT_CHUNKS = [''agent_message_chunk'', ''agent_thought_chunk'', ''user_message_chunk'']"

datatype run_key =
    TextKey string json json
  | ToolCallKey string json json
  | AloneKey

definition text_of :: "json \<Rightarrow> string option" where
  "text_of message = as_str (json_index (json_index (json_index message ''update'') ''content'') ''text'')"

definition merge_key :: "json \<Rightarrow> run_key" where
  "merge_key update =
     (let inner = json_index update ''update'';
          session = json_index update ''sessionId'';
          turn = json_index update ''turnGeneration''
      in case get_str ''sessionUpdate'' inner of
           Some k \<Rightarrow>
             if k \<in> set TEXT_CHUNKS \<and>
                json_index (json_index inner ''content'') ''type'' = JString ''text'' \<and>
                text_of update \<noteq> None
             then TextKey k session turn
             else if k = ''tool_call_update'' then
               (case get_str ''toolCallId'' inner of
                  Some i \<Rightarrow> ToolCallKey i session turn
                | None \<Rightarrow> AloneKey)
             else AloneKey
         | None \<Rightarrow> AloneKey)"

record pending_update =
  pu_first :: "64 word"
  pu_last :: "64 word"
  pu_message :: json
  pu_key :: run_key

text \<open>Assigning to \<open>message["update"]["content"]["text"]\<close>; the objects on the way are there
  wherever it is done.\<close>

definition set_text :: "string \<Rightarrow> json \<Rightarrow> json" where
  "set_text text message =
     (let update = json_index message ''update''; content = json_index update ''content''
      in json_insert ''update'' (json_insert ''content'' (json_insert ''text'' (JString text) content) update)
           message)"

definition merge_fields :: "json \<Rightarrow> json \<Rightarrow> json option" where
  "merge_fields message update =
     (case (as_object (json_index message ''update''), as_object (json_index update ''update'')) of
        (Some _, Some source) \<Rightarrow>
          Some (json_insert ''update''
            (fold (\<lambda>(k, v). json_insert k v) source (json_index message ''update'')) message)
      | _ \<Rightarrow> None)"

definition merge_into :: "uplink_env \<Rightarrow> pending_update \<Rightarrow> json \<Rightarrow> pending_update option" where
  "merge_into env p update =
     (case pu_key p of
        TextKey _ _ _ \<Rightarrow>
          (case (text_of update, text_of (pu_message p)) of
             (Some addition, Some text) \<Rightarrow>
               Some (p\<lparr>pu_message := set_text (text @ addition) (pu_message p)\<rparr>)
           | _ \<Rightarrow> None)
      | ToolCallKey _ _ _ \<Rightarrow>
          if size_of env (pu_message p) + size_of env update > FRAME_BUDGET_BYTES div 2 then None
          else map_option (\<lambda>m. p\<lparr>pu_message := m\<rparr>) (merge_fields (pu_message p) update)
      | AloneKey \<Rightarrow> None)"

definition fitted :: "uplink_env \<Rightarrow> json \<Rightarrow> json" where
  "fitted env message = fst (fit_message (size_of env) (marker_of env) message FRAME_BUDGET_BYTES)"

definition frames_for :: "uplink_env \<Rightarrow> string \<Rightarrow> pending_update \<Rightarrow> session_frame list" where
  "frames_for env identity p =
     (let i = message_id identity (pu_first p) (pu_last p);
          text = (case text_of (pu_message p) of Some t \<Rightarrow> t | None \<Rightarrow> [])
      in if (case pu_key p of TextKey _ _ _ \<Rightarrow> byte_len text > TEXT_PIECE_BYTES | _ \<Rightarrow> False) then
           map (\<lambda>(index, piece).
               message_with_id (message_piece_id i index) (fitted env (set_text piece (pu_message p))))
             (enumerate 0 (split_text TEXT_PIECE_BYTES text))
         else [message_with_id i (fitted env (pu_message p))])"

record coalescer =
  flush_text_bytes :: nat
  pending_run :: "pending_update option"

definition flush_run :: "uplink_env \<Rightarrow> string \<Rightarrow> coalescer \<Rightarrow> session_frame list \<times> coalescer" where
  "flush_run env identity c =
     (case pending_run c of
        Some p \<Rightarrow> frames_for env identity p
      | None \<Rightarrow> [],
      c\<lparr>pending_run := None\<rparr>)"

definition is_full :: "uplink_env \<Rightarrow> coalescer \<Rightarrow> bool" where
  "is_full env c =
     (case pending_run c of
        None \<Rightarrow> False
      | Some p \<Rightarrow>
          (case pu_key p of
             TextKey _ _ _ \<Rightarrow>
               flush_text_bytes c \<le> (case text_of (pu_message p) of Some t \<Rightarrow> byte_len t | None \<Rightarrow> 0)
           | _ \<Rightarrow> FRAME_BUDGET_BYTES div 2 \<le> size_of env (pu_message p)))"

definition flush_if_full :: "uplink_env \<Rightarrow> string \<Rightarrow> coalescer \<Rightarrow> session_frame list \<times> coalescer" where
  "flush_if_full env identity c = (if is_full env c then flush_run env identity c else ([], c))"

definition push_fresh ::
  "uplink_env \<Rightarrow> string \<Rightarrow> 64 word \<Rightarrow> json \<Rightarrow> coalescer \<Rightarrow> session_frame list \<times> coalescer" where
  "push_fresh env identity cursor update c =
     (let p = \<lparr>pu_first = cursor, pu_last = cursor, pu_message = update, pu_key = merge_key update\<rparr>
      in if pu_key p = AloneKey then (frames_for env identity p, c)
         else flush_if_full env identity (c\<lparr>pending_run := Some p\<rparr>))"

definition coalescer_push ::
  "uplink_env \<Rightarrow> string \<Rightarrow> 64 word \<Rightarrow> json \<Rightarrow> coalescer \<Rightarrow> session_frame list \<times> coalescer" where
  "coalescer_push env identity cursor update c =
     (let flushed_first =
            (let (out, c') = flush_run env identity c;
                 (out', c'') = push_fresh env identity cursor update c'
             in (out @ out', c''))
      in case pending_run c of
           None \<Rightarrow> push_fresh env identity cursor update c
         | Some p \<Rightarrow>
             if pu_key p = merge_key update \<and> merge_key update \<noteq> AloneKey then
               (case merge_into env p update of
                  Some p' \<Rightarrow>
                    flush_if_full env identity (c\<lparr>pending_run := Some (p'\<lparr>pu_last := cursor\<rparr>)\<rparr>)
                | None \<Rightarrow> flushed_first)
             else flushed_first)"

subsection \<open>Permission requests\<close>

definition remotely_answerable :: "string \<Rightarrow> bool" where
  "remotely_answerable k \<longleftrightarrow>
     (case parse_permission_option_kind k of
        Some KindAllowOnce \<Rightarrow> True
      | Some KindRejectOnce \<Rightarrow> True
      | _ \<Rightarrow> False)"

definition question_option_json :: "question_option \<Rightarrow> json" where
  "question_option_json qo =
     JObject ([(''label'', JString (qo_label qo)), (''description'', JString (qo_description qo))] @
       opt_entry ''preview'' JString (qo_preview qo))"

definition question_json :: "question \<Rightarrow> json" where
  "question_json q =
     JObject [(''header'', JString (q_header q)), (''question'', JString (q_question q)),
       (''multiSelect'', JBool (multi_select q)), (''options'', JArray (map question_option_json (q_options q)))]"

definition permission_request_payload :: "uplink_env \<Rightarrow> permission_query \<Rightarrow> json" where
  "permission_request_payload env q =
     (let value = projection env q;
          questions = ask_user_questions_from_permission q;
          answerable = (if questions \<noteq> None then []
            else map po_option_id (filter (\<lambda>p. remotely_answerable (po_kind p)) (query_options q)));
          value = (case json_get ''options'' value of
              Some (JArray options) \<Rightarrow>
                json_insert ''options''
                  (JArray (filter (\<lambda>v. is_some_and (\<lambda>i. i \<in> set answerable) (get_str ''optionId'' v)) options))
                  value
            | _ \<Rightarrow> value);
          (ty, can, answer_with) =
            (if questions \<noteq> None then (''question'', True, ''question_response'')
             else (''permission'', answerable \<noteq> [], ''permission_response''));
          value = (case questions of
              Some qs \<Rightarrow> json_insert ''questions'' (JArray (map question_json qs)) value
            | None \<Rightarrow> value);
          note = JObject [(''kind'', JString ty), (''answerable'', JBool can), (''oneShot'', JBool True),
            (''answerWith'', JString answer_with)]
      in if \<not> is_object value then value
         else
           (case json_get ''_meta'' value of
              None \<Rightarrow> json_insert ''_meta'' (JObject [(''rebonRc'', note)]) value
            | Some meta \<Rightarrow> json_insert ''_meta'' (json_insert ''rebonRc'' note meta) value))"

subsection \<open>The uplink\<close>

datatype uplink_out =
    Frame session_frame
  | Backfill "64 word" "64 word" "64 word"

record pending_prompt =
  pp_request_id :: string
  pp_query_id :: "64 word"

record uplink =
  coalescing :: coalescer
  generation :: string
  identity :: string
  epoch :: "64 word"
  applied_to :: "64 word"
  catch_up :: "64 word option"
  held :: "(64 word \<times> json) list"
  held_bytes :: nat
  last_reported :: "reported option"
  pending_prompt :: "pending_prompt option"
  announced :: "session_frame option"

definition new_uplink :: "nat \<Rightarrow> uplink" where
  "new_uplink flush_bytes =
     \<lparr>coalescing = \<lparr>flush_text_bytes = flush_bytes, pending_run = None\<rparr>, generation = [],
      identity = unannounced [], epoch = 0, applied_to = 0, catch_up = None, held = [], held_bytes = 0,
      last_reported = None, pending_prompt = None, announced = None\<rparr>"

type_synonym uplink_step = "uplink_out list \<times> uplink"

text \<open>Running one method after another.\<close>

definition then_do :: "uplink_step \<Rightarrow> (uplink \<Rightarrow> uplink_step) \<Rightarrow> uplink_step" where
  "then_do s k = (let (out, u) = s; (out', u') = k u in (out @ out', u'))"

definition uplink_flush :: "uplink_env \<Rightarrow> uplink \<Rightarrow> uplink_step" where
  "uplink_flush env u =
     (let (frames, c) = flush_run env (identity u) (coalescing u)
      in (map Frame frames, u\<lparr>coalescing := c\<rparr>))"

definition uplink_observe :: "reported \<Rightarrow> uplink \<Rightarrow> uplink_step" where
  "uplink_observe next u =
     (let (frame, prev) = observe (last_reported u) next
      in (case frame of Some f \<Rightarrow> [Frame f] | None \<Rightarrow> [], u\<lparr>last_reported := prev\<rparr>))"

definition uplink_report :: "uplink_env \<Rightarrow> reported \<Rightarrow> uplink \<Rightarrow> uplink_step" where
  "uplink_report env r u = then_do (uplink_flush env u) (uplink_observe r)"

definition on_attached :: "uplink_env \<Rightarrow> string \<Rightarrow> uplink \<Rightarrow> uplink_step" where
  "on_attached env g u = then_do (uplink_flush env u) (\<lambda>u. ([], u\<lparr>generation := g\<rparr>))"

definition on_detached :: "uplink_env \<Rightarrow> uplink \<Rightarrow> uplink_step" where
  "on_detached env u = uplink_flush env u"

definition announce :: "uplink_env \<Rightarrow> permission_query \<Rightarrow> uplink \<Rightarrow> uplink_step" where
  "announce env q u =
     (let rid = permission_request_id (prompt_digest_of env) q
      in if map_option pp_request_id (pending_prompt u) = Some rid then ([], u)
         else
           let frame = PermissionRequest rid (fitted env (permission_request_payload env q))
           in ([Frame frame],
               u\<lparr>pending_prompt := Some \<lparr>pp_request_id = rid, pp_query_id = query_id q\<rparr>,
                 announced := Some frame\<rparr>))"

definition clear_prompt :: "uplink \<Rightarrow> uplink" where
  "clear_prompt u = u\<lparr>pending_prompt := None, announced := None\<rparr>"

definition apply_status :: "uplink_env \<Rightarrow> status_snapshot \<Rightarrow> uplink \<Rightarrow> uplink_step" where
  "apply_status env s u =
     then_do
       (case pending_permission s of
          Some q \<Rightarrow> announce env q u
        | None \<Rightarrow> ([], clear_prompt u))
       (uplink_observe (reported_for_status s))"

definition on_hello :: "uplink_env \<Rightarrow> 64 word \<Rightarrow> 64 word \<Rightarrow> status_snapshot \<Rightarrow> uplink \<Rightarrow> uplink_step" where
  "on_hello env cursor ep s u =
     then_do
       (if stream_identity ep (generation u) \<noteq> identity u then
          then_do (uplink_flush env u) (\<lambda>u.
            ([], u\<lparr>identity := stream_identity ep (generation u), epoch := ep, applied_to := cursor,
                  catch_up := None, held := [], held_bytes := 0\<rparr>))
        else ([], u))
       (apply_status env s)"

definition coalesce :: "uplink_env \<Rightarrow> 64 word \<Rightarrow> json \<Rightarrow> uplink \<Rightarrow> uplink_step" where
  "coalesce env cursor update u =
     (let (frames, c) = coalescer_push env (identity u) cursor update (coalescing u)
      in (map Frame frames, u\<lparr>applied_to := cursor, coalescing := c\<rparr>))"

definition on_update :: "uplink_env \<Rightarrow> 64 word \<Rightarrow> json \<Rightarrow> uplink \<Rightarrow> uplink_step" where
  "on_update env cursor update u =
     (if catch_up u \<noteq> None then
        ([], u\<lparr>held_bytes := held_bytes u + size_of env update, held := held u @ [(cursor, update)]\<rparr>)
      else if cursor \<le> applied_to u then ([], u)
      else coalesce env cursor update u)"

definition saturating_succ :: "64 word \<Rightarrow> 64 word" where
  "saturating_succ n = (if n = - 1 then n else n + 1)"

definition saturating_pred :: "64 word \<Rightarrow> 64 word" where
  "saturating_pred n = (if n = 0 then 0 else n - 1)"

definition on_gap :: "uplink_env \<Rightarrow> 64 word \<Rightarrow> uplink \<Rightarrow> uplink_step" where
  "on_gap env to u =
     (if to \<le> saturating_succ (applied_to u) then ([], u)
      else
        then_do (uplink_flush env u) (\<lambda>u.
          if epoch u = 0 \<or> catch_up u \<noteq> None then
            ([], if catch_up u = None then u\<lparr>applied_to := to - 1\<rparr> else u)
          else ([Backfill (epoch u) (applied_to u) to], u\<lparr>catch_up := Some to\<rparr>)))"

text \<open>The two loops of \<open>on_backfill\<close>: the lines of the range in order, then the held deltas.\<close>

fun take_lines :: "uplink_env \<Rightarrow> 64 word \<Rightarrow> (64 word \<times> json) list \<Rightarrow> uplink \<Rightarrow> uplink_step" where
  "take_lines env boundary [] u = ([], u)"
| "take_lines env boundary ((cursor, update) # lines) u =
     (if applied_to u < cursor \<and> cursor < boundary then
        then_do (coalesce env cursor update u) (take_lines env boundary lines)
      else take_lines env boundary lines u)"

fun take_held :: "uplink_env \<Rightarrow> (64 word \<times> json) list \<Rightarrow> uplink \<Rightarrow> uplink_step" where
  "take_held env [] u = ([], u)"
| "take_held env ((cursor, update) # deltas) u =
     then_do (on_update env cursor update u) (take_held env deltas)"

definition on_backfill ::
  "uplink_env \<Rightarrow> 64 word \<Rightarrow> (64 word \<times> json) list \<Rightarrow> uplink \<Rightarrow> uplink_step" where
  "on_backfill env boundary lines u =
     (if catch_up u \<noteq> Some boundary then ([], u)
      else
        then_do (take_lines env boundary (sort_key fst lines) u) (\<lambda>u.
        then_do (uplink_flush env (u\<lparr>applied_to := max (applied_to u) (saturating_pred boundary)\<rparr>)) (\<lambda>u.
        take_held env (held u) (u\<lparr>catch_up := None, held_bytes := 0, held := []\<rparr>))))"

definition on_event :: "uplink_env \<Rightarrow> session_event \<Rightarrow> uplink \<Rightarrow> uplink_step" where
  "on_event env e u =
     (case e of
        Hello cursor s ep \<Rightarrow> on_hello env cursor ep s u
      | SessionUpdate cursor update \<Rightarrow> on_update env cursor update u
      | Turn _ t stop_refused \<Rightarrow>
          then_do (uplink_flush env u) (\<lambda>u.
            let u = (if t = TurnIdle then clear_prompt u else u)
            in uplink_observe (reported_for_turn t stop_refused (pending_prompt u \<noteq> None)) u)
      | Status _ s \<Rightarrow> then_do (uplink_flush env u) (apply_status env s)
      | PermissionEvent _ q \<Rightarrow>
          then_do (then_do (uplink_flush env u) (announce env q))
            (uplink_observe (new_reported StateNeedsInput))
      | Gap _ to \<Rightarrow> on_gap env to u)"

definition resend_on_reconnect :: "uplink \<Rightarrow> session_frame list" where
  "resend_on_reconnect u =
     (case announced u of Some f \<Rightarrow> [f] | None \<Rightarrow> []) @
     (case last_reported u of Some r \<Rightarrow> [reported_frame r] | None \<Rightarrow> [])"

text \<open>The calls the pump of \<open>session.rs\<close> makes on an uplink, and a run of them.\<close>

datatype uplink_call =
    Report reported
  | Attached string
  | Detached
  | Event session_event
  | FlushTick
  | BackfillLines "64 word" "(64 word \<times> json) list"

definition uplink_input :: "uplink_env \<Rightarrow> uplink_call \<Rightarrow> uplink \<Rightarrow> uplink_step" where
  "uplink_input env i u =
     (case i of
        Report r \<Rightarrow> uplink_report env r u
      | Attached g \<Rightarrow> on_attached env g u
      | Detached \<Rightarrow> on_detached env u
      | Event e \<Rightarrow> on_event env e u
      | FlushTick \<Rightarrow> uplink_flush env u
      | BackfillLines b lines \<Rightarrow> on_backfill env b lines u)"

fun run_uplink :: "uplink_env \<Rightarrow> uplink_call list \<Rightarrow> uplink \<Rightarrow> uplink_step" where
  "run_uplink env [] u = ([], u)"
| "run_uplink env (i # is) u = then_do (uplink_input env i u) (run_uplink env is)"

end
