(* ===== verification/Uplink_Facts.thy ===== *)
theory Uplink_Facts
  imports Rc_Uplink
begin

text \<open>
  What the uplink guarantees: while the numbering of the stream stays the same, every update that is
  above the watermark is sent exactly once and in order; runs of text chunks are joined and runs of
  updates of one tool call are applied in order.
\<close>

subsection \<open>Text and fields of a run\<close>

lemma json_index_insert:
  "is_object j \<Longrightarrow> json_index (json_insert k v j) k' = (if k' = k then v else json_index j k')"
  by (simp add: json_index_def json_get_insert)

lemma is_object_insert [simp]: "is_object (json_insert k v j) = is_object j"
  by (cases j) (simp_all add: json_insert_def is_object_def)

lemma json_index_object: "json_index j k \<noteq> JNull \<Longrightarrow> is_object j"
  by (cases j) (auto simp: json_index_def json_get_def is_object_def)

lemma text_path:
  assumes "text_of m = Some t"
  shows "is_object m" and "is_object (json_index m ''update'')"
    and "is_object (json_index (json_index m ''update'') ''content'')"
proof -
  let ?u = "json_index m ''update''"
  have "json_index (json_index ?u ''content'') ''text'' = JString t"
    using assms by (simp add: text_of_def as_str_Some)
  then show c: "is_object (json_index ?u ''content'')"
    by (intro json_index_object [of _ "''text''"]) simp
  then have "json_index ?u ''content'' \<noteq> JNull" by (auto simp: is_object_def)
  then show u: "is_object ?u" by (rule json_index_object)
  then have "?u \<noteq> JNull" by (auto simp: is_object_def)
  then show "is_object m" by (rule json_index_object)
qed

lemma text_of_set_text: "text_of m = Some t \<Longrightarrow> text_of (set_text s m) = Some s"
  using text_path [of m t] by (simp add: set_text_def text_of_def Let_def json_index_insert as_str_def)

definition fields_of :: "json \<Rightarrow> string \<Rightarrow> json option" where
  "fields_of update k = json_get k (json_index update ''update'')"

lemma json_get_fold_insert:
  "is_object j \<Longrightarrow> json_get k (fold (\<lambda>(k, v). json_insert k v) kvs j) =
     (case map_of (rev kvs) k of Some v \<Rightarrow> Some v | None \<Rightarrow> json_get k j)"
  by (induction kvs arbitrary: j) (auto simp: json_get_insert map_add_def split: option.splits)

subsection \<open>Runs\<close>

text \<open>What a pending update stands for: the cursors it spans, and its updates as one.\<close>

definition distinct_fields :: "json \<Rightarrow> bool" where
  "distinct_fields x = (case json_index x ''update'' of JObject kvs \<Rightarrow> distinct (map fst kvs) | _ \<Rightarrow> True)"

definition run_carries :: "pending_update \<Rightarrow> (64 word \<times> json) list \<Rightarrow> bool" where
  "run_carries p g \<longleftrightarrow>
     g \<noteq> [] \<and> pu_first p = fst (hd g) \<and> pu_last p = fst (last g) \<and>
     list_all (\<lambda>(_, x). merge_key x = pu_key p) g \<and>
     (case pu_key p of
        TextKey _ _ _ \<Rightarrow> text_of (pu_message p) = Some (concat (map (\<lambda>(_, x). the (text_of x)) g))
      | ToolCallKey _ _ _ \<Rightarrow>
          is_object (pu_message p) \<and> is_object (json_index (pu_message p) ''update'') \<and>
          (list_all (\<lambda>(_, x). distinct_fields x) g \<longrightarrow>
            fields_of (pu_message p) = fold (\<lambda>(_, x) m. m ++ fields_of x) g Map.empty)
      | AloneKey \<Rightarrow> g = [(pu_first p, pu_message p)])"

lemma merge_key_text: "merge_key x = TextKey k a b \<Longrightarrow> \<exists>t. text_of x = Some t"
  by (auto simp: merge_key_def Let_def split: option.splits if_splits)

lemma merge_key_tool:
  assumes "merge_key x = ToolCallKey k a b"
  shows "is_object x \<and> is_object (json_index x ''update'')"
proof -
  have "\<exists>s. get_str ''sessionUpdate'' (json_index x ''update'') = Some s"
    using assms by (auto simp: merge_key_def Let_def split: option.splits)
  then have u: "is_object (json_index x ''update'')" using get_str_object by blast
  then have "json_index x ''update'' \<noteq> JNull" by (auto simp: is_object_def)
  with u show ?thesis using json_index_object by blast
qed

lemma fresh_run_carries:
  "run_carries \<lparr>pu_first = c, pu_last = c, pu_message = x, pu_key = merge_key x\<rparr> [(c, x)]"
proof (cases "merge_key x")
  case (TextKey k a b)
  then show ?thesis using merge_key_text [OF TextKey] by (auto simp: run_carries_def)
next
  case (ToolCallKey k a b)
  then show ?thesis using merge_key_tool [OF ToolCallKey] by (simp add: run_carries_def)
qed (simp add: run_carries_def)

lemma is_object_fold [simp]: "is_object (fold (\<lambda>(k, v). json_insert k v) es j) = is_object j"
  by (induction es arbitrary: j) (simp_all add: case_prod_beta)

lemma fields_of_merge:
  assumes "merge_fields m x = Some m'" and "is_object m"
  shows "is_object m' \<and> is_object (json_index m' ''update'') \<and>
    (distinct_fields x \<longrightarrow> fields_of m' = fields_of m ++ fields_of x)"
proof -
  obtain kvs where o1: "json_index m ''update'' = JObject kvs"
    using assms(1) by (cases "json_index m ''update''") (simp_all add: merge_fields_def as_object_def)
  obtain src where o2: "json_index x ''update'' = JObject src"
    using assms(1) o1
    by (cases "json_index x ''update''") (simp_all add: merge_fields_def as_object_def)
  have m': "m' = json_insert ''update'' (fold (\<lambda>(k, v). json_insert k v) src (JObject kvs)) m"
    using assms(1) by (simp add: merge_fields_def o1 o2)
  note o = o1 o2
  have obj: "is_object (JObject kvs)" by (simp add: is_object_def)
  have "fields_of m' = fields_of m ++ fields_of x" if "distinct_fields x"
  proof
    fix k
    have "map_of (rev src) = map_of src"
      using that o(2) by (simp add: distinct_fields_def map_of_inject_set rev_map [symmetric])
    moreover have "fields_of m' k = (case map_of (rev src) k of Some v \<Rightarrow> Some v
        | None \<Rightarrow> json_get k (JObject kvs))"
      unfolding m' fields_of_def using assms(2) obj
      by (simp add: json_index_insert json_get_fold_insert)
    moreover have "fields_of m k = json_get k (JObject kvs)" "fields_of x k = map_of src k"
      by (simp_all add: fields_of_def o json_get_def)
    ultimately show "fields_of m' k = (fields_of m ++ fields_of x) k"
      by (simp add: map_add_def split: option.split)
  qed
  with assms(2) obj show ?thesis by (simp add: m' json_index_insert)
qed

lemma merged_run_carries:
  assumes "run_carries p g" and "merge_key x = pu_key p" and "merge_into env p x = Some p'"
  shows "run_carries (p'\<lparr>pu_last := c\<rparr>) (g @ [(c, x)])"
proof (cases "pu_key p")
  case (TextKey k a b)
  with assms(3) obtain t t' where t: "text_of x = Some t" "text_of (pu_message p) = Some t'"
    and p': "p' = p\<lparr>pu_message := set_text (t' @ t) (pu_message p)\<rparr>"
    by (auto simp: merge_into_def split: option.splits)
  with assms(1,2) TextKey text_of_set_text [OF t(2)] show ?thesis
    by (simp add: run_carries_def)
next
  case (ToolCallKey k a b)
  with assms(3) obtain m' where m: "merge_fields (pu_message p) x = Some m'"
    and p': "p' = p\<lparr>pu_message := m'\<rparr>"
    by (auto simp: merge_into_def split: if_splits)
  with assms(1,2) ToolCallKey fields_of_merge [OF m] show ?thesis
    by (simp add: run_carries_def)
next
  case AloneKey
  with assms(3) show ?thesis by (simp add: merge_into_def)
qed

subsection \<open>The coalescer\<close>

definition waiting :: "coalescer \<Rightarrow> (64 word \<times> json) list \<Rightarrow> bool" where
  "waiting c g \<longleftrightarrow>
     (case pending_run c of None \<Rightarrow> g = [] | Some p \<Rightarrow> run_carries p g)"

type_synonym run = "pending_update \<times> (64 word \<times> json) list"

definition run_frames :: "uplink_env \<Rightarrow> string \<Rightarrow> run list \<Rightarrow> session_frame list" where
  "run_frames env ident runs = concat (map (\<lambda>(p, _). frames_for env ident p) runs)"

lemma run_frames_simps [simp]:
  "run_frames env ident [] = []"
  "run_frames env ident (r # runs) = frames_for env ident (fst r) @ run_frames env ident runs"
  "run_frames env ident (runs @ runs') = run_frames env ident runs @ run_frames env ident runs'"
  by (simp_all add: run_frames_def case_prod_beta)

abbreviation runs_ok :: "run list \<Rightarrow> bool" where
  "runs_ok runs \<equiv> list_all (\<lambda>(p, g). run_carries p g) runs"

text \<open>\<open>moves\<close>: what was waiting and what came in leave as the frames of whole runs, in order, or
  wait.\<close>

definition moves ::
  "uplink_env \<Rightarrow> string \<Rightarrow> coalescer \<Rightarrow> (64 word \<times> json) list \<Rightarrow> session_frame list \<times> coalescer \<Rightarrow> bool" where
  "moves env ident c us s \<longleftrightarrow>
     (\<forall>g. waiting c g \<longrightarrow>
       (\<exists>runs g'. fst s = run_frames env ident runs \<and> runs_ok runs \<and> waiting (snd s) g' \<and>
          concat (map snd runs) @ g' = g @ us))"

lemma movesI:
  "(\<And>g. waiting c g \<Longrightarrow> \<exists>runs g'. fst s = run_frames env ident runs \<and> runs_ok runs \<and>
     waiting (snd s) g' \<and> concat (map snd runs) @ g' = g @ us) \<Longrightarrow> moves env ident c us s"
  by (simp add: moves_def)

lemma moves_flush: "moves env ident c [] (flush_run env ident c)"
proof (rule movesI)
  fix g
  assume w: "waiting c g"
  show "\<exists>runs g'. fst (flush_run env ident c) = run_frames env ident runs \<and> runs_ok runs \<and>
      waiting (snd (flush_run env ident c)) g' \<and> concat (map snd runs) @ g' = g @ []"
  proof (cases "pending_run c")
    case None
    with w show ?thesis
      by (intro exI [of _ "[]"]) (simp add: flush_run_def waiting_def)
  next
    case (Some p)
    with w show ?thesis
      by (intro exI [of _ "[(p, g)]"] exI [of _ "[]"]) (simp add: flush_run_def waiting_def)
  qed
qed

lemma moves_trans:
  assumes "moves env ident c us (out, c')" and "moves env ident c' vs (out', c'')"
  shows "moves env ident c (us @ vs) (out @ out', c'')"
proof (rule movesI)
  fix g
  assume "waiting c g"
  then obtain runs g' where r: "out = run_frames env ident runs" "runs_ok runs" "waiting c' g'"
      "concat (map snd runs) @ g' = g @ us"
    using assms(1) by (auto simp: moves_def)
  then obtain runs' g'' where r': "out' = run_frames env ident runs'" "runs_ok runs'" "waiting c'' g''"
      "concat (map snd runs') @ g'' = g' @ vs"
    using assms(2) by (auto simp: moves_def)
  have "concat (map snd (runs @ runs')) @ g'' = g @ us @ vs"
    using r(4) r'(4) by (metis append.assoc concat_append map_append)
  with r r' show "\<exists>runs g'. fst (out @ out', c'') = run_frames env ident runs \<and> runs_ok runs \<and>
      waiting (snd (out @ out', c'')) g' \<and> concat (map snd runs) @ g' = g @ us @ vs"
    by (intro exI [of _ "runs @ runs'"] exI [of _ g'']) simp
qed

lemma moves_if_full:
  assumes "\<And>g. waiting c g \<Longrightarrow> waiting c' (g @ us)"
  shows "moves env ident c us (flush_if_full env ident c')"
proof (cases "is_full env c'")
  case True
  have "moves env ident c us ([], c')"
    using assms by (intro movesI) (auto intro: exI [of _ "[]"])
  from moves_trans [OF this, of "[]" "fst (flush_run env ident c')" "snd (flush_run env ident c')"]
    moves_flush [of env ident c'] True
  show ?thesis by (simp add: flush_if_full_def)
next
  case False
  with assms show ?thesis
    by (intro movesI) (auto simp: flush_if_full_def intro: exI [of _ "[]"])
qed

lemma moves_fresh:
  assumes "pending_run c = None"
  shows "moves env ident c [(n, x)] (push_fresh env ident n x c)"
proof -
  let ?p = "\<lparr>pu_first = n, pu_last = n, pu_message = x, pu_key = merge_key x\<rparr>"
  note f = fresh_run_carries [of n x]
  show ?thesis
  proof (cases "merge_key x = AloneKey")
    case True
    have "moves env ident c [(n, x)] (frames_for env ident ?p, c)"
      using assms f
      by (intro movesI exI [of _ "[(?p, [(n, x)])]"] exI [of _ "[]"]) (simp add: waiting_def)
    with True show ?thesis by (simp add: push_fresh_def)
  next
    case False
    have "waiting (c\<lparr>pending_run := Some ?p\<rparr>) (g @ [(n, x)])" if "waiting c g" for g
      using that assms f by (simp add: waiting_def)
    from moves_if_full [OF this] False show ?thesis by (simp add: push_fresh_def)
  qed
qed

lemma moves_push: "moves env ident c [(n, x)] (coalescer_push env ident n x c)"
proof (cases "pending_run c")
  case None
  then show ?thesis using moves_fresh by (simp add: coalescer_push_def Let_def)
next
  case (Some p)
  let ?flushed = "let (out, c') = flush_run env ident c;
                 (out', c'') = push_fresh env ident n x c'
             in (out @ out', c'')"
  have fl: "moves env ident c [(n, x)] ?flushed"
  proof -
    let ?c' = "snd (flush_run env ident c)"
    have "moves env ident ?c' [(n, x)] (push_fresh env ident n x ?c')"
      by (rule moves_fresh) (simp add: flush_run_def)
    with moves_flush [of env ident c] show ?thesis
      using moves_trans [of env ident c "[]" "fst (flush_run env ident c)" ?c' "[(n, x)]"
          "fst (push_fresh env ident n x ?c')" "snd (push_fresh env ident n x ?c')"]
      by (simp add: case_prod_beta)
  qed
  show ?thesis
  proof (cases "pu_key p = merge_key x \<and> merge_key x \<noteq> AloneKey \<and> merge_into env p x \<noteq> None")
    case False
    with fl Some show ?thesis by (auto simp: coalescer_push_def Let_def)
  next
    case True
    then obtain p' where p': "merge_into env p x = Some p'" by blast
    have "waiting (c\<lparr>pending_run := Some (p'\<lparr>pu_last := n\<rparr>)\<rparr>) (g @ [(n, x)])" if "waiting c g" for g
      using that Some merged_run_carries [of p g x env p' n] p' True by (simp add: waiting_def)
    from moves_if_full [OF this] True p' Some show ?thesis by (simp add: coalescer_push_def Let_def)
  qed
qed

subsection \<open>The updates an uplink takes\<close>

text \<open>The specification of the watermark: of a list of updates those are taken whose cursor is above
  every one before.\<close>

fun above_mark :: "64 word \<Rightarrow> (64 word \<times> json) list \<Rightarrow> (64 word \<times> json) list" where
  "above_mark w [] = []"
| "above_mark w ((c, x) # us) = (if w < c then (c, x) # above_mark c us else above_mark w us)"

definition mark_after :: "64 word \<Rightarrow> (64 word \<times> json) list \<Rightarrow> 64 word" where
  "mark_after w us = (if us = [] then w else fst (last us))"

definition taken_of_backfill ::
  "64 word \<Rightarrow> (64 word \<times> json) list \<Rightarrow> uplink \<Rightarrow> (64 word \<times> json) list" where
  "taken_of_backfill b lines u =
     (let back = above_mark (applied_to u) (filter (\<lambda>(c, _). c < b) (sort_key fst lines))
      in back @ above_mark (max (mark_after (applied_to u) back) (saturating_pred b)) (held u))"

definition taken_now :: "uplink_call \<Rightarrow> uplink \<Rightarrow> (64 word \<times> json) list" where
  "taken_now i u =
     (case i of
        Event (SessionUpdate c x) \<Rightarrow> if catch_up u \<noteq> None then [] else above_mark (applied_to u) [(c, x)]
      | BackfillLines b lines \<Rightarrow> if catch_up u \<noteq> Some b then [] else taken_of_backfill b lines u
      | _ \<Rightarrow> [])"

fun taken :: "uplink_env \<Rightarrow> uplink_call list \<Rightarrow> uplink \<Rightarrow> (64 word \<times> json) list" where
  "taken env [] u = []"
| "taken env (i # is) u = taken_now i u @ taken env is (snd (uplink_input env i u))"

fun steady :: "uplink_env \<Rightarrow> uplink_call list \<Rightarrow> uplink \<Rightarrow> bool" where
  "steady env [] u \<longleftrightarrow> True"
| "steady env (i # is) u \<longleftrightarrow>
     identity (snd (uplink_input env i u)) = identity u \<and> steady env is (snd (uplink_input env i u))"

lemma mark_after_Cons [simp]: "mark_after w ((c, x) # us) = mark_after c us"
  by (simp add: mark_after_def)

lemma above_mark_sorted:
  "sorted_wrt (<) (map fst (above_mark w us)) \<and> list_all (\<lambda>(c, _). w < c) (above_mark w us)"
proof (induction w us rule: above_mark.induct)
  case (2 w c x us)
  then show ?case by (fastforce simp: list_all_iff)
qed simp

lemma mark_after_above: "w \<le> mark_after w (above_mark w us) \<and> list_all (\<lambda>(c, _). c \<le> mark_after w (above_mark w us)) (above_mark w us)"
proof (induction w us rule: above_mark.induct)
  case (2 w c x us)
  then show ?case by (auto simp: list_all_iff)
qed (simp add: mark_after_def)

subsection \<open>Steps that relay\<close>

definition messages_of :: "uplink_out list \<Rightarrow> session_frame list" where
  "messages_of outs =
     concat (map (\<lambda>out. case out of Frame (SessionMessage i m) \<Rightarrow> [SessionMessage i m] | _ \<Rightarrow> []) outs)"

lemma messages_of_simps [simp]:
  "messages_of [] = []" "messages_of (xs @ ys) = messages_of xs @ messages_of ys"
  by (simp_all add: messages_of_def)

lemma messages_of_frames_for: "messages_of (map Frame (frames_for env ident p)) = frames_for env ident p"
proof -
  have "messages_of (map (\<lambda>x. Frame (message_with_id (f x) (m x))) xs) =
      map (\<lambda>x. message_with_id (f x) (m x)) xs" for f m and xs :: "(nat \<times> string) list"
    by (induction xs) (simp_all add: messages_of_def message_with_id_def)
  then show ?thesis
    by (simp add: frames_for_def Let_def o_def case_prod_beta)
      (simp add: messages_of_def message_with_id_def)
qed

lemma messages_of_run_frames [simp]: "messages_of (map Frame (run_frames env ident runs)) = run_frames env ident runs"
  by (induction runs) (simp_all add: messages_of_frames_for)

definition relays :: "uplink_env \<Rightarrow> uplink \<Rightarrow> (64 word \<times> json) list \<Rightarrow> uplink_step \<Rightarrow> bool" where
  "relays env u us s \<longleftrightarrow>
     identity (snd s) = identity u \<and>
     applied_to u \<le> applied_to (snd s) \<and>
     sorted_wrt (<) (map fst us) \<and>
     list_all (\<lambda>(c, _). applied_to u < c \<and> c \<le> applied_to (snd s)) us \<and>
     moves env (identity u) (coalescing u) us (messages_of (fst s), coalescing (snd s))"

lemma moves_none: "moves env ident c [] ([], c)"
  by (rule movesI) (auto intro: exI [of _ "[]"])

lemma relays_silent:
  assumes "messages_of out = []" "coalescing u' = coalescing u" "identity u' = identity u"
    and "applied_to u \<le> applied_to u'"
  shows "relays env u [] (out, u')"
  using assms by (simp add: relays_def moves_none)

lemma relays_cong:
  "relays env u us s \<Longrightarrow> identity u = identity v \<Longrightarrow> applied_to u = applied_to v \<Longrightarrow>
     coalescing u = coalescing v \<Longrightarrow> relays env v us s"
  by (simp add: relays_def)

lemma relays_then:
  assumes "relays env u us s" and "relays env (snd s) vs (k (snd s))"
  shows "relays env u (us @ vs) (then_do s k)"
proof -
  obtain out u' where s: "s = (out, u')" by (cases s)
  obtain out' u'' where k: "k u' = (out', u'')" by (cases "k u'")
  have le: "applied_to u \<le> applied_to u'" "applied_to u' \<le> applied_to u''"
    and ident: "identity u' = identity u" "identity u'' = identity u"
    and us: "sorted_wrt (<) (map fst us)" "\<forall>(c, _) \<in> set us. applied_to u < c \<and> c \<le> applied_to u'"
    and vs: "sorted_wrt (<) (map fst vs)" "\<forall>(c, _) \<in> set vs. applied_to u' < c \<and> c \<le> applied_to u''"
    using assms s k by (simp_all add: relays_def list_all_iff)
  have "moves env (identity u) (coalescing u) (us @ vs) (messages_of out @ messages_of out', coalescing u'')"
    using assms s k ident by (intro moves_trans) (auto simp: relays_def)
  moreover have "sorted_wrt (<) (map fst us @ map fst vs)"
    using us vs by (fastforce simp: sorted_wrt_append)
  moreover have "\<forall>(c, _) \<in> set us \<union> set vs. applied_to u < c \<and> c \<le> applied_to u''"
    using us(2) vs(2) le by fastforce
  ultimately show ?thesis
    using ident le by (simp add: relays_def then_do_def s k list_all_iff ball_Un)
qed

lemma relays_then_silent:
  "relays env u us s \<Longrightarrow> relays env (snd s) [] (k (snd s)) \<Longrightarrow> relays env u us (then_do s k)"
  using relays_then [of env u us s "[]" k] by simp

lemma flush_fields:
  "identity (snd (uplink_flush env u)) = identity u" "applied_to (snd (uplink_flush env u)) = applied_to u"
  "catch_up (snd (uplink_flush env u)) = catch_up u" "held (snd (uplink_flush env u)) = held u"
  "generation (snd (uplink_flush env u)) = generation u" "epoch (snd (uplink_flush env u)) = epoch u"
  "coalescing (snd (uplink_flush env u)) = snd (flush_run env (identity u) (coalescing u))"
  "pending_prompt (snd (uplink_flush env u)) = pending_prompt u"
  "announced (snd (uplink_flush env u)) = announced u"
  by (simp_all add: uplink_flush_def case_prod_beta)

lemma moves_messages:
  "moves env ident c us s \<Longrightarrow> waiting c g \<Longrightarrow> messages_of (map Frame (fst s)) = fst s"
  by (auto simp: moves_def)

lemma flush_messages: "messages_of (map Frame (fst (flush_run env ident c))) = fst (flush_run env ident c)"
  by (simp add: flush_run_def messages_of_frames_for split: option.split)

lemma relays_flush: "relays env u [] (uplink_flush env u)"
  using moves_flush [of env "identity u" "coalescing u"]
  by (simp add: relays_def flush_fields) (simp add: uplink_flush_def case_prod_beta flush_messages)

lemma relays_observe: "relays env u [] (uplink_observe r u)"
  by (auto simp: uplink_observe_def observe_def reported_frame_def messages_of_def intro!: relays_silent)

lemma relays_announce: "relays env u [] (announce env q u)"
  by (auto simp: announce_def Let_def messages_of_def intro!: relays_silent)

lemma relays_status: "relays env u [] (apply_status env s u)"
  unfolding apply_status_def
  by (rule relays_then_silent)
    (auto simp: clear_prompt_def relays_announce relays_observe intro: relays_silent split: option.split)

text \<open>The updates of one list, one after another.\<close>

fun coalesce_all :: "uplink_env \<Rightarrow> (64 word \<times> json) list \<Rightarrow> uplink \<Rightarrow> uplink_step" where
  "coalesce_all env [] u = ([], u)"
| "coalesce_all env ((c, x) # us) u = then_do (coalesce env c x u) (coalesce_all env us)"

lemma coalesce_fields [simp]:
  "identity (snd (coalesce env c x u)) = identity u" "applied_to (snd (coalesce env c x u)) = c"
  "catch_up (snd (coalesce env c x u)) = catch_up u" "held (snd (coalesce env c x u)) = held u"
  by (simp_all add: coalesce_def case_prod_beta)

lemma snd_then_do [simp]: "snd (then_do s k) = snd (k (snd s))"
  by (simp add: then_do_def case_prod_beta)

lemma fst_then_do [simp]: "fst (then_do s k) = fst s @ fst (k (snd s))"
  by (simp add: then_do_def case_prod_beta)

lemma coalesce_all_fields [simp]:
  "identity (snd (coalesce_all env us u)) = identity u"
  "applied_to (snd (coalesce_all env us u)) = mark_after (applied_to u) us"
  "catch_up (snd (coalesce_all env us u)) = catch_up u" "held (snd (coalesce_all env us u)) = held u"
  by (induction env us u rule: coalesce_all.induct) (simp_all add: mark_after_def)

lemma push_messages:
  "messages_of (map Frame (fst (coalescer_push env ident c x k))) = fst (coalescer_push env ident c x k)"
proof -
  have f: "messages_of (map Frame (fst (flush_if_full env ident k))) = fst (flush_if_full env ident k)" for k
    by (simp add: flush_if_full_def flush_messages)
  have p: "messages_of (map Frame (fst (push_fresh env ident c x k))) = fst (push_fresh env ident c x k)" for k
    by (simp add: push_fresh_def Let_def f messages_of_frames_for)
  show ?thesis
    by (simp add: coalescer_push_def Let_def case_prod_beta f p flush_messages split: option.split)
qed

lemma relays_coalesce: "applied_to u < c \<Longrightarrow> relays env u [(c, x)] (coalesce env c x u)"
  using moves_push [of env "identity u" "coalescing u" c x]
  by (simp add: relays_def) (simp add: coalesce_def case_prod_beta push_messages)

lemma relays_coalesce_all:
  "sorted_wrt (<) (map fst us) \<Longrightarrow> list_all (\<lambda>(c, _). applied_to u < c) us \<Longrightarrow>
     relays env u us (coalesce_all env us u)"
proof (induction env us u rule: coalesce_all.induct)
  case (1 env u)
  then show ?case by (simp add: relays_silent)
next
  case (2 env c x us u)
  have "relays env (snd (coalesce env c x u)) us (coalesce_all env us (snd (coalesce env c x u)))"
    by (rule 2(1)) (use 2(2,3) in \<open>force simp: list_all_iff\<close>)+
  moreover have "relays env u [(c, x)] (coalesce env c x u)"
    using 2(3) by (intro relays_coalesce) simp
  ultimately have "relays env u ([(c, x)] @ us) (then_do (coalesce env c x u) (coalesce_all env us))"
    by (intro relays_then)
  then show ?case by simp
qed

lemma relays_above_mark: "relays env u (above_mark (applied_to u) us) (coalesce_all env (above_mark (applied_to u) us) u)"
  using above_mark_sorted [of "applied_to u" us] by (intro relays_coalesce_all) auto

lemma take_lines_above_mark:
  "take_lines env b lines u = coalesce_all env (above_mark (applied_to u) (filter (\<lambda>(c, _). c < b) lines)) u"
  by (induction env b lines u rule: take_lines.induct) (auto simp: then_do_def case_prod_beta)

lemma take_held_above_mark:
  "catch_up u = None \<Longrightarrow> take_held env ds u = coalesce_all env (above_mark (applied_to u) ds) u"
proof (induction env ds u rule: take_held.induct)
  case (2 env c x ds u)
  then show ?case
    by (auto simp: on_update_def then_do_def case_prod_beta)
qed simp

lemma relays_update:
  "relays env u (if catch_up u \<noteq> None then [] else above_mark (applied_to u) [(c, x)]) (on_update env c x u)"
  by (auto simp: on_update_def not_le intro: relays_silent relays_coalesce)

lemma relays_backfill:
  "relays env u (if catch_up u \<noteq> Some b then [] else taken_of_backfill b lines u) (on_backfill env b lines u)"
proof (cases "catch_up u = Some b")
  case False
  then show ?thesis by (simp add: on_backfill_def relays_silent)
next
  case True
  let ?missed = "above_mark (applied_to u) (filter (\<lambda>(c, _). c < b) (sort_key fst lines))"
  let ?u1 = "snd (coalesce_all env ?missed u)"
  let ?u2 = "?u1\<lparr>applied_to := max (applied_to ?u1) (saturating_pred b)\<rparr>"
  let ?u3 = "snd (uplink_flush env ?u2)"
  let ?u4 = "?u3\<lparr>catch_up := None, held_bytes := 0, held := []\<rparr>"
  have h: "held ?u3 = held u" and a: "applied_to ?u4 = max (mark_after (applied_to u) ?missed) (saturating_pred b)"
    by (simp_all add: flush_fields)
  have eq: "on_backfill env b lines u =
      then_do (coalesce_all env ?missed u) (\<lambda>u.
      then_do (uplink_flush env (u\<lparr>applied_to := max (applied_to u) (saturating_pred b)\<rparr>)) (\<lambda>u.
        take_held env (held u) (u\<lparr>catch_up := None, held_bytes := 0, held := []\<rparr>)))"
    using True by (simp add: on_backfill_def take_lines_above_mark)
  have r2: "relays env ?u1 [] (uplink_flush env ?u2)"
    using relays_flush [of env ?u2] by (simp add: relays_def flush_fields)
  have "relays env ?u4 (above_mark (applied_to ?u4) (held u)) (take_held env (held u) ?u4)"
    by (subst take_held_above_mark) (simp, rule relays_above_mark)
  then have "relays env ?u3 (above_mark (applied_to ?u4) (held u)) (take_held env (held u) ?u4)"
    by (rule relays_cong) simp_all
  then have r3: "relays env ?u3 (above_mark (max (mark_after (applied_to u) ?missed) (saturating_pred b)) (held u))
      (take_held env (held ?u3) ?u4)"
    by (simp only: h a)
  have "relays env ?u1 ([] @ above_mark (max (mark_after (applied_to u) ?missed) (saturating_pred b)) (held u))
      (then_do (uplink_flush env ?u2) (\<lambda>u. take_held env (held u) (u\<lparr>catch_up := None, held_bytes := 0, held := []\<rparr>)))"
    using r2 r3 by (rule relays_then)
  then have "relays env u (?missed @ [] @ above_mark (max (mark_after (applied_to u) ?missed) (saturating_pred b)) (held u))
      (on_backfill env b lines u)"
    unfolding eq by (rule relays_then [OF relays_above_mark])
  then show ?thesis using True by (simp add: taken_of_backfill_def Let_def)
qed

lemma saturating_succ_below:
  assumes "saturating_succ w < to"
  shows "w \<le> to - 1"
proof (cases "w = - 1")
  case True
  with assms show ?thesis by (simp add: saturating_succ_def)
next
  case False
  then have "unat w \<noteq> 2 ^ 64 - 1"
    using word_unat_eq_iff [of w "- 1"] by (simp add: unsigned_minus_1_eq_mask mask_eq_exp_minus_1)
  then have "unat (w + 1) = Suc (unat w)"
    using unsigned_less [of w, where ?'a = nat] by (simp add: unat_word_ariths)
  moreover have "unat (w + 1) < unat to"
    using assms False by (simp add: saturating_succ_def word_less_nat_alt)
  moreover from this have "to \<noteq> 0" by auto
  ultimately show ?thesis by (simp add: word_le_nat_alt unat_minus_one)
qed

lemma relays_gap: "relays env u [] (on_gap env to u)"
proof (cases "to \<le> saturating_succ (applied_to u)")
  case True
  then show ?thesis by (simp add: on_gap_def relays_silent)
next
  case False
  let ?k = "\<lambda>u. if epoch u = 0 \<or> catch_up u \<noteq> None then
            ([], if catch_up u = None then u\<lparr>applied_to := to - 1\<rparr> else u)
          else ([Backfill (epoch u) (applied_to u) to], u\<lparr>catch_up := Some to\<rparr>)"
  have "applied_to u \<le> to - 1"
    using False by (intro saturating_succ_below) simp
  then have "relays env (snd (uplink_flush env u)) [] (?k (snd (uplink_flush env u)))"
    by (cases "epoch u = 0"; cases "catch_up u")
      (simp_all add: flush_fields relays_silent messages_of_def)
  with relays_flush [of env u] have "relays env u [] (then_do (uplink_flush env u) ?k)"
    by (rule relays_then_silent)
  with False show ?thesis by (simp add: on_gap_def)
qed

lemma hello_identity: "identity (snd (on_hello env c ep s u)) = stream_identity ep (generation u)"
proof -
  have "identity (snd (apply_status env s v)) = identity v" for v
    using relays_status [of env v s] by (simp add: relays_def)
  then show ?thesis by (simp add: on_hello_def flush_fields)
qed

lemma relays_hello:
  "identity (snd (on_hello env c ep s u)) = identity u \<Longrightarrow> relays env u [] (on_hello env c ep s u)"
  unfolding hello_identity
  by (simp add: on_hello_def) (simp add: then_do_def case_prod_beta relays_status)

lemma relays_event:
  assumes "identity (snd (on_event env e u)) = identity u"
  shows "relays env u (taken_now (Event e) u) (on_event env e u)"
proof (cases e)
  case (Turn c t r)
  have "relays env v [] (uplink_observe x (if t = TurnIdle then clear_prompt v else v))" for v x
    using relays_observe [of env "if t = TurnIdle then clear_prompt v else v" x]
    by (auto simp: relays_def clear_prompt_def split: if_splits)
  with Turn show ?thesis
    by (auto simp: on_event_def taken_now_def Let_def intro!: relays_then_silent relays_flush)
next
  case (PermissionEvent c q)
  then show ?thesis
    by (auto simp: on_event_def taken_now_def
        intro!: relays_then_silent relays_flush relays_announce relays_observe)
next
  case (SessionUpdate c x)
  with relays_update [of env u c x] show ?thesis by (simp add: on_event_def taken_now_def)
qed (use assms in \<open>auto simp: on_event_def taken_now_def relays_gap relays_hello
      intro!: relays_then_silent relays_flush relays_status\<close>)

lemma relays_input:
  assumes "identity (snd (uplink_input env i u)) = identity u"
  shows "relays env u (taken_now i u) (uplink_input env i u)"
proof (cases i)
  case (Attached g)
  then show ?thesis
    by (auto simp: uplink_input_def taken_now_def on_attached_def
        intro!: relays_then_silent relays_flush relays_silent)
next
  case (Event e)
  with assms relays_event [of env e u] show ?thesis by (simp add: uplink_input_def)
next
  case (BackfillLines b lines)
  with relays_backfill [of env u b lines] show ?thesis by (simp add: uplink_input_def taken_now_def)
qed (use assms in \<open>auto simp: uplink_input_def taken_now_def uplink_report_def on_detached_def
      relays_flush intro!: relays_then_silent relays_observe\<close>)

lemma relays_run: "steady env is u \<Longrightarrow> relays env u (taken env is u) (run_uplink env is u)"
proof (induction env "is" u rule: run_uplink.induct)
  case (2 env i "is" u)
  then show ?case by (simp add: relays_then relays_input)
qed (simp add: relays_silent)

subsection \<open>Every update once, in order\<close>

lemma relays_run_flush:
  "steady env is u \<Longrightarrow> relays env u (taken env is u) (then_do (run_uplink env is u) (uplink_flush env))"
  using relays_run relays_flush by (rule relays_then_silent)

lemma sent_runs:
  assumes "pending_run (coalescing u) = None" and "steady env is u"
  obtains runs where "concat (map snd runs) = taken env is u" "runs_ok runs"
    "messages_of (fst (then_do (run_uplink env is u) (uplink_flush env))) = run_frames env (identity u) runs"
proof -
  let ?s = "then_do (run_uplink env is u) (uplink_flush env)"
  have "waiting (coalescing u) []" using assms(1) by (simp add: waiting_def)
  with relays_run_flush [OF assms(2)] obtain runs g where
    "messages_of (fst ?s) = run_frames env (identity u) runs" "runs_ok runs"
    "waiting (coalescing (snd ?s)) g" "concat (map snd runs) @ g = taken env is u"
    unfolding relays_def moves_def by force
  moreover from this(3) have "g = []" by (simp add: flush_fields flush_run_def waiting_def)
  ultimately show thesis using that by simp
qed

lemma taken_sorted: "steady env is u \<Longrightarrow> sorted_wrt (<) (map fst (taken env is u))"
  using relays_run by (simp add: relays_def)

text \<open>C23. While the numbering of the stream stays the same, whatever mix of live updates, repeats after
  a reconnect, gaps and backfills arrives: the updates above the watermark, in increasing order of
  their cursors, fall into runs of consecutive updates, and the messages sent are the frames of
  those runs, in order. A run of text chunks carries their texts joined, a run of updates of one
  tool call the fields that applying them in order leaves, any other update itself.\<close>

theorem updates_are_sent_once_in_order:
  assumes "pending_run (coalescing u) = None" and "steady env is u"
  shows "sorted_wrt (<) (map fst (taken env is u)) \<and>
    (\<exists>runs. concat (map snd runs) = taken env is u \<and> runs_ok runs \<and>
       messages_of (fst (then_do (run_uplink env is u) (uplink_flush env))) =
         run_frames env (identity u) runs)"
  using sent_runs [OF assms] taken_sorted [OF assms(2)] by metis

definition demo_env :: uplink_env where
  "demo_env =
     \<lparr>projection = (\<lambda>_. JObject []), prompt_digest_of = (\<lambda>_. ''d''), size_of = (\<lambda>_. 1), marker_of = (\<lambda>_. ''~'')\<rparr>"

definition demo_chunk :: "string \<Rightarrow> json" where
  "demo_chunk t =
     JObject [(''sessionId'', JString ''s''),
       (''update'', JObject [(''sessionUpdate'', JString ''agent_message_chunk''),
         (''content'', JObject [(''type'', JString ''text''), (''text'', JString t)])])]"

definition demo_inputs :: "uplink_call list" where
  "demo_inputs = [Event (SessionUpdate 1 (demo_chunk ''a'')), Event (SessionUpdate 2 (demo_chunk ''b'')),
     Event (SessionUpdate 1 (demo_chunk ''a''))]"

lemmas demo_run_simps =
  demo_inputs_def demo_env_def demo_chunk_def new_uplink_def unannounced_def taken_now_def
  uplink_input_def on_event_def on_update_def coalesce_def coalescer_push_def push_fresh_def
  flush_if_full_def is_full_def flush_run_def uplink_flush_def merge_key_def text_of_def
  merge_into_def set_text_def json_index_def json_get_def json_insert_def as_str_def TEXT_CHUNKS_def
  then_do_def messages_of_def frames_for_def message_with_id_def utf8_width_def code_def
  TEXT_PIECE_BYTES_def Let_def

lemma demo_steady:
  "pending_run (coalescing (new_uplink n)) = None" "steady demo_env demo_inputs (new_uplink n)"
  by (simp_all add: demo_run_simps)

theorem updates_are_sent_once_in_order_witness:
  "sorted_wrt (<) (map fst (taken demo_env demo_inputs (new_uplink 100))) \<and>
   taken demo_env demo_inputs (new_uplink 100) = [(1, demo_chunk ''a''), (2, demo_chunk ''b'')] \<and>
   length (messages_of (fst (then_do (run_uplink demo_env demo_inputs (new_uplink 100)) (uplink_flush demo_env)))) = 1"
proof -
  have "sorted_wrt (<) (map fst (taken demo_env demo_inputs (new_uplink 100)))"
    using updates_are_sent_once_in_order [OF demo_steady] by blast
  moreover have "taken demo_env demo_inputs (new_uplink 100) = [(1, demo_chunk ''a''), (2, demo_chunk ''b'')]"
    by (simp add: demo_run_simps)
  ultimately show ?thesis by (simp add: demo_run_simps)
qed

end
