(* ===== verification/Uplink_Keys.thy ===== *)
theory Uplink_Keys
  imports Uplink_Facts
begin

text \<open>
  What controllers can rely on when a connection is lost: the ids of the frames of a run are distinct,
  so a repeated frame is recognised; what is said again on a reconnect is what stands; and a
  request offers a controller only what a remote answer can select.
\<close>

subsection \<open>Ids\<close>

lemma decimal_no_mark: "ch_dash \<notin> set (decimal n)" "ch_dot \<notin> set (decimal n)"
  using decimal_digits [of n] by (auto simp: list_all_iff is_ascii_digit_def code_def)

lemma message_id_inject:
  assumes "message_id ident f l @ s = message_id ident f' l' @ s'"
    and "s = [] \<or> hd s = ch_dot" and "s' = [] \<or> hd s' = ch_dot"
  shows "f = f' \<and> s = s'"
proof -
  have "decimal (unat f) @ ch_dash # decimal (unat l) @ s = decimal (unat f') @ ch_dash # decimal (unat l') @ s'"
    using assms(1) by (simp add: message_id_def)
  then have "split_once ch_dash (decimal (unat f) @ ch_dash # decimal (unat l) @ s) =
      split_once ch_dash (decimal (unat f') @ ch_dash # decimal (unat l') @ s')" by simp
  then have f: "decimal (unat f) = decimal (unat f')" and l: "decimal (unat l) @ s = decimal (unat l') @ s'"
    by (simp_all add: split_once_append decimal_no_mark)
  have tw: "dropWhile (\<lambda>c. c \<noteq> ch_dot) (decimal n @ t) = t" if "t = [] \<or> hd t = ch_dot" for n t
  proof -
    have "dropWhile (\<lambda>c. c \<noteq> ch_dot) (decimal n @ t) = dropWhile (\<lambda>c. c \<noteq> ch_dot) t"
      by (rule dropWhile_append2) (use decimal_no_mark(2) in auto)
    with that show ?thesis by (cases t) auto
  qed
  have "s = s'" using tw [OF assms(2), of "unat l"] tw [OF assms(3), of "unat l'"] l by simp
  with f show ?thesis by (simp add: word_unat_eq_iff)
qed

definition id_suffixes :: "string list \<Rightarrow> bool" where
  "id_suffixes ss \<longleftrightarrow> distinct ss \<and> (\<forall>s \<in> set ss. s = [] \<or> hd s = ch_dot)"

lemma frames_for_keys:
  "\<exists>ss. id_suffixes ss \<and>
     map idempotency_key (frames_for env ident p) =
       map (\<lambda>s. Some (''session_message:'' @ message_id ident (pu_first p) (pu_last p) @ s)) ss"
proof (cases "case pu_key p of TextKey _ _ _ \<Rightarrow>
    byte_len (case text_of (pu_message p) of Some t \<Rightarrow> t | None \<Rightarrow> []) > TEXT_PIECE_BYTES | _ \<Rightarrow> False")
  case True
  let ?text = "case text_of (pu_message p) of Some t \<Rightarrow> t | None \<Rightarrow> []"
  let ?ss = "map (\<lambda>(k, _). ''.p'' @ decimal k) (enumerate 0 (split_text TEXT_PIECE_BYTES ?text))"
  have "?ss = map (\<lambda>k. ''.p'' @ decimal k) [0..<length (split_text TEXT_PIECE_BYTES ?text)]"
    by (rule nth_equalityI) (simp_all add: nth_enumerate_eq)
  then have "distinct ?ss" by (simp add: distinct_map inj_on_def)
  then have "id_suffixes ?ss" by (auto simp: id_suffixes_def)
  moreover have "map idempotency_key (frames_for env ident p) =
      map (\<lambda>s. Some (''session_message:'' @ message_id ident (pu_first p) (pu_last p) @ s)) ?ss"
    using True
    by (simp add: frames_for_def Let_def case_prod_beta message_with_id_def idempotency_key_def
        message_piece_id_def o_def)
  ultimately show ?thesis by blast
next
  case False
  then have "frames_for env ident p =
      [message_with_id (message_id ident (pu_first p) (pu_last p)) (fitted env (pu_message p))]"
    by (simp add: frames_for_def Let_def)
  then show ?thesis
    by (intro exI [of _ "[[]]"]) (simp add: id_suffixes_def message_with_id_def idempotency_key_def)
qed

lemma key_of_run:
  assumes "k \<in> set (map idempotency_key (frames_for env ident p))"
  obtains s where "k = Some (''session_message:'' @ message_id ident (pu_first p) (pu_last p) @ s)"
    and "s = [] \<or> hd s = ch_dot"
proof -
  obtain ss where ss: "id_suffixes ss" and eq: "map idempotency_key (frames_for env ident p) =
       map (\<lambda>s. Some (''session_message:'' @ message_id ident (pu_first p) (pu_last p) @ s)) ss"
    using frames_for_keys by blast
  from assms obtain s where "s \<in> set ss"
    "k = Some (''session_message:'' @ message_id ident (pu_first p) (pu_last p) @ s)"
    unfolding eq by auto
  with ss that show thesis by (auto simp: id_suffixes_def)
qed

lemma frames_for_distinct: "distinct (map idempotency_key (frames_for env ident p))"
proof -
  obtain ss where ss: "id_suffixes ss" and eq: "map idempotency_key (frames_for env ident p) =
       map (\<lambda>s. Some (''session_message:'' @ message_id ident (pu_first p) (pu_last p) @ s)) ss"
    using frames_for_keys by blast
  show ?thesis unfolding eq using ss by (simp add: id_suffixes_def distinct_map inj_on_def)
qed

lemma run_frames_distinct:
  assumes "runs_ok runs" and "distinct (map fst (concat (map snd runs)))"
  shows "distinct (map idempotency_key (run_frames env ident runs))"
  using assms
proof (induction runs)
  case (Cons r runs)
  obtain p g where r: "r = (p, g)" by (cases r)
  have first: "pu_first p \<in> fst ` set g"
    using Cons.prems(1) r by (cases g) (auto simp: run_carries_def)
  have later: "pu_first p' \<in> fst ` set (concat (map snd runs))" if "(p', g') \<in> set runs" for p' g'
  proof -
    have "run_carries p' g'" using Cons.prems(1) that by (auto simp: list_all_iff)
    then have "pu_first p' \<in> fst ` set g'" by (cases g') (auto simp: run_carries_def)
    with that show ?thesis by force
  qed
  have "set (map idempotency_key (frames_for env ident p)) \<inter>
      set (map idempotency_key (run_frames env ident runs)) = {}"
  proof (rule ccontr)
    assume "\<not> ?thesis"
    then obtain k where k: "k \<in> set (map idempotency_key (frames_for env ident p))"
      and "k \<in> set (map idempotency_key (run_frames env ident runs))" by blast
    then obtain p' g' where p': "(p', g') \<in> set runs" "k \<in> set (map idempotency_key (frames_for env ident p'))"
      by (auto simp: run_frames_def)
    obtain s where s: "k = Some (''session_message:'' @ message_id ident (pu_first p) (pu_last p) @ s)"
      "s = [] \<or> hd s = ch_dot" using k by (rule key_of_run)
    obtain s' where s': "k = Some (''session_message:'' @ message_id ident (pu_first p') (pu_last p') @ s')"
      "s' = [] \<or> hd s' = ch_dot" using p'(2) by (rule key_of_run)
    have "message_id ident (pu_first p) (pu_last p) @ s = message_id ident (pu_first p') (pu_last p') @ s'"
      using s(1) s'(1) by simp
    from message_id_inject [OF this s(2) s'(2)] have "pu_first p = pu_first p'" ..
    with first later [OF p'(1)] Cons.prems(2) r show False by auto
  qed
  with Cons r frames_for_distinct [of env ident p] show ?case by simp
qed simp

text \<open>While the numbering of the stream stays the same, no two messages the uplink sends have the
  same storage key, however often the owner repeats updates: the server never takes a message for
  a resend of another.\<close>

theorem message_keys_are_distinct:
  assumes "pending_run (coalescing u) = None" and "steady env is u"
  shows "distinct (map idempotency_key
    (messages_of (fst (then_do (run_uplink env is u) (uplink_flush env)))))"
proof -
  obtain runs where m: "concat (map snd runs) = taken env is u" "runs_ok runs"
    "messages_of (fst (then_do (run_uplink env is u) (uplink_flush env))) = run_frames env (identity u) runs"
    using assms by (rule sent_runs)
  have "distinct (map fst (concat (map snd runs)))"
    using taken_sorted [OF assms(2)] m(1) by (simp add: strict_sorted_iff)
  with m show ?thesis using run_frames_distinct by metis
qed

theorem message_keys_are_distinct_witness:
  "distinct (map idempotency_key
    (messages_of (fst (then_do (run_uplink demo_env demo_inputs (new_uplink 1)) (uplink_flush demo_env)))))"
  by (rule message_keys_are_distinct [OF demo_steady])

subsection \<open>States and prompts\<close>

definition states_of :: "uplink_out list \<Rightarrow> session_frame list" where
  "states_of outs =
     concat (map (\<lambda>out. case out of Frame (SessionState s d) \<Rightarrow> [SessionState s d] | _ \<Rightarrow> []) outs)"

lemma states_of_simps [simp]:
  "states_of [] = []" "states_of (xs @ ys) = states_of xs @ states_of ys"
  by (simp_all add: states_of_def)

text \<open>What an uplink remembers of all it has sent, \<open>hist\<close>: the last state, never repeated, and the
  prompt that is pending.\<close>

definition remembers :: "uplink_out list \<Rightarrow> uplink \<Rightarrow> bool" where
  "remembers hist u \<longleftrightarrow>
     distinct_adj (states_of hist) \<and>
     (case last_reported u of
        None \<Rightarrow> states_of hist = []
      | Some r \<Rightarrow> states_of hist \<noteq> [] \<and> last (states_of hist) = reported_frame r) \<and>
     (case pending_prompt u of
        None \<Rightarrow> announced u = None
      | Some p \<Rightarrow> (\<exists>request. announced u = Some (PermissionRequest (pp_request_id p) request) \<and>
          Frame (PermissionRequest (pp_request_id p) request) \<in> set hist))"

definition keeps :: "uplink \<Rightarrow> uplink_step \<Rightarrow> bool" where
  "keeps u s \<longleftrightarrow> (\<forall>hist. remembers hist u \<longrightarrow> remembers (hist @ fst s) (snd s))"

lemma keeps_then: "keeps u s \<Longrightarrow> keeps (snd s) (k (snd s)) \<Longrightarrow> keeps u (then_do s k)"
  by (simp add: keeps_def) (metis append.assoc)

lemma keeps_quiet:
  assumes "states_of (fst s) = []" "last_reported (snd s) = last_reported u"
    and "pending_prompt (snd s) = pending_prompt u" "announced (snd s) = announced u"
  shows "keeps u s"
  using assms by (auto simp: keeps_def remembers_def split: option.splits)

lemma keeps_cleared: "keeps u ([], clear_prompt u)"
  by (auto simp: keeps_def remembers_def clear_prompt_def split: option.splits)

lemma reported_frame_inject [simp]: "reported_frame r = reported_frame r' \<longleftrightarrow> r = r'"
  by (cases r; cases r') (simp add: reported_frame_def)

lemma keeps_observe: "keeps u (uplink_observe r u)"
proof (cases "last_reported u = Some r")
  case True
  then show ?thesis by (intro keeps_quiet) (simp_all add: uplink_observe_def observe_def)
next
  case False
  have st: "states_of [Frame (reported_frame r)] = [reported_frame r]"
    by (simp add: states_of_def reported_frame_def)
  have eq: "uplink_observe r u = ([Frame (reported_frame r)], u\<lparr>last_reported := Some r\<rparr>)"
    using False by (simp add: uplink_observe_def observe_def)
  show ?thesis
    unfolding keeps_def eq
    using False by (auto simp: remembers_def st distinct_adj_append_iff split: option.splits)
qed

lemma keeps_announce: "keeps u (announce env q u)"
  by (auto simp: keeps_def announce_def Let_def remembers_def states_of_def split: option.splits)

lemma messages_no_states: "messages_of (map Frame fs) = fs \<Longrightarrow> states_of (map Frame fs) = []"
proof -
  have m: "set (messages_of outs) \<subseteq> {SessionMessage i x | i x. True}" for outs
    by (induction outs) (auto simp: messages_of_def split: uplink_out.splits session_frame.splits)
  assume "messages_of (map Frame fs) = fs"
  with m [of "map Frame fs"] have "\<forall>f \<in> set fs. \<exists>i x. f = SessionMessage i x" by auto
  then show ?thesis by (induction fs) (auto simp: states_of_def)
qed

lemma keeps_flush: "keeps u (uplink_flush env u)"
  using messages_no_states [OF flush_messages [of env "identity u" "coalescing u"]]
  by (intro keeps_quiet) (simp_all add: uplink_flush_def case_prod_beta)

lemma keeps_coalesce: "keeps u (coalesce env c x u)"
  using messages_no_states [OF push_messages [of env "identity u" c x "coalescing u"]]
  by (intro keeps_quiet) (simp_all add: coalesce_def case_prod_beta)

lemma keeps_coalesce_all: "keeps u (coalesce_all env us u)"
proof (induction env us u rule: coalesce_all.induct)
  case (2 env c x us u)
  then show ?case by (simp add: keeps_then keeps_coalesce)
qed (simp add: keeps_quiet)

lemma keeps_cong:
  assumes "keeps u s" "last_reported u = last_reported v" "pending_prompt u = pending_prompt v"
    and "announced u = announced v"
  shows "keeps v s"
proof -
  have "remembers hist v = remembers hist u" for hist
    unfolding remembers_def by (simp only: assms(2-))
  with assms(1) show ?thesis by (simp add: keeps_def)
qed

lemma keeps_backfill: "keeps u (on_backfill env b lines u)"
proof (cases "catch_up u = Some b")
  case True
  let ?missed = "above_mark (applied_to u) (filter (\<lambda>(c, _). c < b) (sort_key fst lines))"
  let ?k2 = "\<lambda>u. take_held env (held u) (u\<lparr>catch_up := None, held_bytes := 0, held := []\<rparr>)"
  let ?k1 = "\<lambda>u. then_do (uplink_flush env (u\<lparr>applied_to := max (applied_to u) (saturating_pred b)\<rparr>)) ?k2"
  have k2: "keeps v (?k2 v)" for v
  proof (rule keeps_cong)
    show "keeps (v\<lparr>catch_up := None, held_bytes := 0, held := []\<rparr>) (?k2 v)"
      by (subst take_held_above_mark) (simp, rule keeps_coalesce_all)
  qed simp_all
  have k1: "keeps v (?k1 v)" for v
  proof (rule keeps_then)
    show "keeps v (uplink_flush env (v\<lparr>applied_to := max (applied_to v) (saturating_pred b)\<rparr>))"
      by (rule keeps_cong [OF keeps_flush]) simp_all
  qed (rule k2)
  have "keeps u (then_do (coalesce_all env ?missed u) ?k1)"
    by (rule keeps_then [OF keeps_coalesce_all]) (rule k1)
  with True show ?thesis by (simp add: on_backfill_def take_lines_above_mark)
qed (simp add: on_backfill_def keeps_quiet)

lemma keeps_status: "keeps u (apply_status env s u)"
  unfolding apply_status_def
  by (rule keeps_then) (auto simp: keeps_announce keeps_cleared keeps_observe split: option.split)

lemma keeps_update: "keeps u (on_update env c x u)"
  by (auto simp: on_update_def keeps_coalesce intro: keeps_quiet)

lemma keeps_event: "keeps u (on_event env e u)"
proof (cases e)
  case (Hello c s ep)
  let ?k = "\<lambda>u. ([], u\<lparr>identity := stream_identity ep (generation u), epoch := ep, applied_to := c,
                  catch_up := None, held := [], held_bytes := 0\<rparr>)"
  have "keeps u (then_do (uplink_flush env u) ?k)"
    by (rule keeps_then [OF keeps_flush]) (simp add: keeps_quiet)
  with Hello show ?thesis
    by (auto simp: on_event_def on_hello_def intro!: keeps_then keeps_status intro: keeps_quiet)
next
  case (Turn c t r)
  have "keeps v (uplink_observe x (if t = TurnIdle then clear_prompt v else v))" for v x
    using keeps_then [OF keeps_cleared, of v "uplink_observe x"] keeps_observe
    by (simp add: then_do_def case_prod_beta)
  with Turn show ?thesis
    by (auto simp: on_event_def Let_def intro!: keeps_then keeps_flush)
next
  case (Gap a to)
  let ?k = "\<lambda>u. if epoch u = 0 \<or> catch_up u \<noteq> None then
            ([], if catch_up u = None then u\<lparr>applied_to := to - 1\<rparr> else u)
          else ([Backfill (epoch u) (applied_to u) to], u\<lparr>catch_up := Some to\<rparr>)"
  have "keeps v (?k v)" for v by (rule keeps_quiet) (simp_all add: states_of_def)
  then have "keeps u (then_do (uplink_flush env u) ?k)" by (intro keeps_then keeps_flush)
  with Gap show ?thesis by (simp add: on_event_def on_gap_def keeps_quiet)
qed (auto simp: on_event_def intro!: keeps_then keeps_flush keeps_announce keeps_observe keeps_status
      keeps_update)

lemma keeps_input: "keeps u (uplink_input env i u)"
proof (cases i)
  case (Attached g)
  have "keeps v ([], v\<lparr>generation := g\<rparr>)" for v by (rule keeps_quiet) simp_all
  then have "keeps u (then_do (uplink_flush env u) (\<lambda>u. ([], u\<lparr>generation := g\<rparr>)))"
    by (intro keeps_then keeps_flush)
  with Attached show ?thesis by (simp add: uplink_input_def on_attached_def)
qed (auto simp: uplink_input_def uplink_report_def on_detached_def keeps_event keeps_backfill
      intro!: keeps_then keeps_flush keeps_observe)

lemma keeps_run: "keeps u (run_uplink env is u)"
  by (induction env "is" u rule: run_uplink.induct) (simp_all add: keeps_quiet keeps_then keeps_input)

text \<open>Whatever an uplink is fed from the start: it never sends the state it sent last again, and
  on a fresh connection it repeats exactly what stands: the request of the prompt that is still
  pending, which it had sent, and the last state it sent.\<close>

theorem reconnect_repeats_what_stands:
  "case run_uplink env is (new_uplink n) of (outs, u) \<Rightarrow>
     distinct_adj (states_of outs) \<and>
     list_all (\<lambda>f. Frame f \<in> set outs) (resend_on_reconnect u) \<and>
     (\<exists>requests. resend_on_reconnect u =
          requests @ (if states_of outs = [] then [] else [last (states_of outs)]) \<and>
        map idempotency_id requests =
          (case pending_prompt u of Some p \<Rightarrow> [Some (pp_request_id p)] | None \<Rightarrow> []))"
proof -
  obtain outs u where run: "run_uplink env is (new_uplink n) = (outs, u)" by fastforce
  have "remembers [] (new_uplink n)" by (simp add: remembers_def new_uplink_def)
  with keeps_run [of "new_uplink n" env "is"] run have r: "remembers outs u" by (force simp: keeps_def)
  have states: "set (states_of outs) \<subseteq> {f. Frame f \<in> set outs}" for outs
    by (induction outs) (auto simp: states_of_def split: uplink_out.splits session_frame.splits)
  have "Frame (last (states_of outs)) \<in> set outs" if "states_of outs \<noteq> []"
    using states last_in_set [OF that] by blast
  then show ?thesis
    unfolding run using r
    by (cases "last_reported u"; cases "pending_prompt u")
      (auto simp: remembers_def resend_on_reconnect_def idempotency_id_def)
qed

text \<open>The request a controller is shown for a prompt offers only options of that prompt that allow
  once or reject once, and none at all for a question, whatever the projection made of the prompt.\<close>

theorem request_offers_one_shot_options:
  "case json_get ''options'' (permission_request_payload env q) of
     Some (JArray options) \<Rightarrow>
       list_all (\<lambda>v. ask_user_questions_from_permission q = None \<and>
         list_ex (\<lambda>p. get_str ''optionId'' v = Some (po_option_id p) \<and> remotely_answerable (po_kind p))
           (query_options q)) options
   | _ \<Rightarrow> True"
proof -
  let ?answerable = "if ask_user_questions_from_permission q \<noteq> None then []
            else map po_option_id (filter (\<lambda>p. remotely_answerable (po_kind p)) (query_options q))"
  let ?offered = "\<lambda>v. is_some_and (\<lambda>i. i \<in> set ?answerable) (get_str ''optionId'' v)"
  let ?kept = "case json_get ''options'' (projection env q) of
              Some (JArray options) \<Rightarrow>
                json_insert ''options'' (JArray (filter ?offered options)) (projection env q)
            | _ \<Rightarrow> projection env q"
  have ins: "json_get ''options'' (json_insert k v j) = json_get ''options'' j" if "k \<noteq> ''options''" for k v j
    using that by (cases j) (simp_all add: json_get_def json_insert_def)
  have "json_get ''options'' (permission_request_payload env q) = json_get ''options'' ?kept"
    unfolding permission_request_payload_def Let_def case_prod_beta
    by (simp add: ins split: option.split)
  also have "\<dots> =
      (case json_get ''options'' (projection env q) of
         Some (JArray options) \<Rightarrow> Some (JArray (filter ?offered options))
       | v \<Rightarrow> v)"
  proof (cases "json_get ''options'' (projection env q)")
    case (Some v)
    then have "is_object (projection env q)"
      by (cases "projection env q") (simp_all add: json_get_def is_object_def)
    with Some show ?thesis by (cases v) (simp_all add: json_get_insert)
  qed simp
  finally have eq: "json_get ''options'' (permission_request_payload env q) = \<dots>" .
  have "list_all (\<lambda>v. ask_user_questions_from_permission q = None \<and>
         list_ex (\<lambda>p. get_str ''optionId'' v = Some (po_option_id p) \<and> remotely_answerable (po_kind p))
           (query_options q)) (filter ?offered options)" for options
    by (auto simp: list_all_iff list_ex_iff is_some_and_iff split: if_splits)
  then show ?thesis
    unfolding eq by (auto split: option.split json.split simp del: set_map set_filter)
qed

end
