(* ===== verification/Shell_Words.thy ===== *)
theory Shell_Words
  imports Read_Only
begin

text \<open>
  The plain word split of \<open>crates/rebon-shell-policy/src/lexer.rs\<close> (\<open>shell_tokens\<close>) and the helpers of
  \<open>lib.rs\<close> over one segment of a command: which word names the program, which word is git's
  subcommand, and the payloads a shell wrapper runs. The lemmas bound the length of a payload, which is
  what ends the nested scans of \<open>Sensitive_Shell\<close>.
\<close>

subsection \<open>Words\<close>

definition word_if :: "string \<Rightarrow> string list" where
  "word_if cur = (if cur = [] then [] else [cur])"

definition escapable :: "char \<Rightarrow> bool" where
  "escapable ch \<longleftrightarrow>
     is_whitespace ch \<or> ch \<in> {ch_squote, ch_dquote, ch_backslash, ch_amp, ch_pipe, ch_semi}"

definition is_shell_separator :: "string \<Rightarrow> bool" where
  "is_shell_separator tok \<longleftrightarrow>
     tok \<in> {''&&'', ''||'', ''|'', ''|&'', '';'', [ch_lf], ''&''}"

lemma separator_tokens:
  "is_shell_separator [ch_amp, ch_amp]" "is_shell_separator [ch_pipe, ch_pipe]" "is_shell_separator [ch_amp]"
  "is_shell_separator [ch_pipe]" "is_shell_separator [ch_semi]" "is_shell_separator [ch_lf]"
  by (simp_all add: is_shell_separator_def)

text \<open>One round of the loop: the word begun grows, or it is finished and a separator may follow.\<close>

datatype word_event = Grow string "char option" | Finish "string list"

definition word_step :: "char option \<Rightarrow> char \<Rightarrow> string \<Rightarrow> word_event \<times> string" where
  "word_step q ch cs =
     (case q of
        Some q' \<Rightarrow>
          if ch = q' then (Grow [] None, cs)
          else if ch = ch_backslash \<and> q' = ch_dquote then
            (case cs of
               [] \<Rightarrow> (Grow [] q, [])
             | nxt # rest \<Rightarrow>
                 if nxt = ch_dquote \<or> nxt = ch_backslash then (Grow [nxt] q, rest)
                 else (Grow [ch_backslash, nxt] q, rest))
          else (Grow [ch] q, cs)
      | None \<Rightarrow>
          if ch = ch_squote \<or> ch = ch_dquote then (Grow [] (Some ch), cs)
          else if ch = ch_backslash then
            (case cs of
               [] \<Rightarrow> (Grow [ch_backslash] None, [])
             | nxt # rest \<Rightarrow>
                 if escapable nxt then (Grow [nxt] None, rest)
                 else (Grow [ch_backslash, nxt] None, rest))
          else if ch = ch_amp \<or> ch = ch_pipe then
            (case cs of
               [] \<Rightarrow> (Finish [[ch]], [])
             | nxt # rest \<Rightarrow>
                 if nxt = ch then (Finish [[ch, ch]], rest) else (Finish [[ch]], cs))
          else if ch = ch_semi \<or> ch = ch_lf then (Finish [[ch]], cs)
          else if is_whitespace ch then (Finish [], cs)
          else (Grow [ch] None, cs))"

lemma word_step_rest: "word_step q ch cs = (e, cs') \<Longrightarrow> cs' = cs \<or> (\<exists>c. cs = c # cs')"
  by (auto simp: word_step_def split: option.splits list.splits if_splits)

lemma word_step_grow:
  "word_step q ch cs = (Grow added q', cs') \<Longrightarrow> length added + length cs' \<le> Suc (length cs)"
  by (auto simp: word_step_def split: option.splits list.splits if_splits)

lemma word_step_finish:
  "word_step q ch cs = (Finish seps, cs') \<Longrightarrow>
     q = None \<and> length cs' \<le> length cs \<and> list_all is_shell_separator seps"
  unfolding word_step_def
  by (simp split: option.splits list.splits if_splits) ((elim disjE conjE; hypsubst?; simp add: separator_tokens)+)

function shell_words :: "char option \<Rightarrow> string \<Rightarrow> string \<Rightarrow> string list" where
  "shell_words q cur [] = word_if cur"
| "shell_words q cur (ch # cs) =
     (case word_step q ch cs of
        (Grow added q', cs') \<Rightarrow> shell_words q' (cur @ added) cs'
      | (Finish seps, cs') \<Rightarrow> word_if cur @ seps @ shell_words None [] cs')"
  by pat_completeness auto
termination
  by (relation "measure (\<lambda>(_, _, cs). length cs)")
    (auto dest!: word_step_rest sym [of _ "word_step _ _ _"])

definition shell_tokens :: "string \<Rightarrow> string list" where
  "shell_tokens command = shell_words None [] command"

fun split_segments :: "string list \<Rightarrow> string list \<Rightarrow> string list list \<times> string list" where
  "split_segments segment [] = ([segment], [])"
| "split_segments segment (tok # toks) =
     (if is_shell_separator tok then
        (let (ss, seps) = split_segments [] toks
         in (segment # ss, tok # seps))
      else split_segments (segment @ [tok]) toks)"

definition split_pipeline_segments :: "string \<Rightarrow> string list list \<times> string list" where
  "split_pipeline_segments command = split_segments [] (shell_tokens command)"

definition segments_of :: "string \<Rightarrow> string list list" where
  "segments_of command = fst (split_pipeline_segments command)"

subsection \<open>The program of a segment\<close>

definition env_assignment_word :: "string \<Rightarrow> bool" where
  "env_assignment_word tok \<longleftrightarrow>
     (case split_once (CHR ''='') tok of
        None \<Rightarrow> False
      | Some (name, _) \<Rightarrow>
          (case name of
             [] \<Rightarrow> False
           | first # _ \<Rightarrow> \<not> is_ascii_digit first \<and>
               list_all (\<lambda>ch. ch = ch_underscore \<or> is_ascii_alphanumeric ch) name))"

definition env_argument :: "string \<Rightarrow> bool" where
  "env_argument tok \<longleftrightarrow> prefix [ch_dash] tok \<or> env_assignment_word tok"

definition passed_over :: "string \<Rightarrow> bool" where
  "passed_over tok \<longleftrightarrow>
     env_assignment_word tok \<or> lower tok \<in> {''sudo'', ''command'', ''builtin'', ''time''}"

function command_word_at :: "nat \<Rightarrow> string list \<Rightarrow> nat option" where
  "command_word_at i [] = None"
| "command_word_at i (tok # toks) =
     (if passed_over tok then command_word_at (i + 1) toks
      else if lower tok = ''env'' then
        command_word_at (i + 1 + length (takeWhile env_argument toks)) (dropWhile env_argument toks)
      else Some i)"
  by pat_completeness auto
termination
  by (relation "measure (\<lambda>(_, ts). length ts)") (auto simp: le_imp_less_Suc length_dropWhile_le)

definition command_name_index :: "string list \<Rightarrow> nat option" where
  "command_name_index segment = command_word_at 0 segment"

definition normalized_command_name :: "string \<Rightarrow> string" where
  "normalized_command_name tok =
     (let file_name = after_last (\<lambda>c. c \<in> {ch_slash, ch_backslash}) (lower tok)
      in trim_start_str (''microsoft.powershell.management'' @ [ch_backslash])
           (case strip_suffix ''.exe'' file_name of Some stem \<Rightarrow> stem | None \<Rightarrow> file_name))"

fun workflow_unescape_static_token :: "string \<Rightarrow> string" where
  "workflow_unescape_static_token [] = []"
| "workflow_unescape_static_token [ch] = (if ch \<in> {ch_backslash, ch_backtick} then [] else [ch])"
| "workflow_unescape_static_token (ch # nxt # cs) =
     (if ch \<in> {ch_backslash, ch_backtick} then nxt # workflow_unescape_static_token cs
      else ch # workflow_unescape_static_token (nxt # cs))"

definition segment_has_noop_flag :: "string list \<Rightarrow> bool" where
  "segment_has_noop_flag segment =
     list_ex (\<lambda>tok. lower tok \<in>
       {''--help'', ''-h'', ''-?'', ''/?'', ''-whatif'', ''-whatif:$true'', ''-whatif:true'', ''-whatif:1''})
       segment"

subsection \<open>Git\<close>

definition git_command_index :: "string list \<Rightarrow> nat option" where
  "git_command_index segment =
     (case command_word_at 0 segment of
        Some i \<Rightarrow> if lower (segment ! i) = ''git'' then Some i else None
      | None \<Rightarrow> None)"

definition git_global_option_takes_value :: "string \<Rightarrow> bool" where
  "git_global_option_takes_value tok \<longleftrightarrow>
     (let unescaped = workflow_unescape_static_token tok;
          opt = (case split_once (CHR ''='') unescaped of Some (name, _) \<Rightarrow> name | None \<Rightarrow> unescaped)
      in opt \<in> {''-c'', ''-C''} \<or>
         lower opt \<in> {''--config-env'', ''--git-dir'', ''--work-tree'', ''--namespace'', ''--exec-path''})"

text \<open>The loop of \<open>git_subcommand_index\<close>, with the place of the next word.\<close>

fun git_subcommand_from :: "nat \<Rightarrow> string list \<Rightarrow> nat option" where
  "git_subcommand_from i [] = None"
| "git_subcommand_from i [raw] =
     (let tok = workflow_unescape_static_token raw
      in if tok = ''--'' then None
         else if lower tok \<in> {''-h'', ''--help'', ''--version''} then None
         else if \<not> prefix [ch_dash] tok then Some i
         else None)"
| "git_subcommand_from i (raw # nxt # toks) =
     (let tok = workflow_unescape_static_token raw
      in if tok = ''--'' then Some (i + 1)
         else if lower tok \<in> {''-h'', ''--help'', ''--version''} then None
         else if \<not> prefix [ch_dash] tok then Some i
         else if git_global_option_takes_value tok \<and> CHR ''='' \<notin> set tok
           then git_subcommand_from (i + 2) toks
         else git_subcommand_from (i + 1) (nxt # toks))"

definition git_subcommand_index :: "string list \<Rightarrow> nat \<Rightarrow> nat option" where
  "git_subcommand_index segment git_index =
     git_subcommand_from (git_index + 1) (drop (git_index + 1) segment)"

subsection \<open>Wrapper shells\<close>

definition is_shell_wrapper_command_name :: "string \<Rightarrow> bool" where
  "is_shell_wrapper_command_name tok \<longleftrightarrow>
     normalized_command_name tok \<in>
       {''pwsh'', ''powershell'', ''bash'', ''sh'', ''zsh'', ''dash'', ''ksh'', ''busybox'', ''cmd'',
        ''forfiles'', ''start'', ''call''}"

fun index_where :: "('a \<Rightarrow> bool) \<Rightarrow> 'a list \<Rightarrow> nat option" where
  "index_where p [] = None"
| "index_where p (x # xs) = (if p x then Some 0 else map_option Suc (index_where p xs))"

definition wrapper_payload_start :: "string list \<Rightarrow> nat \<Rightarrow> nat option" where
  "wrapper_payload_start segment command_index =
     (let command_name = normalized_command_name (segment ! command_index);
          args = drop (command_index + 1) segment;
          after_marker = (\<lambda>markers.
            map_option (\<lambda>offset. command_index + 2 + offset)
              (index_where (\<lambda>arg. lower arg \<in> markers) args))
      in if command_name = ''cmd'' then after_marker {''/c'', ''/k''}
         else if command_name \<in> {''pwsh'', ''powershell''} then
           after_marker {''-command'', ''-c'', ''-commandwithargs''}
         else if command_name \<in> {''bash'', ''sh'', ''zsh'', ''dash'', ''ksh'', ''busybox''} then
           after_marker {''-c'', ''--command''}
         else if command_name = ''forfiles'' then after_marker {''/c''}
         else if command_name = ''call'' then Some (command_index + 1)
         else None)"

text \<open>\<open>start\<close> may run any of its arguments; \<open>cmd\<close> takes a command glued to its switch.\<close>

fun start_payloads :: "string list \<Rightarrow> string list" where
  "start_payloads [] = []"
| "start_payloads (arg # args) =
     (if prefix [ch_slash] arg then start_payloads args
      else join '' '' (arg # args) # start_payloads args)"

fun glued_cmd_payloads :: "string list \<Rightarrow> string list" where
  "glued_cmd_payloads [] = []"
| "glued_cmd_payloads (arg # args) =
     (let opt = workflow_unescape_static_token arg
      in if (prefix ''/c'' (lower opt) \<or> prefix ''/k'' (lower opt)) \<and> byte_len opt > 2 then
           (drop 2 opt @ (if args = [] then [] else ch_space # join '' '' args)) # glued_cmd_payloads args
         else glued_cmd_payloads args)"

definition wrapper_payloads :: "string list \<Rightarrow> nat \<Rightarrow> string list" where
  "wrapper_payloads segment command_index =
     (let command_name = normalized_command_name (segment ! command_index);
          args = drop (command_index + 1) segment
      in if \<not> is_shell_wrapper_command_name (segment ! command_index) then []
         else if command_name = ''start'' then start_payloads args
         else
           (if command_name = ''cmd'' then glued_cmd_payloads args else []) @
           filter (\<lambda>tok. list_ex is_whitespace tok) args @
           (case wrapper_payload_start segment command_index of
              Some start \<Rightarrow> if start < length segment then [join '' '' (drop start segment)] else []
            | None \<Rightarrow> []))"

definition payloads_of :: "string list \<Rightarrow> string list" where
  "payloads_of segment =
     (case command_name_index segment of
        Some i \<Rightarrow> wrapper_payloads segment i
      | None \<Rightarrow> [])"

subsection \<open>A payload is shorter than the command it is found in\<close>

definition word_weight :: "string \<Rightarrow> nat" where
  "word_weight tok = (if is_shell_separator tok then 0 else Suc (length tok))"

abbreviation words_weight :: "string list \<Rightarrow> nat" where
  "words_weight toks \<equiv> sum_list (map word_weight toks)"

lemma word_if_weight: "words_weight (word_if cur) \<le> Suc (length cur)"
  by (simp add: word_if_def word_weight_def)

lemma separators_weight: "list_all is_shell_separator seps \<Longrightarrow> words_weight seps = 0"
  by (induction seps) (simp_all add: word_weight_def)

lemma shell_words_weight: "words_weight (shell_words q cur cs) \<le> Suc (length cur + length cs)"
proof (induction q cur cs rule: shell_words.induct)
  case (1 q cur)
  then show ?case using word_if_weight [of cur] by simp
next
  case (2 q cur ch cs)
  obtain e cs' where s: "word_step q ch cs = (e, cs')" by fastforce
  show ?case
  proof (cases e)
    case (Grow added q')
    with 2(1) s have "words_weight (shell_words q' (cur @ added) cs') \<le> Suc (length (cur @ added) + length cs')"
      by simp
    moreover have "length added + length cs' \<le> Suc (length cs)" using s Grow by (simp add: word_step_grow)
    ultimately show ?thesis by (simp add: s Grow)
  next
    case (Finish seps)
    with 2(2) s have "words_weight (shell_words None [] cs') \<le> Suc (length cs')" by simp
    moreover have "length cs' \<le> length cs" "words_weight seps = 0"
      using word_step_finish [of q ch cs seps cs'] s Finish separators_weight [of seps] by blast+
    ultimately show ?thesis using word_if_weight [of cur] by (simp only: s Finish shell_words.simps
        case_prod_conv word_event.case map_append sum_list_append length_Cons)
  qed
qed

lemma split_segments_weight:
  assumes "seg \<in> set (fst (split_segments s toks))" and "list_all (\<lambda>t. \<not> is_shell_separator t) s"
  shows "list_all (\<lambda>t. \<not> is_shell_separator t) seg \<and> words_weight seg \<le> words_weight s + words_weight toks"
  using assms
proof (induction s toks rule: split_segments.induct)
  case (1 s)
  then show ?case by simp
next
  case (2 s t ts)
  show ?case
  proof (cases "is_shell_separator t")
    case True
    with 2(1,3,4) show ?thesis by (auto simp: case_prod_beta)
  next
    case False
    with 2(2,3,4) show ?thesis by simp
  qed
qed

lemma words_weight_append [simp]: "words_weight (a @ b) = words_weight a + words_weight b"
  by simp

lemma words_weight_drop: "words_weight (drop n ts) \<le> words_weight ts"
  by (induction ts arbitrary: n) (auto simp: drop_Cons' trans_le_add2)

lemma join_weight:
  "list_all (\<lambda>t. \<not> is_shell_separator t) ts \<Longrightarrow> ts \<noteq> [] \<Longrightarrow> Suc (length (join '' '' ts)) = words_weight ts"
  by (induction ts rule: induct_list012) (simp_all add: word_weight_def)

lemma unescape_shorter: "length (workflow_unescape_static_token s) \<le> length s"
  by (induction s rule: workflow_unescape_static_token.induct) auto

lemma start_payload_weight:
  "list_all (\<lambda>t. \<not> is_shell_separator t) args \<Longrightarrow> p \<in> set (start_payloads args) \<Longrightarrow>
     Suc (length p) \<le> words_weight args"
  by (induction args) (auto simp: join_weight simp del: join.simps split: if_splits)

lemma glued_payload_weight:
  "list_all (\<lambda>t. \<not> is_shell_separator t) args \<Longrightarrow> p \<in> set (glued_cmd_payloads args) \<Longrightarrow>
     Suc (length p) \<le> words_weight args"
proof (induction args)
  case (Cons arg args)
  have "length (workflow_unescape_static_token arg) \<le> length arg" by (rule unescape_shorter)
  moreover have "word_weight arg = Suc (length arg)" using Cons.prems(1) by (simp add: word_weight_def)
  moreover have "args \<noteq> [] \<Longrightarrow> Suc (length (join '' '' args)) = words_weight args"
    using Cons.prems(1) by (intro join_weight) simp_all
  ultimately show ?case using Cons by (auto simp: Let_def split: if_splits)
qed simp

lemma filter_weight:
  assumes "list_all (\<lambda>t. \<not> is_shell_separator t) args" and "p \<in> set args"
  shows "Suc (length p) \<le> words_weight args"
  using assms by (induction args) (auto simp: word_weight_def)

lemma command_word_at_bound: "command_word_at i ts = Some n \<Longrightarrow> i \<le> n \<and> n < i + length ts"
proof (induction i ts rule: command_word_at.induct)
  case (2 i t ts)
  have "length (takeWhile env_argument ts) + length (dropWhile env_argument ts) = length ts"
    by (metis length_append takeWhile_dropWhile_id)
  with 2 show ?case by (fastforce split: if_splits)
qed simp

lemma command_name_index_bound: "command_name_index seg = Some i \<Longrightarrow> i < length seg"
  using command_word_at_bound [of 0 seg i] by (simp add: command_name_index_def)

lemma payload_start_after: "wrapper_payload_start seg i = Some n \<Longrightarrow> i < n"
  by (auto simp: wrapper_payload_start_def Let_def split: if_splits)

lemma payload_weight:
  assumes seps: "list_all (\<lambda>t. \<not> is_shell_separator t) seg" and "p \<in> set (payloads_of seg)"
  shows "Suc (Suc (length p)) \<le> words_weight seg"
proof -
  obtain i where i: "i < length seg" and p: "p \<in> set (wrapper_payloads seg i)"
    using assms(2) command_name_index_bound [of seg]
    by (cases "command_name_index seg") (auto simp: payloads_of_def)
  let ?args = "drop (i + 1) seg"
  have args: "list_all (\<lambda>t. \<not> is_shell_separator t) ?args"
    using seps by (simp add: list_all_iff) (meson in_set_dropD)
  have "seg ! i \<in> set seg" using i by simp
  with seps have "1 \<le> word_weight (seg ! i)" by (simp add: list_all_iff word_weight_def)
  moreover have "words_weight (drop i seg) = word_weight (seg ! i) + words_weight ?args"
    using i by (simp add: Cons_nth_drop_Suc [symmetric])
  ultimately have seg: "Suc (words_weight ?args) \<le> words_weight seg"
    using words_weight_drop [of i seg] by simp
  have start: "Suc (length (join '' '' (drop n seg))) \<le> words_weight ?args"
    if "wrapper_payload_start seg i = Some n" "n < length seg" for n
  proof -
    have "i < n" using that(1) by (rule payload_start_after)
    then have d: "drop n seg = drop (n - (i + 1)) ?args" by simp
    have "list_all (\<lambda>t. \<not> is_shell_separator t) (drop n seg)"
      using seps by (simp add: list_all_iff) (meson in_set_dropD)
    with that(2) have "Suc (length (join '' '' (drop n seg))) = words_weight (drop n seg)"
      by (intro join_weight) simp_all
    also have "\<dots> \<le> words_weight ?args" unfolding d by (rule words_weight_drop)
    finally show ?thesis .
  qed
  have "Suc (length p) \<le> words_weight ?args"
    using p start_payload_weight [OF args] glued_payload_weight [OF args] filter_weight [OF args] start
    by (auto simp: wrapper_payloads_def Let_def split: if_splits option.splits)
  with seg show ?thesis by simp
qed

text \<open>The nested scans end: what a wrapper runs is shorter than the command that names it.\<close>

lemma payload_shorter:
  assumes "seg \<in> set (segments_of command)" and "p \<in> set (payloads_of seg)"
  shows "length p < length command"
proof -
  have "list_all (\<lambda>t. \<not> is_shell_separator t) seg \<and> words_weight seg \<le> words_weight (shell_tokens command)"
    using split_segments_weight [of seg "[]" "shell_tokens command"] assms(1)
    by (simp add: segments_of_def split_pipeline_segments_def)
  moreover have "words_weight (shell_tokens command) \<le> Suc (length command)"
    using shell_words_weight [of None "[]" command] by (simp add: shell_tokens_def)
  ultimately show ?thesis using payload_weight [OF _ assms(2)] by fastforce
qed

end
