(* ===== verification/Sensitive_Shell.thy ===== *)
theory Sensitive_Shell
  imports Shell_Words
begin

text \<open>
  The classifiers of \<open>crates/rebon-shell-policy/src/lib.rs\<close> that automatic mode asks about a command:
  does it delete files, change git's stash or working tree, restore committed content, or run a script
  nobody has read. Each looks at the segments of the command and, where a segment is a shell wrapper,
  at the payloads it runs; \<open>any_link\<close> is that scan, which ends since payloads get shorter. A test is
  given the segments and their separators.

  The loops of the source return on the first hit; as none of them has an effect, they are searches.
\<close>

subsection \<open>The scan\<close>

function any_link :: "(string list list \<Rightarrow> string list \<Rightarrow> bool) \<Rightarrow> string \<Rightarrow> bool" where
  "any_link test command =
     ((\<exists>seg \<in> set (segments_of command). \<exists>p \<in> set (payloads_of seg). any_link test p) \<or>
      test (segments_of command) (snd (split_pipeline_segments command)))"
  by pat_completeness auto
termination
  by (relation "measure (\<lambda>(_, command). length command)") (auto dest: payload_shorter)

declare any_link.simps [simp del]

lemma any_link_code [code]:
  "any_link test command =
     (list_ex (\<lambda>seg. list_ex (any_link test) (payloads_of seg)) (segments_of command) \<or>
      test (segments_of command) (snd (split_pipeline_segments command)))"
  unfolding any_link.simps [of test command] by (auto simp: list_ex_iff)

definition any_segment :: "(string list \<Rightarrow> bool) \<Rightarrow> string list list \<Rightarrow> string list \<Rightarrow> bool" where
  "any_segment test segs seps \<longleftrightarrow> list_ex test segs"

text \<open>A segment with the payloads it wraps.\<close>

definition wrapped :: "(string \<Rightarrow> bool) \<Rightarrow> (string list \<Rightarrow> bool) \<Rightarrow> string list \<Rightarrow> bool" where
  "wrapped scan test seg \<longleftrightarrow> list_ex scan (payloads_of seg) \<or> test seg"

lemma any_link_segments:
  "any_link (any_segment test) command = list_ex (wrapped (any_link (any_segment test)) test) (segments_of command)"
  unfolding any_link_code [of "any_segment test" command] any_segment_def wrapped_def
  by (auto simp: list_ex_iff)

subsection \<open>File deletion\<close>

definition file_deletion_commands :: "string list" where
  "file_deletion_commands =
     [''rm'', ''unlink'', ''rmdir'', ''del'', ''erase'', ''deltree'', ''rd'', ''ri'', ''remove-item'',
      ''remove-itemproperty'', ''remove-content'', ''clear-content'', ''clear-recyclebin'', ''sdelete'',
      ''sdelete64'']"

definition is_file_deletion_command_name :: "string \<Rightarrow> bool" where
  "is_file_deletion_command_name tok \<longleftrightarrow> normalized_command_name tok \<in> set file_deletion_commands"

definition control_flow_commands :: "string list" where
  "control_flow_commands =
     [''if'', ''for'', ''foreach'', ''foreach-object'', ''%'', ''while'', ''do'', ''switch'', ''try'',
      ''catch'', ''finally'']"

definition powershell_instance_file_deletion :: "string \<Rightarrow> bool" where
  "powershell_instance_file_deletion tok \<longleftrightarrow> sublist ''.delete('' (lower tok)"

definition control_flow_segment_has_file_deletion :: "string list \<Rightarrow> string list \<Rightarrow> bool" where
  "control_flow_segment_has_file_deletion seg args \<longleftrightarrow>
     \<not> segment_has_noop_flag seg \<and>
     (list_ex is_file_deletion_command_name args \<or> list_ex powershell_instance_file_deletion args)"

definition robocopy_segment_deletes_destination_entries :: "string list \<Rightarrow> bool" where
  "robocopy_segment_deletes_destination_entries args \<longleftrightarrow>
     \<not> list_ex (\<lambda>arg. eq_ignore_ascii_case arg ''/l'') args \<and>
     list_ex (\<lambda>arg. lower arg \<in> {''/mir'', ''/purge'', ''/mov'', ''/move''}) args"

fun exec_deletes :: "string list \<Rightarrow> bool" where
  "exec_deletes (a # b # args) \<longleftrightarrow>
     lower a \<in> {''-exec'', ''-execdir''} \<and> is_file_deletion_command_name b \<or> exec_deletes (b # args)"
| "exec_deletes _ \<longleftrightarrow> False"

definition find_segment_has_file_deletion :: "string list \<Rightarrow> bool" where
  "find_segment_has_file_deletion args \<longleftrightarrow>
     list_ex (\<lambda>tok. eq_ignore_ascii_case tok ''-delete'') args \<or> exec_deletes args"

definition git_clean_is_forced_without_dry_run :: "string list \<Rightarrow> bool" where
  "git_clean_is_forced_without_dry_run args \<longleftrightarrow>
     (let cluster_with = (\<lambda>c arg. prefix [ch_dash] arg \<and> \<not> prefix ''--'' arg \<and> c \<in> set arg);
          lowered = map lower args
      in list_ex (\<lambda>arg. arg = ''-f'' \<or> arg = ''--force'' \<or> cluster_with (CHR ''f'') arg) lowered \<and>
         \<not> list_ex (\<lambda>arg. arg = ''-n'' \<or> arg = ''--dry-run'' \<or> cluster_with (CHR ''n'') arg) lowered)"

definition git_worktree_wide_restore :: "string list \<Rightarrow> bool" where
  "git_worktree_wide_restore args \<longleftrightarrow> list_ex (\<lambda>arg. arg \<in> {''.'', '':/'', ''./''}) args"

text \<open>The subcommand of a git at a place, with its arguments.\<close>

definition git_subcommand_at :: "string list \<Rightarrow> nat \<Rightarrow> (string \<times> string list) option" where
  "git_subcommand_at seg git_index =
     map_option (\<lambda>i. (seg ! i, drop (i + 1) seg)) (git_subcommand_index seg git_index)"

definition git_subcommand :: "string list \<Rightarrow> (string \<times> string list) option" where
  "git_subcommand seg = Option.bind (git_command_index seg) (git_subcommand_at seg)"

definition git_segment_has_sensitive_file_deletion :: "string list \<Rightarrow> nat \<Rightarrow> bool" where
  "git_segment_has_sensitive_file_deletion seg git_index \<longleftrightarrow>
     (case git_subcommand_at seg git_index of
        None \<Rightarrow> False
      | Some (sub, args) \<Rightarrow>
          if lower sub = ''rm'' then True
          else if lower sub = ''clean'' then git_clean_is_forced_without_dry_run args
          else if lower sub \<in> {''checkout'', ''restore''} then git_worktree_wide_restore args
          else False)"

definition segment_deletes_files :: "string list \<Rightarrow> bool" where
  "segment_deletes_files seg \<longleftrightarrow>
     (case command_name_index seg of
        None \<Rightarrow> False
      | Some i \<Rightarrow>
          let name = normalized_command_name (seg ! i); args = drop (i + 1) seg
          in if name \<in> set file_deletion_commands then \<not> segment_has_noop_flag seg
             else if name = ''git'' then git_segment_has_sensitive_file_deletion seg i
             else if name = ''find'' then find_segment_has_file_deletion args
             else if name = ''xargs'' then list_ex is_file_deletion_command_name args
             else if name \<in> set control_flow_commands then control_flow_segment_has_file_deletion seg args
             else if name = ''robocopy'' then robocopy_segment_deletes_destination_entries args
             else False)"

definition shell_command_has_sensitive_file_deletion :: "string \<Rightarrow> bool" where
  "shell_command_has_sensitive_file_deletion = any_link (any_segment segment_deletes_files)"

definition segment_has_sensitive_file_deletion :: "string list \<Rightarrow> bool" where
  "segment_has_sensitive_file_deletion = wrapped shell_command_has_sensitive_file_deletion segment_deletes_files"

subsection \<open>Stash and working tree\<close>

definition git_segment_changes_stash :: "string list \<Rightarrow> bool" where
  "git_segment_changes_stash seg \<longleftrightarrow>
     (case git_subcommand seg of
        None \<Rightarrow> False
      | Some (sub, args) \<Rightarrow>
          eq_ignore_ascii_case sub ''stash'' \<and>
          (case find (\<lambda>tok. tok \<noteq> ''--'' \<and> \<not> prefix [ch_dash] tok) args of
             Some tok \<Rightarrow> lower tok \<notin> {''list'', ''show''}
           | None \<Rightarrow> True))"

definition shell_command_has_sensitive_git_stash :: "string \<Rightarrow> bool" where
  "shell_command_has_sensitive_git_stash = any_link (any_segment git_segment_changes_stash)"

definition git_args_are_help_only :: "string list \<Rightarrow> bool" where
  "git_args_are_help_only args \<longleftrightarrow> list_ex (\<lambda>arg. lower arg \<in> {''--help'', ''-h''}) args"

definition git_apply_is_mutating :: "string list \<Rightarrow> bool" where
  "git_apply_is_mutating args \<longleftrightarrow>
     list_ex (\<lambda>arg. lower arg = ''--apply'') args \<or>
     \<not> list_ex (\<lambda>arg. lower arg \<in> {''--check'', ''--stat'', ''--numstat'', ''--summary''}) args"

definition git_segment_changes_worktree :: "string list \<Rightarrow> bool" where
  "git_segment_changes_worktree seg \<longleftrightarrow>
     (case git_subcommand seg of
        None \<Rightarrow> False
      | Some (sub, args) \<Rightarrow>
          if git_args_are_help_only args then False
          else if lower sub \<in> {''checkout'', ''restore'', ''switch'', ''reset'', ''merge'', ''rebase'',
                  ''cherry-pick'', ''revert'', ''pull'', ''am''} then True
          else if lower sub = ''apply'' then git_apply_is_mutating args
          else if lower sub = ''clean'' then git_clean_is_forced_without_dry_run args
          else lower sub = ''rm'')"

definition shell_command_has_sensitive_git_worktree :: "string \<Rightarrow> bool" where
  "shell_command_has_sensitive_git_worktree = any_link (any_segment git_segment_changes_worktree)"

definition git_segment_has_sensitive_checkout :: "string list \<Rightarrow> bool" where
  "git_segment_has_sensitive_checkout seg \<longleftrightarrow>
     (case git_subcommand seg of
        None \<Rightarrow> False
      | Some (sub, args) \<Rightarrow> eq_ignore_ascii_case sub ''checkout'' \<and> \<not> git_args_are_help_only args)"

definition shell_command_has_sensitive_git_checkout :: "string \<Rightarrow> bool" where
  "shell_command_has_sensitive_git_checkout command \<longleftrightarrow>
     list_ex git_segment_has_sensitive_checkout (segments_of command)"

subsection \<open>Content from history\<close>

definition is_git_rev_path_spec :: "string \<Rightarrow> bool" where
  "is_git_rev_path_spec tok \<longleftrightarrow>
     \<not> prefix [ch_dash] tok \<and>
     (case split_once ch_colon tok of
        None \<Rightarrow> False
      | Some (rv, path) \<Rightarrow>
          rv \<noteq> [] \<and> path \<noteq> [] \<and>
          \<not> (byte_len rv = 1 \<and> list_all is_ascii_alphabetic rv \<and>
             (prefix [ch_slash] path \<or> prefix [ch_backslash] path)))"

definition token_contains_file_redirect :: "string \<Rightarrow> bool" where
  "token_contains_file_redirect tok \<longleftrightarrow>
     ch_gt \<in> set tok \<and> \<not> suffix ''>&1'' tok \<and> \<not> suffix ''>&2'' tok"

definition segment_has_file_redirect :: "string list \<Rightarrow> bool" where
  "segment_has_file_redirect seg \<longleftrightarrow> list_ex token_contains_file_redirect seg"

definition git_segment_emits_committed_content :: "string list \<Rightarrow> bool" where
  "git_segment_emits_committed_content seg \<longleftrightarrow>
     (case git_subcommand seg of
        None \<Rightarrow> False
      | Some (sub, args) \<Rightarrow>
          if lower sub = ''cat-file'' then True
          else if lower sub = ''show'' then
            list_ex is_git_rev_path_spec (takeWhile (\<lambda>tok. \<not> token_contains_file_redirect tok) args)
          else False)"

definition program_name :: "string list \<Rightarrow> string option" where
  "program_name seg = map_option (\<lambda>i. normalized_command_name (seg ! i)) (command_name_index seg)"

definition program_args :: "string list \<Rightarrow> string list" where
  "program_args seg = (case command_name_index seg of Some i \<Rightarrow> drop (i + 1) seg | None \<Rightarrow> [])"

definition segment_is_write_sink :: "string list \<Rightarrow> bool" where
  "segment_is_write_sink seg \<longleftrightarrow>
     (case program_name seg of
        None \<Rightarrow> False
      | Some name \<Rightarrow>
          name \<in> {''tee'', ''tee-object'', ''out-file'', ''set-content'', ''add-content'', ''sponge'', ''dd''})"

definition powershell_file_classes :: "string list" where
  "powershell_file_classes =
     [''[system.io.file]::'', ''[io.file]::'', ''[system.io.directory]::'', ''[io.directory]::'',
      ''[microsoft.visualbasic.fileio.filesystem]::'']"

text \<open>The first of the classes the text names, where, and the method called on it.\<close>

fun class_offset_in :: "string list \<Rightarrow> string \<Rightarrow> (nat \<times> string) option" where
  "class_offset_in [] text = None"
| "class_offset_in (c # cs) text =
     (case find_str c text of
        Some offset \<Rightarrow> Some (offset, c)
      | None \<Rightarrow> class_offset_in cs text)"

definition powershell_static_file_class_offset :: "string \<Rightarrow> (nat \<times> string) option" where
  "powershell_static_file_class_offset text = class_offset_in powershell_file_classes text"

definition static_method :: "string \<Rightarrow> (nat \<times> string) option" where
  "static_method text =
     map_option (\<lambda>(offset, c). (offset, takeWhile (\<lambda>ch. ch \<noteq> ch_lparen) (drop (offset + length c) text)))
       (powershell_static_file_class_offset text)"

definition powershell_static_file_write_method :: "string \<Rightarrow> bool" where
  "powershell_static_file_write_method text \<longleftrightarrow>
     (case static_method text of
        None \<Rightarrow> False
      | Some (_, called) \<Rightarrow> called \<in> set
          [''writealltext'', ''writealllines'', ''writeallbytes'', ''appendalltext'', ''appendalllines'',
           ''copy'', ''move'', ''replace'', ''create'', ''createdirectory'', ''createtext'', ''copyfile'',
           ''copydirectory'', ''movefile'', ''movedirectory'', ''open'', ''openwrite''])"

definition segment_performs_file_write :: "string list \<Rightarrow> bool" where
  "segment_performs_file_write seg \<longleftrightarrow>
     segment_has_file_redirect seg \<or> segment_is_write_sink seg \<or>
     (case program_name seg of
        None \<Rightarrow> False
      | Some name \<Rightarrow> name \<in> {''copy-item'', ''move-item'', ''new-item''} \<and> \<not> segment_has_noop_flag seg) \<or>
     list_ex (\<lambda>tok. powershell_static_file_write_method (lower tok) \<or>
         list_ex (\<lambda>m. sublist m (lower tok))
           [''.openwrite('', ''.create('', ''.createtext('', ''.copyto('', ''.moveto(''])
       seg"

text \<open>A segment that emits committed content into a file, or into the sink the pipe leads to.\<close>

fun emits_into_sink :: "string list list \<Rightarrow> string list \<Rightarrow> bool" where
  "emits_into_sink [] seps \<longleftrightarrow> False"
| "emits_into_sink (seg # segs) seps \<longleftrightarrow>
     git_segment_emits_committed_content seg \<and>
       (segment_has_file_redirect seg \<or>
        (seps \<noteq> [] \<and> hd seps = [ch_pipe] \<and> segs \<noteq> [] \<and> segment_is_write_sink (hd segs))) \<or>
     emits_into_sink segs (tl seps)"

definition restores_content :: "string list list \<Rightarrow> string list \<Rightarrow> bool" where
  "restores_content segs seps \<longleftrightarrow>
     emits_into_sink segs seps \<or>
     list_ex git_segment_emits_committed_content segs \<and> list_ex segment_performs_file_write segs"

definition shell_command_has_sensitive_git_content_restore :: "string \<Rightarrow> bool" where
  "shell_command_has_sensitive_git_content_restore = any_link restores_content"

subsection \<open>Deletion by interpreter code\<close>

definition is_numeric_version_suffix :: "string \<Rightarrow> bool" where
  "is_numeric_version_suffix s \<longleftrightarrow>
     s \<noteq> [] \<and> list_all (\<lambda>part. part \<noteq> [] \<and> list_all is_ascii_digit part) (split_char ch_dot s)"

definition is_python_interpreter_name :: "string \<Rightarrow> bool" where
  "is_python_interpreter_name name \<longleftrightarrow>
     name \<in> {''py'', ''python'', ''pythonw'', ''pypy''} \<or>
     list_ex (\<lambda>p. is_some_and is_numeric_version_suffix (strip_prefix p name))
       [''python'', ''pythonw'', ''pypy'']"

definition is_inline_code_interpreter :: "string \<Rightarrow> bool" where
  "is_inline_code_interpreter tok \<longleftrightarrow>
     is_python_interpreter_name (normalized_command_name tok) \<or>
     normalized_command_name tok \<in>
       {''node'', ''nodejs'', ''deno'', ''bun'', ''perl'', ''ruby'', ''php''}"

definition DESTRUCTIVE_APIS :: "string list" where
  "DESTRUCTIVE_APIS =
     [''os.remove'', ''os.unlink'', ''os.rmdir'', ''os.removedirs'', ''shutil.rmtree'', ''send2trash('',
      ''.unlink('', ''.rmdir('', ''os.truncate'', ''os.ftruncate'', ''runpy.run_path('',
      ''runpy.run_module('', ''exec('', ''fs.unlink'', ''fs.rm'', ''fs.truncate'', ''.unlinksync('',
      ''.rmsync('', ''.rmdirsync('', ''.truncatesync('', ''promises.rm'', ''promises.unlink'',
      ''deno.remove'', ''file.delete'', ''fileutils.rm'', ''unlink('']"

definition PROCESS_APIS :: "string list" where
  "PROCESS_APIS =
     [''os.system('', ''os.popen('', ''subprocess.run('', ''subprocess.call('', ''subprocess.check_call('',
      ''subprocess.check_output('', ''subprocess.popen('']"

definition DELETION_COMMANDS :: "string list" where
  "DELETION_COMMANDS =
     [''rm '', ''rm'' @ [ch_squote], ''rm'' @ [ch_dquote], ''del '', ''del'' @ [ch_squote],
      ''del'' @ [ch_dquote], ''erase '', ''rmdir '', ''rd '', ''unlink '', ''remove-item '']"

definition interpreter_code_launches_deletion :: "string \<Rightarrow> bool" where
  "interpreter_code_launches_deletion body \<longleftrightarrow>
     list_ex (\<lambda>api. sublist api body) PROCESS_APIS \<and> list_ex (\<lambda>c. sublist c body) DELETION_COMMANDS"

definition interpreter_code_destroys_files :: "string \<Rightarrow> bool" where
  "interpreter_code_destroys_files tok \<longleftrightarrow>
     (let body = lower tok
      in list_ex (\<lambda>needle. sublist needle body) DESTRUCTIVE_APIS \<or> interpreter_code_launches_deletion body)"

definition segment_runs_destructive_code :: "string list \<Rightarrow> bool" where
  "segment_runs_destructive_code seg \<longleftrightarrow>
     (case command_name_index seg of
        None \<Rightarrow> False
      | Some i \<Rightarrow> is_inline_code_interpreter (seg ! i) \<and>
          list_ex interpreter_code_destroys_files (drop (i + 1) seg))"

definition shell_command_has_sensitive_interpreter_file_deletion :: "string \<Rightarrow> bool" where
  "shell_command_has_sensitive_interpreter_file_deletion = any_link (any_segment segment_runs_destructive_code)"

subsection \<open>Scripts nobody has read\<close>

definition token_has_script_extension :: "string \<Rightarrow> string list \<Rightarrow> bool" where
  "token_has_script_extension tok extensions \<longleftrightarrow>
     (let path = takeWhile (\<lambda>c. c \<noteq> ch_question \<and> c \<noteq> ch_hash)
            (trim_both_by (\<lambda>c. c \<in> {ch_squote, ch_dquote, ch_lparen, ch_rparen, ch_lbrace, ch_rbrace, ch_amp}) tok)
      in case rsplit_once ch_dot path of
           None \<Rightarrow> False
         | Some (_, extension) \<Rightarrow> list_ex (eq_ignore_ascii_case extension) extensions)"

datatype interpreter_input = InfoOnly | InlineCode | ExternalCode | ExplicitStdin | ImplicitStdin

definition reads_stdin :: "interpreter_input \<Rightarrow> bool" where
  "reads_stdin i \<longleftrightarrow> i = ExplicitStdin \<or> i = ImplicitStdin"

definition is_uninspected :: "interpreter_input \<Rightarrow> bool" where
  "is_uninspected i \<longleftrightarrow> i = ExternalCode \<or> i = ExplicitStdin"

fun python_interpreter_input :: "string list \<Rightarrow> interpreter_input" where
  "python_interpreter_input [] = ImplicitStdin"
| "python_interpreter_input (arg # args) =
     (if arg \<in> {''-V'', ''-VV''} \<or> lower arg \<in> {''-h'', ''--help'', ''--version''} then InfoOnly
      else if arg = ''-c'' \<or> (prefix ''-c'' arg \<and> byte_len arg > 2) then InlineCode
      else if arg = ''-m'' \<or> (prefix ''-m'' arg \<and> byte_len arg > 2) then ExternalCode
      else if arg = ''-'' then ExplicitStdin
      else if arg = ''--'' then
        (case args of
           [] \<Rightarrow> ImplicitStdin
         | nxt # _ \<Rightarrow> if nxt = ''-'' then ExplicitStdin else ExternalCode)
      else if arg \<in> {''-W'', ''-X'', ''-Q''} \<or> lower arg = ''--check-hash-based-pycs'' then
        (case args of
           [] \<Rightarrow> ImplicitStdin
         | _ # rest \<Rightarrow> python_interpreter_input rest)
      else if \<not> prefix [ch_dash] arg then ExternalCode
      else python_interpreter_input args)"

definition expression_start :: "string \<Rightarrow> bool" where
  "expression_start tok \<longleftrightarrow> tok \<noteq> [] \<and> hd tok \<in> {ch_dollar, ch_lparen, ch_lbrace, ch_lbracket}"

definition powershell_value_options :: "string list" where
  "powershell_value_options =
     [''-configurationname'', ''-custompipename'', ''-executionpolicy'', ''-ep'', ''-inputformat'',
      ''-outputformat'', ''-psconsolefile'', ''-settingsfile'', ''-version'', ''-windowstyle'',
      ''-workingdirectory'']"

fun powershell_interpreter_input :: "string list \<Rightarrow> interpreter_input" where
  "powershell_interpreter_input [] = ImplicitStdin"
| "powershell_interpreter_input (arg # args) =
     (if lower arg \<in> {''-?'', ''-h'', ''--help'', ''-help''} then InfoOnly
      else if lower arg \<in> {''-encodedcommand'', ''-enc'', ''-e'', ''-encodedarguments''} then ExternalCode
      else if lower arg \<in> {''-file'', ''-f''} then
        (case args of
           [] \<Rightarrow> ExternalCode
         | nxt # _ \<Rightarrow> if nxt = ''-'' then ExplicitStdin else ExternalCode)
      else if lower arg \<in> {''-command'', ''-c'', ''-commandwithargs''} then
        (case args of
           [] \<Rightarrow> ExplicitStdin
         | nxt # _ \<Rightarrow>
             if nxt = ''-'' then ExplicitStdin
             else if expression_start nxt then ExternalCode
             else InlineCode)
      else if lower arg \<in> set powershell_value_options then
        (case args of
           [] \<Rightarrow> ImplicitStdin
         | _ # rest \<Rightarrow> powershell_interpreter_input rest)
      else if arg = ''-'' then ExplicitStdin
      else if \<not> prefix [ch_dash] arg then ExternalCode
      else powershell_interpreter_input args)"

definition segment_executes_piped_script :: "string list \<Rightarrow> bool" where
  "segment_executes_piped_script seg \<longleftrightarrow>
     (case program_name seg of
        None \<Rightarrow> False
      | Some name \<Rightarrow>
          if is_python_interpreter_name name then reads_stdin (python_interpreter_input (program_args seg))
          else if name \<in> {''pwsh'', ''powershell''} then
            reads_stdin (powershell_interpreter_input (program_args seg))
          else False)"

definition segment_executes_dynamic_powershell_target :: "string list \<Rightarrow> bool" where
  "segment_executes_dynamic_powershell_target seg \<longleftrightarrow>
     (case command_name_index seg of
        None \<Rightarrow> False
      | Some i \<Rightarrow> expression_start (seg ! i))"

definition script_extensions :: "string list" where
  "script_extensions = [''py'', ''pyw'', ''pyz'', ''ps1'']"

definition segment_executes_uninspected_script :: "string list \<Rightarrow> bool" where
  "segment_executes_uninspected_script seg \<longleftrightarrow>
     (case command_name_index seg of
        None \<Rightarrow> False
      | Some i \<Rightarrow>
          let name = normalized_command_name (seg ! i); args = drop (i + 1) seg
          in if token_has_script_extension (seg ! i) script_extensions \<or>
                (name \<in> {''.'', ''source''} \<and>
                 list_ex (\<lambda>tok. token_has_script_extension tok script_extensions) args)
             then True
             else if is_python_interpreter_name name then is_uninspected (python_interpreter_input args)
             else if name \<in> {''pwsh'', ''powershell''} then is_uninspected (powershell_interpreter_input args)
             else if name \<in> {''invoke-command'', ''start-job'', ''start-threadjob''} then
               list_ex (\<lambda>arg. lower arg \<in> {''-scriptblock'', ''-filepath''} \<or>
                   token_has_script_extension arg [''ps1'']) args
             else name \<in> {''invoke-expression'', ''iex''})"

text \<open>The segments with the separator before each.\<close>

fun executes_script :: "string option \<Rightarrow> string list list \<Rightarrow> string list \<Rightarrow> bool" where
  "executes_script preceding [] seps \<longleftrightarrow> False"
| "executes_script preceding (seg # segs) seps \<longleftrightarrow>
     segment_executes_uninspected_script seg \<or>
     preceding = Some [ch_pipe] \<and> segment_executes_piped_script seg \<or>
     preceding = Some [ch_amp] \<and> segment_executes_dynamic_powershell_target seg \<or>
     executes_script (if seps = [] then None else Some (hd seps)) segs (tl seps)"

definition shell_command_has_sensitive_script_execution :: "string \<Rightarrow> bool" where
  "shell_command_has_sensitive_script_execution = any_link (executes_script None)"

subsection \<open>Deletion by PowerShell file APIs\<close>

definition powershell_static_file_deletion_offset :: "string \<Rightarrow> nat option" where
  "powershell_static_file_deletion_offset tok =
     (case static_method (lower tok) of
        None \<Rightarrow> None
      | Some (offset, called) \<Rightarrow>
          if called \<in> {''delete'', ''deletefile'', ''deletedirectory''} then Some offset else None)"

definition expression_context :: "string \<Rightarrow> bool" where
  "expression_context tok \<longleftrightarrow> expression_start tok \<or> normalized_command_name tok \<in> set control_flow_commands"

text \<open>The tokens from the program on; \<open>assigned\<close> says whether a \<open>=\<close> stands between the program and
  this token, \<open>first\<close> whether it is the program itself.\<close>

fun invokes_static_deletion :: "string \<Rightarrow> bool \<Rightarrow> bool \<Rightarrow> string list \<Rightarrow> bool" where
  "invokes_static_deletion program first assigned [] \<longleftrightarrow> False"
| "invokes_static_deletion program first assigned (tok # toks) \<longleftrightarrow>
     (if powershell_instance_file_deletion tok \<and> (first \<or> expression_context program) then True
      else case powershell_static_file_deletion_offset tok of
        None \<Rightarrow> False
      | Some offset \<Rightarrow>
          (first \<and> list_all (\<lambda>c. c \<in> {ch_dollar, ch_lparen, ch_lbrace}) (take offset tok)) \<or>
          (prefix [ch_dollar] program \<and> (assigned \<or> (first \<and> CHR ''='' \<in> set (take offset tok)))) \<or>
          expression_context program) \<or>
     invokes_static_deletion program False (assigned \<or> tok = ''='') toks"

definition segment_has_powershell_file_deletion :: "string list \<Rightarrow> bool" where
  "segment_has_powershell_file_deletion seg \<longleftrightarrow>
     (case command_name_index seg of
        None \<Rightarrow> False
      | Some i \<Rightarrow> invokes_static_deletion (seg ! i) True False (drop i seg))"

definition shell_command_has_sensitive_powershell_file_deletion :: "string \<Rightarrow> bool" where
  "shell_command_has_sensitive_powershell_file_deletion =
     any_link (any_segment segment_has_powershell_file_deletion)"

end
