(* ===== verification/Heredoc.thy ===== *)
theory Heredoc
  imports Sensitive_Shell
begin

text \<open>
  Here-documents in \<open>crates/rebon-shell-policy/src/lib.rs\<close>: the one interpreter script a command may
  carry for review (\<open>extract_embedded_interpreter_script\<close>), and the removal of here-documents that only
  feed \<open>cat\<close> or \<open>tee\<close> (\<open>strip_literal_data_sink_heredocs\<close>). The lemmas show that what is left after a
  removal is shorter, which ends the recursion of the classifier, and what a script under review is.

  The slice of the delimiter panics when the expression after the operator is one quote character; the
  result type is an option, whose \<open>None\<close> is that panic.
\<close>

subsection \<open>Delimiters and bodies\<close>

definition delimiter_char :: "char \<Rightarrow> bool" where
  "delimiter_char ch \<longleftrightarrow> is_ascii_alphanumeric ch \<or> ch = ch_underscore"

definition plain_delimiter :: "string \<Rightarrow> bool" where
  "plain_delimiter d \<longleftrightarrow> d \<noteq> [] \<and> list_all delimiter_char d"

text \<open>A line without its line feed and the carriage return before it.\<close>

definition line_content :: "string \<Rightarrow> string" where
  "line_content raw =
     (let l = (case strip_suffix [ch_lf] raw of Some s \<Rightarrow> s | None \<Rightarrow> raw)
      in case strip_suffix [ch_cr] l of Some s \<Rightarrow> s | None \<Rightarrow> l)"

definition terminates :: "string \<Rightarrow> string \<Rightarrow> bool" where
  "terminates delimiter raw \<longleftrightarrow> line_content raw = delimiter"

definition split_heredoc_body :: "string \<Rightarrow> string \<Rightarrow> (string \<times> string) option" where
  "split_heredoc_body body delimiter =
     (let ls = split_inclusive ch_lf body
      in map_option (\<lambda>n. (concat (take n ls), concat (drop (Suc n) ls)))
           (index_where (terminates delimiter) ls))"

definition heredoc_invocation_has_dynamic_shell_syntax :: "string \<Rightarrow> bool" where
  "heredoc_invocation_has_dynamic_shell_syntax invocation \<longleftrightarrow>
     list_ex (\<lambda>ch. ch \<in> {ch_dollar, ch_backtick, ch_backslash, ch_star, ch_question, ch_lbracket,
       ch_rbracket, ch_lbrace, ch_rbrace, ch_lparen, ch_rparen}) invocation"

subsection \<open>The script of an interpreter\<close>

datatype EmbeddedInterpreter = Python | Node | Shell_Bash | Shell_PowerShell

record EmbeddedInterpreterScript =
  script_interpreter :: EmbeddedInterpreter
  script_invocation :: string
  script_source :: string

datatype EmbeddedScriptExtraction = NotPresent | Review EmbeddedInterpreterScript | Invalid

definition MAX_EMBEDDED_SCRIPT_BYTES :: nat where
  "MAX_EMBEDDED_SCRIPT_BYTES = 32 * 1024"

definition direct_command_name_index :: "string list \<Rightarrow> nat option" where
  "direct_command_name_index toks =
     (let i =
        (case toks of
           [] \<Rightarrow> 0
         | tok # rest \<Rightarrow>
             if eq_ignore_ascii_case tok ''env'' then 1 + length (takeWhile env_argument rest)
             else length (takeWhile env_assignment_word toks))
      in if i < length toks then Some i else None)"

definition embedded_interpreter_from_invocation :: "string \<Rightarrow> bool \<Rightarrow> EmbeddedInterpreter option" where
  "embedded_interpreter_from_invocation invocation continuity_script_review =
     (if list_ex (\<lambda>ch. ch \<in> {ch_semi, ch_pipe, ch_amp, ch_lt, ch_gt, ch_lf, ch_cr}) invocation \<or>
         heredoc_invocation_has_dynamic_shell_syntax invocation then None
      else
        let toks = shell_tokens invocation
        in case direct_command_name_index toks of
          None \<Rightarrow> None
        | Some i \<Rightarrow>
            let name = normalized_command_name (toks ! i);
                args = drop (i + 1) toks
            in if is_python_interpreter_name name then
                 (if reads_stdin (python_interpreter_input args) then Some Python else None)
               else if name \<in> {''node'', ''nodejs''} \<and> (args = [] \<or> args = [''-'']) then Some Node
               else if continuity_script_review \<and> name \<in> {''bash'', ''sh''} then
                 (if args = [] \<or> args = [''-s''] \<or> args = [''--''] then Some Shell_Bash else None)
               else if continuity_script_review \<and> name \<in> {''pwsh'', ''powershell''} then
                 (if reads_stdin (powershell_interpreter_input args) then Some Shell_PowerShell else None)
               else None)"

text \<open>The delimiter in quotes after the operator: \<open>None\<close> is the panic of the slice, \<open>Some None\<close> a
  refusal.\<close>

definition quoted_delimiter :: "string \<Rightarrow> string option option" where
  "quoted_delimiter expression =
     (case expression of
        [] \<Rightarrow> Some None
      | opening # rest \<Rightarrow>
          if opening \<notin> {ch_squote, ch_dquote} \<or> last expression \<noteq> opening then Some None
          else if rest = [] then None
          else let d = butlast rest in Some (if plain_delimiter d then Some d else None))"

definition extract_embedded_interpreter_script :: "string \<Rightarrow> bool \<Rightarrow> EmbeddedScriptExtraction option" where
  "extract_embedded_interpreter_script command continuity_script_review =
     (case split_once ch_lf command of
        None \<Rightarrow> Some (if sublist ''<<'' command then Invalid else NotPresent)
      | Some (header_line, body) \<Rightarrow>
          let header = trim_end_by (\<lambda>c. c = ch_cr) header_line
          in case find_str ''<<'' header of
            None \<Rightarrow> Some (if sublist ''<<'' body then Invalid else NotPresent)
          | Some operator_offset \<Rightarrow>
              let invocation = trim_end_by is_whitespace (take operator_offset header);
                  after_operator = drop (operator_offset + 2) header
              in case embedded_interpreter_from_invocation invocation continuity_script_review of
                None \<Rightarrow> Some Invalid
              | Some interpreter \<Rightarrow>
                  if sublist ''<<'' after_operator then Some Invalid
                  else case quoted_delimiter (trim after_operator) of
                    None \<Rightarrow> None
                  | Some None \<Rightarrow> Some Invalid
                  | Some (Some delimiter) \<Rightarrow>
                      (case split_heredoc_body body delimiter of
                         None \<Rightarrow> Some Invalid
                       | Some (source, tail) \<Rightarrow>
                           if byte_len source > MAX_EMBEDDED_SCRIPT_BYTES \<or> trim tail \<noteq> [] then Some Invalid
                           else Some (Review \<lparr>script_interpreter = interpreter,
                             script_invocation = invocation, script_source = source\<rparr>)))"

subsection \<open>Here-documents that are data\<close>

record StrippableHeredocHeader =
  header_delimiter :: string
  expands_body :: bool
  literal_data_sink :: bool

text \<open>The words and the redirection targets, or \<open>None\<close> where the source returns false.\<close>

fun collect_literal_sink_tokens :: "string list \<Rightarrow> (string list \<times> string list) option" where
  "collect_literal_sink_tokens [] = Some ([], [])"
| "collect_literal_sink_tokens (tok # toks) =
     (let target_then = (\<lambda>target rest.
            if ch_gt \<in> set target then None
            else map_option (\<lambda>(ws, ts). (ws, target # ts)) rest);
          redirection = (case strip_prefix ''>>'' tok of Some r \<Rightarrow> Some r | None \<Rightarrow> strip_prefix ''>'' tok)
      in case redirection of
        Some r \<Rightarrow>
          if r = [] then
            (case toks of
               [] \<Rightarrow> None
             | nxt # rest \<Rightarrow> target_then nxt (collect_literal_sink_tokens rest))
          else target_then r (collect_literal_sink_tokens toks)
      | None \<Rightarrow>
          if ch_gt \<in> set tok then None
          else map_option (\<lambda>(ws, ts). (tok # ws, ts)) (collect_literal_sink_tokens toks))"

definition is_literal_sink_write_target :: "string \<Rightarrow> bool" where
  "is_literal_sink_write_target path \<longleftrightarrow>
     (if path = ''/dev/null'' then True
      else if path = [] \<or> prefix [ch_dash] path \<or> prefix [ch_tilde] path then False
      else \<not> (prefix ''/dev/'' (lower path) \<or> prefix ''/proc/'' (lower path) \<or> prefix ''/sys/'' (lower path)))"

definition sink_part :: "string \<Rightarrow> (string list \<times> string list) option" where
  "sink_part part =
     (if list_ex (\<lambda>ch. ch \<in> {ch_semi, ch_pipe, ch_amp, ch_lt, ch_squote, ch_dquote, ch_lf, ch_cr}) part \<or>
         heredoc_invocation_has_dynamic_shell_syntax part then None
      else collect_literal_sink_tokens (split_whitespace part))"

definition heredoc_invocation_is_literal_data_sink :: "string \<Rightarrow> string \<Rightarrow> bool" where
  "heredoc_invocation_is_literal_data_sink before_operator after_delimiter \<longleftrightarrow>
     (case (sink_part before_operator, sink_part after_delimiter) of
        (Some (ws, ts), Some (ws', ts')) \<Rightarrow>
          let targets = ts @ ts'
          in (case dropWhile env_assignment_word (ws @ ws') of
                [] \<Rightarrow> False
              | command_word # args \<Rightarrow>
                  if normalized_command_name command_word = ''cat'' then
                    list_all (\<lambda>arg. arg = ''-'') args \<and> length targets \<le> 1 \<and>
                    list_all is_literal_sink_write_target targets
                  else if normalized_command_name command_word = ''tee'' then
                    list_all (\<lambda>arg. arg \<in> {''-a'', ''--append''} \<or> is_literal_sink_write_target arg) args \<and>
                    list_all is_literal_sink_write_target targets
                  else False)
      | _ \<Rightarrow> False)"

text \<open>The delimiter of a header, what follows it and whether it was quoted.\<close>

definition header_delimiter_of :: "string \<Rightarrow> (string \<times> string \<times> bool) option" where
  "header_delimiter_of expression =
     (case expression of
        [] \<Rightarrow> None
      | first # rest \<Rightarrow>
          if first \<in> {ch_squote, ch_dquote} then
            map_option (\<lambda>(d, trailing). (d, trailing, True)) (split_once first rest)
          else Some (takeWhile delimiter_char expression, dropWhile delimiter_char expression, False))"

definition parse_strippable_heredoc_header :: "string \<Rightarrow> StrippableHeredocHeader option" where
  "parse_strippable_heredoc_header line =
     (case find_str ''<<'' line of
        None \<Rightarrow> None
      | Some operator_offset \<Rightarrow>
          let after_operator = drop (operator_offset + 2) line
          in if prefix ''<'' after_operator \<or> prefix ''-'' after_operator \<or> sublist ''<<'' after_operator
             then None
             else case header_delimiter_of (trim_start_by is_whitespace after_operator) of
               None \<Rightarrow> None
             | Some (delimiter, trailing, quoted) \<Rightarrow>
                 if plain_delimiter delimiter then
                   Some \<lparr>header_delimiter = delimiter, expands_body = \<not> quoted,
                     literal_data_sink =
                       heredoc_invocation_is_literal_data_sink (take operator_offset line) trailing\<rparr>
                 else None)"

definition heredoc_body_is_inert :: "StrippableHeredocHeader \<Rightarrow> string list \<Rightarrow> bool" where
  "heredoc_body_is_inert header body \<longleftrightarrow>
     \<not> expands_body header \<or> list_all (\<lambda>l. ch_dollar \<notin> set l \<and> ch_backtick \<notin> set l) body"

text \<open>The loop over the lines: what is kept, and whether a block was removed.\<close>

function strip_sink_lines :: "string list \<Rightarrow> string \<times> bool" where
  "strip_sink_lines [] = ([], False)"
| "strip_sink_lines (raw # rest) =
     (case parse_strippable_heredoc_header (line_content raw) of
        None \<Rightarrow> (let (kept, stripped) = strip_sink_lines rest in (raw @ kept, stripped))
      | Some header \<Rightarrow>
          (case index_where (terminates (header_delimiter header)) rest of
             None \<Rightarrow> (concat (raw # rest), False)
           | Some n \<Rightarrow>
               let (kept, stripped) = strip_sink_lines (drop (Suc n) rest)
               in if literal_data_sink header \<and> heredoc_body_is_inert header (take n rest) then (kept, True)
                  else (concat (raw # take (Suc n) rest) @ kept, stripped)))"
  by pat_completeness auto
termination
  by (relation "measure length") auto

definition strip_literal_data_sink_heredocs :: "string \<Rightarrow> string option" where
  "strip_literal_data_sink_heredocs command =
     (if \<not> sublist ''<<'' command then None
      else let (kept, stripped) = strip_sink_lines (split_inclusive ch_lf command)
           in if stripped then Some kept else None)"

subsection \<open>What is left is shorter\<close>

lemma index_where_Some:
  "index_where p xs = Some n \<Longrightarrow> n < length xs \<and> p (xs ! n) \<and> list_all (\<lambda>x. \<not> p x) (take n xs)"
  by (induction xs arbitrary: n) (auto split: if_splits)

lemma index_where_None: "index_where p xs = None \<longleftrightarrow> list_all (\<lambda>x. \<not> p x) xs"
  by (induction xs) auto

lemma split_at_index: "n < length xs \<Longrightarrow> concat xs = concat (take (Suc n) xs) @ concat (drop (Suc n) xs)"
  by (metis append_take_drop_id concat_append)

lemma strip_sink_lines_shorter:
  assumes "strip_sink_lines ls = (kept, stripped)" and "[] \<notin> set ls"
  shows "length kept + (if stripped then 1 else 0) \<le> length (concat ls)"
  using assms
proof (induction ls arbitrary: kept stripped rule: strip_sink_lines.induct)
  case 1
  then show ?case by simp
next
  case (2 raw rest)
  show ?case
  proof (cases "parse_strippable_heredoc_header (line_content raw)")
    case None
    obtain k s where r: "strip_sink_lines rest = (k, s)" by fastforce
    with 2(1) [OF None r] 2(3,4) None show ?thesis by (auto split: if_splits)
  next
    case (Some header)
    note header = Some
    show ?thesis
    proof (cases "index_where (terminates (header_delimiter header)) rest")
      case None
      with 2(3) header show ?thesis by simp
    next
      case (Some n)
      obtain k s where r: "strip_sink_lines (drop (Suc n) rest) = (k, s)" by fastforce
      from 2(4) have "[] \<notin> set (drop (Suc n) rest)" by (auto dest: in_set_dropD)
      with 2(2) [OF header Some r] have
        "length k + (if s then 1 else 0) \<le> length (concat (drop (Suc n) rest))" .
      moreover have "concat rest = concat (take (Suc n) rest) @ concat (drop (Suc n) rest)"
        using index_where_Some [OF Some] by (blast intro: split_at_index)
      moreover have "raw \<noteq> []" using 2(4) by auto
      ultimately show ?thesis using 2(3) header Some r
        by (cases raw) (auto split: if_splits)
    qed
  qed
qed

lemma residual_shorter:
  assumes "strip_literal_data_sink_heredocs command = Some residual"
  shows "length residual < length command"
proof -
  obtain kept stripped where s: "strip_sink_lines (split_inclusive ch_lf command) = (kept, stripped)"
    by fastforce
  with assms have "stripped" "kept = residual"
    by (auto simp: strip_literal_data_sink_heredocs_def split: if_splits)
  with strip_sink_lines_shorter [OF s] show ?thesis
    using split_inclusive_nonempty [of "[]" ch_lf command] by (auto simp: Suc_le_eq)
qed

end
