(* ===== verification/Deletion_Scope.thy ===== *)
theory Deletion_Scope
  imports Sensitive_Shell
begin

text \<open>
  Deletions confined to a root: \<open>shell_command_deletions_confined_to_root\<close> and
  \<open>shell_command_only_deletes_inside_roots\<close> of \<open>crates/rebon-shell-policy/src/lib.rs\<close>, with the path
  comparison of \<open>crates/rebon-tools-core/src/lib.rs\<close>. The build is the one for Unix: paths are separated
  by \<open>/\<close> and compared case-sensitively.

  The file system is a parameter: \<open>resolve\<close> stands for \<open>std::fs::canonicalize\<close>, from the text of a path
  to its canonical path where it exists.
\<close>

subsection \<open>Paths\<close>

record fs_path =
  absolute :: bool
  components :: "string list"

text \<open>\<open>Path::components\<close>: empty components and \<open>.\<close> are dropped, except a leading \<open>.\<close>.\<close>

definition path_of :: "string \<Rightarrow> fs_path" where
  "path_of s =
     (let parts = split_char ch_slash s;
          kept = filter (\<lambda>c. c \<noteq> [] \<and> c \<noteq> ''.'')
      in \<lparr>absolute = prefix [ch_slash] s,
          components = (if hd parts = ''.'' then ''.'' # kept (tl parts) else kept parts)\<rparr>)"

definition path_text :: "fs_path \<Rightarrow> string" where
  "path_text p = (if absolute p then [ch_slash] else []) @ join [ch_slash] (components p)"

text \<open>The components read so far are held last first.\<close>

fun normalize_components :: "string list \<Rightarrow> string list \<Rightarrow> string list" where
  "normalize_components done_rev [] = rev done_rev"
| "normalize_components done_rev (c # cs) =
     (if c = ''.'' then normalize_components done_rev cs
      else if c = ''..'' then normalize_components (tl done_rev) cs
      else normalize_components (c # done_rev) cs)"

definition lexically_normalize_path :: "fs_path \<Rightarrow> fs_path" where
  "lexically_normalize_path p = p\<lparr>components := normalize_components [] (components p)\<rparr>"

text \<open>The walk over the ancestors, the components last first; \<open>remainder\<close> are the names passed.\<close>

fun anchored_path ::
  "(string \<Rightarrow> fs_path option) \<Rightarrow> bool \<Rightarrow> string list \<Rightarrow> string list \<Rightarrow> fs_path option" where
  "anchored_path resolve ab [] remainder = None"
| "anchored_path resolve ab (c # cs) remainder =
     (if c = ''.'' \<or> c = ''..'' then None
      else case resolve (path_text \<lparr>absolute = ab, components = rev cs\<rparr>) of
        Some ancestor \<Rightarrow>
          (let rebuilt = lexically_normalize_path ancestor
           in Some (lexically_normalize_path
                (rebuilt\<lparr>components := components rebuilt @ c # remainder\<rparr>)))
      | None \<Rightarrow> anchored_path resolve ab cs (c # remainder))"

definition canonicalize_scope_path :: "(string \<Rightarrow> fs_path option) \<Rightarrow> string \<Rightarrow> fs_path option" where
  "canonicalize_scope_path resolve path =
     (case resolve path of
        Some canonical \<Rightarrow> Some (lexically_normalize_path canonical)
      | None \<Rightarrow> anchored_path resolve (absolute (path_of path)) (rev (components (path_of path))) [])"

text \<open>\<open>Path::starts_with\<close>.\<close>

definition path_starts_with :: "fs_path \<Rightarrow> fs_path \<Rightarrow> bool" where
  "path_starts_with p base \<longleftrightarrow>
     (absolute base = absolute p \<or> \<not> absolute base \<and> components base = []) \<and>
     prefix (components base) (components p)"

definition scope_path_starts_with :: "fs_path \<Rightarrow> fs_path \<Rightarrow> bool" where
  "scope_path_starts_with path root = path_starts_with path root"

subsection \<open>Roots\<close>

record NormalizedRootScope =
  scope_logical :: string
  scope_canonical :: "fs_path option"

abbreviation slashes :: "string \<Rightarrow> string" where
  "slashes \<equiv> replace_char ch_backslash ch_slash"

definition normalized_root_scope :: "(string \<Rightarrow> fs_path option) \<Rightarrow> string \<Rightarrow> NormalizedRootScope option" where
  "normalized_root_scope resolve root =
     (if \<not> prefix [ch_slash] root then None
      else
        let logical = trim_end_by (\<lambda>c. c = ch_slash) (slashes root)
        in if logical = [] then None
           else Some \<lparr>scope_logical = logical, scope_canonical = canonicalize_scope_path resolve root\<rparr>)"

definition normalized_path_starts_with :: "string \<Rightarrow> string \<Rightarrow> bool" where
  "normalized_path_starts_with path root \<longleftrightarrow>
     prefix root path \<and> (drop (length root) path = [] \<or> prefix [ch_slash] (drop (length root) path))"

definition token_is_static_path_under_root ::
  "(string \<Rightarrow> fs_path option) \<Rightarrow> string \<Rightarrow> string \<Rightarrow> NormalizedRootScope \<Rightarrow> bool" where
  "token_is_static_path_under_root resolve tok normalized root \<longleftrightarrow>
     normalized_path_starts_with normalized (scope_logical root) \<and>
     (case scope_canonical root of
        None \<Rightarrow> True
      | Some canonical_root \<Rightarrow>
          is_some_and (\<lambda>path. scope_path_starts_with path canonical_root) (canonicalize_scope_path resolve tok))"

definition dynamic_path_char :: "char \<Rightarrow> bool" where
  "dynamic_path_char ch \<longleftrightarrow>
     ch \<in> {ch_dollar, ch_backtick, ch_percent, ch_lbrace, ch_rbrace, ch_comma, ch_lparen, ch_rparen,
       ch_star, ch_question, ch_lbracket, ch_rbracket}"

definition token_is_static_path_under_roots ::
  "(string \<Rightarrow> fs_path option) \<Rightarrow> string \<Rightarrow> NormalizedRootScope list \<Rightarrow> bool" where
  "token_is_static_path_under_roots resolve tok roots \<longleftrightarrow>
     (if tok = [] \<or> prefix [ch_tilde] tok \<or> list_ex dynamic_path_char tok then False
      else if ''..'' \<in> set (split_char ch_slash (slashes tok)) then False
      else list_ex (token_is_static_path_under_root resolve tok (slashes tok)) roots)"

subsection \<open>PowerShell variables with one static value\<close>

definition is_powershell_assignment_operator :: "string \<Rightarrow> bool" where
  "is_powershell_assignment_operator tok \<longleftrightarrow>
     tok \<in> {''='', ''+='', ''-='', ''*='', ''/='', ''%='', ''++'', ''--''}"

definition powershell_assignment_operator_prefix :: "string \<Rightarrow> string option" where
  "powershell_assignment_operator_prefix tok =
     find (\<lambda>operator. prefix operator tok) [''+='', ''-='', ''*='', ''/='', ''%='', ''++'', ''--'', ''='']"

definition powershell_variable_prefix :: "string \<Rightarrow> string option" where
  "powershell_variable_prefix tok =
     (case strip_prefix [ch_dollar] tok of
        None \<Rightarrow> None
      | Some name \<Rightarrow>
          (case takeWhile (\<lambda>ch. is_ascii_alphanumeric ch \<or> ch = ch_underscore) name of
             [] \<Rightarrow> None
           | n \<Rightarrow> Some (ch_dollar # n)))"

type_synonym variables = "string \<rightharpoonup> string"

definition static_token :: "string \<Rightarrow> string option" where
  "static_token tok = (if tok = [] \<or> list_ex dynamic_path_char tok then None else Some tok)"

definition resolve_static_powershell_token :: "string \<Rightarrow> string \<Rightarrow> variables \<Rightarrow> string option" where
  "resolve_static_powershell_token command_text tok vars =
     (if prefix [ch_dollar] tok then vars (lower tok)
      else case Option.bind (strip_prefix [ch_lparen] tok) (strip_suffix [ch_rparen]) of
        None \<Rightarrow> static_token tok
      | Some inner \<Rightarrow>
          if ch_squote \<in> set inner \<or> ch_dquote \<in> set inner \<or>
             sublist ([ch_lparen] @ inner @ [ch_rparen]) command_text \<or>
             (\<not> sublist ([ch_lparen, ch_squote] @ inner @ [ch_squote, ch_rparen]) command_text \<and>
              \<not> sublist ([ch_lparen, ch_dquote] @ inner @ [ch_dquote, ch_rparen]) command_text)
          then None
          else static_token inner)"

definition either_slash :: "char \<Rightarrow> bool" where
  "either_slash c \<longleftrightarrow> c = ch_slash \<or> c = ch_backslash"

definition join_static_path :: "string \<Rightarrow> string \<Rightarrow> string option" where
  "join_static_path parent child =
     (if (child \<noteq> [] \<and> either_slash (hd child)) \<or> ch_colon \<in> set child \<or>
         ''..'' \<in> set (split_char ch_slash (slashes child)) then None
      else Some (trim_end_by either_slash parent @ [ch_slash] @ child))"

definition resolve_static_powershell_assignment_value ::
  "string \<Rightarrow> string list \<Rightarrow> variables \<Rightarrow> string option" where
  "resolve_static_powershell_assignment_value command_text rhs vars =
     (case rhs of
        [v] \<Rightarrow> resolve_static_powershell_token command_text v vars
      | [program, parent, child] \<Rightarrow>
          if normalized_command_name program \<noteq> ''join-path'' then None
          else Option.bind (resolve_static_powershell_token command_text parent vars) (\<lambda>p.
            Option.bind (resolve_static_powershell_token command_text child vars) (join_static_path p))
      | _ \<Rightarrow> None)"

text \<open>What the first word of a segment does to its variable: \<open>None\<close> nothing, \<open>Some None\<close> the variable is
  forgotten, \<open>Some (Some rhs)\<close> it is assigned.\<close>

definition leading_assignment :: "string \<Rightarrow> string list \<Rightarrow> string list option option" where
  "leading_assignment suff rest =
     (if suff = [] then
        (case rest of
           [] \<Rightarrow> None
         | operator # rhs \<Rightarrow>
             if \<not> is_powershell_assignment_operator operator then None
             else if operator \<noteq> ''='' then Some None
             else Some (Some rhs))
      else case strip_prefix ''='' suff of
        Some v \<Rightarrow> Some (Some (v # rest))
      | None \<Rightarrow> if powershell_assignment_operator_prefix suff \<noteq> None then Some None else None)"

definition record_leading_static_powershell_assignment ::
  "string \<Rightarrow> string list \<Rightarrow> variables \<Rightarrow> variables" where
  "record_leading_static_powershell_assignment command seg vars =
     (case seg of
        [] \<Rightarrow> vars
      | first # rest \<Rightarrow>
          (case powershell_variable_prefix first of
             None \<Rightarrow> vars
           | Some variable \<Rightarrow>
               (case leading_assignment (drop (length variable) first) rest of
                  None \<Rightarrow> vars
                | Some None \<Rightarrow> vars(lower variable := None)
                | Some (Some rhs) \<Rightarrow>
                    vars(lower variable := resolve_static_powershell_assignment_value command rhs vars))))"

fun invalidate_embedded_powershell_assignments :: "string list \<Rightarrow> variables \<Rightarrow> variables" where
  "invalidate_embedded_powershell_assignments [] vars = vars"
| "invalidate_embedded_powershell_assignments (tok # toks) vars =
     invalidate_embedded_powershell_assignments toks
       (case powershell_variable_prefix tok of
          None \<Rightarrow> vars
        | Some variable \<Rightarrow>
            let suff = drop (length variable) tok
            in if powershell_assignment_operator_prefix suff \<noteq> None \<or>
                  (suff = [] \<and> toks \<noteq> [] \<and> is_powershell_assignment_operator (hd toks))
               then vars(lower variable := None)
               else vars)"

definition record_static_powershell_assignment :: "string \<Rightarrow> string list \<Rightarrow> variables \<Rightarrow> variables" where
  "record_static_powershell_assignment command seg vars =
     (if list_ex (\<lambda>tok. prefix [ch_dollar, ch_lbrace] tok \<or> sublist ''variable:'' tok \<or>
           normalized_command_name tok \<in>
             {''set-variable'', ''sv'', ''new-variable'', ''nv'', ''remove-variable'', ''rv''}) seg
      then Map.empty
      else invalidate_embedded_powershell_assignments (tl seg)
        (record_leading_static_powershell_assignment command seg vars))"

subsection \<open>The deletions of a command\<close>

definition ROOT_CONFINABLE_DELETION_COMMANDS :: "string list" where
  "ROOT_CONFINABLE_DELETION_COMMANDS =
     [''rm'', ''unlink'', ''rmdir'', ''del'', ''erase'', ''rd'', ''ri'', ''remove-item'']"

definition resolved_target :: "variables \<Rightarrow> string \<Rightarrow> string" where
  "resolved_target vars tok =
     (if prefix [ch_dollar] tok then (case vars (lower tok) of Some v \<Rightarrow> v | None \<Rightarrow> tok) else tok)"

definition option_may_carry_payload :: "string \<Rightarrow> bool" where
  "option_may_carry_payload tok \<longleftrightarrow>
     list_ex (\<lambda>c. c \<in> {ch_slash, ch_backslash, ch_colon, CHR ''='', ch_dollar, ch_percent}) tok"

definition deletion_arguments_confined_to_roots ::
  "(string \<Rightarrow> fs_path option) \<Rightarrow> string list \<Rightarrow> NormalizedRootScope list \<Rightarrow> variables \<Rightarrow> bool" where
  "deletion_arguments_confined_to_roots resolve arguments roots vars \<longleftrightarrow>
     list_all (\<lambda>tok.
       if prefix [ch_dash] tok then \<not> option_may_carry_payload tok
       else token_is_static_path_under_roots resolve (resolved_target vars tok) roots) arguments \<and>
     list_ex (\<lambda>tok. \<not> prefix [ch_dash] tok) arguments"

text \<open>The argument lists of the deletion commands between control-flow words.\<close>

function control_flow_deletions :: "string list \<Rightarrow> string list list" where
  "control_flow_deletions [] = []"
| "control_flow_deletions (tok # toks) =
     (if normalized_command_name tok \<notin> set ROOT_CONFINABLE_DELETION_COMMANDS then control_flow_deletions toks
      else
        let inside = (\<lambda>t. t \<notin> {''{'', ''}'', ''else'', ''elseif''})
        in takeWhile inside toks # control_flow_deletions (tl (dropWhile inside toks)))"
  by pat_completeness auto
termination
  by (relation "measure length") (auto simp: le_imp_less_Suc length_dropWhile_le
      intro!: le_imp_less_Suc order.trans [OF diff_le_self] )

definition control_flow_deletions_confined_to_roots ::
  "(string \<Rightarrow> fs_path option) \<Rightarrow> string list \<Rightarrow> NormalizedRootScope list \<Rightarrow> variables \<Rightarrow> bool" where
  "control_flow_deletions_confined_to_roots resolve toks roots vars \<longleftrightarrow>
     list_all (\<lambda>args. deletion_arguments_confined_to_roots resolve args roots vars) (control_flow_deletions toks) \<and>
     control_flow_deletions toks \<noteq> []"

text \<open>Whether the segment is accepted, and whether it deletes.\<close>

definition deletion_segment_confined_to_roots ::
  "(string \<Rightarrow> fs_path option) \<Rightarrow> string list \<Rightarrow> NormalizedRootScope list \<Rightarrow> variables \<Rightarrow> bool \<Rightarrow> bool \<times> bool" where
  "deletion_segment_confined_to_roots resolve seg roots vars every_segment_must_delete =
     (if seg = [] then (True, False)
      else if \<not> segment_has_sensitive_file_deletion seg then (\<not> every_segment_must_delete, False)
      else
        (case command_name_index seg of
           None \<Rightarrow> False
         | Some i \<Rightarrow>
             let name = normalized_command_name (seg ! i); args = drop (i + 1) seg
             in if name \<in> set ROOT_CONFINABLE_DELETION_COMMANDS then
                  deletion_arguments_confined_to_roots resolve args roots vars
                else if name \<in> set control_flow_commands then
                  control_flow_deletions_confined_to_roots resolve args roots vars
                else False,
         True))"

fun segments_confined ::
  "(string \<Rightarrow> fs_path option) \<Rightarrow> string \<Rightarrow> NormalizedRootScope list \<Rightarrow> bool \<Rightarrow> string list list \<Rightarrow>
    variables \<Rightarrow> bool \<Rightarrow> bool" where
  "segments_confined resolve command roots every [] vars saw_deletion_segment = saw_deletion_segment"
| "segments_confined resolve command roots every (seg # segs) vars saw_deletion_segment =
     (let vars' = record_static_powershell_assignment command seg vars;
          (confined, deletes) = deletion_segment_confined_to_roots resolve seg roots vars' every
      in confined \<and> segments_confined resolve command roots every segs vars' (saw_deletion_segment \<or> deletes))"

definition deletions_confined_to_scopes ::
  "(string \<Rightarrow> fs_path option) \<Rightarrow> string \<Rightarrow> NormalizedRootScope list \<Rightarrow> bool \<Rightarrow> bool" where
  "deletions_confined_to_scopes resolve command roots every_segment_must_delete =
     segments_confined resolve command roots every_segment_must_delete (segments_of command) Map.empty False"

definition shell_command_deletions_confined_to_root ::
  "(string \<Rightarrow> fs_path option) \<Rightarrow> string \<Rightarrow> string \<Rightarrow> bool" where
  "shell_command_deletions_confined_to_root resolve command root =
     (case normalized_root_scope resolve root of
        None \<Rightarrow> False
      | Some scope \<Rightarrow> deletions_confined_to_scopes resolve command [scope] False)"

definition shell_command_only_deletes_inside_roots ::
  "(string \<Rightarrow> fs_path option) \<Rightarrow> string \<Rightarrow> string list \<Rightarrow> bool" where
  "shell_command_only_deletes_inside_roots resolve command roots =
     (let scopes = List.map_filter (normalized_root_scope resolve) roots
      in if scopes = [] then False else deletions_confined_to_scopes resolve command scopes True)"

end
