(* ===== verification/Auto_Input.thy ===== *)
theory Auto_Input
  imports Heredoc Deletion_Scope
begin

text \<open>
  The deterministic layer of automatic mode, \<open>classify_auto_mode_tool_input\<close> and its relatives in
  \<open>crates/rebon-shell-policy/src/lib.rs\<close>: here-documents that are data are removed first, then the
  classes of risk are asked in a fixed order, and a script for review is looked for last.

  Every result is an option whose \<open>None\<close> is the panic of \<open>extract_embedded_interpreter_script\<close>.
\<close>

subsection \<open>The single questions about an input\<close>

definition command_satisfies :: "(string \<Rightarrow> bool) \<Rightarrow> string \<Rightarrow> json \<Rightarrow> bool" where
  "command_satisfies p tool_name input = is_some_and p (shell_command_input tool_name input)"

definition is_sensitive_content_deletion_input :: "string \<Rightarrow> json \<Rightarrow> bool" where
  "is_sensitive_content_deletion_input = command_satisfies shell_command_has_sensitive_file_deletion"

definition is_sensitive_git_stash_command :: "string \<Rightarrow> json \<Rightarrow> bool" where
  "is_sensitive_git_stash_command = command_satisfies shell_command_has_sensitive_git_stash"

definition is_sensitive_git_worktree_command :: "string \<Rightarrow> json \<Rightarrow> bool" where
  "is_sensitive_git_worktree_command = command_satisfies shell_command_has_sensitive_git_worktree"

definition is_sensitive_git_checkout_command :: "string \<Rightarrow> json \<Rightarrow> bool" where
  "is_sensitive_git_checkout_command = command_satisfies shell_command_has_sensitive_git_checkout"

definition is_sensitive_git_content_restore_command :: "string \<Rightarrow> json \<Rightarrow> bool" where
  "is_sensitive_git_content_restore_command =
     command_satisfies shell_command_has_sensitive_git_content_restore"

definition is_sensitive_interpreter_file_deletion_command :: "string \<Rightarrow> json \<Rightarrow> bool" where
  "is_sensitive_interpreter_file_deletion_command =
     command_satisfies shell_command_has_sensitive_interpreter_file_deletion"

definition is_sensitive_powershell_file_deletion_command :: "string \<Rightarrow> json \<Rightarrow> bool" where
  "is_sensitive_powershell_file_deletion_command =
     command_satisfies shell_command_has_sensitive_powershell_file_deletion"

definition is_sensitive_script_execution_command :: "string \<Rightarrow> json \<Rightarrow> bool" where
  "is_sensitive_script_execution_command =
     command_satisfies shell_command_has_sensitive_script_execution"

subsection \<open>The classification\<close>

datatype HardSensitiveReason =
    FileDeletion
  | GitStashMutation
  | GitWorktreeMutation
  | GitContentRestore
  | InterpreterFileDeletion
  | ScriptFileExecution
  | UnanalyzableScriptInvocation
  | SessionCredentialAccess

fun describe :: "HardSensitiveReason \<Rightarrow> string" where
  "describe FileDeletion = ''the command deletes, trashes, or truncates files''"
| "describe GitStashMutation = ''the command destroys git stash state''"
| "describe GitWorktreeMutation = ''the command removes a git worktree''"
| "describe GitContentRestore = ''the command overwrites files with content from git history''"
| "describe InterpreterFileDeletion = ''the embedded interpreter code deletes files''"
| "describe ScriptFileExecution =
     ''the command executes script content that is not visible in the invocation''"
| "describe UnanalyzableScriptInvocation = ''the interpreter invocation cannot be statically analyzed''"
| "describe SessionCredentialAccess =
     ''the command names a file holding a live session's endpoint and token''"

datatype AutoModeInputDisposition =
    NoSpecialRisk
  | EmbeddedScriptReview EmbeddedInterpreterScript
  | HardSensitive HardSensitiveReason

definition is_bash_tool :: "string \<Rightarrow> bool" where
  "is_bash_tool tool_name \<longleftrightarrow> tool_name \<in> {''Bash'', ''BashTool''}"

text \<open>The input with a here-document removed from its command, where there is one to remove.\<close>

definition residual_input :: "string \<Rightarrow> json \<Rightarrow> json option" where
  "residual_input tool_name input =
     (if is_bash_tool tool_name then
        map_option (\<lambda>residual. json_insert ''command'' (JString residual) input)
          (Option.bind (shell_command_input tool_name input) strip_literal_data_sink_heredocs)
      else None)"

lemma command_after_insert:
  "get_str k input = Some s \<Longrightarrow> get_str k (json_insert k (JString r) input) = Some r"
  by (cases input) (simp_all add: get_str_def json_get_def json_insert_def as_str_def)

lemma residual_input_Some:
  assumes "residual_input tool_name input = Some r"
  obtains command residual where "shell_command_input tool_name input = Some command"
    and "strip_literal_data_sink_heredocs command = Some residual"
    and "r = json_insert ''command'' (JString residual) input"
    and "shell_command_input tool_name r = Some residual"
proof -
  from assms obtain command residual where c: "shell_command_input tool_name input = Some command"
      and "strip_literal_data_sink_heredocs command = Some residual"
      and r: "r = json_insert ''command'' (JString residual) input"
    by (auto simp: residual_input_def bind_eq_Some_conv split: if_splits)
  moreover have "shell_command_input tool_name r = Some residual"
    using c r by (auto simp: shell_command_input_def command_after_insert split: if_splits)
  ultimately show ?thesis by (rule that)
qed

text \<open>The classes after the removal. The classes are asked in the order of the source.\<close>

definition script_disposition :: "string \<Rightarrow> bool \<Rightarrow> string \<Rightarrow> AutoModeInputDisposition option" where
  "script_disposition tool_name continuity_script_review command =
     (let uninspected =
        (if shell_command_has_sensitive_script_execution command then HardSensitive ScriptFileExecution
         else NoSpecialRisk)
      in if is_bash_tool tool_name then
           map_option (\<lambda>extraction.
             case extraction of
               Review script \<Rightarrow>
                 if interpreter_code_destroys_files (script_source script)
                 then HardSensitive InterpreterFileDeletion
                 else EmbeddedScriptReview script
             | Invalid \<Rightarrow> HardSensitive UnanalyzableScriptInvocation
             | NotPresent \<Rightarrow> uninspected)
             (extract_embedded_interpreter_script command continuity_script_review)
         else Some uninspected)"

definition deletion_is_sensitive ::
  "(string \<Rightarrow> fs_path option) \<Rightarrow> string \<Rightarrow> json \<Rightarrow> string option \<Rightarrow> bool" where
  "deletion_is_sensitive resolve tool_name input exempt_deletion_root \<longleftrightarrow>
     is_sensitive_content_deletion_input tool_name input \<and>
     \<not> is_some_and (\<lambda>root.
         command_satisfies (\<lambda>command. shell_command_deletions_confined_to_root resolve command root)
           tool_name input) exempt_deletion_root"

definition classify_residual ::
  "(string \<Rightarrow> fs_path option) \<Rightarrow> string \<Rightarrow> json \<Rightarrow> string option \<Rightarrow> bool \<Rightarrow>
    AutoModeInputDisposition option" where
  "classify_residual resolve tool_name input exempt_deletion_root continuity_script_review =
     (if is_session_credential_access_command tool_name input
      then Some (HardSensitive SessionCredentialAccess)
      else if is_sensitive_git_stash_command tool_name input then Some (HardSensitive GitStashMutation)
      else if is_sensitive_git_worktree_command tool_name input then Some (HardSensitive GitWorktreeMutation)
      else if deletion_is_sensitive resolve tool_name input exempt_deletion_root
      then Some (HardSensitive FileDeletion)
      else if is_sensitive_git_content_restore_command tool_name input
      then Some (HardSensitive GitContentRestore)
      else if is_sensitive_interpreter_file_deletion_command tool_name input
      then Some (HardSensitive InterpreterFileDeletion)
      else if is_sensitive_powershell_file_deletion_command tool_name input
      then Some (HardSensitive FileDeletion)
      else case shell_command_input tool_name input of
        None \<Rightarrow> Some NoSpecialRisk
      | Some command \<Rightarrow> script_disposition tool_name continuity_script_review command)"

abbreviation command_size :: "string \<Rightarrow> json \<Rightarrow> nat" where
  "command_size tool_name input \<equiv>
     (case shell_command_input tool_name input of Some command \<Rightarrow> length command | None \<Rightarrow> 0)"

lemma residual_input_shorter:
  "residual_input tool_name input = Some r \<Longrightarrow> command_size tool_name r < command_size tool_name input"
  by (erule residual_input_Some) (simp add: residual_shorter)

function classify_auto_mode_tool_input_with_options ::
  "(string \<Rightarrow> fs_path option) \<Rightarrow> string \<Rightarrow> json \<Rightarrow> string option \<Rightarrow> bool \<Rightarrow>
    AutoModeInputDisposition option" where
  "classify_auto_mode_tool_input_with_options resolve tool_name input exempt_deletion_root
       continuity_script_review =
     (case residual_input tool_name input of
        Some residual \<Rightarrow>
          classify_auto_mode_tool_input_with_options resolve tool_name residual exempt_deletion_root
            continuity_script_review
      | None \<Rightarrow>
          classify_residual resolve tool_name input exempt_deletion_root continuity_script_review)"
  by pat_completeness auto
termination
  by (relation "measure (\<lambda>(_, tool_name, input, _). command_size tool_name input)")
    (auto dest: residual_input_shorter)

declare classify_auto_mode_tool_input_with_options.simps [simp del]

definition classify_auto_mode_tool_input ::
  "(string \<Rightarrow> fs_path option) \<Rightarrow> string \<Rightarrow> json \<Rightarrow> AutoModeInputDisposition option" where
  "classify_auto_mode_tool_input resolve tool_name input =
     classify_auto_mode_tool_input_with_options resolve tool_name input None False"

definition classify_auto_mode_tool_input_for_continuity ::
  "(string \<Rightarrow> fs_path option) \<Rightarrow> string \<Rightarrow> json \<Rightarrow> AutoModeInputDisposition option" where
  "classify_auto_mode_tool_input_for_continuity resolve tool_name input =
     classify_auto_mode_tool_input_with_options resolve tool_name input None True"

definition classify_auto_mode_tool_input_with_exempt_deletion_root ::
  "(string \<Rightarrow> fs_path option) \<Rightarrow> string \<Rightarrow> json \<Rightarrow> string option \<Rightarrow> AutoModeInputDisposition option" where
  "classify_auto_mode_tool_input_with_exempt_deletion_root resolve tool_name input exempt_deletion_root =
     classify_auto_mode_tool_input_with_options resolve tool_name input exempt_deletion_root False"

definition is_auto_mode_sensitive_tool_input :: "(string \<Rightarrow> fs_path option) \<Rightarrow> string \<Rightarrow> json \<Rightarrow> bool option" where
  "is_auto_mode_sensitive_tool_input resolve tool_name input =
     map_option (\<lambda>disposition. disposition \<noteq> NoSpecialRisk)
       (classify_auto_mode_tool_input resolve tool_name input)"

definition is_auto_mode_sensitive_tool_input_with_exempt_deletion_root ::
  "(string \<Rightarrow> fs_path option) \<Rightarrow> string \<Rightarrow> json \<Rightarrow> string option \<Rightarrow> bool option" where
  "is_auto_mode_sensitive_tool_input_with_exempt_deletion_root resolve tool_name input exempt_deletion_root =
     map_option (\<lambda>disposition. disposition \<noteq> NoSpecialRisk)
       (classify_auto_mode_tool_input_with_exempt_deletion_root resolve tool_name input exempt_deletion_root)"

text \<open>The body of a shell script asked again as a command of its own.\<close>

definition embedded_interpreter_script_hard_sensitive_effects ::
  "(string \<Rightarrow> fs_path option) \<Rightarrow> EmbeddedInterpreterScript \<Rightarrow> HardSensitiveReason option option" where
  "embedded_interpreter_script_hard_sensitive_effects resolve script =
     (let as_command = (\<lambda>tool_name.
        map_option (\<lambda>disposition. case disposition of HardSensitive reason \<Rightarrow> Some reason | _ \<Rightarrow> None)
          (classify_auto_mode_tool_input resolve tool_name
            (JObject [(''command'', JString (script_source script))])))
      in case script_interpreter script of
           Python \<Rightarrow> Some None
         | Node \<Rightarrow> Some None
         | Shell_Bash \<Rightarrow> as_command ''Bash''
         | Shell_PowerShell \<Rightarrow> as_command ''PowerShell'')"

subsection \<open>Sensitive even if every deletion were excused\<close>

definition residual_sensitive_beyond_deletions :: "string \<Rightarrow> json \<Rightarrow> bool option" where
  "residual_sensitive_beyond_deletions tool_name input =
     (if is_sensitive_git_stash_command tool_name input \<or> is_sensitive_git_worktree_command tool_name input \<or>
         is_sensitive_git_content_restore_command tool_name input then Some True
      else case shell_command_input tool_name input of
        None \<Rightarrow> Some False
      | Some command \<Rightarrow>
          if is_bash_tool tool_name then
            map_option (\<lambda>extraction.
              extraction \<noteq> NotPresent \<or> shell_command_has_sensitive_script_execution command)
              (extract_embedded_interpreter_script command False)
          else Some (shell_command_has_sensitive_script_execution command))"

function is_sensitive_beyond_deletions :: "string \<Rightarrow> json \<Rightarrow> bool option" where
  "is_sensitive_beyond_deletions tool_name input =
     (case residual_input tool_name input of
        Some residual \<Rightarrow> is_sensitive_beyond_deletions tool_name residual
      | None \<Rightarrow> residual_sensitive_beyond_deletions tool_name input)"
  by pat_completeness auto
termination
  by (relation "measure (\<lambda>(tool_name, input). command_size tool_name input)")
    (auto dest: residual_input_shorter)

declare is_sensitive_beyond_deletions.simps [simp del]

end
