(* ===== verification/Shell_Risk.thy ===== *)
theory Shell_Risk
  imports Auto_Input
begin

text \<open>
  What the scans of \<open>Sensitive_Shell\<close> find. A command runs the payloads of its wrapper segments, and those
  run payloads of their own: a scan answers for every command nested at any depth, and on a list of two
  commands it answers for both.
\<close>

subsection \<open>Commands nested in wrappers\<close>





lemmas scan_defs =
  shell_command_has_sensitive_file_deletion_def
  shell_command_has_sensitive_git_stash_def
  shell_command_has_sensitive_git_worktree_def
  shell_command_has_sensitive_interpreter_file_deletion_def
  shell_command_has_sensitive_powershell_file_deletion_def
  shell_command_has_sensitive_script_execution_def
  shell_command_has_sensitive_git_content_restore_def



subsection \<open>Lists of commands\<close>

text \<open>A text that leaves the word split outside quotes, with no escape pending.\<close>

function ends_plain :: "char option \<Rightarrow> string \<Rightarrow> bool" where
  "ends_plain q [] \<longleftrightarrow> q = None"
| "ends_plain q (ch # cs) \<longleftrightarrow>
     \<not> (ch = ch_backslash \<and> cs = [] \<and> q \<noteq> Some ch_squote) \<and>
     (case word_step q ch cs of
        (Grow added q', cs') \<Rightarrow> ends_plain q' cs'
      | (Finish seps, cs') \<Rightarrow> ends_plain None cs')"
  by pat_completeness auto
termination
  by (relation "measure (\<lambda>(_, cs). length cs)")
    (auto dest!: word_step_rest sym [of _ "word_step _ _ _"])

lemma word_step_append_rest:
  assumes "\<not> (ch = ch_backslash \<and> cs = [] \<and> q \<noteq> Some ch_squote)"
    and "c \<noteq> ch_amp" and "c \<noteq> ch_pipe"
  shows "word_step q ch (cs @ c # b) = apsnd (\<lambda>rest. rest @ c # b) (word_step q ch cs)"
  using assms by (cases cs; cases q) ((simp add: word_step_def; intro impI; elim conjE; simp) | simp add: word_step_def)+

lemma word_step_append:
  "word_step q ch cs = (e, cs') \<Longrightarrow> \<not> (ch = ch_backslash \<and> cs = [] \<and> q \<noteq> Some ch_squote) \<Longrightarrow>
     c \<noteq> ch_amp \<Longrightarrow> c \<noteq> ch_pipe \<Longrightarrow> word_step q ch (cs @ c # b) = (e, cs' @ c # b)"
  by (simp add: word_step_append_rest)

lemma shell_words_append:
  assumes "ends_plain q a"
  shows "shell_words q cur (a @ ch_semi # b) = shell_words q cur a @ [ch_semi] # shell_words None [] b"
  using assms
proof (induction q a arbitrary: cur rule: ends_plain.induct)
  case (1 q)
  then show ?case by (simp add: word_step_def)
next
  case (2 q ch cs)
  obtain e cs' where s: "word_step q ch cs = (e, cs')" by fastforce
  have "word_step q ch (cs @ ch_semi # b) = (e, cs' @ ch_semi # b)"
    using 2(3) s by (intro word_step_append) auto
  then show ?case using 2 s by (cases e) auto
qed

lemma split_segments_append:
  "split_segments s (a @ t # b) =
     (if is_shell_separator t then
        (fst (split_segments s a) @ fst (split_segments [] b),
         snd (split_segments s a) @ t # snd (split_segments [] b))
      else split_segments s (a @ t # b))"
  by (induction s a rule: split_segments.induct) (auto simp: case_prod_beta)

lemma segments_of_list:
  assumes "ends_plain None a"
  shows "segments_of (a @ ch_semi # b) = segments_of a @ segments_of b"
    and "snd (split_pipeline_segments (a @ ch_semi # b)) =
      snd (split_pipeline_segments a) @ [ch_semi] # snd (split_pipeline_segments b)"
  using assms separator_tokens
  by (simp_all add: segments_of_def split_pipeline_segments_def shell_tokens_def shell_words_append
      split_segments_append)

lemma split_segments_length:
  "length (fst (split_segments s toks)) = Suc (length (snd (split_segments s toks)))"
  by (induction s toks rule: split_segments.induct) (auto simp: case_prod_beta)

lemma any_link_list:
  assumes "ends_plain None a" and "\<And>segs seps segs' seps'. length segs = Suc (length seps) \<Longrightarrow>
      test (segs @ segs') (seps @ [ch_semi] # seps') \<longleftrightarrow> test segs seps \<or> test segs' seps'"
  shows "any_link test (a @ ch_semi # b) \<longleftrightarrow> any_link test a \<or> any_link test b"
proof -
  have "length (segments_of a) = Suc (length (snd (split_pipeline_segments a)))"
    by (simp add: segments_of_def split_pipeline_segments_def split_segments_length)
  from assms(2) [OF this] show ?thesis
    unfolding any_link.simps [of test a] any_link.simps [of test b] any_link.simps [of test "a @ ch_semi # b"]
    by (auto simp: segments_of_list [OF assms(1)])
qed

lemma any_segment_list:
  "ends_plain None a \<Longrightarrow> any_link (any_segment test) (a @ ch_semi # b) \<longleftrightarrow>
     any_link (any_segment test) a \<or> any_link (any_segment test) b"
  by (rule any_link_list) (auto simp: any_segment_def)

lemma executes_script_append:
  "length segs = Suc (length seps) \<Longrightarrow>
     executes_script before_first (segs @ segs') (seps @ [ch_semi] # seps') \<longleftrightarrow>
       executes_script before_first segs seps \<or> executes_script None segs' seps'"
proof (induction segs arbitrary: seps before_first)
  case Nil
  then show ?case by simp
next
  case (Cons seg segs)
  show ?case
  proof (cases seps)
    case Nil
    with Cons(2) have "segs = []" by simp
    moreover have "executes_script (Some [ch_semi]) segs' seps' \<longleftrightarrow> executes_script None segs' seps'"
      by (cases segs') simp_all
    ultimately show ?thesis using Nil by simp
  next
    case (Cons q seps')
    with Cons.prems Cons.IH show ?thesis by simp
  qed
qed

text \<open>Chaining hides nothing: when the first of two commands joined by a semicolon leaves no quote or
  escape open, each of the deletion, stash, working-tree, interpreter, PowerShell and script classifiers
  flags the list exactly when it flags one of the two.\<close>

theorem risk_of_a_list:
  assumes "ends_plain None a"
  shows "(shell_command_has_sensitive_file_deletion (a @ ch_semi # b) \<longleftrightarrow>
        shell_command_has_sensitive_file_deletion a \<or> shell_command_has_sensitive_file_deletion b) \<and>
     (shell_command_has_sensitive_git_stash (a @ ch_semi # b) \<longleftrightarrow>
        shell_command_has_sensitive_git_stash a \<or> shell_command_has_sensitive_git_stash b) \<and>
     (shell_command_has_sensitive_git_worktree (a @ ch_semi # b) \<longleftrightarrow>
        shell_command_has_sensitive_git_worktree a \<or> shell_command_has_sensitive_git_worktree b) \<and>
     (shell_command_has_sensitive_interpreter_file_deletion (a @ ch_semi # b) \<longleftrightarrow>
        shell_command_has_sensitive_interpreter_file_deletion a \<or>
        shell_command_has_sensitive_interpreter_file_deletion b) \<and>
     (shell_command_has_sensitive_powershell_file_deletion (a @ ch_semi # b) \<longleftrightarrow>
        shell_command_has_sensitive_powershell_file_deletion a \<or>
        shell_command_has_sensitive_powershell_file_deletion b) \<and>
     (shell_command_has_sensitive_script_execution (a @ ch_semi # b) \<longleftrightarrow>
        shell_command_has_sensitive_script_execution a \<or> shell_command_has_sensitive_script_execution b)"
  unfolding scan_defs any_segment_list [OF assms]
  using any_link_list [OF assms, of "executes_script None"] executes_script_append by blast

theorem risk_of_a_list_witness:
  "shell_command_has_sensitive_git_stash (''echo hi'' @ ch_semi # ''git stash drop'')"
proof -
  have "ends_plain None ''echo hi''" by code_simp
  moreover have "shell_command_has_sensitive_git_stash ''git stash drop''" by code_simp
  ultimately show ?thesis using risk_of_a_list [of "''echo hi''" "''git stash drop''"] by blast
qed

subsection \<open>Where the scans stop short\<close>

text \<open>A flag that makes a deletion harmless counts anywhere in the segment, so also in a comment or
  behind the end of the options.\<close>

lemma noop_flag_in_comment:
  "\<not> shell_command_has_sensitive_file_deletion (''rm -rf build '' @ ch_hash # '' --help'')"
  "\<not> shell_command_has_sensitive_file_deletion ''rm -rf -- build --help''"
  by code_simp+

text \<open>The program of a segment is the first word after assignments, \<open>sudo\<close> and the like: an option of
  those words, a reserved word or an opening brace hides it.\<close>

lemma program_behind_option_or_keyword:
  "\<not> shell_command_has_sensitive_file_deletion ''sudo -n rm -rf build''"
  "\<not> shell_command_has_sensitive_file_deletion ''if true; then rm -rf build; fi''"
  "\<not> shell_command_has_sensitive_file_deletion ''{ rm -rf build; }''"
  by code_simp+

text \<open>Git is known to the stash and working-tree scans only under its bare name.\<close>

lemma git_under_another_name:
  "shell_command_has_sensitive_git_worktree ''git reset --hard''"
  "\<not> shell_command_has_sensitive_git_worktree ''/usr/bin/git reset --hard''"
  "\<not> shell_command_has_sensitive_git_stash ''git.exe stash drop''"
  by code_simp+

end
