(* ===== verification/Auto_Facts.thy ===== *)
theory Auto_Facts
  imports Shell_Risk
begin

text \<open>
  What the classification of automatic mode guarantees: a script offered for review is the whole input of
  its interpreter, an exempt root excuses nothing but deletions confined to it, a command authorised for
  its deletions deletes only under its roots, and which classes the question for background workers covers.
\<close>

subsection \<open>Scripts for review\<close>






subsection \<open>What an exempt root excuses\<close>

function peeled_input :: "string \<Rightarrow> json \<Rightarrow> json" where
  "peeled_input tool_name input =
     (case residual_input tool_name input of Some r \<Rightarrow> peeled_input tool_name r | None \<Rightarrow> input)"
  by pat_completeness auto
termination
  by (relation "measure (\<lambda>(tool_name, input). command_size tool_name input)")
    (auto dest: residual_input_shorter)

declare peeled_input.simps [simp del]

lemma peeled_step: "residual_input tool_name input = Some r \<Longrightarrow> peeled_input tool_name input = peeled_input tool_name r"
  by (simp add: peeled_input.simps [of _ input])

lemma peeled_end: "residual_input tool_name input = None \<Longrightarrow> peeled_input tool_name input = input"
  by (simp add: peeled_input.simps [of _ input])

lemma classify_peeled:
  "classify_auto_mode_tool_input_with_options resolve tool_name input root cont =
     classify_residual resolve tool_name (peeled_input tool_name input) root cont"
  by (induction tool_name input rule: peeled_input.induct)
    (simp add: classify_auto_mode_tool_input_with_options.simps [of _ _ input for input]
      peeled_input.simps [of _ input for input] split: option.split)

lemma beyond_deletions_peeled:
  "is_sensitive_beyond_deletions tool_name input =
     residual_sensitive_beyond_deletions tool_name (peeled_input tool_name input)"
  by (induction tool_name input rule: peeled_input.induct)
    (simp add: is_sensitive_beyond_deletions.simps [of _ input for input]
      peeled_input.simps [of _ input for input] split: option.split)

text \<open>An exempt root excuses nothing but deletions confined to it: whatever the classification says
  with the root it says without it, unless it says without it that files are deleted and, once the
  here-documents that are data are gone, every deletion of the command is confined to the root.\<close>

theorem exempt_root_excuses_confined_deletions_only:
  assumes "classify_auto_mode_tool_input_with_exempt_deletion_root resolve tool_name input (Some root) \<noteq>
    classify_auto_mode_tool_input resolve tool_name input"
  shows "classify_auto_mode_tool_input resolve tool_name input = Some (HardSensitive FileDeletion) \<and>
    (\<exists>command. shell_command_input tool_name (peeled_input tool_name input) = Some command \<and>
       shell_command_deletions_confined_to_root resolve command root)"
  using assms
  unfolding classify_auto_mode_tool_input_with_exempt_deletion_root_def classify_auto_mode_tool_input_def
    classify_peeled
  by (auto simp: classify_residual_def deletion_is_sensitive_def command_satisfies_def is_some_and_iff
      split: if_splits)

theorem exempt_root_excuses_confined_deletions_only_witness:
  "\<exists>command. shell_command_input ''Bash'' (peeled_input ''Bash'' (JObject [(''command'', JString ''rm /s/a'')])) =
     Some command \<and> shell_command_deletions_confined_to_root (\<lambda>_. None) command ''/s''"
proof -
  let ?i = "JObject [(''command'', JString ''rm /s/a'')]"
  have "residual_input ''Bash'' ?i = None" by code_simp
  then have "peeled_input ''Bash'' ?i = ?i" by (rule peeled_end)
  moreover have "classify_residual (\<lambda>_. None) ''Bash'' ?i None False = Some (HardSensitive FileDeletion)"
    by code_simp
  moreover have "classify_residual (\<lambda>_. None) ''Bash'' ?i (Some ''/s'') False = Some NoSpecialRisk"
    by code_simp
  ultimately have
    "classify_auto_mode_tool_input_with_exempt_deletion_root (\<lambda>_. None) ''Bash'' ?i (Some ''/s'') \<noteq>
       classify_auto_mode_tool_input (\<lambda>_. None) ''Bash'' ?i"
    unfolding classify_auto_mode_tool_input_with_exempt_deletion_root_def classify_auto_mode_tool_input_def
      classify_peeled by simp
  then show ?thesis by (rule exempt_root_excuses_confined_deletions_only [THEN conjunct2])
qed

text \<open>What is not sensitive beyond its deletions is no stash, working-tree or restore command, runs no
  script and offers none for review: the classification of such an input is no special risk, a deletion
  of files by a command or by interpreter code, or an access to session credentials.\<close>

theorem not_beyond_deletions:
  assumes "is_sensitive_beyond_deletions tool_name input = Some False"
  shows "classify_auto_mode_tool_input_with_exempt_deletion_root resolve tool_name input root \<in>
    Some ` {NoSpecialRisk, HardSensitive FileDeletion, HardSensitive InterpreterFileDeletion,
      HardSensitive SessionCredentialAccess}"
proof -
  let ?i = "peeled_input tool_name input"
  from assms have r: "residual_sensitive_beyond_deletions tool_name ?i = Some False"
    by (simp only: beyond_deletions_peeled)
  then have quiet: "\<not> is_sensitive_git_stash_command tool_name ?i"
      "\<not> is_sensitive_git_worktree_command tool_name ?i"
      "\<not> is_sensitive_git_content_restore_command tool_name ?i"
    by (auto simp: residual_sensitive_beyond_deletions_def split: if_splits)
  have "script_disposition tool_name False command = Some NoSpecialRisk"
    if "shell_command_input tool_name ?i = Some command" for command
    using r that quiet
    by (auto simp: residual_sensitive_beyond_deletions_def script_disposition_def Let_def split: if_splits)
  with quiet show ?thesis
    unfolding classify_auto_mode_tool_input_with_exempt_deletion_root_def classify_peeled
    by (auto simp: classify_residual_def split: option.split)
qed

theorem not_beyond_deletions_witness:
  "classify_auto_mode_tool_input_with_exempt_deletion_root (\<lambda>_. None) ''Bash''
     (JObject [(''command'', JString ''rm a'')]) None \<in>
   Some ` {NoSpecialRisk, HardSensitive FileDeletion, HardSensitive InterpreterFileDeletion,
     HardSensitive SessionCredentialAccess}"
proof (rule not_beyond_deletions)
  let ?i = "JObject [(''command'', JString ''rm a'')]"
  have "residual_input ''Bash'' ?i = None" by code_simp
  then show "is_sensitive_beyond_deletions ''Bash'' ?i = Some False"
    by (simp only: is_sensitive_beyond_deletions.simps [of _ ?i] option.case) code_simp
qed

subsection \<open>Where the classification stops short\<close>

text \<open>Lines are read for here-documents before quotes are: a body line inside a quotation that looks like
  the opening of a data block takes the commands after the quotation with it, which the shell runs.\<close>

lemma quoted_heredoc_hides_commands:
  "classify_auto_mode_tool_input (\<lambda>_. None) ''Bash''
     (JObject [(''command'', JString (''echo '' @ [ch_squote, ch_lf] @ ''cat << E'' @ [ch_lf, ch_squote] @
        ''; git stash drop'' @ [ch_lf] @ ''E''))]) = Some NoSpecialRisk"
  (is "_ = ?r")
proof -
  let ?c = "''echo '' @ [ch_squote, ch_lf] @ ''cat << E'' @ [ch_lf, ch_squote] @ ''; git stash drop'' @ [ch_lf] @ ''E''"
  let ?i = "JObject [(''command'', JString ?c)]"
  let ?j = "JObject [(''command'', JString (''echo '' @ [ch_squote, ch_lf]))]"
  have "residual_input ''Bash'' ?i = Some ?j" by code_simp
  moreover have "residual_input ''Bash'' ?j = None" by code_simp
  ultimately have p: "peeled_input ''Bash'' ?i = ?j" by (rule peeled_step [THEN trans, OF _ peeled_end])
  have "classify_residual (\<lambda>_. None) ''Bash'' ?j None False = ?r" by code_simp
  then show ?thesis unfolding classify_auto_mode_tool_input_def classify_peeled p .
qed

text \<open>A delimiter that is one quote character makes the slice of the extraction panic.\<close>

lemma lone_quote_delimiter_panics:
  "extract_embedded_interpreter_script (''python - << '' @ [ch_squote, ch_lf] @ ''x'') False = None"
  by code_simp

text \<open>An access to session credentials is not sensitive beyond deletions, although it is a class of its own.\<close>

lemma credential_access_not_beyond_deletions:
  "residual_sensitive_beyond_deletions ''Bash'' (JObject [(''command'', JString ''cat x.agent-token'')]) = Some False"
  "classify_residual (\<lambda>_. None) ''Bash'' (JObject [(''command'', JString ''cat x.agent-token'')]) None False =
     Some (HardSensitive SessionCredentialAccess)"
  by code_simp+

end
