(* ===== verification/Deletion_Facts.thy ===== *)
theory Deletion_Facts
  imports Deletion_Scope
begin

text \<open>
  A command that \<open>shell_command_only_deletes_inside_roots\<close> authorises deletes, in every segment, and only
  at or below the roots it was asked about; and the places where a shell reads a word differently.
\<close>

subsection \<open>Paths as lists of components\<close>







subsection \<open>The targets of an authorised command\<close>










subsection \<open>Where a shell reads the words differently\<close>

text \<open>A backslash is taken for a separator, so a quoted pair of dots passes, which a POSIX shell reads as
  the parent; a program named by its path counts as the deletion command of that name.\<close>

lemma escaped_parent_accepted:
  "shell_command_only_deletes_inside_roots (\<lambda>_. None) (''rm -rf /s/.'' @ [ch_backslash] @ ''./home'') [''/s'']"
  by code_simp

lemma any_program_of_the_name_accepted:
  "shell_command_only_deletes_inside_roots (\<lambda>_. None) ''/s/rm /s/a'' [''/s'']"
  "shell_command_only_deletes_inside_roots (\<lambda>_. None) ''LD_PRELOAD=/s/x.so rm /s/a'' [''/s'']"
  by code_simp+

end
