(* ===== verification/Messages.thy ===== *)
theory Messages
  imports Json_Value
begin

text \<open>
  The messages of a conversation with a model, \<open>crates/rebon-api/src/types.rs\<close>, and the runtime
  context a host sends as a message, \<open>crates/rebon-api/src/request.rs\<close>. The blocks are the
  constructors of \<open>ContentBlock\<close>; the token usage of a reply is not looked at by any modelled code
  and is left out.
\<close>

subsection \<open>Content blocks\<close>

datatype role = RoleUser | RoleAssistant | RoleSystem

record media_source =
  source_kind :: string
  source_media_type :: string
  source_data :: string

definition base64_source :: "string \<Rightarrow> string \<Rightarrow> media_source" where
  "base64_source media_type bytes =
     \<lparr>source_kind = ''base64'', source_media_type = media_type, source_data = bytes\<rparr>"

record compaction_block =
  compaction_content :: "string option"
  compaction_encrypted :: "string option"

record tool_use_block =
  use_id :: string
  use_name :: string
  use_input :: json

datatype tool_result_part = PartText string | PartImage media_source | PartDocument media_source

datatype tool_result_content = ResultText string | ResultBlocks "tool_result_part list"

record tool_result_block =
  result_use_id :: string
  result_content :: tool_result_content
  result_is_error :: bool

record thinking_block =
  thinking_text :: string
  thinking_signature :: "string option"
  thinking_data :: "string option"

record search_result_entry =
  entry_title :: string
  entry_url :: string
  entry_snippet :: "string option"

record web_search_result_block =
  search_use_id :: string
  search_results :: "search_result_entry list"
  search_raw_content :: "json option"

record generated_image_block =
  image_id :: string
  image_status :: "string option"
  image_revised_prompt :: "string option"
  image_media_type :: string
  image_data :: string
  image_saved_path :: "string option"

datatype content_block =
    TextBlock string
  | ImageBlock media_source
  | ToolUse tool_use_block
  | ToolResult tool_result_block
  | ThinkingBlock thinking_block
  | ServerToolUse tool_use_block
  | WebSearchResult web_search_result_block
  | CompactionBlock compaction_block
  | GeneratedImage generated_image_block

definition block_text :: "content_block \<Rightarrow> string option" where
  "block_text b = (case b of TextBlock t \<Rightarrow> Some t | _ \<Rightarrow> None)"

definition as_tool_use :: "content_block \<Rightarrow> tool_use_block option" where
  "as_tool_use b = (case b of ToolUse u \<Rightarrow> Some u | _ \<Rightarrow> None)"

definition is_backend_bound_compaction :: "content_block \<Rightarrow> bool" where
  "is_backend_bound_compaction b =
     (case b of CompactionBlock c \<Rightarrow> compaction_encrypted c \<noteq> None | _ \<Rightarrow> False)"

subsection \<open>Tool results\<close>

definition part_text :: "tool_result_part \<Rightarrow> string option" where
  "part_text p = (case p of PartText t \<Rightarrow> Some t | _ \<Rightarrow> None)"

definition result_as_text :: "tool_result_content \<Rightarrow> string option" where
  "result_as_text c = (case c of ResultText t \<Rightarrow> Some t | ResultBlocks _ \<Rightarrow> None)"

definition to_plain_text :: "tool_result_content \<Rightarrow> string" where
  "to_plain_text c =
     (case c of
        ResultText t \<Rightarrow> t
      | ResultBlocks parts \<Rightarrow> join [ch_lf] (List.map_filter part_text parts))"

definition approx_len :: "tool_result_content \<Rightarrow> nat" where
  "approx_len c =
     (case c of
        ResultText t \<Rightarrow> byte_len t
      | ResultBlocks parts \<Rightarrow>
          sum_list (map (\<lambda>p. case p of PartText t \<Rightarrow> byte_len t | PartImage _ \<Rightarrow> 8000 | PartDocument _ \<Rightarrow> 16000)
            parts))"

definition result_starts_with :: "string \<Rightarrow> tool_result_content \<Rightarrow> bool" where
  "result_starts_with needle c = (case result_as_text c of Some t \<Rightarrow> prefix needle t | None \<Rightarrow> False)"

definition result_contains :: "string \<Rightarrow> tool_result_content \<Rightarrow> bool" where
  "result_contains needle c \<longleftrightarrow> find_str needle (to_plain_text c) \<noteq> None"

definition result_is_empty :: "tool_result_content \<Rightarrow> bool" where
  "result_is_empty c = (case c of ResultText t \<Rightarrow> t = [] | ResultBlocks parts \<Rightarrow> parts = [])"

subsection \<open>Messages\<close>

record chat_message =
  role_of :: role
  content :: "content_block list"

definition user_text :: "string \<Rightarrow> chat_message" where
  "user_text t = \<lparr>role_of = RoleUser, content = [TextBlock t]\<rparr>"

definition assistant_text :: "string \<Rightarrow> chat_message" where
  "assistant_text t = \<lparr>role_of = RoleAssistant, content = [TextBlock t]\<rparr>"

definition make_meta_user_message :: "string \<Rightarrow> chat_message" where
  "make_meta_user_message body =
     user_text (''<system-reminder>'' @ [ch_lf] @ body @ [ch_lf] @ ''</system-reminder>'')"

definition RUNTIME_CONTEXT_OPEN :: string where
  "RUNTIME_CONTEXT_OPEN = ''<system-reminder>'' @ [ch_lf] @ ''<runtime_context>'' @ [ch_lf]"

definition RUNTIME_CONTEXT_CLOSE :: string where
  "RUNTIME_CONTEXT_CLOSE = [ch_lf] @ ''</runtime_context>'' @ [ch_lf] @ ''</system-reminder>''"

definition wrap_runtime_context :: "string \<Rightarrow> string" where
  "wrap_runtime_context context = RUNTIME_CONTEXT_OPEN @ context @ RUNTIME_CONTEXT_CLOSE"

definition runtime_context_message :: "string \<Rightarrow> chat_message" where
  "runtime_context_message context = user_text (wrap_runtime_context context)"

definition runtime_context_body_from_message :: "chat_message \<Rightarrow> string option" where
  "runtime_context_body_from_message m =
     (if role_of m \<noteq> RoleUser \<or> length (content m) \<noteq> 1 then None
      else Option.bind (block_text (hd (content m))) (\<lambda>text.
           Option.bind (strip_prefix RUNTIME_CONTEXT_OPEN text) (strip_suffix RUNTIME_CONTEXT_CLOSE)))"

definition is_runtime_context_message :: "chat_message \<Rightarrow> bool" where
  "is_runtime_context_message m \<longleftrightarrow> runtime_context_body_from_message m \<noteq> None"

subsection \<open>Replies\<close>

datatype stop_reason =
    EndTurn | MaxTokens | StopSequence | StopToolUse | PauseTurn | StopRefusal | StopCompaction
  | ModelContextWindowExceeded | OtherStop string

record assistant_message =
  reply_id :: string
  reply_model :: string
  reply_content :: "content_block list"
  stop_reason_of :: "stop_reason option"

definition has_tool_use :: "assistant_message \<Rightarrow> bool" where
  "has_tool_use m = list_ex (\<lambda>b. as_tool_use b \<noteq> None) (reply_content m)"

definition tool_uses :: "assistant_message \<Rightarrow> tool_use_block list" where
  "tool_uses m = List.map_filter as_tool_use (reply_content m)"

definition reply_text :: "assistant_message \<Rightarrow> string" where
  "reply_text m = concat (List.map_filter block_text (reply_content m))"

text \<open>The first place a stop sequence begins in a text, the earliest of all sequences.\<close>

definition stop_cut :: "string list \<Rightarrow> string \<Rightarrow> nat option" where
  "stop_cut sequences text =
     (case List.map_filter (\<lambda>s. find_str s text) sequences of
        [] \<Rightarrow> None
      | n # ns \<Rightarrow> Some (fold min ns n))"

text \<open>The blocks up to the first text with a stop sequence in it, that text cut; \<open>None\<close> when no
  text has one.\<close>

fun cut_blocks :: "string list \<Rightarrow> content_block list \<Rightarrow> content_block list option" where
  "cut_blocks sequences [] = None"
| "cut_blocks sequences (b # bs) =
     (case Option.bind (block_text b) (stop_cut sequences) of
        Some n \<Rightarrow> Some [TextBlock (take n (the (block_text b)))]
      | None \<Rightarrow> map_option (Cons b) (cut_blocks sequences bs))"

definition apply_stop_sequences :: "string list \<Rightarrow> assistant_message \<Rightarrow> bool \<times> assistant_message" where
  "apply_stop_sequences stop_sequences m =
     (let sequences = filter (\<lambda>s. s \<noteq> []) stop_sequences
      in if sequences = [] then (False, m)
         else case cut_blocks sequences (reply_content m) of
           None \<Rightarrow> (False, m)
         | Some bs \<Rightarrow> (True, m\<lparr>reply_content := bs, stop_reason_of := Some StopSequence\<rparr>))"

subsection \<open>Lemmas\<close>

lemma block_text_Some [simp]: "block_text b = Some t \<longleftrightarrow> b = TextBlock t"
  by (auto simp: block_text_def split: content_block.splits)

lemma block_text_TextBlock [simp]: "block_text (TextBlock t) = Some t"
  by (simp add: block_text_def)

text \<open>A message is a runtime context exactly when it is the wrapping of its body.\<close>

lemma runtime_context_body_iff:
  "runtime_context_body_from_message m = Some body \<longleftrightarrow> m = runtime_context_message body"
  by (cases m; cases "content m" rule: list.exhaust)
    (auto simp: runtime_context_body_from_message_def runtime_context_message_def user_text_def
      wrap_runtime_context_def bind_eq_Some_conv strip_prefix_Some strip_suffix_Some length_Suc_conv)

lemma take_find_str: "find_str needle s = Some n \<Longrightarrow> needle \<noteq> [] \<Longrightarrow> n < length s"
  by (induction needle s arbitrary: n rule: find_str.induct) (auto split: if_splits)

lemma find_str_occurs: "find_str needle s = Some n \<Longrightarrow> prefix needle (drop n s)"
  by (induction needle s arbitrary: n rule: find_str.induct) (auto split: if_splits)

lemma find_str_None: "find_str needle s = None \<longleftrightarrow> (\<forall>a b. s \<noteq> a @ needle @ b)"
proof (induction needle s rule: find_str.induct)
  case (1 needle)
  then show ?case by auto
next
  case (2 needle c cs)
  show ?case
  proof (cases "prefix needle (c # cs)")
    case True
    then have "\<exists>a b. c # cs = a @ needle @ b" by (metis append_Nil prefix_def)
    then have "\<not> (\<forall>a b. c # cs \<noteq> a @ needle @ b)" by blast
    with True show ?thesis by simp
  next
    case False
    have "(\<exists>a b. c # cs = a @ needle @ b) \<longleftrightarrow> (\<exists>a b. cs = a @ needle @ b)"
    proof
      assume "\<exists>a b. c # cs = a @ needle @ b"
      then obtain a b where ab: "c # cs = a @ needle @ b" by blast
      with False obtain a' where "a = c # a'" by (cases a) (auto simp: prefix_def)
      with ab show "\<exists>a b. cs = a @ needle @ b" by auto
    next
      assume "\<exists>a b. cs = a @ needle @ b"
      then show "\<exists>a b. c # cs = a @ needle @ b" by (metis append_Cons)
    qed
    then have "(\<forall>a b. c # cs \<noteq> a @ needle @ b) \<longleftrightarrow> (\<forall>a b. cs \<noteq> a @ needle @ b)" by blast
    with False 2 show ?thesis by simp
  qed
qed

lemma find_str_take: "find_str needle s = Some n \<Longrightarrow> m \<le> n \<Longrightarrow> needle \<noteq> [] \<Longrightarrow> find_str needle (take m s) = None"
proof (induction needle s arbitrary: n m rule: find_str.induct)
  case (1 needle)
  then show ?case by simp
next
  case (2 needle c cs)
  show ?case
  proof (cases m)
    case 0
    with 2 show ?thesis by simp
  next
    case (Suc k)
    with 2 obtain n' where n': "n = Suc n'" "find_str needle cs = Some n'" "k \<le> n'"
      and no: "\<not> prefix needle (c # cs)"
      by (auto split: if_splits)
    have "\<not> prefix needle (c # take k cs)"
      using no by (metis prefix_order.trans take_is_prefix take_Suc_Cons)
    with 2 n' no Suc show ?thesis by simp
  qed
qed

lemma fold_min_le: "fold min ns (n :: nat) \<le> n \<and> (\<forall>k \<in> set ns. fold min ns n \<le> k)"
proof (induction ns arbitrary: n)
  case Nil
  show ?case by simp
next
  case (Cons a ns)
  from Cons.IH [of "min a n"] show ?case by auto
qed

lemma stop_cut_le:
  assumes "stop_cut sequences text = Some k" "s \<in> set sequences" "find_str s text = Some n"
  shows "k \<le> n"
proof -
  have "n \<in> set (List.map_filter (\<lambda>s. find_str s text) sequences)"
    using assms(2,3) by (force simp: List.map_filter_def)
  with assms(1) show ?thesis
    by (auto simp: stop_cut_def split: list.splits intro: conjunct1 [OF fold_min_le])
       (meson fold_min_le)
qed

lemma stop_cut_None:
  "stop_cut sequences text = None \<longleftrightarrow> (\<forall>s \<in> set sequences. find_str s text = None)"
  by (induction sequences) (auto simp: stop_cut_def List.map_filter_simps split: list.splits option.splits)

end
