(* ===== verification/Auto_Transcript.thy ===== *)
theory Auto_Transcript
  imports Messages
begin

text \<open>
  What the auto-mode classifier reads: the transcript of
  \<open>crates/rebon-core/src/auto_mode_classifier.rs\<close>, one record per line, and the reading of it by the
  permission gate (\<open>transcript_through_latest_user_turn\<close> of \<open>crates/rebon-core/src/permission.rs\<close>).

  The text of a JSON value is the parameter \<open>json_text\<close> (\<open>serde_json\<close>). What the code relies on is
  \<open>compact_json\<close>: the compact text holds no line feed, and the one of an object starts with a
  brace; \<open>compact_text\<close> is such a printer.
\<close>

subsection \<open>The text of a JSON value\<close>

definition compact_json :: "(json \<Rightarrow> string) \<Rightarrow> bool" where
  "compact_json json_text \<longleftrightarrow>
     (\<forall>v. ch_lf \<notin> set (json_text v)) \<and> (\<forall>kvs. \<exists>r. json_text (JObject kvs) = ch_lbrace # r)"

definition json_escape :: "char \<Rightarrow> string" where
  "json_escape c =
     (if c = ch_dquote \<or> c = ch_backslash then [ch_backslash, c]
      else if code c < 32 then
        [ch_backslash, CHR ''u'', CHR ''0'', CHR ''0''] @
        [''0123456789abcdef'' ! (code c div 16), ''0123456789abcdef'' ! (code c mod 16)]
      else [c])"

definition json_quoted :: "string \<Rightarrow> string" where
  "json_quoted s = [ch_dquote] @ concat (map json_escape s) @ [ch_dquote]"

definition json_number :: "int \<Rightarrow> string" where
  "json_number i = (if i < 0 then [ch_dash] else []) @ decimal (nat \<bar>i\<bar>)"

fun compact_text :: "json \<Rightarrow> string" where
  "compact_text JNull = ''null''"
| "compact_text (JBool b) = (if b then ''true'' else ''false'')"
| "compact_text (JNumber i) = json_number i"
| "compact_text (JString s) = json_quoted s"
| "compact_text (JArray vs) = [ch_lbracket] @ join [ch_comma] (map compact_text vs) @ [ch_rbracket]"
| "compact_text (JObject kvs) =
     [ch_lbrace] @ join [ch_comma] (map (\<lambda>(k, v). json_quoted k @ [ch_colon] @ compact_text v) kvs) @ [ch_rbrace]"

lemma not_lf_digit: "list_all is_ascii_digit s \<Longrightarrow> ch_lf \<notin> set s"
  by (auto simp: list_all_iff is_ascii_digit_def code_def)

lemma hex_digit_plain: "n < 16 \<Longrightarrow> ''0123456789abcdef'' ! n \<noteq> ch_lf"
  by (simp add: nth_Cons' split: if_splits)

lemma json_escape_plain: "ch_lf \<notin> set (json_escape c)"
proof -
  have "''0123456789abcdef'' ! (code c mod 16) \<noteq> ch_lf" by (intro hex_digit_plain) simp
  moreover have "''0123456789abcdef'' ! (code c div 16) \<noteq> ch_lf" if "code c < 32"
    using that by (intro hex_digit_plain) simp
  moreover have "c \<noteq> ch_lf" if "\<not> code c < 32" using that by (auto simp: code_def)
  ultimately show ?thesis by (auto simp: json_escape_def)
qed

lemma json_quoted_plain: "ch_lf \<notin> set (json_quoted s)"
  using json_escape_plain by (auto simp: json_quoted_def)

lemma join_plain: "ch_lf \<notin> set sep \<Longrightarrow> (\<And>w. w \<in> set ws \<Longrightarrow> ch_lf \<notin> set w) \<Longrightarrow> ch_lf \<notin> set (join sep ws)"
  by (induction sep ws rule: join.induct) auto

lemma compact_text_plain: "ch_lf \<notin> set (compact_text v)"
proof (induction v rule: compact_text.induct)
  case (5 vs)
  then have "ch_lf \<notin> set (join [ch_comma] (map compact_text vs))" by (intro join_plain) auto
  then show ?case by simp
next
  case (6 kvs)
  then have "ch_lf \<notin> set (join [ch_comma] (map (\<lambda>(k, v). json_quoted k @ [ch_colon] @ compact_text v) kvs))"
    using json_quoted_plain by (intro join_plain) fastforce+
  then show ?case by simp
qed (use json_quoted_plain not_lf_digit [OF decimal_digits] in \<open>auto simp: json_number_def\<close>)

lemma compact_json_text: "compact_json compact_text"
  using compact_text_plain by (simp add: compact_json_def)

subsection \<open>Records of the transcript\<close>

datatype transcript_user_turns = Human | DelegatingAgent

definition DELEGATION_CALL_ID :: string where
  "DELEGATION_CALL_ID = ''delegated-by-parent-agent''"

definition PENDING_LEAD :: string where
  "PENDING_LEAD = ''Your question is on the user'' @ [ch_squote] @ ''s screen; the answer has not arrived yet.''"

definition is_pending_model_text :: "string \<Rightarrow> bool" where
  "is_pending_model_text text \<longleftrightarrow> prefix PENDING_LEAD text"

text \<open>\<open>push_transcript_text\<close>: the record it adds.\<close>

definition transcript_text :: "string \<Rightarrow> string \<Rightarrow> string" where
  "transcript_text pre body =
     pre @ replace_str [ch_lf] (ch_lf # ''  '') (replace_char ch_cr ch_lf (replace_str [ch_cr, ch_lf] [ch_lf] body))
     @ [ch_lf]"

definition is_plain_tool_name :: "string \<Rightarrow> bool" where
  "is_plain_tool_name name \<longleftrightarrow> list_all (\<lambda>c. is_ascii_alphanumeric c \<or> c \<in> set ''_.-'') name"

definition serialize_tool_call ::
  "(json \<Rightarrow> string) \<Rightarrow> string \<Rightarrow> string option \<Rightarrow> json \<Rightarrow> string" where
  "serialize_tool_call json_text tool use input =
     (let display = (if is_plain_tool_name tool then tool else ''tool: '' @ tool);
          payload = JObject [(''id'', JString (case use of Some i \<Rightarrow> i | None \<Rightarrow> ''tool-call'')), (''input'', input)]
      in [ch_lbracket] @ display @ '']'' @ '' '' @ json_text payload @ [ch_lf])"

definition tool_outcome_code :: "bool \<Rightarrow> string \<Rightarrow> string" where
  "tool_outcome_code is_error body =
     (if \<not> is_error then ''ok''
      else
        let has = (\<lambda>needle. find_str needle (lower body) \<noteq> None)
        in if has ''interrupted by user'' then ''interrupted''
           else if has ''classifier unavailable'' \<or> has ''classifier request timed out'' \<or>
             has ''classifier ran out of output budget'' then ''automode-unavailable''
           else if has ''classifier response could not be parsed'' then ''automode-parsing-error''
           else if has ''auto mode blocked'' \<or> has ''auto mode denied'' then ''automode-blocked''
           else if has ''the user chose'' \<or> has ''rejected by user'' then ''rejected-by-user''
           else if has ''permission denied'' \<or> has ''blocked by permissions'' then ''blocked-by-permissions''
           else ''error'')"

text \<open>The names of the tools used so far, by the id of the use.\<close>

type_synonym tool_names = "string \<rightharpoonup> string"

definition role_prefix :: "role \<Rightarrow> string" where
  "role_prefix r =
     (case r of RoleUser \<Rightarrow> ''User: '' | RoleAssistant \<Rightarrow> ''Assistant: '' | RoleSystem \<Rightarrow> ''System: '')"

definition is_user_answer :: "tool_names \<Rightarrow> tool_result_block \<Rightarrow> bool" where
  "is_user_answer names r \<longleftrightarrow>
     names (result_use_id r) = Some ''AskUserQuestion'' \<and> \<not> result_is_error r \<and>
     \<not> is_pending_model_text (to_plain_text (result_content r))"

definition json_line :: "(json \<Rightarrow> string) \<Rightarrow> (string \<times> json) list \<Rightarrow> string" where
  "json_line json_text kvs = json_text (JObject kvs) @ [ch_lf]"

definition block_record ::
  "(json \<Rightarrow> string) \<Rightarrow> transcript_user_turns \<Rightarrow> role \<Rightarrow> tool_names \<Rightarrow> content_block \<Rightarrow> string" where
  "block_record json_text turns r names b =
     (case b of
        TextBlock t \<Rightarrow>
          if trim t = [] then []
          else if r = RoleUser \<and> turns = DelegatingAgent then
            serialize_tool_call json_text ''Agent'' (Some DELEGATION_CALL_ID) (JObject [(''prompt'', JString t)])
          else transcript_text (role_prefix r) t
      | ToolUse u \<Rightarrow> serialize_tool_call json_text (use_name u) (Some (use_id u)) (use_input u)
      | ToolResult res \<Rightarrow>
          (let body = to_plain_text (result_content res)
           in if is_user_answer names res then transcript_text ''User: [User answered AskUserQuestion]: '' body
              else json_line json_text
                [(''outcome'', JString (tool_outcome_code (result_is_error res) body)),
                 (''id'', JString (result_use_id res)), (''tool_result'', JString body)])
      | ServerToolUse u \<Rightarrow> serialize_tool_call json_text (use_name u) (Some (use_id u)) (use_input u)
      | WebSearchResult w \<Rightarrow>
          json_line json_text
            [(''outcome'', JString ''ok''), (''id'', JString (search_use_id w)),
             (''tool_result'', JString ''server-side web search result omitted'')]
      | CompactionBlock c \<Rightarrow>
          (case compaction_content c of
             Some t \<Rightarrow> transcript_text ''Assistant: [System-generated history summary] '' t
           | None \<Rightarrow> [])
      | ImageBlock _ \<Rightarrow> []
      | ThinkingBlock _ \<Rightarrow> []
      | GeneratedImage _ \<Rightarrow> [])"

definition block_names :: "tool_names \<Rightarrow> content_block \<Rightarrow> tool_names" where
  "block_names names b =
     (case b of
        ToolUse u \<Rightarrow> names(use_id u \<mapsto> use_name u)
      | ServerToolUse u \<Rightarrow> names(use_id u \<mapsto> use_name u)
      | _ \<Rightarrow> names)"

text \<open>The blocks of one message, then the messages; a runtime context is one record.\<close>

fun block_records ::
  "(json \<Rightarrow> string) \<Rightarrow> transcript_user_turns \<Rightarrow> role \<Rightarrow> tool_names \<Rightarrow> content_block list \<Rightarrow> string" where
  "block_records json_text turns r names [] = []"
| "block_records json_text turns r names (b # bs) =
     block_record json_text turns r names b @ block_records json_text turns r (block_names names b) bs"

fun message_records ::
  "(json \<Rightarrow> string) \<Rightarrow> transcript_user_turns \<Rightarrow> tool_names \<Rightarrow> chat_message list \<Rightarrow> string" where
  "message_records json_text turns names [] = []"
| "message_records json_text turns names (m # ms) =
     (case runtime_context_body_from_message m of
        Some body \<Rightarrow>
          json_line json_text [(''meta'', JObject [(''runtimeContext'', JString body)])] @
          message_records json_text turns names ms
      | None \<Rightarrow>
          block_records json_text turns (role_of m) names (content m) @
          message_records json_text turns (foldl block_names names (content m)) ms)"

definition serialize_auto_mode_transcript_as ::
  "(json \<Rightarrow> string) \<Rightarrow> transcript_user_turns \<Rightarrow> chat_message list \<Rightarrow> string" where
  "serialize_auto_mode_transcript_as json_text turns ms = message_records json_text turns Map.empty ms"

definition serialize_auto_mode_transcript :: "(json \<Rightarrow> string) \<Rightarrow> chat_message list \<Rightarrow> string" where
  "serialize_auto_mode_transcript json_text ms = serialize_auto_mode_transcript_as json_text Human ms"

subsection \<open>Reading it back\<close>

text \<open>\<open>transcript_through_latest_user_turn\<close>: the loop over the lines, with the number of characters
  read, whether a user turn is open, and where the last one ended.\<close>

fun user_turn_end :: "string list \<Rightarrow> nat \<Rightarrow> bool \<Rightarrow> nat option \<Rightarrow> nat option" where
  "user_turn_end [] offset in_turn last_end = last_end"
| "user_turn_end (l # ls) offset in_turn last_end =
     (let line_end = offset + length l;
          body = (case strip_suffix [ch_lf] l of Some b \<Rightarrow> b | None \<Rightarrow> l)
      in if prefix ''User: '' body then user_turn_end ls line_end True (Some line_end)
         else if in_turn \<and> prefix ''  '' body then user_turn_end ls line_end in_turn (Some line_end)
         else user_turn_end ls line_end False last_end)"

definition transcript_through_latest_user_turn :: "string \<Rightarrow> string" where
  "transcript_through_latest_user_turn transcript =
     take (case user_turn_end (split_inclusive ch_lf transcript) 0 False None of Some n \<Rightarrow> n | None \<Rightarrow> 0) transcript"

end
