(* ===== verification/Auto_Classifier.thy ===== *)
theory Auto_Classifier
  imports Auto_Transcript "HOL-Library.Word"
begin

text \<open>
  The model that judges a tool call in automatic mode, \<open>crates/rebon-core/src/auto_mode_classifier.rs\<close>:
  the request put to it, the two stages of a judgment, the grammar of the replies, and the fallback
  model.

  The client of the model is a parameter, a function from the request to the reply or to the text of
  the error; so are the prompt texts (\<open>auto_mode_classifier/*.md\<close> and the instructions after them)
  and the text of a JSON value. A panic is \<open>None\<close>. Characters above 255 are outside the strings of
  the model: \<open>ellipsis\<close> stands for the one that marks a cut text, and the dash among the separators
  of a restated category is left out.
\<close>

subsection \<open>Requests, verdicts, failures\<close>

datatype classifier_stage = FastStage | ThinkingStage

definition stage_name :: "classifier_stage \<Rightarrow> string" where
  "stage_name st = (case st of FastStage \<Rightarrow> ''Fast'' | ThinkingStage \<Rightarrow> ''Thinking'')"

record user_grant =
  grant_id :: string
  grant_action :: string
  grant_target :: string
  grant_quote :: string
  grant_proposal :: "string option"

record classifier_request =
  cr_tool_name :: string
  cr_tool_input :: json
  cr_tool_use_id :: "string option"
  cr_transcript :: string
  cr_cwd :: "string option"
  cr_isolated_worktree :: bool
  cr_nesting_depth :: nat
  cr_user_grants :: "user_grant list"

datatype classifier_outcome =
    ClassifierAllow string classifier_stage
  | ClassifierBlock string "string option"

datatype failure_kind =
    Unavailable | Parsing | Refusal | TranscriptTooLong | OutputBudgetExhausted

record classifier_error =
  failure_kind_of :: failure_kind
  failure_message :: string
  failure_detail :: "string option"

definition unavailable :: "string \<Rightarrow> classifier_error" where
  "unavailable msg = \<lparr>failure_kind_of = Unavailable, failure_message = msg, failure_detail = Some msg\<rparr>"

definition RESPONSE_SNIPPET_CHARS :: nat where
  "RESPONSE_SNIPPET_CHARS = 160"

definition describe_response :: "string \<Rightarrow> string \<Rightarrow> nat \<Rightarrow> string" where
  "describe_response ellipsis raw limit =
     (let total = decimal (length raw);
          trimmed = trim raw
      in if trimmed = [] then ''response was empty ('' @ total @ '' chars)''
         else
           let snippet = map (\<lambda>c. if is_control c then ch_space else c) (take limit trimmed);
               snippet = (if length trimmed > limit then snippet @ ellipsis else snippet)
           in ''response ('' @ total @ '' chars): '' @ debug_str snippet)"

definition stage_on :: "classifier_stage \<Rightarrow> string \<Rightarrow> string" where
  "stage_on st model = stage_name st @ '' stage on '' @ [ch_backtick] @ model @ [ch_backtick]"

definition parsing_error :: "string \<Rightarrow> classifier_stage \<Rightarrow> string \<Rightarrow> string \<Rightarrow> string \<Rightarrow> classifier_error" where
  "parsing_error ellipsis st model raw violation =
     \<lparr>failure_kind_of = Parsing,
      failure_message = stage_name st @ '' classifier response could not be parsed: '' @ stage_on st model @
        '': '' @ violation @ ''; '' @ describe_response ellipsis raw RESPONSE_SNIPPET_CHARS,
      failure_detail = Some (stage_on st model @ ''; the reply is in the host log'')\<rparr>"

definition refusal_error :: "classifier_stage \<Rightarrow> classifier_error" where
  "refusal_error st =
     \<lparr>failure_kind_of = Refusal,
      failure_message = stage_name st @ '' classifier request was refused by the model safeguard'',
      failure_detail = None\<rparr>"

definition output_budget_exhausted :: "classifier_stage \<Rightarrow> string \<Rightarrow> 32 word \<Rightarrow> classifier_error" where
  "output_budget_exhausted st model ceiling =
     \<lparr>failure_kind_of = OutputBudgetExhausted,
      failure_message = stage_name st @ '' classifier reply hit its '' @ decimal (unat ceiling) @
        ''-token output ceiling before a verdict was reached'',
      failure_detail = Some (stage_on st model @ ''; the '' @ decimal (unat ceiling) @
        ''-token output ceiling was spent before the verdict'')\<rparr>"

definition transcript_too_long :: classifier_error where
  "transcript_too_long =
     \<lparr>failure_kind_of = TranscriptTooLong,
      failure_message = ''classifier transcript exceeded the model context window'',
      failure_detail = None\<rparr>"

definition can_fallback :: "classifier_error \<Rightarrow> bool" where
  "can_fallback e \<longleftrightarrow> failure_kind_of e \<in> {Unavailable, Refusal, Parsing, OutputBudgetExhausted}"

subsection \<open>The grammar of the replies\<close>

definition open_tag :: "string \<Rightarrow> string" where
  "open_tag tag = ''<'' @ tag @ ''>''"

definition close_tag :: "string \<Rightarrow> string" where
  "close_tag tag = ''</'' @ tag @ ''>''"

text \<open>What stands before the first occurrence of a text, and what follows that occurrence.\<close>

definition cut_at :: "string \<Rightarrow> string \<Rightarrow> (string \<times> string) option" where
  "cut_at needle s = map_option (\<lambda>n. (take n s, drop (n + length needle) s)) (find_str needle s)"

abbreviation trim_start :: "string \<Rightarrow> string" where
  "trim_start \<equiv> trim_start_by is_whitespace"

definition parse_stage_one_response :: "string \<Rightarrow> string + bool" where
  "parse_stage_one_response raw =
     and_then (ok_or (strip_prefix (open_tag ''block'') (trim raw)) ''response must begin with <block>'')
       (\<lambda>remainder.
         let (body, trailing) =
               (case cut_at (close_tag ''block'') remainder of Some p \<Rightarrow> p | None \<Rightarrow> (remainder, []));
             verdict = lower (trim body)
         in if trim trailing \<noteq> [] then Inl ''unexpected content after </block>''
            else if verdict = ''yes'' then Inr True
            else if verdict = ''no'' then Inr False
            else Inl (''invalid <block> value '' @ debug_str verdict))"

definition take_tag :: "string \<Rightarrow> string \<Rightarrow> string + string \<times> string" where
  "take_tag raw tag =
     and_then (ok_or (strip_prefix (open_tag tag) (trim_start raw)) (''missing '' @ open_tag tag))
       (\<lambda>remainder.
         and_then (ok_or (cut_at (close_tag tag) remainder) (''missing '' @ close_tag tag))
           (\<lambda>(body, rest). if trim body = [] then Inl (''empty '' @ open_tag tag) else Inr (trim body, rest)))"

definition take_final_tag :: "string \<Rightarrow> string \<Rightarrow> string + string \<times> string" where
  "take_final_tag raw tag =
     and_then (ok_or (strip_prefix (open_tag tag) (trim_start raw)) (''missing '' @ open_tag tag))
       (\<lambda>remainder.
         let (body, trailing) = (case cut_at (close_tag tag) remainder of Some p \<Rightarrow> p | None \<Rightarrow> (remainder, []))
         in if trim body = [] then Inl (''empty '' @ open_tag tag) else Inr (trim body, trailing))"

record stage_two_verdict =
  should_block :: bool
  verdict_category :: "string option"
  verdict_reason :: "string option"

definition strip_restated_category :: "string \<Rightarrow> string \<Rightarrow> string" where
  "strip_restated_category category why =
     (if prefix [ch_lbracket] why then why
      else case split_at_byte (byte_len category) why of
        None \<Rightarrow> why
      | Some (head, tail) \<Rightarrow>
          if \<not> eq_ignore_ascii_case head category then why
          else case trim_start tail of
            c # cs \<Rightarrow>
              if c = ch_colon \<or> c = ch_dash then (if trim_start cs = [] then why else trim_start cs)
              else why
          | [] \<Rightarrow> why)"

definition is_category :: "string \<Rightarrow> bool" where
  "is_category category \<longleftrightarrow>
     category \<noteq> [] \<and> list_all (\<lambda>c. is_ascii_alphanumeric c \<or> c = ch_space) category"

definition after_thinking :: "string \<Rightarrow> string + string" where
  "after_thinking reply =
     (case strip_prefix (open_tag ''thinking'') reply of
        None \<Rightarrow> Inr reply
      | Some thinking \<Rightarrow>
          and_then (ok_or (cut_at (close_tag ''thinking'') thinking) ''missing </thinking>'')
            (\<lambda>(_, rest). Inr (trim_start rest)))"

definition blocking_verdict :: "string \<Rightarrow> string + stage_two_verdict" where
  "blocking_verdict remainder =
     and_then (take_tag remainder ''category'') (\<lambda>(category, remainder).
       if \<not> is_category category then Inl ''blocking response has an invalid category''
       else and_then (take_final_tag remainder ''reason'') (\<lambda>(why, remainder).
         if trim remainder \<noteq> [] then Inl ''unexpected content after </reason>''
         else Inr \<lparr>should_block = True, verdict_category = Some category,
                   verdict_reason = Some (strip_restated_category category why)\<rparr>))"

definition parse_stage_two_response :: "string \<Rightarrow> string + stage_two_verdict" where
  "parse_stage_two_response raw =
     and_then (after_thinking (trim raw)) (\<lambda>verdict.
       if \<not> prefix (open_tag ''block'') verdict then
         Inl ''verdict must begin with <block> after optional thinking''
       else and_then (take_tag verdict ''block'') (\<lambda>(block, remainder).
         let word = lower block
         in if word = ''no'' then
              (if trim remainder \<noteq> [] then Inl ''allowed response must end after </block>''
               else Inr \<lparr>should_block = False, verdict_category = None, verdict_reason = None\<rparr>)
            else if word = ''yes'' then blocking_verdict remainder
            else Inl (''invalid <block> value '' @ debug_str word)))"

subsection \<open>Asking the model\<close>

datatype reasoning_effort = EffortLow | EffortHigh

record model_request =
  mr_model :: string
  mr_prompt :: string
  mr_system :: string
  mr_stop_sequences :: "string list"
  mr_effort :: reasoning_effort
  mr_max_tokens :: "32 word"

record model_client =
  create_message :: "model_request \<Rightarrow> string + assistant_message"
  output_budget_includes_reasoning :: bool

record classifier_prompts =
  system_prompt :: string
  stage_one_suffix :: string
  stage_two_suffix :: string

definition STAGE_ONE_MAX_TOKENS :: "32 word" where "STAGE_ONE_MAX_TOKENS = 64"
definition STAGE_TWO_MAX_TOKENS :: "32 word" where "STAGE_TWO_MAX_TOKENS = 8192"
definition STAGE_ONE_EFFORT_ORDINAL :: nat where "STAGE_ONE_EFFORT_ORDINAL = 0"
definition STAGE_TWO_EFFORT_ORDINAL :: nat where "STAGE_TWO_EFFORT_ORDINAL = 2"

definition effort_to_openai_max_tokens :: "nat \<Rightarrow> 32 word" where
  "effort_to_openai_max_tokens ordinal =
     (if ordinal = 0 then 16000 else if ordinal = 1 then 32000
      else if ordinal = 3 \<or> ordinal = 4 then 128000 else 64000)"

definition stage_stop_sequences :: "classifier_stage \<Rightarrow> string list" where
  "stage_stop_sequences st =
     (case st of
        FastStage \<Rightarrow> [close_tag ''block'']
      | ThinkingStage \<Rightarrow> [''<end/>'', close_tag ''reason''])"

definition stage_effort :: "classifier_stage \<Rightarrow> reasoning_effort" where
  "stage_effort st = (case st of FastStage \<Rightarrow> EffortLow | ThinkingStage \<Rightarrow> EffortHigh)"

text \<open>The ceiling for a verdict and the one for a verdict with its reasoning.\<close>

definition stage_ceilings :: "classifier_stage \<Rightarrow> 32 word \<times> 32 word" where
  "stage_ceilings st =
     (case st of
        FastStage \<Rightarrow> (STAGE_ONE_MAX_TOKENS, effort_to_openai_max_tokens STAGE_ONE_EFFORT_ORDINAL)
      | ThinkingStage \<Rightarrow> (STAGE_TWO_MAX_TOKENS, effort_to_openai_max_tokens STAGE_TWO_EFFORT_ORDINAL))"

definition send_sized_classifier_request ::
  "model_client \<Rightarrow> string \<Rightarrow> model_request \<Rightarrow> classifier_stage \<Rightarrow> classifier_error + string" where
  "send_sized_classifier_request client model req st =
     (case create_message client req of
        Inl e \<Rightarrow> Inl (unavailable e)
      | Inr msg \<Rightarrow>
          (case stop_reason_of msg of
             Some StopRefusal \<Rightarrow> Inl (refusal_error st)
           | Some ModelContextWindowExceeded \<Rightarrow> Inl transcript_too_long
           | Some MaxTokens \<Rightarrow> Inl (output_budget_exhausted st model (mr_max_tokens req))
           | _ \<Rightarrow> Inr (reply_text msg)))"

definition send_classifier_request ::
  "model_client \<Rightarrow> string \<Rightarrow> string \<Rightarrow> string \<Rightarrow> classifier_stage \<Rightarrow> classifier_error + string" where
  "send_classifier_request client model system prompt st =
     (let (verdict_ceiling, reasoning_ceiling) = stage_ceilings st;
          req = (\<lambda>ceiling. \<lparr>mr_model = model, mr_prompt = prompt, mr_system = system,
                  mr_stop_sequences = stage_stop_sequences st, mr_effort = stage_effort st,
                  mr_max_tokens = ceiling\<rparr>)
      in if output_budget_includes_reasoning client then
           send_sized_classifier_request client model (req reasoning_ceiling) st
         else case send_sized_classifier_request client model (req verdict_ceiling) st of
           Inl e \<Rightarrow>
             if failure_kind_of e = OutputBudgetExhausted then
               send_sized_classifier_request client model (req reasoning_ceiling) st
             else Inl e
         | Inr reply \<Rightarrow> Inr reply)"

definition grant_json :: "user_grant \<Rightarrow> json" where
  "grant_json g =
     JObject ([(''id'', JString (grant_id g)), (''action'', JString (grant_action g)),
       (''target'', JString (grant_target g)), (''userQuote'', JString (grant_quote g))] @
       (case grant_proposal g of None \<Rightarrow> [] | Some p \<Rightarrow> [(''proposalQuote'', JString p)]))"

definition user_grants_line :: "(json \<Rightarrow> string) \<Rightarrow> user_grant list \<Rightarrow> string" where
  "user_grants_line json_text grants =
     (if grants = [] then []
      else json_line json_text [(''meta'', JObject [(''userGrants'', JArray (map grant_json grants))])])"

definition classifier_user_prompt :: "(json \<Rightarrow> string) \<Rightarrow> classifier_request \<Rightarrow> string \<Rightarrow> string" where
  "classifier_user_prompt json_text req suffix_text =
     (let transcript = user_grants_line json_text (cr_user_grants req) @ trim_end_by is_whitespace (cr_transcript req);
          transcript = (if transcript \<noteq> [] then transcript @ [ch_lf] else transcript);
          metadata = json_line json_text
            [(''meta'', JObject
               [(''cwd'', case cr_cwd req of Some d \<Rightarrow> JString d | None \<Rightarrow> JNull),
                (''isolatedWorktree'', JBool (cr_isolated_worktree req)),
                (''workflowNestingDepth'', JNumber (int (cr_nesting_depth req)))])];
          call = serialize_tool_call json_text (cr_tool_name req) (cr_tool_use_id req) (cr_tool_input req)
      in ''<transcript>'' @ [ch_lf] @ transcript @ metadata @ call @ ''</transcript>'' @ suffix_text)"

subsection \<open>A judgment\<close>

record classifier_env =
  env_json_text :: "json \<Rightarrow> string"
  env_prompts :: classifier_prompts
  env_ellipsis :: string

definition classify_with_client ::
  "classifier_env \<Rightarrow> model_client \<Rightarrow> string \<Rightarrow> classifier_request \<Rightarrow>
   (classifier_error + classifier_outcome) option" where
  "classify_with_client env client model req =
     (let send = (\<lambda>st suffix_text. send_classifier_request client model (system_prompt (env_prompts env))
            (classifier_user_prompt (env_json_text env) req suffix_text) st);
          fail = (\<lambda>st raw why. Inl (parsing_error (env_ellipsis env) st model raw why))
      in case send FastStage (stage_one_suffix (env_prompts env)) of
           Inl e \<Rightarrow> Some (Inl e)
         | Inr raw \<Rightarrow>
             (case parse_stage_one_response raw of
                Inl why \<Rightarrow> Some (fail FastStage raw why)
              | Inr False \<Rightarrow> Some (Inr (ClassifierAllow ''Allowed by fast classifier'' FastStage))
              | Inr True \<Rightarrow>
                  (case send ThinkingStage (stage_two_suffix (env_prompts env)) of
                     Inl e \<Rightarrow> Some (Inl e)
                   | Inr raw \<Rightarrow>
                       (case parse_stage_two_response raw of
                          Inl why \<Rightarrow> Some (fail ThinkingStage raw why)
                        | Inr v \<Rightarrow>
                            if should_block v then
                              map_option (\<lambda>why. Inr (ClassifierBlock why (verdict_category v))) (verdict_reason v)
                            else Some (Inr (ClassifierAllow ''Allowed by thinking classifier'' ThinkingStage))))))"

record runtime_model =
  main_model :: string
  model_profiles :: "string \<rightharpoonup> string"
  title_model :: string

definition CLASSIFIER_MODEL_PROFILE :: string where
  "CLASSIFIER_MODEL_PROFILE = ''classifier''"

definition classifier_models :: "runtime_model \<Rightarrow> string \<times> string option" where
  "classifier_models rt =
     (let primary = (case model_profiles rt CLASSIFIER_MODEL_PROFILE of
                       Some m \<Rightarrow> if trim m \<noteq> [] then m else main_model rt
                     | None \<Rightarrow> main_model rt)
      in (primary, if trim (title_model rt) \<noteq> [] \<and> title_model rt \<noteq> primary then Some (title_model rt) else None))"

text \<open>\<open>classify\<close>: each of the two attempts has a client of its own, a fork of the session's.\<close>

definition classify_call ::
  "classifier_env \<Rightarrow> model_client \<Rightarrow> model_client \<Rightarrow> runtime_model \<Rightarrow> classifier_request \<Rightarrow>
   (classifier_error + classifier_outcome) option" where
  "classify_call env primary_client fallback_client rt req =
     (let (primary, fallback) = classifier_models rt
      in case classify_with_client env primary_client primary req of
           Some (Inl e) \<Rightarrow>
             if can_fallback e then
               (case fallback of
                  None \<Rightarrow> Some (Inl e)
                | Some other \<Rightarrow> classify_with_client env fallback_client other req)
             else Some (Inl e)
         | answer \<Rightarrow> answer)"

end
