(* ===== verification/Classifier_Facts.thy ===== *)
theory Classifier_Facts
  imports Auto_Classifier
begin

text \<open>
  What a verdict of the classifier rests on: an allow on a literal \<open>no\<close> alone, a block on a named
  rule and a reason; a cut reply never turns one into the other, and no reply makes the judgment
  panic.
\<close>

subsection \<open>Trimming and cutting\<close>

lemma trim_start_append: "trim_start_by p s \<noteq> [] \<Longrightarrow> trim_start_by p (s @ t) = trim_start_by p s @ t"
  by (induction s) (auto simp: trim_start_by_def)

lemma trim_start_prefix:
  "prefix a b \<Longrightarrow> trim_start_by p a \<noteq> [] \<Longrightarrow> prefix (trim_start_by p a) (trim_start_by p b)"
  by (auto simp: prefix_def trim_start_append)

lemma trim_end_prefix:
  assumes "prefix a b"
  shows "prefix (trim_end_by p a) (trim_end_by p b)"
proof -
  from assms obtain t where "b = a @ t" by (auto simp: prefix_def)
  moreover have "prefix (rev (dropWhile p (rev a))) (rev (dropWhile p (rev t @ rev a)))"
  proof (cases "dropWhile p (rev t) = []")
    case True
    then show ?thesis by (simp add: dropWhile_append)
  next
    case False
    have "prefix (rev (dropWhile p (rev a))) a"
      by (metis rev_rev_ident suffix_dropWhile suffix_to_prefix)
    with False show ?thesis by (auto simp: dropWhile_append intro: prefix_prefix)
  qed
  ultimately show ?thesis by (simp add: trim_end_by_def)
qed

lemma trim_prefix:
  assumes "prefix a b"
  shows "prefix (trim a) (trim b)"
proof (cases "trim_start a = []")
  case True
  then show ?thesis by (simp add: trim_def trim_end_by_def)
next
  case False
  show ?thesis unfolding trim_def by (intro trim_end_prefix trim_start_prefix assms False)
qed

lemma trim_start_nonspace: "s \<noteq> [] \<Longrightarrow> \<not> is_whitespace (hd s) \<Longrightarrow> trim_start s = s"
  by (cases s) (auto simp: trim_start_by_def)

lemma find_str_fits: "find_str needle s = Some n \<Longrightarrow> n + length needle \<le> length s"
  by (induction needle s arbitrary: n rule: find_str.induct) (auto split: if_splits dest: prefix_length_le)

lemma find_str_prefix: "find_str needle a = Some n \<Longrightarrow> prefix a b \<Longrightarrow> find_str needle b = Some n"
proof (induction needle a arbitrary: b n rule: find_str.induct)
  case (1 needle)
  then show ?case by (cases b) (auto split: if_splits)
next
  case (2 needle c cs)
  then obtain b' where b: "b = c # b'" "prefix cs b'" by (auto simp: prefix_def)
  have more: "prefix (c # cs) (c # b')" using b(2) by simp
  show ?case
  proof (cases "prefix needle (c # cs)")
    case True
    then have "prefix needle (c # b')" using more by (rule prefix_order.trans)
    with True show ?thesis using 2(2) b by simp
  next
    case False
    then obtain m where m: "find_str needle cs = Some m" "n = Suc m" using 2(2) by auto
    have "length needle \<le> length (c # cs)" using find_str_fits [OF m(1)] by simp
    then have "\<not> prefix needle (c # b')" using False more by (meson prefix_length_prefix)
    with 2(1) [OF False m(1) b(2)] m b show ?thesis by simp
  qed
qed

lemma cut_at_Some: "cut_at needle s = Some (a, b) \<Longrightarrow> s = a @ needle @ b"
proof -
  assume "cut_at needle s = Some (a, b)"
  then obtain n where n: "find_str needle s = Some n" "a = take n s" "b = drop (n + length needle) s"
    by (auto simp: cut_at_def)
  from find_str_occurs [OF n(1)] obtain r where r: "drop n s = needle @ r" by (auto simp: prefix_def)
  have "b = drop (length needle) (drop n s)" by (simp add: n(3) add.commute)
  then have "b = r" using r by simp
  with r n(2) show ?thesis by (metis append_take_drop_id)
qed

lemma cut_at_prefix:
  assumes "cut_at needle x = Some (a, b)" and "prefix x y"
  shows "\<exists>b'. cut_at needle y = Some (a, b') \<and> prefix b b'"
proof -
  from assms(1) obtain n where n: "find_str needle x = Some n" "a = take n x" "b = drop (n + length needle) x"
    by (auto simp: cut_at_def)
  obtain t where t: "y = x @ t" using assms(2) by (auto simp: prefix_def)
  show ?thesis
    using n t find_str_prefix [OF n(1) assms(2)] find_str_fits [OF n(1)] by (simp add: cut_at_def)
qed

subsection \<open>The first stage\<close>

lemma trim_idem [simp]: "trim (trim s) = trim s"
proof (cases "trim s = []")
  case False
  have hd_start: "trim_start s = [] \<or> \<not> is_whitespace (hd (trim_start s))" for s
    using hd_dropWhile [of is_whitespace s] by (cases "trim_start s = []") (simp_all add: trim_start_by_def)
  have ne: "trim_start s \<noteq> []" using False by (auto simp: trim_def trim_end_by_def)
  obtain p where p: "trim s = p" "prefix p (trim_start s)"
    by (metis trim_def trim_end_by_def rev_rev_ident suffix_dropWhile suffix_to_prefix)
  have "hd p = hd (trim_start s)" using p False by (auto simp: prefix_def)
  then have "\<not> is_whitespace (hd (trim s))" using hd_start [of s] ne p(1) by simp
  moreover have "\<not> is_whitespace (last (trim s))"
    using False hd_dropWhile [of is_whitespace "rev (trim_start s)"]
    by (simp add: trim_def trim_end_by_def last_rev)
  ultimately show ?thesis by (intro trim_id) simp
next
  case True
  show ?thesis unfolding True by (simp add: trim_def trim_start_by_def trim_end_by_def)
qed

lemma trim_eq_Nil: "trim s = [] \<longleftrightarrow> (\<forall>c \<in> set s. is_whitespace c)"
proof
  assume t: "trim s = []"
  have "dropWhile is_whitespace s = []"
  proof (rule ccontr)
    assume ne: "dropWhile is_whitespace s \<noteq> []"
    have "\<forall>c \<in> set (dropWhile is_whitespace s). is_whitespace c"
      using t by (simp add: trim_def trim_end_by_def trim_start_by_def)
    with ne hd_in_set hd_dropWhile [OF ne] show False by blast
  qed
  then show "\<forall>c \<in> set s. is_whitespace c" by simp
next
  assume "\<forall>c \<in> set s. is_whitespace c"
  then have "trim_start s = []" by (simp add: trim_start_by_def)
  then show "trim s = []" by (simp add: trim_def trim_end_by_def)
qed


text \<open>The replies of the first stage, by the word in the tag.\<close>

definition verdict_word :: "bool \<Rightarrow> string" where
  "verdict_word b = (if b then ''yes'' else ''no'')"

definition stage_one_reply :: "bool \<Rightarrow> string \<Rightarrow> bool" where
  "stage_one_reply b raw \<longleftrightarrow>
     (\<exists>body. lower (trim body) = verdict_word b \<and>
        (trim raw = open_tag ''block'' @ body \<or> trim raw = open_tag ''block'' @ body @ close_tag ''block''))"

lemma verdict_word_inject: "verdict_word a = verdict_word b \<longleftrightarrow> a = b"
  by (simp add: verdict_word_def)

lemma trim_keeps: "c \<in> set s \<Longrightarrow> \<not> is_whitespace c \<Longrightarrow> c \<in> set (trim s)"
proof -
  have keep: "c \<in> set (dropWhile is_whitespace xs)" if "c \<in> set xs" "\<not> is_whitespace c" for xs
    using that by (induction xs) auto
  assume "c \<in> set s" "\<not> is_whitespace c"
  then show ?thesis by (simp add: trim_def trim_end_by_def trim_start_by_def keep)
qed

lemma last_trim: "trim s \<noteq> [] \<Longrightarrow> \<not> is_whitespace (last (trim s))"
  using hd_dropWhile [of is_whitespace "rev (trim_start s)"]
  by (simp add: trim_def trim_end_by_def last_rev)

lemma no_tag_in_word:
  assumes "lower (trim body) = verdict_word b"
  shows "ch_lt \<notin> set body"
proof
  assume "ch_lt \<in> set body"
  then have "ch_lt \<in> set (trim body)" by (rule trim_keeps) (simp add: is_whitespace_def)
  then have "ch_lt \<in> set (lower (trim body))" by (simp add: in_set_lower code_def)
  then show False using assms by (auto simp: verdict_word_def split: if_splits)
qed

lemma cut_at_first_tag:
  assumes "ch_lt \<notin> set body"
  shows "cut_at (close_tag tag) (body @ close_tag tag @ rest) = Some (body, rest)"
    and "cut_at (close_tag tag) body = None"
proof -
  have "find_str (close_tag tag) (body @ close_tag tag @ rest) = Some (length body)"
  proof (rule find_str_append)
    fix u v assume "body = u @ v" "v \<noteq> []"
    then show "\<not> prefix (close_tag tag) (v @ close_tag tag @ rest)"
      using assms by (cases v) (auto simp: close_tag_def)
  qed
  then show "cut_at (close_tag tag) (body @ close_tag tag @ rest) = Some (body, rest)"
    by (simp add: cut_at_def)
  have "find_str (close_tag tag) body = None"
    using assms by (auto simp: find_str_None close_tag_def)
  then show "cut_at (close_tag tag) body = None" by (simp add: cut_at_def)
qed

lemma parse_stage_one_iff: "parse_stage_one_response raw = Inr b \<longleftrightarrow> stage_one_reply b raw"
proof
  assume p: "parse_stage_one_response raw = Inr b"
  then obtain remainder where r: "trim raw = open_tag ''block'' @ remainder"
    by (auto simp: parse_stage_one_response_def and_then_Inr ok_or_def strip_prefix_Some split: option.splits)
  have s: "strip_prefix (open_tag ''block'') (trim raw) = Some remainder" using r by (simp add: strip_prefix_Some)
  have word: "lower (trim body) = verdict_word b \<and> trim trailing = []"
    if "(case cut_at (close_tag ''block'') remainder of Some p \<Rightarrow> p | None \<Rightarrow> (remainder, [])) = (body, trailing)"
    for body trailing
    using p that by (auto simp: parse_stage_one_response_def s verdict_word_def Let_def split: if_splits)
  show "stage_one_reply b raw"
  proof (cases "cut_at (close_tag ''block'') remainder")
    case None
    then show ?thesis using word r by (auto simp: stage_one_reply_def)
  next
    case (Some q)
    obtain body trailing where q: "q = (body, trailing)" by fastforce
    with Some word have w: "lower (trim body) = verdict_word b" "trim trailing = []" by auto
    have "remainder = body @ close_tag ''block'' @ trailing" using cut_at_Some Some q by blast
    with r have all: "trim raw = open_tag ''block'' @ body @ close_tag ''block'' @ trailing" by simp
    have "trailing = []"
    proof (rule ccontr)
      assume "trailing \<noteq> []"
      with all have "last (trim raw) \<in> set trailing" and "trim raw \<noteq> []" by auto
      with last_trim w(2) show False by (auto simp: trim_eq_Nil)
    qed
    with all w(1) show ?thesis by (auto simp: stage_one_reply_def)
  qed
next
  assume "stage_one_reply b raw"
  then obtain body where w: "lower (trim body) = verdict_word b"
    and r: "trim raw = open_tag ''block'' @ body \<or> trim raw = open_tag ''block'' @ body @ close_tag ''block''"
    by (auto simp: stage_one_reply_def)
  have empty: "trim [] = []" by (simp add: trim_def trim_start_by_def trim_end_by_def)
  from r show "parse_stage_one_response raw = Inr b"
  proof
    assume "trim raw = open_tag ''block'' @ body"
    then show ?thesis
      using w cut_at_first_tag(2) [OF no_tag_in_word [OF w]] empty
      by (simp add: parse_stage_one_response_def verdict_word_def Let_def split: if_splits)
  next
    assume "trim raw = open_tag ''block'' @ body @ close_tag ''block''"
    then show ?thesis
      using w cut_at_first_tag(1) [OF no_tag_in_word [OF w], of "''block''" "[]"] empty
      by (simp add: parse_stage_one_response_def verdict_word_def Let_def split: if_splits)
  qed
qed

subsection \<open>The second stage\<close>

definition stage_two_no :: "string \<Rightarrow> bool" where
  "stage_two_no raw \<longleftrightarrow>
     (\<exists>pre body. trim raw = pre @ open_tag ''block'' @ body @ close_tag ''block'' \<and>
        lower (trim body) = ''no'' \<and>
        (pre = [] \<or> (\<exists>thought gap. pre = open_tag ''thinking'' @ thought @ close_tag ''thinking'' @ gap \<and>
           (\<forall>c \<in> set gap. is_whitespace c))))"

lemma after_thinking_Inr:
  assumes "after_thinking reply = Inr verdict"
  shows "\<exists>pre. reply = pre @ verdict \<and>
     (pre = [] \<or> (\<exists>thought gap. pre = open_tag ''thinking'' @ thought @ close_tag ''thinking'' @ gap \<and>
        (\<forall>c \<in> set gap. is_whitespace c)))"
proof (cases "strip_prefix (open_tag ''thinking'') reply")
  case None
  with assms show ?thesis by (simp add: after_thinking_def)
next
  case (Some t)
  with assms obtain thought rest where c: "cut_at (close_tag ''thinking'') t = Some (thought, rest)"
    and v: "verdict = trim_start rest"
    by (auto simp: after_thinking_def and_then_Inr ok_or_def split: option.splits)
  let ?gap = "takeWhile is_whitespace rest"
  have "rest = ?gap @ verdict" by (simp add: v trim_start_by_def)
  moreover have "\<forall>c \<in> set ?gap. is_whitespace c" by (meson set_takeWhileD)
  moreover have "reply = open_tag ''thinking'' @ thought @ close_tag ''thinking'' @ rest"
    using Some cut_at_Some [OF c] by (simp add: strip_prefix_Some)
  ultimately show ?thesis by (metis append_assoc)
qed

lemma take_tag_Inr:
  assumes "take_tag raw tag = Inr (inner, rest)"
  shows "\<exists>body. trim_start raw = open_tag tag @ body @ close_tag tag @ rest \<and> inner = trim body \<and> inner \<noteq> []"
proof -
  from assms obtain r body where "trim_start raw = open_tag tag @ r"
    and c: "cut_at (close_tag tag) r = Some (body, rest)" and "inner = trim body" "trim body \<noteq> []"
    by (auto simp: take_tag_def and_then_Inr ok_or_def strip_prefix_Some split: option.splits if_splits)
  with cut_at_Some [OF c] show ?thesis by auto
qed

lemma take_final_tag_Inr: "take_final_tag raw tag = Inr (inner, rest) \<Longrightarrow> inner \<noteq> []"
proof -
  assume t: "take_final_tag raw tag = Inr (inner, rest)"
  then obtain r where "strip_prefix (open_tag tag) (trim_start raw) = Some r"
    by (auto simp: take_final_tag_def and_then_Inr ok_or_def split: option.splits)
  moreover obtain body trailing where
    "(case cut_at (close_tag tag) r of Some p \<Rightarrow> p | None \<Rightarrow> (r, [])) = (body, trailing)" by fastforce
  ultimately show ?thesis using t by (auto simp: take_final_tag_def split: if_splits)
qed

lemma open_tag_first: "prefix (open_tag tag) s \<Longrightarrow> trim_start s = s"
  by (rule trim_start_nonspace) (auto simp: open_tag_def prefix_def is_whitespace_def)

lemma parse_stage_two_no:
  assumes "parse_stage_two_response raw = Inr v" and "\<not> should_block v"
  shows "stage_two_no raw"
proof -
  from assms obtain verdict block rest where
      a: "after_thinking (trim raw) = Inr verdict" and o: "prefix (open_tag ''block'') verdict"
      and t: "take_tag verdict ''block'' = Inr (block, rest)" and "lower block = ''no''" and e: "trim rest = []"
    by (auto simp: parse_stage_two_response_def blocking_verdict_def and_then_Inr Let_def split: if_splits prod.splits)
  from take_tag_Inr [OF t] obtain body where
      b: "verdict = open_tag ''block'' @ body @ close_tag ''block'' @ rest" "block = trim body"
    using open_tag_first [OF o] by auto
  from after_thinking_Inr [OF a] obtain pre where p: "trim raw = pre @ verdict"
      "pre = [] \<or> (\<exists>thought gap. pre = open_tag ''thinking'' @ thought @ close_tag ''thinking'' @ gap \<and>
         (\<forall>c \<in> set gap. is_whitespace c))" by blast
  have "rest = []"
  proof (rule ccontr)
    assume "rest \<noteq> []"
    with p(1) b(1) have "last (trim raw) \<in> set rest" and "trim raw \<noteq> []" by auto
    with last_trim e show False by (auto simp: trim_eq_Nil)
  qed
  with p b \<open>lower block = ''no''\<close> show ?thesis unfolding stage_two_no_def by auto
qed

lemma strip_restated_category_nonempty: "why \<noteq> [] \<Longrightarrow> strip_restated_category category why \<noteq> []"
  by (auto simp: strip_restated_category_def split: option.splits list.splits prod.splits)

lemma parse_stage_two_block:
  assumes "parse_stage_two_response raw = Inr v" and "should_block v"
  shows "\<exists>category why. v = \<lparr>should_block = True, verdict_category = Some category, verdict_reason = Some why\<rparr> \<and>
    is_category category \<and> why \<noteq> []"
  using assms
  by (auto simp: parse_stage_two_response_def blocking_verdict_def and_then_Inr Let_def
      strip_restated_category_nonempty split: if_splits prod.splits dest!: take_final_tag_Inr)

lemma after_thinking_prefix:
  assumes "after_thinking x = Inr v" "prefix (open_tag ''block'') v" "prefix x y"
  shows "\<exists>w. after_thinking y = Inr w \<and> prefix v w"
proof (cases "strip_prefix (open_tag ''thinking'') x")
  case None
  with assms have "v = x" by (simp add: after_thinking_def)
  with assms have "prefix (open_tag ''block'') y" by (meson prefix_order.trans)
  then have "strip_prefix (open_tag ''thinking'') y = None"
    by (auto simp: strip_prefix_def open_tag_def prefix_def)
  with assms \<open>v = x\<close> show ?thesis by (simp add: after_thinking_def)
next
  case (Some t)
  with assms(1) obtain thought rest where c: "cut_at (close_tag ''thinking'') t = Some (thought, rest)"
    and v: "v = trim_start rest"
    by (auto simp: after_thinking_def and_then_Inr ok_or_def split: option.splits)
  from Some assms(3) obtain t' where t': "y = open_tag ''thinking'' @ t'" "prefix t t'"
    by (auto simp: strip_prefix_Some prefix_def)
  from cut_at_prefix [OF c t'(2)] obtain rest' where
      c': "cut_at (close_tag ''thinking'') t' = Some (thought, rest')" "prefix rest rest'" by blast
  have "v \<noteq> []" using assms(2) by (auto simp: open_tag_def)
  then have "prefix v (trim_start rest')" using v c'(2) by (simp add: trim_start_prefix)
  with t' c' show ?thesis by (simp add: after_thinking_def strip_prefix_append)
qed

lemma take_tag_prefix:
  assumes "take_tag x tag = Inr (inner, rest)" and "prefix x y"
  shows "\<exists>rest'. take_tag y tag = Inr (inner, rest')"
proof -
  from assms(1) obtain r body where r: "trim_start x = open_tag tag @ r"
    and c: "cut_at (close_tag tag) r = Some (body, rest)" and i: "inner = trim body" "trim body \<noteq> []"
    by (auto simp: take_tag_def and_then_Inr ok_or_def strip_prefix_Some split: option.splits if_splits)
  have "trim_start x \<noteq> []" using r by (simp add: open_tag_def)
  with assms(2) r obtain r' where r': "trim_start y = open_tag tag @ r'" "prefix r r'"
    by (metis append_prefixD prefixE same_prefix_prefix trim_start_prefix)
  from cut_at_prefix [OF c r'(2)] obtain rest' where "cut_at (close_tag tag) r' = Some (body, rest')" by blast
  with r' i show ?thesis by (simp add: take_tag_def strip_prefix_append)
qed

lemma stage_two_prefix:
  assumes "parse_stage_two_response x = Inr v" "parse_stage_two_response y = Inr w" "prefix x y"
  shows "should_block v = should_block w"
proof -
  from assms(1) obtain vx block rest where
      a: "after_thinking (trim x) = Inr vx" and o: "prefix (open_tag ''block'') vx"
      and t: "take_tag vx ''block'' = Inr (block, rest)" and b: "should_block v \<longleftrightarrow> lower block = ''yes''"
    by (auto simp: parse_stage_two_response_def blocking_verdict_def and_then_Inr Let_def split: if_splits prod.splits)
  from after_thinking_prefix [OF a o trim_prefix [OF assms(3)]] obtain vy where
      a': "after_thinking (trim y) = Inr vy" and "prefix vx vy" by blast
  with take_tag_prefix [OF t] obtain rest' where "take_tag vy ''block'' = Inr (block, rest')" by blast
  with a' assms(2) have "should_block w \<longleftrightarrow> lower block = ''yes''"
    by (auto simp: parse_stage_two_response_def blocking_verdict_def and_then_Inr Let_def split: if_splits prod.splits)
  with b show ?thesis by simp
qed

subsection \<open>Cut replies\<close>

lemma stage_one_prefix:
  assumes "parse_stage_one_response x = Inr a" "parse_stage_one_response y = Inr b" "prefix x y"
  shows "a = b"
proof -
  let ?open = "open_tag ''block''" and ?close = "close_tag ''block''"
  from assms(1) obtain u where u: "lower (trim u) = verdict_word a"
    and x: "trim x = ?open @ u \<or> trim x = ?open @ u @ ?close"
    by (auto simp: parse_stage_one_iff stage_one_reply_def)
  from assms(2) obtain w where w: "lower (trim w) = verdict_word b"
    and y: "trim y = ?open @ w \<or> trim y = ?open @ w @ ?close"
    by (auto simp: parse_stage_one_iff stage_one_reply_def)
  have "prefix (?open @ u) (trim x)" and "prefix (trim y) (?open @ w @ ?close)" using x y by auto
  then have "prefix (?open @ u) (?open @ w @ ?close)"
    using trim_prefix [OF assms(3)] by (meson prefix_order.trans)
  then have "prefix u (w @ ?close)" by simp
  moreover have "\<not> (\<exists>c cs. u = w @ ch_lt # cs)" using no_tag_in_word [OF u] by auto
  ultimately have "prefix u w" by (auto simp: prefix_append close_tag_def) (auto simp: prefix_def Cons_eq_append_conv)
  then have "prefix (trim u) (trim w)" by (rule trim_prefix)
  then have "prefix (lower (trim u)) (lower (trim w))" by (auto simp: prefix_def lower_append)
  with u w show ?thesis by (auto simp: verdict_word_def split: if_splits)
qed

lemma cut_blocks_prefix:
  "cut_blocks sequences bs = Some bs' \<Longrightarrow>
   prefix (concat (List.map_filter block_text bs')) (concat (List.map_filter block_text bs))"
proof (induction bs arbitrary: bs')
  case (Cons b bs)
  show ?case
  proof (cases "Option.bind (block_text b) (stop_cut sequences)")
    case None
    with Cons show ?thesis by (auto simp: List.map_filter_simps split: option.splits)
  next
    case (Some n)
    then obtain t where "b = TextBlock t" by (auto simp: bind_eq_Some_conv)
    moreover have "prefix (take n t) (t @ more)" for more by (metis append_assoc append_take_drop_id prefixI)
    ultimately show ?thesis using Cons.prems Some by (auto simp: List.map_filter_simps)
  qed
qed simp

lemma cut_reply_prefix: "prefix (reply_text (snd (apply_stop_sequences sequences m))) (reply_text m)"
  by (auto simp: apply_stop_sequences_def reply_text_def Let_def cut_blocks_prefix split: option.split)

subsection \<open>Properties\<close>

definition first_reply :: "classifier_env \<Rightarrow> model_client \<Rightarrow> string \<Rightarrow> classifier_request \<Rightarrow> classifier_error + string" where
  "first_reply env client model req =
     send_classifier_request client model (system_prompt (env_prompts env))
       (classifier_user_prompt (env_json_text env) req (stage_one_suffix (env_prompts env))) FastStage"

definition second_reply :: "classifier_env \<Rightarrow> model_client \<Rightarrow> string \<Rightarrow> classifier_request \<Rightarrow> classifier_error + string" where
  "second_reply env client model req =
     send_classifier_request client model (system_prompt (env_prompts env))
       (classifier_user_prompt (env_json_text env) req (stage_two_suffix (env_prompts env))) ThinkingStage"

definition said_no :: "classifier_env \<Rightarrow> model_client \<Rightarrow> string \<Rightarrow> classifier_request \<Rightarrow> bool" where
  "said_no env client model req \<longleftrightarrow>
     (\<exists>raw. first_reply env client model req = Inr raw \<and>
        (stage_one_reply False raw \<or>
         stage_one_reply True raw \<and>
         (\<exists>raw'. second_reply env client model req = Inr raw' \<and> stage_two_no raw')))"

lemma classify_with_client_allow:
  assumes "classify_with_client env client model req = Some (Inr (ClassifierAllow why st))"
  shows "said_no env client model req"
proof -
  let ?first = "first_reply env client model req" and ?second = "second_reply env client model req"
  note unfolded = assms [unfolded classify_with_client_def Let_def first_reply_def [symmetric] second_reply_def [symmetric]]
  obtain raw where r: "?first = Inr raw" using unfolded by (auto split: sum.splits)
  obtain b where b: "parse_stage_one_response raw = Inr b" using unfolded r by (auto split: sum.splits)
  show ?thesis
  proof (cases b)
    case False
    with r b show ?thesis by (auto simp: said_no_def parse_stage_one_iff)
  next
    case True
    obtain raw' where r': "?second = Inr raw'" using unfolded r b True by (auto split: sum.splits)
    obtain v where v: "parse_stage_two_response raw' = Inr v" using unfolded r b True r' by (auto split: sum.splits)
    have "\<not> should_block v" using unfolded r b True r' v by (auto split: if_splits)
    with v have "stage_two_no raw'" by (rule parse_stage_two_no)
    with r b True r' show ?thesis by (auto simp: said_no_def parse_stage_one_iff)
  qed
qed

lemma classify_with_client_block:
  "case classify_with_client env client model req of
     None \<Rightarrow> False
   | Some (Inr (ClassifierBlock why category)) \<Rightarrow> why \<noteq> [] \<and> is_some_and is_category category
   | _ \<Rightarrow> True"
  by (auto simp: classify_with_client_def Let_def dest!: parse_stage_two_block
      split: sum.splits classifier_outcome.splits option.splits if_splits bool.splits)

text \<open>C27. The classifier allows a call only on a literal \<open>no\<close>: of the model it is configured with, or
  of the fallback model after that one failed in a way a second model can repair; in the reply of
  the first stage, or after its \<open>yes\<close> in the reply of the second, which then holds nothing but the
  verdict and at most the thinking before it.\<close>

theorem classifier_allows_only_on_a_literal_no:
  assumes "classify_call env client other_client rt req = Some (Inr (ClassifierAllow why st))"
  shows "said_no env client (fst (classifier_models rt)) req \<or>
    (\<exists>e other. classify_with_client env client (fst (classifier_models rt)) req = Some (Inl e) \<and> can_fallback e \<and>
       snd (classifier_models rt) = Some other \<and> said_no env other_client other req)"
  using assms classify_with_client_allow
  by (auto simp: classify_call_def Let_def split: prod.splits option.splits sum.splits if_splits)

definition scripted_client :: "(model_request \<Rightarrow> string) \<Rightarrow> model_client" where
  "scripted_client answer =
     \<lparr>create_message = (\<lambda>req. Inr \<lparr>reply_id = [], reply_model = mr_model req,
        reply_content = [TextBlock (answer req)], stop_reason_of = Some StopSequence\<rparr>),
      output_budget_includes_reasoning = False\<rparr>"

definition sample_env :: classifier_env where
  "sample_env = \<lparr>env_json_text = compact_text,
     env_prompts = \<lparr>system_prompt = ''judge'', stage_one_suffix = ''fast'', stage_two_suffix = ''think''\<rparr>,
     env_ellipsis = ''...''\<rparr>"

definition sample_request :: classifier_request where
  "sample_request = \<lparr>cr_tool_name = ''Bash'', cr_tool_input = JObject [(''command'', JString ''ls'')],
     cr_tool_use_id = None, cr_transcript = ''User: look'', cr_cwd = None, cr_isolated_worktree = False,
     cr_nesting_depth = 0, cr_user_grants = []\<rparr>"

definition sample_models :: runtime_model where
  "sample_models = \<lparr>main_model = ''large'', model_profiles = Map.empty, title_model = ''small''\<rparr>"

definition two_stage_answer :: "model_request \<Rightarrow> string" where
  "two_stage_answer req = (if mr_effort req = EffortLow then ''<block>yes'' else ''<block>No</block>'')"

theorem classifier_allows_only_on_a_literal_no_witness:
  "said_no sample_env (scripted_client two_stage_answer) ''large'' sample_request"
proof -
  let ?c = "scripted_client two_stage_answer"
  have "classify_call sample_env ?c ?c sample_models sample_request =
      Some (Inr (ClassifierAllow ''Allowed by thinking classifier'' ThinkingStage))"
    and "fst (classifier_models sample_models) = ''large''"
    and "\<not> (case classify_with_client sample_env ?c ''large'' sample_request of Some (Inl _) \<Rightarrow> True | _ \<Rightarrow> False)"
    by code_simp+
  with classifier_allows_only_on_a_literal_no [of sample_env ?c ?c sample_models sample_request] show ?thesis
    by auto
qed

text \<open>C28. No reply of a model makes the judgment panic, and a block always names a rule, made of letters,
  digits and spaces, and gives a reason that is not empty.\<close>

theorem block_names_a_rule:
  "case classify_call env client other_client rt req of
     None \<Rightarrow> False
   | Some (Inr (ClassifierBlock why category)) \<Rightarrow> why \<noteq> [] \<and> is_some_and is_category category
   | _ \<Rightarrow> True"
proof (cases "classify_with_client env client (fst (classifier_models rt)) req")
  case None
  then show ?thesis using classify_with_client_block [of env client "fst (classifier_models rt)" req] by simp
next
  case (Some answer)
  then show ?thesis
    using classify_with_client_block [of env client "fst (classifier_models rt)" req]
      classify_with_client_block [of env other_client "the (snd (classifier_models rt))" req]
    by (cases answer; cases "snd (classifier_models rt)") (auto simp: classify_call_def case_prod_beta Let_def)
qed

text \<open>Cutting a reply at a stop sequence never turns its verdict around: where both the reply and
  what is left of it have a verdict, it is the same one, in either stage.\<close>

theorem truncation_never_flips_a_verdict:
  "(let kept = reply_text (snd (apply_stop_sequences sequences reply)); full = reply_text reply
    in (case (parse_stage_one_response kept, parse_stage_one_response full) of
          (Inr a, Inr b) \<Rightarrow> a = b
        | _ \<Rightarrow> True) \<and>
       (case (parse_stage_two_response kept, parse_stage_two_response full) of
          (Inr v, Inr w) \<Rightarrow> should_block v = should_block w
        | _ \<Rightarrow> True))"
proof -
  define kept full where "kept = reply_text (snd (apply_stop_sequences sequences reply))" and "full = reply_text reply"
  have p: "prefix kept full" unfolding kept_def full_def by (rule cut_reply_prefix)
  have "case (parse_stage_one_response kept, parse_stage_one_response full) of
      (Inr a, Inr b) \<Rightarrow> a = b | _ \<Rightarrow> True"
    by (auto split: sum.split dest: stage_one_prefix [OF _ _ p])
  moreover have "case (parse_stage_two_response kept, parse_stage_two_response full) of
      (Inr v, Inr w) \<Rightarrow> should_block v = should_block w | _ \<Rightarrow> True"
    by (auto split: sum.split dest: stage_two_prefix [OF _ _ p])
  ultimately show ?thesis unfolding kept_def full_def Let_def by blast
qed

end
