(* ===== verification/Permission_Seat.thy ===== *)
theory Permission_Seat
  imports Json_Value Ordered_Map "HOL-Library.Word"
begin

text \<open>
  What a feature may say about the permission of its tools, \<open>crates/rebon-core/src/permission_seat.rs\<close>,
  and the context a call is decided in (\<open>ToolContext\<close> of \<open>crates/rebon-tool/src/lib.rs\<close>, as far as
  the permission layer reads it).

  A rule is a record of functions, the methods of the trait. The lock around the seat and the scope
  that owns a registration are not modelled; disposing is an operation of its own.
\<close>

subsection \<open>The context of a call\<close>

datatype ultraplan_profile = StandardProfile | GrillProfile

datatype policy_mode = Observe | Enforce

datatype shell_policy = AllowShell | DenyShell

text \<open>The fields of \<open>UltraplanContext\<close> the dispatch of tools reads.\<close>

record ultraplan_context =
  up_run_id :: string
  up_phase :: string
  up_profile :: ultraplan_profile
  up_allowed_tools :: "string list"
  up_denied_tools :: "string list"
  up_shell_policy :: shell_policy
  up_mode :: policy_mode

record tool_context =
  ctx_cwd :: "string option"
  ctx_tool_use_id :: "string option"
  ctx_transcript :: "string option"
  ctx_isolated_worktree :: bool
  ctx_nesting_depth :: nat
  ctx_directories :: "string list"
  ctx_prompts_unavailable :: bool
  ctx_ultraplan :: "ultraplan_context option"
  ctx_ultraplan_state_loads :: bool
  ctx_denial_replay :: "string option"

definition new_context :: tool_context where
  "new_context =
     \<lparr>ctx_cwd = None, ctx_tool_use_id = None, ctx_transcript = None, ctx_isolated_worktree = False,
      ctx_nesting_depth = 0, ctx_directories = [], ctx_prompts_unavailable = False,
      ctx_ultraplan = None, ctx_ultraplan_state_loads = False, ctx_denial_replay = None\<rparr>"

subsection \<open>Rules\<close>

datatype decision_scope = WhenPrompting | EvenUnderBypass

instantiation decision_scope :: linorder
begin

definition less_eq_decision_scope :: "decision_scope \<Rightarrow> decision_scope \<Rightarrow> bool" where
  "less_eq_decision_scope a b \<longleftrightarrow> a = WhenPrompting \<or> b = EvenUnderBypass"

definition less_decision_scope :: "decision_scope \<Rightarrow> decision_scope \<Rightarrow> bool" where
  "less_decision_scope a b \<longleftrightarrow> a = WhenPrompting \<and> b = EvenUnderBypass"

instance
proof
  fix a b c :: decision_scope
  show "a < b \<longleftrightarrow> a \<le> b \<and> \<not> b \<le> a" "a \<le> a" "a \<le> b \<Longrightarrow> b \<le> c \<Longrightarrow> a \<le> c" "a \<le> b \<Longrightarrow> b \<le> a \<Longrightarrow> a = b"
    "a \<le> b \<or> b \<le> a"
    by (cases a; cases b; cases c; simp add: less_eq_decision_scope_def less_decision_scope_def)+
qed

end

record rejection_note =
  guidance :: string
  feedback_label :: string

record seat_rule =
  rule_decision :: "string \<Rightarrow> tool_context \<Rightarrow> decision_scope option"
  rule_option_label :: "string \<Rightarrow> string option"
  rule_on_approved :: "string \<Rightarrow> string \<Rightarrow> json \<Rightarrow> tool_context \<Rightarrow> json \<times> tool_context option"
  rule_rejection_note :: "string \<Rightarrow> rejection_note option"
  rule_deny_reason :: "string \<Rightarrow> string option"

text \<open>The methods a rule leaves at their defaults: no opinion.\<close>

definition silent_rule :: seat_rule where
  "silent_rule =
     \<lparr>rule_decision = (\<lambda>_ _. None), rule_option_label = (\<lambda>_. None),
      rule_on_approved = (\<lambda>_ _ input _. (input, None)), rule_rejection_note = (\<lambda>_. None),
      rule_deny_reason = (\<lambda>_. None)\<rparr>"

text \<open>\<open>Iterator::find_map\<close> and \<open>Iterator::max\<close>.\<close>

fun find_map :: "('a \<Rightarrow> 'b option) \<Rightarrow> 'a list \<Rightarrow> 'b option" where
  "find_map f [] = None"
| "find_map f (x # xs) = (case f x of Some y \<Rightarrow> Some y | None \<Rightarrow> find_map f xs)"

definition list_max :: "'a::linorder list \<Rightarrow> 'a option" where
  "list_max xs = (case xs of [] \<Rightarrow> None | y # ys \<Rightarrow> Some (fold max ys y))"

definition requires_user_decision :: "seat_rule list \<Rightarrow> string \<Rightarrow> tool_context \<Rightarrow> decision_scope option" where
  "requires_user_decision rs tool ctx = list_max (List.map_filter (\<lambda>r. rule_decision r tool ctx) rs)"

definition requires_user_decision_under_bypass :: "seat_rule list \<Rightarrow> string \<Rightarrow> tool_context \<Rightarrow> bool" where
  "requires_user_decision_under_bypass rs tool ctx \<longleftrightarrow>
     requires_user_decision rs tool ctx = Some EvenUnderBypass"

definition seat_option_label :: "seat_rule list \<Rightarrow> string \<Rightarrow> string option" where
  "seat_option_label rs option_id = find_map (\<lambda>r. rule_option_label r option_id) rs"

text \<open>Each rule reads the context the one before it left, and all of them rewrite one input.\<close>

fun on_approved ::
  "seat_rule list \<Rightarrow> string \<Rightarrow> string \<Rightarrow> json \<Rightarrow> tool_context \<Rightarrow> tool_context option \<Rightarrow> json \<times> tool_context option"
where
  "on_approved [] tool option_id input ctx now = (input, now)"
| "on_approved (r # rs) tool option_id input ctx now =
     (let (input', next) = rule_on_approved r tool option_id input (case now of Some c \<Rightarrow> c | None \<Rightarrow> ctx)
      in on_approved rs tool option_id input' ctx (case next of Some c \<Rightarrow> Some c | None \<Rightarrow> now))"

definition seat_rejection_note :: "seat_rule list \<Rightarrow> string \<Rightarrow> rejection_note option" where
  "seat_rejection_note rs tool = find_map (\<lambda>r. rule_rejection_note r tool) rs"

definition deny_reason_when_never_prompting :: "seat_rule list \<Rightarrow> string \<Rightarrow> string option" where
  "deny_reason_when_never_prompting rs tool = find_map (\<lambda>r. rule_deny_reason r tool) rs"

subsection \<open>The seat\<close>

record seat_entry =
  entry_id :: string
  entry_token :: "64 word"
  entry_active :: bool
  entry_rule :: seat_rule

record rule_seat =
  entries :: "seat_entry list"
  next_token :: "64 word"

datatype kernel_error = OtherKernelError string | DuplicateProvider string string

definition PERMISSION_RULE_SEAT_SERVICE :: string where
  "PERMISSION_RULE_SEAT_SERVICE = ''permission-rules''"

definition new_seat :: rule_seat where
  "new_seat = \<lparr>entries = [], next_token = 1\<rparr>"

text \<open>\<open>register\<close>: the error, or the id and token its disposer carries.\<close>

definition register_rule ::
  "string \<Rightarrow> seat_rule \<Rightarrow> rule_seat \<Rightarrow> (kernel_error + string \<times> 64 word) \<times> rule_seat" where
  "register_rule raw r s =
     (let key = trim raw
      in if key = [] then (Inl (OtherKernelError ''permission-rules provider id must be non-empty''), s)
         else
           let token = next_token s; s = s\<lparr>next_token := next_token s + 1\<rparr>
           in if list_ex (\<lambda>e. entry_id e = key) (entries s) then
                (Inl (DuplicateProvider [] (PERMISSION_RULE_SEAT_SERVICE @ '':'' @ key)), s)
              else
                (Inr (key, token),
                 s\<lparr>entries := sort_key entry_id (entries s @
                   [\<lparr>entry_id = key, entry_token = token, entry_active = True, entry_rule = r\<rparr>])\<rparr>))"

text \<open>The disposer: the registration stops counting, then its entry goes.\<close>

definition deactivate :: "string \<times> 64 word \<Rightarrow> rule_seat \<Rightarrow> rule_seat" where
  "deactivate h s =
     s\<lparr>entries := map (\<lambda>e. if (entry_id e, entry_token e) = h then e\<lparr>entry_active := False\<rparr> else e) (entries s)\<rparr>"

definition drop_entry :: "string \<times> 64 word \<Rightarrow> rule_seat \<Rightarrow> rule_seat" where
  "drop_entry h s = s\<lparr>entries := filter (\<lambda>e. (entry_id e, entry_token e) \<noteq> h) (entries s)\<rparr>"

definition provider_ids :: "rule_seat \<Rightarrow> string list" where
  "provider_ids s = map entry_id (filter entry_active (entries s))"

definition seat_rules :: "rule_seat \<Rightarrow> seat_rule list" where
  "seat_rules s = map entry_rule (filter entry_active (entries s))"

text \<open>\<open>rules_for\<close>: without a seat in scope there are no rules.\<close>

definition rules_for :: "rule_seat option \<Rightarrow> seat_rule list" where
  "rules_for seat = (case seat of Some s \<Rightarrow> seat_rules s | None \<Rightarrow> [])"

subsection \<open>Lemmas\<close>

lemma fold_max_mem: "fold max ys y \<in> insert y (set ys)" for y :: "'a::linorder"
  by (induction ys arbitrary: y) (auto simp: max_def)

lemma fold_max_ge: "y \<le> fold max ys y \<and> (\<forall>z \<in> set ys. z \<le> fold max ys y)" for y :: "'a::linorder"
proof (induction ys arbitrary: y)
  case Nil
  show ?case by simp
next
  case (Cons z ys)
  from Cons.IH [of "max z y"] show ?case by auto
qed

lemma list_max_None [simp]: "list_max xs = None \<longleftrightarrow> xs = []"
  by (auto simp: list_max_def split: list.splits)

lemma list_max_Some: "list_max xs = Some m \<Longrightarrow> m \<in> set xs \<and> (\<forall>x \<in> set xs. x \<le> m)"
  using fold_max_mem fold_max_ge by (fastforce simp: list_max_def split: list.splits)

lemma map_filter_set: "y \<in> set (List.map_filter f xs) \<longleftrightarrow> (\<exists>x \<in> set xs. f x = Some y)"
  by (induction xs) (auto simp: List.map_filter_simps split: option.splits)

text \<open>The claim of a set of rules: someone asks, and someone asks for the most.\<close>

lemma requires_user_decision_None:
  "requires_user_decision rs tool ctx = None \<longleftrightarrow> (\<forall>r \<in> set rs. rule_decision r tool ctx = None)"
proof -
  have "List.map_filter (\<lambda>r. rule_decision r tool ctx) rs = [] \<longleftrightarrow> (\<forall>r \<in> set rs. rule_decision r tool ctx = None)"
    by (induction rs) (auto simp: List.map_filter_simps split: option.splits)
  then show ?thesis by (simp add: requires_user_decision_def)
qed

lemma requires_user_decision_EvenUnderBypass:
  "requires_user_decision rs tool ctx = Some EvenUnderBypass \<longleftrightarrow>
   (\<exists>r \<in> set rs. rule_decision r tool ctx = Some EvenUnderBypass)"
proof
  assume "requires_user_decision rs tool ctx = Some EvenUnderBypass"
  then show "\<exists>r \<in> set rs. rule_decision r tool ctx = Some EvenUnderBypass"
    unfolding requires_user_decision_def by (auto dest!: list_max_Some simp: map_filter_set)
next
  assume "\<exists>r \<in> set rs. rule_decision r tool ctx = Some EvenUnderBypass"
  then have m: "EvenUnderBypass \<in> set (List.map_filter (\<lambda>r. rule_decision r tool ctx) rs)"
    by (auto simp: map_filter_set)
  then obtain s where s: "requires_user_decision rs tool ctx = Some s"
    unfolding requires_user_decision_def
    by (metis empty_iff list.set(1) list_max_None not_None_eq)
  with m have "EvenUnderBypass \<le> s"
    unfolding requires_user_decision_def by (auto dest!: list_max_Some)
  with s show "requires_user_decision rs tool ctx = Some EvenUnderBypass"
    by (simp add: less_eq_decision_scope_def)
qed

text \<open>The entries of a seat are ordered by id, and no id occurs twice.\<close>

definition seat_ok :: "rule_seat \<Rightarrow> bool" where
  "seat_ok s \<longleftrightarrow> sorted_wrt (<) (map entry_id (entries s))"

inductive seat_step :: "rule_seat \<Rightarrow> rule_seat \<Rightarrow> bool" where
  registered: "seat_step s (snd (register_rule raw r s))"
| deactivated: "seat_step s (deactivate h s)"
| dropped: "seat_step s (drop_entry h s)"

lemma sorted_strict_key:
  "sorted_wrt (<) (map f xs) \<longleftrightarrow> sorted (map f xs) \<and> distinct (map f xs)" for f :: "'a \<Rightarrow> 'k::linorder"
  by (simp add: strict_sorted_iff)

lemma seat_ok_new: "seat_ok new_seat"
  by (simp add: seat_ok_def new_seat_def)

lemma seat_ok_step:
  assumes "seat_ok s" and "seat_step s s'"
  shows "seat_ok s'"
  using assms(2)
proof cases
  case (registered raw r)
  have d: "distinct (map entry_id (sort_key entry_id xs)) \<longleftrightarrow> distinct (map entry_id xs)" for xs :: "seat_entry list"
    by (simp add: distinct_map)
  show ?thesis
    using assms(1) registered
    by (auto simp: register_rule_def Let_def seat_ok_def sorted_strict_key d list_ex_iff)
next
  case (deactivated h)
  then have "map entry_id (entries s') = map entry_id (entries s)"
    by (simp add: deactivate_def comp_def)
  with assms(1) show ?thesis by (simp add: seat_ok_def)
next
  case (dropped h)
  with assms(1) show ?thesis
    by (simp add: drop_entry_def seat_ok_def sorted_wrt_map sorted_wrt_filter)
qed

lemma seat_ok_reachable: "seat_step\<^sup>*\<^sup>* new_seat s \<Longrightarrow> seat_ok s"
  by (induction rule: rtranclp_induct) (auto intro: seat_ok_new seat_ok_step)

end
