(* ===== verification/Permission_Gate.thy ===== *)
theory Permission_Gate
  imports Auto_Classifier Permission_Seat Verdict_Cache Denial_Store Permission_Modes Tool_Facts Deletion_Scope
begin

text \<open>
  What the permission mode decides about a call that would ask, \<open>crates/rebon-core/src/permission.rs\<close>:
  auto mode's gate with its memory of verdicts, and \<open>resolve_ask_under_mode\<close>.

  What the gate reads while it waits is the record \<open>gate_world\<close>: the two readings of the user's
  grants, the answer of the classifier, the mode after it. The verdict cache and the denial store
  are threaded. Parameters: the text of a JSON value, the hash of a key, the file system.
\<close>

subsection \<open>The world of a decision\<close>

record gate_env =
  ge_json_text :: "json \<Rightarrow> string"
  ge_hash :: "string \<Rightarrow> string"
  ge_resolve :: "string \<Rightarrow> fs_path option"
  ge_ellipsis :: string

record grant_snapshot =
  snap_grants :: "user_grant list"
  snap_withdrawn :: bool
  snap_revision :: string

definition no_grants :: grant_snapshot where
  "no_grants = \<lparr>snap_grants = [], snap_withdrawn = False, snap_revision = []\<rparr>"

text \<open>What comes back of a classification: an outcome, an error (with the classifier's own failure, when
  that is what it is), or the end of \<open>AUTO_MODE_CLASSIFIER_TIMEOUT\<close>.\<close>

datatype classifier_answer = Judged classifier_outcome | JudgeFailed "classifier_error option" | JudgeTimedOut

record gate_world =
  gw_grants :: "(grant_snapshot \<times> grant_snapshot) option"
  gw_classifier :: "(classifier_request \<Rightarrow> classifier_answer) option"
  gw_mode_after :: mode_provider
  gw_now :: "64 word"

datatype allow_source = SourceClassifier | SourceCachedVerdict | SourceUserExemption | SourceUnspecified

datatype gate_outcome = GateRun allow_source | GateAsk | GateDeny string bool

subsection \<open>Which tool is this\<close>

definition requires_permission_broker_response :: "string \<Rightarrow> bool" where
  "requires_permission_broker_response tool \<longleftrightarrow> tool = ''AskUserQuestion''"

definition requires_workflow_review :: "string \<Rightarrow> bool" where
  "requires_workflow_review tool \<longleftrightarrow> tool = ''Workflow'' \<or> tool = ''RunWorkflow''"

definition is_accept_edits_tool :: "string \<Rightarrow> bool" where
  "is_accept_edits_tool tool \<longleftrightarrow> tool_kind_for_name tool = FileEdit"

definition normalize_for_scope :: "(string \<Rightarrow> fs_path option) \<Rightarrow> string \<Rightarrow> fs_path" where
  "normalize_for_scope resolve path =
     (case canonicalize_scope_path resolve path of
        Some p \<Rightarrow> p
      | None \<Rightarrow> lexically_normalize_path (path_of path))"

definition names_git_dir :: "fs_path \<Rightarrow> bool" where
  "names_git_dir p = list_ex (\<lambda>c. c \<noteq> ''.'' \<and> c \<noteq> ''..'' \<and> eq_ignore_ascii_case c ''.git'') (components p)"

definition is_git_metadata_path :: "(string \<Rightarrow> fs_path option) \<Rightarrow> string \<Rightarrow> bool" where
  "is_git_metadata_path resolve path \<longleftrightarrow>
     names_git_dir (path_of path) \<or> names_git_dir (normalize_for_scope resolve path)"

text \<open>\<open>Path::join\<close> of a relative path to the working directory.\<close>

definition join_path :: "string \<Rightarrow> string \<Rightarrow> string" where
  "join_path dir path = (if dir = [] \<or> last dir = ch_slash then dir @ path else dir @ [ch_slash] @ path)"

definition against_cwd :: "tool_context \<Rightarrow> string \<Rightarrow> string" where
  "against_cwd ctx target =
     (case ctx_cwd ctx of
        Some cwd \<Rightarrow> if \<not> prefix [ch_slash] target then join_path cwd target else target
      | None \<Rightarrow> target)"

definition file_target :: "string \<Rightarrow> json \<Rightarrow> string option" where
  "file_target tool input = Option.bind (file_target_field_for_name tool) (\<lambda>field. get_str field input)"

definition edits_git_metadata :: "(string \<Rightarrow> fs_path option) \<Rightarrow> string \<Rightarrow> json \<Rightarrow> tool_context \<Rightarrow> bool" where
  "edits_git_metadata resolve tool input ctx \<longleftrightarrow>
     is_accept_edits_tool tool \<and>
     is_some_and (\<lambda>target. is_git_metadata_path resolve (against_cwd ctx target)) (file_target tool input)"

subsection \<open>Reasons\<close>

definition WITHDRAWN_REASON :: string where
  "WITHDRAWN_REASON =
     ''This router'' @ [ch_squote] @ ''s authorization was withdrawn by a later user message or an explicit revoke; ask the person before continuing automated actions''"

definition GRANTS_CHANGED_REASON :: string where
  "GRANTS_CHANGED_REASON =
     ''Router authorization changed while the tool call was being decided; retry against the current grants''"

definition sanitize_classifier_reason :: "string \<Rightarrow> string \<Rightarrow> string" where
  "sanitize_classifier_reason ellipsis why =
     (let cleaned = map (\<lambda>c. if is_control c then ch_space else c) why
      in if length cleaned > 280 then take 280 cleaned @ ellipsis else cleaned)"

definition auto_mode_classifier_failure_detail :: "string \<Rightarrow> classifier_error option \<Rightarrow> string" where
  "auto_mode_classifier_failure_detail ellipsis err =
     (let headline =
            (case map_option failure_kind_of err of
               Some Parsing \<Rightarrow> ''Classifier response could not be parsed - blocking for safety''
             | Some Refusal \<Rightarrow> ''Classifier request was refused - blocking for safety''
             | Some TranscriptTooLong \<Rightarrow>
                 ''Classifier transcript exceeded the model context window - blocking for safety''
             | Some OutputBudgetExhausted \<Rightarrow> ''Classifier ran out of output budget - blocking for safety''
             | _ \<Rightarrow> ''Classifier unavailable - blocking for safety'')
      in case Option.bind err failure_detail of
           Some detail \<Rightarrow> headline @ '' ('' @ sanitize_classifier_reason ellipsis detail @ '')''
         | None \<Rightarrow> headline)"

definition auto_mode_classifier_failure_reason :: "string \<Rightarrow> string" where
  "auto_mode_classifier_failure_reason detail =
     ''auto mode blocked this call without asking the user: '' @ detail @
     ''. The tool was not run. Retry after the classifier is available, or switch out of auto mode if manual approval is required.''"

definition auto_mode_deny_reason :: "string \<Rightarrow> string" where
  "auto_mode_deny_reason detail =
     ''auto mode denied this call without asking the user: '' @ detail @
     ''. Continue other independent authorized work. Rewrite the command to avoid the flagged behavior, skip it if it is not essential, or ask the user for approval if needed; the denied call is also listed in /permissions for approve or retry. Resubmitting it unchanged will be denied again.''"

definition dont_ask_deny_reason :: "string \<Rightarrow> string" where
  "dont_ask_deny_reason tool =
     [ch_backtick] @ ''dontAsk'' @ [ch_backtick] @ '' permission mode denied this '' @ tool @
     '' call: it required approval and this session never prompts. Take an approach already covered by an allow rule, skip the step if it is not essential, or tell the user which permission rule to add. Resubmitting the same call will be denied again.''"

definition dont_ask_workflow_deny_reason :: "string \<Rightarrow> string" where
  "dont_ask_workflow_deny_reason tool =
     [ch_backtick] @ ''dontAsk'' @ [ch_backtick] @ '' permission mode denied this '' @ tool @
     '' call: launching a workflow opens a review prompt and this session never prompts. Ask the user to switch to a prompting permission mode (default, acceptEdits, or auto) to review the workflow, or to bypassPermissions to run it unreviewed. Resubmitting the same call will be denied again.''"

text \<open>\<open>char::is_alphanumeric\<close> and \<open>char::to_lowercase\<close> below 256.\<close>

definition is_alphanumeric :: "char \<Rightarrow> bool" where
  "is_alphanumeric c \<longleftrightarrow>
     is_ascii_alphanumeric c \<or> code c \<in> {0xAA, 0xB2, 0xB3, 0xB5, 0xB9, 0xBA, 0xBC, 0xBD, 0xBE} \<or>
     (0xC0 \<le> code c \<and> code c \<noteq> 0xD7 \<and> code c \<noteq> 0xF7)"

definition to_lowercase :: "char \<Rightarrow> char" where
  "to_lowercase c =
     (if 0xC0 \<le> code c \<and> code c \<le> 0xDE \<and> code c \<noteq> 0xD7 then char_of (code c + 32) else to_ascii_lowercase c)"

definition normalized_label :: "string \<Rightarrow> string" where
  "normalized_label s = map to_lowercase (filter is_alphanumeric s)"

definition reason_opens_with_category :: "string \<Rightarrow> string \<Rightarrow> bool" where
  "reason_opens_with_category why category \<longleftrightarrow>
     is_some_and (\<lambda>(label, _). normalized_label label = normalized_label category)
       (Option.bind (strip_prefix [ch_lbracket] why) (split_once ch_rbracket))"

subsection \<open>Keys\<close>

abbreviation ch_nul :: char where "ch_nul \<equiv> CHR 0x00"

definition auto_mode_classifier_cache_key :: "gate_env \<Rightarrow> string \<Rightarrow> string \<Rightarrow> tool_context \<Rightarrow> string" where
  "auto_mode_classifier_cache_key env input_json transcript ctx =
     ge_hash env
       (input_json @ [ch_nul] @ transcript @ [ch_nul] @ (case ctx_cwd ctx of Some d \<Rightarrow> d | None \<Rightarrow> []) @ [ch_nul] @
        (if ctx_isolated_worktree ctx then ''1'' else ''0'') @ [ch_nul] @ decimal (ctx_nesting_depth ctx))"

definition auto_mode_denial_cache_key_with_grants ::
  "gate_env \<Rightarrow> string \<Rightarrow> string \<Rightarrow> string \<Rightarrow> tool_context \<Rightarrow> string" where
  "auto_mode_denial_cache_key_with_grants env input_json grants_line transcript ctx =
     auto_mode_classifier_cache_key env input_json
       (grants_line @ transcript_through_latest_user_turn transcript) ctx"

definition grant_changed_during_decision :: "(grant_snapshot \<times> grant_snapshot) option \<Rightarrow> gate_outcome option" where
  "grant_changed_during_decision grants =
     Option.bind grants (\<lambda>(before_call, after_call).
       if snap_withdrawn after_call then Some (GateDeny WITHDRAWN_REASON False)
       else if after_call \<noteq> before_call then Some (GateDeny GRANTS_CHANGED_REASON False)
       else None)"

definition deny_via_cache ::
  "string \<Rightarrow> string \<Rightarrow> string \<Rightarrow> verdict_cache \<Rightarrow> gate_outcome \<times> verdict_cache" where
  "deny_via_cache tool denial_key why c =
     (let (fresh, c) = mark_denied tool denial_key why c in (GateDeny why fresh, c))"

subsection \<open>The gate of auto mode\<close>

definition gate_request :: "string \<Rightarrow> json \<Rightarrow> tool_context \<Rightarrow> grant_snapshot \<Rightarrow> classifier_request" where
  "gate_request tool input ctx snapshot =
     \<lparr>cr_tool_name = tool, cr_tool_input = input, cr_tool_use_id = ctx_tool_use_id ctx,
      cr_transcript = (case ctx_transcript ctx of Some t \<Rightarrow> t | None \<Rightarrow> []), cr_cwd = ctx_cwd ctx,
      cr_isolated_worktree = ctx_isolated_worktree ctx, cr_nesting_depth = ctx_nesting_depth ctx,
      cr_user_grants = snap_grants snapshot\<rparr>"

text \<open>The grants the call is decided with: the first reading.\<close>

definition gate_snapshot :: "gate_world \<Rightarrow> grant_snapshot" where
  "gate_snapshot world = (case gw_grants world of Some (s, _) \<Rightarrow> s | None \<Rightarrow> no_grants)"

text \<open>The two keys of a call, under the grants it is decided with.\<close>

definition gate_grants_line :: "gate_env \<Rightarrow> grant_snapshot \<Rightarrow> string" where
  "gate_grants_line env snapshot = user_grants_line (ge_json_text env) (snap_grants snapshot)"

definition classifier_key :: "gate_env \<Rightarrow> json \<Rightarrow> tool_context \<Rightarrow> grant_snapshot \<Rightarrow> string" where
  "classifier_key env input ctx snapshot =
     auto_mode_classifier_cache_key env (ge_json_text env input)
       (gate_grants_line env snapshot @ [ch_nul] @ snap_revision snapshot @
        (case ctx_transcript ctx of Some t \<Rightarrow> t | None \<Rightarrow> [])) ctx"

definition denial_key :: "gate_env \<Rightarrow> json \<Rightarrow> tool_context \<Rightarrow> grant_snapshot \<Rightarrow> string" where
  "denial_key env input ctx snapshot =
     auto_mode_denial_cache_key_with_grants env (ge_json_text env input) (gate_grants_line env snapshot)
       (case ctx_transcript ctx of Some t \<Rightarrow> t | None \<Rightarrow> []) ctx"

text \<open>The end of the gate, after the classifier answered.\<close>

definition judged_outcome ::
  "gate_env \<Rightarrow> string \<Rightarrow> string \<Rightarrow> string \<Rightarrow> classifier_answer \<Rightarrow> verdict_cache \<Rightarrow> gate_outcome \<times> verdict_cache" where
  "judged_outcome env tool allow_key deny_key answer c =
     (case answer of
        Judged (ClassifierAllow _ _) \<Rightarrow> (GateRun SourceClassifier, mark_allowed tool allow_key c)
      | Judged (ClassifierBlock why category) \<Rightarrow>
          (let detail = (case category of
                 Some cat \<Rightarrow> if \<not> reason_opens_with_category why cat then ''['' @ cat @ ''] '' @ why else why
               | None \<Rightarrow> why)
           in deny_via_cache tool deny_key
                (auto_mode_deny_reason (sanitize_classifier_reason (ge_ellipsis env) detail)) c)
      | JudgeFailed err \<Rightarrow>
          (GateDeny (auto_mode_classifier_failure_reason
             (auto_mode_classifier_failure_detail (ge_ellipsis env) err)) True, c)
      | JudgeTimedOut \<Rightarrow>
          (GateDeny (auto_mode_classifier_failure_reason
             ''Classifier request timed out - blocking for safety'') True, c))"

definition gate_leaves_to_a_person :: "gate_env \<Rightarrow> string \<Rightarrow> json \<Rightarrow> tool_context \<Rightarrow> seat_rule list \<Rightarrow> bool" where
  "gate_leaves_to_a_person env tool input ctx rs \<longleftrightarrow>
     requires_permission_broker_response tool \<or> requires_workflow_review tool \<or>
     requires_user_decision rs tool ctx \<noteq> None \<or> edits_git_metadata (ge_resolve env) tool input ctx"

definition auto_mode_gate ::
  "gate_env \<Rightarrow> gate_world \<Rightarrow> string \<Rightarrow> json \<Rightarrow> tool_context \<Rightarrow> seat_rule list \<Rightarrow> verdict_cache \<Rightarrow>
   gate_outcome \<times> verdict_cache" where
  "auto_mode_gate env world tool input ctx rs c =
     (if gate_leaves_to_a_person env tool input ctx rs then (GateAsk, c)
      else
        let input_json = ge_json_text env input;
            snapshot = gate_snapshot world
        in if snap_withdrawn snapshot then (GateDeny WITHDRAWN_REASON False, c)
           else
             let allow_key = classifier_key env input ctx snapshot;
                 deny_key = denial_key env input ctx snapshot;
                 (exempt, c) = take_exemption tool input_json c
             in if exempt then
                  (let c = forget_verdict tool deny_key (forget_verdict tool allow_key c)
                   in case grant_changed_during_decision (gw_grants world) of
                        Some denial \<Rightarrow> (denial, c)
                      | None \<Rightarrow> (GateRun SourceUserExemption, c))
                else case denied_reason tool deny_key c of
                  Some why \<Rightarrow> (GateDeny why False, c)
                | None \<Rightarrow>
                    if is_allowed tool allow_key c then
                      (case grant_changed_during_decision (gw_grants world) of
                         Some denial \<Rightarrow> (denial, c)
                       | None \<Rightarrow> (GateRun SourceCachedVerdict, c))
                    else case gw_classifier world of
                      None \<Rightarrow>
                        (GateDeny (auto_mode_classifier_failure_reason
                           ''Classifier unavailable - blocking for safety'') True, c)
                    | Some judge \<Rightarrow>
                        let answer = judge (gate_request tool input ctx snapshot)
                        in case grant_changed_during_decision (gw_grants world) of
                             Some denial \<Rightarrow> (denial, c)
                           | None \<Rightarrow>
                               if \<not> auto_gates (gw_mode_after world) (current_mode (gw_mode_after world)) then
                                 (GateAsk, c)
                               else judged_outcome env tool allow_key deny_key answer c)"

subsection \<open>The mode decides\<close>

datatype mode_ask_outcome = ModeRun "allow_source option" | ModeDeny string | ModeAsk

record gate_state =
  verdicts :: verdict_cache
  sink :: denial_store

definition truncate_text :: "string \<Rightarrow> string \<Rightarrow> nat \<Rightarrow> string" where
  "truncate_text ellipsis s max_len = (if byte_len s \<le> max_len then s else take (max_len - 1) s @ ellipsis)"

definition build_denial_input ::
  "gate_env \<Rightarrow> 64 word \<Rightarrow> string \<Rightarrow> tool_context \<Rightarrow> json \<Rightarrow> string option \<Rightarrow> denial_input" where
  "build_denial_input env now tool ctx input why =
     (let display = (case Option.bind (as_object input) (\<lambda>kvs. map_of kvs ''command'') of
            Some (JString cmd) \<Rightarrow> if cmd \<noteq> [] then tool @ '': '' @ truncate_text (ge_ellipsis env) cmd 80 else tool
          | _ \<Rightarrow> tool)
      in \<lparr>in_tool_use_id = (case ctx_tool_use_id ctx of Some i \<Rightarrow> i | None \<Rightarrow> ''tool-call''),
          in_tool_name = tool, in_tool_input = ge_json_text env input,
          in_reason = (case why of Some w \<Rightarrow> w | None \<Rightarrow> ''auto-mode denial''), in_display = display,
          in_timestamp_ms = now, in_task_id = None, in_conversation_id = None\<rparr>)"

definition ask_through_auto_gate ::
  "gate_env \<Rightarrow> gate_world \<Rightarrow> string \<Rightarrow> json \<Rightarrow> tool_context \<Rightarrow> seat_rule list \<Rightarrow> gate_state \<Rightarrow>
   mode_ask_outcome \<times> gate_state" where
  "ask_through_auto_gate env world tool input ctx rs s =
     (let (outcome, c) = auto_mode_gate env world tool input ctx rs (verdicts s);
          s = s\<lparr>verdicts := c\<rparr>
      in case outcome of
           GateRun source \<Rightarrow> (ModeRun (Some source), s)
         | GateDeny why fresh \<Rightarrow>
             (ModeDeny why,
              if fresh then
                s\<lparr>sink := snd (record_denial (build_denial_input env (gw_now world) tool ctx input (Some why)) (sink s))\<rparr>
              else s)
         | GateAsk \<Rightarrow> (ModeAsk, s))"

text \<open>\<open>hooks\<close> is the mode provider of the installed hooks; without hooks there is none.\<close>

definition resolve_ask_under_mode ::
  "gate_env \<Rightarrow> gate_world \<Rightarrow> permission_mode \<Rightarrow> mode_provider option \<Rightarrow> string \<Rightarrow> json \<Rightarrow> tool_context \<Rightarrow>
   seat_rule list \<Rightarrow> gate_state \<Rightarrow> mode_ask_outcome \<times> gate_state" where
  "resolve_ask_under_mode env world mode hooks tool input ctx rs s =
     (let seat_decision = requires_user_decision rs tool ctx;
          needs_response = requires_permission_broker_response tool;
          workflow_review = requires_workflow_review tool
      in case mode of
           BypassPermissions \<Rightarrow>
             (if needs_response \<or> seat_decision = Some EvenUnderBypass then ModeAsk else ModeRun None, s)
         | DontAsk \<Rightarrow>
             (if needs_response then ModeAsk
              else if workflow_review then ModeDeny (dont_ask_workflow_deny_reason tool)
              else case deny_reason_when_never_prompting rs tool of
                Some why \<Rightarrow> ModeDeny why
              | None \<Rightarrow> ModeDeny (dont_ask_deny_reason tool), s)
         | AcceptEdits \<Rightarrow>
             (if is_accept_edits_tool tool \<and> \<not> edits_git_metadata (ge_resolve env) tool input ctx
              then ModeRun None else ModeAsk, s)
         | Auto \<Rightarrow>
             (case hooks of
                None \<Rightarrow>
                  (if needs_response \<or> workflow_review \<or> seat_decision \<noteq> None then ModeAsk
                   else ModeDeny (auto_mode_classifier_failure_reason
                     ''Classifier state unavailable - blocking for safety''), s)
              | Some _ \<Rightarrow>
                  if seat_decision \<noteq> None then (ModeAsk, s)
                  else ask_through_auto_gate env world tool input ctx rs s)
         | Plan \<Rightarrow>
             (if is_some_and (\<lambda>p. auto_gates p mode) hooks \<and> seat_decision = None
              then ask_through_auto_gate env world tool input ctx rs s
              else (ModeAsk, s))
         | Default \<Rightarrow> (ModeAsk, s)
         | Bubble \<Rightarrow> (ModeAsk, s))"

end
