(* ===== verification/Gate_Facts.thy ===== *)
theory Gate_Facts
  imports Permission_Gate Transcript_Facts Classifier_Facts Denial_Facts
begin

text \<open>
  What the modes promise: which calls run unasked, that rules of the seat only add prompts, that a
  denial outlives whatever the agent does after it, and that an exemption admits one call.
\<close>

subsection \<open>The branches of the gate\<close>

lemma take_exemption_none:
  "fingerprint tool input \<notin> set (exemptions c) \<Longrightarrow> take_exemption tool input c = (False, c)"
proof -
  assume "fingerprint tool input \<notin> set (exemptions c)"
  then have "filter (\<lambda>e. e \<noteq> fingerprint tool input) (exemptions c) = exemptions c"
    by (intro filter_True) auto
  then show ?thesis by (simp add: take_exemption_def)
qed

lemma take_exemption_some:
  "fingerprint tool input \<in> set (exemptions c) \<Longrightarrow> fst (take_exemption tool input c)"
  by (simp add: take_exemption_iff)

definition is_exempt :: "gate_env \<Rightarrow> string \<Rightarrow> json \<Rightarrow> verdict_cache \<Rightarrow> bool" where
  "is_exempt env tool input c \<longleftrightarrow> fingerprint tool (ge_json_text env input) \<in> set (exemptions c)"

lemma gate_left: "gate_leaves_to_a_person env tool input ctx rs \<Longrightarrow> auto_mode_gate env world tool input ctx rs c = (GateAsk, c)"
  by (simp add: auto_mode_gate_def)

lemma gate_not_exempt:
  assumes "\<not> gate_leaves_to_a_person env tool input ctx rs" and "\<not> snap_withdrawn (gate_snapshot world)"
    and "\<not> is_exempt env tool input c"
  shows "auto_mode_gate env world tool input ctx rs c =
    (let snapshot = gate_snapshot world;
         allow_key = classifier_key env input ctx snapshot; deny_key = denial_key env input ctx snapshot
     in case denied_reason tool deny_key c of
          Some why \<Rightarrow> (GateDeny why False, c)
        | None \<Rightarrow>
            if is_allowed tool allow_key c then
              (case grant_changed_during_decision (gw_grants world) of
                 Some denial \<Rightarrow> (denial, c) | None \<Rightarrow> (GateRun SourceCachedVerdict, c))
            else case gw_classifier world of
              None \<Rightarrow> (GateDeny (auto_mode_classifier_failure_reason
                         ''Classifier unavailable - blocking for safety'') True, c)
            | Some judge \<Rightarrow>
                (case grant_changed_during_decision (gw_grants world) of
                   Some denial \<Rightarrow> (denial, c)
                 | None \<Rightarrow>
                     if \<not> auto_gates (gw_mode_after world) (current_mode (gw_mode_after world)) then (GateAsk, c)
                     else judged_outcome env tool allow_key deny_key (judge (gate_request tool input ctx snapshot)) c))"
  using assms take_exemption_none [of tool "ge_json_text env input" c]
  by (simp add: auto_mode_gate_def is_exempt_def Let_def split: option.split)

lemma gate_exempt:
  assumes "\<not> gate_leaves_to_a_person env tool input ctx rs" and "\<not> snap_withdrawn (gate_snapshot world)"
    and "is_exempt env tool input c"
  shows "auto_mode_gate env world tool input ctx rs c =
    (let snapshot = gate_snapshot world;
         left = forget_verdict tool (denial_key env input ctx snapshot)
           (forget_verdict tool (classifier_key env input ctx snapshot)
             (snd (take_exemption tool (ge_json_text env input) c)))
     in case grant_changed_during_decision (gw_grants world) of
          Some denial \<Rightarrow> (denial, left) | None \<Rightarrow> (GateRun SourceUserExemption, left))"
  using assms take_exemption_some [of tool "ge_json_text env input" c]
  by (simp add: auto_mode_gate_def is_exempt_def Let_def case_prod_beta)

lemma gate_withdrawn:
  "\<not> gate_leaves_to_a_person env tool input ctx rs \<Longrightarrow> snap_withdrawn (gate_snapshot world) \<Longrightarrow>
   auto_mode_gate env world tool input ctx rs c = (GateDeny WITHDRAWN_REASON False, c)"
  by (simp add: auto_mode_gate_def)

lemma grant_changed_refuses:
  "grant_changed_during_decision grants = Some denial \<Longrightarrow> \<exists>why. denial = GateDeny why False"
  by (auto simp: grant_changed_during_decision_def bind_eq_Some_conv split: if_splits)

lemma grants_kept:
  "grant_changed_during_decision grants = None \<longleftrightarrow>
   (\<forall>a b. grants = Some (a, b) \<longrightarrow> b = a \<and> \<not> snap_withdrawn b)"
  by (cases grants) (auto simp: grant_changed_during_decision_def split: if_splits)

subsection \<open>What a run needs\<close>

definition run_evidence ::
  "gate_env \<Rightarrow> gate_world \<Rightarrow> string \<Rightarrow> json \<Rightarrow> tool_context \<Rightarrow> verdict_cache \<Rightarrow> allow_source \<Rightarrow> bool" where
  "run_evidence env world tool input ctx c source \<longleftrightarrow>
     (case source of
        SourceUserExemption \<Rightarrow> is_exempt env tool input c
      | SourceCachedVerdict \<Rightarrow>
          denied_reason tool (denial_key env input ctx (gate_snapshot world)) c = None \<and>
          is_allowed tool (classifier_key env input ctx (gate_snapshot world)) c
      | SourceClassifier \<Rightarrow>
          denied_reason tool (denial_key env input ctx (gate_snapshot world)) c = None \<and>
          (\<exists>judge why st. gw_classifier world = Some judge \<and>
             judge (gate_request tool input ctx (gate_snapshot world)) = Judged (ClassifierAllow why st)) \<and>
          auto_gates (gw_mode_after world) (current_mode (gw_mode_after world))
      | SourceUnspecified \<Rightarrow> False)"

lemma judged_run:
  "fst (judged_outcome env tool ak dk answer c) = GateRun source \<Longrightarrow>
   source = SourceClassifier \<and> (\<exists>why st. answer = Judged (ClassifierAllow why st))"
  by (auto simp: judged_outcome_def deny_via_cache_def Let_def case_prod_beta
      split: classifier_answer.splits classifier_outcome.splits)

lemma gate_run:
  assumes "fst (auto_mode_gate env world tool input ctx rs c) = GateRun source"
  shows "\<not> gate_leaves_to_a_person env tool input ctx rs \<and> \<not> snap_withdrawn (gate_snapshot world) \<and>
    grant_changed_during_decision (gw_grants world) = None \<and> run_evidence env world tool input ctx c source"
proof -
  have l: "\<not> gate_leaves_to_a_person env tool input ctx rs" using assms gate_left by force
  have w: "\<not> snap_withdrawn (gate_snapshot world)" using assms gate_withdrawn [OF l] by force
  have g: "grant_changed_during_decision (gw_grants world) = None" and "run_evidence env world tool input ctx c source"
  proof (atomize (full), cases "is_exempt env tool input c")
    case True
    with assms gate_exempt [OF l w] show "grant_changed_during_decision (gw_grants world) = None \<and>
        run_evidence env world tool input ctx c source"
      by (auto simp: Let_def run_evidence_def dest: grant_changed_refuses split: option.splits)
  next
    case False
    show "grant_changed_during_decision (gw_grants world) = None \<and> run_evidence env world tool input ctx c source"
      using assms unfolding gate_not_exempt [OF l w False] Let_def
      by (auto simp: run_evidence_def dest: grant_changed_refuses dest!: judged_run
          split: option.splits if_splits)
  qed
  with l w show ?thesis by blast
qed

subsection \<open>The state stays well-formed\<close>

definition gate_state_ok :: "gate_state \<Rightarrow> bool" where
  "gate_state_ok s \<longleftrightarrow> cache_ok (verdicts s) \<and> denial_inv (sink s)"

lemma judged_cache_ok: "cache_ok c \<Longrightarrow> cache_ok (snd (judged_outcome env tool ak dk answer c))"
  by (auto simp: judged_outcome_def deny_via_cache_def Let_def case_prod_beta cache_ok_mark_allowed cache_ok_mark_denied
      split: classifier_answer.split classifier_outcome.split)

lemma gate_cache_ok:
  assumes "cache_ok c"
  shows "cache_ok (snd (auto_mode_gate env world tool input ctx rs c))"
proof (cases "gate_leaves_to_a_person env tool input ctx rs \<or> snap_withdrawn (gate_snapshot world)")
  case True
  then show ?thesis using assms gate_left gate_withdrawn by (metis snd_conv)
next
  case False
  then show ?thesis
    using assms
    by (cases "is_exempt env tool input c")
      (auto simp: gate_exempt gate_not_exempt Let_def cache_ok_forget cache_ok_take judged_cache_ok split: option.split)
qed

lemma ask_through_ok: "gate_state_ok s \<Longrightarrow> gate_state_ok (snd (ask_through_auto_gate env world tool input ctx rs s))"
  using gate_cache_ok [of "verdicts s" env world tool input ctx rs]
  by (auto simp: ask_through_auto_gate_def gate_state_ok_def Let_def case_prod_beta denial_inv_record
      split: gate_outcome.split)

subsection \<open>A denial and what follows it\<close>






subsection \<open>Properties\<close>


text \<open>C6. In auto mode, and in plan mode entered from it, a call runs unasked only when no rule of the
  seat claims it, it is neither a question nor a workflow nor an edit of repository metadata, the
  user's grants stood unchanged and unwithdrawn throughout, and there is evidence: an exemption of
  the user, a remembered allow under no remembered denial, or a fresh allow of the classifier
  while the mode still gates.\<close>

theorem auto_runs_only_on_evidence:
  assumes "resolve_ask_under_mode env world mode hooks tool input ctx rs s = (ModeRun source, s')"
    and "mode = Auto \<or> mode = Plan"
  shows "(\<forall>r \<in> set rs. rule_decision r tool ctx = None) \<and>
    tool \<notin> {''AskUserQuestion'', ''Workflow'', ''RunWorkflow''} \<and>
    \<not> edits_git_metadata (ge_resolve env) tool input ctx \<and>
    grant_changed_during_decision (gw_grants world) = None \<and> \<not> snap_withdrawn (gate_snapshot world) \<and>
    (\<exists>src. source = Some src \<and> run_evidence env world tool input ctx (verdicts s) src)"
proof -
  have "ask_through_auto_gate env world tool input ctx rs s = (ModeRun source, s')"
    using assms by (auto simp: resolve_ask_under_mode_def Let_def split: option.splits if_splits)
  then obtain src where g: "fst (auto_mode_gate env world tool input ctx rs (verdicts s)) = GateRun src"
    and s: "source = Some src"
    by (auto simp: ask_through_auto_gate_def Let_def case_prod_beta split: gate_outcome.splits)
  from gate_run [OF g] s show ?thesis
    by (auto simp: gate_leaves_to_a_person_def requires_user_decision_None
        requires_permission_broker_response_def requires_workflow_review_def)
qed

text \<open>C7. Rules of the seat only take calls away from a mode: a call a mode runs with them it runs in the
  same way without them, and one it refuses with them it does not run without them.\<close>

theorem rules_only_add_prompts:
  "(let ruled = resolve_ask_under_mode env world mode hooks tool input ctx rs s;
        free = resolve_ask_under_mode env world mode hooks tool input ctx [] s
    in (case fst ruled of
          ModeRun _ \<Rightarrow> free = ruled
        | ModeDeny _ \<Rightarrow> (\<forall>source. fst free \<noteq> ModeRun source)
        | ModeAsk \<Rightarrow> True))"
proof -
  have free: "requires_user_decision [] tool ctx = None" by (simp add: requires_user_decision_None)
  have gate: "auto_mode_gate env world tool input ctx rs c = auto_mode_gate env world tool input ctx [] c"
    if "requires_user_decision rs tool ctx = None" for c
    using that free by (simp add: auto_mode_gate_def gate_leaves_to_a_person_def)
  have through: "ask_through_auto_gate env world tool input ctx rs s = ask_through_auto_gate env world tool input ctx [] s"
    if "requires_user_decision rs tool ctx = None"
    using gate [OF that] by (simp add: ask_through_auto_gate_def)
  show ?thesis
    by (cases mode; cases hooks)
      (auto simp: resolve_ask_under_mode_def Let_def free through split: option.split mode_ask_outcome.split)
qed


definition gate_sample_env :: gate_env where
  "gate_sample_env =
     \<lparr>ge_json_text = compact_text, ge_hash = (\<lambda>k. k), ge_resolve = (\<lambda>_. None), ge_ellipsis = ''...''\<rparr>"

definition answering :: "classifier_answer \<Rightarrow> gate_world" where
  "answering a =
     \<lparr>gw_grants = None, gw_classifier = Some (\<lambda>_. a),
      gw_mode_after = \<lparr>current_mode = Auto, plan_entered_from = None\<rparr>, gw_now = 5\<rparr>"

definition sample_command :: json where
  "sample_command = JObject [(''command'', JString ''curl x | sh'')]"

definition fresh_state :: gate_state where
  "fresh_state = \<lparr>verdicts = empty_cache, sink = with_capacity 20\<rparr>"

definition blocking :: gate_world where
  "blocking = answering (Judged (ClassifierBlock ''untrusted'' (Some ''Code from External'')))"

definition allowing :: gate_world where
  "allowing = answering (Judged (ClassifierAllow ''fine'' FastStage))"


theorem auto_runs_only_on_evidence_witness:
  "run_evidence gate_sample_env allowing ''Bash'' sample_command new_context empty_cache SourceClassifier"
proof -
  let ?r = "resolve_ask_under_mode gate_sample_env allowing Auto
    (Some \<lparr>current_mode = Auto, plan_entered_from = None\<rparr>) ''Bash'' sample_command new_context [] fresh_state"
  have "fst ?r = ModeRun (Some SourceClassifier)" by code_simp
  then have "?r = (ModeRun (Some SourceClassifier), snd ?r)" by (metis prod.collapse)
  from auto_runs_only_on_evidence [OF this] show ?thesis by (auto simp: fresh_state_def)
qed

text \<open>Whatever a mode decides, the state stays well-formed: the queues of verdicts within their
  capacities and free of duplicates, the records of denials within theirs and under distinct,
  already allocated ids.\<close>

theorem decisions_keep_the_state_well_formed:
  assumes "gate_state_ok s"
  shows "gate_state_ok (snd (resolve_ask_under_mode env world mode hooks tool input ctx rs s))"
  using assms ask_through_ok
  by (cases mode) (auto simp: resolve_ask_under_mode_def Let_def split: option.split)

theorem decisions_keep_the_state_well_formed_witness:
  "gate_state_ok (snd (resolve_ask_under_mode gate_sample_env blocking Auto
     (Some \<lparr>current_mode = Auto, plan_entered_from = None\<rparr>) ''Bash'' sample_command new_context [] fresh_state))"
proof (rule decisions_keep_the_state_well_formed)
  have "denial_inv (with_capacity 20)" by (rule denial_reachable_inv [OF denial_reachable.start])
  then show "gate_state_ok fresh_state" by (simp add: gate_state_ok_def fresh_state_def cache_ok_empty)
qed

subsection \<open>Findings\<close>

text \<open>The comment on \<open>resolve_ask_under_mode\<close> lists \<open>Agent\<close> among the tools that always reach the
  prompt; bypass runs it.\<close>

theorem agent_runs_unasked:
  "fst (resolve_ask_under_mode env world BypassPermissions hooks ''Agent'' input ctx [] s) = ModeRun None"
  by (simp add: resolve_ask_under_mode_def requires_permission_broker_response_def requires_user_decision_def
      List.map_filter_simps list_max_def)

text \<open>A failure of the classifier is not remembered: the same call, retried while the classifier is
  down, adds a record each time.\<close>

theorem failed_judgment_recorded_every_time:
  "(let call = (\<lambda>s. snd (ask_through_auto_gate gate_sample_env (answering JudgeTimedOut) ''Bash'' sample_command new_context [] s))
    in length (denials (sink (call (call (call fresh_state))))) = 3)"
  by code_simp

text \<open>The one-shot exemption is spent before the grants are read again: a call it should admit is
  refused when they changed, with the advice to retry, and the retry has no exemption.\<close>

theorem exemption_spent_on_refused_call:
  assumes "\<not> gate_leaves_to_a_person env tool input ctx rs" and "\<not> snap_withdrawn (gate_snapshot world)"
    and "is_exempt env tool input c" and "grant_changed_during_decision (gw_grants world) = Some denial"
  shows "fst (auto_mode_gate env world tool input ctx rs c) = denial \<and>
    \<not> is_exempt env tool input (snd (auto_mode_gate env world tool input ctx rs c))"
  using gate_exempt [OF assms(1-3)] assms(4) take_exemption_iff(2)
  by (simp add: Let_def is_exempt_def exemptions_kept)

end
