(* ===== verification/Permission_Broker.thy ===== *)
theory Permission_Broker
  imports Permission_Gate Policy Session_Host
begin

text \<open>
  The brokers a decision on a tool call goes to: \<open>ChannelPermissionBroker\<close> of
  \<open>crates/rebon-core/src/permission.rs\<close>, which ends at a person, and the unattended ones of
  \<open>crates/rebon-tool/src/lib.rs\<close>.

  A broker answers with what is done, a value of \<open>broker_action\<close>: the tool is run, on which input and
  in which context, or the call ends in a value or an error without it; \<open>perform\<close> runs the tool,
  which is a parameter. What the outside does while a broker waits is in \<open>broker_world\<close>.
\<close>

subsection \<open>Protected files\<close>

record protected_paths =
  protected_dirs :: "fs_path list"
  record_roots :: "fs_path list"
  record_suffixes :: "string list"

text \<open>\<open>Path::strip_prefix\<close>.\<close>

definition path_rest :: "fs_path \<Rightarrow> fs_path \<Rightarrow> string list option" where
  "path_rest p base =
     (if path_starts_with p base then Some (drop (length (components base)) (components p)) else None)"

text \<open>The nearest existing ancestor, the components last first.\<close>

fun resolve_ancestor ::
  "(string \<Rightarrow> fs_path option) \<Rightarrow> bool \<Rightarrow> string list \<Rightarrow> string list \<Rightarrow> fs_path option" where
  "resolve_ancestor fs ab cs rest =
     (case fs (path_text \<lparr>absolute = ab, components = rev cs\<rparr>) of
        Some canonical \<Rightarrow> Some (canonical\<lparr>components := components canonical @ rest\<rparr>)
      | None \<Rightarrow> (case cs of [] \<Rightarrow> None | c # cs' \<Rightarrow> resolve_ancestor fs ab cs' (c # rest)))"

declare resolve_ancestor.simps [simp del]

definition resolve_for_compare :: "(string \<Rightarrow> fs_path option) \<Rightarrow> fs_path \<Rightarrow> fs_path" where
  "resolve_for_compare fs p =
     (let lexical = lexically_normalize_path p
      in case resolve_ancestor fs (absolute lexical) (rev (components lexical)) [] of
           Some q \<Rightarrow> q
         | None \<Rightarrow> lexical)"

definition resolved_paths :: "(string \<Rightarrow> fs_path option) \<Rightarrow> protected_paths \<Rightarrow> protected_paths" where
  "resolved_paths fs ps =
     ps\<lparr>protected_dirs := map (resolve_for_compare fs) (protected_dirs ps),
        record_roots := map (resolve_for_compare fs) (record_roots ps)\<rparr>"

definition protects_nothing :: "protected_paths \<Rightarrow> bool" where
  "protects_nothing ps \<longleftrightarrow> protected_dirs ps = [] \<and> record_roots ps = []"

definition path_file_name :: "fs_path \<Rightarrow> string option" where
  "path_file_name p =
     (if components p = [] \<or> last (components p) \<in> {''.'', ''..''} then None else Some (last (components p)))"

definition covers_file :: "protected_paths \<Rightarrow> fs_path \<Rightarrow> bool" where
  "covers_file ps target \<longleftrightarrow>
     list_ex (path_starts_with target) (protected_dirs ps) \<or>
     is_some_and (\<lambda>name. list_ex (\<lambda>s. suffix s name) (record_suffixes ps)) (path_file_name target) \<and>
     list_ex (path_starts_with target) (record_roots ps)"

text \<open>A search from \<open>root\<close> comes to \<open>protected\<close> through no hidden name.\<close>

definition search_reaches :: "fs_path \<Rightarrow> fs_path \<Rightarrow> bool" where
  "search_reaches root protected =
     is_some_and (\<lambda>rest. \<not> list_ex (prefix [ch_dot]) rest) (path_rest protected root)"

definition covers_search_root :: "protected_paths \<Rightarrow> fs_path \<Rightarrow> bool" where
  "covers_search_root ps root \<longleftrightarrow>
     list_ex (\<lambda>dir. path_starts_with root dir \<or> search_reaches root dir) (protected_dirs ps) \<or>
     list_ex (\<lambda>rec. search_reaches root rec \<or> is_some_and (\<lambda>rest. length rest \<le> 1) (path_rest root rec))
       (record_roots ps)"

definition is_glob_tool :: "string \<Rightarrow> bool" where
  "is_glob_tool tool \<longleftrightarrow> tool = ''Glob'' \<or> tool = ''GlobTool''"

definition is_grep_tool :: "string \<Rightarrow> bool" where
  "is_grep_tool tool \<longleftrightarrow> tool = ''Grep'' \<or> tool = ''GrepTool''"

definition resolve_target :: "(string \<Rightarrow> fs_path option) \<Rightarrow> tool_context \<Rightarrow> string \<Rightarrow> fs_path" where
  "resolve_target fs ctx target = resolve_for_compare fs (path_of (against_cwd ctx (trim target)))"

definition search_root :: "json \<Rightarrow> tool_context \<Rightarrow> string option" where
  "search_root input ctx =
     (case get_str ''path'' input of
        Some p \<Rightarrow> if trim p \<noteq> [] then Some p else ctx_cwd ctx
      | None \<Rightarrow> ctx_cwd ctx)"

text \<open>The part of an absolute pattern before its first wildcard.\<close>

definition literal_root :: "string \<Rightarrow> fs_path" where
  "literal_root pattern =
     (path_of pattern)\<lparr>components :=
        takeWhile (\<lambda>c. \<not> list_ex (\<lambda>x. x \<in> set ''*?['' \<or> x = ch_lbrace) c) (components (path_of pattern))\<rparr>"

definition file_tool_touches_protected_path ::
  "(string \<Rightarrow> fs_path option) \<Rightarrow> string \<Rightarrow> json \<Rightarrow> tool_context \<Rightarrow> protected_paths \<Rightarrow> bool" where
  "file_tool_touches_protected_path fs tool input ctx ps \<longleftrightarrow>
     \<not> protects_nothing ps \<and>
     (is_some_and (\<lambda>target. covers_file ps (resolve_target fs ctx target)) (file_target tool input) \<or>
      (is_glob_tool tool \<or> is_grep_tool tool) \<and>
      (is_some_and (\<lambda>root. covers_search_root ps (resolve_target fs ctx root)) (search_root input ctx) \<or>
       is_some_and (\<lambda>pattern. is_glob_tool tool \<and> prefix [ch_slash] pattern \<and>
           (let literal = resolve_for_compare fs (literal_root pattern)
            in covers_search_root ps literal \<or> covers_file ps literal))
         (get_str ''pattern'' input)))"

definition PROTECTED_ROOT_DENY_REASON :: string where
  "PROTECTED_ROOT_DENY_REASON =
     ''This path holds Rebon'' @ [ch_squote] @ ''s session control records, which carry other sessions'' @ [ch_squote] @
     '' control credentials. No file tool may read, search or change them. The call was NOT run. Do not try to reach these files another way; continue with the task without them.''"

subsection \<open>Added directories\<close>

text \<open>\<open>canonical_path_for_compare\<close>.\<close>

definition canonical_path_for_compare :: "(string \<Rightarrow> fs_path option) \<Rightarrow> string \<Rightarrow> fs_path option" where
  "canonical_path_for_compare fs path = (if trim path = [] then None else fs (trim path))"

definition is_under_add_dir :: "(string \<Rightarrow> fs_path option) \<Rightarrow> string \<Rightarrow> string list \<Rightarrow> bool" where
  "is_under_add_dir fs path dirs \<longleftrightarrow>
     is_some_and (\<lambda>p.
       list_ex (\<lambda>dir. is_some_and (\<lambda>d. p = d \<or> path_starts_with p d) (canonical_path_for_compare fs dir)) dirs)
       (canonical_path_for_compare fs path)"

definition inject_add_dir_allow_option ::
  "(string \<Rightarrow> fs_path option) \<Rightarrow> tool_context \<Rightarrow> permission_decision \<Rightarrow> permission_decision" where
  "inject_add_dir_allow_option fs ctx d =
     (if ctx_directories ctx \<noteq> [] \<and>
         is_some_and (\<lambda>path. is_under_add_dir fs path (ctx_directories ctx))
           (Option.bind (updated_input d) (get_str ''file_path''))
      then d\<lparr>request := map_option (\<lambda>r.
             if ''allow_once'' \<in> set (request_options r) then r
             else r\<lparr>request_options := ''allow_once'' # request_options r\<rparr>) (request d)\<rparr>
      else d)"

subsection \<open>Options of a prompt\<close>

definition option_kind :: "string \<Rightarrow> permission_option_kind" where
  "option_kind option_id =
     (if option_id \<in> {''allow_once'', ''yes_clear_context_auto'', ''yes_auto'', ''yes_accept_edits'', ''yes_default''}
      then KindAllowOnce
      else if option_id = ''allow_always'' then KindAllowAlways
      else if option_id \<in> {''reject_always'', ''deny_always''} then KindRejectAlways
      else KindRejectOnce)"

record query_option =
  opt_id :: string
  opt_label :: string
  opt_kind :: permission_option_kind

definition option_label :: "string \<Rightarrow> seat_rule list \<Rightarrow> string" where
  "option_label option_id rs =
     (case seat_option_label rs option_id of
        Some l \<Rightarrow> l
      | None \<Rightarrow>
          if option_id = ''allow_once'' then ''Allow once''
          else if option_id = ''allow_always'' then ''Allow always''
          else if option_id = ''reject_once'' then ''No, chat with this''
          else replace_char ch_underscore ch_space option_id)"

definition build_options :: "permission_request \<Rightarrow> seat_rule list \<Rightarrow> query_option list" where
  "build_options req rs =
     (if request_options req = [] then
        [\<lparr>opt_id = ''allow_once'', opt_label = ''Allow once'', opt_kind = KindAllowOnce\<rparr>,
         \<lparr>opt_id = ''reject_once'', opt_label = ''Reject once'', opt_kind = KindRejectOnce\<rparr>]
      else map (\<lambda>i. \<lparr>opt_id = i, opt_label = option_label i rs, opt_kind = option_kind i\<rparr>) (request_options req))"

definition is_reject_option :: "string \<Rightarrow> bool" where
  "is_reject_option option_id \<longleftrightarrow> option_kind option_id \<in> {KindRejectOnce, KindRejectAlways}"

definition is_reject_always_option :: "string \<Rightarrow> bool" where
  "is_reject_always_option option_id \<longleftrightarrow> option_kind option_id = KindRejectAlways"

subsection \<open>Answers\<close>

datatype permission_answer = Selected string "json option" "string option" | AnswerCancelled

definition with_extra_text :: "string option \<Rightarrow> permission_answer \<Rightarrow> permission_answer" where
  "with_extra_text extra a =
     (case a of Selected option_id updated _ \<Rightarrow> Selected option_id updated extra | AnswerCancelled \<Rightarrow> AnswerCancelled)"

text \<open>The feedback with its surrounding blanks gone, when anything is left of it.\<close>

definition trimmed_text :: "string option \<Rightarrow> string option" where
  "trimmed_text extra = Option.bind extra (\<lambda>t. if trim t = [] then None else Some (trim t))"

definition append_permission_extra_text :: "string option \<Rightarrow> json \<Rightarrow> json" where
  "append_permission_extra_text extra v =
     (case trimmed_text extra of None \<Rightarrow> v | Some t \<Rightarrow> json_insert ''permissionExtraText'' (JString t) v)"

definition ROUTER_QUESTION_GUIDANCE_PREFIX :: string where
  "ROUTER_QUESTION_GUIDANCE_PREFIX = ''The router withdrew this question; this is not user authorization.''"

definition permission_denial_reason :: "string \<Rightarrow> string option \<Rightarrow> rejection_note option \<Rightarrow> string" where
  "permission_denial_reason option_id extra note =
     (let extra = trimmed_text extra
      in if option_id = ''reject_once'' then
           (case extra of
              Some t \<Rightarrow>
                if prefix ROUTER_QUESTION_GUIDANCE_PREFIX t then t
                else
                  ''The user chose '' @ [ch_dquote] @ ''No, chat with this'' @ [ch_dquote] @ ''.'' @
                  (case note of
                     Some n \<Rightarrow> '' '' @ guidance n @ '' '' @ feedback_label n @ '': '' @ t
                   | None \<Rightarrow>
                       '' Discuss the requested action with the user instead of retrying the tool immediately.'' @
                       '' User note: '' @ t)
            | None \<Rightarrow>
                ''The user chose '' @ [ch_dquote] @ ''No, chat with this'' @ [ch_dquote] @ ''.'' @
                (case note of
                   Some n \<Rightarrow> '' '' @ guidance n
                 | None \<Rightarrow>
                     '' Discuss the requested action with the user instead of retrying the tool immediately.''))
         else
           ''permission denied (option: '' @ option_id @ '')'' @
           (case extra of Some t \<Rightarrow> ''. User note: '' @ t | None \<Rightarrow> []))"

definition WORKFLOW_REVISION_FEEDBACK_PREFIX :: string where
  "WORKFLOW_REVISION_FEEDBACK_PREFIX = ''Please revise the workflow before running it.''"

definition workflow_revision_requested_result :: "string \<Rightarrow> string option \<Rightarrow> json option" where
  "workflow_revision_requested_result tool feedback =
     (if \<not> requires_workflow_review tool then None
      else Option.bind (trimmed_text feedback) (\<lambda>text.
        if \<not> prefix WORKFLOW_REVISION_FEEDBACK_PREFIX text then None
        else Some (JObject
          [(''status'', JString ''revision_requested''), (''action'', JString ''regenerate_workflow''),
           (''message'', JString ''The current Workflow call was not approved and was not run. Regenerate a new Workflow call that incorporates the requested changes before running it.''),
           (''feedback'', JString text)])))"

subsection \<open>The waterfall before a prompt\<close>

text \<open>\<open>listeners\<close> is the chain of \<open>permission/ask\<close> in the scope of the session, from the payload to the
  last one's output; with no listener it is the default, which passes the query on.\<close>

definition ask_payload ::
  "string \<Rightarrow> string \<Rightarrow> string option \<Rightarrow> string \<Rightarrow> string \<Rightarrow> json option \<Rightarrow> query_option list \<Rightarrow> json" where
  "ask_payload session tool call_id t m input options =
     JObject
       [(''sessionId'', JString session), (''toolName'', JString tool),
        (''toolCallId'', case call_id of Some i \<Rightarrow> JString i | None \<Rightarrow> JNull),
        (''title'', JString t), (''message'', JString m),
        (''toolInput'', case input of Some i \<Rightarrow> i | None \<Rightarrow> JNull),
        (''options'', JArray (map (\<lambda>o'. JObject
           [(''optionId'', JString (opt_id o')), (''label'', JString (opt_label o'))]) options))]"

definition json_flag :: "string \<Rightarrow> json \<Rightarrow> bool" where
  "json_flag key v = (case Option.bind (json_get key v) as_bool of Some b \<Rightarrow> b | None \<Rightarrow> False)"

definition kernel_ask_waterfall :: "(json \<Rightarrow> json) \<Rightarrow> json \<Rightarrow> permission_answer option" where
  "kernel_ask_waterfall listeners payload =
     (let outcome = listeners payload
      in if json_flag ''pass'' outcome then None
         else if json_flag ''cancel'' outcome then Some AnswerCancelled
         else Option.bind (json_get ''answer'' outcome) (\<lambda>answer.
           map_option (\<lambda>option_id.
             Selected option_id
               (Option.bind (json_get ''updatedInput'' answer) (\<lambda>v. if is_null v then None else Some v))
               (get_str ''extraText'' answer))
             (get_str ''optionId'' answer)))"

subsection \<open>What is done\<close>

datatype broker_action = RunTool json tool_context "string option" | Finish "tool_error + json" | ToolPanic

text \<open>A panic, \<open>ToolPanic\<close>, ends the call without a result.\<close>

definition perform ::
  "(json \<Rightarrow> tool_context \<Rightarrow> tool_error + json) \<Rightarrow> broker_action \<Rightarrow> (tool_error + json) option" where
  "perform call action =
     (case action of
        Finish r \<Rightarrow> Some r
      | RunTool input ctx extra \<Rightarrow>
          Some (and_then (call input ctx) (\<lambda>v. Inr (append_permission_extra_text extra v)))
      | ToolPanic \<Rightarrow> None)"

abbreviation refuse :: "string \<Rightarrow> string \<Rightarrow> broker_action" where
  "refuse tool why \<equiv> Finish (Inl (PermissionDenied tool why))"

definition effective_input :: "permission_decision \<Rightarrow> json \<Rightarrow> json" where
  "effective_input d input = (case updated_input d of Some i \<Rightarrow> i | None \<Rightarrow> input)"

definition denied_because :: "string \<Rightarrow> permission_decision \<Rightarrow> broker_action" where
  "denied_because tool d = refuse tool (case reason d of Some why \<Rightarrow> why | None \<Rightarrow> ''tool permission denied'')"

record outbound_query =
  oq_id :: "64 word"
  oq_tool :: string
  oq_call_id :: string
  oq_session :: string
  oq_title :: string
  oq_message :: string
  oq_input :: "json option"
  oq_metadata :: "json option"
  oq_options :: "query_option list"

text \<open>What the outside does during one call: the world of the gate, the rules of the seat, the
  listeners where the broker has a kernel context, whether the query reaches its receiver, and
  what comes back of it.\<close>

record broker_world =
  bw_gate :: gate_world
  bw_rules :: "seat_rule list"
  bw_listeners :: "(json \<Rightarrow> json) option"
  bw_query_sent :: bool
  bw_answer :: "outbound_query \<Rightarrow> permission_answer option"

record channel_broker =
  cb_session :: string
  cb_hooks :: "mode_provider option"
  cb_protected :: protected_paths
  cb_event_channel :: bool

record broker_state =
  gate_of :: gate_state
  next_query_id :: "64 word"
  asked :: "outbound_query list"
  allow_notes :: "(string \<times> allow_source) list"

definition emit_auto_mode_allowed ::
  "channel_broker \<Rightarrow> tool_context \<Rightarrow> allow_source \<Rightarrow> broker_state \<Rightarrow> broker_state" where
  "emit_auto_mode_allowed b ctx source s =
     (case ctx_tool_use_id ctx of
        Some i \<Rightarrow> if cb_event_channel b then s\<lparr>allow_notes := allow_notes s @ [(i, source)]\<rparr> else s
      | None \<Rightarrow> s)"

definition AGENT_TOOL_NAME :: string where "AGENT_TOOL_NAME = ''Agent''"

definition AGENT_EXTERNAL_PATH_AUTHORIZATION_KIND :: string where
  "AGENT_EXTERNAL_PATH_AUTHORIZATION_KIND = ''agent_external_path_authorization''"

fun add_directories :: "json list \<Rightarrow> string list \<Rightarrow> string list" where
  "add_directories [] dirs = dirs"
| "add_directories (v # vs) dirs =
     add_directories vs
       (case trimmed_text (as_str v) of
          Some p \<Rightarrow> if p \<in> set dirs then dirs else dirs @ [p]
        | None \<Rightarrow> dirs)"

definition context_with_permission_authorized_paths ::
  "string \<Rightarrow> tool_context \<Rightarrow> permission_request \<Rightarrow> tool_context option" where
  "context_with_permission_authorized_paths tool ctx req =
     (if tool \<noteq> AGENT_TOOL_NAME then None
      else Option.bind (request_metadata req) (\<lambda>meta.
        if get_str ''kind'' meta \<noteq> Some AGENT_EXTERNAL_PATH_AUTHORIZATION_KIND then None
        else Option.bind (Option.bind (json_get ''authorized_path_roots'' meta) as_array) (\<lambda>paths.
          let dirs = add_directories paths (ctx_directories ctx)
          in if length (ctx_directories ctx) < length dirs then Some (ctx\<lparr>ctx_directories := dirs\<rparr>) else None)))"

definition granted_context :: "string \<Rightarrow> tool_context \<Rightarrow> permission_decision \<Rightarrow> tool_context" where
  "granted_context tool ctx d =
     (case Option.bind (request d) (context_with_permission_authorized_paths tool ctx) of
        Some c \<Rightarrow> c
      | None \<Rightarrow> ctx)"

text \<open>\<open>call_approved\<close>.\<close>

definition call_approved ::
  "string \<Rightarrow> string \<Rightarrow> json \<Rightarrow> tool_context \<Rightarrow> seat_rule list \<Rightarrow> string option \<Rightarrow> broker_action" where
  "call_approved tool option_id input ctx rs extra =
     (let (input', approved) = on_approved rs tool option_id input ctx None
      in RunTool input' (case approved of Some c \<Rightarrow> c | None \<Rightarrow> ctx) extra)"

definition answered ::
  "string \<Rightarrow> json \<Rightarrow> tool_context \<Rightarrow> permission_decision \<Rightarrow> seat_rule list \<Rightarrow> permission_answer \<Rightarrow> broker_action" where
  "answered tool input ctx d rs a =
     (case a of
        AnswerCancelled \<Rightarrow> refuse tool ''permission request cancelled''
      | Selected option_id updated extra \<Rightarrow>
          if is_reject_option option_id then
            (case (if is_reject_always_option option_id then None
                   else workflow_revision_requested_result tool extra) of
               Some output \<Rightarrow> Finish (Inr output)
             | None \<Rightarrow> refuse tool (permission_denial_reason option_id extra (seat_rejection_note rs tool)))
          else
            call_approved tool option_id
              (case updated of Some i \<Rightarrow> i | None \<Rightarrow> effective_input d input) ctx rs extra)"

text \<open>The prompt: the listeners first, then the person.\<close>

definition prompt ::
  "channel_broker \<Rightarrow> broker_world \<Rightarrow> string \<Rightarrow> json \<Rightarrow> tool_context \<Rightarrow> permission_decision \<Rightarrow> broker_state \<Rightarrow>
   broker_action \<times> broker_state" where
  "prompt b world tool input ctx d s =
     (case request d of
        None \<Rightarrow> (refuse tool (case reason d of Some why \<Rightarrow> why | None \<Rightarrow> ''permission request missing payload''), s)
      | Some req \<Rightarrow>
          let rs = bw_rules world;
              call_ctx = granted_context tool ctx d;
              options = build_options req rs
          in case Option.bind (bw_listeners world) (\<lambda>listeners.
                kernel_ask_waterfall listeners (ask_payload (cb_session b) tool (ctx_tool_use_id ctx)
                  (title req) (message req) (updated_input d) options)) of
               Some a \<Rightarrow> (answered tool input call_ctx d rs a, s)
             | None \<Rightarrow>
                 let q = \<lparr>oq_id = next_query_id s, oq_tool = tool,
                          oq_call_id = (case ctx_tool_use_id ctx of Some i \<Rightarrow> i | None \<Rightarrow> ''tool-call''),
                          oq_session = cb_session b, oq_title = title req, oq_message = message req,
                          oq_input = updated_input d, oq_metadata = request_metadata req, oq_options = options\<rparr>;
                     s = s\<lparr>next_query_id := next_query_id s + 1\<rparr>
                 in if \<not> bw_query_sent world then
                      (Finish (Inl (Execution tool ''permission request receiver gone'')), s)
                    else
                      let s = s\<lparr>asked := asked s @ [q]\<rparr>
                      in case bw_answer world q of
                           None \<Rightarrow> (Finish (Inl (Execution tool ''permission response dropped'')), s)
                         | Some a \<Rightarrow> (answered tool input call_ctx d rs a, s))"

definition channel_resolve ::
  "gate_env \<Rightarrow> channel_broker \<Rightarrow> broker_world \<Rightarrow> string \<Rightarrow> json \<Rightarrow> tool_context \<Rightarrow> permission_decision \<Rightarrow>
   broker_state \<Rightarrow> broker_action \<times> broker_state" where
  "channel_resolve env b world tool input ctx d s =
     (if file_tool_touches_protected_path (ge_resolve env) tool input ctx (cb_protected b) then
        (refuse tool PROTECTED_ROOT_DENY_REASON, s)
      else
        let mode = (case cb_hooks b of Some p \<Rightarrow> current_mode p | None \<Rightarrow> Default);
            in_auto = is_some_and (\<lambda>p. auto_gates p mode) (cb_hooks b)
        in case behavior d of
             Allow \<Rightarrow> (RunTool (effective_input d input) ctx None, s)
           | Deny \<Rightarrow>
               (denied_because tool d,
                if in_auto then
                  s\<lparr>gate_of := (gate_of s)\<lparr>sink := snd (record_denial
                      (build_denial_input env (gw_now (bw_gate world)) tool ctx input
                        (Some (case reason d of Some why \<Rightarrow> why | None \<Rightarrow> ''tool permission denied'')))
                      (sink (gate_of s)))\<rparr>\<rparr>
                else s)
           | Ask \<Rightarrow>
               let d = inject_add_dir_allow_option (ge_resolve env) ctx d;
                   (outcome, g) = resolve_ask_under_mode env (bw_gate world) mode (cb_hooks b) tool
                     (effective_input d input) ctx (bw_rules world) (gate_of s);
                   s = s\<lparr>gate_of := g\<rparr>
               in case outcome of
                    ModeRun source \<Rightarrow>
                      (RunTool (effective_input d input) (granted_context tool ctx d) None,
                       if in_auto then
                         emit_auto_mode_allowed b ctx (case source of Some src \<Rightarrow> src | None \<Rightarrow> SourceUnspecified) s
                       else s)
                  | ModeDeny why \<Rightarrow> (refuse tool why, s)
                  | ModeAsk \<Rightarrow> prompt b world tool input ctx d s)"

end
