(* ===== verification/Broker_Facts.thy ===== *)
theory Broker_Facts
  imports Permission_Broker Gate_Facts
begin

text \<open>
  What ends at a person: a call that asks runs only on an approval, and the modes that never prompt
  never do. The findings are on the files no file tool may touch.
\<close>

subsection \<open>Answers\<close>

lemma reject_cases: "\<not> is_reject_option option_id \<longleftrightarrow> option_kind option_id \<in> {KindAllowOnce, KindAllowAlways}"
  by (cases "option_kind option_id") (simp_all add: is_reject_option_def)

lemma answered_runs:
  "answered tool input ctx d rs a = RunTool i c e \<Longrightarrow>
   \<exists>option_id updated. a = Selected option_id updated e \<and> option_kind option_id \<in> {KindAllowOnce, KindAllowAlways}"
  by (auto simp: answered_def call_approved_def reject_cases split: permission_answer.splits if_splits option.splits prod.splits)

text \<open>The answers a call can be approved by: one of the listeners, or one of the person.\<close>

definition approved_by :: "broker_world \<Rightarrow> string \<Rightarrow> bool" where
  "approved_by world option_id \<longleftrightarrow>
     (\<exists>payload listeners updated extra. bw_listeners world = Some listeners \<and>
        kernel_ask_waterfall listeners payload = Some (Selected option_id updated extra)) \<or>
     (\<exists>q updated extra. bw_query_sent world \<and> bw_answer world q = Some (Selected option_id updated extra))"

lemma prompt_runs:
  assumes "prompt b world tool input ctx d s = (RunTool i c e, s')"
  shows "\<exists>option_id. approved_by world option_id \<and> option_kind option_id \<in> {KindAllowOnce, KindAllowAlways}"
proof -
  obtain req where req: "request d = Some req" using assms by (auto simp: prompt_def split: option.splits)
  let ?payload = "ask_payload (cb_session b) tool (ctx_tool_use_id ctx) (title req) (message req) (updated_input d)
    (build_options req (bw_rules world))"
  let ?early = "Option.bind (bw_listeners world) (\<lambda>listeners. kernel_ask_waterfall listeners ?payload)"
  show ?thesis
  proof (cases ?early)
    case (Some a)
    then have "answered tool input (granted_context tool ctx d) d (bw_rules world) a = RunTool i c e"
      using assms req by (simp add: prompt_def Let_def)
    from answered_runs [OF this] obtain option_id updated where
        a: "a = Selected option_id updated e" and k: "option_kind option_id \<in> {KindAllowOnce, KindAllowAlways}" by blast
    from Some a have "approved_by world option_id" unfolding approved_by_def bind_eq_Some_conv by blast
    with k show ?thesis by blast
  next
    case None
    then have sent: "bw_query_sent world"
      using assms req by (auto simp: prompt_def Let_def split: if_splits)
    then obtain q a where "bw_answer world q = Some a"
      and "answered tool input (granted_context tool ctx d) d (bw_rules world) a = RunTool i c e"
      using assms req None by (auto simp: prompt_def Let_def split: option.splits)
    moreover from answered_runs [OF this(2)] obtain option_id updated where
        "a = Selected option_id updated e" and k: "option_kind option_id \<in> {KindAllowOnce, KindAllowAlways}" by blast
    ultimately have "approved_by world option_id" using sent unfolding approved_by_def by blast
    with k show ?thesis by blast
  qed
qed

lemma prompt_asked: "asked s' = asked s" if "prompt b world tool input ctx d s = (a, s')" "request d = None"
  using that by (auto simp: prompt_def)

subsection \<open>The mode of a broker\<close>

definition broker_mode :: "channel_broker \<Rightarrow> permission_mode" where
  "broker_mode b = (case cb_hooks b of Some p \<Rightarrow> current_mode p | None \<Rightarrow> Default)"

definition mode_outcome ::
  "gate_env \<Rightarrow> channel_broker \<Rightarrow> broker_world \<Rightarrow> string \<Rightarrow> json \<Rightarrow> tool_context \<Rightarrow> permission_decision \<Rightarrow>
   broker_state \<Rightarrow> mode_ask_outcome" where
  "mode_outcome env b world tool input ctx d s =
     fst (resolve_ask_under_mode env (bw_gate world) (broker_mode b) (cb_hooks b) tool (effective_input d input) ctx
       (bw_rules world) (gate_of s))"

lemma injected_same [simp]:
  "behavior (inject_add_dir_allow_option fs ctx d) = behavior d"
  "updated_input (inject_add_dir_allow_option fs ctx d) = updated_input d"
  "reason (inject_add_dir_allow_option fs ctx d) = reason d"
  "effective_input (inject_add_dir_allow_option fs ctx d) input = effective_input d input"
  by (simp_all add: inject_add_dir_allow_option_def effective_input_def)

lemma channel_mode_run:
  assumes "\<not> file_tool_touches_protected_path (ge_resolve env) tool input ctx (cb_protected b)" "behavior d = Ask"
    and "mode_outcome env b world tool input ctx d s = ModeRun source"
  shows "fst (channel_resolve env b world tool input ctx d s) =
      RunTool (effective_input d input) (granted_context tool ctx (inject_add_dir_allow_option (ge_resolve env) ctx d)) None"
    and "asked (snd (channel_resolve env b world tool input ctx d s)) = asked s"
  using assms
  by (auto simp: channel_resolve_def Let_def mode_outcome_def broker_mode_def emit_auto_mode_allowed_def
      split: prod.split option.split)

lemma channel_mode_deny:
  assumes "\<not> file_tool_touches_protected_path (ge_resolve env) tool input ctx (cb_protected b)" "behavior d = Ask"
    and "mode_outcome env b world tool input ctx d s = ModeDeny why"
  shows "fst (channel_resolve env b world tool input ctx d s) = refuse tool why"
    and "asked (snd (channel_resolve env b world tool input ctx d s)) = asked s"
  using assms
  by (auto simp: channel_resolve_def Let_def mode_outcome_def broker_mode_def split: prod.split)

lemma channel_prompt:
  assumes "\<not> file_tool_touches_protected_path (ge_resolve env) tool input ctx (cb_protected b)" "behavior d = Ask"
    and "mode_outcome env b world tool input ctx d s = ModeAsk"
  shows "\<exists>s1. channel_resolve env b world tool input ctx d s =
    prompt b world tool input ctx (inject_add_dir_allow_option (ge_resolve env) ctx d) s1"
  using assms
  by (auto simp: channel_resolve_def Let_def mode_outcome_def broker_mode_def split: prod.split)

lemma dont_ask_outcome:
  assumes "tool \<noteq> ''AskUserQuestion''" "broker_mode b = DontAsk"
  shows "\<exists>why. mode_outcome env b world tool input ctx d s = ModeDeny why"
  using assms
  by (cases "requires_workflow_review tool"; cases "deny_reason_when_never_prompting (bw_rules world) tool")
    (simp_all add: mode_outcome_def resolve_ask_under_mode_def requires_permission_broker_response_def)

lemma bypass_outcome:
  assumes "tool \<noteq> ''AskUserQuestion''" "broker_mode b = BypassPermissions"
    "\<forall>r \<in> set (bw_rules world). rule_decision r tool ctx \<noteq> Some EvenUnderBypass"
  shows "mode_outcome env b world tool input ctx d s = ModeRun None"
proof -
  have "requires_user_decision (bw_rules world) tool ctx \<noteq> Some EvenUnderBypass"
    using assms(3) requires_user_decision_EvenUnderBypass by metis
  with assms(1,2) show ?thesis
    by (simp add: mode_outcome_def resolve_ask_under_mode_def requires_permission_broker_response_def)
qed

subsection \<open>Properties\<close>

text \<open>A tool runs through the broker only with an approval: its own decision, or a rule, allows it; or
  it asks and the mode runs it; or it asks, the mode asks too, and a listener or the person chose an
  option that allows. A denied call never runs, nor one whose input names a protected file.\<close>

lemma channel_runs:
  assumes "channel_resolve env b world tool input ctx d s = (RunTool i c e, s')"
  shows "\<not> file_tool_touches_protected_path (ge_resolve env) tool input ctx (cb_protected b) \<and>
    (behavior d = Allow \<or>
     behavior d = Ask \<and>
     (case mode_outcome env b world tool input ctx d s of
        ModeRun _ \<Rightarrow> i = effective_input d input
      | ModeDeny _ \<Rightarrow> False
      | ModeAsk \<Rightarrow> \<exists>option_id. approved_by world option_id \<and> option_kind option_id \<in> {KindAllowOnce, KindAllowAlways}))"
proof -
  have p: "\<not> file_tool_touches_protected_path (ge_resolve env) tool input ctx (cb_protected b)"
    using assms by (auto simp: channel_resolve_def split: if_splits)
  show ?thesis
  proof (cases "behavior d")
    case Ask
    show ?thesis
    proof (cases "mode_outcome env b world tool input ctx d s")
      case (ModeRun source)
      with channel_mode_run(1) [OF p Ask ModeRun] assms p Ask show ?thesis by simp
    next
      case (ModeDeny why)
      with channel_mode_deny(1) [OF p Ask ModeDeny] assms show ?thesis by simp
    next
      case ModeAsk
      from channel_prompt [OF p Ask ModeAsk] assms obtain s1 where
        "prompt b world tool input ctx (inject_add_dir_allow_option (ge_resolve env) ctx d) s1 = (RunTool i c e, s')"
        by metis
      from prompt_runs [OF this] p Ask ModeAsk show ?thesis by simp
    qed
  next
    case Deny
    with assms p show ?thesis by (simp add: channel_resolve_def denied_because_def Let_def)
  qed (use p in simp)
qed

text \<open>The modes that never prompt never do: under bypass and \<open>dontAsk\<close> no query goes out for a call
  other than a question to the person (under bypass, unless a rule of the seat claims the call even
  there); a call that asks runs under bypass, on the input it was decided on, and is refused under
  \<open>dontAsk\<close>.\<close>

theorem unattended_modes_never_prompt:
  assumes "tool \<noteq> ''AskUserQuestion''"
    and "broker_mode b = DontAsk \<or>
      broker_mode b = BypassPermissions \<and> (\<forall>r \<in> set (bw_rules world). rule_decision r tool ctx \<noteq> Some EvenUnderBypass)"
  shows "asked (snd (channel_resolve env b world tool input ctx d s)) = asked s \<and>
    (behavior d = Ask \<and> \<not> file_tool_touches_protected_path (ge_resolve env) tool input ctx (cb_protected b) \<longrightarrow>
     (case fst (channel_resolve env b world tool input ctx d s) of
        RunTool i _ _ \<Rightarrow> broker_mode b = BypassPermissions \<and> i = effective_input d input
      | Finish r \<Rightarrow> broker_mode b = DontAsk \<and> (\<exists>why. r = Inl (PermissionDenied tool why))
      | ToolPanic \<Rightarrow> False))"
proof (cases "behavior d = Ask \<and> \<not> file_tool_touches_protected_path (ge_resolve env) tool input ctx (cb_protected b)")
  case False
  then have "asked (snd (channel_resolve env b world tool input ctx d s)) = asked s"
    by (cases "behavior d") (auto simp: channel_resolve_def Let_def)
  with False show ?thesis by blast
next
  case True
  then have p: "\<not> file_tool_touches_protected_path (ge_resolve env) tool input ctx (cb_protected b)"
    and ask: "behavior d = Ask" by auto
  have "(broker_mode b = BypassPermissions \<and> mode_outcome env b world tool input ctx d s = ModeRun None) \<or>
      (broker_mode b = DontAsk \<and> (\<exists>why. mode_outcome env b world tool input ctx d s = ModeDeny why))"
    using assms(2)
  proof
    assume "broker_mode b = DontAsk"
    with dont_ask_outcome [OF assms(1) this] show ?thesis by blast
  next
    assume "broker_mode b = BypassPermissions \<and> (\<forall>r \<in> set (bw_rules world). rule_decision r tool ctx \<noteq> Some EvenUnderBypass)"
    with bypass_outcome [OF assms(1)] show ?thesis by blast
  qed
  then show ?thesis
  proof
    assume m: "broker_mode b = BypassPermissions \<and> mode_outcome env b world tool input ctx d s = ModeRun None"
    with channel_mode_run [OF p ask conjunct2 [OF m]] show ?thesis by simp
  next
    assume "broker_mode b = DontAsk \<and> (\<exists>why. mode_outcome env b world tool input ctx d s = ModeDeny why)"
    then obtain why where m: "broker_mode b = DontAsk" "mode_outcome env b world tool input ctx d s = ModeDeny why" by blast
    with channel_mode_deny [OF p ask m(2)] show ?thesis by simp
  qed
qed

subsection \<open>Witnesses\<close>

definition asking :: permission_decision where
  "asking = decision_ask (with_options [''allow_once'', ''reject_once''] (new_request ''Run?'' ''It asks.'')) (Some sample_command)"

definition no_protection :: protected_paths where
  "no_protection = \<lparr>protected_dirs = [], record_roots = [], record_suffixes = []\<rparr>"

definition terminal :: "permission_mode \<Rightarrow> channel_broker" where
  "terminal mode =
     \<lparr>cb_session = ''s1'', cb_hooks = Some \<lparr>current_mode = mode, plan_entered_from = None\<rparr>,
      cb_protected = no_protection, cb_event_channel = True\<rparr>"

definition choosing :: "string \<Rightarrow> broker_world" where
  "choosing option_id =
     \<lparr>bw_gate = blocking, bw_rules = [], bw_listeners = None, bw_query_sent = True,
      bw_answer = (\<lambda>_. Some (Selected option_id None None))\<rparr>"

definition fresh_broker :: broker_state where
  "fresh_broker = \<lparr>gate_of = fresh_state, next_query_id = 1, asked = [], allow_notes = []\<rparr>"

theorem unattended_modes_never_prompt_witness:
  "asked (snd (channel_resolve gate_sample_env (terminal DontAsk) (choosing ''allow_once'') ''Bash'' sample_command
     new_context asking fresh_broker)) = []"
proof -
  have "broker_mode (terminal DontAsk) = DontAsk" by (simp add: broker_mode_def terminal_def)
  with unattended_modes_never_prompt [of "''Bash''" "terminal DontAsk" "choosing ''allow_once''" new_context
      gate_sample_env sample_command asking fresh_broker]
  show ?thesis by (simp add: fresh_broker_def)
qed

subsection \<open>Findings\<close>

definition record_guard :: channel_broker where
  "record_guard = (terminal BypassPermissions)
     \<lparr>cb_protected := \<lparr>protected_dirs = [path_of ''/p''], record_roots = [], record_suffixes = []\<rparr>\<rparr>"

definition reads_file :: "string \<Rightarrow> json" where
  "reads_file path = JObject [(''file_path'', JString path)]"

text \<open>The guard of the protected files reads the input of the call, while the input that runs is the
  rewritten one of the decision.\<close>

theorem guard_reads_the_old_input:
  "(let decision = (decision_allow (reads_file ''/p/key''));
        run = (\<lambda>input. fst (channel_resolve gate_sample_env record_guard (choosing ''allow_once'') ''Read'' input new_context
          decision fresh_broker))
    in run (reads_file ''/w/a'') = RunTool (reads_file ''/p/key'') new_context None \<and>
       run (reads_file ''/p/key'') = refuse ''Read'' PROTECTED_ROOT_DENY_REASON)"
  by code_simp

text \<open>A file system in which \<open>/w/link\<close> leads to \<open>/p/sub\<close>.\<close>

definition linked_files :: "string \<Rightarrow> fs_path option" where
  "linked_files s =
     (if s = ''/w/link/../key'' then Some (path_of ''/p/key'')
      else if s = ''/w/link'' then Some (path_of ''/p/sub'')
      else if s = ''/w'' \<or> s = ''/p'' \<or> s = ''/p/key'' then Some (path_of s)
      else None)"

text \<open>The guard removes \<open>..\<close> before it follows links: the path the system opens is protected, the path
  the guard compares is not.\<close>

theorem guard_folds_parents_before_links:
  "is_some_and (covers_file (cb_protected record_guard)) (linked_files ''/w/link/../key'') \<and>
   \<not> file_tool_touches_protected_path linked_files ''Read'' (reads_file ''/w/link/../key'') new_context (cb_protected record_guard)"
  by code_simp

text \<open>For a file in an added directory the option to allow is put first among the options of a request;
  where the request named none, that takes the default pair's rejection away.\<close>

theorem added_directory_loses_the_rejection:
  "(let d = decision_ask (new_request ''Edit?'' ''It asks.'') (Some (reads_file ''/w/a''));
        offered = (\<lambda>dirs. case request (inject_add_dir_allow_option (\<lambda>s. Some (path_of s)) (new_context\<lparr>ctx_directories := dirs\<rparr>) d) of
          Some r \<Rightarrow> map opt_id (build_options r []) | None \<Rightarrow> [])
    in offered [] = [''allow_once'', ''reject_once''] \<and> offered [''/w''] = [''allow_once''])"
  by code_simp

end
