(* ===== verification/Hook_Protocol.thy ===== *)
theory Hook_Protocol
  imports Json_Value Ordered_Map "HOL-Library.List_Lexorder" "HOL-Library.Char_ord" "HOL-Library.Word"
begin

text \<open>
  What a hook answers and what becomes of it, \<open>crates/rebon-hooks\<close>: the events (\<open>event.rs\<close>), the
  output of a hook (\<open>output_protocol.rs\<close>), its result and the union of the results of one firing
  (\<open>runtime_result.rs\<close>), and the effects a host applies (\<open>effects.rs\<close>).

  The reading of JSON text and the decoding of its value into the output types are derived by the
  library: parameters, in \<open>hook_serde\<close>.
\<close>

subsection \<open>Events\<close>

datatype hook_event =
    EvPreToolUse | EvPostToolUse | EvPostToolUseFailure | EvNotification | EvUserPromptSubmit |
    EvSessionStart | EvSessionEnd | EvStop | EvStopFailure | EvSubagentStart | EvSubagentStop |
    EvPreCompact | EvPostCompact | EvPermissionRequest | EvPermissionDenied | EvSetup |
    EvTeammateIdle | EvTaskCreated | EvTaskCompleted | EvElicitation | EvElicitationResult |
    EvConfigChange | EvWorktreeCreate | EvWorktreeRemove | EvInstructionsLoaded | EvCwdChanged |
    EvFileChanged | EvOnboarding

definition HOOK_EVENTS :: "hook_event list" where
  "HOOK_EVENTS =
     [EvPreToolUse, EvPostToolUse, EvPostToolUseFailure, EvNotification, EvUserPromptSubmit,
      EvSessionStart, EvSessionEnd, EvStop, EvStopFailure, EvSubagentStart, EvSubagentStop,
      EvPreCompact, EvPostCompact, EvPermissionRequest, EvPermissionDenied, EvSetup, EvTeammateIdle,
      EvTaskCreated, EvTaskCompleted, EvElicitation, EvElicitationResult, EvConfigChange,
      EvWorktreeCreate, EvWorktreeRemove, EvInstructionsLoaded, EvCwdChanged, EvFileChanged,
      EvOnboarding]"

definition event_name :: "hook_event \<Rightarrow> string" where
  "event_name e =
     (case e of
        EvPreToolUse \<Rightarrow> ''PreToolUse''
      | EvPostToolUse \<Rightarrow> ''PostToolUse''
      | EvPostToolUseFailure \<Rightarrow> ''PostToolUseFailure''
      | EvNotification \<Rightarrow> ''Notification''
      | EvUserPromptSubmit \<Rightarrow> ''UserPromptSubmit''
      | EvSessionStart \<Rightarrow> ''SessionStart''
      | EvSessionEnd \<Rightarrow> ''SessionEnd''
      | EvStop \<Rightarrow> ''Stop''
      | EvStopFailure \<Rightarrow> ''StopFailure''
      | EvSubagentStart \<Rightarrow> ''SubagentStart''
      | EvSubagentStop \<Rightarrow> ''SubagentStop''
      | EvPreCompact \<Rightarrow> ''PreCompact''
      | EvPostCompact \<Rightarrow> ''PostCompact''
      | EvPermissionRequest \<Rightarrow> ''PermissionRequest''
      | EvPermissionDenied \<Rightarrow> ''PermissionDenied''
      | EvSetup \<Rightarrow> ''Setup''
      | EvTeammateIdle \<Rightarrow> ''TeammateIdle''
      | EvTaskCreated \<Rightarrow> ''TaskCreated''
      | EvTaskCompleted \<Rightarrow> ''TaskCompleted''
      | EvElicitation \<Rightarrow> ''Elicitation''
      | EvElicitationResult \<Rightarrow> ''ElicitationResult''
      | EvConfigChange \<Rightarrow> ''ConfigChange''
      | EvWorktreeCreate \<Rightarrow> ''WorktreeCreate''
      | EvWorktreeRemove \<Rightarrow> ''WorktreeRemove''
      | EvInstructionsLoaded \<Rightarrow> ''InstructionsLoaded''
      | EvCwdChanged \<Rightarrow> ''CwdChanged''
      | EvFileChanged \<Rightarrow> ''FileChanged''
      | EvOnboarding \<Rightarrow> ''Onboarding'')"

definition parse_hook_event :: "string \<Rightarrow> hook_event option" where
  "parse_hook_event s = List.find (\<lambda>e. event_name e = s) HOOK_EVENTS"

subsection \<open>The output of a hook\<close>

type_synonym json_object = "(string \<times> json) list"

datatype hook_permission_behavior = HookAsk | HookDeny | HookAllow | HookPassthrough | HookDefer

datatype hook_decision = Approve | Block

datatype elicitation_action = Accept | Decline | Cancel

datatype permission_request_result =
    RequestAllow "json_object option" "json list option"
  | RequestDeny "string option" "bool option"

datatype hook_specific_output =
    ForPreToolUse "hook_permission_behavior option" "string option" "json_object option" "string option"
  | ForUserPromptSubmit "string option" "string option" "string option"
  | ForSessionStart "string option" "string option" "string list option"
  | ForSessionEnd "bool option" "string option" "string option"
  | ForSetup "string option"
  | ForSubagentStart "string option"
  | ForPostToolUse "string option" "json option"
  | ForPostToolUseFailure "string option"
  | ForPermissionDenied "bool option"
  | ForNotification "string option"
  | ForPermissionRequest permission_request_result
  | ForElicitation "elicitation_action option" "json_object option"
  | ForElicitationResult "elicitation_action option" "json_object option"
  | ForCwdChanged "string list option"
  | ForFileChanged "string list option"
  | ForWorktreeCreate string

definition output_event :: "hook_specific_output \<Rightarrow> hook_event" where
  "output_event specific =
     (case specific of
        ForPreToolUse _ _ _ _ \<Rightarrow> EvPreToolUse
      | ForUserPromptSubmit _ _ _ \<Rightarrow> EvUserPromptSubmit
      | ForSessionStart _ _ _ \<Rightarrow> EvSessionStart
      | ForSessionEnd _ _ _ \<Rightarrow> EvSessionEnd
      | ForSetup _ \<Rightarrow> EvSetup
      | ForSubagentStart _ \<Rightarrow> EvSubagentStart
      | ForPostToolUse _ _ \<Rightarrow> EvPostToolUse
      | ForPostToolUseFailure _ \<Rightarrow> EvPostToolUseFailure
      | ForPermissionDenied _ \<Rightarrow> EvPermissionDenied
      | ForNotification _ \<Rightarrow> EvNotification
      | ForPermissionRequest _ \<Rightarrow> EvPermissionRequest
      | ForElicitation _ _ \<Rightarrow> EvElicitation
      | ForElicitationResult _ _ \<Rightarrow> EvElicitationResult
      | ForCwdChanged _ \<Rightarrow> EvCwdChanged
      | ForFileChanged _ \<Rightarrow> EvFileChanged
      | ForWorktreeCreate _ \<Rightarrow> EvWorktreeCreate)"

record sync_output =
  so_continue :: "bool option"
  so_suppress_output :: "bool option"
  so_stop_reason :: "string option"
  so_decision :: "hook_decision option"
  so_reason :: "string option"
  so_system_message :: "string option"
  so_specific :: "hook_specific_output option"

definition silent_output :: sync_output where
  "silent_output =
     \<lparr>so_continue = None, so_suppress_output = None, so_stop_reason = None, so_decision = None,
      so_reason = None, so_system_message = None, so_specific = None\<rparr>"

datatype hook_json_output = AsyncOutput bool | SyncOutput sync_output

text \<open>\<open>serde_json::from_str\<close>, \<open>from_value\<close>, and the pretty texts the messages hold.\<close>

record hook_serde =
  hs_from_str :: "string \<Rightarrow> string + json"
  hs_decode :: "json \<Rightarrow> string + hook_json_output"
  hs_pretty :: "json \<Rightarrow> string"
  hs_pretty_output :: "sync_output \<Rightarrow> string"
  hs_ellipsis :: string

record parsed_output =
  po_json :: "hook_json_output option"
  po_plain_text :: "string option"
  po_validation_error :: "string option"

definition validate_hook_json :: "hook_serde \<Rightarrow> string \<Rightarrow> string + hook_json_output" where
  "validate_hook_json serde s =
     (case hs_from_str serde s of
        Inl e \<Rightarrow> Inl (''Hook JSON output validation failed:'' @ [ch_lf] @ ''  - invalid JSON: '' @ e)
      | Inr parsed \<Rightarrow>
          (case hs_decode serde parsed of
             Inr j \<Rightarrow> Inr j
           | Inl e \<Rightarrow>
               Inl (''Hook JSON output validation failed:'' @ [ch_lf] @ ''  - '' @ e @ [ch_lf, ch_lf] @
                 ''The hook'' @ [ch_squote] @ ''s output was: '' @ hs_pretty serde parsed)))"

definition EXPECTED_SCHEMA :: string where
  "EXPECTED_SCHEMA =
     [ch_lf, ch_lf] @ ''Expected schema:'' @ [ch_lf] @
     [ch_lbrace, ch_dquote] @ ''async'' @ [ch_dquote] @ '':true'' @ [ch_rbrace] @ '' | '' @
     [ch_lbrace, ch_dquote] @ ''continue'' @ [ch_dquote] @ '':false,'' @ [ch_dquote] @ ''hookSpecificOutput'' @
     [ch_dquote] @ '':'' @ [ch_lbrace] @ ''...'' @ [ch_rbrace, ch_rbrace]"

definition parse_hook_output :: "hook_serde \<Rightarrow> string \<Rightarrow> parsed_output" where
  "parse_hook_output serde stdout =
     (if \<not> prefix [ch_lbrace] (trim stdout) then
        \<lparr>po_json = None, po_plain_text = Some stdout, po_validation_error = None\<rparr>
      else case validate_hook_json serde (trim stdout) of
        Inr j \<Rightarrow> \<lparr>po_json = Some j, po_plain_text = None, po_validation_error = None\<rparr>
      | Inl e \<Rightarrow>
          \<lparr>po_json = None, po_plain_text = Some stdout, po_validation_error = Some (e @ EXPECTED_SCHEMA)\<rparr>)"

definition parse_http_hook_output :: "hook_serde \<Rightarrow> string \<Rightarrow> parsed_output" where
  "parse_http_hook_output serde body =
     (if trim body = [] then
        \<lparr>po_json = Some (SyncOutput silent_output), po_plain_text = None, po_validation_error = None\<rparr>
      else if \<not> prefix [ch_lbrace] (trim body) then
        \<lparr>po_json = None, po_plain_text = None,
         po_validation_error = Some (''HTTP hook must return JSON, but got non-JSON response body: '' @
           (if length (trim body) > 200 then take 200 (trim body) @ hs_ellipsis serde else trim body))\<rparr>
      else case validate_hook_json serde (trim body) of
        Inr j \<Rightarrow> \<lparr>po_json = Some j, po_plain_text = None, po_validation_error = None\<rparr>
      | Inl e \<Rightarrow> \<lparr>po_json = None, po_plain_text = None, po_validation_error = Some e\<rparr>)"

subsection \<open>The result of a hook\<close>

record hook_blocking_error =
  be_error :: string
  be_command :: string

record elicitation_response =
  er_action :: elicitation_action
  er_content :: "json_object option"

datatype hook_outcome = OutcomeSuccess | OutcomeBlocking | OutcomeNonBlockingError | OutcomeCancelled

record hook_result =
  hr_outcome :: hook_outcome
  hr_system_message :: "string option"
  hr_worktree_path :: "string option"
  hr_blocking_error :: "hook_blocking_error option"
  hr_prevent_continuation :: "bool option"
  hr_stop_reason :: "string option"
  hr_permission_behavior :: "hook_permission_behavior option"
  hr_permission_decision_reason :: "string option"
  hr_additional_context :: "string option"
  hr_session_title :: "string option"
  hr_replacement_prompt :: "string option"
  hr_initial_user_message :: "string option"
  hr_goal_completed :: "bool option"
  hr_goal_continuation_prompt :: "string option"
  hr_goal_reason :: "string option"
  hr_updated_input :: "json_object option"
  hr_updated_output :: "json option"
  hr_permission_request_result :: "permission_request_result option"
  hr_retry :: "bool option"
  hr_watch_paths :: "string list option"
  hr_elicitation :: "elicitation_response option"
  hr_elicitation_result :: "elicitation_response option"

definition plain_result :: hook_result where
  "plain_result =
     \<lparr>hr_outcome = OutcomeSuccess, hr_system_message = None, hr_worktree_path = None,
        hr_blocking_error = None, hr_prevent_continuation = None, hr_stop_reason = None,
        hr_permission_behavior = None, hr_permission_decision_reason = None,
        hr_additional_context = None, hr_session_title = None, hr_replacement_prompt = None,
        hr_initial_user_message = None, hr_goal_completed = None, hr_goal_continuation_prompt = None,
        hr_goal_reason = None, hr_updated_input = None, hr_updated_output = None,
        hr_permission_request_result = None, hr_retry = None, hr_watch_paths = None,
        hr_elicitation = None, hr_elicitation_result = None\<rparr>"

record aggregated_result =
  ag_blocking_errors :: "hook_blocking_error list"
  ag_prevent_continuation :: "bool option"
  ag_stop_reason :: "string option"
  ag_permission_decision_reason :: "string option"
  ag_permission_behavior :: "hook_permission_behavior option"
  ag_additional_contexts :: "string list"
  ag_session_title :: "string option"
  ag_replacement_prompt :: "string option"
  ag_initial_user_message :: "string option"
  ag_goal_completed :: "bool option"
  ag_goal_continuation_prompt :: "string option"
  ag_goal_reason :: "string option"
  ag_updated_input :: "json_object option"
  ag_updated_output :: "json option"
  ag_system_message :: "string option"
  ag_worktree_path :: "string option"
  ag_permission_request_result :: "permission_request_result option"
  ag_retry :: "bool option"
  ag_watch_paths :: "string list"
  ag_elicitation :: "elicitation_response option"
  ag_elicitation_result :: "elicitation_response option"

definition nothing_said :: aggregated_result where
  "nothing_said =
     \<lparr>ag_blocking_errors = [], ag_prevent_continuation = None, ag_stop_reason = None,
        ag_permission_decision_reason = None, ag_permission_behavior = None,
        ag_additional_contexts = [], ag_session_title = None, ag_replacement_prompt = None,
        ag_initial_user_message = None, ag_goal_completed = None, ag_goal_continuation_prompt = None,
        ag_goal_reason = None, ag_updated_input = None, ag_updated_output = None,
        ag_system_message = None, ag_worktree_path = None, ag_permission_request_result = None,
        ag_retry = None, ag_watch_paths = [], ag_elicitation = None, ag_elicitation_result = None\<rparr>"

definition classify_exit_code :: "int \<Rightarrow> hook_outcome" where
  "classify_exit_code exit_code =
     (if exit_code = 0 then OutcomeSuccess else if exit_code = 2 then OutcomeBlocking else OutcomeNonBlockingError)"

definition classify_plain_command_result :: "int \<Rightarrow> string \<Rightarrow> string \<Rightarrow> hook_result" where
  "classify_plain_command_result exit_code command stderr =
     (if classify_exit_code exit_code = OutcomeBlocking then
        plain_result\<lparr>hr_outcome := OutcomeBlocking,
          hr_blocking_error := Some \<lparr>be_error =
            ''['' @ command @ '']: '' @ (if stderr = [] then ''No stderr output'' else stderr), be_command = command\<rparr>\<rparr>
      else plain_result\<lparr>hr_outcome := classify_exit_code exit_code\<rparr>)"

subsection \<open>From the output to the result\<close>

definition reason_or :: "string option \<Rightarrow> string \<Rightarrow> string" where
  "reason_or r fallback = (case r of Some x \<Rightarrow> x | None \<Rightarrow> fallback)"

text \<open>What the common fields of the output say.\<close>

definition common_result :: "sync_output \<Rightarrow> string \<Rightarrow> hook_result" where
  "common_result json command =
     (let r = (if so_continue json = Some False
               then plain_result\<lparr>hr_prevent_continuation := Some True, hr_stop_reason := so_stop_reason json\<rparr>
               else plain_result);
          r = (case so_decision json of
                 Some Approve \<Rightarrow> r\<lparr>hr_permission_behavior := Some HookAllow\<rparr>
               | Some Block \<Rightarrow>
                   r\<lparr>hr_permission_behavior := Some HookDeny,
                     hr_blocking_error := Some \<lparr>be_error = reason_or (so_reason json) ''Blocked by hook'',
                       be_command = command\<rparr>\<rparr>
               | None \<Rightarrow> r);
          r = (if hr_permission_behavior r \<noteq> None then r\<lparr>hr_permission_decision_reason := so_reason json\<rparr> else r)
      in r\<lparr>hr_system_message := so_system_message json\<rparr>)"

definition elicitation_answer ::
  "elicitation_action option \<Rightarrow> json_object option \<Rightarrow> elicitation_response option" where
  "elicitation_answer action content =
     map_option (\<lambda>a. \<lparr>er_action = a, er_content = content\<rparr>) action"

text \<open>What the fields of the event add.\<close>

definition specific_result :: "sync_output \<Rightarrow> string \<Rightarrow> hook_specific_output \<Rightarrow> hook_result \<Rightarrow> hook_result" where
  "specific_result json command specific r =
     (case specific of
        ForPreToolUse decision why input context \<Rightarrow>
          (let r = (case decision of
                      Some d \<Rightarrow>
                        (let r = r\<lparr>hr_permission_behavior := Some d\<rparr>
                         in if d = HookDeny then
                              r\<lparr>hr_blocking_error := Some \<lparr>be_error =
                                  (case why of Some x \<Rightarrow> x | None \<Rightarrow> reason_or (so_reason json) ''Blocked by hook''),
                                  be_command = command\<rparr>\<rparr>
                            else r)
                    | None \<Rightarrow> r)
           in r\<lparr>hr_permission_decision_reason := why, hr_updated_input := input, hr_additional_context := context\<rparr>)
      | ForUserPromptSubmit context t replacement \<Rightarrow>
          r\<lparr>hr_additional_context := context, hr_session_title := t, hr_replacement_prompt := replacement\<rparr>
      | ForSetup context \<Rightarrow> r\<lparr>hr_additional_context := context\<rparr>
      | ForSubagentStart context \<Rightarrow> r\<lparr>hr_additional_context := context\<rparr>
      | ForPostToolUseFailure context \<Rightarrow> r\<lparr>hr_additional_context := context\<rparr>
      | ForNotification context \<Rightarrow> r\<lparr>hr_additional_context := context\<rparr>
      | ForSessionStart context m paths \<Rightarrow>
          r\<lparr>hr_additional_context := context, hr_initial_user_message := m, hr_watch_paths := paths\<rparr>
      | ForSessionEnd completed continuation why \<Rightarrow>
          r\<lparr>hr_goal_completed := completed, hr_goal_continuation_prompt := continuation, hr_goal_reason := why\<rparr>
      | ForPostToolUse context out \<Rightarrow> r\<lparr>hr_additional_context := context, hr_updated_output := out\<rparr>
      | ForPermissionDenied again \<Rightarrow> r\<lparr>hr_retry := again\<rparr>
      | ForPermissionRequest decision \<Rightarrow>
          (let r = r\<lparr>hr_permission_request_result := Some decision\<rparr>
           in case decision of
                RequestAllow input _ \<Rightarrow> r\<lparr>hr_permission_behavior := Some HookAllow, hr_updated_input := input\<rparr>
              | RequestDeny _ _ \<Rightarrow> r\<lparr>hr_permission_behavior := Some HookDeny\<rparr>)
      | ForElicitation action content \<Rightarrow>
          (if action = None then r
           else let r = r\<lparr>hr_elicitation := elicitation_answer action content\<rparr>
                in if action = Some Decline then
                     r\<lparr>hr_blocking_error := Some \<lparr>be_error = reason_or (so_reason json) ''Elicitation denied by hook'',
                         be_command = command\<rparr>\<rparr>
                   else r)
      | ForElicitationResult action content \<Rightarrow>
          (if action = None then r
           else let r = r\<lparr>hr_elicitation_result := elicitation_answer action content\<rparr>
                in if action = Some Decline then
                     r\<lparr>hr_blocking_error := Some \<lparr>be_error = reason_or (so_reason json) ''Elicitation result blocked by hook'',
                         be_command = command\<rparr>\<rparr>
                   else r)
      | ForCwdChanged paths \<Rightarrow> r\<lparr>hr_watch_paths := paths\<rparr>
      | ForFileChanged paths \<Rightarrow> r\<lparr>hr_watch_paths := paths\<rparr>
      | ForWorktreeCreate path \<Rightarrow> r\<lparr>hr_worktree_path := Some path\<rparr>)"

definition event_mismatch :: "hook_serde \<Rightarrow> hook_event \<Rightarrow> hook_event \<Rightarrow> sync_output \<Rightarrow> string" where
  "event_mismatch serde expected got json =
     ''Hook returned incorrect event name: expected '' @ [ch_squote] @ event_name expected @ [ch_squote] @
     '' but got '' @ [ch_squote] @ event_name got @ [ch_squote] @ ''. Full stdout: '' @ hs_pretty_output serde json"

definition process_hook_json_output ::
  "hook_serde \<Rightarrow> sync_output \<Rightarrow> string \<Rightarrow> hook_event option \<Rightarrow> string + hook_result" where
  "process_hook_json_output serde json command expected =
     (let r = common_result json command
      in case so_specific json of
           None \<Rightarrow> Inr r
         | Some specific \<Rightarrow>
             (case expected of
                Some e \<Rightarrow>
                  if output_event specific \<noteq> e then Inl (event_mismatch serde e (output_event specific) json)
                  else Inr (specific_result json command specific r)
              | None \<Rightarrow> Inr (specific_result json command specific r)))"

subsection \<open>The union of the results\<close>

text \<open>The strength of an answer, strongest first.\<close>

definition replaces :: "hook_permission_behavior option \<Rightarrow> hook_permission_behavior \<Rightarrow> bool" where
  "replaces held new =
     (if new = HookDeny then True else if held = Some HookDeny then False
      else if new = HookAsk then True else if held = Some HookAsk then False
      else if new = HookAllow then True else if held = Some HookAllow then False
      else if new = HookPassthrough then True else if held = Some HookPassthrough then False
      else held = None)"

definition first_of :: "'a option \<Rightarrow> 'a option \<Rightarrow> 'a option" where
  "first_of a b = (if a = None then b else a)"

definition last_of :: "'a option \<Rightarrow> 'a option \<Rightarrow> 'a option" where
  "last_of a b = (if b = None then a else b)"

definition merge_decision :: "hook_result \<Rightarrow> aggregated_result \<Rightarrow> aggregated_result" where
  "merge_decision r a =
     (case hr_permission_behavior r of
        Some b \<Rightarrow>
          if replaces (ag_permission_behavior a) b then
            a\<lparr>ag_permission_behavior := Some b,
              ag_permission_decision_reason := hr_permission_decision_reason r,
              ag_updated_input := (if b = HookAllow \<or> b = HookAsk then hr_updated_input r else None)\<rparr>
          else a
      | None \<Rightarrow> if hr_updated_input r \<noteq> None then a\<lparr>ag_updated_input := hr_updated_input r\<rparr> else a)"

definition merge_result :: "hook_result \<Rightarrow> aggregated_result \<Rightarrow> aggregated_result" where
  "merge_result r a =
     merge_decision r (a\<lparr>
       ag_blocking_errors := ag_blocking_errors a @ (case hr_blocking_error r of Some e \<Rightarrow> [e] | None \<Rightarrow> []),
       ag_prevent_continuation := (if hr_prevent_continuation r = Some True then Some True else ag_prevent_continuation a),
       ag_stop_reason := first_of (ag_stop_reason a) (hr_stop_reason r),
       ag_additional_contexts := ag_additional_contexts a @ (case hr_additional_context r of Some c \<Rightarrow> [c] | None \<Rightarrow> []),
       ag_session_title := first_of (ag_session_title a) (hr_session_title r),
       ag_replacement_prompt := last_of (ag_replacement_prompt a) (hr_replacement_prompt r),
       ag_initial_user_message := first_of (ag_initial_user_message a) (hr_initial_user_message r),
       ag_goal_completed := first_of (ag_goal_completed a) (hr_goal_completed r),
       ag_goal_continuation_prompt := first_of (ag_goal_continuation_prompt a) (hr_goal_continuation_prompt r),
       ag_goal_reason := first_of (ag_goal_reason a) (hr_goal_reason r),
       ag_watch_paths := ag_watch_paths a @ (case hr_watch_paths r of Some ps \<Rightarrow> ps | None \<Rightarrow> []),
       ag_updated_output := last_of (ag_updated_output a) (hr_updated_output r),
       ag_system_message := first_of (ag_system_message a) (hr_system_message r),
       ag_worktree_path := first_of (ag_worktree_path a) (hr_worktree_path r),
       ag_permission_request_result := last_of (ag_permission_request_result a) (hr_permission_request_result r),
       ag_retry := (if hr_retry r = Some True then Some True else ag_retry a),
       ag_elicitation := last_of (ag_elicitation a) (hr_elicitation r),
       ag_elicitation_result := last_of (ag_elicitation_result a) (hr_elicitation_result r)\<rparr>)"

text \<open>The watched paths end sorted, each once.\<close>

definition aggregate_hook_results :: "hook_result list \<Rightarrow> aggregated_result" where
  "aggregate_hook_results results =
     (let a = fold merge_result results nothing_said
      in a\<lparr>ag_watch_paths := remdups_adj (sort (ag_watch_paths a))\<rparr>)"

subsection \<open>Effects\<close>

datatype hook_effect =
    BlockToolCall string "hook_blocking_error list"
  | AskPermission "string option" "json_object option"
  | AllowToolCall "json_object option"
  | PermissionRequestDecision permission_request_result
  | InjectContext string
  | UpdateToolOutput json
  | UpdateToolInput json_object
  | SetSessionTitle string
  | MarkSessionComplete
  | SeedInitialUserMessage string
  | ContinueGoal string "string option"
  | RetryDeniedTool
  | PreventContinuation "string option"
  | BlockStop string
  | UpdateWatchPaths "string list"
  | WorktreePath string
  | SystemMessage string
  | ReplacePrompt string

definition is_tool_decision_event :: "hook_event \<Rightarrow> bool" where
  "is_tool_decision_event e \<longleftrightarrow> e = EvPreToolUse \<or> e = EvPermissionRequest \<or> e = EvPermissionDenied"

definition first_error :: "aggregated_result \<Rightarrow> string option" where
  "first_error a = (case ag_blocking_errors a of [] \<Rightarrow> None | e # _ \<Rightarrow> Some (be_error e))"

definition decision_effects :: "aggregated_result \<Rightarrow> hook_effect list" where
  "decision_effects a =
     (case ag_permission_behavior a of
        Some HookDeny \<Rightarrow>
          [BlockToolCall
             (case ag_permission_decision_reason a of Some r \<Rightarrow> r | None \<Rightarrow> reason_or (first_error a) ''Blocked by hook'')
             (ag_blocking_errors a)]
      | Some HookAsk \<Rightarrow> [AskPermission (ag_permission_decision_reason a) (ag_updated_input a)]
      | Some HookAllow \<Rightarrow> [AllowToolCall (ag_updated_input a)]
      | _ \<Rightarrow> [])"

definition blocking_effects :: "hook_event \<Rightarrow> aggregated_result \<Rightarrow> hook_effect list" where
  "blocking_effects e a =
     (if \<not> (is_tool_decision_event e \<and> ag_permission_behavior a \<noteq> None) \<and> ag_blocking_errors a \<noteq> [] then
        let why = reason_or (first_error a) ''Blocked by hook''
        in if e = EvStop \<or> e = EvSubagentStop then [BlockStop why]
           else if e \<in> {EvUserPromptSubmit, EvPreToolUse, EvPostToolUse, EvPostToolUseFailure, EvPreCompact, EvConfigChange}
           then [BlockToolCall why (ag_blocking_errors a)]
           else []
      else [])"

definition goal_effects :: "hook_event \<Rightarrow> aggregated_result \<Rightarrow> hook_effect list" where
  "goal_effects e a =
     (if e = EvSessionEnd \<and> ag_goal_completed a = Some False then
        (case ag_goal_continuation_prompt a of
           Some p \<Rightarrow> if trim p \<noteq> [] then [ContinueGoal p (ag_goal_reason a)] else []
         | None \<Rightarrow> [])
      else [])"

definition opt_effect :: "('a \<Rightarrow> hook_effect) \<Rightarrow> 'a option \<Rightarrow> hook_effect list" where
  "opt_effect f x = (case x of Some y \<Rightarrow> [f y] | None \<Rightarrow> [])"

definition project_effects :: "hook_event \<Rightarrow> aggregated_result \<Rightarrow> hook_effect list" where
  "project_effects e a =
     (if ag_prevent_continuation a = Some True then [PreventContinuation (ag_stop_reason a)] else []) @
     (if is_tool_decision_event e then decision_effects a else []) @
     (if e = EvPermissionRequest then opt_effect PermissionRequestDecision (ag_permission_request_result a) else []) @
     blocking_effects e a @
     goal_effects e a @
     (if e = EvPermissionDenied \<and> ag_retry a = Some True then [RetryDeniedTool] else []) @
     map InjectContext (filter (\<lambda>c. c \<noteq> []) (ag_additional_contexts a)) @
     (if e = EvUserPromptSubmit then opt_effect ReplacePrompt (ag_replacement_prompt a) else []) @
     opt_effect SetSessionTitle (ag_session_title a) @
     (if e = EvSessionEnd \<and> ag_goal_completed a = Some True then [MarkSessionComplete] else []) @
     opt_effect SeedInitialUserMessage (ag_initial_user_message a) @
     (if ag_watch_paths a \<noteq> [] then [UpdateWatchPaths (ag_watch_paths a)] else []) @
     (if e = EvWorktreeCreate then opt_effect WorktreePath (ag_worktree_path a) else []) @
     opt_effect UpdateToolOutput (ag_updated_output a) @
     (if ag_permission_behavior a = None then opt_effect UpdateToolInput (ag_updated_input a) else []) @
     (case ag_system_message a of Some m \<Rightarrow> if m \<noteq> [] then [SystemMessage m] else [] | None \<Rightarrow> [])"

end
