(* ===== verification/Hook_Runtime.thy ===== *)
theory Hook_Runtime
  imports Hook_Protocol
begin

text \<open>
  The firing of the hooks of an event, \<open>crates/rebon-hooks\<close>: the configured hooks
  (\<open>hook_command.rs\<close>, \<open>hook_source.rs\<close>, \<open>individual_hook.rs\<close>), the payload of a firing
  (\<open>invocation.rs\<close>), which hooks it selects (\<open>event_metadata.rs\<close>, \<open>grouping.rs\<close>), and the runtime
  (\<open>runtime.rs\<close>).

  What runs a hook is a parameter, and so are the regular expressions of a matcher and the
  evaluation of a predicate. The hooks of one firing run side by side and see nothing of each
  other; their results are read in the order the hooks were selected.
\<close>

subsection \<open>Hooks\<close>

datatype shell_kind = Bash | Powershell | Node

definition DEFAULT_HOOK_SHELL :: shell_kind where "DEFAULT_HOOK_SHELL = Bash"

definition interpreter :: "shell_kind \<Rightarrow> string" where
  "interpreter k = (case k of Bash \<Rightarrow> ''bash'' | Powershell \<Rightarrow> ''powershell'' | Node \<Rightarrow> ''node'')"

record command_hook =
  ch_command :: string
  ch_if :: "string option"
  ch_shell :: "shell_kind option"
  ch_timeout :: "64 word option"
  ch_status_message :: "string option"
  ch_once :: "bool option"
  ch_async :: "bool option"
  ch_async_rewake :: "bool option"

text \<open>\<open>PromptHook\<close> and \<open>AgentHook\<close> have the same fields.\<close>

record prompt_hook =
  ph_prompt :: string
  ph_if :: "string option"
  ph_timeout :: "64 word option"
  ph_model :: "string option"
  ph_status_message :: "string option"
  ph_once :: "bool option"

record http_hook =
  hh_url :: string
  hh_if :: "string option"
  hh_timeout :: "64 word option"
  hh_headers :: "(string \<times> string) list option"
  hh_allowed_env_vars :: "string list option"
  hh_status_message :: "string option"
  hh_once :: "bool option"

datatype hook_command =
    CommandHook command_hook | PromptHook prompt_hook | AgentHook prompt_hook | HttpHook http_hook

definition type_str :: "hook_command \<Rightarrow> string" where
  "type_str h =
     (case h of
        CommandHook _ \<Rightarrow> ''command'' | PromptHook _ \<Rightarrow> ''prompt'' | AgentHook _ \<Rightarrow> ''agent'' | HttpHook _ \<Rightarrow> ''http'')"

definition hook_status_message :: "hook_command \<Rightarrow> string option" where
  "hook_status_message h =
     Option.bind
       (case h of
          CommandHook c \<Rightarrow> ch_status_message c | PromptHook p \<Rightarrow> ph_status_message p
        | AgentHook a \<Rightarrow> ph_status_message a | HttpHook u \<Rightarrow> hh_status_message u)
       (\<lambda>m. if m \<noteq> [] then Some m else None)"

definition display_text :: "hook_command \<Rightarrow> string" where
  "display_text h =
     (case hook_status_message h of
        Some m \<Rightarrow> m
      | None \<Rightarrow>
          (case h of
             CommandHook c \<Rightarrow> ch_command c | PromptHook p \<Rightarrow> ph_prompt p
           | AgentHook a \<Rightarrow> ph_prompt a | HttpHook u \<Rightarrow> hh_url u))"

definition hook_if_predicate :: "hook_command \<Rightarrow> string option" where
  "hook_if_predicate h =
     (case h of
        CommandHook c \<Rightarrow> ch_if c | PromptHook p \<Rightarrow> ph_if p | AgentHook a \<Rightarrow> ph_if a | HttpHook u \<Rightarrow> hh_if u)"

definition same_if :: "string option \<Rightarrow> string option \<Rightarrow> bool" where
  "same_if a b \<longleftrightarrow> (case a of Some s \<Rightarrow> s | None \<Rightarrow> []) = (case b of Some s \<Rightarrow> s | None \<Rightarrow> [])"

definition shell_of :: "command_hook \<Rightarrow> shell_kind" where
  "shell_of c = (case ch_shell c of Some k \<Rightarrow> k | None \<Rightarrow> DEFAULT_HOOK_SHELL)"

definition is_hook_equal :: "hook_command \<Rightarrow> hook_command \<Rightarrow> bool" where
  "is_hook_equal a b =
     (case (a, b) of
        (CommandHook x, CommandHook y) \<Rightarrow>
          ch_command x = ch_command y \<and> shell_of x = shell_of y \<and> same_if (ch_if x) (ch_if y)
      | (PromptHook x, PromptHook y) \<Rightarrow> ph_prompt x = ph_prompt y \<and> same_if (ph_if x) (ph_if y)
      | (AgentHook x, AgentHook y) \<Rightarrow> ph_prompt x = ph_prompt y \<and> same_if (ph_if x) (ph_if y)
      | (HttpHook x, HttpHook y) \<Rightarrow> hh_url x = hh_url y \<and> same_if (hh_if x) (hh_if y)
      | _ \<Rightarrow> False)"

datatype hook_source =
    FromUserSettings | FromProjectSettings | FromLocalSettings | FromPolicySettings | FromPlugin
  | FromSession | FromBuiltin

definition PLUGIN_OR_BUILTIN_PRIORITY :: int where "PLUGIN_OR_BUILTIN_PRIORITY = 999"

definition source_priority :: "hook_source \<Rightarrow> int" where
  "source_priority s =
     (case s of
        FromLocalSettings \<Rightarrow> 0 | FromProjectSettings \<Rightarrow> 1 | FromUserSettings \<Rightarrow> 2
      | _ \<Rightarrow> PLUGIN_OR_BUILTIN_PRIORITY)"

record individual_hook =
  ih_event :: hook_event
  ih_config :: hook_command
  ih_matcher :: "string option"
  ih_source :: hook_source
  ih_plugin_name :: "string option"

definition bare_command :: "string \<Rightarrow> hook_command" where
  "bare_command text =
     CommandHook \<lparr>ch_command = text, ch_if = None, ch_shell = None, ch_timeout = None, ch_status_message = None,
       ch_once = None, ch_async = None, ch_async_rewake = None\<rparr>"

subsection \<open>A firing\<close>

datatype hook_payload =
    OnPreToolUse string json string
  | OnPostToolUse string json json string
  | OnPostToolUseFailure string json string string
  | OnNotification string "string option"
  | OnUserPromptSubmit string
  | OnSessionStart string string
  | OnSessionEnd "string option"
  | OnStop "string option" "string option" bool
  | OnStopFailure string
  | OnSubagentStart string string "string option"
  | OnSubagentStop string string "string option"
  | OnPreCompact string "string option"
  | OnPostCompact string
  | OnPermissionRequest string json_object string "string option"
  | OnPermissionDenied string json_object string "string option"
  | OnSetup
  | OnTeammateIdle string string "string option"
  | OnTaskCreated string "string option"
  | OnTaskCompleted string "string option"
  | OnElicitation string string "json option"
  | OnElicitationResult string string "json_object option"
  | OnConfigChange "string list"
  | OnWorktreeCreate string
  | OnWorktreeRemove string
  | OnInstructionsLoaded "string list"
  | OnCwdChanged string string
  | OnFileChanged string "string option"
  | OnOnboarding string string "string option" "string option" "string option" "string option" "string option" "bool option"

definition payload_event :: "hook_payload \<Rightarrow> hook_event" where
  "payload_event p =
     (case p of
        OnPreToolUse _ _ _ \<Rightarrow> EvPreToolUse
      | OnPostToolUse _ _ _ _ \<Rightarrow> EvPostToolUse
      | OnPostToolUseFailure _ _ _ _ \<Rightarrow> EvPostToolUseFailure
      | OnNotification _ _ \<Rightarrow> EvNotification
      | OnUserPromptSubmit _ \<Rightarrow> EvUserPromptSubmit
      | OnSessionStart _ _ \<Rightarrow> EvSessionStart
      | OnSessionEnd _ \<Rightarrow> EvSessionEnd
      | OnStop _ _ _ \<Rightarrow> EvStop
      | OnStopFailure _ \<Rightarrow> EvStopFailure
      | OnSubagentStart _ _ _ \<Rightarrow> EvSubagentStart
      | OnSubagentStop _ _ _ \<Rightarrow> EvSubagentStop
      | OnPreCompact _ _ \<Rightarrow> EvPreCompact
      | OnPostCompact _ \<Rightarrow> EvPostCompact
      | OnPermissionRequest _ _ _ _ \<Rightarrow> EvPermissionRequest
      | OnPermissionDenied _ _ _ _ \<Rightarrow> EvPermissionDenied
      | OnSetup \<Rightarrow> EvSetup
      | OnTeammateIdle _ _ _ \<Rightarrow> EvTeammateIdle
      | OnTaskCreated _ _ \<Rightarrow> EvTaskCreated
      | OnTaskCompleted _ _ \<Rightarrow> EvTaskCompleted
      | OnElicitation _ _ _ \<Rightarrow> EvElicitation
      | OnElicitationResult _ _ _ \<Rightarrow> EvElicitationResult
      | OnConfigChange _ \<Rightarrow> EvConfigChange
      | OnWorktreeCreate _ \<Rightarrow> EvWorktreeCreate
      | OnWorktreeRemove _ \<Rightarrow> EvWorktreeRemove
      | OnInstructionsLoaded _ \<Rightarrow> EvInstructionsLoaded
      | OnCwdChanged _ _ \<Rightarrow> EvCwdChanged
      | OnFileChanged _ _ \<Rightarrow> EvFileChanged
      | OnOnboarding _ _ _ _ _ _ _ _ \<Rightarrow> EvOnboarding)"

definition matcher_value :: "hook_payload \<Rightarrow> string option" where
  "matcher_value p =
     (case p of
        OnPreToolUse tool _ _ \<Rightarrow> Some tool
      | OnPostToolUse tool _ _ _ \<Rightarrow> Some tool
      | OnPostToolUseFailure tool _ _ _ \<Rightarrow> Some tool
      | OnPermissionRequest tool _ _ _ \<Rightarrow> Some tool
      | OnPermissionDenied tool _ _ _ \<Rightarrow> Some tool
      | OnSessionStart source _ \<Rightarrow> Some source
      | OnSessionEnd why \<Rightarrow> why
      | OnStopFailure err \<Rightarrow> Some err
      | OnSubagentStart _ agent_type _ \<Rightarrow> Some agent_type
      | OnSubagentStop _ agent_type _ \<Rightarrow> Some agent_type
      | OnPreCompact trigger _ \<Rightarrow> Some trigger
      | OnPostCompact trigger \<Rightarrow> Some trigger
      | OnElicitation server _ _ \<Rightarrow> Some server
      | OnElicitationResult server _ _ \<Rightarrow> Some server
      | OnOnboarding phase _ _ _ _ _ _ _ \<Rightarrow> Some phase
      | _ \<Rightarrow> None)"

record invocation_context =
  ic_cwd :: string
  ic_transcript_path :: string
  ic_session_id :: string
  ic_permission_mode :: "hook_permission_behavior option"
  ic_agent_id :: "string option"
  ic_agent_type :: "string option"

record hook_invocation =
  hi_context :: invocation_context
  hi_event :: hook_event
  hi_payload :: hook_payload

definition new_invocation :: "invocation_context \<Rightarrow> hook_payload \<Rightarrow> hook_invocation" where
  "new_invocation ctx p = \<lparr>hi_context = ctx, hi_event = payload_event p, hi_payload = p\<rparr>"

subsection \<open>The metadata of the events\<close>

record metadata_inputs =
  mi_tool_names :: "string list"
  mi_agent_types :: "string list"
  mi_elicitation_servers :: "string list"

record matcher_metadata =
  field_to_match :: string
  matcher_values :: "string list"

definition NOTIFICATION_VALUES :: "string list" where
  "NOTIFICATION_VALUES =
     [''permission_prompt'', ''idle_prompt'', ''auth_success'', ''elicitation_dialog'', ''elicitation_complete'',
      ''elicitation_response'']"

definition SESSION_START_VALUES :: "string list" where
  "SESSION_START_VALUES = [''startup'', ''resume'', ''clear'', ''compact'']"

definition STOP_FAILURE_VALUES :: "string list" where
  "STOP_FAILURE_VALUES =
     [''rate_limit'', ''authentication_failed'', ''billing_error'', ''invalid_request'', ''server_error'',
      ''max_output_tokens'', ''unknown'']"

definition TRIGGER_VALUES :: "string list" where "TRIGGER_VALUES = [''manual'', ''auto'']"

definition SESSION_END_VALUES :: "string list" where
  "SESSION_END_VALUES = [''clear'', ''logout'', ''prompt_input_exit'', ''other'']"

definition SETUP_VALUES :: "string list" where "SETUP_VALUES = [''init'', ''maintenance'']"

definition CONFIG_CHANGE_VALUES :: "string list" where
  "CONFIG_CHANGE_VALUES =
     [''user_settings'', ''project_settings'', ''local_settings'', ''policy_settings'', ''skills'']"

definition INSTRUCTIONS_LOADED_VALUES :: "string list" where
  "INSTRUCTIONS_LOADED_VALUES =
     [''session_start'', ''nested_traversal'', ''path_glob_match'', ''include'', ''compact'']"

definition ONBOARDING_VALUES :: "string list" where
  "ONBOARDING_VALUES = [''opened'', ''advanced'', ''closed'', ''completed'']"

definition tool_name_matcher :: "metadata_inputs \<Rightarrow> matcher_metadata" where
  "tool_name_matcher inputs = \<lparr>field_to_match = ''tool_name'', matcher_values = mi_tool_names inputs\<rparr>"

text \<open>The table of \<open>build_hook_event_metadata\<close>, its matcher column, read by \<open>matcher_metadata_for_event\<close>.\<close>

definition matcher_metadata_for_event :: "metadata_inputs \<Rightarrow> hook_event \<Rightarrow> matcher_metadata option" where
  "matcher_metadata_for_event inputs e =
     (let entry = (\<lambda>field vals. Some \<lparr>field_to_match = field, matcher_values = vals\<rparr>)
      in if e \<in> {EvPreToolUse, EvPostToolUse, EvPostToolUseFailure, EvPermissionDenied, EvPermissionRequest}
         then Some (tool_name_matcher inputs)
         else if e = EvNotification then entry ''notification_type'' NOTIFICATION_VALUES
         else if e = EvSessionStart then entry ''source'' SESSION_START_VALUES
         else if e = EvStopFailure then entry ''error'' STOP_FAILURE_VALUES
         else if e = EvSubagentStart \<or> e = EvSubagentStop then entry ''agent_type'' (mi_agent_types inputs)
         else if e = EvPreCompact \<or> e = EvPostCompact then entry ''trigger'' TRIGGER_VALUES
         else if e = EvSessionEnd then entry ''reason'' SESSION_END_VALUES
         else if e = EvSetup then entry ''trigger'' SETUP_VALUES
         else if e = EvElicitation \<or> e = EvElicitationResult then
           entry ''mcp_server_name'' (mi_elicitation_servers inputs)
         else if e = EvConfigChange then entry ''source'' CONFIG_CHANGE_VALUES
         else if e = EvInstructionsLoaded then entry ''load_reason'' INSTRUCTIONS_LOADED_VALUES
         else if e = EvOnboarding then entry ''phase'' ONBOARDING_VALUES
         else None)"

subsection \<open>Grouping\<close>

datatype registered_entry =
    PluginEntry hook_event "string option" string "hook_command list"
  | BuiltinEntry hook_event "string option" nat

record hook_provider =
  restricted_to_managed_only :: bool
  hooks_from_settings :: "individual_hook list"
  registered_hooks :: "registered_entry list"

text \<open>\<open>settings_provider.rs\<close>.\<close>

record settings_snapshot =
  sn_settings_hooks :: "individual_hook list"
  sn_plugin_hooks :: "individual_hook list"
  sn_session_hooks :: "individual_hook list"
  sn_registered :: "registered_entry list"
  sn_allow_managed_hooks_only :: bool

definition settings_provider :: "settings_snapshot \<Rightarrow> hook_provider" where
  "settings_provider snapshot =
     \<lparr>restricted_to_managed_only = sn_allow_managed_hooks_only snapshot,
      hooks_from_settings = sn_settings_hooks snapshot @ sn_plugin_hooks snapshot @ sn_session_hooks snapshot,
      registered_hooks = sn_registered snapshot\<rparr>"

definition event_supports_matcher :: "metadata_inputs \<Rightarrow> hook_event \<Rightarrow> bool" where
  "event_supports_matcher inputs e \<longleftrightarrow> matcher_metadata_for_event inputs e \<noteq> None"

definition matcher_key_for :: "metadata_inputs \<Rightarrow> hook_event \<Rightarrow> string option \<Rightarrow> string" where
  "matcher_key_for inputs e matcher =
     (if event_supports_matcher inputs e then (case matcher of Some m \<Rightarrow> m | None \<Rightarrow> []) else [])"

text \<open>The groups of one event: by matcher, in the order of the strings.\<close>

type_synonym matcher_groups = "(string \<times> individual_hook list) list"

definition push_hooks :: "string \<Rightarrow> individual_hook list \<Rightarrow> matcher_groups \<Rightarrow> matcher_groups" where
  "push_hooks key hs g =
     map_insert key ((case map_of g key of Some bucket \<Rightarrow> bucket | None \<Rightarrow> []) @ hs) g"

definition file_settings_hook ::
  "metadata_inputs \<Rightarrow> individual_hook \<Rightarrow> (hook_event \<Rightarrow> matcher_groups) \<Rightarrow> hook_event \<Rightarrow> matcher_groups" where
  "file_settings_hook inputs h grouped =
     grouped(ih_event h := push_hooks (matcher_key_for inputs (ih_event h) (ih_matcher h)) [h] (grouped (ih_event h)))"

definition file_registered ::
  "registered_entry \<Rightarrow> (hook_event \<Rightarrow> matcher_groups) \<Rightarrow> hook_event \<Rightarrow> matcher_groups" where
  "file_registered entry grouped =
     (case entry of
        PluginEntry e matcher plugin_id cs \<Rightarrow>
          grouped(e := push_hooks (case matcher of Some m \<Rightarrow> m | None \<Rightarrow> [])
            (map (\<lambda>c. \<lparr>ih_event = e, ih_config = c, ih_matcher = matcher, ih_source = FromPlugin,
                       ih_plugin_name = Some plugin_id\<rparr>) cs) (grouped e))
      | BuiltinEntry e matcher n \<Rightarrow>
          grouped(e := push_hooks (case matcher of Some m \<Rightarrow> m | None \<Rightarrow> [])
            (replicate n \<lparr>ih_event = e, ih_config = bare_command ''[internal] Built-in Hook'', ih_matcher = matcher,
                          ih_source = FromBuiltin, ih_plugin_name = None\<rparr>) (grouped e)))"

definition group_hooks_by_event_and_matcher ::
  "hook_provider \<Rightarrow> metadata_inputs \<Rightarrow> hook_event \<Rightarrow> matcher_groups" where
  "group_hooks_by_event_and_matcher provider inputs =
     fold file_registered (registered_hooks provider)
       (if restricted_to_managed_only provider then (\<lambda>_. [])
        else fold (file_settings_hook inputs) (hooks_from_settings provider) (\<lambda>_. []))"

definition highest_priority :: "individual_hook list \<Rightarrow> int" where
  "highest_priority hs =
     (case hs of [] \<Rightarrow> PLUGIN_OR_BUILTIN_PRIORITY
      | h # hs' \<Rightarrow> fold (\<lambda>x m. min (source_priority (ih_source x)) m) hs' (source_priority (ih_source h)))"

text \<open>The sort is stable, and the groups are in the order of their matchers: only the priority counts.\<close>

definition sorted_matchers_for_event :: "matcher_groups \<Rightarrow> string list" where
  "sorted_matchers_for_event g = map fst (sort_key (\<lambda>(_, hs). highest_priority hs) g)"

definition hooks_for_matcher :: "matcher_groups \<Rightarrow> string \<Rightarrow> individual_hook list" where
  "hooks_for_matcher g matcher = (case map_of g matcher of Some hs \<Rightarrow> hs | None \<Rightarrow> [])"

subsection \<open>Running\<close>

record executed_result =
  ex_json :: "hook_json_output option"
  ex_plain_text :: "string option"
  ex_validation_error :: "string option"
  ex_exit_code :: int
  ex_stderr :: string
  ex_command_label :: string

datatype execution_error =
    HookTimeout string | HookCancelled | HookTransport string | HookUnsupportedType string | IfEvaluationFailed string

text \<open>\<open>{0:?}\<close> of the duration is in the value of \<open>HookTimeout\<close>.\<close>

definition execution_error_text :: "execution_error \<Rightarrow> string" where
  "execution_error_text e =
     (case e of
        HookTimeout d \<Rightarrow> ''hook timed out after '' @ d
      | HookCancelled \<Rightarrow> ''hook was cancelled''
      | HookTransport m \<Rightarrow> ''hook transport error: '' @ m
      | HookUnsupportedType t \<Rightarrow>
          ''hook handler unsupported for hook type '' @ [ch_squote] @ t @ [ch_squote]
      | IfEvaluationFailed m \<Rightarrow> ''hook if-predicate evaluation failed: '' @ m)"

text \<open>What ends a task without a value is a panic, \<open>None\<close>; the text of the panic is not read on.\<close>

record hook_env =
  he_serde :: hook_serde
  he_regex :: "string \<Rightarrow> (string \<Rightarrow> bool) option"
  he_if :: "string \<Rightarrow> individual_hook \<Rightarrow> hook_invocation \<Rightarrow> string + bool"
  he_execute :: "individual_hook \<Rightarrow> hook_invocation \<Rightarrow> (execution_error + executed_result) option"
  he_join_error :: string
  he_skip_dedupe :: bool

record log_entry =
  le_command :: string
  le_error :: string

record runtime_output =
  ro_selected :: nat
  ro_per_hook :: "hook_result list"
  ro_aggregated :: aggregated_result
  ro_effects :: "hook_effect list"
  ro_execution_errors :: "log_entry list"
  ro_validation_errors :: "log_entry list"

definition matcher_applies :: "hook_env \<Rightarrow> string \<Rightarrow> string option \<Rightarrow> bool" where
  "matcher_applies env matcher val =
     (case val of
        None \<Rightarrow> matcher = []
      | Some v \<Rightarrow>
          matcher = [] \<or> matcher = ''*'' \<or>
          (case he_regex env (''^(?:'' @ matcher @ '')$'') of
             Some is_match \<Rightarrow> is_match v
           | None \<Rightarrow> matcher = v))"

definition predicate_holds :: "hook_env \<Rightarrow> hook_invocation \<Rightarrow> individual_hook \<Rightarrow> bool" where
  "predicate_holds env input h =
     (case hook_if_predicate (ih_config h) of
        Some p \<Rightarrow> p = [] \<or> he_if env p h input = Inr True
      | None \<Rightarrow> True)"

fun dedupe_from :: "individual_hook list \<Rightarrow> individual_hook list \<Rightarrow> individual_hook list" where
  "dedupe_from out [] = out"
| "dedupe_from out (h # hs) =
     dedupe_from
       (if list_ex (\<lambda>x. ih_event x = ih_event h \<and> is_hook_equal (ih_config x) (ih_config h)) out then out else out @ [h])
       hs"

definition dedupe_by_identity :: "individual_hook list \<Rightarrow> individual_hook list" where
  "dedupe_by_identity = dedupe_from []"

definition select_hooks ::
  "hook_env \<Rightarrow> hook_provider \<Rightarrow> metadata_inputs \<Rightarrow> hook_invocation \<Rightarrow> individual_hook list" where
  "select_hooks env provider inputs input =
     (let g = group_hooks_by_event_and_matcher provider inputs (hi_event input);
          selected = concat (map (\<lambda>matcher. filter (predicate_holds env input) (hooks_for_matcher g matcher))
            (filter (\<lambda>matcher. matcher_applies env matcher (matcher_value (hi_payload input)))
               (sorted_matchers_for_event g)))
      in if he_skip_dedupe env then selected else dedupe_by_identity selected)"

definition project_one_result :: "hook_serde \<Rightarrow> executed_result \<Rightarrow> hook_event \<Rightarrow> log_entry + hook_result" where
  "project_one_result serde x e =
     (case ex_json x of
        Some (AsyncOutput _) \<Rightarrow> Inr plain_result
      | Some (SyncOutput sync) \<Rightarrow>
          map_err (\<lambda>err. \<lparr>le_command = ex_command_label x, le_error = err\<rparr>)
            (process_hook_json_output serde sync (ex_command_label x) (Some e))
      | None \<Rightarrow>
          (case ex_validation_error x of
             Some err \<Rightarrow> Inl \<lparr>le_command = ex_command_label x, le_error = err\<rparr>
           | None \<Rightarrow>
               Inr (classify_plain_command_result (ex_exit_code x) (ex_command_label x)
                 (if ex_stderr x \<noteq> [] then ex_stderr x
                  else case ex_plain_text x of Some t \<Rightarrow> t | None \<Rightarrow> []))))"

text \<open>The results in the order of selection; a hook whose task panicked stands at the end, under the
  name of the placeholder.\<close>

datatype execution_outcome =
    Ran individual_hook executed_result | RanErr string string

definition execute_all :: "hook_env \<Rightarrow> individual_hook list \<Rightarrow> hook_invocation \<Rightarrow> execution_outcome list" where
  "execute_all env hs input =
     List.map_filter (\<lambda>h. map_option (\<lambda>r. case r of
         Inr x \<Rightarrow> Ran h x
       | Inl e \<Rightarrow> RanErr (display_text (ih_config h)) (execution_error_text e)) (he_execute env h input)) hs @
     map (\<lambda>_. RanErr ''<panicked>'' (execution_error_text (HookTransport (he_join_error env))))
       (filter (\<lambda>h. he_execute env h input = None) hs)"

definition run_event :: "hook_env \<Rightarrow> hook_provider \<Rightarrow> metadata_inputs \<Rightarrow> hook_invocation \<Rightarrow> runtime_output" where
  "run_event env provider inputs input =
     (let hs = select_hooks env provider inputs input
      in if hs = [] then
           \<lparr>ro_selected = 0, ro_per_hook = [], ro_aggregated = nothing_said, ro_effects = [],
            ro_execution_errors = [], ro_validation_errors = []\<rparr>
         else
           let executed = execute_all env hs input;
               projected = List.map_filter (\<lambda>o'. case o' of
                   Ran _ x \<Rightarrow> Some (project_one_result (he_serde env) x (hi_event input)) | RanErr _ _ \<Rightarrow> None) executed;
               per_hook = List.map_filter (\<lambda>p. case p of Inr r \<Rightarrow> Some r | Inl _ \<Rightarrow> None) projected;
               merged = aggregate_hook_results per_hook
           in \<lparr>ro_selected = length hs, ro_per_hook = per_hook, ro_aggregated = merged,
               ro_effects = project_effects (hi_event input) merged,
               ro_execution_errors = List.map_filter (\<lambda>o'. case o' of
                   RanErr c e \<Rightarrow> Some \<lparr>le_command = c, le_error = e\<rparr> | Ran _ _ \<Rightarrow> None) executed,
               ro_validation_errors = List.map_filter (\<lambda>p. case p of Inl e \<Rightarrow> Some e | Inr _ \<Rightarrow> None) projected\<rparr>)"

text \<open>What the command transport makes of the end of its process: \<open>CommandExecutor::execute\<close>.\<close>

definition command_result :: "hook_serde \<Rightarrow> string \<Rightarrow> string \<Rightarrow> string \<Rightarrow> int option \<Rightarrow> executed_result" where
  "command_result serde shown stdout stderr exit_status =
     (let parsed = parse_hook_output serde stdout
      in \<lparr>ex_json = po_json parsed, ex_plain_text = po_plain_text parsed,
          ex_validation_error = po_validation_error parsed,
          ex_exit_code = (case exit_status of Some c \<Rightarrow> c | None \<Rightarrow> -1), ex_stderr = stderr, ex_command_label = shown\<rparr>)"

text \<open>\<open>run_snapshot_event\<close> of \<open>crates/rebon-core/src/hooks.rs\<close>: the runtime the product builds. Its
  evaluator of predicates is the permissive one.\<close>

definition allow_all_if :: "string \<Rightarrow> individual_hook \<Rightarrow> hook_invocation \<Rightarrow> string + bool" where
  "allow_all_if predicate h input = Inr True"

definition run_snapshot_event ::
  "hook_env \<Rightarrow> settings_snapshot \<Rightarrow> invocation_context \<Rightarrow> hook_payload \<Rightarrow> metadata_inputs \<Rightarrow> runtime_output" where
  "run_snapshot_event env snapshot ctx payload inputs =
     run_event (env\<lparr>he_if := allow_all_if, he_skip_dedupe := False\<rparr>) (settings_provider snapshot) inputs
       (new_invocation ctx payload)"

end
