(* ===== verification/Policy_Seat.thy ===== *)
theory Policy_Seat
  imports Hook_Runtime "HOL-Library.Product_Lexorder"
begin

text \<open>
  The events whoever registered has a say in, \<open>crates/rebon-core/src/policy_seat.rs\<close>, and what the
  engine makes of the effects that come back, \<open>crates/rebon-core/src/hooks.rs\<close>.

  A subscriber is a record of functions. What it answers to a request is a verdict, silence until
  its budget ends, or a panic; the locks around the seat are not modelled.
\<close>

subsection \<open>Classes of events\<close>

datatype policy_class = Gated | NotificationOnly

definition class_of :: "hook_event \<Rightarrow> policy_class" where
  "class_of e =
     (if e \<in> {EvPreToolUse, EvUserPromptSubmit, EvPermissionRequest, EvStop, EvPreCompact, EvConfigChange,
              EvElicitation, EvWorktreeCreate}
      then Gated else NotificationOnly)"

record policy_request =
  pr_payload :: hook_payload
  pr_context :: invocation_context
  pr_agent :: "string option"

definition new_policy_request :: "invocation_context \<Rightarrow> hook_payload \<Rightarrow> policy_request" where
  "new_policy_request ctx p = \<lparr>pr_payload = p, pr_context = ctx, pr_agent = None\<rparr>"

definition request_kind :: "policy_request \<Rightarrow> hook_event" where
  "request_kind r = payload_event (pr_payload r)"

subsection \<open>Verdicts\<close>

datatype verdict = VerdictAllow | VerdictDeny string | VerdictModify "hook_effect list"

definition verdict_effects :: "verdict \<Rightarrow> hook_effect list" where
  "verdict_effects v = (case v of VerdictModify es \<Rightarrow> es | _ \<Rightarrow> [])"

definition denial_of :: "verdict \<Rightarrow> string option" where
  "denial_of v = (case v of VerdictDeny why \<Rightarrow> Some why | _ \<Rightarrow> None)"

definition verdict_from_effects :: "hook_effect list \<Rightarrow> verdict" where
  "verdict_from_effects es = (if es = [] then VerdictAllow else VerdictModify es)"

subsection \<open>Subscribers\<close>

datatype subscriber_failure = TimedOut | Panicked

definition DEFAULT_POLICY_TIMEOUT :: nat where "DEFAULT_POLICY_TIMEOUT = 300"

text \<open>\<open>sub_interest\<close> is \<open>None\<close> where the subscriber panics; a budget is in whole seconds.\<close>

record policy_subscriber =
  sub_interest :: "hook_event \<Rightarrow> bool option"
  sub_budget :: "nat option"
  sub_decide :: "policy_request \<Rightarrow> subscriber_failure + verdict"

record policy_entry =
  pe_id :: string
  pe_order :: int
  pe_active :: bool
  pe_subscriber :: policy_subscriber

definition sort_entries :: "policy_entry list \<Rightarrow> policy_entry list" where
  "sort_entries = sort_key (\<lambda>e. (pe_order e, pe_id e))"

datatype seat_error = SeatIdEmpty | SeatDuplicate string

definition policy_subscribe ::
  "policy_entry list \<Rightarrow> string \<Rightarrow> int \<Rightarrow> policy_subscriber \<Rightarrow> seat_error + policy_entry list" where
  "policy_subscribe seat subscriber_id ord subscriber =
     (let i = trim subscriber_id
      in if i = [] then Inl SeatIdEmpty
         else if list_ex (\<lambda>e. pe_id e = i) seat then Inl (SeatDuplicate i)
         else Inr (sort_entries (seat @
           [\<lparr>pe_id = i, pe_order = ord, pe_active = True, pe_subscriber = subscriber\<rparr>])))"

text \<open>The end of a registration. Ids are unique on a seat, so the entry of the id is the registered one.\<close>

definition policy_unsubscribe :: "string \<Rightarrow> policy_entry list \<Rightarrow> policy_entry list" where
  "policy_unsubscribe i seat = filter (\<lambda>e. pe_id e \<noteq> i) seat"

definition seat_subscriber_ids :: "policy_entry list \<Rightarrow> string list" where
  "seat_subscriber_ids seat = map pe_id (filter pe_active seat)"

record policy_sources =
  ps_seat :: "policy_entry list option"
  ps_local :: "policy_entry list"
  ps_context :: invocation_context
  ps_agent :: "string option"

text \<open>\<open>None\<close> is the assertion that fails on a blank id.\<close>

definition with_subscriber ::
  "policy_sources \<Rightarrow> string \<Rightarrow> int \<Rightarrow> policy_subscriber \<Rightarrow> policy_sources option" where
  "with_subscriber sources i ord subscriber =
     (if trim i = [] then None
      else Some (sources\<lparr>ps_local := ps_local sources @
        [\<lparr>pe_id = i, pe_order = ord, pe_active = True, pe_subscriber = subscriber\<rparr>]\<rparr>))"

definition sources_empty :: "policy_sources \<Rightarrow> bool" where
  "sources_empty sources \<longleftrightarrow>
     ps_local sources = [] \<and> (case ps_seat sources of Some seat \<Rightarrow> seat = [] | None \<Rightarrow> True)"

definition ordered_entries :: "policy_sources \<Rightarrow> policy_entry list" where
  "ordered_entries sources =
     sort_entries ((case ps_seat sources of Some seat \<Rightarrow> seat | None \<Rightarrow> []) @ ps_local sources)"

definition sources_subscriber_ids :: "policy_sources \<Rightarrow> string list" where
  "sources_subscriber_ids sources = map pe_id (ordered_entries sources)"

definition is_interested :: "policy_entry \<Rightarrow> hook_event \<Rightarrow> bool" where
  "is_interested e kind = (case sub_interest (pe_subscriber e) kind of Some b \<Rightarrow> b | None \<Rightarrow> False)"

subsection \<open>Raising an event\<close>

datatype on_silence = Refuse | Drop

definition deny_reason :: "subscriber_failure \<Rightarrow> string \<Rightarrow> hook_event \<Rightarrow> nat \<Rightarrow> string" where
  "deny_reason failure i kind budget =
     (case failure of
        TimedOut \<Rightarrow>
          ''Policy subscriber '' @ [ch_backtick] @ i @ [ch_backtick] @ '' did not answer '' @ event_name kind @
          '' within '' @ decimal budget @ ''s. A gate that goes quiet is refused, not opened.''
      | Panicked \<Rightarrow>
          ''Policy subscriber '' @ [ch_backtick] @ i @ [ch_backtick] @ '' panicked deciding '' @ event_name kind @
          ''. A gate that fails is refused, not opened.'')"

fun emit_entries ::
  "policy_request \<Rightarrow> on_silence \<Rightarrow> policy_entry list \<Rightarrow> hook_effect list \<Rightarrow> verdict" where
  "emit_entries r silence [] effects = verdict_from_effects effects"
| "emit_entries r silence (e # es) effects =
     (if \<not> pe_active e \<or> \<not> is_interested e (request_kind r) then emit_entries r silence es effects
      else case sub_decide (pe_subscriber e) r of
        Inr VerdictAllow \<Rightarrow> emit_entries r silence es effects
      | Inr (VerdictModify contributed) \<Rightarrow> emit_entries r silence es (effects @ contributed)
      | Inr (VerdictDeny why) \<Rightarrow>
          (if class_of (request_kind r) = Gated then VerdictDeny why else emit_entries r silence es effects)
      | Inl failure \<Rightarrow>
          (if class_of (request_kind r) = Gated \<and> silence = Refuse then
             VerdictDeny (deny_reason failure (pe_id e) (request_kind r)
               (case sub_budget (pe_subscriber e) of Some b \<Rightarrow> b | None \<Rightarrow> DEFAULT_POLICY_TIMEOUT))
           else emit_entries r silence es effects))"

definition emit_with :: "policy_sources \<Rightarrow> hook_payload \<Rightarrow> on_silence \<Rightarrow> verdict" where
  "emit_with sources p silence =
     emit_entries ((new_policy_request (ps_context sources) p)\<lparr>pr_agent := ps_agent sources\<rparr>) silence
       (ordered_entries sources) []"

definition emit :: "policy_sources \<Rightarrow> hook_payload \<Rightarrow> verdict" where
  "emit sources p = emit_with sources p Refuse"

subsection \<open>The configured hooks as a subscriber\<close>

text \<open>\<open>load\<close> reads the settings of a directory.\<close>

definition settings_hook_decide ::
  "hook_env \<Rightarrow> (string \<Rightarrow> settings_snapshot option) \<Rightarrow> metadata_inputs \<Rightarrow> policy_request \<Rightarrow> verdict" where
  "settings_hook_decide env load inputs r =
     (case load (ic_cwd (pr_context r)) of
        Some snapshot \<Rightarrow>
          VerdictModify (ro_effects (run_snapshot_event env snapshot (pr_context r) (pr_payload r) inputs))
      | None \<Rightarrow> VerdictAllow)"

subsection \<open>Before a tool runs\<close>

datatype pre_tool_decision = PreContinue json | PreBlocked string

fun apply_pre_tool_use_effects :: "json \<Rightarrow> hook_effect list \<Rightarrow> pre_tool_decision" where
  "apply_pre_tool_use_effects input [] = PreContinue input"
| "apply_pre_tool_use_effects input (e # es) =
     (case e of
        BlockToolCall why _ \<Rightarrow> PreBlocked why
      | AllowToolCall (Some u) \<Rightarrow> apply_pre_tool_use_effects (JObject u) es
      | AskPermission _ (Some u) \<Rightarrow> apply_pre_tool_use_effects (JObject u) es
      | UpdateToolInput u \<Rightarrow> apply_pre_tool_use_effects (JObject u) es
      | _ \<Rightarrow> apply_pre_tool_use_effects input es)"

definition run_pre_tool_use_hooks :: "policy_sources \<Rightarrow> string \<Rightarrow> json \<Rightarrow> string \<Rightarrow> pre_tool_decision" where
  "run_pre_tool_use_hooks sources tool input use_id =
     (let v = emit sources (OnPreToolUse tool input use_id)
      in case denial_of v of
           Some why \<Rightarrow> PreBlocked why
         | None \<Rightarrow> apply_pre_tool_use_effects input (verdict_effects v))"

subsection \<open>After a tool ran\<close>

fun apply_post_tool_use_effects :: "json \<Rightarrow> hook_effect list \<Rightarrow> json" where
  "apply_post_tool_use_effects out [] = out"
| "apply_post_tool_use_effects out (e # es) =
     apply_post_tool_use_effects (case e of UpdateToolOutput o' \<Rightarrow> o' | _ \<Rightarrow> out) es"

definition run_post_tool_use_hooks :: "policy_sources \<Rightarrow> string \<Rightarrow> json \<Rightarrow> json \<Rightarrow> string \<Rightarrow> json" where
  "run_post_tool_use_hooks sources tool input response use_id =
     apply_post_tool_use_effects response (verdict_effects (emit sources (OnPostToolUse tool input response use_id)))"

subsection \<open>Requests for permission\<close>

datatype permission_hook_decision = HookContinue json | HookAllowed json | HookDenied string

fun apply_permission_effects :: "json \<Rightarrow> bool \<Rightarrow> hook_effect list \<Rightarrow> permission_hook_decision" where
  "apply_permission_effects input allow [] = (if allow then HookAllowed input else HookContinue input)"
| "apply_permission_effects input allow (e # es) =
     (case e of
        PermissionRequestDecision (RequestAllow updated _) \<Rightarrow>
          apply_permission_effects (case updated of Some u \<Rightarrow> JObject u | None \<Rightarrow> input) True es
      | PermissionRequestDecision (RequestDeny m _) \<Rightarrow> HookDenied (reason_or m ''Permission denied by hook'')
      | AllowToolCall updated \<Rightarrow>
          apply_permission_effects (case updated of Some u \<Rightarrow> JObject u | None \<Rightarrow> input) True es
      | BlockToolCall why _ \<Rightarrow> HookDenied why
      | UpdateToolInput u \<Rightarrow> apply_permission_effects (JObject u) allow es
      | _ \<Rightarrow> apply_permission_effects input allow es)"

definition apply_permission_request_effects :: "json \<Rightarrow> hook_effect list \<Rightarrow> permission_hook_decision" where
  "apply_permission_request_effects input = apply_permission_effects input False"

definition input_object :: "json \<Rightarrow> json_object" where
  "input_object input = (case as_object input of Some o' \<Rightarrow> o' | None \<Rightarrow> [])"

definition run_permission_request_hooks ::
  "policy_sources \<Rightarrow> string \<Rightarrow> json \<Rightarrow> string \<Rightarrow> string option \<Rightarrow> permission_hook_decision" where
  "run_permission_request_hooks sources tool input use_id why =
     (let v = emit sources (OnPermissionRequest tool (input_object input) use_id why)
      in case denial_of v of
           Some r \<Rightarrow> HookDenied r
         | None \<Rightarrow> apply_permission_request_effects input (verdict_effects v))"

subsection \<open>Sessions, stops and prompts\<close>

definition apply_session_lifecycle_effects :: "hook_effect list \<Rightarrow> string list" where
  "apply_session_lifecycle_effects es =
     List.map_filter (\<lambda>e. case e of
       SystemMessage t \<Rightarrow> Some t | InjectContext t \<Rightarrow> Some t | SeedInitialUserMessage t \<Rightarrow> Some t | _ \<Rightarrow> None) es"

fun apply_stop_effects :: "hook_effect list \<Rightarrow> string + unit" where
  "apply_stop_effects [] = Inr ()"
| "apply_stop_effects (e # es) = (case e of BlockStop why \<Rightarrow> Inl why | _ \<Rightarrow> apply_stop_effects es)"

record prompt_effects =
  pf_additional_context :: "string list"
  pf_system_messages :: "string list"
  pf_session_title :: "string option"
  pf_mark_session_complete :: bool
  pf_replacement :: "string option"

definition no_prompt_effects :: prompt_effects where
  "no_prompt_effects =
     \<lparr>pf_additional_context = [], pf_system_messages = [], pf_session_title = None,
      pf_mark_session_complete = False, pf_replacement = None\<rparr>"

datatype prompt_decision = PromptBlocked string | PromptContinue prompt_effects

fun apply_prompt_effects :: "prompt_effects \<Rightarrow> hook_effect list \<Rightarrow> prompt_decision" where
  "apply_prompt_effects applied [] = PromptContinue applied"
| "apply_prompt_effects applied (e # es) =
     (case e of
        BlockToolCall why _ \<Rightarrow> PromptBlocked why
      | InjectContext t \<Rightarrow>
          apply_prompt_effects (applied\<lparr>pf_additional_context := pf_additional_context applied @ [t]\<rparr>) es
      | SystemMessage t \<Rightarrow> apply_prompt_effects (applied\<lparr>pf_system_messages := pf_system_messages applied @ [t]\<rparr>) es
      | SetSessionTitle t \<Rightarrow> apply_prompt_effects (applied\<lparr>pf_session_title := Some t\<rparr>) es
      | MarkSessionComplete \<Rightarrow> apply_prompt_effects (applied\<lparr>pf_mark_session_complete := True\<rparr>) es
      | ReplacePrompt t \<Rightarrow> apply_prompt_effects (applied\<lparr>pf_replacement := Some t\<rparr>) es
      | _ \<Rightarrow> apply_prompt_effects applied es)"

definition apply_user_prompt_submit_effects :: "hook_effect list \<Rightarrow> prompt_decision" where
  "apply_user_prompt_submit_effects = apply_prompt_effects no_prompt_effects"

definition append_additional_context :: "string \<Rightarrow> string \<Rightarrow> string" where
  "append_additional_context p text =
     p @ (if p \<noteq> [] then [ch_lf, ch_lf] else []) @ ''<additional_context>'' @ [ch_lf] @ text @ [ch_lf] @
     ''</additional_context>''"

end
