(* ===== verification/Hook_Facts.thy ===== *)
theory Hook_Facts
  imports Policy_Seat
begin

text \<open>
  What hooks can do to a tool call: the strongest answer of one firing decides, the effects of a
  firing fit its event, and a gated event goes on only with the consent of every subscriber asked.
  The findings are the answers that get lost on the way.
\<close>

subsection \<open>The strength of an answer\<close>

instantiation hook_permission_behavior :: linorder
begin

fun strength :: "hook_permission_behavior \<Rightarrow> nat" where
  "strength HookDefer = 0"
| "strength HookPassthrough = 1"
| "strength HookAllow = 2"
| "strength HookAsk = 3"
| "strength HookDeny = 4"

definition less_eq_hook_permission_behavior :: "hook_permission_behavior \<Rightarrow> hook_permission_behavior \<Rightarrow> bool" where
  "less_eq_hook_permission_behavior a b \<longleftrightarrow> strength a \<le> strength b"

definition less_hook_permission_behavior :: "hook_permission_behavior \<Rightarrow> hook_permission_behavior \<Rightarrow> bool" where
  "less_hook_permission_behavior a b \<longleftrightarrow> strength a < strength b"

instance
proof
  fix a b c :: hook_permission_behavior
  show "a < b \<longleftrightarrow> a \<le> b \<and> \<not> b \<le> a" "a \<le> a" "a \<le> b \<Longrightarrow> b \<le> c \<Longrightarrow> a \<le> c" "a \<le> b \<or> b \<le> a"
    by (auto simp: less_eq_hook_permission_behavior_def less_hook_permission_behavior_def)
  show "a \<le> b \<Longrightarrow> b \<le> a \<Longrightarrow> a = b"
    by (cases a; cases b; simp add: less_eq_hook_permission_behavior_def)
qed

end

lemma merge_behavior:
  "ag_permission_behavior (merge_result r a) =
     (case hr_permission_behavior r of
        None \<Rightarrow> ag_permission_behavior a
      | Some b \<Rightarrow> Some (case ag_permission_behavior a of None \<Rightarrow> b | Some h \<Rightarrow> max h b))"
proof (cases "hr_permission_behavior r")
  case (Some b)
  then show ?thesis
    by (cases b; cases "ag_permission_behavior a"; (cases "the (ag_permission_behavior a)")?)
      (simp_all add: merge_result_def merge_decision_def replaces_def max_def less_eq_hook_permission_behavior_def)
qed (simp add: merge_result_def merge_decision_def)

definition strongest :: "hook_permission_behavior list \<Rightarrow> hook_permission_behavior option" where
  "strongest bs = (if bs = [] then None else Some (Max (set bs)))"

lemma Max_insert_max:
  "finite S \<Longrightarrow> Max (insert (max x y) S) = max y (Max (insert x S))"
  "finite S \<Longrightarrow> max y (Max (insert x S)) = max x (Max (insert y S))"
  by (cases "S = {}"; simp add: max.commute max.left_commute)+

lemma fold_behavior:
  "ag_permission_behavior (fold merge_result rs a) =
     strongest ((case ag_permission_behavior a of None \<Rightarrow> [] | Some b \<Rightarrow> [b]) @ List.map_filter hr_permission_behavior rs)"
proof (induction rs arbitrary: a)
  case Nil
  then show ?case by (simp add: strongest_def split: option.split)
next
  case (Cons r rs)
  show ?case
    by (cases "hr_permission_behavior r"; cases "ag_permission_behavior a")
      (simp_all add: Cons.IH merge_behavior strongest_def List.map_filter_simps Max_insert_max(1),
       metis Max_insert_max(2) finite_set)
qed

text \<open>C24. Whatever the order in which hooks answered, the strongest answer of a firing decides:
  deny over ask over allow over passthrough over defer. A single denial blocks the tool call before
  it runs and denies the request for permission.\<close>

theorem strongest_answer_wins:
  "(let a = aggregate_hook_results rs
    in ag_permission_behavior a = strongest (List.map_filter hr_permission_behavior rs) \<and>
       ((\<exists>r \<in> set rs. hr_permission_behavior r = Some HookDeny) \<longleftrightarrow>
        (\<exists>why errors. BlockToolCall why errors \<in> set (decision_effects a))))"
proof -
  let ?a = "aggregate_hook_results rs"
  have b: "ag_permission_behavior ?a = strongest (List.map_filter hr_permission_behavior rs)"
    by (simp add: aggregate_hook_results_def fold_behavior nothing_said_def Let_def)
  have top: "x \<le> HookDeny" for x by (cases x) (simp_all add: less_eq_hook_permission_behavior_def)
  have "strongest bs = Some HookDeny \<longleftrightarrow> HookDeny \<in> set bs" for bs
  proof
    assume "strongest bs = Some HookDeny"
    then have "bs \<noteq> []" "Max (set bs) = HookDeny" by (auto simp: strongest_def split: if_splits)
    then show "HookDeny \<in> set bs" using Max_in [of "set bs"] by (metis List.finite_set set_empty)
  next
    assume "HookDeny \<in> set bs"
    then show "strongest bs = Some HookDeny"
      using top by (auto simp: strongest_def intro!: Max_eqI)
  qed
  then have "ag_permission_behavior ?a = Some HookDeny \<longleftrightarrow> (\<exists>r \<in> set rs. hr_permission_behavior r = Some HookDeny)"
    by (force simp: b List.map_filter_def)
  moreover have "(\<exists>why errors. BlockToolCall why errors \<in> set (decision_effects ?a)) \<longleftrightarrow>
      ag_permission_behavior ?a = Some HookDeny"
  proof (cases "ag_permission_behavior ?a")
    case (Some x)
    then show ?thesis by (cases x) (simp_all add: decision_effects_def)
  qed (simp add: decision_effects_def)
  ultimately show ?thesis using b by (simp add: Let_def)
qed

subsection \<open>Effects and events\<close>

text \<open>The events an effect may come of.\<close>

definition fits :: "hook_event \<Rightarrow> hook_effect \<Rightarrow> bool" where
  "fits e effect =
     (case effect of
        BlockToolCall _ _ \<Rightarrow>
          is_tool_decision_event e \<or>
          e \<in> {EvUserPromptSubmit, EvPostToolUse, EvPostToolUseFailure, EvPreCompact, EvConfigChange}
      | AskPermission _ _ \<Rightarrow> e = EvPreToolUse
      | AllowToolCall _ \<Rightarrow> is_tool_decision_event e
      | PermissionRequestDecision _ \<Rightarrow> e = EvPermissionRequest
      | InjectContext _ \<Rightarrow>
          e \<in> {EvPreToolUse, EvUserPromptSubmit, EvSessionStart, EvSetup, EvSubagentStart, EvPostToolUse,
               EvPostToolUseFailure, EvNotification}
      | UpdateToolOutput _ \<Rightarrow> e = EvPostToolUse
      | UpdateToolInput _ \<Rightarrow> e = EvPreToolUse
      | SetSessionTitle _ \<Rightarrow> e = EvUserPromptSubmit
      | MarkSessionComplete \<Rightarrow> e = EvSessionEnd
      | SeedInitialUserMessage _ \<Rightarrow> e = EvSessionStart
      | ContinueGoal _ _ \<Rightarrow> e = EvSessionEnd
      | RetryDeniedTool \<Rightarrow> e = EvPermissionDenied
      | PreventContinuation _ \<Rightarrow> True
      | BlockStop _ \<Rightarrow> e = EvStop \<or> e = EvSubagentStop
      | UpdateWatchPaths _ \<Rightarrow> e \<in> {EvSessionStart, EvCwdChanged, EvFileChanged}
      | WorktreePath _ \<Rightarrow> e = EvWorktreeCreate
      | SystemMessage _ \<Rightarrow> True
      | ReplacePrompt _ \<Rightarrow> e = EvUserPromptSubmit)"

text \<open>The same of the fields of a result, and of the union of results.\<close>

definition context_events :: "hook_event set" where
  "context_events =
     {EvPreToolUse, EvUserPromptSubmit, EvSessionStart, EvSetup, EvSubagentStart, EvPostToolUse,
      EvPostToolUseFailure, EvNotification}"

definition result_fits :: "hook_event \<Rightarrow> hook_result \<Rightarrow> bool" where
  "result_fits e r \<longleftrightarrow>
     (hr_permission_behavior r = Some HookAsk \<longrightarrow> e = EvPreToolUse) \<and>
     (hr_additional_context r \<noteq> None \<longrightarrow> e \<in> context_events) \<and>
     (hr_updated_output r \<noteq> None \<longrightarrow> e = EvPostToolUse) \<and>
     (hr_updated_input r \<noteq> None \<longrightarrow>
        e = EvPreToolUse \<or> e = EvPermissionRequest \<and> hr_permission_behavior r \<noteq> None) \<and>
     (hr_session_title r \<noteq> None \<longrightarrow> e = EvUserPromptSubmit) \<and>
     (hr_initial_user_message r \<noteq> None \<longrightarrow> e = EvSessionStart) \<and>
     (hr_watch_paths r \<noteq> None \<longrightarrow> e \<in> {EvSessionStart, EvCwdChanged, EvFileChanged})"

definition union_fits :: "hook_event \<Rightarrow> aggregated_result \<Rightarrow> bool" where
  "union_fits e a \<longleftrightarrow>
     (ag_permission_behavior a = Some HookAsk \<longrightarrow> e = EvPreToolUse) \<and>
     (ag_additional_contexts a \<noteq> [] \<longrightarrow> e \<in> context_events) \<and>
     (ag_updated_output a \<noteq> None \<longrightarrow> e = EvPostToolUse) \<and>
     (ag_updated_input a \<noteq> None \<longrightarrow>
        e = EvPreToolUse \<or> e = EvPermissionRequest \<and> ag_permission_behavior a \<noteq> None) \<and>
     (ag_session_title a \<noteq> None \<longrightarrow> e = EvUserPromptSubmit) \<and>
     (ag_initial_user_message a \<noteq> None \<longrightarrow> e = EvSessionStart) \<and>
     (ag_watch_paths a \<noteq> [] \<longrightarrow> e \<in> {EvSessionStart, EvCwdChanged, EvFileChanged})"

lemmas fit_defs = result_fits_def union_fits_def

lemma common_fits: "result_fits e (common_result json c)"
  by (simp add: result_fits_def common_result_def plain_result_def Let_def split: option.split hook_decision.split)

lemma specific_fits:
  "result_fits (output_event specific) (specific_result json c specific (common_result json c))"
  by (cases specific)
    (auto simp: result_fits_def specific_result_def output_event_def context_events_def common_result_def
      plain_result_def Let_def split: option.splits hook_decision.splits permission_request_result.splits)

lemma processed_fits:
  "process_hook_json_output serde json c (Some e) = Inr r \<Longrightarrow> result_fits e r"
  using specific_fits [of "the (so_specific json)" json c] common_fits [of e json c]
  by (auto simp: process_hook_json_output_def Let_def split: option.splits if_splits)

lemma plain_fits: "result_fits e plain_result" "result_fits e (classify_plain_command_result code' c err)"
  by (simp_all add: result_fits_def plain_result_def classify_plain_command_result_def)

lemma projected_fits: "project_one_result serde x e = Inr r \<Longrightarrow> result_fits e r"
  by (auto simp: project_one_result_def map_err_def plain_fits processed_fits
      split: option.splits hook_json_output.splits sum.splits)

lemma merge_fields [simp]:
  "ag_additional_contexts (merge_result r a) =
     ag_additional_contexts a @ (case hr_additional_context r of Some c \<Rightarrow> [c] | None \<Rightarrow> [])"
  "ag_updated_output (merge_result r a) = last_of (ag_updated_output a) (hr_updated_output r)"
  "ag_session_title (merge_result r a) = first_of (ag_session_title a) (hr_session_title r)"
  "ag_initial_user_message (merge_result r a) = first_of (ag_initial_user_message a) (hr_initial_user_message r)"
  "ag_watch_paths (merge_result r a) = ag_watch_paths a @ (case hr_watch_paths r of Some ps \<Rightarrow> ps | None \<Rightarrow> [])"
  "ag_updated_input (merge_result r a) =
     (case hr_permission_behavior r of
        Some b \<Rightarrow>
          if replaces (ag_permission_behavior a) b
          then (if b = HookAllow \<or> b = HookAsk then hr_updated_input r else None) else ag_updated_input a
      | None \<Rightarrow> if hr_updated_input r \<noteq> None then hr_updated_input r else ag_updated_input a)"
  by (auto simp: merge_result_def merge_decision_def split: option.split)

lemma merge_fits:
  assumes "result_fits e r" "union_fits e a"
  shows "union_fits e (merge_result r a)"
proof -
  have "ag_permission_behavior (merge_result r a) = Some HookAsk \<longrightarrow> e = EvPreToolUse"
    using assms by (auto simp: fit_defs merge_behavior max_def split: option.splits if_splits)
  moreover have "ag_updated_input (merge_result r a) \<noteq> None \<longrightarrow>
      e = EvPreToolUse \<or> e = EvPermissionRequest \<and> ag_permission_behavior (merge_result r a) \<noteq> None"
    using assms
    by (cases "hr_permission_behavior r") (auto simp: fit_defs merge_behavior split: if_splits)
  moreover have "ag_additional_contexts (merge_result r a) \<noteq> [] \<longrightarrow> e \<in> context_events"
    using assms by (cases "hr_additional_context r") (simp_all add: fit_defs)
  moreover have "ag_updated_output (merge_result r a) \<noteq> None \<longrightarrow> e = EvPostToolUse"
    using assms by (simp add: fit_defs last_of_def)
  moreover have "ag_session_title (merge_result r a) \<noteq> None \<longrightarrow> e = EvUserPromptSubmit"
    using assms by (simp add: fit_defs first_of_def)
  moreover have "ag_initial_user_message (merge_result r a) \<noteq> None \<longrightarrow> e = EvSessionStart"
    using assms by (simp add: fit_defs first_of_def)
  moreover have "ag_watch_paths (merge_result r a) \<noteq> [] \<longrightarrow> e \<in> {EvSessionStart, EvCwdChanged, EvFileChanged}"
    using assms by (cases "hr_watch_paths r") (simp_all add: fit_defs)
  ultimately show ?thesis unfolding union_fits_def by blast
qed

lemma fold_fits: "\<forall>r \<in> set rs. result_fits e r \<Longrightarrow> union_fits e a \<Longrightarrow> union_fits e (fold merge_result rs a)"
  by (induction rs arbitrary: a) (auto simp: merge_fits)

lemma aggregate_fits: "\<forall>r \<in> set rs. result_fits e r \<Longrightarrow> union_fits e (aggregate_hook_results rs)"
proof -
  assume "\<forall>r \<in> set rs. result_fits e r"
  then have "union_fits e (fold merge_result rs nothing_said)"
    by (rule fold_fits) (simp add: union_fits_def nothing_said_def)
  moreover have "sort ps = [] \<longleftrightarrow> ps = []" for ps :: "string list" by (metis set_empty set_sort)
  ultimately show ?thesis by (simp add: aggregate_hook_results_def union_fits_def Let_def)
qed

lemma decisions_fit:
  "union_fits e a \<Longrightarrow> list_all (fits e) (if is_tool_decision_event e then decision_effects a else [])"
  by (auto simp: decision_effects_def fits_def union_fits_def split: option.splits hook_permission_behavior.splits)

lemma blocks_fit: "list_all (fits e) (blocking_effects e a)"
  by (auto simp: blocking_effects_def fits_def Let_def is_tool_decision_event_def)

lemma opt_effect_all [simp]: "list_all P (opt_effect f x) \<longleftrightarrow> (\<forall>y. x = Some y \<longrightarrow> P (f y))"
  by (cases x) (simp_all add: opt_effect_def)

lemma goals_fit: "list_all (fits e) (goal_effects e a)"
  by (simp add: goal_effects_def fits_def split: option.split)

lemma effects_fit:
  assumes "union_fits e a"
  shows "list_all (fits e) (project_effects e a)"
proof -
  have "list_all (fits e) (map InjectContext (filter (\<lambda>c. c \<noteq> []) (ag_additional_contexts a)))"
    using assms by (cases "ag_additional_contexts a") (auto simp: union_fits_def context_events_def fits_def list_all_iff)
  moreover have "list_all (fits e) (if ag_permission_behavior a = None then opt_effect UpdateToolInput (ag_updated_input a) else [])"
    using assms by (auto simp: union_fits_def fits_def)
  moreover have "list_all (fits e) (case ag_system_message a of Some m \<Rightarrow> if m \<noteq> [] then [SystemMessage m] else [] | None \<Rightarrow> [])"
    by (simp add: fits_def split: option.split)
  ultimately show ?thesis
    using assms decisions_fit [OF assms] blocks_fit [of e a] goals_fit [of e a]
    unfolding project_effects_def list_all_append
    by (auto simp: fits_def union_fits_def)
qed

lemma per_hook_fits: "r \<in> set (ro_per_hook (run_event env provider inputs input)) \<Longrightarrow> result_fits (hi_event input) r"
  by (auto simp: run_event_def Let_def List.map_filter_def projected_fits split: if_splits sum.splits execution_outcome.splits)

text \<open>C25. Every effect of a firing fits its event: a hook of one event cannot have the effect of another,
  such as a rewritten input of a tool from a session hook, whatever event its output names.\<close>

theorem effects_fit_the_event:
  "list_all (fits (hi_event input)) (ro_effects (run_event env provider inputs input))"
proof (cases "select_hooks env provider inputs input = []")
  case True
  then show ?thesis by (simp add: run_event_def)
next
  case False
  let ?o = "run_event env provider inputs input"
  have "ro_effects ?o = project_effects (hi_event input) (aggregate_hook_results (ro_per_hook ?o))"
    using False by (simp add: run_event_def Let_def)
  moreover have "union_fits (hi_event input) (aggregate_hook_results (ro_per_hook ?o))"
    using per_hook_fits aggregate_fits by blast
  ultimately show ?thesis using effects_fit by metis
qed

subsection \<open>Gates\<close>

definition asked_entries :: "policy_sources \<Rightarrow> hook_event \<Rightarrow> policy_entry list" where
  "asked_entries sources kind = filter (\<lambda>e. pe_active e \<and> is_interested e kind) (ordered_entries sources)"

definition contribution :: "policy_request \<Rightarrow> policy_entry \<Rightarrow> hook_effect list" where
  "contribution r e = (case sub_decide (pe_subscriber e) r of Inr v \<Rightarrow> verdict_effects v | Inl _ \<Rightarrow> [])"

definition consents :: "policy_request \<Rightarrow> policy_entry \<Rightarrow> bool" where
  "consents r e = (case sub_decide (pe_subscriber e) r of Inr v \<Rightarrow> denial_of v = None | Inl _ \<Rightarrow> False)"

lemma verdict_simps [simp]:
  "denial_of VerdictAllow = None" "denial_of (VerdictDeny why) = Some why" "denial_of (VerdictModify es) = None"
  "verdict_effects VerdictAllow = []" "verdict_effects (VerdictDeny why) = []" "verdict_effects (VerdictModify es) = es"
  by (simp_all add: denial_of_def verdict_effects_def)

lemma emit_gated:
  assumes "class_of (request_kind r) = Gated"
  shows "(denial_of (emit_entries r Refuse es effects) = None \<longleftrightarrow>
      list_all (consents r) (filter (\<lambda>e. pe_active e \<and> is_interested e (request_kind r)) es)) \<and>
    (denial_of (emit_entries r Refuse es effects) = None \<longrightarrow>
      verdict_effects (emit_entries r Refuse es effects) =
        effects @ concat (map (contribution r) (filter (\<lambda>e. pe_active e \<and> is_interested e (request_kind r)) es)))"
proof (induction es arbitrary: effects)
  case Nil
  then show ?case by (simp add: verdict_from_effects_def verdict_effects_def denial_of_def)
next
  case (Cons e es)
  show ?case
  proof (cases "pe_active e \<and> is_interested e (request_kind r)")
    case False
    then show ?thesis using Cons.IH [of effects] by auto
  next
    case asked: True
    show ?thesis
    proof (cases "sub_decide (pe_subscriber e) r")
      case (Inl f)
      then show ?thesis using asked assms by (simp add: consents_def denial_of_def)
    next
      case (Inr v)
      with asked assms Cons.IH show ?thesis by (cases v) (simp_all add: consents_def contribution_def)
    qed
  qed
qed

definition is_block :: "hook_effect \<Rightarrow> bool" where
  "is_block effect = (case effect of BlockToolCall _ _ \<Rightarrow> True | _ \<Rightarrow> False)"

definition is_refusal :: "hook_effect \<Rightarrow> bool" where
  "is_refusal effect =
     (case effect of BlockToolCall _ _ \<Rightarrow> True | PermissionRequestDecision (RequestDeny _ _) \<Rightarrow> True | _ \<Rightarrow> False)"

lemma pre_effects_block: "(\<exists>i. apply_pre_tool_use_effects input es = PreContinue i) \<longleftrightarrow> list_all (\<lambda>e. \<not> is_block e) es"
  by (induction input es rule: apply_pre_tool_use_effects.induct)
    (auto simp: is_block_def split: hook_effect.splits option.splits)

lemma permission_effects_refuse:
  "(\<exists>why. apply_permission_effects input allow es = HookDenied why) \<longleftrightarrow> \<not> list_all (\<lambda>e. \<not> is_refusal e) es"
  by (induction input allow es rule: apply_permission_effects.induct)
    (auto simp: is_refusal_def split: hook_effect.splits option.splits permission_request_result.splits)

definition asks_of :: "policy_sources \<Rightarrow> hook_payload \<Rightarrow> policy_request" where
  "asks_of sources p = (new_policy_request (ps_context sources) p)\<lparr>pr_agent := ps_agent sources\<rparr>"

lemma request_kind_asks [simp]: "request_kind (asks_of sources p) = payload_event p"
  by (simp add: asks_of_def request_kind_def new_policy_request_def)

text \<open>A subscriber that was asked answered, did not deny, and asked for nothing that refuses.\<close>

definition agrees :: "(hook_effect \<Rightarrow> bool) \<Rightarrow> policy_request \<Rightarrow> policy_entry \<Rightarrow> bool" where
  "agrees refuses r e \<longleftrightarrow> consents r e \<and> list_all (\<lambda>x. \<not> refuses x) (contribution r e)"

lemma emit_outcome:
  assumes "class_of (payload_event p) = Gated"
  shows "denial_of (emit sources p) = None \<longleftrightarrow>
      list_all (consents (asks_of sources p)) (asked_entries sources (payload_event p))"
    and "denial_of (emit sources p) = None \<Longrightarrow>
      verdict_effects (emit sources p) =
        concat (map (contribution (asks_of sources p)) (asked_entries sources (payload_event p)))"
  using emit_gated [of "asks_of sources p" "ordered_entries sources" "[]"] assms
  by (simp_all add: emit_def emit_with_def asked_entries_def flip: asks_of_def)

lemma list_all_concat_map: "list_all P (concat (map f xs)) \<longleftrightarrow> list_all (\<lambda>x. list_all P (f x)) xs"
  by (induction xs) simp_all

lemma agrees_all: "list_all (agrees refuses r) es \<longleftrightarrow>
    list_all (consents r) es \<and> list_all (\<lambda>x. \<not> refuses x) (concat (map (contribution r) es))"
  by (induction es) (auto simp: agrees_def)

text \<open>C26. A tool call goes on only when every subscriber that is asked agrees, and then it does; silence,
  a panic, a denial and a block of any of them stop it. The same holds of a request for permission,
  where a denying answer to the request refuses too.\<close>

theorem gates_need_every_consent:
  "((\<exists>i. run_pre_tool_use_hooks sources tool input use_id = PreContinue i) \<longleftrightarrow>
     list_all (agrees is_block (asks_of sources (OnPreToolUse tool input use_id)))
       (asked_entries sources EvPreToolUse)) \<and>
   ((\<exists>r. run_permission_request_hooks sources tool input use_id why = HookDenied r) \<longleftrightarrow>
     \<not> list_all (agrees is_refusal (asks_of sources (OnPermissionRequest tool (input_object input) use_id why)))
       (asked_entries sources EvPermissionRequest))"
proof
  let ?p = "OnPreToolUse tool input use_id" and ?q = "OnPermissionRequest tool (input_object input) use_id why"
  have "class_of (payload_event ?p) = Gated" "class_of (payload_event ?q) = Gated"
    by (simp_all add: class_of_def payload_event_def)
  note pre = emit_outcome [OF this(1), of sources] and req = emit_outcome [OF this(2), of sources]
  show "(\<exists>i. run_pre_tool_use_hooks sources tool input use_id = PreContinue i) \<longleftrightarrow>
      list_all (agrees is_block (asks_of sources ?p)) (asked_entries sources EvPreToolUse)"
    using pre
    by (cases "denial_of (emit sources ?p)")
      (simp_all add: run_pre_tool_use_hooks_def agrees_all pre_effects_block payload_event_def)
  show "(\<exists>r. run_permission_request_hooks sources tool input use_id why = HookDenied r) \<longleftrightarrow>
      \<not> list_all (agrees is_refusal (asks_of sources ?q)) (asked_entries sources EvPermissionRequest)"
    using req
    by (cases "denial_of (emit sources ?q)")
      (simp_all add: run_permission_request_hooks_def agrees_all apply_permission_request_effects_def
        permission_effects_refuse payload_event_def)
qed

subsection \<open>Findings\<close>

text \<open>A sample runtime: a matcher is compared as it stands, a hook ends as its command says.\<close>

definition sample_serde :: hook_serde where
  "sample_serde =
     \<lparr>hs_from_str = (\<lambda>s. if s = ''{}'' then Inr (JObject []) else Inl ''expected value''),
      hs_decode = (\<lambda>_. Inr (SyncOutput silent_output)), hs_pretty = (\<lambda>_. ''{}''), hs_pretty_output = (\<lambda>_. ''{}''),
      hs_ellipsis = ''...''\<rparr>"

definition answers :: "hook_specific_output \<Rightarrow> executed_result" where
  "answers specific =
     \<lparr>ex_json = Some (SyncOutput (silent_output\<lparr>so_specific := Some specific\<rparr>)), ex_plain_text = None,
      ex_validation_error = None, ex_exit_code = 0, ex_stderr = [], ex_command_label = ''b''\<rparr>"

definition sample_execute :: "individual_hook \<Rightarrow> hook_invocation \<Rightarrow> (execution_error + executed_result) option" where
  "sample_execute h input =
     (let c = display_text (ih_config h)
      in Some (Inr
        (if c = ''block'' then command_result sample_serde c [] ''no'' (Some 2)
         else if c = ''defer'' then answers (ForPreToolUse (Some HookDefer) None None None)
         else if c = ''allow'' then answers (ForPreToolUse (Some HookAllow) None None None)
         else if c = ''clean'' then answers (ForPreToolUse None None (Some [(''command'', JString ''ls'')]) None)
         else command_result sample_serde c [] [] (Some 0))))"

definition sample_hooks :: hook_env where
  "sample_hooks =
     \<lparr>he_serde = sample_serde, he_regex = (\<lambda>p. Some (\<lambda>v. p = ''^(?:'' @ v @ '')$'')),
      he_if = (\<lambda>_ _ _. Inr True), he_execute = sample_execute, he_join_error = [], he_skip_dedupe = False\<rparr>"

definition no_inputs :: metadata_inputs where
  "no_inputs = \<lparr>mi_tool_names = [], mi_agent_types = [], mi_elicitation_servers = []\<rparr>"

definition some_context :: invocation_context where
  "some_context =
     \<lparr>ic_cwd = ''/w'', ic_transcript_path = [], ic_session_id = ''s'', ic_permission_mode = None, ic_agent_id = None,
      ic_agent_type = None\<rparr>"

definition user_hook :: "string \<Rightarrow> string \<Rightarrow> individual_hook" where
  "user_hook matcher c =
     \<lparr>ih_event = EvPreToolUse, ih_config = bare_command c, ih_matcher = Some matcher, ih_source = FromUserSettings,
      ih_plugin_name = None\<rparr>"

definition snapshot_of :: "individual_hook list \<Rightarrow> settings_snapshot" where
  "snapshot_of hs =
     \<lparr>sn_settings_hooks = hs, sn_plugin_hooks = [], sn_session_hooks = [], sn_registered = [],
      sn_allow_managed_hooks_only = False\<rparr>"

text \<open>What the hooks of a user make of a call.\<close>

definition settings_sources :: "individual_hook list \<Rightarrow> policy_sources" where
  "settings_sources hs =
     \<lparr>ps_seat = None,
      ps_local = [\<lparr>pe_id = ''core/settings-hooks'', pe_order = 0, pe_active = True,
        pe_subscriber = \<lparr>sub_interest = (\<lambda>_. Some True), sub_budget = None,
          sub_decide = (\<lambda>r. Inr (settings_hook_decide sample_hooks (\<lambda>_. Some (snapshot_of hs)) no_inputs r))\<rparr>\<rparr>],
      ps_context = some_context, ps_agent = None\<rparr>"

definition call_under :: "individual_hook list \<Rightarrow> string \<Rightarrow> json \<Rightarrow> pre_tool_decision" where
  "call_under hs tool input = run_pre_tool_use_hooks (settings_sources hs) tool input ''t1''"

text \<open>A hook that exits with 2 blocks the call, unless another hook of the firing has given an answer, and be
  it to defer: the answer is then all that is read.\<close>

theorem exit_two_lost_beside_an_answer:
  "(\<exists>why. call_under [user_hook ''Bash'' ''block''] ''Bash'' (JObject []) = PreBlocked why) \<and>
   call_under [user_hook ''Bash'' ''block'', user_hook ''Bash'' ''defer''] ''Bash'' (JObject []) = PreContinue (JObject []) \<and>
   call_under [user_hook ''Bash'' ''block'', user_hook ''Bash'' ''allow''] ''Bash'' (JObject []) = PreContinue (JObject [])"
proof (intro conjI)
  have "case call_under [user_hook ''Bash'' ''block''] ''Bash'' (JObject []) of PreBlocked _ \<Rightarrow> True | _ \<Rightarrow> False"
    by code_simp
  then show "\<exists>why. call_under [user_hook ''Bash'' ''block''] ''Bash'' (JObject []) = PreBlocked why"
    by (simp split: pre_tool_decision.splits)
  show "call_under [user_hook ''Bash'' ''block'', user_hook ''Bash'' ''defer''] ''Bash'' (JObject []) = PreContinue (JObject [])"
    by code_simp
  show "call_under [user_hook ''Bash'' ''block'', user_hook ''Bash'' ''allow''] ''Bash'' (JObject []) = PreContinue (JObject [])"
    by code_simp
qed

text \<open>A hook that rewrites the input of a call is undone by one that declines to decide.\<close>

theorem rewrite_lost_beside_a_deferral:
  "call_under [user_hook ''Bash'' ''clean''] ''Bash'' (JObject []) = PreContinue (JObject [(''command'', JString ''ls'')]) \<and>
   call_under [user_hook ''Bash'' ''clean'', user_hook ''Bash'' ''defer''] ''Bash'' (JObject []) = PreContinue (JObject [])"
  by (intro conjI; code_simp)

text \<open>A command that exits with 2 to block, and whose output only looks like JSON, blocks nothing.\<close>

theorem exit_two_lost_with_bad_output:
  assumes "prefix [ch_lbrace] (trim stdout)" and "validate_hook_json serde (trim stdout) = Inl err"
  shows "project_one_result serde (command_result serde shown stdout stderr (Some 2)) e =
    Inl \<lparr>le_command = shown, le_error = err @ EXPECTED_SCHEMA\<rparr>"
  using assms by (simp add: project_one_result_def command_result_def parse_hook_output_def)

text \<open>Four events have matchers in the table of metadata and give them nothing to match: a hook under a
  matcher, even the star, never runs.\<close>

theorem matchers_without_a_value:
  assumes "payload_event p \<in> {EvNotification, EvSetup, EvConfigChange, EvInstructionsLoaded}"
  shows "event_supports_matcher inputs (payload_event p) \<and>
    (matcher_applies env matcher (matcher_value p) \<longleftrightarrow> matcher = [])"
proof -
  have "matcher_value p = None" using assms by (cases p) (simp_all add: payload_event_def matcher_value_def)
  moreover have "event_supports_matcher inputs (payload_event p)"
    using assms by (auto simp: event_supports_matcher_def matcher_metadata_for_event_def)
  ultimately show ?thesis by (simp add: matcher_applies_def)
qed

text \<open>The runtime the product builds runs a hook whatever its \<open>if\<close> says.\<close>

theorem predicates_never_consulted:
  "predicate_holds (env\<lparr>he_if := allow_all_if, he_skip_dedupe := b\<rparr>) input h"
  by (simp add: predicate_holds_def allow_all_if_def split: option.split)

text \<open>A hook that asks for a prompt gets none: the call goes on as if it had said nothing, and so does the
  request for permission.\<close>

theorem ask_is_dropped:
  "apply_pre_tool_use_effects input [AskPermission why None] = PreContinue input \<and>
   apply_permission_request_effects input [AskPermission why updated] = HookContinue input"
  by (simp add: apply_permission_request_effects_def)

text \<open>Under \<open>allowManagedHooksOnly\<close> the hooks of plugins go too.\<close>

theorem managed_only_drops_plugin_hooks:
  assumes "sn_allow_managed_hooks_only snapshot" "sn_registered snapshot = []"
  shows "select_hooks env (settings_provider snapshot) inputs input = []"
  using assms
  by (simp add: select_hooks_def settings_provider_def group_hooks_by_event_and_matcher_def
      sorted_matchers_for_event_def dedupe_by_identity_def)

text \<open>Where the table of metadata says that exit code 2 prevents a task from being created or completed, a
  teammate from idling or an elicitation, no effect comes of it.\<close>

theorem exit_two_without_effect:
  assumes "e \<in> {EvTaskCreated, EvTaskCompleted, EvTeammateIdle, EvElicitation}" "ag_permission_behavior a = None"
  shows "list_all (\<lambda>effect. \<not> is_block effect \<and> (\<forall>why. effect \<noteq> BlockStop why)) (project_effects e a)"
proof -
  let ?P = "\<lambda>effect. \<not> is_block effect \<and> (\<forall>why. effect \<noteq> BlockStop why)"
  have none: "\<not> is_tool_decision_event e" "blocking_effects e a = []" "goal_effects e a = []"
    using assms by (auto simp: blocking_effects_def is_tool_decision_event_def goal_effects_def)
  have "list_all ?P (map InjectContext cs)" for cs by (simp add: list_all_iff is_block_def)
  moreover have "list_all ?P (case ag_system_message a of Some m \<Rightarrow> if m \<noteq> [] then [SystemMessage m] else [] | None \<Rightarrow> [])"
    by (simp add: is_block_def split: option.split)
  ultimately show ?thesis
    using none unfolding project_effects_def list_all_append by (simp add: is_block_def)
qed

end
