(* ===== verification/Acp_Broker.thy ===== *)
theory Acp_Broker
  imports Permission_Broker
begin

text \<open>
  The broker of a session hosted over ACP, \<open>AcpPermissionBroker\<close> of \<open>crates/rebon-core/src/lib.rs\<close>. The
  modes and the listeners are those of the channel's broker; the person is behind a JSON-RPC client.

  The client is the function \<open>ab_publisher\<close>: what comes back of a request, or the text of the error of the
  transport. The broker's denial sink is the one that keeps nothing.
\<close>

subsection \<open>The request\<close>

record acp_request =
  ar_session :: string
  ar_tool_call :: string
  ar_options :: "query_option list"
  ar_title :: "string option"
  ar_message :: "string option"
  ar_tool_name :: string
  ar_tool_input :: "json option"
  ar_metadata :: "json option"

datatype acp_outcome = OutcomeSelected | OutcomeCancelled

record acp_result =
  ao_outcome :: acp_outcome
  ao_option_id :: "string option"
  ao_updated_input :: "json option"

record acp_broker =
  ab_publisher :: "acp_request \<Rightarrow> string + acp_result"
  ab_session :: string
  ab_mode :: "mode_provider option"

definition acp_option_label :: "string \<Rightarrow> string" where
  "acp_option_label option_id =
     (if option_id = ''yes_clear_context_auto'' then ''Yes, clear context and run with auto mode''
      else if option_id = ''yes_auto'' then ''Yes, run with auto mode''
      else if option_id = ''yes_accept_edits'' then ''Yes, auto-accept edits''
      else if option_id = ''yes_default'' then ''Yes, manually approve edits''
      else if option_id = ''allow_once'' then ''Allow once''
      else if option_id = ''allow_always'' then ''Allow always''
      else if option_id = ''reject_once'' then ''No, chat with this''
      else replace_char ch_underscore ch_space option_id)"

definition options_from_request :: "permission_request \<Rightarrow> query_option list" where
  "options_from_request req =
     (if request_options req = [] then
        [\<lparr>opt_id = ''allow_once'', opt_label = ''Allow once'', opt_kind = KindAllowOnce\<rparr>,
         \<lparr>opt_id = ''reject_once'', opt_label = ''Reject once'', opt_kind = KindRejectOnce\<rparr>]
      else map (\<lambda>i. \<lparr>opt_id = i, opt_label = acp_option_label i, opt_kind = option_kind i\<rparr>) (request_options req))"

definition unless_blank :: "string \<Rightarrow> string option" where
  "unless_blank s = (if trim s = [] then None else Some s)"

definition request_params ::
  "acp_broker \<Rightarrow> tool_context \<Rightarrow> permission_request \<Rightarrow> string \<Rightarrow> json option \<Rightarrow> acp_request" where
  "request_params b ctx req tool input =
     \<lparr>ar_session = ab_session b,
      ar_tool_call = (case ctx_tool_use_id ctx of Some i \<Rightarrow> i | None \<Rightarrow> ''tool-call''),
      ar_options = options_from_request req, ar_title = unless_blank (title req),
      ar_message = unless_blank (message req), ar_tool_name = tool, ar_tool_input = input,
      ar_metadata = request_metadata req\<rparr>"

subsection \<open>The answer\<close>

text \<open>On this transport the feedback rides in the input.\<close>

definition extra_text_from_input :: "json option \<Rightarrow> string option" where
  "extra_text_from_input input = trimmed_text (Option.bind input (get_str ''permissionExtraText''))"

definition result_of_answer :: "json \<Rightarrow> permission_decision \<Rightarrow> permission_answer \<Rightarrow> acp_result" where
  "result_of_answer input d a =
     (case a of
        AnswerCancelled \<Rightarrow> \<lparr>ao_outcome = OutcomeCancelled, ao_option_id = None, ao_updated_input = None\<rparr>
      | Selected option_id updated extra \<Rightarrow>
          let updated = (case updated of Some i \<Rightarrow> Some i | None \<Rightarrow> updated_input d)
          in \<lparr>ao_outcome = OutcomeSelected, ao_option_id = Some option_id,
              ao_updated_input =
                (if extra = None then updated
                 else Some (append_permission_extra_text extra (case updated of Some i \<Rightarrow> i | None \<Rightarrow> input)))\<rparr>)"

definition acp_answered ::
  "string \<Rightarrow> json \<Rightarrow> tool_context \<Rightarrow> permission_decision \<Rightarrow> seat_rule list \<Rightarrow> acp_result \<Rightarrow> broker_action" where
  "acp_answered tool input ctx d rs r =
     (let extra = extra_text_from_input (ao_updated_input r);
          run_input = (case ao_updated_input r of Some i \<Rightarrow> i | None \<Rightarrow> effective_input d input)
      in case (ao_outcome r, ao_option_id r) of
           (OutcomeCancelled, _) \<Rightarrow> refuse tool ''permission request cancelled''
         | (OutcomeSelected, None) \<Rightarrow> RunTool run_input ctx extra
         | (OutcomeSelected, Some option_id) \<Rightarrow>
             if is_reject_option option_id then
               (case (if option_kind option_id = KindRejectOnce then workflow_revision_requested_result tool extra
                      else None) of
                  Some output \<Rightarrow> Finish (Inr output)
                | None \<Rightarrow> refuse tool (permission_denial_reason option_id extra (seat_rejection_note rs tool)))
             else call_approved tool option_id run_input ctx rs extra)"

subsection \<open>The broker\<close>

definition acp_prompt ::
  "acp_broker \<Rightarrow> broker_world \<Rightarrow> string \<Rightarrow> json \<Rightarrow> tool_context \<Rightarrow> permission_decision \<Rightarrow> broker_action" where
  "acp_prompt b world tool input ctx d =
     (case request d of
        None \<Rightarrow> refuse tool (case reason d of Some why \<Rightarrow> why | None \<Rightarrow> ''tool permission request missing payload'')
      | Some req \<Rightarrow>
          let params = request_params b ctx req tool (updated_input d);
              act = acp_answered tool input (granted_context tool ctx d) d (bw_rules world)
          in case Option.bind (bw_listeners world) (\<lambda>listeners.
                kernel_ask_waterfall listeners (ask_payload (ab_session b) tool (ctx_tool_use_id ctx)
                  (title req) (message req) (ar_tool_input params) (ar_options params))) of
               Some a \<Rightarrow> act (result_of_answer input d a)
             | None \<Rightarrow>
                 (case ab_publisher b params of
                    Inl e \<Rightarrow> Finish (Inl (Execution tool e))
                  | Inr r \<Rightarrow> act r))"

definition acp_mode :: "acp_broker \<Rightarrow> permission_mode" where
  "acp_mode b = (case ab_mode b of Some p \<Rightarrow> current_mode p | None \<Rightarrow> Default)"

definition acp_resolve ::
  "gate_env \<Rightarrow> acp_broker \<Rightarrow> broker_world \<Rightarrow> string \<Rightarrow> json \<Rightarrow> tool_context \<Rightarrow> permission_decision \<Rightarrow>
   broker_state \<Rightarrow> broker_action \<times> broker_state" where
  "acp_resolve env b world tool input ctx d s =
     (case behavior d of
        Allow \<Rightarrow> (RunTool (effective_input d input) ctx None, s)
      | Deny \<Rightarrow> (denied_because tool d, s)
      | Ask \<Rightarrow>
          let (outcome, g) = resolve_ask_under_mode env (bw_gate world) (acp_mode b) (ab_mode b) tool
                (effective_input d input) ctx (bw_rules world) (gate_of s);
              s = s\<lparr>gate_of := g\<lparr>sink := sink (gate_of s)\<rparr>\<rparr>
          in case outcome of
               ModeRun _ \<Rightarrow> (RunTool (effective_input d input) (granted_context tool ctx d) None, s)
             | ModeDeny why \<Rightarrow> (refuse tool why, s)
             | ModeAsk \<Rightarrow> (acp_prompt b world tool input ctx d, s))"

end
