(* ===== verification/Broker_Chain.thy ===== *)
theory Broker_Chain
  imports Acp_Broker Policy_Seat Auto_Input
begin

text \<open>
  The brokers around the one that ends at a person: the unattended ones and the worker's of
  \<open>crates/rebon-tool/src/lib.rs\<close>, the hooks' of \<open>crates/rebon-core/src/hooks.rs\<close>, and how a worker's
  broker reads the chain it delegates to (\<open>crates/rebon-core/src/permission.rs\<close>).

  A broker is a value of a datatype, as the session builds it. Parameters, beside those of the gate: the
  host of a URL and the classifier of git commands inside a workflow.
\<close>

subsection \<open>Brokers\<close>

text \<open>The prompt broker a worker's gate holds.\<close>

datatype prompt_surface = PromptChannel channel_broker | PromptAcp acp_broker

record worker_settings =
  ws_background_probe :: "bool option"
  ws_exempt_deletion_root :: "string option"
  ws_background_deletion_ask :: bool
  ws_auto_mode_gate :: "prompt_surface option"

datatype broker =
    ChannelBroker channel_broker
  | AcpBroker acp_broker
  | DenyAskBroker
  | AutoApproveBroker
  | RulesBroker policy_store broker
  | HookedBroker policy_sources broker
  | WorkerBroker worker_settings broker

fun find_rules_policy_store :: "broker \<Rightarrow> policy_store option" where
  "find_rules_policy_store (RulesBroker store _) = Some store"
| "find_rules_policy_store (HookedBroker _ inner) = find_rules_policy_store inner"
| "find_rules_policy_store (WorkerBroker _ delegate) = find_rules_policy_store delegate"
| "find_rules_policy_store _ = None"

fun user_prompt_permission_broker :: "bool \<Rightarrow> broker \<Rightarrow> prompt_surface option" where
  "user_prompt_permission_broker unwrap (ChannelBroker b) = Some (PromptChannel b)"
| "user_prompt_permission_broker unwrap (AcpBroker b) = Some (PromptAcp b)"
| "user_prompt_permission_broker unwrap (WorkerBroker _ delegate) =
     (if unwrap then user_prompt_permission_broker unwrap delegate else None)"
| "user_prompt_permission_broker unwrap (HookedBroker _ inner) = user_prompt_permission_broker unwrap inner"
| "user_prompt_permission_broker unwrap (RulesBroker _ delegate) = user_prompt_permission_broker unwrap delegate"
| "user_prompt_permission_broker unwrap _ = None"

definition broker_of :: "prompt_surface \<Rightarrow> broker" where
  "broker_of surface = (case surface of PromptChannel b \<Rightarrow> ChannelBroker b | PromptAcp b \<Rightarrow> AcpBroker b)"

definition sub_agent_sensitive_permission_broker_from :: "broker \<Rightarrow> bool \<Rightarrow> broker option" where
  "sub_agent_sensitive_permission_broker_from broker unwrap =
     map_option (\<lambda>base. case find_rules_policy_store broker of
         Some store \<Rightarrow> RulesBroker store (broker_of base)
       | None \<Rightarrow> broker_of base) (user_prompt_permission_broker unwrap broker)"

definition sub_agent_auto_mode_gate_from :: "broker \<Rightarrow> prompt_surface option" where
  "sub_agent_auto_mode_gate_from broker = user_prompt_permission_broker True broker"

definition surface_hooks :: "prompt_surface \<Rightarrow> mode_provider option" where
  "surface_hooks surface = (case surface of PromptChannel b \<Rightarrow> cb_hooks b | PromptAcp b \<Rightarrow> ab_mode b)"

definition sub_agent_auto_mode_from :: "broker \<Rightarrow> string option" where
  "sub_agent_auto_mode_from broker =
     Option.bind (user_prompt_permission_broker True broker) (\<lambda>surface.
       Option.bind (surface_hooks surface) (\<lambda>p.
         if auto_gates p (current_mode p) then Some ''auto'' else None))"

text \<open>What the spawner of a sub-agent builds, from the broker of the parent's turn, where it has one, and of the
  engine.\<close>

definition spawned_worker :: "bool option \<Rightarrow> string option \<Rightarrow> bool \<Rightarrow> bool \<Rightarrow> broker option \<Rightarrow> broker \<Rightarrow> broker" where
  "spawned_worker probe root prompts_unavailable in_workflow parent engine_broker =
     (let sensitive =
            (case Option.bind parent (\<lambda>b. sub_agent_sensitive_permission_broker_from b in_workflow) of
               Some b \<Rightarrow> b | None \<Rightarrow> engine_broker)
      in WorkerBroker
           \<lparr>ws_background_probe = probe, ws_exempt_deletion_root = root,
            ws_background_deletion_ask = \<not> prompts_unavailable,
            ws_auto_mode_gate = sub_agent_auto_mode_gate_from sensitive\<rparr> sensitive)"

record chain_env =
  ce_gate :: gate_env
  ce_host :: url_host
  ce_workflow_git :: "string \<Rightarrow> json \<Rightarrow> bool"

subsection \<open>Without a person\<close>

definition deny_ask_resolve :: "string \<Rightarrow> json \<Rightarrow> tool_context \<Rightarrow> permission_decision \<Rightarrow> broker_action" where
  "deny_ask_resolve tool input ctx d =
     (case behavior d of
        Allow \<Rightarrow> RunTool (effective_input d input) ctx None
      | Deny \<Rightarrow> denied_because tool d
      | Ask \<Rightarrow>
          refuse tool
            (case request d of
               Some r \<Rightarrow> ''permission required: '' @ title r
             | None \<Rightarrow> (case reason d of Some w \<Rightarrow> w | None \<Rightarrow> ''tool permission request is not yet wired'')))"

definition auto_approve_resolve :: "string \<Rightarrow> json \<Rightarrow> tool_context \<Rightarrow> permission_decision \<Rightarrow> broker_action" where
  "auto_approve_resolve tool input ctx d =
     (if behavior d = Deny then denied_because tool d else RunTool (effective_input d input) ctx None)"

subsection \<open>The gate of a worker\<close>

datatype gate_verdict = NotInAuto | GateAllowed | GateDenied string

definition is_agent_message_tool :: "string \<Rightarrow> bool" where
  "is_agent_message_tool tool \<longleftrightarrow> tool = ''SendMessage'' \<or> tool = ''group_send''"

definition worker_message_needs_approval_reason :: string where
  "worker_message_needs_approval_reason =
     ''this message needs explicit user approval before it can be sent, which a background agent cannot request. The message was NOT sent. Do not retry it; continue with the rest of the task without it.''"

text \<open>The sink of the ACP broker keeps nothing.\<close>

definition worker_gate_verdict ::
  "gate_env \<Rightarrow> channel_broker option \<Rightarrow> 64 word \<Rightarrow> gate_outcome \<Rightarrow> string \<Rightarrow> json \<Rightarrow> tool_context \<Rightarrow> broker_state \<Rightarrow>
   gate_verdict \<times> broker_state" where
  "worker_gate_verdict env channel now outcome tool input ctx s =
     (case outcome of
        GateRun source \<Rightarrow>
          (GateAllowed, case channel of Some b \<Rightarrow> emit_auto_mode_allowed b ctx source s | None \<Rightarrow> s)
      | GateDeny why fresh \<Rightarrow>
          (GateDenied why,
           if fresh \<and> channel \<noteq> None then
             s\<lparr>gate_of := (gate_of s)\<lparr>sink :=
                 snd (record_denial (build_denial_input env now tool ctx input (Some why)) (sink (gate_of s)))\<rparr>\<rparr>
           else s)
      | GateAsk \<Rightarrow> (GateDenied worker_message_needs_approval_reason, s))"

definition channel_of :: "prompt_surface \<Rightarrow> channel_broker option" where
  "channel_of surface = (case surface of PromptChannel b \<Rightarrow> Some b | PromptAcp _ \<Rightarrow> None)"

definition check_gate ::
  "chain_env \<Rightarrow> broker_world \<Rightarrow> prompt_surface \<Rightarrow> string \<Rightarrow> json \<Rightarrow> tool_context \<Rightarrow> broker_state \<Rightarrow>
   gate_verdict \<times> broker_state" where
  "check_gate env world surface tool input ctx s =
     (case surface_hooks surface of
        None \<Rightarrow> (NotInAuto, s)
      | Some p \<Rightarrow>
          if \<not> auto_gates p (current_mode p) then (NotInAuto, s)
          else
            let (outcome, c) = auto_mode_gate (ce_gate env) (bw_gate world) tool input ctx (bw_rules world)
                  (verdicts (gate_of s));
                s = s\<lparr>gate_of := (gate_of s)\<lparr>verdicts := c\<rparr>\<rparr>
            in worker_gate_verdict (ce_gate env) (channel_of surface) (gw_now (bw_gate world)) outcome tool input ctx s)"

subsection \<open>The broker of a worker\<close>

definition SHARED_GIT_REASON :: string where
  "SHARED_GIT_REASON =
     ''this shared-worktree Git command requires explicit user approval, which a background workflow agent cannot request. The command was NOT run. Do not retry it or attempt another cleanup command.''"

definition BACKGROUND_REASON :: string where
  "BACKGROUND_REASON =
     ''this command requires interactive user approval, which a background agent cannot request. The command was NOT run. Do not retry it; continue with the rest of the task without it.''"

definition shared_git_request :: "json \<Rightarrow> tool_context \<Rightarrow> permission_decision" where
  "shared_git_request input ctx =
     (let command = (case get_str ''command'' input of Some c \<Rightarrow> c | None \<Rightarrow> ''<unknown command>'')
      in decision_ask
           (with_metadata
             (JObject [(''kind'', JString ''workflow_sensitive_git''),
                       (''workflowNestingDepth'', JNumber (int (ctx_nesting_depth ctx)))])
             (with_options [''allow_once'', ''reject_once'']
               (new_request ''Approve shared-worktree Git operation''
                 (''A workflow agent wants to run a Git command that can overwrite, hide, or move shared working-tree changes:'' @
                  [ch_lf, ch_lf] @ command @ [ch_lf, ch_lf] @
                  ''Only approve if this exact operation was explicitly requested and will not discard user or other-agent work. (Non-destructive alternatives like '' @
                  [ch_backtick] @ ''git switch'' @ [ch_backtick] @ '', '' @ [ch_backtick] @ ''git checkout -b'' @ [ch_backtick] @
                  '', and plain '' @ [ch_backtick] @ ''git pull'' @ [ch_backtick] @ '' do not require approval.)''))))
           (Some input))"

definition is_unattended :: "worker_settings \<Rightarrow> tool_context \<Rightarrow> bool" where
  "is_unattended w ctx \<longleftrightarrow> ctx_prompts_unavailable ctx \<or> ws_background_probe w = Some True"

definition within_workflow :: "tool_context \<Rightarrow> bool" where
  "within_workflow ctx \<longleftrightarrow> ctx_nesting_depth ctx > 0"

definition grill_exit_plan :: "string \<Rightarrow> tool_context \<Rightarrow> bool" where
  "grill_exit_plan tool ctx \<longleftrightarrow>
     tool = ''ExitPlanMode'' \<and> is_some_and (\<lambda>u. up_profile u = GrillProfile) (ctx_ultraplan ctx)"

text \<open>The deletion of a background worker that may float to a person; \<open>None\<close> is a panic of the classifier.\<close>

definition deletion_ask_floats :: "worker_settings \<Rightarrow> string \<Rightarrow> json \<Rightarrow> bool option" where
  "deletion_ask_floats w tool input =
     (if ws_background_deletion_ask w \<and> is_sensitive_content_deletion_input tool input
      then map_option Not (is_sensitive_beyond_deletions tool input) else Some False)"

text \<open>The parts of \<open>resolve\<close>: the message tools, and an ask of a sensitive call. \<open>None\<close> falls through to
  what comes next; \<open>delegate\<close> is the delegate's \<open>resolve\<close>.\<close>

definition worker_message ::
  "chain_env \<Rightarrow> broker_world \<Rightarrow> worker_settings \<Rightarrow> string \<Rightarrow> json \<Rightarrow> tool_context \<Rightarrow> permission_decision \<Rightarrow>
   broker_state \<Rightarrow> broker_action option \<times> broker_state" where
  "worker_message env world w tool input ctx d s =
     (if behavior d \<noteq> Deny \<and> is_agent_message_tool tool then
        (case ws_auto_mode_gate w of
           None \<Rightarrow> (None, s)
         | Some gate \<Rightarrow>
             (case check_gate env world gate tool (effective_input d input) ctx s of
                (NotInAuto, s) \<Rightarrow> (None, s)
              | (GateAllowed, s) \<Rightarrow> (Some (RunTool (effective_input d input) ctx None), s)
              | (GateDenied why, s) \<Rightarrow> (Some (refuse tool why), s)))
      else (None, s))"

definition unattended_ask ::
  "chain_env \<Rightarrow> broker_world \<Rightarrow> worker_settings \<Rightarrow>
   (permission_decision \<Rightarrow> broker_state \<Rightarrow> broker_action \<times> broker_state) \<Rightarrow>
   string \<Rightarrow> json \<Rightarrow> tool_context \<Rightarrow> permission_decision \<Rightarrow> broker_state \<Rightarrow> broker_action \<times> broker_state" where
  "unattended_ask env world w delegate tool input ctx d s =
     (let (verdict, s) =
            (case ws_auto_mode_gate w of
               Some gate \<Rightarrow>
                 if tool = AGENT_TOOL_NAME then check_gate env world gate tool (effective_input d input) ctx s
                 else (NotInAuto, s)
             | None \<Rightarrow> (NotInAuto, s))
      in case verdict of
           GateAllowed \<Rightarrow>
             (RunTool (effective_input d input)
               (case Option.bind (request d) (context_with_permission_authorized_paths AGENT_TOOL_NAME ctx) of
                  Some c \<Rightarrow> c | None \<Rightarrow> ctx) None, s)
         | GateDenied why \<Rightarrow> (refuse tool why, s)
         | NotInAuto \<Rightarrow>
             (case deletion_ask_floats w tool (effective_input d input) of
                None \<Rightarrow> (ToolPanic, s)
              | Some True \<Rightarrow> delegate d s
              | Some False \<Rightarrow> (refuse tool BACKGROUND_REASON, s)))"

definition worker_ask ::
  "chain_env \<Rightarrow> broker_world \<Rightarrow> worker_settings \<Rightarrow>
   (permission_decision \<Rightarrow> broker_state \<Rightarrow> broker_action \<times> broker_state) \<Rightarrow>
   string \<Rightarrow> json \<Rightarrow> tool_context \<Rightarrow> permission_decision \<Rightarrow> broker_state \<Rightarrow> broker_action \<times> broker_state" where
  "worker_ask env world w delegate tool input ctx d s =
     (case (if grill_exit_plan tool ctx \<or> tool = AGENT_TOOL_NAME then Some True
            else is_auto_mode_sensitive_tool_input_with_exempt_deletion_root (ge_resolve (ce_gate env)) tool
              (effective_input d input) (ws_exempt_deletion_root w)) of
        None \<Rightarrow> (ToolPanic, s)
      | Some True \<Rightarrow>
          if is_unattended w ctx then unattended_ask env world w delegate tool input ctx d s else delegate d s
      | Some False \<Rightarrow> (auto_approve_resolve tool input ctx d, s))"

definition worker_resolve ::
  "chain_env \<Rightarrow> broker_world \<Rightarrow> worker_settings \<Rightarrow>
   (permission_decision \<Rightarrow> broker_state \<Rightarrow> broker_action \<times> broker_state) \<Rightarrow>
   string \<Rightarrow> json \<Rightarrow> tool_context \<Rightarrow> permission_decision \<Rightarrow> broker_state \<Rightarrow> broker_action \<times> broker_state" where
  "worker_resolve env world w delegate tool input ctx d s =
     (case worker_message env world w tool input ctx d s of
        (Some action, s) \<Rightarrow> (action, s)
      | (None, s) \<Rightarrow>
          if behavior d \<noteq> Deny \<and> within_workflow ctx \<and> \<not> ctx_isolated_worktree ctx \<and>
             ce_workflow_git env tool (effective_input d input) then
            (if is_unattended w ctx then (refuse tool SHARED_GIT_REASON, s)
             else delegate (shared_git_request (effective_input d input) ctx) s)
          else if behavior d = Ask then worker_ask env world w delegate tool input ctx d s
          else (auto_approve_resolve tool input ctx d, s))"

subsection \<open>The broker of the hooks\<close>

text \<open>The event of a denial goes out afterwards; its effects change nothing.\<close>

definition decision_reason :: "permission_decision \<Rightarrow> string option" where
  "decision_reason d = (case reason d of Some r \<Rightarrow> Some r | None \<Rightarrow> map_option message (request d))"

definition hook_decision_of ::
  "policy_sources \<Rightarrow> string \<Rightarrow> json \<Rightarrow> tool_context \<Rightarrow> permission_decision \<Rightarrow> permission_hook_decision" where
  "hook_decision_of sources tool input ctx d =
     run_permission_request_hooks sources tool input (case ctx_tool_use_id ctx of Some i \<Rightarrow> i | None \<Rightarrow> [])
       (decision_reason d)"

definition hooked_resolve ::
  "policy_sources \<Rightarrow>
   (json \<Rightarrow> permission_decision \<Rightarrow> broker_state \<Rightarrow> broker_action \<times> broker_state) \<Rightarrow>
   string \<Rightarrow> json \<Rightarrow> tool_context \<Rightarrow> permission_decision \<Rightarrow> broker_state \<Rightarrow> broker_action \<times> broker_state" where
  "hooked_resolve sources inner tool input ctx d s =
     (case hook_decision_of sources tool input ctx d of
        HookContinue i \<Rightarrow> inner i d s
      | HookAllowed i \<Rightarrow> inner i (decision_allow i) s
      | HookDenied why \<Rightarrow> (refuse tool why, s))"

definition rules_resolve ::
  "chain_env \<Rightarrow> policy_store \<Rightarrow>
   (json \<Rightarrow> permission_decision \<Rightarrow> broker_state \<Rightarrow> broker_action \<times> broker_state) \<Rightarrow>
   string \<Rightarrow> json \<Rightarrow> tool_context \<Rightarrow> permission_decision \<Rightarrow> broker_state \<Rightarrow> broker_action \<times> broker_state" where
  "rules_resolve env store delegate tool input ctx d s =
     (case resolve (ce_host env) store delegate tool input (ctx_cwd ctx) d of
        Inl e \<Rightarrow> (Finish (Inl e), s)
      | Inr step \<Rightarrow> step s)"

subsection \<open>The chain\<close>

fun chain_resolve ::
  "chain_env \<Rightarrow> broker_world \<Rightarrow> broker \<Rightarrow> string \<Rightarrow> tool_context \<Rightarrow> json \<Rightarrow> permission_decision \<Rightarrow> broker_state \<Rightarrow>
   broker_action \<times> broker_state" where
  "chain_resolve env world (ChannelBroker b) tool ctx input d s =
     channel_resolve (ce_gate env) b world tool input ctx d s"
| "chain_resolve env world (AcpBroker b) tool ctx input d s =
     acp_resolve (ce_gate env) b world tool input ctx d s"
| "chain_resolve env world DenyAskBroker tool ctx input d s = (deny_ask_resolve tool input ctx d, s)"
| "chain_resolve env world AutoApproveBroker tool ctx input d s = (auto_approve_resolve tool input ctx d, s)"
| "chain_resolve env world (RulesBroker store delegate) tool ctx input d s =
     rules_resolve env store (chain_resolve env world delegate tool ctx) tool input ctx d s"
| "chain_resolve env world (HookedBroker sources inner) tool ctx input d s =
     hooked_resolve sources (chain_resolve env world inner tool ctx) tool input ctx d s"
| "chain_resolve env world (WorkerBroker w delegate) tool ctx input d s =
     worker_resolve env world w (chain_resolve env world delegate tool ctx input) tool input ctx d s"

end
