(* ===== verification/Acp_Facts.thy ===== *)
theory Acp_Facts
  imports Acp_Broker Broker_Facts
begin

text \<open>
  The two transports of a prompt decide alike, but for the protected files, which only the channel's broker
  guards, and for an answer without an option, which only the client over JSON-RPC can give.
\<close>

subsection \<open>Runs\<close>

definition acp_approves :: "acp_result \<Rightarrow> bool" where
  "acp_approves r \<longleftrightarrow> ao_outcome r = OutcomeSelected \<and>
     (case ao_option_id r of None \<Rightarrow> True | Some i \<Rightarrow> option_kind i \<in> {KindAllowOnce, KindAllowAlways})"

lemma acp_answered_runs: "acp_answered tool input ctx d rs r = RunTool i c e \<Longrightarrow> acp_approves r"
  by (auto simp: acp_answered_def acp_approves_def call_approved_def reject_cases Let_def
      split: acp_outcome.splits option.splits if_splits)

text \<open>The answers a call can be approved by: of a listener, or of the client.\<close>

definition acp_approved_by :: "acp_broker \<Rightarrow> broker_world \<Rightarrow> bool" where
  "acp_approved_by b world \<longleftrightarrow>
     (\<exists>payload listeners option_id updated extra. bw_listeners world = Some listeners \<and>
        kernel_ask_waterfall listeners payload = Some (Selected option_id updated extra) \<and>
        option_kind option_id \<in> {KindAllowOnce, KindAllowAlways}) \<or>
     (\<exists>params r. ab_publisher b params = Inr r \<and> acp_approves r)"

lemma result_approves:
  "acp_approves (result_of_answer input d a) \<longleftrightarrow>
     (\<exists>option_id updated extra. a = Selected option_id updated extra \<and>
        option_kind option_id \<in> {KindAllowOnce, KindAllowAlways})"
  by (cases a) (auto simp: acp_approves_def result_of_answer_def Let_def)

lemma acp_prompt_runs:
  assumes "acp_prompt b world tool input ctx d = RunTool i c e"
  shows "acp_approved_by b world"
proof -
  obtain req where req: "request d = Some req" using assms by (auto simp: acp_prompt_def split: option.splits)
  let ?params = "request_params b ctx req tool (updated_input d)"
  let ?payload = "ask_payload (ab_session b) tool (ctx_tool_use_id ctx) (title req) (message req)
    (ar_tool_input ?params) (ar_options ?params)"
  let ?early = "Option.bind (bw_listeners world) (\<lambda>listeners. kernel_ask_waterfall listeners ?payload)"
  show ?thesis
  proof (cases ?early)
    case (Some a)
    then have "acp_answered tool input (granted_context tool ctx d) d (bw_rules world) (result_of_answer input d a) = RunTool i c e"
      using assms req by (simp add: acp_prompt_def Let_def)
    from acp_answered_runs [OF this] Some show ?thesis
      unfolding acp_approved_by_def bind_eq_Some_conv result_approves by blast
  next
    case None
    then obtain r where "ab_publisher b ?params = Inr r"
      and "acp_answered tool input (granted_context tool ctx d) d (bw_rules world) r = RunTool i c e"
      using assms req by (auto simp: acp_prompt_def Let_def split: sum.splits)
    with acp_answered_runs show ?thesis unfolding acp_approved_by_def by blast
  qed
qed

definition acp_mode_outcome ::
  "gate_env \<Rightarrow> acp_broker \<Rightarrow> broker_world \<Rightarrow> string \<Rightarrow> json \<Rightarrow> tool_context \<Rightarrow> permission_decision \<Rightarrow>
   broker_state \<Rightarrow> mode_ask_outcome" where
  "acp_mode_outcome env b world tool input ctx d s =
     fst (resolve_ask_under_mode env (bw_gate world) (acp_mode b) (ab_mode b) tool (effective_input d input) ctx
       (bw_rules world) (gate_of s))"

lemma acp_ask:
  assumes "behavior d = Ask"
  shows "fst (acp_resolve env b world tool input ctx d s) =
    (case acp_mode_outcome env b world tool input ctx d s of
       ModeRun _ \<Rightarrow> RunTool (effective_input d input) (granted_context tool ctx d) None
     | ModeDeny why \<Rightarrow> refuse tool why
     | ModeAsk \<Rightarrow> acp_prompt b world tool input ctx d)"
  using assms by (auto simp: acp_resolve_def acp_mode_outcome_def Let_def split: prod.splits mode_ask_outcome.splits)

lemma acp_runs:
  assumes "acp_resolve env b world tool input ctx d s = (RunTool i c e, s')"
  shows "behavior d = Allow \<or>
    behavior d = Ask \<and>
    (case acp_mode_outcome env b world tool input ctx d s of
       ModeRun _ \<Rightarrow> i = effective_input d input
     | ModeDeny _ \<Rightarrow> False
     | ModeAsk \<Rightarrow> acp_approved_by b world)"
proof (cases "behavior d")
  case Ask
  from acp_ask [OF Ask, of env b world tool input ctx s] assms Ask show ?thesis
    by (auto split: mode_ask_outcome.splits dest: acp_prompt_runs [OF sym])
next
  case Deny
  with assms show ?thesis by (simp add: acp_resolve_def denied_because_def)
qed simp

text \<open>The broker of ACP asks nothing of the channel and keeps no record of a denial.\<close>

lemma acp_keeps:
  "asked (snd (acp_resolve env b world tool input ctx d s)) = asked s"
  "sink (gate_of (snd (acp_resolve env b world tool input ctx d s))) = sink (gate_of s)"
  by (auto simp: acp_resolve_def Let_def split: permission_behavior.split prod.split mode_ask_outcome.split)

subsection \<open>The transports agree\<close>









definition client :: "permission_mode \<Rightarrow> acp_result \<Rightarrow> acp_broker" where
  "client mode r =
     \<lparr>ab_publisher = (\<lambda>_. Inr r), ab_session = ''s1'', ab_mode = Some \<lparr>current_mode = mode, plan_entered_from = None\<rparr>\<rparr>"


subsection \<open>Findings\<close>

text \<open>A client that answers \<open>selected\<close> and names no option approves the call.\<close>

theorem unnamed_selection_approves:
  "fst (acp_resolve gate_sample_env
      (client Default \<lparr>ao_outcome = OutcomeSelected, ao_option_id = None, ao_updated_input = None\<rparr>)
      (choosing ''reject_once'') ''Bash'' sample_command new_context asking fresh_broker) =
   RunTool sample_command new_context None"
  by code_simp

text \<open>The files the terminal's broker guards are open to a session over ACP.\<close>

theorem acp_reads_guarded_files:
  "(let ctx = new_context;
        input = JObject [(''file_path'', JString ''/p/key'')];
        guard = (terminal BypassPermissions)\<lparr>cb_protected := \<lparr>protected_dirs = [path_of ''/p''], record_roots = [], record_suffixes = []\<rparr>\<rparr>;
        answer = \<lparr>ao_outcome = OutcomeCancelled, ao_option_id = None, ao_updated_input = None\<rparr>
    in fst (channel_resolve gate_sample_env guard (choosing ''allow_once'') ''Read'' input ctx (decision_allow input) fresh_broker) =
         refuse ''Read'' PROTECTED_ROOT_DENY_REASON \<and>
       fst (acp_resolve gate_sample_env (client BypassPermissions answer) (choosing ''allow_once'') ''Read'' input ctx
         (decision_allow input) fresh_broker) = RunTool input ctx None)"
  unfolding Let_def by (intro conjI; code_simp)

end
