(* ===== verification/Chain_Facts.thy ===== *)
theory Chain_Facts
  imports Broker_Chain Acp_Facts Hook_Facts Policy_Facts
begin

text \<open>
  What the chain of a session lets run, and what a worker's broker puts to a person. The findings are on
  inputs that change on the way, and on answers that go further than they should.
\<close>

subsection \<open>The session's chain\<close>

definition session_chain :: "policy_sources \<Rightarrow> policy_store \<Rightarrow> prompt_surface \<Rightarrow> broker" where
  "session_chain sources store surface = HookedBroker sources (RulesBroker store (broker_of surface))"

text \<open>What the stored rules say of a call.\<close>

definition stored_outcome ::
  "chain_env \<Rightarrow> policy_store \<Rightarrow> string \<Rightarrow> json \<Rightarrow> tool_context \<Rightarrow> permission_decision \<Rightarrow> policy_outcome" where
  "stored_outcome env store tool input ctx d =
     (case evaluate_read_batch (ce_host env) store tool (effective_input d input) of
        Some (outcome, _) \<Rightarrow> outcome
      | None \<Rightarrow> evaluate (ce_host env) store tool input (ctx_cwd ctx))"

lemma rules_runs:
  assumes "rules_resolve env store delegate tool input ctx d s = (RunTool i c e, s')"
  obtains d' where "delegate input d' s = (RunTool i c e, s')"
    "behavior d' = Deny \<or> (\<forall>v. stored_outcome env store tool input ctx d \<noteq> AutoDeny v)"
    "d' = d \<or> (\<exists>v. stored_outcome env store tool input ctx d = AutoAllow v) \<or> behavior d' = Ask"
proof -
  let ?o = "stored_outcome env store tool input ctx d"
  have "\<exists>d'. delegate input d' s = (RunTool i c e, s') \<and> (behavior d' = Deny \<or> (\<forall>v. ?o \<noteq> AutoDeny v)) \<and>
      (d' = d \<or> (\<exists>v. ?o = AutoAllow v) \<or> behavior d' = Ask)"
    using assms
    by (auto simp: rules_resolve_def resolve_def stored_outcome_def effective_input_def Let_def decision_ask_def
        decision_allow_def split: sum.splits if_splits option.splits policy_outcome.splits)
  with that show ?thesis by blast
qed

text \<open>The approval of the broker a session ends at: of its mode, or, where the mode asks, of whoever answers.\<close>

definition surface_approves ::
  "chain_env \<Rightarrow> prompt_surface \<Rightarrow> broker_world \<Rightarrow> string \<Rightarrow> json \<Rightarrow> tool_context \<Rightarrow> permission_decision \<Rightarrow>
   broker_state \<Rightarrow> bool" where
  "surface_approves env surface world tool input ctx d s =
     (case (case surface of
              PromptChannel b \<Rightarrow> mode_outcome (ce_gate env) b world tool input ctx d s
            | PromptAcp b \<Rightarrow> acp_mode_outcome (ce_gate env) b world tool input ctx d s) of
        ModeRun _ \<Rightarrow> True
      | ModeDeny _ \<Rightarrow> False
      | ModeAsk \<Rightarrow>
          (case surface of
             PromptChannel b \<Rightarrow> \<exists>option_id. approved_by world option_id \<and> option_kind option_id \<in> {KindAllowOnce, KindAllowAlways}
           | PromptAcp b \<Rightarrow> acp_approved_by b world))"

text \<open>The channel's broker guards the protected files.\<close>

definition unguarded :: "chain_env \<Rightarrow> prompt_surface \<Rightarrow> string \<Rightarrow> json \<Rightarrow> tool_context \<Rightarrow> bool" where
  "unguarded env surface tool input ctx =
     (case surface of
        PromptChannel b \<Rightarrow> \<not> file_tool_touches_protected_path (ge_resolve (ce_gate env)) tool input ctx (cb_protected b)
      | PromptAcp _ \<Rightarrow> True)"

lemma surface_runs:
  assumes "chain_resolve env world (broker_of surface) tool ctx input d s = (RunTool i c e, s')"
  shows "unguarded env surface tool input ctx"
    and "behavior d = Allow \<or> behavior d = Ask \<and> surface_approves env surface world tool input ctx d s"
proof -
  have "unguarded env surface tool input ctx \<and>
      (behavior d = Allow \<or> behavior d = Ask \<and> surface_approves env surface world tool input ctx d s)"
  proof (cases surface)
    case (PromptChannel b)
    with assms channel_runs [of "ce_gate env" b world tool input ctx d s i c e s'] show ?thesis
      by (auto simp: broker_of_def unguarded_def surface_approves_def split: mode_ask_outcome.splits)
  next
    case (PromptAcp b)
    with assms acp_runs [of "ce_gate env" b world tool input ctx d s i c e s'] show ?thesis
      by (auto simp: broker_of_def unguarded_def surface_approves_def split: mode_ask_outcome.splits)
  qed
  then show "unguarded env surface tool input ctx"
    and "behavior d = Allow \<or> behavior d = Ask \<and> surface_approves env surface world tool input ctx d s" by blast+
qed

text \<open>The input the hooks of the request leave, and the decision they leave with it.\<close>

definition after_hooks ::
  "policy_sources \<Rightarrow> string \<Rightarrow> json \<Rightarrow> tool_context \<Rightarrow> permission_decision \<Rightarrow> (json \<times> permission_decision) option" where
  "after_hooks sources tool input ctx d =
     (case hook_decision_of sources tool input ctx d of
        HookContinue i \<Rightarrow> Some (i, d)
      | HookAllowed i \<Rightarrow> Some (i, decision_allow i)
      | HookDenied _ \<Rightarrow> None)"

text \<open>What the stored rules and the broker at the end agree to.\<close>

definition rules_approve ::
  "chain_env \<Rightarrow> policy_store \<Rightarrow> prompt_surface \<Rightarrow> broker_world \<Rightarrow> string \<Rightarrow> json \<Rightarrow> tool_context \<Rightarrow>
   permission_decision \<Rightarrow> broker_state \<Rightarrow> bool" where
  "rules_approve env store surface world tool input ctx d s \<longleftrightarrow>
     (\<forall>v. stored_outcome env store tool input ctx d \<noteq> AutoDeny v) \<and> unguarded env surface tool input ctx \<and>
     (behavior d = Allow \<or>
      (\<exists>v. stored_outcome env store tool input ctx d = AutoAllow v) \<or>
      (\<exists>asking_d. behavior asking_d = Ask \<and> surface_approves env surface world tool input ctx asking_d s))"

lemma ruled_runs:
  assumes "chain_resolve env world (RulesBroker store (broker_of surface)) tool ctx input d s = (RunTool i c e, s')"
  shows "rules_approve env store surface world tool input ctx d s"
proof -
  let ?last = "chain_resolve env world (broker_of surface) tool ctx"
  from rules_runs [OF assms [unfolded chain_resolve.simps]] obtain d2 where run: "?last input d2 s = (RunTool i c e, s')"
    and deny: "behavior d2 = Deny \<or> (\<forall>v. stored_outcome env store tool input ctx d \<noteq> AutoDeny v)"
    and from': "d2 = d \<or> (\<exists>v. stored_outcome env store tool input ctx d = AutoAllow v) \<or> behavior d2 = Ask"
    by metis
  note at_end = surface_runs [OF run]
  then have "\<forall>v. stored_outcome env store tool input ctx d \<noteq> AutoDeny v" using deny by auto
  moreover have "behavior d = Allow \<or> (\<exists>v. stored_outcome env store tool input ctx d = AutoAllow v) \<or>
      (\<exists>asking_d. behavior asking_d = Ask \<and> surface_approves env surface world tool input ctx asking_d s)"
    using from' at_end(2) by auto
  ultimately show ?thesis unfolding rules_approve_def using at_end(1) by blast
qed

text \<open>What it takes for a call to run through the chain of a session.\<close>

definition session_approves ::
  "chain_env \<Rightarrow> policy_sources \<Rightarrow> policy_store \<Rightarrow> prompt_surface \<Rightarrow> broker_world \<Rightarrow> string \<Rightarrow> json \<Rightarrow> tool_context \<Rightarrow>
   permission_decision \<Rightarrow> broker_state \<Rightarrow> bool" where
  "session_approves env sources store surface world tool input ctx d s \<longleftrightarrow>
     (\<exists>i d'. after_hooks sources tool input ctx d = Some (i, d') \<and>
       rules_approve env store surface world tool i ctx d' s)"

lemma session_runs:
  assumes "chain_resolve env world (session_chain sources store surface) tool ctx input d s = (RunTool i c e, s')"
  shows "session_approves env sources store surface world tool input ctx d s"
proof -
  obtain i' d' where h: "after_hooks sources tool input ctx d = Some (i', d')"
    and r: "chain_resolve env world (RulesBroker store (broker_of surface)) tool ctx i' d' s = (RunTool i c e, s')"
    using assms
    by (auto simp: session_chain_def hooked_resolve_def after_hooks_def split: permission_hook_decision.splits)
  from ruled_runs [OF r] h show ?thesis unfolding session_approves_def by blast
qed

definition no_sources :: policy_sources where
  "no_sources = \<lparr>ps_seat = None, ps_local = [], ps_context = some_context, ps_agent = None\<rparr>"

definition plain_chain_env :: chain_env where
  "plain_chain_env = \<lparr>ce_gate = gate_sample_env, ce_host = (\<lambda>_. None), ce_workflow_git = (\<lambda>_ _. False)\<rparr>"

subsection \<open>Workers\<close>

lemma gate_keeps_asked: "asked (snd (check_gate env world surface tool input ctx s)) = asked s"
  by (auto simp: check_gate_def worker_gate_verdict_def emit_auto_mode_allowed_def Let_def
      split: option.split gate_outcome.split prod.split)

lemma message_keeps_asked: "asked (snd (worker_message env world w tool input ctx d s)) = asked s"
  using gate_keeps_asked [of env world "the (ws_auto_mode_gate w)" tool "effective_input d input" ctx s]
  by (auto simp: worker_message_def split: option.split prod.splits gate_verdict.split)

definition floats :: "worker_settings \<Rightarrow> string \<Rightarrow> json \<Rightarrow> permission_decision \<Rightarrow> bool" where
  "floats w tool input d \<longleftrightarrow>
     ws_background_deletion_ask w \<and> is_sensitive_content_deletion_input tool (effective_input d input) \<and>
     is_sensitive_beyond_deletions tool (effective_input d input) = Some False"

lemma floats_iff: "deletion_ask_floats w tool (effective_input d input) = Some True \<longleftrightarrow> floats w tool input d"
  by (auto simp: deletion_ask_floats_def floats_def)

lemma unattended_ask_alone:
  assumes "\<not> floats w tool input d"
  shows "unattended_ask env world w delegate tool input ctx d s = unattended_ask env world w delegate' tool input ctx d s"
    and "asked (snd (unattended_ask env world w delegate tool input ctx d s)) = asked s"
  using assms gate_keeps_asked [of env world "the (ws_auto_mode_gate w)" tool "effective_input d input" ctx s]
  by (auto simp: unattended_ask_def floats_iff [symmetric] Let_def
      split: option.split prod.splits gate_verdict.split bool.split)

lemma worker_ask_alone:
  assumes "is_unattended w ctx" "\<not> floats w tool input d"
  shows "worker_ask env world w delegate tool input ctx d s = worker_ask env world w delegate' tool input ctx d s"
    and "asked (snd (worker_ask env world w delegate tool input ctx d s)) = asked s"
  using assms unattended_ask_alone [OF assms(2)]
  by (auto simp: worker_ask_def split: option.split bool.split)

text \<open>C3. The broker of an unattended worker never waits for a person: what it decides does not depend on
  the brokers behind it, and it puts no question, but for a deletion of files, where the spawner
  allows that, of a command that is sensitive in no other way.\<close>

theorem unattended_worker_asks_nobody:
  assumes "is_unattended w ctx" "\<not> floats w tool input d"
  shows "chain_resolve env world (WorkerBroker w delegate) tool ctx input d s =
      chain_resolve env world (WorkerBroker w delegate') tool ctx input d s \<and>
    asked (snd (chain_resolve env world (WorkerBroker w delegate) tool ctx input d s)) = asked s"
proof -
  obtain a s1 where m: "worker_message env world w tool input ctx d s = (a, s1)" by (cases "worker_message env world w tool input ctx d s")
  with message_keeps_asked [of env world w tool input ctx d s] have "asked s1 = asked s" by simp
  with m assms(1) worker_ask_alone [OF assms] show ?thesis
    by (auto simp: worker_resolve_def split: option.split)
qed

definition background_worker :: worker_settings where
  "background_worker =
     \<lparr>ws_background_probe = Some True, ws_exempt_deletion_root = None, ws_background_deletion_ask = False,
      ws_auto_mode_gate = None\<rparr>"

theorem unattended_worker_asks_nobody_witness:
  "chain_resolve plain_chain_env (choosing ''allow_once'') (WorkerBroker background_worker AutoApproveBroker) ''Bash''
      new_context sample_command asking fresh_broker =
   chain_resolve plain_chain_env (choosing ''allow_once'') (WorkerBroker background_worker DenyAskBroker) ''Bash''
      new_context sample_command asking fresh_broker"
  using unattended_worker_asks_nobody [of background_worker new_context "''Bash''" sample_command asking plain_chain_env
      "choosing ''allow_once''" AutoApproveBroker fresh_broker DenyAskBroker]
  by (simp add: is_unattended_def floats_def background_worker_def)



definition deletes :: json where
  "deletes = JObject [(''command'', JString ''rm -rf x'')]"


definition plain_session :: "policy_store \<Rightarrow> permission_mode \<Rightarrow> broker" where
  "plain_session store mode = session_chain no_sources store (PromptChannel (terminal mode))"


subsection \<open>Findings\<close>

text \<open>A subscriber of the requests that answers with one effect.\<close>

definition answering_with :: "hook_effect \<Rightarrow> policy_sources" where
  "answering_with effect = no_sources\<lparr>ps_local :=
     [\<lparr>pe_id = ''p'', pe_order = 0, pe_active = True,
       pe_subscriber = \<lparr>sub_interest = (\<lambda>_. Some True), sub_budget = None,
         sub_decide = (\<lambda>_. Inr (VerdictModify [effect]))\<rparr>\<rparr>]\<rparr>"

definition deny_deletions :: policy_store where
  "deny_deletions = \<lparr>rules = [\<lparr>rule_source = UserSettings, rule_behavior = Deny,
     rule_value = \<lparr>tool_name = ''Bash'', rule_content = Some ''rm:*''\<rparr>\<rparr>]\<rparr>"

text \<open>An input rewritten in the request for permission is the one the stored rules judge, and not the one
  that runs: the tool's decision carries the old one.\<close>

theorem rules_judge_another_input:
  "(let run = (\<lambda>sources. fst (chain_resolve plain_chain_env (choosing ''reject_once'')
          (session_chain sources deny_deletions (PromptChannel (terminal Default))) ''Bash'' new_context deletes (decision_allow deletes)
          fresh_broker))
    in run (answering_with (UpdateToolInput [(''command'', JString ''ls'')])) = RunTool deletes new_context None \<and>
       (\<exists>why. run no_sources = refuse ''Bash'' why))"
proof -
  have "fst (chain_resolve plain_chain_env (choosing ''reject_once'')
      (session_chain (answering_with (UpdateToolInput [(''command'', JString ''ls'')])) deny_deletions (PromptChannel (terminal Default)))
      ''Bash'' new_context deletes (decision_allow deletes) fresh_broker) = RunTool deletes new_context None"
    by code_simp
  moreover have "case fst (chain_resolve plain_chain_env (choosing ''reject_once'')
      (session_chain no_sources deny_deletions (PromptChannel (terminal Default))) ''Bash'' new_context deletes (decision_allow deletes)
      fresh_broker) of Finish (Inl (PermissionDenied t _)) \<Rightarrow> t = ''Bash'' | _ \<Rightarrow> False"
    by code_simp
  ultimately show ?thesis
    by (auto simp: Let_def split: broker_action.splits sum.splits tool_error.splits)
qed

definition deny_writes :: policy_store where
  "deny_writes = \<lparr>rules = [\<lparr>rule_source = UserSettings, rule_behavior = Deny,
     rule_value = \<lparr>tool_name = ''Write'', rule_content = None\<rparr>\<rparr>]\<rparr>"

text \<open>The stored rules are in front of the brokers a worker delegates to, and a call that is not sensitive is
  approved before them: a worker runs a call its session's rules deny.\<close>

theorem worker_runs_what_a_rule_denies:
  "(let run = (\<lambda>broker. fst (chain_resolve plain_chain_env (choosing ''reject_once'') broker ''Write'' new_context
          sample_command asking fresh_broker));
        session = plain_session deny_writes Default
    in run (spawned_worker None None False False (Some session) DenyAskBroker) = RunTool sample_command new_context None \<and>
       (case run session of Finish (Inl (PermissionDenied t _)) \<Rightarrow> t = ''Write'' | _ \<Rightarrow> False))"
  unfolding Let_def by (intro conjI; code_simp)

text \<open>The event of a request is raised for every call, one the tool itself denied too, and a hook that
  allows it makes the denial a run.\<close>

theorem allowing_hook_overrides_a_denial:
  "fst (chain_resolve plain_chain_env (choosing ''reject_once'')
     (session_chain (answering_with (AllowToolCall None)) new_store (PromptChannel (terminal Default))) ''Write'' new_context sample_command
     (decision_deny ''the file was not read'') fresh_broker) = RunTool sample_command new_context None"
  by code_simp

text \<open>A background agent's request for directories that a rule leaves to a person is refused with a text
  about a message that was not sent.\<close>

theorem agent_refused_as_a_message:
  assumes "gate_leaves_to_a_person (ce_gate env) ''Agent'' input ctx (bw_rules world)"
    and "cb_hooks b = Some p" "auto_gates p (current_mode p)"
  shows "fst (check_gate env world (PromptChannel b) ''Agent'' input ctx s) = GateDenied worker_message_needs_approval_reason"
  using assms by (simp add: check_gate_def surface_hooks_def gate_left worker_gate_verdict_def)

end
