(* ===== verification/Tool_Catalog.thy ===== *)
theory Tool_Catalog
  imports Policy Tool_Facts Permission_Seat Ordered_Map "HOL-Library.Product_Lexorder"
begin

text \<open>
  Which tools a session has and which of them the model is shown: the filter of
  \<open>crates/rebon-tool/src/filter.rs\<close>, the exposure of \<open>crates/rebon-core/src/tool_exposure.rs\<close>, the
  seat providers register on (\<open>crates/rebon-core/src/tool_seat.rs\<close>), the catalog of the engine
  (\<open>crates/rebon-core/src/lib.rs\<close>), and the check of an input against the schema of its tool
  (\<open>crates/rebon-tool/src/validation.rs\<close>).

  A tool is a record of its methods. Locks and the kernel's scopes are not modelled: a registration
  and its end are operations, and a provider is what it answers.
\<close>

subsection \<open>Tools\<close>

record tool_input_check =
  vo_result :: bool
  vo_message :: "string option"
  vo_error_code :: "int option"

record tool =
  t_id :: string
  t_aliases :: "string list"
  t_schema :: json
  t_enabled :: bool
  t_should_defer :: bool
  t_kind :: tool_kind
  t_validate :: "json \<Rightarrow> tool_context \<Rightarrow> tool_error + tool_input_check"
  t_check_permissions :: "json \<Rightarrow> tool_context \<Rightarrow> tool_error + permission_decision"
  t_call :: "json \<Rightarrow> tool_context \<Rightarrow> tool_error + json"

definition tool_named :: "tool \<Rightarrow> string \<Rightarrow> bool" where
  "tool_named t name = tool_matches_name (t_id t) (t_aliases t) name"

subsection \<open>Filters\<close>

text \<open>The sets are ordered lists.\<close>

record tool_filter =
  tf_allow :: "string list option"
  tf_deny :: "string list"

definition unrestricted :: tool_filter where
  "unrestricted = \<lparr>tf_allow = None, tf_deny = []\<rparr>"

definition deny_all :: tool_filter where
  "deny_all = \<lparr>tf_allow = Some [], tf_deny = []\<rparr>"

definition allow_only :: "string list \<Rightarrow> tool_filter" where
  "allow_only names = \<lparr>tf_allow = Some (set_collect names), tf_deny = []\<rparr>"

definition with_deny :: "string list \<Rightarrow> tool_filter \<Rightarrow> tool_filter" where
  "with_deny names f = f\<lparr>tf_deny := fold set_insert names (tf_deny f)\<rparr>"

definition with_allow :: "string list \<Rightarrow> tool_filter \<Rightarrow> tool_filter" where
  "with_allow names f =
     f\<lparr>tf_allow := Some (fold set_insert names (case tf_allow f of Some l \<Rightarrow> l | None \<Rightarrow> []))\<rparr>"

definition filter_intersect :: "tool_filter \<Rightarrow> tool_filter \<Rightarrow> tool_filter" where
  "filter_intersect f g =
     \<lparr>tf_allow =
        (case (tf_allow f, tf_allow g) of
           (None, None) \<Rightarrow> None
         | (Some a, None) \<Rightarrow> Some a
         | (None, Some b) \<Rightarrow> Some b
         | (Some a, Some b) \<Rightarrow> Some (filter (\<lambda>x. x \<in> set b) a)),
      tf_deny = fold set_insert (tf_deny g) (tf_deny f)\<rparr>"

definition is_unrestricted :: "tool_filter \<Rightarrow> bool" where
  "is_unrestricted f \<longleftrightarrow> tf_allow f = None \<and> tf_deny f = []"

definition describe_allowed :: "tool_filter \<Rightarrow> string" where
  "describe_allowed f =
     (if (case tf_allow f of Some l \<Rightarrow> l \<noteq> [] | None \<Rightarrow> False) then
        (let names = filter (\<lambda>x. x \<notin> set (tf_deny f)) (the (tf_allow f))
         in if names = [] then ''None'' else join '', '' names)
      else if tf_deny f \<noteq> [] then ''All tools except '' @ join '', '' (tf_deny f)
      else ''*'')"

definition deny_hits :: "tool_filter \<Rightarrow> string \<Rightarrow> string list \<Rightarrow> bool" where
  "deny_hits f name names = list_ex (tool_matches_name name names) (tf_deny f)"

definition filter_allows :: "tool_filter \<Rightarrow> string \<Rightarrow> string list \<Rightarrow> bool" where
  "filter_allows f name names \<longleftrightarrow>
     \<not> deny_hits f name names \<and>
     (case tf_allow f of None \<Rightarrow> True | Some l \<Rightarrow> list_ex (tool_matches_name name names) l)"

definition passes :: "tool_filter option \<Rightarrow> tool \<Rightarrow> bool" where
  "passes f t = (case f of Some g \<Rightarrow> filter_allows g (t_id t) (t_aliases t) | None \<Rightarrow> True)"

subsection \<open>Exposure\<close>

datatype tool_exposure = Eager | Deferred | Hidden

datatype execution_surface = Interactive | Detached | Unattended

datatype shell_tool_preference = PreferAuto | PreferBash | PreferPowerShell | PreferBoth

definition unattended_dead_end :: "string \<Rightarrow> bool" where
  "unattended_dead_end name \<longleftrightarrow>
     name \<in> {''EnterPlanMode'', ''ExitPlanMode'', ''AskUserQuestion'', ''PlanLedger'', ''Workflow''}"

definition INVOKE_DEFERRED_TOOL_NAME :: string where "INVOKE_DEFERRED_TOOL_NAME = ''InvokeDeferredTool''"

definition eager_names :: "string list" where
  "eager_names =
     [''ToolSearch'', ''Read'', ''Glob'', ''Grep'', ''Edit'', ''Write'', ''MultiEdit'', ''Bash'', ''ShellOutput'',
      ''ShellStop'', ''Skill'', ''Agent'', ''TaskCreate'', ''TaskGet'', ''TaskList'', ''TaskUpdate'',
      ''AskUserQuestion'', ''EscalateQuestion'', ''ResolveEscalation'', ''EnterPlanMode'', ''ExitPlanMode'',
      ''PlanLedger'', ''SaveMemory'']"

definition deferred_names :: "string list" where
  "deferred_names =
     [''NotebookEdit'', ''Workflow'', ''StructuredOutput'', ''ProfileSwitch'', ''ProfileSave'', ''Mcp'', ''Monitor'',
      ''SendMessage'', ''ListPeers'', ''CronCreate'', ''CronList'', ''CronDelete'', ''ScheduleWakeup'', ''Sleep'',
      ''TeamCreate'', ''TeamDelete'', ''WebSearch'', ''WebFetch'']"

text \<open>On a Unix build PowerShell is eager only where it is selected.\<close>

definition exposure_for :: "execution_surface \<Rightarrow> shell_tool_preference \<Rightarrow> tool \<Rightarrow> tool_exposure" where
  "exposure_for surface preference t =
     (if \<not> t_enabled t then Hidden
      else if surface = Unattended \<and> unattended_dead_end (t_id t) then Hidden
      else if t_id t = INVOKE_DEFERRED_TOOL_NAME \<or> t_id t \<in> set eager_names then Eager
      else if t_id t \<in> set deferred_names then
        Deferred
      else if t_id t = ''PowerShell'' then
        (if preference = PreferPowerShell \<or> preference = PreferBoth then Eager else Deferred)
      else if t_should_defer t then Deferred else Eager)"

definition is_eager :: "execution_surface \<Rightarrow> shell_tool_preference \<Rightarrow> tool \<Rightarrow> bool" where
  "is_eager surface preference t \<longleftrightarrow> exposure_for surface preference t = Eager"

definition is_deferred :: "execution_surface \<Rightarrow> shell_tool_preference \<Rightarrow> tool \<Rightarrow> bool" where
  "is_deferred surface preference t \<longleftrightarrow> exposure_for surface preference t = Deferred"

text \<open>\<open>promotions\<close> are the \<open>eager_promotions\<close> of an execution policy.\<close>

definition is_eager_promotion :: "string list option \<Rightarrow> tool \<Rightarrow> bool" where
  "is_eager_promotion promotions t = is_some_and (list_ex (tool_named t)) promotions"

subsection \<open>The seat of tools\<close>

datatype seat_priority = PriorityCore | PriorityFeature | PriorityMcp | PriorityPlugin

definition as_u16 :: "seat_priority \<Rightarrow> nat" where
  "as_u16 p = (case p of PriorityCore \<Rightarrow> 0 | PriorityFeature \<Rightarrow> 50 | PriorityMcp \<Rightarrow> 100 | PriorityPlugin \<Rightarrow> 200)"

definition UPSTREAM_PRIORITY :: nat where "UPSTREAM_PRIORITY = 300"

record tool_provider =
  tp_resolve :: "string \<Rightarrow> tool option"
  tp_tools :: "tool list"

record provider_entry =
  en_id :: string
  en_priority :: nat
  en_token :: nat
  en_provider :: tool_provider

record tool_seat =
  ts_entries :: "provider_entry list"
  ts_next_token :: nat

definition new_tool_seat :: tool_seat where "new_tool_seat = \<lparr>ts_entries = [], ts_next_token = 1\<rparr>"

datatype tool_seat_error = ProviderIdEmpty | DuplicateProvider string

text \<open>The value of a registration is the token that ends it.\<close>

definition register_provider ::
  "string \<Rightarrow> nat \<Rightarrow> tool_provider \<Rightarrow> tool_seat \<Rightarrow> (tool_seat_error + nat) \<times> tool_seat" where
  "register_provider provider_id priority provider seat =
     (let i = trim provider_id
      in if i = [] then (Inl ProviderIdEmpty, seat)
         else
           let tok = ts_next_token seat;
               seat = seat\<lparr>ts_next_token := tok + 1\<rparr>
           in if list_ex (\<lambda>e. en_id e = i) (ts_entries seat) then (Inl (DuplicateProvider i), seat)
              else (Inr tok, seat\<lparr>ts_entries := sort_key (\<lambda>e. (en_priority e, en_id e)) (ts_entries seat @
                [\<lparr>en_id = i, en_priority = priority, en_token = tok, en_provider = provider\<rparr>])\<rparr>))"

definition dispose_provider :: "string \<Rightarrow> nat \<Rightarrow> tool_seat \<Rightarrow> tool_seat" where
  "dispose_provider i tok seat =
     seat\<lparr>ts_entries := filter (\<lambda>e. \<not> (en_id e = i \<and> en_token e = tok)) (ts_entries seat)\<rparr>"

fun resolve_entries :: "provider_entry list \<Rightarrow> string \<Rightarrow> tool_filter option \<Rightarrow> tool option" where
  "resolve_entries [] name f = None"
| "resolve_entries (e # es) name f =
     (case tp_resolve (en_provider e) name of
        None \<Rightarrow> resolve_entries es name f
      | Some t \<Rightarrow> if \<not> t_enabled t \<or> \<not> passes f t then None else Some t)"

definition seat_resolve :: "tool_seat \<Rightarrow> string \<Rightarrow> tool_filter option \<Rightarrow> tool option" where
  "seat_resolve seat = resolve_entries (ts_entries seat)"

fun collect_tools :: "tool_filter option \<Rightarrow> string list \<Rightarrow> tool list \<Rightarrow> tool list" where
  "collect_tools f seen [] = []"
| "collect_tools f seen (t # ts) =
     (if \<not> t_enabled t \<or> t_id t \<in> set seen \<or> \<not> passes f t then collect_tools f seen ts
      else t # collect_tools f (t_id t # t_aliases t @ seen) ts)"

definition seat_tools :: "tool_seat \<Rightarrow> tool_filter option \<Rightarrow> tool list" where
  "seat_tools seat f = collect_tools f [] (concat (map (\<lambda>e. tp_tools (en_provider e)) (ts_entries seat)))"

definition names_of_kind :: "tool_seat \<Rightarrow> tool_kind \<Rightarrow> string list" where
  "names_of_kind seat k = map t_id (filter (\<lambda>t. t_kind t = k) (seat_tools seat None))"

definition local_provider :: "tool list \<Rightarrow> tool_provider" where
  "local_provider ts =
     \<lparr>tp_resolve = (\<lambda>name. List.find (\<lambda>t. t_enabled t \<and> tool_named t name) ts), tp_tools = ts\<rparr>"

definition upstream_provider :: "tool_seat \<Rightarrow> tool_provider" where
  "upstream_provider seat = \<lparr>tp_resolve = (\<lambda>name. seat_resolve seat name None), tp_tools = seat_tools seat None\<rparr>"

text \<open>\<open>PluginToolProviderAdapter\<close>: \<open>names\<close> and \<open>lookup\<close> are the plugin's.\<close>

definition plugin_provider :: "string list \<Rightarrow> (string \<Rightarrow> tool option) \<Rightarrow> tool_provider" where
  "plugin_provider names lookup = \<lparr>tp_resolve = lookup, tp_tools = List.map_filter lookup names\<rparr>"

text \<open>The seat of a turn.\<close>

record turn_tools =
  tt_host :: "tool list"
  tt_mcp :: "tool_provider option"
  tt_session :: "tool_provider option"
  tt_plugin :: "tool_provider option"
  tt_upstream :: "tool_seat option"
  tt_core_fallback :: "tool list option"

definition register_opt :: "string \<Rightarrow> nat \<Rightarrow> tool_provider option \<Rightarrow> tool_seat \<Rightarrow> tool_seat" where
  "register_opt i priority provider seat =
     (case provider of Some p \<Rightarrow> snd (register_provider i priority p seat) | None \<Rightarrow> seat)"

definition scoped_tool_resolver :: "turn_tools \<Rightarrow> tool_seat" where
  "scoped_tool_resolver turn =
     (let seat = register_opt ''local'' (as_u16 PriorityFeature) (Some (local_provider (tt_host turn))) new_tool_seat;
          seat = register_opt ''mcp'' (as_u16 PriorityMcp) (tt_mcp turn) seat;
          seat = register_opt ''session'' (as_u16 PriorityPlugin) (tt_session turn) seat;
          seat = register_opt ''plugin'' (as_u16 PriorityPlugin) (tt_plugin turn) seat
      in case tt_upstream turn of
           Some up \<Rightarrow> register_opt ''upstream'' UPSTREAM_PRIORITY (Some (upstream_provider up)) seat
         | None \<Rightarrow> register_opt ''core'' UPSTREAM_PRIORITY (map_option local_provider (tt_core_fallback turn)) seat)"

subsection \<open>The catalog of the engine\<close>

fun first_names :: "string list \<Rightarrow> tool list \<Rightarrow> tool list" where
  "first_names seen [] = []"
| "first_names seen (t # ts) =
     (if t_id t \<in> set seen then first_names seen ts else t # first_names (t_id t # seen) ts)"

definition tool_catalog :: "turn_tools \<Rightarrow> tool list" where
  "tool_catalog turn =
     first_names []
       ((case tt_upstream turn of
           Some seat \<Rightarrow> seat_tools seat None
         | None \<Rightarrow> (case tt_core_fallback turn of Some ts \<Rightarrow> ts | None \<Rightarrow> [])) @ tt_host turn)"

definition catalog_names :: "turn_tools \<Rightarrow> string list" where
  "catalog_names turn = map t_id (filter t_enabled (tool_catalog turn))"

definition eager_tools ::
  "execution_surface \<Rightarrow> shell_tool_preference \<Rightarrow> string list option \<Rightarrow> turn_tools \<Rightarrow> tool list" where
  "eager_tools surface preference promotions turn =
     filter (\<lambda>t. t_enabled t \<and> (is_eager surface preference t \<or> is_eager_promotion promotions t)) (tool_catalog turn)"

definition deferred_tool_names ::
  "execution_surface \<Rightarrow> shell_tool_preference \<Rightarrow> string list option \<Rightarrow> tool_filter option \<Rightarrow> turn_tools \<Rightarrow> string list" where
  "deferred_tool_names surface preference promotions f turn =
     map t_id (filter (\<lambda>t. is_deferred surface preference t \<and> \<not> is_eager_promotion promotions t \<and> passes f t)
       (tool_catalog turn))"

definition find_tool :: "turn_tools \<Rightarrow> string \<Rightarrow> tool option" where
  "find_tool turn name = List.find (\<lambda>t. t_enabled t \<and> tool_named t name) (tool_catalog turn)"

subsection \<open>Inputs and schemas\<close>

record type_mismatch =
  tm_param :: string
  tm_expected :: string
  tm_received :: string

record input_error =
  ie_tool :: string
  ie_missing :: "string list"
  ie_unexpected :: "string list"
  ie_mismatches :: "type_mismatch list"

definition input_error_format :: "input_error \<Rightarrow> string" where
  "input_error_format e =
     (let bt = [ch_backtick];
          parts =
            map (\<lambda>p. ''The required parameter '' @ bt @ p @ bt @ '' is missing'') (ie_missing e) @
            map (\<lambda>p. ''An unexpected parameter '' @ bt @ p @ bt @ '' was provided'') (ie_unexpected e) @
            map (\<lambda>m. ''The parameter '' @ bt @ tm_param m @ bt @ '' type is expected as '' @ bt @ tm_expected m @ bt @
              '' but provided as '' @ bt @ tm_received m @ bt) (ie_mismatches e)
      in ie_tool e @ '' failed due to the following '' @ (if length parts = 1 then ''issue'' else ''issues'') @ '':'' @
         [ch_lf] @ join [ch_lf] parts)"

text \<open>A number outside both 64-bit ranges is read as a float.\<close>

definition fits_64 :: "int \<Rightarrow> bool" where
  "fits_64 n \<longleftrightarrow> - (2 ^ 63) \<le> n \<and> n < 2 ^ 64"

definition json_type_name :: "json \<Rightarrow> string" where
  "json_type_name v =
     (case v of
        JNull \<Rightarrow> ''null'' | JBool _ \<Rightarrow> ''boolean''
      | JNumber n \<Rightarrow> if fits_64 n then ''integer'' else ''number''
      | JString _ \<Rightarrow> ''string'' | JArray _ \<Rightarrow> ''array'' | JObject _ \<Rightarrow> ''object'')"

definition value_matches_type :: "json \<Rightarrow> string \<Rightarrow> bool" where
  "value_matches_type v expected =
     (if expected = ''string'' then (case v of JString _ \<Rightarrow> True | _ \<Rightarrow> False)
      else if expected = ''integer'' then (case v of JNumber n \<Rightarrow> fits_64 n | _ \<Rightarrow> False)
      else if expected = ''number'' then (case v of JNumber _ \<Rightarrow> True | _ \<Rightarrow> False)
      else if expected = ''boolean'' then (case v of JBool _ \<Rightarrow> True | _ \<Rightarrow> False)
      else if expected = ''array'' then (case v of JArray _ \<Rightarrow> True | _ \<Rightarrow> False)
      else if expected = ''object'' then is_object v
      else if expected = ''null'' then is_null v
      else True)"

definition declared_types :: "json \<Rightarrow> string list option" where
  "declared_types schema =
     (case json_get ''type'' schema of
        Some (JString name) \<Rightarrow> Some [name]
      | Some (JArray names) \<Rightarrow>
          (let ns = List.map_filter as_str names in if ns = [] then None else Some ns)
      | _ \<Rightarrow> None)"

definition type_mismatches :: "string \<Rightarrow> json \<Rightarrow> json \<Rightarrow> type_mismatch list" where
  "type_mismatches param schema v =
     (case declared_types schema of
        None \<Rightarrow> []
      | Some types \<Rightarrow>
          if list_ex (value_matches_type v) types then []
          else [\<lparr>tm_param = param, tm_expected = join '' or '' types, tm_received = json_type_name v\<rparr>])"

definition enum_mismatches :: "string \<Rightarrow> json \<Rightarrow> json \<Rightarrow> type_mismatch list" where
  "enum_mismatches param schema v =
     (case (Option.bind (json_get ''enum'' schema) as_array, as_str v) of
        (Some vals, Some s) \<Rightarrow>
          if list_ex (\<lambda>e. as_str e = Some s) vals then []
          else [\<lparr>tm_param = param, tm_expected = ''one of ['' @ join '', '' (List.map_filter as_str vals) @ '']'',
                 tm_received = [ch_dquote] @ s @ [ch_dquote]\<rparr>]
      | _ \<Rightarrow> [])"

definition item_mismatches :: "string \<Rightarrow> json \<Rightarrow> json \<Rightarrow> type_mismatch list" where
  "item_mismatches param schema v =
     (case (json_get ''items'' schema, v) of
        (Some item_schema, JArray items) \<Rightarrow>
          concat (map (\<lambda>(i, item). type_mismatches (param @ ''['' @ decimal i @ '']'') item_schema item)
            (enumerate 0 items))
      | _ \<Rightarrow> [])"

definition property_mismatches :: "(string \<times> json) list \<Rightarrow> string \<times> json \<Rightarrow> type_mismatch list" where
  "property_mismatches input = (\<lambda>(key, schema).
     case map_of input key of
       None \<Rightarrow> []
     | Some v \<Rightarrow>
         if is_null v then []
         else type_mismatches key schema v @ enum_mismatches key schema v @ item_mismatches key schema v)"

definition required_names :: "json \<Rightarrow> string list" where
  "required_names schema =
     (case Option.bind (json_get ''required'' schema) as_array of
        Some req \<Rightarrow> List.map_filter as_str req
      | None \<Rightarrow> [])"

definition validate_schema :: "string \<Rightarrow> json \<Rightarrow> json \<Rightarrow> input_error + unit" where
  "validate_schema tool schema input =
     (if get_str ''type'' schema \<noteq> Some ''object'' then Inr ()
      else case as_object input of
        None \<Rightarrow>
          Inl \<lparr>ie_tool = tool, ie_missing = [], ie_unexpected = [],
               ie_mismatches = [\<lparr>tm_param = ''(root)'', tm_expected = ''object'', tm_received = json_type_name input\<rparr>]\<rparr>
      | Some obj \<Rightarrow>
          let properties = Option.bind (json_get ''properties'' schema) as_object;
              err = \<lparr>ie_tool = tool,
                ie_missing = filter (\<lambda>name. map_of obj name = None) (required_names schema),
                ie_unexpected =
                  (if Option.bind (json_get ''additionalProperties'' schema) as_bool = Some False then
                     (case properties of Some props \<Rightarrow> filter (\<lambda>k. map_of props k = None) (map fst obj) | None \<Rightarrow> [])
                   else []),
                ie_mismatches =
                  (case properties of Some props \<Rightarrow> concat (map (property_mismatches obj) props) | None \<Rightarrow> [])\<rparr>
          in if ie_missing err = [] \<and> ie_unexpected err = [] \<and> ie_mismatches err = [] then Inr () else Inl err)"

end
