(* ===== verification/Catalog_Facts.thy ===== *)
theory Catalog_Facts
  imports Tool_Catalog
begin

text \<open>
  What the filters, the seat, the catalog and the check of an input promise. The findings are the
  places where names and their aliases part.
\<close>

subsection \<open>Filters\<close>

lemma in_set_insert: "y \<in> set (set_insert x xs) \<longleftrightarrow> y = x \<or> y \<in> set xs"
  using set_set_insert [of x xs] by auto

lemma in_fold_insert: "y \<in> set (fold set_insert names xs) \<longleftrightarrow> y \<in> set names \<or> y \<in> set xs"
  by (induction names arbitrary: xs) (auto simp: in_set_insert)

lemma allows_iff:
  "filter_allows f n as \<longleftrightarrow>
     (\<forall>x \<in> set (tf_deny f). \<not> tool_matches_name n as x) \<and>
     (\<forall>l. tf_allow f = Some l \<longrightarrow> (\<exists>x \<in> set l. tool_matches_name n as x))"
  by (auto simp: filter_allows_def deny_hits_def list_ex_iff split: option.split)

text \<open>Combining two filters never shows a tool that one of them hides, a denial of a name or of an alias
  hides a tool whatever is allowed, and adding denials only hides more.\<close>

theorem filters_only_narrow:
  "{t. passes (Some (filter_intersect f g)) t} \<subseteq> {t. passes (Some f) t} \<inter> {t. passes (Some g) t} \<and>
   {t. passes (Some (with_deny names f)) t} =
     {t. passes (Some f) t \<and> \<not> list_ex (tool_named t) names}"
proof
  show "{t. passes (Some (filter_intersect f g)) t} \<subseteq> {t. passes (Some f) t} \<inter> {t. passes (Some g) t}"
    by (auto simp: passes_def allows_iff filter_intersect_def in_fold_insert split: option.splits)
  show "{t. passes (Some (with_deny names f)) t} = {t. passes (Some f) t \<and> \<not> list_ex (tool_named t) names}"
    by (auto simp: passes_def allows_iff with_deny_def in_fold_insert list_ex_iff tool_named_def)
qed

subsection \<open>The catalog\<close>

lemma first_names_distinct:
  "distinct (map t_id (first_names seen ts)) \<and> set (map t_id (first_names seen ts)) \<inter> set seen = {}"
  by (induction seen ts rule: first_names.induct) auto

lemma catalog_distinct: "distinct (map t_id (tool_catalog turn))"
  unfolding tool_catalog_def using first_names_distinct by blast

lemma filter_names_distinct: "distinct (map t_id ts) \<Longrightarrow> distinct (map t_id (filter P ts))"
  by (rule distinct_map_filter)

text \<open>The model is shown an enabled tool at most once, and never both in full and by name only: the tools
  a request carries and the names left to the search are distinct and disjoint; a disabled tool is in
  neither, and nobody who cannot answer is offered a tool that waits for an answer, unless the
  execution policy promotes it.\<close>

theorem tools_are_shown_once:
  "distinct (map t_id (eager_tools surface preference promotions turn) @
     deferred_tool_names surface preference promotions f turn) \<and>
   list_all (\<lambda>t. t_enabled t \<and>
     \<not> (surface = Unattended \<and> unattended_dead_end (t_id t) \<and> \<not> is_eager_promotion promotions t))
     (eager_tools surface preference promotions turn)"
proof
  let ?E = "\<lambda>t. t_enabled t \<and> (is_eager surface preference t \<or> is_eager_promotion promotions t)"
  let ?D = "\<lambda>t. is_deferred surface preference t \<and> \<not> is_eager_promotion promotions t \<and> passes f t"
  have "False" if "t \<in> set (tool_catalog turn)" "u \<in> set (tool_catalog turn)" "t_id t = t_id u" "?E t" "?D u" for t u
  proof -
    have "t = u" using that(1-3) catalog_distinct [of turn] by (auto simp: distinct_map inj_on_def)
    with that show False by (auto simp: is_eager_def is_deferred_def)
  qed
  then have "set (map t_id (filter ?E (tool_catalog turn))) \<inter> set (map t_id (filter ?D (tool_catalog turn))) = {}"
    by auto
  then show "distinct (map t_id (eager_tools surface preference promotions turn) @
      deferred_tool_names surface preference promotions f turn)"
    using catalog_distinct [of turn]
    by (simp add: eager_tools_def deferred_tool_names_def filter_names_distinct)
  show "list_all (\<lambda>t. t_enabled t \<and>
      \<not> (surface = Unattended \<and> unattended_dead_end (t_id t) \<and> \<not> is_eager_promotion promotions t))
      (eager_tools surface preference promotions turn)"
    by (auto simp: list_all_iff eager_tools_def is_eager_def exposure_for_def split: if_splits)
qed

subsection \<open>The seat\<close>

inductive seat_reachable :: "tool_seat \<Rightarrow> bool" where
  start: "seat_reachable new_tool_seat"
| register: "seat_reachable seat \<Longrightarrow> seat_reachable (snd (register_provider i priority provider seat))"
| dispose: "seat_reachable seat \<Longrightarrow> seat_reachable (dispose_provider i tok seat)"

definition seat_inv :: "tool_seat \<Rightarrow> bool" where
  "seat_inv seat \<longleftrightarrow>
     distinct (map en_id (ts_entries seat)) \<and> distinct (map en_token (ts_entries seat)) \<and>
     (\<forall>e \<in> set (ts_entries seat). en_token e < ts_next_token seat) \<and>
     sorted (map (\<lambda>e. (en_priority e, en_id e)) (ts_entries seat))"

lemma distinct_map_sort_key: "distinct (map f (sort_key k xs)) \<longleftrightarrow> distinct (map f xs)"
  by (simp add: distinct_map distinct_sort)

lemma register_inv: "seat_inv seat \<Longrightarrow> seat_inv (snd (register_provider i priority provider seat))"
  by (auto simp: seat_inv_def register_provider_def Let_def distinct_map_sort_key list_ex_iff less_Suc_eq
      simp del: sorted_sort_key intro: sorted_sort_key)

lemma dispose_inv: "seat_inv seat \<Longrightarrow> seat_inv (dispose_provider i tok seat)"
  by (auto simp: seat_inv_def dispose_provider_def filter_names_distinct distinct_map_filter sorted_filter)

lemma seat_inv_reachable: "seat_reachable seat \<Longrightarrow> seat_inv seat"
  by (induction rule: seat_reachable.induct)
    (simp_all add: register_inv dispose_inv, simp add: seat_inv_def new_tool_seat_def)

lemma dispose_own:
  assumes "seat_inv seat" "register_provider i priority provider seat = (Inr tok, seat')"
  shows "ts_entries (dispose_provider (trim i) tok seat') = ts_entries seat"
proof -
  let ?e = "\<lparr>en_id = trim i, en_priority = priority, en_token = ts_next_token seat, en_provider = provider\<rparr>"
  have new: "trim i \<notin> en_id ` set (ts_entries seat)" and tok: "tok = ts_next_token seat"
    and s': "ts_entries seat' = sort_key (\<lambda>e. (en_priority e, en_id e)) (ts_entries seat @ [?e])"
    using assms(2) by (auto simp: register_provider_def Let_def list_ex_iff split: if_splits)
  have keep: "filter (\<lambda>e. \<not> (en_id e = trim i \<and> en_token e = tok)) (ts_entries seat) = ts_entries seat"
    using new by (intro filter_True ballI) (metis imageI)
  have "sorted (map (\<lambda>e. (en_priority e, en_id e)) (ts_entries seat))" using assms(1) by (simp add: seat_inv_def)
  then have "sort_key (\<lambda>e. (en_priority e, en_id e)) (ts_entries seat) = ts_entries seat"
    by (rule sort_key_id_if_sorted)
  then show ?thesis
    by (simp add: dispose_provider_def s' filter_sort keep [unfolded tok, simplified] tok)
qed

lemma resolve_first:
  "resolve_entries es name f = Some t \<Longrightarrow>
   \<exists>e \<in> set es. tp_resolve (en_provider e) name = Some t \<and> t_enabled t \<and> passes f t"
  by (induction es name f rule: resolve_entries.induct) (auto split: option.splits if_splits)

text \<open>Registering a provider of tools and ending the registration leaves the seat's providers as they
  were, in their order of precedence; ids and tokens stay unique.\<close>

theorem registration_ends_cleanly:
  assumes "seat_reachable seat" and "register_provider i priority provider seat = (Inr tok, seat')"
  shows "ts_entries (dispose_provider (trim i) tok seat') = ts_entries seat \<and> seat_inv (dispose_provider (trim i) tok seat')"
  using dispose_own [OF seat_inv_reachable [OF assms(1)] assms(2)]
    dispose_inv [OF seat_inv_reachable [OF seat_reachable.register [OF assms(1), of i priority provider]]]
  by (simp add: assms(2))

theorem registration_ends_cleanly_witness:
  "ts_entries (dispose_provider ''mcp'' 1
     (snd (register_provider '' mcp'' 100 (local_provider []) new_tool_seat))) = []"
proof -
  have r: "register_provider '' mcp'' 100 (local_provider []) new_tool_seat =
      (Inr 1, snd (register_provider '' mcp'' 100 (local_provider []) new_tool_seat))"
  proof -
    have "fst (register_provider '' mcp'' 100 (local_provider []) new_tool_seat) = Inr 1" by code_simp
    then show ?thesis by (metis prod.collapse)
  qed
  have t: "trim '' mcp'' = ''mcp''" by code_simp
  from registration_ends_cleanly [OF seat_reachable.start r] show ?thesis by (simp add: t new_tool_seat_def)
qed

subsection \<open>Inputs\<close>

text \<open>An object that fits the schema of a tool, said in one go.\<close>

definition value_conforms :: "json \<Rightarrow> json \<Rightarrow> bool" where
  "value_conforms schema v \<longleftrightarrow>
     v = JNull \<or>
     (case declared_types schema of Some types \<Rightarrow> list_ex (value_matches_type v) types | None \<Rightarrow> True) \<and>
     (case (Option.bind (json_get ''enum'' schema) as_array, v) of
        (Some vals, JString s) \<Rightarrow> JString s \<in> set vals
      | _ \<Rightarrow> True) \<and>
     (case (Option.bind (json_get ''items'' schema) declared_types, v) of
        (Some types, JArray items) \<Rightarrow> list_all (\<lambda>item. list_ex (value_matches_type item) types) items
      | _ \<Rightarrow> True)"

definition input_conforms :: "json \<Rightarrow> json \<Rightarrow> bool" where
  "input_conforms schema input \<longleftrightarrow>
     (case input of
        JObject obj \<Rightarrow>
          list_all (\<lambda>name. name \<in> fst ` set obj) (required_names schema) \<and>
          (case Option.bind (json_get ''properties'' schema) as_object of
             Some props \<Rightarrow>
               (Option.bind (json_get ''additionalProperties'' schema) as_bool = Some False \<longrightarrow>
                 list_all (\<lambda>(k, _). k \<in> fst ` set props) obj) \<and>
               list_all (\<lambda>(k, property). case map_of obj k of Some v \<Rightarrow> value_conforms property v | None \<Rightarrow> True) props
           | None \<Rightarrow> True)
      | _ \<Rightarrow> False)"

lemma types_fit:
  "type_mismatches p schema v = [] \<longleftrightarrow>
     (case declared_types schema of Some types \<Rightarrow> list_ex (value_matches_type v) types | None \<Rightarrow> True)"
  by (simp add: type_mismatches_def split: option.split)

lemma enum_fits:
  "enum_mismatches p schema v = [] \<longleftrightarrow>
     (case (Option.bind (json_get ''enum'' schema) as_array, v) of
        (Some vals, JString s) \<Rightarrow> JString s \<in> set vals
      | _ \<Rightarrow> True)"
proof -
  have "list_ex (\<lambda>e. as_str e = Some s) vals \<longleftrightarrow> JString s \<in> set vals" for s vals
    by (auto simp: list_ex_iff as_str_Some)
  then show ?thesis by (cases v) (auto simp: enum_mismatches_def as_str_def split: option.split)
qed

lemma enumerate_all: "(\<forall>(i, x) \<in> set (enumerate n xs). P x) \<longleftrightarrow> list_all P xs"
  by (induction xs arbitrary: n) auto

lemma items_fit:
  "item_mismatches p schema v = [] \<longleftrightarrow>
     (case (Option.bind (json_get ''items'' schema) declared_types, v) of
        (Some types, JArray items) \<Rightarrow> list_all (\<lambda>item. list_ex (value_matches_type item) types) items
      | _ \<Rightarrow> True)"
proof (cases "json_get ''items'' schema")
  case (Some item_schema)
  show ?thesis
  proof (cases v)
    case (JArray items)
    have "item_mismatches p schema v = [] \<longleftrightarrow>
        (\<forall>(i, item) \<in> set (enumerate 0 items). case declared_types item_schema of
           Some types \<Rightarrow> list_ex (value_matches_type item) types | None \<Rightarrow> True)"
      by (auto simp: item_mismatches_def Some JArray types_fit)
    also have "\<dots> \<longleftrightarrow> list_all (\<lambda>item. case declared_types item_schema of
           Some types \<Rightarrow> list_ex (value_matches_type item) types | None \<Rightarrow> True) items"
      by (rule enumerate_all)
    finally show ?thesis by (simp add: Some JArray list_all_iff split: option.split)
  qed (simp_all add: item_mismatches_def Some split: option.split)
qed (simp add: item_mismatches_def)

lemma property_fits:
  "property_mismatches obj (k, property) = [] \<longleftrightarrow>
     (case map_of obj k of Some v \<Rightarrow> value_conforms property v | None \<Rightarrow> True)"
  by (simp add: property_mismatches_def value_conforms_def types_fit enum_fits items_fit split: option.split)

lemma validation_conforms:
  "validate_schema tool schema input = Inr () \<longleftrightarrow>
     get_str ''type'' schema \<noteq> Some ''object'' \<or> input_conforms schema input"
proof (cases input)
  case (JObject obj)
  have missing: "filter (\<lambda>name. map_of obj name = None) names = [] \<longleftrightarrow> list_all (\<lambda>name. name \<in> fst ` set obj) names" for names
    by (auto simp: filter_empty_conv list_all_iff map_of_eq_None_iff)
  have extra: "filter (\<lambda>k. map_of props k = None) (map fst obj) = [] \<longleftrightarrow> list_all (\<lambda>(k, _). k \<in> fst ` set props) obj"
    for props :: "(string \<times> json) list"
    by (induction obj) (simp_all add: map_of_eq_None_iff split_beta)
  have mismatch: "concat (map (property_mismatches obj) props) = [] \<longleftrightarrow>
      list_all (\<lambda>(k, property). case map_of obj k of Some v \<Rightarrow> value_conforms property v | None \<Rightarrow> True) props" for props
    by (auto simp: list_all_iff simp flip: property_fits)
  let ?props = "Option.bind (json_get ''properties'' schema) as_object"
  let ?closed = "Option.bind (json_get ''additionalProperties'' schema) as_bool = Some False"
  have "validate_schema tool schema input = Inr () \<longleftrightarrow>
      get_str ''type'' schema \<noteq> Some ''object'' \<or>
      filter (\<lambda>name. map_of obj name = None) (required_names schema) = [] \<and>
      (case ?props of Some props \<Rightarrow>
         (if ?closed then filter (\<lambda>k. map_of props k = None) (map fst obj) = [] else True) \<and>
         concat (map (property_mismatches obj) props) = []
       | None \<Rightarrow> True)"
    by (simp add: validate_schema_def JObject Let_def split: option.split)
  also have "\<dots> \<longleftrightarrow> get_str ''type'' schema \<noteq> Some ''object'' \<or> input_conforms schema input"
    unfolding missing extra mismatch by (cases ?props) (simp_all add: input_conforms_def JObject)
  finally show ?thesis .
qed (simp_all add: validate_schema_def input_conforms_def as_object_def)

subsection \<open>Findings\<close>

text \<open>Filters tell cases apart.\<close>

theorem filter_minds_the_case:
  "filter_allows (with_deny [''read''] unrestricted) ''Read'' [''FileReadTool'']"
  by code_simp

text \<open>A tool both filters allow, one by its name and one by its alias, is hidden by their combination.\<close>

theorem combined_filter_loses_aliases:
  "filter_allows (allow_only [''Read'']) ''Read'' [''FileReadTool''] \<and>
   filter_allows (allow_only [''FileReadTool'']) ''Read'' [''FileReadTool''] \<and>
   \<not> filter_allows (filter_intersect (allow_only [''Read'']) (allow_only [''FileReadTool''])) ''Read'' [''FileReadTool'']"
  by code_simp

text \<open>The description names a tool the filter hides under another of its names.\<close>

theorem description_names_a_hidden_tool:
  "(let f = with_deny [''FileReadTool''] (allow_only [''Read''])
    in describe_allowed f = ''Read'' \<and> \<not> filter_allows f ''Read'' [''FileReadTool''])"
  by code_simp

text \<open>A required property may be null.\<close>

theorem required_may_be_null:
  "validate_schema ''Read'' (JObject [(''type'', JString ''object''), (''required'', JArray [JString ''file_path'']),
      (''properties'', JObject [(''file_path'', JObject [(''type'', JString ''string'')])])])
     (JObject [(''file_path'', JNull)]) = Inr ()"
  by code_simp

end
