(* ===== verification/Tool_Dispatch.thy ===== *)
theory Tool_Dispatch
  imports Broker_Chain Tool_Catalog
begin

text \<open>
  The call of a tool, from the model's request to the broker: \<open>dispatch_tool_use\<close> of
  \<open>crates/rebon-core/src/query/turn_control.rs\<close> and \<open>Engine::invoke_tool\<close> of
  \<open>crates/rebon-core/src/lib.rs\<close>.

  Parameters: the decoding of the gateway's input, the index of the tool search, the subscribers that
  annotate a result. What runs is kept apart from the running: \<open>invoke_action\<close> ends in an error or
  in a tool and what is done with it.
\<close>

record engine_env =
  ee_chain :: chain_env
  ee_resolve :: "string \<Rightarrow> tool_error + tool option"
  ee_is_deferred :: "tool \<Rightarrow> bool"
  ee_gateway :: "json \<Rightarrow> string + (string \<times> json)"
  ee_search_index :: "(string \<Rightarrow> bool) option"
  ee_broker :: broker
  ee_annotate :: "string \<Rightarrow> json \<Rightarrow> json \<Rightarrow> json"

definition ultraplan_policy_violation :: "ultraplan_context \<Rightarrow> tool \<Rightarrow> string option" where
  "ultraplan_policy_violation u t =
     (if up_shell_policy u = DenyShell \<and> (tool_named t ''Bash'' \<or> tool_named t ''PowerShell'') then
        Some ''shell tools are denied by ultraplan shell_policy=DenyShell''
      else if list_ex (tool_named t) (up_denied_tools u) then
        Some (''tool '' @ t_id t @ '' is denied by the active ultraplan policy'')
      else if \<not> list_ex (tool_named t) (up_allowed_tools u) then
        Some (''tool '' @ t_id t @ '' is not in the active ultraplan allowed_tools list'')
      else None)"

text \<open>\<open>ok_or_else(UnknownTool)\<close> after the resolver.\<close>

definition resolve_named :: "engine_env \<Rightarrow> string \<Rightarrow> tool_error + tool" where
  "resolve_named env name = and_then (ee_resolve env name) (\<lambda>t. ok_or t (UnknownTool name))"

definition gateway_error :: "string \<Rightarrow> tool_error" where
  "gateway_error why = InvalidInput INVOKE_DEFERRED_TOOL_NAME why (Some 400)"

text \<open>The name and the input of the tool meant.\<close>

definition deferred_target :: "engine_env \<Rightarrow> json \<Rightarrow> tool_error + (string \<times> json)" where
  "deferred_target env input =
     and_then (map_err (\<lambda>e. gateway_error (''invalid InvokeDeferredTool input: '' @ e)) (ee_gateway env input))
       (\<lambda>(name, arguments).
         and_then (resolve_named env name) (\<lambda>t.
           if \<not> (ee_is_deferred env t \<or> t_id t = name \<and> t_should_defer t) then
             Inl (gateway_error (''tool '' @ [ch_backtick] @ name @ [ch_backtick] @
               '' is not a deferred tool and cannot be invoked through InvokeDeferredTool''))
           else if (case ee_search_index env of Some found \<Rightarrow> \<not> found name | None \<Rightarrow> False) then Inl (UnknownTool name)
           else if as_object arguments = Some [] \<and> required_names (t_schema t) \<noteq> [] then
             Inl (gateway_error (''Empty arguments for '' @ [ch_backtick] @ name @ [ch_backtick] @
               ''. Target tool requires: '' @ join '', '' (required_names (t_schema t)) @ ''.''))
           else Inr (name, arguments)))"

definition call_target :: "engine_env \<Rightarrow> string \<Rightarrow> json \<Rightarrow> tool_error + (string \<times> json)" where
  "call_target env name input =
     (if name = INVOKE_DEFERRED_TOOL_NAME then deferred_target env input else Inr (name, input))"

definition check_ultraplan :: "tool_context \<Rightarrow> tool \<Rightarrow> tool_error + unit" where
  "check_ultraplan ctx t =
     (case ctx_ultraplan ctx of
        None \<Rightarrow> Inr ()
      | Some u \<Rightarrow>
          if up_profile u = GrillProfile \<and> \<not> ctx_ultraplan_state_loads ctx then
            Inl (PermissionDenied (t_id t)
              (''Grill-profile ultraplan run state '' @ [ch_backtick] @ up_run_id u @ [ch_backtick] @
               '' is missing or does not match the active session''))
          else case ultraplan_policy_violation u t of
            Some why \<Rightarrow>
              if up_mode u = Enforce then
                Inl (PermissionDenied (t_id t) (''ultraplan policy denied tool invocation: '' @ why))
              else Inr ()
          | None \<Rightarrow> Inr ())"

definition check_input :: "tool \<Rightarrow> json \<Rightarrow> tool_context \<Rightarrow> tool_error + unit" where
  "check_input t input ctx =
     and_then (map_err (\<lambda>e. InvalidInput (t_id t) (input_error_format e) (Some 400)) (validate_schema (t_id t) (t_schema t) input))
       (\<lambda>_. and_then (t_validate t input ctx) (\<lambda>v.
         if vo_result v then Inr ()
         else Inl (InvalidInput (t_id t)
           (case vo_message v of Some m \<Rightarrow> m | None \<Rightarrow> ''tool input failed validation'') (vo_error_code v))))"

text \<open>\<open>override\<close> is the broker of the context.\<close>

definition invoke_action ::
  "engine_env \<Rightarrow> broker_world \<Rightarrow> broker option \<Rightarrow> string \<Rightarrow> json \<Rightarrow> tool_context \<Rightarrow> broker_state \<Rightarrow>
   (tool_error + (tool \<times> broker_action)) \<times> broker_state" where
  "invoke_action env world override name input ctx s =
     try_in s (call_target env name input) (\<lambda>(target_name, target_input).
     try_in s (resolve_named env target_name) (\<lambda>t.
     try_in s (check_ultraplan ctx t) (\<lambda>_.
     try_in s (check_input t target_input ctx) (\<lambda>_.
     try_in s (t_check_permissions t target_input ctx) (\<lambda>decision.
       case ctx_denial_replay ctx of
         Some _ \<Rightarrow> (Inr (t, RunTool target_input ctx None), s)
       | None \<Rightarrow>
           let (action, s) = chain_resolve (ee_chain env) world
                 (case override of Some b \<Rightarrow> b | None \<Rightarrow> ee_broker env) (t_id t) ctx target_input decision s
           in (Inr (t, action), s))))))"

text \<open>\<open>None\<close> is a panic.\<close>

definition invoke_tool ::
  "engine_env \<Rightarrow> broker_world \<Rightarrow> broker option \<Rightarrow> string \<Rightarrow> json \<Rightarrow> tool_context \<Rightarrow> broker_state \<Rightarrow>
   (tool_error + json) option \<times> broker_state" where
  "invoke_tool env world override name input ctx s =
     (case invoke_action env world override name input ctx s of
        (Inl e, s) \<Rightarrow> (Some (Inl e), s)
      | (Inr (t, action), s) \<Rightarrow> (perform (t_call t) action, s))"

subsection \<open>Dispatch\<close>

record error_presentation =
  ep_code :: string
  ep_display_message :: string
  ep_model_message :: string

definition presentation_same :: "string \<Rightarrow> string \<Rightarrow> error_presentation" where
  "presentation_same c m = \<lparr>ep_code = c, ep_display_message = m, ep_model_message = m\<rparr>"

definition tool_error_text :: "tool_error \<Rightarrow> string" where
  "tool_error_text e =
     (let named = (\<lambda>tool. [ch_backtick] @ tool @ [ch_backtick])
      in case e of
           UnknownTool tool \<Rightarrow> ''tool '' @ named tool @ '' is not registered''
         | InvalidInput tool why _ \<Rightarrow> ''invalid input for tool '' @ named tool @ '': '' @ why
         | PermissionDenied tool why \<Rightarrow> ''permission denied for tool '' @ named tool @ '': '' @ why
         | CallCancelled tool why \<Rightarrow> ''tool '' @ named tool @ '' was cancelled: '' @ why
         | Presented tool _ _ m \<Rightarrow> m
         | Execution tool source \<Rightarrow> ''tool '' @ named tool @ '' execution failed: '' @ source)"

definition presentation :: "tool_error \<Rightarrow> error_presentation" where
  "presentation e =
     (case e of
        Presented _ c shown m \<Rightarrow> \<lparr>ep_code = c, ep_display_message = shown, ep_model_message = m\<rparr>
      | _ \<Rightarrow> presentation_same ''tool_error'' (tool_error_text e))"

record tool_use =
  tu_id :: string
  tu_name :: string
  tu_input :: json

text \<open>The event of a failure goes out to the subscribers and changes nothing.\<close>

definition dispatch_tool_use ::
  "engine_env \<Rightarrow> policy_sources \<Rightarrow> broker_world \<Rightarrow> broker option \<Rightarrow> tool_use \<Rightarrow> tool_context \<Rightarrow> broker_state \<Rightarrow>
   (error_presentation + json) option \<times> broker_state" where
  "dispatch_tool_use env sources world override use ctx s =
     (case run_pre_tool_use_hooks sources (tu_name use) (tu_input use) (tu_id use) of
        PreBlocked why \<Rightarrow> (Some (Inl (presentation_same ''hook_blocked'' why)), s)
      | PreContinue input \<Rightarrow>
          (case invoke_tool env world override (tu_name use) input (ctx\<lparr>ctx_tool_use_id := Some (tu_id use)\<rparr>) s of
             (None, s) \<Rightarrow> (None, s)
           | (Some (Inl e), s) \<Rightarrow> (Some (Inl (presentation e)), s)
           | (Some (Inr out), s) \<Rightarrow>
               (Some (Inr (ee_annotate env (tu_name use) input
                  (run_post_tool_use_hooks sources (tu_name use) input out (tu_id use)))), s)))"

end
