(* ===== verification/Dispatch_Facts.thy ===== *)
theory Dispatch_Facts
  imports Tool_Dispatch Chain_Facts Catalog_Facts
begin

text \<open>
  What a call of the model goes through before a tool runs: the path from \<open>invoke_tool\<close> to the chain of
  the session, and the gateway to the deferred tools.
\<close>

subsection \<open>The way to a tool\<close>








text \<open>A session with a shell tool that asks.\<close>

definition shell_schema :: json where
  "shell_schema =
     JObject [(''type'', JString ''object''), (''required'', JArray [JString ''command'']),
       (''properties'', JObject [(''command'', JObject [(''type'', JString ''string'')])])]"

definition plain_tool :: "string \<Rightarrow> permission_decision \<Rightarrow> tool" where
  "plain_tool name d =
     \<lparr>t_id = name, t_aliases = [], t_schema = shell_schema, t_enabled = True, t_should_defer = False, t_kind = tool_kind.Shell,
      t_validate = (\<lambda>_ _. Inr \<lparr>vo_result = True, vo_message = None, vo_error_code = None\<rparr>),
      t_check_permissions = (\<lambda>_ _. Inr d), t_call = (\<lambda>_ _. Inr JNull)\<rparr>"

definition decode_gateway :: "json \<Rightarrow> string + (string \<times> json)" where
  "decode_gateway v =
     (case (get_str ''tool_name'' v, json_get ''arguments'' v) of
        (Some n, Some a) \<Rightarrow> Inr (n, a)
      | _ \<Rightarrow> Inl ''missing field'')"

definition engine_of :: "tool list \<Rightarrow> broker \<Rightarrow> engine_env" where
  "engine_of ts broker =
     \<lparr>ee_chain = plain_chain_env,
      ee_resolve = (\<lambda>name. Inr (seat_resolve (scoped_tool_resolver
        \<lparr>tt_host = ts, tt_mcp = None, tt_session = None, tt_plugin = None, tt_upstream = None, tt_core_fallback = None\<rparr>)
        name None)),
      ee_is_deferred = is_deferred Interactive PreferAuto, ee_gateway = decode_gateway, ee_search_index = None,
      ee_broker = broker, ee_annotate = (\<lambda>_ _ out. out)\<rparr>"


subsection \<open>The gateway\<close>



definition fetching :: json where
  "fetching = JObject [(''tool_name'', JString ''WebFetch''), (''arguments'', sample_command)]"


subsection \<open>Findings\<close>

text \<open>The hooks before a tool run are asked under the name the model called: a hook that refuses every call of
  a tool is not asked where the tool is called through the gateway.\<close>

definition refusing :: "string \<Rightarrow> policy_sources" where
  "refusing name = no_sources\<lparr>ps_local :=
     [\<lparr>pe_id = ''p'', pe_order = 0, pe_active = True,
       pe_subscriber = \<lparr>sub_interest = (\<lambda>_. Some True), sub_budget = None,
         sub_decide = (\<lambda>r. case pr_payload r of
            OnPreToolUse tool _ _ \<Rightarrow> Inr (if tool = name then VerdictDeny ''refused'' else VerdictAllow)
          | _ \<Rightarrow> Inr VerdictAllow)\<rparr>\<rparr>]\<rparr>"

theorem gateway_call_escapes_hooks:
  "(let env = engine_of [plain_tool ''WebFetch'' (decision_allow sample_command)] DenyAskBroker;
        dispatch = (\<lambda>use. fst (dispatch_tool_use env (refusing ''WebFetch'') (choosing ''reject_once'') None use new_context fresh_broker))
    in dispatch \<lparr>tu_id = ''1'', tu_name = ''WebFetch'', tu_input = sample_command\<rparr> =
         Some (Inl (presentation_same ''hook_blocked'' ''refused'')) \<and>
       dispatch \<lparr>tu_id = ''2'', tu_name = ''InvokeDeferredTool'', tu_input = fetching\<rparr> = Some (Inr JNull))"
  by code_simp

end
