(* ===== verification/Path_Scope.thy ===== *)
theory Path_Scope
  imports Permission_Broker Auto_Input
begin

text \<open>
  What a tool checks of a path before it reads or writes there, \<open>crates/rebon-tool/src/path_scope.rs\<close>: the
  session credentials nobody may touch, and the roots a sub-agent is confined to.

  Parameters: \<open>fs\<close> is \<open>std::fs::canonicalize\<close>, \<open>links\<close> what \<open>std::fs::metadata\<close> says of the file behind a
  path, \<open>home\<close> the directory of the configuration. The build is the one for Unix.
\<close>

subsection \<open>Inside a root\<close>

definition is_within_scope :: "(string \<Rightarrow> fs_path option) \<Rightarrow> string \<Rightarrow> string \<Rightarrow> bool" where
  "is_within_scope fs path root = scope_path_starts_with (normalize_for_scope fs path) (normalize_for_scope fs root)"

definition path_is_within_root :: "(string \<Rightarrow> fs_path option) \<Rightarrow> string \<Rightarrow> string \<Rightarrow> bool" where
  "path_is_within_root = is_within_scope"

definition path_is_within_roots :: "(string \<Rightarrow> fs_path option) \<Rightarrow> string \<Rightarrow> string list \<Rightarrow> bool" where
  "path_is_within_roots fs path roots = list_ex (is_within_scope fs path) roots"

text \<open>The number of links of the file a path leads to.\<close>

datatype link_count = Links nat | NoFile | NoMetadata

definition mutation_target_has_single_link_or_is_missing :: "(string \<Rightarrow> link_count) \<Rightarrow> string \<Rightarrow> bool" where
  "mutation_target_has_single_link_or_is_missing links path =
     (case links path of Links n \<Rightarrow> n \<le> 1 | NoFile \<Rightarrow> True | NoMetadata \<Rightarrow> False)"

definition mutation_path_is_within_roots ::
  "(string \<Rightarrow> fs_path option) \<Rightarrow> (string \<Rightarrow> link_count) \<Rightarrow> string \<Rightarrow> string list \<Rightarrow> bool" where
  "mutation_path_is_within_roots fs links path roots \<longleftrightarrow>
     path_is_within_roots fs path roots \<and> mutation_target_has_single_link_or_is_missing links path"

definition worker_report_dir :: "string option \<Rightarrow> string" where
  "worker_report_dir home = join_path (case home of Some h \<Rightarrow> h | None \<Rightarrow> ''.rebon'') ''tasks''"

definition is_worker_report_path :: "(string \<Rightarrow> fs_path option) \<Rightarrow> string option \<Rightarrow> string \<Rightarrow> bool" where
  "is_worker_report_path fs home path = is_within_scope fs path (worker_report_dir home)"

subsection \<open>The context of a tool\<close>

text \<open>The fields of \<open>ToolContext\<close> the module reads.\<close>

record path_context =
  pc_cwd :: "string option"
  pc_agent_id :: "string option"
  pc_scope_roots :: "string list"
  pc_write_roots :: "string list option"

record path_env =
  pe_fs :: "string \<Rightarrow> fs_path option"
  pe_links :: "string \<Rightarrow> link_count"
  pe_home :: "string option"

definition resolve_context_path :: "string \<Rightarrow> string \<Rightarrow> string" where
  "resolve_context_path path cwd = (if prefix [ch_slash] path then path else join_path cwd path)"

definition context_path :: "path_context \<Rightarrow> string \<Rightarrow> string" where
  "context_path ctx path = (case pc_cwd ctx of Some cwd \<Rightarrow> resolve_context_path path cwd | None \<Rightarrow> path)"

definition subagent_path_scope_roots :: "path_context \<Rightarrow> string list" where
  "subagent_path_scope_roots ctx =
     (if pc_agent_id ctx = None then []
      else if pc_scope_roots ctx \<noteq> [] then pc_scope_roots ctx
      else (case pc_cwd ctx of Some cwd \<Rightarrow> [cwd] | None \<Rightarrow> []))"

definition format_roots :: "string list \<Rightarrow> string" where
  "format_roots roots = ''['' @ join '', '' (map (\<lambda>r. [ch_backtick] @ r @ [ch_backtick]) roots) @ '']''"

subsection \<open>Session credentials\<close>

definition session_credential_kind_under :: "(string \<Rightarrow> fs_path option) \<Rightarrow> string \<Rightarrow> string \<Rightarrow> string option" where
  "session_credential_kind_under fs path home =
     (let normalized = normalize_for_scope fs path;
          inside = (\<lambda>dir. is_within_scope fs (path_text normalized) (join_path home dir))
      in Option.bind (path_file_name normalized) (\<lambda>name.
        let name = lower name
        in if suffix ''.owner.json'' name \<and> inside ''projects'' then Some ''a session owner descriptor''
           else if suffix ''.agent-token'' name \<and> inside ''projects'' then Some ''a session agent-endpoint token''
           else if name = ''state.json'' \<and> inside ''jobs'' then Some ''a background job record''
           else None))"

definition session_credential_kind :: "path_env \<Rightarrow> string \<Rightarrow> string option" where
  "session_credential_kind env path = Option.bind (pe_home env) (session_credential_kind_under (pe_fs env) path)"

definition is_session_credential_path :: "path_env \<Rightarrow> string \<Rightarrow> bool" where
  "is_session_credential_path env path \<longleftrightarrow> session_credential_kind env path \<noteq> None"

definition enforce_session_credential_denial ::
  "path_env \<Rightarrow> string \<Rightarrow> path_context \<Rightarrow> string \<Rightarrow> string \<Rightarrow> string \<Rightarrow> tool_error + unit" where
  "enforce_session_credential_denial env tool ctx path param operation =
     (case session_credential_kind env (context_path ctx path) of
        None \<Rightarrow> Inr ()
      | Some what \<Rightarrow>
          let bt = [ch_backtick]; s = [ch_squote] @ ''s''
          in Inl (InvalidInput tool
               (bt @ param @ bt @ '' names '' @ what @ '' ('' @ bt @ context_path ctx path @ bt @
                ''), which carries the loopback endpoint and token that command a live session. Rebon refuses to '' @
                operation @ '' it: reading one is enough to drive somebody'' @ s @
                '' session, and writing one redirects where that session'' @ s @ '' commands go.'')
               (Some 400)))"

definition refuse_session_credential_command :: "string \<Rightarrow> string \<Rightarrow> json \<Rightarrow> tool_error + unit" where
  "refuse_session_credential_command tool shell_tool input =
     (if \<not> is_session_credential_access_command shell_tool input then Inr ()
      else
        let s = [ch_squote] @ ''s''
        in Inl (InvalidInput tool
             (''This command names a file that carries a live session'' @ s @
              '' loopback endpoint and token (a background job record or a session owner descriptor). Rebon refuses it: reading one is enough to drive somebody'' @
              s @ '' session, and writing one redirects where that session'' @ s @ '' commands go.'')
             (Some 400)))"

subsection \<open>The policies\<close>

definition enforce_path_scope ::
  "path_env \<Rightarrow> string \<Rightarrow> path_context \<Rightarrow> string \<Rightarrow> string \<Rightarrow> string list \<Rightarrow> string \<Rightarrow> bool \<Rightarrow> tool_error + unit" where
  "enforce_path_scope env tool ctx path param roots operation mutation =
     (let path = context_path ctx path;
          authorized =
            (if mutation then mutation_path_is_within_roots (pe_fs env) (pe_links env) path roots
             else path_is_within_roots (pe_fs env) path roots);
          bt = [ch_backtick]
      in if authorized then Inr ()
         else Inl (InvalidInput tool
           (''Sub-agent '' @ operation @ '' '' @ bt @ param @ bt @ '' is limited to authorized roots '' @
            format_roots roots @ ''; '' @ bt @ path @ bt @ '' is outside that scope.'')
           (Some 400)))"

definition enforce_read_path_policy ::
  "path_env \<Rightarrow> string \<Rightarrow> path_context \<Rightarrow> string \<Rightarrow> string \<Rightarrow> tool_error + unit" where
  "enforce_read_path_policy env tool ctx path param =
     and_then (enforce_session_credential_denial env tool ctx path param ''read'') (\<lambda>_.
       let roots = subagent_path_scope_roots ctx
       in if roots = [] then Inr ()
          else enforce_path_scope env tool ctx path param roots ''file access'' False)"

definition enforce_write_path_policy ::
  "path_env \<Rightarrow> string \<Rightarrow> path_context \<Rightarrow> string \<Rightarrow> string \<Rightarrow> tool_error + unit" where
  "enforce_write_path_policy env tool ctx path param =
     and_then (enforce_session_credential_denial env tool ctx path param ''write'') (\<lambda>_.
       case pc_write_roots ctx of
         Some roots \<Rightarrow> enforce_path_scope env tool ctx path param roots ''file mutation'' True
       | None \<Rightarrow>
           let roots = subagent_path_scope_roots ctx
           in if roots = [] then Inr ()
              else enforce_path_scope env tool ctx path param roots ''file mutation'' True)"

end
