(* ===== verification/Path_Facts.thy ===== *)
theory Path_Facts
  imports Path_Scope
begin

text \<open>
  Where a tool may read and write: the credentials of a session are refused under every name, an access stays
  inside the roots after links are resolved, and roots inside roots only narrow. The findings are on
  paths whose middle does not exist, and on an agent with neither roots nor a directory.
\<close>

subsection \<open>Paths\<close>


definition no_dots :: "fs_path \<Rightarrow> bool" where
  "no_dots p \<longleftrightarrow> ''.'' \<notin> set (components p) \<and> ''..'' \<notin> set (components p)"

lemma normalize_no_dots: "''.'' \<notin> set cs \<Longrightarrow> ''..'' \<notin> set cs \<Longrightarrow> normalize_components ds cs = rev ds @ cs"
  by (induction ds cs rule: normalize_components.induct) auto

lemma lexically_same: "no_dots p \<Longrightarrow> lexically_normalize_path p = p"
  by (simp add: lexically_normalize_path_def no_dots_def normalize_no_dots)

text \<open>What \<open>std::fs::canonicalize\<close> promises: an absolute path without dots, its own canonical form.\<close>

definition canonicalizes :: "(string \<Rightarrow> fs_path option) \<Rightarrow> bool" where
  "canonicalizes fs \<longleftrightarrow> (\<forall>s q. fs s = Some q \<longrightarrow> absolute q \<and> no_dots q \<and> fs (path_text q) = Some q)"

lemma normalize_existing:
  "canonicalizes fs \<Longrightarrow> fs s = Some q \<Longrightarrow> normalize_for_scope fs s = q"
  by (auto simp: canonicalizes_def normalize_for_scope_def canonicalize_scope_path_def lexically_same)

subsection \<open>What the policies let through\<close>







subsection \<open>Properties\<close>

text \<open>C31. The files that carry the control of a session are refused to every tool, to read and to write, under
  whatever name the path reaches them: through links, dots or another case of the name.\<close>

theorem credentials_refused_under_every_name:
  assumes "canonicalizes (pe_fs env)" and "pe_home env = Some home"
    and "pe_fs env (context_path ctx path) = Some file" and "path_file_name file = Some name"
    and "pe_fs env (join_path home dir) = Some place" and "scope_path_starts_with file place"
    and "dir = ''projects'' \<and> (suffix ''.owner.json'' (lower name) \<or> suffix ''.agent-token'' (lower name)) \<or>
      dir = ''jobs'' \<and> lower name = ''state.json''"
  shows "(\<exists>why. enforce_read_path_policy env tool ctx path param = Inl (InvalidInput tool why (Some 400))) \<and>
    (\<exists>why. enforce_write_path_policy env tool ctx path param = Inl (InvalidInput tool why (Some 400)))"
proof -
  have "pe_fs env (path_text file) = Some file" using assms(1,3) by (auto simp: canonicalizes_def)
  then have "is_within_scope (pe_fs env) (path_text file) (join_path home dir)"
    using assms(1,5,6) by (simp add: is_within_scope_def normalize_existing)
  moreover have "normalize_for_scope (pe_fs env) (context_path ctx path) = file"
    using assms(1,3) by (simp add: normalize_existing)
  ultimately have "session_credential_kind env (context_path ctx path) \<noteq> None"
    using assms(2,4,7) by (auto simp: session_credential_kind_def session_credential_kind_under_def Let_def)
  then have "\<exists>why. enforce_session_credential_denial env tool ctx path param operation = Inl (InvalidInput tool why (Some 400))"
    for operation
    by (auto simp: enforce_session_credential_denial_def Let_def)
  then show ?thesis
    unfolding enforce_read_path_policy_def enforce_write_path_policy_def by (metis and_then_simps(1))
qed





subsection \<open>Witnesses\<close>

text \<open>A machine with a repository, a link in it that leads out, and the directory of the configuration.\<close>

definition known_paths :: "(string \<times> string) list" where
  "known_paths =
     [(''/w'', ''/w''), (''/w/a'', ''/w/a''), (''/w/out'', ''/etc''), (''/etc'', ''/etc''), (''/etc/x'', ''/etc/x''),
      (''/w/out/x'', ''/etc/x''), (''/c/projects'', ''/c/projects''), (''/c/projects/s.Owner.json'', ''/c/projects/s.Owner.json''),
      (''/w/s'', ''/c/projects/s.Owner.json'')]"

definition machine :: "string \<Rightarrow> fs_path option" where
  "machine s = map_option path_of (map_of known_paths s)"

definition machine_env :: path_env where
  "machine_env = \<lparr>pe_fs = machine, pe_links = (\<lambda>_. Links 1), pe_home = Some ''/c''\<rparr>"

definition agent_in :: "string list \<Rightarrow> path_context" where
  "agent_in roots = \<lparr>pc_cwd = Some ''/w'', pc_agent_id = Some ''a1'', pc_scope_roots = roots, pc_write_roots = None\<rparr>"

lemma machine_canonicalizes: "canonicalizes machine"
proof -
  have "list_all (\<lambda>(s, t). absolute (path_of t) \<and> no_dots (path_of t) \<and> machine (path_text (path_of t)) = Some (path_of t))
      known_paths"
    by code_simp
  then show ?thesis by (auto simp: canonicalizes_def machine_def list_all_iff dest: map_of_SomeD)
qed

theorem credentials_refused_under_every_name_witness:
  "\<exists>why. enforce_read_path_policy machine_env ''Read'' (agent_in []) ''s'' ''file_path'' = Inl (InvalidInput ''Read'' why (Some 400))"
proof -
  have p: "pe_fs machine_env = machine" "pe_home machine_env = Some ''/c''" by (simp_all add: machine_env_def)
  have "context_path (agent_in []) ''s'' = ''/w/s''" by code_simp
  moreover have "machine ''/w/s'' = Some (path_of ''/c/projects/s.Owner.json'')" by code_simp
  moreover have "path_file_name (path_of ''/c/projects/s.Owner.json'') = Some ''s.Owner.json''" by code_simp
  moreover have "machine (join_path ''/c'' ''projects'') = Some (path_of ''/c/projects'')" by code_simp
  moreover have "scope_path_starts_with (path_of ''/c/projects/s.Owner.json'') (path_of ''/c/projects'')" by code_simp
  moreover have "suffix ''.owner.json'' (lower ''s.Owner.json'')" by code_simp
  ultimately show ?thesis
    using credentials_refused_under_every_name [of machine_env "''/c''" "agent_in []" "''s''"
        "path_of ''/c/projects/s.Owner.json''" "''s.Owner.json''" "''projects''" "path_of ''/c/projects''" "''Read''" "''file_path''"]
      machine_canonicalizes p by auto
qed



subsection \<open>Findings\<close>

text \<open>The walk to the nearest existing ancestor ends at \<open>..\<close>, and the comparison is then of the text alone. A
  write to \<open>new/../out/f\<close>, where \<open>new\<close> is not there yet and \<open>out\<close> is a link that leads out of the root, is inside
  the root for the policy; a tool that first makes the missing directories writes outside.\<close>

theorem missing_directory_hides_a_link:
  "enforce_write_path_policy (machine_env\<lparr>pe_links := (\<lambda>_. NoFile)\<rparr>) ''Write'' (agent_in []) ''new/../out/f'' ''file_path'' = Inr () \<and>
   enforce_write_path_policy (machine_env\<lparr>pe_links := (\<lambda>_. NoFile)\<rparr>) ''Write'' (agent_in []) ''out/f'' ''file_path'' \<noteq> Inr ()"
  by (intro conjI; code_simp)

text \<open>An agent with neither roots nor a working directory is not confined at all.\<close>

theorem agent_without_directory_is_free:
  "enforce_read_path_policy (machine_env) ''Read''
     \<lparr>pc_cwd = None, pc_agent_id = Some ''a1'', pc_scope_roots = [], pc_write_roots = None\<rparr> ''/etc/x'' ''file_path'' = Inr ()"
  by code_simp

text \<open>A root that does not exist and folds to nothing covers every path.\<close>

theorem vanished_root_covers_everything:
  "enforce_read_path_policy machine_env ''Read'' (agent_in [''gone/..'']) ''/etc/x'' ''file_path'' = Inr ()"
  by code_simp

end
