(* ===== verification/Response_Registry.thy ===== *)
theory Response_Registry
  imports Remote_Permission
begin

text \<open>
  The registry of handlers that wait for a controller's decision, \<open>PermissionResponseRegistry\<close> of
  \<open>crates/rebon-bridge/src/permission_callbacks.rs\<close>. A handler is a closure; the model names each by a
  number and keeps what it was called with. Shown is that a handler answers at most once, whatever the
  order of registrations, decisions and cancellations; the finding is on the guard of a registration
  that another has replaced.
\<close>

subsection \<open>The registry\<close>

record response_registry =
  handlers :: "string \<Rightarrow> nat option"
  invoked :: "(nat \<times> bridge_permission_response) list"
  next_handler :: nat

definition empty_registry :: response_registry where
  "empty_registry = \<lparr>handlers = Map.empty, invoked = [], next_handler = 0\<rparr>"

record registration_guard =
  guard_request_id :: "string option"

datatype delivery_outcome = HandlerRan | NoHandler

definition register_handler :: "string \<Rightarrow> response_registry \<Rightarrow> registration_guard \<times> response_registry" where
  "register_handler rid r =
     (\<lparr>guard_request_id = Some rid\<rparr>,
      r\<lparr>handlers := (handlers r)(rid \<mapsto> next_handler r), next_handler := next_handler r + 1\<rparr>)"

definition deliver_response ::
  "string \<Rightarrow> bridge_permission_response \<Rightarrow> response_registry \<Rightarrow> delivery_outcome \<times> response_registry" where
  "deliver_response rid response r =
     (case handlers r rid of
        Some h \<Rightarrow> (HandlerRan, r\<lparr>handlers := (handlers r)(rid := None), invoked := invoked r @ [(h, response)]\<rparr>)
      | None \<Rightarrow> (NoHandler, r))"

definition cancel_handler :: "string \<Rightarrow> response_registry \<Rightarrow> bool \<times> response_registry" where
  "cancel_handler rid r = (handlers r rid \<noteq> None, r\<lparr>handlers := (handlers r)(rid := None)\<rparr>)"

definition has_handler :: "string \<Rightarrow> response_registry \<Rightarrow> bool" where
  "has_handler rid r \<longleftrightarrow> handlers r rid \<noteq> None"

definition unsubscribe_guard :: "registration_guard \<Rightarrow> response_registry \<Rightarrow> bool \<times> response_registry" where
  "unsubscribe_guard g r =
     (case guard_request_id g of Some rid \<Rightarrow> cancel_handler rid r | None \<Rightarrow> (False, r))"

definition forget_guard :: "registration_guard \<Rightarrow> registration_guard" where
  "forget_guard g = g\<lparr>guard_request_id := None\<rparr>"

definition drop_guard :: "registration_guard \<Rightarrow> response_registry \<Rightarrow> response_registry" where
  "drop_guard g r = snd (unsubscribe_guard g r)"

subsection \<open>Steps\<close>

inductive registry_step :: "response_registry \<Rightarrow> response_registry \<Rightarrow> bool" where
  registering: "registry_step r (snd (register_handler rid r))"
| delivering: "registry_step r (snd (deliver_response rid response r))"
| cancelling: "registry_step r (snd (cancel_handler rid r))"
| dropping: "registry_step r (drop_guard g r)"

definition registry_ok :: "response_registry \<Rightarrow> bool" where
  "registry_ok r \<longleftrightarrow>
     inj_on (handlers r) (dom (handlers r)) \<and> distinct (map fst (invoked r)) \<and>
     (\<forall>h \<in> ran (handlers r) \<union> fst ` set (invoked r). h < next_handler r) \<and>
     ran (handlers r) \<inter> fst ` set (invoked r) = {}"

lemma registry_ok_new: "registry_ok empty_registry"
  by (simp add: registry_ok_def empty_registry_def)

lemma inj_on_dom_upd:
  assumes "inj_on m (dom m)"
  shows "inj_on (m(k := None)) (dom (m(k := None)))"
    and "h \<notin> ran m \<Longrightarrow> inj_on (m(k \<mapsto> h)) (dom (m(k \<mapsto> h)))"
proof -
  have "inj_on m (dom m - {k})" using assms by (rule inj_on_subset) blast
  then show del: "inj_on (m(k := None)) (dom (m(k := None)))" by (simp add: inj_on_def)
  assume "h \<notin> ran m"
  then have "m x \<noteq> Some h" for x by (auto simp: ran_def)
  with \<open>inj_on m (dom m - {k})\<close> show "inj_on (m(k \<mapsto> h)) (dom (m(k \<mapsto> h)))"
    by (auto simp: inj_on_def dom_def dest: sym)
qed

lemma ran_upd_None_subset: "ran (m(k := None)) \<subseteq> ran m"
  by (auto simp: ran_def)

lemma registry_ok_cancel: "registry_ok r \<Longrightarrow> registry_ok (snd (cancel_handler rid r))"
  using ran_upd_None_subset [of "handlers r" rid] inj_on_dom_upd(1) [of "handlers r" rid]
  by (simp add: registry_ok_def cancel_handler_def) blast

lemma ran_upd_Some_subset: "ran (m(k \<mapsto> h)) \<subseteq> insert h (ran m)"
  by (auto simp: ran_def)

lemma apart_insert: "A \<subseteq> insert x B \<Longrightarrow> x \<notin> C \<Longrightarrow> B \<inter> C = {} \<Longrightarrow> A \<inter> C = {}"
  by blast

lemma in_insert_or: "A \<subseteq> insert x B \<Longrightarrow> y \<in> A \<union> C \<Longrightarrow> y = x \<or> y \<in> B \<union> C"
  by blast

lemma registry_ok_register:
  assumes "registry_ok r"
  shows "registry_ok (snd (register_handler rid r))"
proof -
  have fresh: "next_handler r \<notin> ran (handlers r)" "next_handler r \<notin> fst ` set (invoked r)"
    using assms by (auto simp: registry_ok_def)
  have apart: "ran (handlers r) \<inter> fst ` set (invoked r) = {}"
    using assms by (simp add: registry_ok_def)
  have old: "\<forall>h \<in> ran (handlers r) \<union> fst ` set (invoked r). h < next_handler r + 1"
    using assms by (simp add: registry_ok_def less_SucI)
  have sub: "ran ((handlers r)(rid \<mapsto> next_handler r)) \<subseteq> insert (next_handler r) (ran (handlers r))"
    by (rule ran_upd_Some_subset)
  have "ran ((handlers r)(rid \<mapsto> next_handler r)) \<inter> fst ` set (invoked r) = {}"
    using apart_insert [OF sub fresh(2) apart] .
  moreover have "\<forall>h \<in> ran ((handlers r)(rid \<mapsto> next_handler r)) \<union> fst ` set (invoked r). h < next_handler r + 1"
  proof
    fix h
    assume "h \<in> ran ((handlers r)(rid \<mapsto> next_handler r)) \<union> fst ` set (invoked r)"
    then have "h = next_handler r \<or> h \<in> ran (handlers r) \<union> fst ` set (invoked r)"
      by (rule in_insert_or [OF sub])
    with old show "h < next_handler r + 1" by (elim disjE) simp_all
  qed
  ultimately show ?thesis
    using assms inj_on_dom_upd(2) [OF _ fresh(1)] by (simp add: registry_ok_def register_handler_def)
qed

lemma registry_ok_deliver:
  assumes "registry_ok r"
  shows "registry_ok (snd (deliver_response rid response r))"
proof (cases "handlers r rid")
  case (Some h)
  let ?m = "(handlers r)(rid := None)"
  have sub: "ran ?m \<subseteq> ran (handlers r)" by (rule ran_upd_None_subset)
  have h: "h \<in> ran (handlers r)" using Some by (rule ranI)
  have "h \<notin> ran ?m"
  proof
    assume "h \<in> ran ?m"
    then obtain k where "handlers r k = Some h" "k \<noteq> rid" by (auto simp: ran_def split: if_splits)
    with Some assms show False by (auto simp: registry_ok_def inj_on_def dom_def)
  qed
  moreover have "h \<notin> fst ` set (invoked r)" using h assms by (auto simp: registry_ok_def)
  ultimately have "ran ?m \<inter> insert h (fst ` set (invoked r)) = {}" "distinct (map fst (invoked r @ [(h, response)]))"
    using sub assms by (auto simp: registry_ok_def)
  moreover have "\<forall>g \<in> ran ?m \<union> insert h (fst ` set (invoked r)). g < next_handler r"
    using sub h assms unfolding registry_ok_def by blast
  ultimately show ?thesis
    using Some assms inj_on_dom_upd(1) [of "handlers r" rid]
    by (simp add: registry_ok_def deliver_response_def)
qed (simp add: assms deliver_response_def)

lemma registry_ok_drop: "registry_ok r \<Longrightarrow> registry_ok (drop_guard g r)"
  by (auto simp: drop_guard_def unsubscribe_guard_def registry_ok_cancel split: option.split)

lemma registry_ok_step: "registry_step r r' \<Longrightarrow> registry_ok r \<Longrightarrow> registry_ok r'"
  by (induction rule: registry_step.induct)
    (simp_all add: registry_ok_register registry_ok_deliver registry_ok_cancel registry_ok_drop)

lemma registry_ok_reachable: "registry_step\<^sup>*\<^sup>* empty_registry r \<Longrightarrow> registry_ok r"
  by (induction rule: rtranclp_induct) (simp_all add: registry_ok_new registry_ok_step)

subsection \<open>Properties\<close>

text \<open>Over any run of the registry a handler is called at most once, and not after it was called, cancelled or
  replaced; a decision calls the handler registered last for its request, and the next one finds none.\<close>

theorem handler_answers_at_most_once:
  assumes "registry_step\<^sup>*\<^sup>* empty_registry r" and "deliver_response rid response r = (outcome, r')"
  shows "distinct (map fst (invoked r')) \<and>
    (\<forall>h. handlers r rid = Some h \<longrightarrow> outcome = HandlerRan \<and> invoked r' = invoked r @ [(h, response)] \<and> h \<notin> fst ` set (invoked r)) \<and>
    deliver_response rid again r' = (NoHandler, r')"
proof -
  have "registry_ok r" using registry_ok_reachable assms(1) .
  moreover from registry_ok_deliver [OF this, of rid response] have "registry_ok r'" by (simp add: assms(2))
  ultimately show ?thesis
    using assms(2) by (auto simp: registry_ok_def deliver_response_def ran_def split: option.splits)
qed

theorem handler_answers_at_most_once_witness:
  "\<exists>r'. deliver_response ''r1'' (new_response BehaviorAllow) (snd (register_handler ''r1'' empty_registry)) = (HandlerRan, r') \<and>
     distinct (map fst (invoked r'))"
proof -
  let ?r = "snd (register_handler ''r1'' empty_registry)"
  have "registry_step\<^sup>*\<^sup>* empty_registry ?r" using registry_step.registering by blast
  from handler_answers_at_most_once [OF this, of "''r1''" "new_response BehaviorAllow" "fst (deliver_response ''r1'' (new_response BehaviorAllow) ?r)"
      "snd (deliver_response ''r1'' (new_response BehaviorAllow) ?r)"]
  show ?thesis
    by (auto simp: register_handler_def empty_registry_def deliver_response_def)
qed

text \<open>The guard of a registration remembers the request only. Where a second registration for the request has
  replaced the first, dropping the first guard removes the second handler.\<close>

theorem stale_guard_drops_the_successor:
  "(let (first, r) = register_handler ''r1'' empty_registry;
        (second, r) = register_handler ''r1'' r
    in has_handler ''r1'' r \<and> \<not> has_handler ''r1'' (drop_guard first r))"
  by code_simp

end
