(* ===== verification/Context_Budget.thy ===== *)
theory Context_Budget
  imports Rust_Prelude "HOL-Library.Word"
begin

text \<open>
  The budget of a conversation's context window, \<open>crates/rebon-api/src/context_prune.rs\<close>: how
  aggressively the history is pruned, the token counts the decision rests on, the one-shot
  requests, the breaker that stops a compaction that keeps failing, and the handle the interface
  and the middleware share. Counts are the \<open>u32\<close> of the source: where it saturates the model
  saturates, and where it multiplies plainly the model wraps, as a release build does. A field that
  an atomic \<open>0\<close> or \<open>1\<close> stands for is a truth value. The level is a cell of its own, because
  a fork shares it with its parent while everything else of the handle is the fork's own.
\<close>

type_synonym u32 = "32 word"

definition saturating_sub :: "u32 \<Rightarrow> u32 \<Rightarrow> u32" where
  "saturating_sub a b = (if b \<le> a then a - b else 0)"

definition saturating_mul32 :: "u32 \<Rightarrow> u32 \<Rightarrow> u32" where
  "saturating_mul32 a b = (if unat a * unat b < 2 ^ 32 then a * b else - 1)"

subsection \<open>Levels and configuration\<close>

datatype prune_level = PruneOff | Conservative | Aggressive

definition level_as_u8 :: "prune_level \<Rightarrow> 8 word" where
  "level_as_u8 l = (case l of PruneOff \<Rightarrow> 0 | Conservative \<Rightarrow> 1 | Aggressive \<Rightarrow> 2)"

definition level_from_u8 :: "8 word \<Rightarrow> prune_level" where
  "level_from_u8 v = (if v = 0 then PruneOff else if v = 1 then Conservative else Aggressive)"

definition level_from_config_value :: "string \<Rightarrow> prune_level" where
  "level_from_config_value s =
     (if s = ''off'' then PruneOff
      else if s = ''conservative'' then Conservative
      else if s = ''aggressive'' then Aggressive
      else Conservative)"

definition level_as_config_value :: "prune_level \<Rightarrow> string" where
  "level_as_config_value l =
     (case l of PruneOff \<Rightarrow> ''off'' | Conservative \<Rightarrow> ''conservative'' | Aggressive \<Rightarrow> ''aggressive'')"

record context_prune_config =
  protected_recent_turns :: nat
  tool_result_max_age_turns :: nat
  error_purge_age_turns :: nat

definition full_history_replay :: context_prune_config where
  "full_history_replay =
     \<lparr>protected_recent_turns = 2, tool_result_max_age_turns = 4, error_purge_age_turns = 2\<rparr>"

definition default_prune_config :: context_prune_config where
  "default_prune_config =
     \<lparr>protected_recent_turns = 4, tool_result_max_age_turns = 8, error_purge_age_turns = 4\<rparr>"

subsection \<open>Statistics\<close>

record prune_stats =
  tool_results_cleared :: u32
  duplicates_removed :: u32
  errors_purged :: u32
  thinking_cleared :: u32
  messages_truncated :: u32
  requests_processed :: u32
  last_reported_tokens :: u32

definition empty_stats :: prune_stats where
  "empty_stats =
     \<lparr>tool_results_cleared = 0, duplicates_removed = 0, errors_purged = 0, thinking_cleared = 0,
      messages_truncated = 0, requests_processed = 0, last_reported_tokens = 0\<rparr>"

subsection \<open>The budget\<close>

definition DEFAULT_CONTEXT_WINDOW :: u32 where "DEFAULT_CONTEXT_WINDOW = 1000000"
definition RESERVED_FOR_SUMMARY :: u32 where "RESERVED_FOR_SUMMARY = 20000"
definition AUTOCOMPACT_TRIGGER_PCT :: u32 where "AUTOCOMPACT_TRIGGER_PCT = 95"
definition WARNING_THRESHOLD_BUFFER :: u32 where "WARNING_THRESHOLD_BUFFER = 20000"
definition MICROCOMPACT_TRIGGER_PCT :: u32 where "MICROCOMPACT_TRIGGER_PCT = 70"
definition MICROCOMPACT_TARGET_PCT :: u32 where "MICROCOMPACT_TARGET_PCT = 50"
definition FULL_HISTORY_REPLAY_TRIGGER_MAX :: u32 where "FULL_HISTORY_REPLAY_TRIGGER_MAX = 48000"
definition FULL_HISTORY_REPLAY_TARGET_MAX :: u32 where "FULL_HISTORY_REPLAY_TARGET_MAX = 32000"
definition MAX_CONSECUTIVE_COMPACT_FAILURES :: u32 where "MAX_CONSECUTIVE_COMPACT_FAILURES = 3"

definition auto_compact_threshold_for_window :: "u32 \<Rightarrow> u32 \<Rightarrow> u32" where
  "auto_compact_threshold_for_window window reserve =
     saturating_mul32 (saturating_sub window reserve) AUTOCOMPACT_TRIGGER_PCT div 100"

datatype usage_source = UsageUnknown | UsageServer | UsageEstimated

definition usage_source_str :: "usage_source \<Rightarrow> string" where
  "usage_source_str s =
     (case s of UsageUnknown \<Rightarrow> ''unknown'' | UsageServer \<Rightarrow> ''server'' | UsageEstimated \<Rightarrow> ''estimated'')"

record context_budget =
  context_window :: u32
  output_token_reserve :: u32
  auto_compact_threshold :: u32
  auto_compact_token_limit :: u32
  microcompact_trigger_max :: u32
  microcompact_target_max :: u32
  last_input_tokens :: u32
  last_usage_source :: usage_source
  auto_compact_enabled :: bool
  force_compact_flag :: bool
  manual_compact_instructions :: "string option"
  compact_floor :: u32
  consecutive_compact_failures :: u32

definition with_output_reserve :: "u32 \<Rightarrow> u32 \<Rightarrow> context_budget" where
  "with_output_reserve window reserve =
     \<lparr>context_window = window, output_token_reserve = reserve,
      auto_compact_threshold = auto_compact_threshold_for_window window reserve,
      auto_compact_token_limit = - 1,
      microcompact_trigger_max = - 1, microcompact_target_max = - 1,
      last_input_tokens = 0, last_usage_source = UsageUnknown,
      auto_compact_enabled = True, force_compact_flag = False,
      manual_compact_instructions = None, compact_floor = 0, consecutive_compact_failures = 0\<rparr>"

definition budget_report_usage :: "u32 \<Rightarrow> context_budget \<Rightarrow> context_budget" where
  "budget_report_usage n b = b\<lparr>last_input_tokens := n, last_usage_source := UsageServer\<rparr>"

definition budget_clear_usage :: "context_budget \<Rightarrow> context_budget" where
  "budget_clear_usage b = b\<lparr>last_input_tokens := 0, last_usage_source := UsageUnknown\<rparr>"

definition budget_report_estimated :: "u32 \<Rightarrow> context_budget \<Rightarrow> context_budget" where
  "budget_report_estimated n b = b\<lparr>last_input_tokens := n, last_usage_source := UsageEstimated\<rparr>"

definition usage_snapshot :: "context_budget \<Rightarrow> u32 \<times> usage_source" where
  "usage_snapshot b = (last_input_tokens b, last_usage_source b)"

definition recompute_threshold :: "context_budget \<Rightarrow> context_budget" where
  "recompute_threshold b =
     b\<lparr>auto_compact_threshold :=
         min (auto_compact_threshold_for_window (context_window b) (output_token_reserve b))
           (auto_compact_token_limit b)\<rparr>"

definition set_context_limits :: "u32 \<Rightarrow> u32 \<Rightarrow> context_budget \<Rightarrow> context_budget" where
  "set_context_limits window reserve b =
     recompute_threshold (b\<lparr>context_window := window, output_token_reserve := reserve\<rparr>)"

definition set_context_window :: "u32 \<Rightarrow> context_budget \<Rightarrow> context_budget" where
  "set_context_window window b = set_context_limits window (output_token_reserve b) b"

definition set_auto_compact_token_limit :: "u32 option \<Rightarrow> context_budget \<Rightarrow> context_budget" where
  "set_auto_compact_token_limit limit b =
     recompute_threshold
       (b\<lparr>auto_compact_token_limit := (case limit of Some n \<Rightarrow> n | None \<Rightarrow> - 1)\<rparr>)"

definition auto_compact_limit_of :: "context_budget \<Rightarrow> u32 option" where
  "auto_compact_limit_of b =
     (if auto_compact_token_limit b = - 1 then None else Some (auto_compact_token_limit b))"

definition set_auto_compact_enabled :: "bool \<Rightarrow> context_budget \<Rightarrow> context_budget" where
  "set_auto_compact_enabled on b = b\<lparr>auto_compact_enabled := on\<rparr>"

definition input_token_budget :: "context_budget \<Rightarrow> u32" where
  "input_token_budget b = saturating_sub (context_window b) (output_token_reserve b)"

definition set_microcompact_caps :: "u32 \<Rightarrow> u32 \<Rightarrow> context_budget \<Rightarrow> context_budget" where
  "set_microcompact_caps trigger target b =
     b\<lparr>microcompact_trigger_max := trigger, microcompact_target_max := target\<rparr>"

definition use_full_history_replay_profile :: "context_budget \<Rightarrow> context_budget" where
  "use_full_history_replay_profile =
     set_microcompact_caps FULL_HISTORY_REPLAY_TRIGGER_MAX FULL_HISTORY_REPLAY_TARGET_MAX"

definition window_auto_compact_threshold :: "context_budget \<Rightarrow> u32" where
  "window_auto_compact_threshold b =
     auto_compact_threshold_for_window (context_window b) (output_token_reserve b)"

definition auto_compact_red_zone_start :: "context_budget \<Rightarrow> u32" where
  "auto_compact_red_zone_start b = saturating_sub (input_token_budget b) RESERVED_FOR_SUMMARY"

subsection \<open>One-shot requests\<close>

definition force_compact_once :: "string option \<Rightarrow> context_budget \<Rightarrow> context_budget" where
  "force_compact_once instructions b =
     b\<lparr>manual_compact_instructions :=
         Option.bind instructions (\<lambda>v. if trim v = [] then None else Some (trim v)),
       force_compact_flag := True\<rparr>"

definition take_compact_once :: "context_budget \<Rightarrow> (bool \<times> string option) \<times> context_budget" where
  "take_compact_once b =
     (if \<not> force_compact_flag b then ((False, None), b)
      else ((True, manual_compact_instructions b),
            b\<lparr>force_compact_flag := False, manual_compact_instructions := None\<rparr>))"

definition compact_once_if_at_least :: "u32 \<Rightarrow> context_budget \<Rightarrow> context_budget" where
  "compact_once_if_at_least min_tokens b = b\<lparr>compact_floor := max min_tokens 1\<rparr>"

definition take_compact_floor :: "context_budget \<Rightarrow> u32 option \<times> context_budget" where
  "take_compact_floor b =
     ((if compact_floor b = 0 then None else Some (compact_floor b)), b\<lparr>compact_floor := 0\<rparr>)"

subsection \<open>Decisions\<close>

definition auto_compact_allowed :: "context_budget \<Rightarrow> bool" where
  "auto_compact_allowed b \<longleftrightarrow>
     auto_compact_enabled b \<and> consecutive_compact_failures b < MAX_CONSECUTIVE_COMPACT_FAILURES"

definition should_auto_compact_for_tokens :: "u32 \<Rightarrow> context_budget \<Rightarrow> bool" where
  "should_auto_compact_for_tokens n b \<longleftrightarrow> auto_compact_allowed b \<and> auto_compact_threshold b \<le> n"

definition should_auto_compact :: "context_budget \<Rightarrow> bool" where
  "should_auto_compact b = should_auto_compact_for_tokens (last_input_tokens b) b"

definition record_compact_failure :: "context_budget \<Rightarrow> context_budget" where
  "record_compact_failure b = b\<lparr>consecutive_compact_failures := consecutive_compact_failures b + 1\<rparr>"

definition record_compact_success :: "context_budget \<Rightarrow> context_budget" where
  "record_compact_success b = b\<lparr>consecutive_compact_failures := 0\<rparr>"

definition is_above_warning :: "context_budget \<Rightarrow> bool" where
  "is_above_warning b \<longleftrightarrow>
     saturating_sub (input_token_budget b) WARNING_THRESHOLD_BUFFER \<le> last_input_tokens b"

definition usage_percent :: "context_budget \<Rightarrow> u32" where
  "usage_percent b =
     (if context_window b = 0 then 0
      else ucast ((ucast (last_input_tokens b) * 100 :: 64 word) div ucast (context_window b)))"

definition microcompact_scaled :: "u32 \<Rightarrow> context_budget \<Rightarrow> u32" where
  "microcompact_scaled pct b = saturating_sub (context_window b) RESERVED_FOR_SUMMARY * pct div 100"

definition microcompact_trigger :: "context_budget \<Rightarrow> u32" where
  "microcompact_trigger b =
     min (microcompact_scaled MICROCOMPACT_TRIGGER_PCT b) (microcompact_trigger_max b)"

definition microcompact_target :: "context_budget \<Rightarrow> u32" where
  "microcompact_target b =
     min (microcompact_scaled MICROCOMPACT_TARGET_PCT b) (microcompact_target_max b)"

definition should_microcompact :: "context_budget \<Rightarrow> bool" where
  "should_microcompact b \<longleftrightarrow> auto_compact_enabled b \<and> microcompact_trigger b \<le> last_input_tokens b"

definition context_info :: "context_budget \<Rightarrow> string" where
  "context_info b =
     ''Context window: '' @ decimal (unat (context_window b)) @ '' tokens'' @ [ch_lf] @
     ''Output reserve: '' @ decimal (unat (output_token_reserve b)) @ '' tokens'' @ [ch_lf] @
     ''Input budget:   '' @ decimal (unat (input_token_budget b)) @ '' tokens'' @ [ch_lf] @
     ''Current usage:  '' @ decimal (unat (last_input_tokens b)) @ '' tokens ('' @
       decimal (unat (usage_percent b)) @ ''%, source: '' @ usage_source_str (last_usage_source b) @
       '')'' @ [ch_lf] @
     ''Auto-compact:   '' @ (if auto_compact_enabled b then ''on'' else ''off'') @
       '' (threshold: '' @ decimal (unat (auto_compact_threshold b)) @ '' tokens)''"

subsection \<open>The shared handle\<close>

record prune_handle =
  handle_stats :: prune_stats
  handle_budget :: context_budget
  default_context_window :: u32
  default_output_token_reserve :: u32
  model_context_windows :: "string \<Rightarrow> u32 option"
  model_output_token_limits :: "string \<Rightarrow> u32 option"
  sweep_pending :: u32

definition with_model_context_limits ::
  "u32 \<Rightarrow> u32 \<Rightarrow> (string \<times> u32) list \<Rightarrow> (string \<times> u32) list \<Rightarrow> prune_handle" where
  "with_model_context_limits window reserve windows limits =
     \<lparr>handle_stats = empty_stats, handle_budget = with_output_reserve window reserve,
      default_context_window = window, default_output_token_reserve = reserve,
      model_context_windows = map_of (rev windows), model_output_token_limits = map_of (rev limits),
      sweep_pending = 0\<rparr>"

definition handle_report_usage :: "u32 \<Rightarrow> prune_handle \<Rightarrow> prune_handle" where
  "handle_report_usage n h =
     h\<lparr>handle_budget := budget_report_usage n (handle_budget h),
       handle_stats := handle_stats h\<lparr>last_reported_tokens := n\<rparr>\<rparr>"

definition handle_report_estimated :: "u32 \<Rightarrow> prune_handle \<Rightarrow> prune_handle" where
  "handle_report_estimated n h =
     h\<lparr>handle_budget := budget_report_estimated n (handle_budget h),
       handle_stats := handle_stats h\<lparr>last_reported_tokens := n\<rparr>\<rparr>"

definition handle_clear_usage :: "prune_handle \<Rightarrow> prune_handle" where
  "handle_clear_usage h =
     h\<lparr>handle_budget := budget_clear_usage (handle_budget h),
       handle_stats := handle_stats h\<lparr>last_reported_tokens := 0\<rparr>\<rparr>"

definition limits_for_model :: "prune_handle \<Rightarrow> string \<Rightarrow> u32 \<times> u32" where
  "limits_for_model h name =
     (let m = trim name
      in (case model_context_windows h m of Some w \<Rightarrow> w | None \<Rightarrow> default_context_window h,
          case model_output_token_limits h m of
            Some r \<Rightarrow> r
          | None \<Rightarrow> if model_context_windows h m \<noteq> None then 0 else default_output_token_reserve h))"

definition set_context_window_for_model :: "string \<Rightarrow> prune_handle \<Rightarrow> prune_handle" where
  "set_context_window_for_model name h =
     (let (window, reserve) = limits_for_model h name
      in if context_window (handle_budget h) \<noteq> window \<or> output_token_reserve (handle_budget h) \<noteq> reserve
         then h\<lparr>handle_budget := set_context_limits window reserve (handle_budget h)\<rparr>
         else h)"

definition fork_handle :: "prune_handle \<Rightarrow> prune_handle" where
  "fork_handle h =
     h\<lparr>handle_stats := empty_stats,
       handle_budget :=
         set_auto_compact_token_limit (auto_compact_limit_of (handle_budget h))
           (set_microcompact_caps (microcompact_trigger_max (handle_budget h))
             (microcompact_target_max (handle_budget h))
             (with_output_reserve (default_context_window h) (default_output_token_reserve h))),
       sweep_pending := 0\<rparr>"

definition request_sweep :: "nat option \<Rightarrow> prune_handle \<Rightarrow> prune_handle" where
  "request_sweep count h =
     h\<lparr>sweep_pending := (case count of None \<Rightarrow> - 1 | Some n \<Rightarrow> of_nat n)\<rparr>"

definition take_sweep :: "prune_handle \<Rightarrow> nat option option \<times> prune_handle" where
  "take_sweep h =
     ((if sweep_pending h = 0 then None
       else if sweep_pending h = - 1 then Some None
       else Some (Some (unat (sweep_pending h)))),
      h\<lparr>sweep_pending := 0\<rparr>)"

end
