(* ===== verification/Budget_Facts.thy ===== *)
theory Budget_Facts
  imports Context_Budget
begin

text \<open>
  What holds of a budget in any state its operations reach: the threshold is the one its window and
  its cap give, below the room left for input. Then the one-shot requests and the per-model limits,
  and the corners of the arithmetic.
\<close>

subsection \<open>Saturating arithmetic\<close>

lemma unat_max_u32: "unat (- 1 :: u32) = 2 ^ 32 - 1"
  by (simp add: unsigned_minus_1_eq_mask mask_eq_exp_minus_1)

lemma unat_saturating_sub: "unat (saturating_sub a b) = unat a - unat b"
  by (simp add: saturating_sub_def unat_sub_if' word_le_nat_alt)

lemma unat_saturating_mul32: "unat (saturating_mul32 a b) = min (unat a * unat b) (2 ^ 32 - 1)"
proof (cases "unat a * unat b < 2 ^ 32")
  case True
  then have "unat (a * b) = unat a * unat b" by (simp add: unat_mult_lem [THEN iffD1])
  with True show ?thesis by (simp add: saturating_mul32_def)
next
  case False
  then show ?thesis by (simp add: saturating_mul32_def unat_max_u32)
qed

lemma unat_div_100: "unat ((w::u32) div 100) = unat w div 100"
  by (simp add: unat_div)

lemma unat_threshold:
  "unat (auto_compact_threshold_for_window w r) = min ((unat w - unat r) * 95) (2 ^ 32 - 1) div 100"
  by (simp add: auto_compact_threshold_for_window_def unat_div_100 unat_saturating_mul32
      unat_saturating_sub AUTOCOMPACT_TRIGGER_PCT_def)

lemma threshold_within_window: "auto_compact_threshold_for_window w r \<le> saturating_sub w r"
proof -
  have "min (n * 95) (2 ^ 32 - 1) div 100 \<le> n" for n :: nat
    by (rule order_trans [OF div_le_mono [of _ "n * 95"]]) simp_all
  then show ?thesis by (simp only: word_le_nat_alt unat_threshold unat_saturating_sub)
qed

subsection \<open>Reachable budgets\<close>

inductive budget_step :: "context_budget \<Rightarrow> context_budget \<Rightarrow> bool" where
  reporting: "budget_step b (budget_report_usage n b)"
| estimating: "budget_step b (budget_report_estimated n b)"
| clearing: "budget_step b (budget_clear_usage b)"
| limiting: "budget_step b (set_context_limits window reserve b)"
| capping: "budget_step b (set_auto_compact_token_limit limit b)"
| switching: "budget_step b (set_auto_compact_enabled on b)"
| profiling: "budget_step b (set_microcompact_caps trigger target b)"
| forcing: "budget_step b (force_compact_once instructions b)"
| taking: "budget_step b (snd (take_compact_once b))"
| flooring: "budget_step b (compact_once_if_at_least n b)"
| unflooring: "budget_step b (snd (take_compact_floor b))"
| failing: "budget_step b (record_compact_failure b)"
| succeeding: "budget_step b (record_compact_success b)"

lemmas budget_ops =
  budget_report_usage_def budget_report_estimated_def budget_clear_usage_def set_context_limits_def
  set_auto_compact_token_limit_def set_auto_compact_enabled_def set_microcompact_caps_def
  force_compact_once_def take_compact_once_def compact_once_if_at_least_def take_compact_floor_def
  record_compact_failure_def record_compact_success_def recompute_threshold_def

definition budget_ok :: "context_budget \<Rightarrow> bool" where
  "budget_ok b \<longleftrightarrow>
     auto_compact_threshold b = min (window_auto_compact_threshold b) (auto_compact_token_limit b)"

lemma budget_ok_new: "budget_ok (with_output_reserve window reserve)"
  by (simp add: budget_ok_def with_output_reserve_def window_auto_compact_threshold_def min_def)

lemma budget_ok_step: "budget_step b b' \<Longrightarrow> budget_ok b \<Longrightarrow> budget_ok b'"
  by (induction rule: budget_step.induct)
    (simp_all add: budget_ok_def budget_ops window_auto_compact_threshold_def)

lemma budget_ok_reachable: "budget_step\<^sup>*\<^sup>* (with_output_reserve window reserve) b \<Longrightarrow> budget_ok b"
  by (induction rule: rtranclp_induct) (simp_all add: budget_ok_new budget_ok_step)

text \<open>In every state a budget reaches, the threshold of automatic compaction is the smaller of the
  one its window gives and the cap, and it leaves room: it is never above the tokens the window has
  for input, so compaction is due before the window is full.\<close>

theorem compaction_is_due_in_time:
  assumes "budget_step\<^sup>*\<^sup>* (with_output_reserve window reserve) b"
  shows "auto_compact_threshold b = min (window_auto_compact_threshold b) (auto_compact_token_limit b) \<and>
    auto_compact_threshold b \<le> input_token_budget b \<and>
    (auto_compact_allowed b \<longrightarrow> input_token_budget b \<le> n \<longrightarrow> should_auto_compact_for_tokens n b)"
proof -
  have t: "auto_compact_threshold b = min (window_auto_compact_threshold b) (auto_compact_token_limit b)"
    using budget_ok_reachable [OF assms] by (simp add: budget_ok_def)
  have w: "window_auto_compact_threshold b \<le> input_token_budget b"
    by (simp add: window_auto_compact_threshold_def input_token_budget_def threshold_within_window)
  with t have "auto_compact_threshold b \<le> input_token_budget b"
    by (metis min.cobounded1 order_trans)
  with t show ?thesis by (auto simp: should_auto_compact_for_tokens_def)
qed

theorem compaction_is_due_in_time_witness:
  "should_auto_compact_for_tokens 900000
     (set_auto_compact_token_limit (Some 500000) (with_output_reserve 1000000 100000))"
proof -
  let ?b = "set_auto_compact_token_limit (Some 500000) (with_output_reserve 1000000 100000)"
  have "budget_step\<^sup>*\<^sup>* (with_output_reserve 1000000 100000) ?b" by (blast intro: budget_step.intros)
  moreover have "auto_compact_allowed ?b" and "input_token_budget ?b \<le> 900000"
    by (simp_all add: auto_compact_allowed_def input_token_budget_def budget_ops with_output_reserve_def
        MAX_CONSECUTIVE_COMPACT_FAILURES_def saturating_sub_def)
  ultimately show ?thesis using compaction_is_due_in_time [of 1000000 100000 ?b 900000] by blast
qed

subsection \<open>Requests and models\<close>

text \<open>A forced compaction is taken once, with its instructions.\<close>

lemma forced_compaction_once:
  "let (taken, b') = take_compact_once (force_compact_once instructions b)
   in fst taken \<and> snd taken = manual_compact_instructions (force_compact_once instructions b) \<and>
      take_compact_once b' = ((False, None), b')"
  by (simp add: take_compact_once_def force_compact_once_def Let_def)

lemma floor_once:
  "take_compact_floor (compact_once_if_at_least n b) = (Some (max n 1), b\<lparr>compact_floor := 0\<rparr>)"
  by (auto simp: take_compact_floor_def compact_once_if_at_least_def max_def
      dest: word_le_0_iff [THEN iffD1])

lemma sweep_round_trip:
  assumes "0 < n" and "n < 2 ^ 32 - 1"
  shows "take_sweep (request_sweep (Some n) h) = (Some (Some n), h\<lparr>sweep_pending := 0\<rparr>)"
    and "take_sweep (request_sweep None h) = (Some None, h\<lparr>sweep_pending := 0\<rparr>)"
proof -
  have u: "unat (of_nat n :: u32) = n" using assms(2) by (simp add: unat_of_nat take_bit_nat_eq_self)
  then have "(of_nat n :: u32) \<noteq> 0" using assms(1) by force
  moreover have "(of_nat n :: u32) \<noteq> - 1"
    using u assms(2) unat_max_u32 by auto
  ultimately show "take_sweep (request_sweep (Some n) h) = (Some (Some n), h\<lparr>sweep_pending := 0\<rparr>)"
    by (simp add: take_sweep_def request_sweep_def u)
  show "take_sweep (request_sweep None h) = (Some None, h\<lparr>sweep_pending := 0\<rparr>)"
    by (simp add: take_sweep_def request_sweep_def)
qed

text \<open>A model's own limits, however often it is selected.\<close>

lemma model_limits_apply:
  "context_window (handle_budget (set_context_window_for_model m h)) = fst (limits_for_model h m)"
  "output_token_reserve (handle_budget (set_context_window_for_model m h)) = snd (limits_for_model h m)"
  by (auto simp: set_context_window_for_model_def case_prod_beta set_context_limits_def
      recompute_threshold_def)

subsection \<open>Corners\<close>

lemma unat_microcompact_trigger:
  "unat (microcompact_trigger (with_output_reserve window reserve)) =
     ((unat window - 20000) * 70) mod 2 ^ 32 div 100"
  by (simp add: min_absorb1 microcompact_trigger_def microcompact_scaled_def with_output_reserve_def
      MICROCOMPACT_TRIGGER_PCT_def unat_div_100 unat_word_ariths unat_saturating_sub
      RESERVED_FOR_SUMMARY_def)

text \<open>A fork is made with automatic compaction on: a sub-agent compacts although the session it works
  for was told not to.\<close>

theorem fork_forgets_the_switch:
  "\<not> auto_compact_allowed (set_auto_compact_enabled False b) \<and>
   auto_compact_allowed (handle_budget (fork_handle (h\<lparr>handle_budget := set_auto_compact_enabled False b\<rparr>)))"
  by (simp add: auto_compact_allowed_def set_auto_compact_enabled_def fork_handle_def budget_ops
      with_output_reserve_def MAX_CONSECUTIVE_COMPACT_FAILURES_def)

text \<open>The microcompact trigger is a plain product, where the threshold saturates: from a window of
  61376676 tokens on it wraps, here to nothing, and every turn clears results.\<close>

theorem microcompact_trigger_wraps:
  "microcompact_trigger (with_output_reserve 61376675 0) = 42949672 \<and>
   microcompact_trigger (with_output_reserve 61376676 0) = 0"
  by (simp only: word_unat_eq_iff unat_microcompact_trigger) simp

text \<open>And saturating before the division, the threshold stays at 42949672 however large the window.\<close>

theorem threshold_stops_growing:
  "auto_compact_threshold_for_window 45210183 0 = 42949672 \<and>
   auto_compact_threshold_for_window 4000000000 0 = 42949672"
  by (simp only: word_unat_eq_iff unat_threshold) simp

text \<open>The trigger does not know the output reserve: with half the window reserved, the pass that is to
  come long before a compaction comes after it.\<close>

theorem microcompact_after_compaction:
  "auto_compact_threshold (with_output_reserve 200000 100000) <
     microcompact_trigger (with_output_reserve 200000 100000)"
proof -
  have "auto_compact_threshold (with_output_reserve 200000 100000) =
      auto_compact_threshold_for_window 200000 100000"
    by (simp add: with_output_reserve_def)
  then show ?thesis by (simp only: word_less_nat_alt unat_microcompact_trigger unat_threshold) simp
qed

text \<open>Usage is a percentage of the window that does not stop at a hundred.\<close>

theorem usage_above_a_hundred:
  "usage_percent (budget_report_usage 300000 (with_output_reserve 200000 0)) = 150"
  by (simp add: usage_percent_def budget_report_usage_def with_output_reserve_def)

text \<open>Without a cap the trigger lies in the red zone, from which a compaction may find no room, for
  every window with at most 400000 tokens for input.\<close>

theorem default_trigger_in_the_red_zone:
  assumes "input_token_budget (with_output_reserve window reserve) \<le> 400000"
  shows "auto_compact_red_zone_start (with_output_reserve window reserve) \<le>
    auto_compact_threshold (with_output_reserve window reserve)"
proof -
  let ?n = "unat window - unat reserve"
  have n: "?n \<le> 400000"
    using assms by (simp add: input_token_budget_def with_output_reserve_def word_le_nat_alt
        unat_saturating_sub)
  have "?n - 20000 \<le> min (?n * 95) (2 ^ 32 - 1) div 100" using n by (auto simp: min_def)
  then show ?thesis
    by (simp add: word_le_nat_alt auto_compact_red_zone_start_def input_token_budget_def
        with_output_reserve_def unat_saturating_sub unat_threshold RESERVED_FOR_SUMMARY_def)
qed

end
