(* ===== verification/Tool_Pairing.thy ===== *)
theory Tool_Pairing
  imports Messages "HOL-Library.Multiset"
begin

text \<open>
  The repair of a history before it is sent, \<open>ensure_tool_result_pairing\<close> of
  \<open>crates/rebon-api/src/context_prune.rs\<close>: a provider refuses a request in which a tool call
  has no result, so results without a call are taken out and calls without a result get an error
  in its place. The loop of the source walks the message vector by index and inserts into it; here
  it is a recursion over the messages not yet reached, with the index they have in the vector as it
  has become. The two lists of removed identifiers come out of hash sets, whose order is not
  specified, so they are multisets.
\<close>

subsection \<open>What a message calls and answers\<close>

definition as_tool_result :: "content_block \<Rightarrow> tool_result_block option" where
  "as_tool_result b = (case b of ToolResult r \<Rightarrow> Some r | _ \<Rightarrow> None)"

definition calls_of :: "chat_message \<Rightarrow> (string \<times> string) list" where
  "calls_of m = map (\<lambda>u. (use_id u, use_name u)) (List.map_filter as_tool_use (content m))"

definition call_ids :: "chat_message \<Rightarrow> string list" where
  "call_ids m = map fst (calls_of m)"

definition answered_ids :: "chat_message \<Rightarrow> string list" where
  "answered_ids m = map result_use_id (List.map_filter as_tool_result (content m))"

definition is_user :: "chat_message \<Rightarrow> bool" where
  "is_user m \<longleftrightarrow> role_of m = RoleUser"

definition is_assistant :: "chat_message \<Rightarrow> bool" where
  "is_assistant m \<longleftrightarrow> role_of m = RoleAssistant"

definition is_caller :: "chat_message \<Rightarrow> bool" where
  "is_caller m \<longleftrightarrow> is_assistant m \<and> calls_of m \<noteq> []"

definition all_call_ids :: "chat_message list \<Rightarrow> string list" where
  "all_call_ids ms = concat (map call_ids (filter is_assistant ms))"

text \<open>\<open>content.retain\<close>: the results with one of the identifiers go.\<close>

definition drop_results :: "(string \<Rightarrow> bool) \<Rightarrow> chat_message \<Rightarrow> chat_message" where
  "drop_results bad m =
     m\<lparr>content := filter (\<lambda>b. case as_tool_result b of Some r \<Rightarrow> \<not> bad (result_use_id r) | None \<Rightarrow> True)
         (content m)\<rparr>"

subsection \<open>The placeholder and the report\<close>

text \<open>The placeholder holds an em dash, a character beyond the model's strings: \<open>dash\<close> is
  its text.\<close>

definition SYNTHETIC_TOOL_RESULT_PREFIX :: string where
  "SYNTHETIC_TOOL_RESULT_PREFIX = ''[Tool result missing''"

definition synthetic_tool_result_content :: "string \<Rightarrow> string \<Rightarrow> string" where
  "synthetic_tool_result_content dash name =
     (if name = [] then ''[Tool result missing '' @ dash @ '' the tool call was interrupted]''
      else ''[Tool result missing '' @ dash @ '' the `'' @ name @ ''` call was interrupted]'')"

definition synthetic_result :: "string \<Rightarrow> string \<times> string \<Rightarrow> content_block" where
  "synthetic_result dash call =
     ToolResult \<lparr>result_use_id = fst call,
       result_content = ResultText (synthetic_tool_result_content dash (snd call)),
       result_is_error = True\<rparr>"

record pairing_repair_report =
  synthesized :: "(string \<times> string) list"
  synthesized_tail_orphans :: "(string \<times> string) list"
  globally_orphaned_result_ids :: "string multiset"
  locally_orphaned_result_ids :: "string multiset"

definition empty_report :: pairing_repair_report where
  "empty_report =
     \<lparr>synthesized = [], synthesized_tail_orphans = [], globally_orphaned_result_ids = {#},
      locally_orphaned_result_ids = {#}\<rparr>"

definition report_is_empty :: "pairing_repair_report \<Rightarrow> bool" where
  "report_is_empty r \<longleftrightarrow>
     synthesized r = [] \<and> globally_orphaned_result_ids r = {#} \<and> locally_orphaned_result_ids r = {#}"

definition mid_orphan_count :: "pairing_repair_report \<Rightarrow> nat" where
  "mid_orphan_count r = length (synthesized r) - length (synthesized_tail_orphans r)"

subsection \<open>The pass over all messages: results nobody asked for\<close>

definition globally_orphaned :: "string list \<Rightarrow> chat_message \<Rightarrow> string list" where
  "globally_orphaned known m = remdups (filter (\<lambda>i. i \<notin> set known) (answered_ids m))"

definition drop_global_orphans :: "string list \<Rightarrow> chat_message \<Rightarrow> chat_message" where
  "drop_global_orphans known m =
     (if is_user m then drop_results (\<lambda>i. i \<in> set (globally_orphaned known m)) m else m)"

definition global_pass :: "chat_message list \<Rightarrow> chat_message list \<times> string multiset" where
  "global_pass ms =
     (let known = all_call_ids ms
      in (map (drop_global_orphans known) ms,
          mset (concat (map (globally_orphaned known) (filter is_user ms)))))"

subsection \<open>The main pass: each caller and the user messages after it\<close>

definition window_answers :: "chat_message list \<Rightarrow> string list" where
  "window_answers window = concat (map answered_ids window)"

definition missing_calls :: "chat_message \<Rightarrow> chat_message list \<Rightarrow> (string \<times> string) list" where
  "missing_calls m window = filter (\<lambda>c. fst c \<notin> set (window_answers window)) (calls_of m)"

definition locally_orphaned :: "chat_message \<Rightarrow> chat_message list \<Rightarrow> string list" where
  "locally_orphaned m window =
     remdups (filter (\<lambda>i. i \<notin> set (call_ids m)) (window_answers window))"

text \<open>The user messages after a caller, once repaired: the orphans gone from all of them, the
  placeholders at the end of the first, which is made when there is none.\<close>

definition repair_window ::
  "string \<Rightarrow> chat_message \<Rightarrow> chat_message list \<Rightarrow> chat_message list" where
  "repair_window dash m window =
     (let synthetic = map (synthetic_result dash) (missing_calls m window);
          kept = map (drop_results (\<lambda>i. i \<in> set (locally_orphaned m window))) window
      in case kept of
           [] \<Rightarrow> [\<lparr>role_of = RoleUser, content = synthetic\<rparr>]
         | u # us \<Rightarrow> u\<lparr>content := content u @ synthetic\<rparr> # us)"

definition add_repair ::
  "bool \<Rightarrow> chat_message \<Rightarrow> chat_message list \<Rightarrow> pairing_repair_report \<Rightarrow> pairing_repair_report" where
  "add_repair tail m window r =
     r\<lparr>synthesized := missing_calls m window @ synthesized r,
       synthesized_tail_orphans :=
         (if tail then missing_calls m window else []) @ synthesized_tail_orphans r,
       locally_orphaned_result_ids :=
         mset (locally_orphaned m window) + locally_orphaned_result_ids r\<rparr>"

function main_pass ::
  "string \<Rightarrow> nat option \<Rightarrow> nat \<Rightarrow> chat_message list \<Rightarrow> chat_message list \<times> pairing_repair_report"
where
  "main_pass dash last_caller i [] = ([], empty_report)"
| "main_pass dash last_caller i (m # ms) =
     (if \<not> is_caller m then
        (let (out, r) = main_pass dash last_caller (i + 1) ms in (m # out, r))
      else
        (let window = takeWhile is_user ms;
             rest = dropWhile is_user ms
         in if missing_calls m window = [] \<and> locally_orphaned m window = [] then
              (let (out, r) = main_pass dash last_caller (i + 1 + length window) rest
               in (m # window @ out, r))
            else
              (let repaired = repair_window dash m window;
                   (out, r) = main_pass dash last_caller (i + 1 + length repaired) rest
               in (m # repaired @ out, add_repair (last_caller = Some i) m window r))))"
  by pat_completeness auto
termination
  by (relation "measure (\<lambda>(_, _, _, ms). length ms)")
    (auto simp: le_imp_less_Suc length_dropWhile_le)

declare main_pass.simps(2) [simp del]

subsection \<open>The repair\<close>

fun last_index :: "('a \<Rightarrow> bool) \<Rightarrow> 'a list \<Rightarrow> nat option" where
  "last_index p [] = None"
| "last_index p (x # xs) =
     (case last_index p xs of Some n \<Rightarrow> Some (Suc n) | None \<Rightarrow> if p x then Some 0 else None)"

definition ensure_tool_result_pairing_with_report ::
  "string \<Rightarrow> chat_message list \<Rightarrow> chat_message list \<times> pairing_repair_report" where
  "ensure_tool_result_pairing_with_report dash ms =
     (let (kept, orphans) = global_pass ms;
          (out, r) = main_pass dash (last_index is_caller ms) 0 kept
      in (out, r\<lparr>globally_orphaned_result_ids := orphans\<rparr>))"

definition ensure_tool_result_pairing :: "string \<Rightarrow> chat_message list \<Rightarrow> chat_message list" where
  "ensure_tool_result_pairing dash ms = fst (ensure_tool_result_pairing_with_report dash ms)"

end
