(* ===== verification/Context_Prune.thy ===== *)
theory Context_Prune
  imports Context_Budget Tool_Pairing Tool_Facts "HOL-Library.AList"
begin

text \<open>
  The pruning of a history before it is sent, \<open>crates/rebon-api/src/context_prune.rs\<close>: the
  sweep a user asks for, the four strategies that rewrite old messages, their composition in
  \<open>ContextPruneMiddleware::prune\<close> and the request that goes through the middleware, and the
  engine's \<open>microcompact_tool_results\<close>. A pass that mutates the messages and counts returns the
  new messages with the count, a natural number that becomes a \<open>u32\<close> where it is added up.
\<close>

definition TOOL_RESULT_CLEARED :: string where
  "TOOL_RESULT_CLEARED = ''[Old tool result content cleared]''"

subsection \<open>Rewriting blocks in place\<close>

text \<open>\<open>f\<close> says what a block becomes, \<open>None\<close> when it stays; the rewritten blocks of the
  first \<open>n\<close> messages of the role are counted.\<close>

definition rewrite_message ::
  "(content_block \<Rightarrow> content_block option) \<Rightarrow> chat_message \<Rightarrow> chat_message" where
  "rewrite_message f m =
     m\<lparr>content := map (\<lambda>b. case f b of Some b' \<Rightarrow> b' | None \<Rightarrow> b) (content m)\<rparr>"

definition rewritten_in :: "(content_block \<Rightarrow> content_block option) \<Rightarrow> chat_message \<Rightarrow> nat" where
  "rewritten_in f m = length (filter (\<lambda>b. f b \<noteq> None) (content m))"

definition rewrite_prefix ::
  "(chat_message \<Rightarrow> bool) \<Rightarrow> (content_block \<Rightarrow> content_block option) \<Rightarrow> nat \<Rightarrow> chat_message list
     \<Rightarrow> chat_message list \<times> nat"
where
  "rewrite_prefix who f n ms =
     (map (\<lambda>m. if who m then rewrite_message f m else m) (take n ms) @ drop n ms,
      sum_list (map (rewritten_in f) (filter who (take n ms))))"

definition clear_result :: "tool_result_block \<Rightarrow> content_block" where
  "clear_result r = ToolResult (r\<lparr>result_content := ResultText TOOL_RESULT_CLEARED\<rparr>)"

definition already_cleared :: "tool_result_block \<Rightarrow> bool" where
  "already_cleared r \<longleftrightarrow> result_as_text (result_content r) = Some TOOL_RESULT_CLEARED"

subsection \<open>Strategy 0: thinking\<close>

definition is_thinking :: "content_block \<Rightarrow> bool" where
  "is_thinking b = (case b of ThinkingBlock _ \<Rightarrow> True | _ \<Rightarrow> False)"

definition strip_thinking :: "chat_message \<Rightarrow> chat_message" where
  "strip_thinking m =
     (if is_assistant m then m\<lparr>content := filter (\<lambda>b. \<not> is_thinking b) (content m)\<rparr> else m)"

definition strip_old_thinking_blocks ::
  "nat \<Rightarrow> nat \<Rightarrow> chat_message list \<Rightarrow> chat_message list \<times> nat" where
  "strip_old_thinking_blocks boundary max_age ms =
     (let cutoff = boundary - max_age * 2
      in (map strip_thinking (take cutoff ms) @ drop cutoff ms,
          sum_list (map (\<lambda>m. length (content m) - length (content (strip_thinking m))) (take cutoff ms))))"

subsection \<open>Strategy 1: old tool results\<close>

definition as_i64 :: "json \<Rightarrow> int option" where
  "as_i64 v = (case v of JNumber n \<Rightarrow> if - (2 ^ 63) \<le> n \<and> n < 2 ^ 63 then Some n else None | _ \<Rightarrow> None)"

text \<open>The selectors of a batch read are the values whose JSON text the source keeps.\<close>

record read_signature =
  read_path :: string
  read_offset :: "int option"
  read_limit :: "int option"
  read_selectors :: "json list option"

definition selector :: "string \<Rightarrow> json \<Rightarrow> json" where
  "selector k target = (case json_get k target of Some v \<Rightarrow> v | None \<Rightarrow> JNull)"

definition target_signature :: "json \<Rightarrow> read_signature option" where
  "target_signature target =
     map_option (\<lambda>p. \<lparr>read_path = p, read_offset = None, read_limit = None,
         read_selectors =
           Some [selector ''start'' target, selector ''end'' target, selector ''symbol'' target,
             selector ''pages'' target]\<rparr>)
       (get_str ''path'' target)"

definition read_signatures :: "tool_use_block \<Rightarrow> read_signature list" where
  "read_signatures u =
     (if use_name u \<noteq> ''Read'' then []
      else case Option.bind (json_get ''targets'' (use_input u)) as_array of
        Some targets \<Rightarrow> List.map_filter target_signature targets
      | None \<Rightarrow>
          (case get_str ''file_path'' (use_input u) of
             Some p \<Rightarrow>
               [\<lparr>read_path = p,
                 read_offset = Option.bind (json_get ''offset'' (use_input u)) as_i64,
                 read_limit = Option.bind (json_get ''limit'' (use_input u)) as_i64,
                 read_selectors = None\<rparr>]
           | None \<Rightarrow> []))"

definition calls_made :: "chat_message list \<Rightarrow> tool_use_block list" where
  "calls_made ms = concat (map (\<lambda>m. List.map_filter as_tool_use (content m)) (filter is_assistant ms))"

definition reads_made :: "chat_message list \<Rightarrow> (read_signature \<times> string) list" where
  "reads_made ms = concat (map (\<lambda>u. map (\<lambda>s. (s, use_id u)) (read_signatures u)) (calls_made ms))"

definition protected_file_read_ids :: "chat_message list \<Rightarrow> string list" where
  "protected_file_read_ids ms =
     map snd (fold (\<lambda>(s, i). AList.update s i) (reads_made ms) [])"

definition clear_unless :: "(string \<Rightarrow> bool) \<Rightarrow> content_block \<Rightarrow> content_block option" where
  "clear_unless safe b =
     (case as_tool_result b of
        Some r \<Rightarrow>
          if \<not> already_cleared r \<and> \<not> safe (result_use_id r) then Some (clear_result r) else None
      | None \<Rightarrow> None)"

definition clear_old_tool_results ::
  "nat \<Rightarrow> nat \<Rightarrow> chat_message list \<Rightarrow> chat_message list \<times> nat" where
  "clear_old_tool_results boundary max_age ms =
     (let safe = protected_file_read_ids ms
      in rewrite_prefix is_user (clear_unless (\<lambda>i. i \<in> set safe)) (boundary - max_age * 2) ms)"

subsection \<open>Strategy 2: identical calls\<close>

text \<open>Equality of JSON values: the entries of an object have no order.\<close>

lemma member_le_size_list: "x \<in> set xs \<Longrightarrow> f x < Suc (size_list f xs)"
  by (induction xs) auto

function json_same :: "json \<Rightarrow> json \<Rightarrow> bool" where
  "json_same a b =
     (case (a, b) of
        (JNull, JNull) \<Rightarrow> True
      | (JBool x, JBool y) \<Rightarrow> x = y
      | (JNumber x, JNumber y) \<Rightarrow> x = y
      | (JString x, JString y) \<Rightarrow> x = y
      | (JArray xs, JArray ys) \<Rightarrow> list_all2 json_same xs ys
      | (JObject kvs, JObject lvs) \<Rightarrow>
          set (map fst kvs) = set (map fst lvs) \<and>
          (\<forall>(k, v) \<in> set kvs. map_of kvs k = Some v \<longrightarrow>
             (case map_of lvs k of Some w \<Rightarrow> json_same v w | None \<Rightarrow> False))
      | _ \<Rightarrow> False)"
  by pat_completeness auto
termination
  by (relation "measure (\<lambda>(a, _). size a)")
    (auto dest: member_le_size_list [of _ _ size] member_le_size_list [of _ _ "size_prod (\<lambda>x. 0) size"])

declare json_same.simps [simp del]

definition same_call :: "string \<times> json \<Rightarrow> string \<times> json \<Rightarrow> bool" where
  "same_call a b \<longleftrightarrow> fst a = fst b \<and> json_same (snd a) (snd b)"

definition call_signature :: "tool_use_block \<Rightarrow> string \<times> json" where
  "call_signature u = (use_name u, use_input u)"

text \<open>The scan, newest message first: the identifiers to remove and the signatures seen.\<close>

definition mark_call ::
  "nat \<Rightarrow> nat \<times> tool_use_block \<Rightarrow> string list \<times> (string \<times> json) list
     \<Rightarrow> string list \<times> (string \<times> json) list"
where
  "mark_call boundary call st =
     (let (idx, u) = call; (doomed, kept) = st
      in if list_ex (same_call (call_signature u)) kept then
           ((if idx < boundary then use_id u # doomed else doomed), kept)
         else (doomed, call_signature u # kept))"

definition indexed_calls :: "chat_message list \<Rightarrow> (nat \<times> tool_use_block) list" where
  "indexed_calls ms =
     concat (map (\<lambda>(i, m). map (Pair i) (List.map_filter as_tool_use (content m)))
       (filter (\<lambda>(i, m). is_assistant m) (rev (enumerate 0 ms))))"

definition doomed_ids :: "nat \<Rightarrow> chat_message list \<Rightarrow> string list" where
  "doomed_ids boundary ms = fst (fold (mark_call boundary) (indexed_calls ms) ([], []))"

definition without_calls :: "string list \<Rightarrow> chat_message \<Rightarrow> chat_message" where
  "without_calls doomed m =
     m\<lparr>content := filter (\<lambda>b. case b of
         ToolUse u \<Rightarrow> use_id u \<notin> set doomed
       | ToolResult r \<Rightarrow> result_use_id r \<notin> set doomed
       | _ \<Rightarrow> True) (content m)\<rparr>"

definition deduplicate_tool_calls :: "nat \<Rightarrow> chat_message list \<Rightarrow> chat_message list" where
  "deduplicate_tool_calls boundary ms =
     (let doomed = doomed_ids boundary ms
      in if doomed = [] then ms
         else filter (\<lambda>m. content m \<noteq> []) (map (without_calls doomed) (take boundary ms)) @
           drop boundary ms)"

subsection \<open>Strategy 3: the input of failed calls\<close>

definition failed_ids :: "chat_message list \<Rightarrow> string list" where
  "failed_ids ms =
     map result_use_id (filter result_is_error
       (concat (map (\<lambda>m. List.map_filter as_tool_result (content m)) (filter is_user ms))))"

definition purge_input :: "string list \<Rightarrow> content_block \<Rightarrow> content_block option" where
  "purge_input failed b =
     (case as_tool_use b of
        Some u \<Rightarrow>
          (case b of ToolUse _ \<Rightarrow>
             if use_id u \<in> set failed \<and> use_input u \<noteq> JObject []
             then Some (ToolUse (u\<lparr>use_input := JObject []\<rparr>)) else None
           | _ \<Rightarrow> None)
      | None \<Rightarrow> None)"

definition purge_error_inputs ::
  "nat \<Rightarrow> nat \<Rightarrow> chat_message list \<Rightarrow> chat_message list \<times> nat" where
  "purge_error_inputs boundary max_age ms =
     (let failed = failed_ids (take boundary ms)
      in if failed = [] then (ms, 0)
         else rewrite_prefix is_assistant (purge_input failed) (boundary - max_age * 2) ms)"

subsection \<open>The sweep\<close>

text \<open>Both walks go backwards: the lists are given reversed, and come back so, with the count and
  whether the limit was reached.\<close>

fun sweep_blocks :: "nat \<Rightarrow> nat \<Rightarrow> content_block list \<Rightarrow> content_block list \<times> nat \<times> bool" where
  "sweep_blocks limit n [] = ([], n, False)"
| "sweep_blocks limit n (b # bs) =
     (case clear_unless (\<lambda>_. False) b of
        Some b' \<Rightarrow>
          if n + 1 \<ge> limit then (b' # bs, n + 1, True)
          else (let (out, k, stop) = sweep_blocks limit (n + 1) bs in (b' # out, k, stop))
      | None \<Rightarrow> (let (out, k, stop) = sweep_blocks limit n bs in (b # out, k, stop)))"

fun sweep_messages :: "nat \<Rightarrow> nat \<Rightarrow> chat_message list \<Rightarrow> chat_message list \<times> nat" where
  "sweep_messages limit n [] = ([], n)"
| "sweep_messages limit n (m # ms) =
     (if \<not> is_user m then (let (out, k) = sweep_messages limit n ms in (m # out, k))
      else
        (let (bs, k, stop) = sweep_blocks limit n (rev (content m)); m' = m\<lparr>content := rev bs\<rparr>
         in if stop then (m' # ms, k)
            else (let (out, k') = sweep_messages limit k ms in (m' # out, k'))))"

definition sweep_recent_tool_results ::
  "nat option \<Rightarrow> chat_message list \<Rightarrow> chat_message list \<times> nat" where
  "sweep_recent_tool_results wanted ms =
     (let limit = (case wanted of Some n \<Rightarrow> n | None \<Rightarrow> 2 ^ 64 - 1);
          (out, k) = sweep_messages limit 0 (rev ms)
      in (rev out, k))"

subsection \<open>The middleware\<close>

record prune_delta =
  delta_results :: u32
  delta_duplicates :: u32
  delta_errors :: u32
  delta_thinking :: u32
  delta_truncated :: u32

definition no_delta :: prune_delta where
  "no_delta =
     \<lparr>delta_results = 0, delta_duplicates = 0, delta_errors = 0, delta_thinking = 0,
      delta_truncated = 0\<rparr>"

definition protection_boundary :: "context_prune_config \<Rightarrow> nat \<Rightarrow> nat" where
  "protection_boundary config n = n - protected_recent_turns config * 2"

definition provider_requires_reasoning_roundtrip :: "string \<Rightarrow> bool" where
  "provider_requires_reasoning_roundtrip provider \<longleftrightarrow> provider = ''openai-compatible''"

definition is_deepseek_model :: "string \<Rightarrow> bool" where
  "is_deepseek_model name \<longleftrightarrow> prefix ''deepseek'' (lower (trim name))"

definition should_preserve_prefix_cache :: "string \<Rightarrow> string \<Rightarrow> bool" where
  "should_preserve_prefix_cache provider name \<longleftrightarrow>
     is_deepseek_model name \<or> provider = ''openai-responses'' \<or> provider = ''anthropic''"

definition prune_aggressively ::
  "context_prune_config \<Rightarrow> chat_message list \<times> prune_delta \<Rightarrow> chat_message list \<times> prune_delta" where
  "prune_aggressively config st =
     (let (ms, delta) = st;
          kept = deduplicate_tool_calls (protection_boundary config (length ms)) ms;
          delta = delta\<lparr>delta_duplicates := of_nat (length ms - length kept) div 2\<rparr>;
          (out, n) = purge_error_inputs (protection_boundary config (length kept))
            (error_purge_age_turns config) kept
      in (out, delta\<lparr>delta_errors := of_nat n\<rparr>))"

definition prune_old ::
  "context_prune_config \<Rightarrow> string \<Rightarrow> prune_level \<Rightarrow> chat_message list \<times> prune_delta
     \<Rightarrow> chat_message list \<times> prune_delta"
where
  "prune_old config provider level st =
     (let (ms, delta) = st;
          boundary = protection_boundary config (length ms);
          (ms, n) = (if provider_requires_reasoning_roundtrip provider then (ms, 0)
            else strip_old_thinking_blocks boundary (tool_result_max_age_turns config) ms);
          delta = delta\<lparr>delta_thinking := delta_thinking delta + of_nat n\<rparr>;
          (ms, n) = clear_old_tool_results boundary (tool_result_max_age_turns config) ms;
          delta = delta\<lparr>delta_results := delta_results delta + of_nat n\<rparr>
      in if level = Aggressive then prune_aggressively config (ms, delta) else (ms, delta))"

definition prune ::
  "context_prune_config \<Rightarrow> string \<Rightarrow> chat_message list \<Rightarrow> prune_level \<Rightarrow> nat option option \<Rightarrow> bool
     \<Rightarrow> chat_message list \<times> prune_delta"
where
  "prune config provider ms level sweep preserve =
     (if level = PruneOff \<and> sweep = None then (ms, no_delta)
      else if ms = [] then (ms, no_delta)
      else
        (let (ms, delta) =
           (case sweep of
              Some wanted \<Rightarrow>
                (let (out, n) = sweep_recent_tool_results wanted ms
                 in (out, no_delta\<lparr>delta_results := of_nat n\<rparr>))
            | None \<Rightarrow> (ms, no_delta))
         in if level \<noteq> PruneOff \<and> \<not> preserve then prune_old config provider level (ms, delta)
            else (ms, delta)))"

definition add_delta :: "prune_delta \<Rightarrow> prune_stats \<Rightarrow> prune_stats" where
  "add_delta d s =
     s\<lparr>tool_results_cleared := tool_results_cleared s + delta_results d,
       duplicates_removed := duplicates_removed s + delta_duplicates d,
       errors_purged := errors_purged s + delta_errors d,
       thinking_cleared := thinking_cleared s + delta_thinking d,
       messages_truncated := messages_truncated s + delta_truncated d\<rparr>"

text \<open>A request: the handle afterwards and the messages the provider gets. The provider's name and
  whether its prefix cache is byte exact are the inner client's.\<close>

record inner_client =
  provider_name :: string
  prefix_cache_is_byte_exact :: bool

definition create_message_stream ::
  "context_prune_config \<Rightarrow> inner_client \<Rightarrow> 8 word \<Rightarrow> string \<Rightarrow> chat_message list \<Rightarrow> prune_handle
     \<Rightarrow> chat_message list \<times> prune_handle"
where
  "create_message_stream config client cell name ms h =
     (let level = level_from_u8 cell;
          h = set_context_window_for_model name h;
          h = h\<lparr>handle_stats := handle_stats h
                 \<lparr>requests_processed := requests_processed (handle_stats h) + 1\<rparr>\<rparr>;
          (_, b) = take_compact_once (handle_budget h);
          (sweep, h) = take_sweep (h\<lparr>handle_budget := b\<rparr>)
      in if level = PruneOff \<and> sweep = None then (ms, h)
         else
           (let preserve = prefix_cache_is_byte_exact client \<or>
                  should_preserve_prefix_cache (provider_name client) name;
                (out, delta) = prune config (provider_name client) ms level sweep preserve
            in (out, h\<lparr>handle_stats := add_delta delta (handle_stats h)\<rparr>)))"

subsection \<open>Microcompact\<close>

definition is_microcompact_clearable :: "string \<Rightarrow> bool" where
  "is_microcompact_clearable tool \<longleftrightarrow>
     tool_kind_for_name tool \<in> set [Shell, Search, FileRead, FileEdit, Web]"

definition names_by_id :: "chat_message list \<Rightarrow> string \<Rightarrow> string option" where
  "names_by_id ms = map_of (rev (map (\<lambda>u. (use_id u, use_name u)) (calls_made ms)))"

record candidate =
  cand_msg :: nat
  cand_block :: nat
  cand_tokens :: u32

definition clearable_block :: "(string \<Rightarrow> string option) \<Rightarrow> content_block \<Rightarrow> bool" where
  "clearable_block names b =
     (case as_tool_result b of
        Some r \<Rightarrow> \<not> already_cleared r \<and>
          (case names (result_use_id r) of Some n \<Rightarrow> is_microcompact_clearable n | None \<Rightarrow> False)
      | None \<Rightarrow> False)"

definition block_tokens :: "content_block \<Rightarrow> u32" where
  "block_tokens b =
     (case as_tool_result b of Some r \<Rightarrow> of_nat (approx_len (result_content r) div 4) | None \<Rightarrow> 0)"

definition candidates_in ::
  "(string \<Rightarrow> string option) \<Rightarrow> nat \<times> chat_message \<Rightarrow> candidate list" where
  "candidates_in names im =
     map (\<lambda>(j, b). \<lparr>cand_msg = fst im, cand_block = j, cand_tokens = block_tokens b\<rparr>)
       (filter (\<lambda>(j, b). clearable_block names b) (enumerate 0 (content (snd im))))"

definition microcompact_candidates :: "nat \<Rightarrow> chat_message list \<Rightarrow> candidate list" where
  "microcompact_candidates last_assistant ms =
     concat (map (candidates_in (names_by_id ms))
       (filter (\<lambda>(i, m). is_user m \<and> i < last_assistant) (enumerate 0 ms)))"

definition freed_tokens :: "candidate \<Rightarrow> u32" where
  "freed_tokens c = saturating_sub (cand_tokens c) (of_nat (length TOOL_RESULT_CLEARED div 4))"

fun choose_newest :: "u32 \<Rightarrow> candidate list \<Rightarrow> candidate list" where
  "choose_newest need [] = []"
| "choose_newest need (c # cs) =
     (if need = 0 then [] else c # choose_newest (saturating_sub need (freed_tokens c)) cs)"

definition clear_at :: "candidate \<Rightarrow> chat_message list \<Rightarrow> chat_message list" where
  "clear_at c ms =
     (let m = ms ! cand_msg c; b = content m ! cand_block c
      in case as_tool_result b of
           Some r \<Rightarrow> ms[cand_msg c := m\<lparr>content := (content m)[cand_block c := clear_result r]\<rparr>]
         | None \<Rightarrow> ms)"

definition microcompact_tool_results ::
  "u32 \<Rightarrow> u32 \<Rightarrow> nat \<Rightarrow> chat_message list \<Rightarrow> chat_message list \<times> nat" where
  "microcompact_tool_results current target protected_recent ms =
     (if current \<le> target then (ms, 0)
      else case last_index is_assistant ms of
        None \<Rightarrow> (ms, 0)
      | Some final \<Rightarrow>
          (let cands = microcompact_candidates final ms;
               pool = take (length cands - protected_recent) cands;
               chosen = choose_newest (saturating_sub current target) (rev pool)
           in (fold clear_at chosen ms, length chosen)))"

end
