(* ===== verification/Pairing_Facts.thy ===== *)
theory Pairing_Facts
  imports Tool_Pairing "HOL-Library.Sublist"
begin

text \<open>
  What the repair of \<open>Tool_Pairing\<close> promises: after it every call has its results in the user
  messages that follow, and those hold no other result; a history that is already so is left alone
  and reported so; and nothing but results is touched. Then the two places where it does less than
  its documentation says.
\<close>

subsection \<open>The shape the repair brings about\<close>

text \<open>The callers of a history, each with the user messages up to the next other message.\<close>

function exchanges :: "chat_message list \<Rightarrow> (chat_message \<times> chat_message list) list" where
  "exchanges [] = []"
| "exchanges (m # ms) =
     (if is_caller m then (m, takeWhile is_user ms) # exchanges (dropWhile is_user ms)
      else exchanges ms)"
  by pat_completeness auto
termination
  by (relation "measure length") (auto simp: le_imp_less_Suc length_dropWhile_le)

declare exchanges.simps(2) [simp del]

definition answered_exactly :: "chat_message \<times> chat_message list \<Rightarrow> bool" where
  "answered_exactly e \<longleftrightarrow> set (window_answers (snd e)) = set (call_ids (fst e))"

definition well_paired :: "chat_message list \<Rightarrow> bool" where
  "well_paired ms \<longleftrightarrow> list_all answered_exactly (exchanges ms)"

definition no_strangers :: "chat_message list \<Rightarrow> bool" where
  "no_strangers ms \<longleftrightarrow>
     list_all (\<lambda>m. is_user m \<longrightarrow> set (answered_ids m) \<subseteq> set (all_call_ids ms)) ms"

text \<open>The results in the right place, in order.\<close>

definition result_blocks :: "chat_message \<Rightarrow> tool_result_block list" where
  "result_blocks m = List.map_filter as_tool_result (content m)"

definition proper_answers :: "chat_message list \<Rightarrow> tool_result_block list" where
  "proper_answers ms =
     concat (map (\<lambda>(m, w). filter (\<lambda>r. result_use_id r \<in> set (call_ids m)) (concat (map result_blocks w)))
       (exchanges ms))"

definition other_blocks :: "chat_message \<Rightarrow> content_block list" where
  "other_blocks m = filter (\<lambda>b. as_tool_result b = None) (content m)"

subsection \<open>Dropping results\<close>

lemma as_tool_use_result: "as_tool_result b = Some r \<Longrightarrow> as_tool_use b = None"
  by (auto simp: as_tool_result_def as_tool_use_def split: content_block.splits)

lemma drop_results_role [simp]:
  "role_of (drop_results bad m) = role_of m"
  "is_user (drop_results bad m) = is_user m"
  "is_assistant (drop_results bad m) = is_assistant m"
  by (simp_all add: drop_results_def is_user_def is_assistant_def)

lemma map_filter_drop:
  assumes "\<And>b r. as_tool_result b = Some r \<Longrightarrow> f b = None"
  shows "List.map_filter f
    (filter (\<lambda>b. case as_tool_result b of Some r \<Rightarrow> \<not> bad (result_use_id r) | None \<Rightarrow> True) bs) =
    List.map_filter f bs"
  using assms by (induction bs) (auto simp: map_filter_simps split: option.splits)

lemma drop_results_calls [simp]:
  "calls_of (drop_results bad m) = calls_of m"
  "call_ids (drop_results bad m) = call_ids m"
  "is_caller (drop_results bad m) = is_caller m"
proof -
  show c: "calls_of (drop_results bad m) = calls_of m"
    using map_filter_drop [of as_tool_use bad "content m"]
    by (simp add: calls_of_def drop_results_def as_tool_use_result)
  then show "call_ids (drop_results bad m) = call_ids m" "is_caller (drop_results bad m) = is_caller m"
    by (simp_all add: call_ids_def is_caller_def)
qed

lemma result_blocks_drop [simp]:
  "result_blocks (drop_results bad m) = filter (\<lambda>r. \<not> bad (result_use_id r)) (result_blocks m)"
proof -
  have "List.map_filter as_tool_result
      (filter (\<lambda>b. case as_tool_result b of Some r \<Rightarrow> \<not> bad (result_use_id r) | None \<Rightarrow> True) bs) =
    filter (\<lambda>r. \<not> bad (result_use_id r)) (List.map_filter as_tool_result bs)" for bs
    by (induction bs) (auto simp: map_filter_simps split: option.splits)
  then show ?thesis by (simp add: result_blocks_def drop_results_def)
qed

lemma answered_ids_blocks: "answered_ids m = map result_use_id (result_blocks m)"
  by (simp add: answered_ids_def result_blocks_def)

lemma answered_ids_drop [simp]:
  "answered_ids (drop_results bad m) = filter (\<lambda>i. \<not> bad i) (answered_ids m)"
  by (simp add: answered_ids_blocks filter_map comp_def)

lemma other_blocks_drop [simp]: "other_blocks (drop_results bad m) = other_blocks m"
proof -
  have "filter (\<lambda>b. as_tool_result b = None)
      (filter (\<lambda>b. case as_tool_result b of Some r \<Rightarrow> \<not> bad (result_use_id r) | None \<Rightarrow> True) bs) =
    filter (\<lambda>b. as_tool_result b = None) bs" for bs
    by (induction bs) (auto split: option.splits)
  then show ?thesis by (simp add: other_blocks_def drop_results_def)
qed

lemma drop_no_results: "\<forall>i \<in> set (answered_ids m). \<not> bad i \<Longrightarrow> drop_results bad m = m"
proof -
  assume "\<forall>i \<in> set (answered_ids m). \<not> bad i"
  then have "filter (\<lambda>b. case as_tool_result b of Some r \<Rightarrow> \<not> bad (result_use_id r) | None \<Rightarrow> True)
      (content m) = content m"
    unfolding answered_ids_def
    by (induction "content m") (auto simp: filter_id_conv map_filter_def split: option.splits)
  then show ?thesis by (simp add: drop_results_def)
qed

subsection \<open>Repairing one exchange\<close>

lemma missing_empty_iff:
  "missing_calls m w = [] \<longleftrightarrow> set (call_ids m) \<subseteq> set (window_answers w)"
  by (auto simp: missing_calls_def call_ids_def filter_empty_conv)

lemma orphaned_empty_iff:
  "locally_orphaned m w = [] \<longleftrightarrow> set (window_answers w) \<subseteq> set (call_ids m)"
  by (auto simp: locally_orphaned_def filter_empty_conv)

lemma nothing_to_repair_iff:
  "missing_calls m w = [] \<and> locally_orphaned m w = [] \<longleftrightarrow> answered_exactly (m, w)"
  by (auto simp: missing_empty_iff orphaned_empty_iff answered_exactly_def)

lemma synthetic_results [simp]:
  "List.map_filter as_tool_use (map (synthetic_result dash) cs) = []"
  "map result_use_id (List.map_filter as_tool_result (map (synthetic_result dash) cs)) = map fst cs"
  "filter (\<lambda>b. as_tool_result b = None) (map (synthetic_result dash) cs) = []"
  by (induction cs)
    (simp_all add: map_filter_simps synthetic_result_def as_tool_use_def as_tool_result_def)

lemma map_filter_append: "List.map_filter f (xs @ ys) = List.map_filter f xs @ List.map_filter f ys"
  by (simp add: map_filter_def)

lemma answered_ids_extend [simp]:
  "answered_ids (m\<lparr>content := xs @ ys\<rparr>) =
     answered_ids (m\<lparr>content := xs\<rparr>) @ answered_ids (m\<lparr>content := ys\<rparr>)"
  by (simp add: answered_ids_def map_filter_append)

lemma answered_ids_synthetic [simp]:
  "answered_ids (m\<lparr>content := map (synthetic_result dash) cs\<rparr>) = map fst cs"
  "answered_ids \<lparr>role_of = r, content = map (synthetic_result dash) cs\<rparr> = map fst cs"
  by (simp_all add: answered_ids_def)

lemma same_content [simp]: "(m::chat_message)\<lparr>content := content m\<rparr> = m"
  by simp

lemma window_answers_simps [simp]:
  "window_answers [] = []" "window_answers (m # w) = answered_ids m @ window_answers w"
  by (simp_all add: window_answers_def)

lemma window_answers_drop:
  "window_answers (map (drop_results bad) w) = filter (\<lambda>i. \<not> bad i) (window_answers w)"
  by (induction w) simp_all

lemma repair_window_answers:
  "set (window_answers (repair_window dash m w)) = set (call_ids m)"
proof -
  let ?bad = "\<lambda>i. i \<in> set (locally_orphaned m w)"
  have "set (window_answers (repair_window dash m w)) =
      set (window_answers (map (drop_results ?bad) w)) \<union> fst ` set (missing_calls m w)"
    by (cases w) (auto simp: repair_window_def)
  also have "\<dots> = set (call_ids m)"
    unfolding window_answers_drop
    by (auto simp: locally_orphaned_def missing_calls_def call_ids_def)
  finally show ?thesis .
qed

lemma repair_window_users:
  "list_all is_user w \<Longrightarrow> list_all is_user (repair_window dash m w) \<and> repair_window dash m w \<noteq> []"
  by (cases w) (auto simp: repair_window_def is_user_def list_all_iff)

subsection \<open>The main pass, exchange by exchange\<close>

lemma exchanges_skip [simp]: "\<not> is_caller m \<Longrightarrow> exchanges (m # ms) = exchanges ms"
  by (simp add: exchanges.simps)

lemma not_user_caller: "is_caller m \<Longrightarrow> \<not> is_user m"
  by (simp add: is_caller_def is_assistant_def is_user_def)

definition starts_anew :: "chat_message list \<Rightarrow> bool" where
  "starts_anew ms \<longleftrightarrow> ms = [] \<or> \<not> is_user (hd ms)"

lemma takeWhile_users:
  assumes "list_all is_user w" and "starts_anew rest"
  shows "takeWhile is_user (w @ rest) = w" and "dropWhile is_user (w @ rest) = rest"
proof -
  have "takeWhile is_user rest = []" and "dropWhile is_user rest = rest"
    using assms(2) by (cases rest; simp add: starts_anew_def)+
  then show "takeWhile is_user (w @ rest) = w" and "dropWhile is_user (w @ rest) = rest"
    using assms(1) by (simp_all add: list_all_iff)
qed

lemma exchanges_caller:
  assumes "is_caller m" and "list_all is_user w" and "starts_anew rest"
  shows "exchanges (m # w @ rest) = (m, w) # exchanges rest"
  using assms by (simp add: exchanges.simps takeWhile_users)

lemma exchanges_user_prefix: "list_all is_user w \<Longrightarrow> exchanges (w @ rest) = exchanges rest"
proof (induction w)
  case (Cons m w)
  then have "\<not> is_caller m" using not_user_caller by auto
  with Cons show ?case by simp
qed simp

lemma main_pass_head: "\<exists>out. fst (main_pass dash l i (m # ms)) = m # out"
  by (simp add: main_pass.simps(2) Let_def case_prod_beta)

lemma main_pass_starts_anew: "starts_anew ms \<Longrightarrow> starts_anew (fst (main_pass dash l i ms))"
proof (cases ms)
  case (Cons m ms')
  assume "starts_anew ms"
  moreover obtain out where "fst (main_pass dash l i (m # ms')) = m # out"
    using main_pass_head by blast
  ultimately show ?thesis using Cons by (simp add: starts_anew_def)
qed simp

lemma starts_anew_dropWhile [simp]: "starts_anew (dropWhile is_user ms)"
  by (cases "dropWhile is_user ms = []") (simp_all add: starts_anew_def hd_dropWhile)

lemma all_users_takeWhile [simp]: "list_all is_user (takeWhile is_user ms)"
  by (auto simp: list_all_iff dest: set_takeWhileD)

definition repaired_window :: "string \<Rightarrow> chat_message \<Rightarrow> chat_message list \<Rightarrow> chat_message list" where
  "repaired_window dash m w = (if answered_exactly (m, w) then w else repair_window dash m w)"

lemma main_pass_caller:
  assumes "is_caller m"
  shows "\<exists>i'. fst (main_pass dash l i (m # ms)) =
    m # repaired_window dash m (takeWhile is_user ms) @ fst (main_pass dash l i' (dropWhile is_user ms))"
  using assms
  by (auto simp: main_pass.simps(2) [of dash l i m ms] Let_def case_prod_beta repaired_window_def
      nothing_to_repair_iff)

lemma main_pass_skip:
  "\<not> is_caller m \<Longrightarrow>
     main_pass dash l i (m # ms) =
       (m # fst (main_pass dash l (i + 1) ms), snd (main_pass dash l (i + 1) ms))"
  by (simp add: main_pass.simps(2) case_prod_beta)

lemma repaired_window_users: "list_all is_user w \<Longrightarrow> list_all is_user (repaired_window dash m w)"
  using repair_window_users by (auto simp: repaired_window_def)

lemma exchanges_main_pass:
  "exchanges (fst (main_pass dash l i ms)) =
     map (\<lambda>(m, w). (m, repaired_window dash m w)) (exchanges ms)"
proof (induction ms arbitrary: i rule: exchanges.induct)
  case (2 m ms)
  show ?case
  proof (cases "is_caller m")
    case True
    from main_pass_caller [OF True] obtain i' where
      out: "fst (main_pass dash l i (m # ms)) =
        m # repaired_window dash m (takeWhile is_user ms) @ fst (main_pass dash l i' (dropWhile is_user ms))"
      by blast
    have "exchanges (m # ms) = (m, takeWhile is_user ms) # exchanges (dropWhile is_user ms)"
      using True by (simp add: exchanges.simps)
    then show ?thesis
      unfolding out
      by (simp add: exchanges_caller True repaired_window_users main_pass_starts_anew 2(1) [OF True])
  next
    case False
    with 2(2) show ?thesis by (simp add: main_pass_skip)
  qed
qed simp

lemma in_exchanges:
  assumes "(m, w) \<in> set (exchanges ms)"
  shows "m \<in> set ms" and "is_caller m" and "set w \<subseteq> set ms" and "list_all is_user w"
proof -
  have "m \<in> set ms \<and> is_caller m \<and> set w \<subseteq> set ms \<and> list_all is_user w"
    using assms
  proof (induction ms rule: exchanges.induct)
    case (2 a ms)
    show ?case
    proof (cases "is_caller a")
      case True
      with 2(1) [OF True] 2(3) show ?thesis
        by (auto simp: exchanges.simps dest: set_takeWhileD set_dropWhileD)
    next
      case False
      with 2(2) [OF False] 2(3) show ?thesis by auto
    qed
  qed simp
  then show "m \<in> set ms" and "is_caller m" and "set w \<subseteq> set ms" and "list_all is_user w" by auto
qed

lemma repaired_window_answered: "answered_exactly (m, repaired_window dash m w)"
  using repair_window_answers by (simp add: repaired_window_def answered_exactly_def)

lemma well_paired_main: "well_paired (fst (main_pass dash l i ms))"
  by (auto simp: well_paired_def exchanges_main_pass list_all_iff repaired_window_answered)

subsection \<open>What the main pass keeps\<close>

lemma filter_users: "list_all is_user w \<Longrightarrow> filter (\<lambda>m. \<not> is_user m) w = []"
  by (auto simp: list_all_iff filter_empty_conv)

lemma filter_split_users:
  "filter (\<lambda>m. \<not> is_user m) ms = filter (\<lambda>m. \<not> is_user m) (dropWhile is_user ms)"
  by (induction ms) auto

lemma main_pass_non_users:
  "filter (\<lambda>m. \<not> is_user m) (fst (main_pass dash l i ms)) = filter (\<lambda>m. \<not> is_user m) ms"
proof (induction ms arbitrary: i rule: exchanges.induct)
  case (2 m ms)
  show ?case
  proof (cases "is_caller m")
    case True
    from main_pass_caller [OF True] obtain i' where
      out: "fst (main_pass dash l i (m # ms)) =
        m # repaired_window dash m (takeWhile is_user ms) @ fst (main_pass dash l i' (dropWhile is_user ms))"
      by blast
    show ?thesis
      unfolding out
      by (simp add: filter_users repaired_window_users 2(1) [OF True] not_user_caller [OF True]
          filter_split_users [of ms])
  next
    case False
    with 2(2) show ?thesis by (simp add: main_pass_skip)
  qed
qed simp

lemma other_blocks_synthetic [simp]:
  "other_blocks (m\<lparr>content := content m @ map (synthetic_result dash) cs\<rparr>) = other_blocks m"
  "other_blocks \<lparr>role_of = r, content = map (synthetic_result dash) cs\<rparr> = []"
  by (simp_all add: other_blocks_def)

lemma repaired_other_blocks:
  "concat (map other_blocks (repaired_window dash m w)) = concat (map other_blocks w)"
  by (cases w) (auto simp: repaired_window_def repair_window_def comp_def)

lemma concat_split_users:
  "concat (map f (takeWhile p ms)) @ concat (map f (dropWhile p ms)) = concat (map f ms)"
  by (metis concat_append map_append takeWhile_dropWhile_id)

lemma main_pass_other_blocks:
  "concat (map other_blocks (fst (main_pass dash l i ms))) = concat (map other_blocks ms)"
proof (induction ms arbitrary: i rule: exchanges.induct)
  case (2 m ms)
  show ?case
  proof (cases "is_caller m")
    case True
    from main_pass_caller [OF True] obtain i' where
      out: "fst (main_pass dash l i (m # ms)) =
        m # repaired_window dash m (takeWhile is_user ms) @ fst (main_pass dash l i' (dropWhile is_user ms))"
      by blast
    show ?thesis
      unfolding out
      by (simp add: repaired_other_blocks 2(1) [OF True] concat_split_users)
  next
    case False
    with 2(2) show ?thesis by (simp add: main_pass_skip)
  qed
qed simp

lemma filter_assistants: "filter is_assistant ms = filter is_assistant (filter (\<lambda>m. \<not> is_user m) ms)"
  by (induction ms) (auto simp: is_assistant_def is_user_def)

lemma all_call_ids_main [simp]: "all_call_ids (fst (main_pass dash l i ms)) = all_call_ids ms"
  unfolding all_call_ids_def
  by (subst (1 2) filter_assistants) (simp add: main_pass_non_users)

lemma caller_ids_known: "m \<in> set ms \<Longrightarrow> is_caller m \<Longrightarrow> set (call_ids m) \<subseteq> set (all_call_ids ms)"
  by (auto simp: all_call_ids_def is_caller_def)

lemma window_answers_member: "u \<in> set w \<Longrightarrow> set (answered_ids u) \<subseteq> set (window_answers w)"
  by (auto simp: window_answers_def)

lemma all_call_ids_mono: "set xs \<subseteq> set ys \<Longrightarrow> set (all_call_ids xs) \<subseteq> set (all_call_ids ys)"
  by (auto simp: all_call_ids_def)

lemma main_pass_known:
  assumes "\<forall>u \<in> set ms. is_user u \<longrightarrow> set (answered_ids u) \<subseteq> K" and "set (all_call_ids ms) \<subseteq> K"
    and "u \<in> set (fst (main_pass dash l i ms))" and "is_user u"
  shows "set (answered_ids u) \<subseteq> K"
  using assms
proof (induction ms arbitrary: i rule: exchanges.induct)
  case (2 m ms)
  have rest: "set (dropWhile is_user ms) \<subseteq> set ms" by (auto dest: set_dropWhileD)
  have ids: "set (all_call_ids ms) \<subseteq> K" "set (all_call_ids (dropWhile is_user ms)) \<subseteq> K"
    using 2(4) all_call_ids_mono [of ms "m # ms"] all_call_ids_mono [OF rest] by auto
  show ?case
  proof (cases "is_caller m")
    case True
    let ?w = "takeWhile is_user ms"
    from main_pass_caller [OF True] obtain i' where
      out: "fst (main_pass dash l i (m # ms)) =
        m # repaired_window dash m ?w @ fst (main_pass dash l i' (dropWhile is_user ms))"
      by blast
    have "set (call_ids m) \<subseteq> K" using 2(4) True by (auto simp: all_call_ids_def is_caller_def)
    moreover have "set (window_answers (repaired_window dash m ?w)) = set (call_ids m)"
      using repaired_window_answered by (simp add: answered_exactly_def)
    ultimately have w: "u \<in> set (repaired_window dash m ?w) \<Longrightarrow> ?thesis"
      using window_answers_member by blast
    have d: "u \<in> set (fst (main_pass dash l i' (dropWhile is_user ms))) \<Longrightarrow> ?thesis"
      using 2(1) [OF True] 2(3,6) rest ids(2) by (meson list.set_intros(2) subset_iff)
    have "u \<noteq> m" using 2(6) not_user_caller [OF True] by auto
    with 2(5) w d show ?thesis unfolding out by auto
  next
    case False
    then show ?thesis
      using 2(2) [OF False] 2(3,5,6) ids(1) by (auto simp: main_pass_skip)
  qed
qed simp

subsection \<open>Nothing to repair\<close>

lemma main_pass_id:
  assumes "well_paired ms"
  shows "main_pass dash l i ms = (ms, empty_report)"
  using assms
proof (induction ms arbitrary: i rule: exchanges.induct)
  case (2 m ms)
  show ?case
  proof (cases "is_caller m")
    case True
    with 2(3) have "answered_exactly (m, takeWhile is_user ms)" "well_paired (dropWhile is_user ms)"
      by (simp_all add: well_paired_def exchanges.simps)
    with 2(1) [OF True] True show ?thesis
      by (simp add: main_pass.simps(2) nothing_to_repair_iff Let_def)
  next
    case False
    with 2(2) [OF False] 2(3) show ?thesis by (simp add: main_pass_skip well_paired_def)
  qed
qed simp

lemma main_pass_untouched:
  assumes "synthesized (snd (main_pass dash l i ms)) = []"
    and "locally_orphaned_result_ids (snd (main_pass dash l i ms)) = {#}"
  shows "fst (main_pass dash l i ms) = ms"
  using assms
proof (induction ms arbitrary: i rule: exchanges.induct)
  case (2 m ms)
  let ?w = "takeWhile is_user ms"
  show ?case
  proof (cases "is_caller m")
    case True
    have "missing_calls m ?w = [] \<and> locally_orphaned m ?w = []"
      using 2(3,4) True
      by (auto simp: main_pass.simps(2) Let_def case_prod_beta add_repair_def split: if_splits)
    with 2(1) [OF True] 2(3,4) True show ?thesis
      by (simp add: main_pass.simps(2) Let_def case_prod_beta)
  next
    case False
    with 2(2) [OF False] 2(3,4) show ?thesis by (simp add: main_pass_skip)
  qed
qed simp

subsection \<open>The pass over all messages\<close>

lemma drop_global_role [simp]:
  "is_user (drop_global_orphans known m) = is_user m"
  "calls_of (drop_global_orphans known m) = calls_of m"
  "call_ids (drop_global_orphans known m) = call_ids m"
  "is_caller (drop_global_orphans known m) = is_caller m"
  "other_blocks (drop_global_orphans known m) = other_blocks m"
  by (simp_all add: drop_global_orphans_def)

lemma drop_global_non_user [simp]: "\<not> is_user m \<Longrightarrow> drop_global_orphans known m = m"
  by (simp add: drop_global_orphans_def)

lemma filter_non_users_map:
  "filter (\<lambda>m. \<not> is_user m) (map (drop_global_orphans known) ms) = filter (\<lambda>m. \<not> is_user m) ms"
  by (induction ms) simp_all

lemma all_call_ids_global [simp]: "all_call_ids (map (drop_global_orphans known) ms) = all_call_ids ms"
  unfolding all_call_ids_def
  by (subst (1 2) filter_assistants) (simp add: filter_non_users_map)

lemma answered_ids_global:
  "is_user m \<Longrightarrow> answered_ids (drop_global_orphans known m) = filter (\<lambda>i. i \<in> set known) (answered_ids m)"
  by (auto simp: drop_global_orphans_def globally_orphaned_def intro: filter_cong)

lemma exchanges_global:
  "exchanges (map (drop_global_orphans known) ms) =
     map (\<lambda>(m, w). (m, map (drop_global_orphans known) w)) (exchanges ms)"
proof (induction ms rule: exchanges.induct)
  case (2 m ms)
  have "is_user \<circ> drop_global_orphans known = is_user" by (simp add: fun_eq_iff)
  then show ?case
    using 2 not_user_caller [of m]
    by (cases "is_caller m") (simp_all add: exchanges.simps takeWhile_map dropWhile_map)
qed simp

lemma no_orphans_globally:
  "globally_orphaned known m = [] \<longleftrightarrow> set (answered_ids m) \<subseteq> set known"
  by (auto simp: globally_orphaned_def filter_empty_conv)

lemma drop_global_id: "globally_orphaned known m = [] \<Longrightarrow> drop_global_orphans known m = m"
  by (simp add: drop_global_orphans_def drop_no_results)

lemma global_pass_id_iff: "snd (global_pass ms) = {#} \<longleftrightarrow> no_strangers ms"
  by (auto simp: global_pass_def Let_def no_strangers_def list_all_iff no_orphans_globally)

lemma global_pass_id: "no_strangers ms \<Longrightarrow> fst (global_pass ms) = ms"
proof -
  assume "no_strangers ms"
  then have "drop_global_orphans (all_call_ids ms) m = m" if "m \<in> set ms" for m
    using that drop_global_id [of "all_call_ids ms" m] drop_global_non_user [of m]
    by (auto simp: no_strangers_def list_all_iff no_orphans_globally)
  then show ?thesis by (simp add: global_pass_def Let_def map_idI)
qed

lemma repair_simps:
  "ensure_tool_result_pairing dash ms =
     fst (main_pass dash (last_index is_caller ms) 0 (fst (global_pass ms)))"
  "synthesized (snd (ensure_tool_result_pairing_with_report dash ms)) =
     synthesized (snd (main_pass dash (last_index is_caller ms) 0 (fst (global_pass ms))))"
  "locally_orphaned_result_ids (snd (ensure_tool_result_pairing_with_report dash ms)) =
     locally_orphaned_result_ids (snd (main_pass dash (last_index is_caller ms) 0 (fst (global_pass ms))))"
  "globally_orphaned_result_ids (snd (ensure_tool_result_pairing_with_report dash ms)) =
     snd (global_pass ms)"
  by (simp_all add: ensure_tool_result_pairing_def ensure_tool_result_pairing_with_report_def
      case_prod_beta)

lemma all_call_ids_repair: "all_call_ids (ensure_tool_result_pairing dash ms) = all_call_ids ms"
  by (simp add: repair_simps global_pass_def Let_def)

lemma repaired_well_paired: "well_paired (ensure_tool_result_pairing dash ms)"
  by (simp add: repair_simps well_paired_main)

lemma repaired_no_strangers: "no_strangers (ensure_tool_result_pairing dash ms)"
proof -
  have "set (answered_ids u) \<subseteq> set (all_call_ids ms)"
    if "u \<in> set (ensure_tool_result_pairing dash ms)" and "is_user u" for u
  proof (rule main_pass_known [OF _ _ that(1) [unfolded repair_simps] that(2)])
    show "\<forall>u \<in> set (fst (global_pass ms)). is_user u \<longrightarrow> set (answered_ids u) \<subseteq> set (all_call_ids ms)"
      by (auto simp: global_pass_def Let_def answered_ids_global)
    show "set (all_call_ids (fst (global_pass ms))) \<subseteq> set (all_call_ids ms)"
      by (simp add: global_pass_def Let_def)
  qed
  then show ?thesis by (simp add: no_strangers_def list_all_iff all_call_ids_repair)
qed

lemma repair_id:
  "well_paired ms \<Longrightarrow> no_strangers ms \<Longrightarrow>
     ensure_tool_result_pairing_with_report dash ms = (ms, empty_report)"
  using global_pass_id_iff [of ms]
  by (simp add: ensure_tool_result_pairing_with_report_def case_prod_beta global_pass_id main_pass_id
      empty_report_def)

lemma repair_untouched:
  assumes "report_is_empty (snd (ensure_tool_result_pairing_with_report dash ms))"
  shows "ensure_tool_result_pairing dash ms = ms"
proof -
  from assms have "snd (global_pass ms) = {#}" by (simp add: report_is_empty_def repair_simps)
  then have "fst (global_pass ms) = ms" by (simp add: global_pass_id_iff global_pass_id)
  with assms show ?thesis by (simp add: report_is_empty_def repair_simps main_pass_untouched)
qed

subsection \<open>The answers that were right\<close>

definition right_answers :: "chat_message \<times> chat_message list \<Rightarrow> tool_result_block list" where
  "right_answers e =
     filter (\<lambda>r. result_use_id r \<in> set (call_ids (fst e))) (concat (map result_blocks (snd e)))"

lemma proper_answers_exchanges: "proper_answers ms = concat (map right_answers (exchanges ms))"
proof -
  have "right_answers = (\<lambda>(m, w). filter (\<lambda>r. result_use_id r \<in> set (call_ids m)) (concat (map result_blocks w)))"
    by (simp add: right_answers_def fun_eq_iff)
  then show ?thesis by (simp add: proper_answers_def)
qed

lemma filter_result_blocks_drop:
  assumes "\<And>i. i \<in> K \<Longrightarrow> \<not> bad i"
  shows "filter (\<lambda>r. result_use_id r \<in> K) (concat (map result_blocks (map (drop_results bad) w))) =
    filter (\<lambda>r. result_use_id r \<in> K) (concat (map result_blocks w))"
proof (induction w)
  case (Cons m w)
  have "filter (\<lambda>r. result_use_id r \<in> K) (filter (\<lambda>r. \<not> bad (result_use_id r)) (result_blocks m)) =
      filter (\<lambda>r. result_use_id r \<in> K) (result_blocks m)"
    using assms by (auto intro: filter_cong)
  with Cons show ?case by simp
qed simp

lemma right_answers_repaired:
  "subseq (right_answers (m, w)) (right_answers (m, repaired_window dash m w))"
proof (cases "answered_exactly (m, w)")
  case False
  let ?bad = "\<lambda>i. i \<in> set (locally_orphaned m w)"
  let ?p = "\<lambda>r. result_use_id r \<in> set (call_ids m)"
  have kept: "right_answers (m, w) = filter ?p (concat (map result_blocks (map (drop_results ?bad) w)))"
    unfolding right_answers_def by (subst filter_result_blocks_drop) (auto simp: locally_orphaned_def)
  show ?thesis
  proof (cases "map (drop_results ?bad) w")
    case (Cons u us)
    have "subseq (result_blocks u @ concat (map result_blocks us))
        (result_blocks (u\<lparr>content := content u @ map (synthetic_result dash) (missing_calls m w)\<rparr>) @
          concat (map result_blocks us))"
      by (simp add: result_blocks_def map_filter_append)
        (intro list_emb_append_mono list_emb_append2; simp)
    then have "subseq (filter ?p (result_blocks u @ concat (map result_blocks us)))
        (filter ?p (result_blocks (u\<lparr>content := content u @ map (synthetic_result dash) (missing_calls m w)\<rparr>) @
          concat (map result_blocks us)))"
      by (rule subseq_filter)
    moreover have "right_answers (m, w) = filter ?p (result_blocks u @ concat (map result_blocks us))"
      unfolding kept Cons by simp
    moreover have "repaired_window dash m w =
        u\<lparr>content := content u @ map (synthetic_result dash) (missing_calls m w)\<rparr> # us"
      using False Cons by (simp add: repaired_window_def repair_window_def Let_def)
    ultimately show ?thesis by (simp add: right_answers_def)
  qed (simp add: right_answers_def)
qed (simp add: repaired_window_def)

lemma subseq_concat_map:
  "(\<And>x. x \<in> set xs \<Longrightarrow> subseq (f x) (g x)) \<Longrightarrow> subseq (concat (map f xs)) (concat (map g xs))"
  by (induction xs) (auto intro: list_emb_append_mono)

lemma right_answers_global:
  assumes "set (call_ids m) \<subseteq> set known" and "list_all is_user w"
  shows "right_answers (m, map (drop_global_orphans known) w) = right_answers (m, w)"
  using assms(2)
proof (induction w)
  case (Cons u w)
  have "filter (\<lambda>r. result_use_id r \<in> set (call_ids m)) (result_blocks (drop_global_orphans known u)) =
      filter (\<lambda>r. result_use_id r \<in> set (call_ids m)) (result_blocks u)"
    using assms(1) by (auto simp: drop_global_orphans_def globally_orphaned_def intro: filter_cong)
  with Cons show ?case by (simp add: right_answers_def)
qed simp

lemma proper_answers_global: "proper_answers (fst (global_pass ms)) = proper_answers ms"
proof -
  have "right_answers (m, map (drop_global_orphans (all_call_ids ms)) w) = right_answers (m, w)"
    if "(m, w) \<in> set (exchanges ms)" for m w
    using in_exchanges [OF that] by (intro right_answers_global) (auto dest: caller_ids_known)
  then show ?thesis
    by (auto simp: proper_answers_exchanges global_pass_def Let_def exchanges_global
        intro!: arg_cong [of _ _ concat])
qed

lemma proper_answers_main:
  "subseq (proper_answers ms) (proper_answers (fst (main_pass dash l i ms)))"
  unfolding proper_answers_exchanges exchanges_main_pass
  using right_answers_repaired by (auto simp: comp_def intro!: subseq_concat_map)

lemma repair_non_users:
  "filter (\<lambda>m. \<not> is_user m) (ensure_tool_result_pairing dash ms) = filter (\<lambda>m. \<not> is_user m) ms"
  by (simp add: repair_simps main_pass_non_users global_pass_def Let_def filter_non_users_map)

lemma repair_other_blocks:
  "concat (map other_blocks (ensure_tool_result_pairing dash ms)) = concat (map other_blocks ms)"
  by (simp add: repair_simps main_pass_other_blocks global_pass_def Let_def comp_def)

lemma repair_proper_answers:
  "subseq (proper_answers ms) (proper_answers (ensure_tool_result_pairing dash ms))"
  using proper_answers_main [of "fst (global_pass ms)" dash "last_index is_caller ms" 0]
  by (simp add: repair_simps proper_answers_global)

lemma repair_head:
  assumes "is_user m" and "other_blocks m = content m"
  shows "\<exists>out. ensure_tool_result_pairing dash (m # ms) = m # out"
proof -
  have "result_blocks m = []"
  proof -
    have "List.map_filter as_tool_result (filter (\<lambda>b. as_tool_result b = None) bs) = []" for bs
      by (induction bs) (auto simp: map_filter_simps)
    then show ?thesis using assms(2) unfolding result_blocks_def other_blocks_def by metis
  qed
  then have "drop_global_orphans known m = m" for known
    by (simp add: drop_global_id no_orphans_globally answered_ids_blocks)
  then have "\<exists>out. fst (global_pass (m # ms)) = m # out" by (simp add: global_pass_def Let_def)
  then show ?thesis using main_pass_head by (metis repair_simps(1))
qed

subsection \<open>Properties\<close>

text \<open>C34. After the repair every tool call has a result among the user messages that follow its
  message, these hold results of no other call, and no user message anywhere holds a result of a
  call that was never made: whatever a cancellation or a truncation left behind, a provider finds
  every call answered.\<close>

theorem repair_answers_every_call:
  "well_paired (ensure_tool_result_pairing dash ms) \<and> no_strangers (ensure_tool_result_pairing dash ms)"
  by (simp add: repaired_well_paired repaired_no_strangers)

text \<open>C35. The repair says what it did: its report is empty exactly when it changed nothing, which is
  exactly when the history was paired before; so repairing a second time changes nothing.\<close>

theorem repair_reports_truly:
  "(report_is_empty (snd (ensure_tool_result_pairing_with_report dash ms)) \<longleftrightarrow>
      ensure_tool_result_pairing dash ms = ms) \<and>
   (ensure_tool_result_pairing dash ms = ms \<longleftrightarrow> well_paired ms \<and> no_strangers ms) \<and>
   ensure_tool_result_pairing dash (ensure_tool_result_pairing dash ms) =
     ensure_tool_result_pairing dash ms"
proof -
  have fixed: "ensure_tool_result_pairing dash xs = xs \<and>
      report_is_empty (snd (ensure_tool_result_pairing_with_report dash xs))"
    if "well_paired xs" "no_strangers xs" for xs
    using repair_id [OF that, of dash]
    by (simp add: ensure_tool_result_pairing_def report_is_empty_def empty_report_def)
  have paired: "well_paired ms \<and> no_strangers ms" if "ensure_tool_result_pairing dash ms = ms"
    using repaired_well_paired [of dash ms] repaired_no_strangers [of dash ms] that by simp
  show ?thesis
    using fixed [of ms] paired repair_untouched [of dash ms]
      fixed [OF repaired_well_paired repaired_no_strangers] by blast
qed

text \<open>C36. The repair touches results alone: the messages that are not the user's are the same ones in
  the same order, so are all other blocks of the user's, and every result that stood where its call
  expects it is still there.\<close>

theorem repair_touches_results_alone:
  "filter (\<lambda>m. \<not> is_user m) (ensure_tool_result_pairing dash ms) = filter (\<lambda>m. \<not> is_user m) ms \<and>
   concat (map other_blocks (ensure_tool_result_pairing dash ms)) = concat (map other_blocks ms) \<and>
   subseq (proper_answers ms) (proper_answers (ensure_tool_result_pairing dash ms))"
  by (simp add: repair_non_users repair_other_blocks repair_proper_answers)

subsection \<open>Where it falls short\<close>

text \<open>The index of the last caller is taken before placeholders are inserted, and compared with
  indices taken after. Of three calls that were all cut off the report names the second as the one at
  the tail, which a persister would append a result for, and not the third.\<close>

definition cut_off_call :: "string \<Rightarrow> chat_message" where
  "cut_off_call i =
     \<lparr>role_of = RoleAssistant,
      content = [ToolUse \<lparr>use_id = i, use_name = ''Bash'', use_input = JObject []\<rparr>]\<rparr>"

theorem middle_call_reported_as_tail:
  "synthesized_tail_orphans (snd (ensure_tool_result_pairing_with_report ''-''
      [cut_off_call ''a'', cut_off_call ''b'', cut_off_call ''c''])) = [(''b'', ''Bash'')]"
  by code_simp

text \<open>With one caller nothing shifts, and the report is right.\<close>

theorem single_call_reported_as_tail:
  "synthesized_tail_orphans (snd (ensure_tool_result_pairing_with_report ''-''
      [user_text ''hi'', cut_off_call ''a''])) = [(''a'', ''Bash'')]"
  by code_simp

text \<open>A result that repeats itself after the assistant has gone on without calls, or that comes before
  its call, is not in the window of any caller, and stays although no call before it is open.\<close>

definition bare_result :: "string \<Rightarrow> chat_message" where
  "bare_result i =
     \<lparr>role_of = RoleUser,
      content = [ToolResult \<lparr>result_use_id = i, result_content = ResultText ''ok'', result_is_error = False\<rparr>]\<rparr>"

theorem late_result_survives:
  "ensure_tool_result_pairing ''-''
     [bare_result ''a'', cut_off_call ''a'', bare_result ''a'', assistant_text ''done'', bare_result ''a''] =
     [bare_result ''a'', cut_off_call ''a'', bare_result ''a'', assistant_text ''done'', bare_result ''a'']"
  by code_simp

text \<open>A user message that held nothing but a stray result stays, without any content.\<close>

theorem stray_result_leaves_an_empty_message:
  "ensure_tool_result_pairing ''-'' [user_text ''hi'', assistant_text ''yes'', bare_result ''a''] =
     [user_text ''hi'', assistant_text ''yes'', \<lparr>role_of = RoleUser, content = []\<rparr>]"
  by code_simp

end
