(* ===== verification/Prune_Facts.thy ===== *)
theory Prune_Facts
  imports Context_Prune Pairing_Facts
begin

text \<open>
  What the pruning of \<open>Context_Prune\<close> leaves alone. All passes but the removal of identical calls
  keep the identifiers of a history where they are, its skeleton, so a paired history stays paired;
  the protected tail is sent as it is; the latest read of a slice of a file keeps its result. Then
  microcompact: which results it clears, and how many.
\<close>

subsection \<open>The skeleton of a history\<close>

definition skeleton :: "chat_message \<Rightarrow> role \<times> (string \<times> string) list \<times> string list" where
  "skeleton m = (role_of m, calls_of m, answered_ids m)"

lemma skeleton_eqD:
  assumes "skeleton m = skeleton m'"
  shows "is_user m = is_user m'" and "is_caller m = is_caller m'" and "call_ids m = call_ids m'"
    and "answered_ids m = answered_ids m'" and "is_assistant m = is_assistant m'"
  using assms
  by (simp_all add: skeleton_def is_user_def is_caller_def is_assistant_def call_ids_def)

abbreviation same_skeleton :: "chat_message list \<Rightarrow> chat_message list \<Rightarrow> bool" where
  "same_skeleton xs ys \<equiv> map skeleton xs = map skeleton ys"

lemma same_skeleton_takeWhile:
  "same_skeleton xs ys \<Longrightarrow>
     same_skeleton (takeWhile is_user xs) (takeWhile is_user ys) \<and>
     same_skeleton (dropWhile is_user xs) (dropWhile is_user ys)"
proof (induction xs arbitrary: ys)
  case (Cons x xs)
  then obtain y ys' where "ys = y # ys'" "skeleton x = skeleton y" "same_skeleton xs ys'" by auto
  with Cons.IH [of ys'] skeleton_eqD(1) [of x y] show ?case by simp
qed simp

lemma same_skeleton_answers: "same_skeleton xs ys \<Longrightarrow> window_answers xs = window_answers ys"
proof (induction xs arbitrary: ys)
  case (Cons x xs)
  then obtain y ys' where "ys = y # ys'" "skeleton x = skeleton y" "same_skeleton xs ys'" by auto
  with Cons.IH [of ys'] skeleton_eqD(4) [of x y] show ?case by simp
qed simp

lemma well_paired_caller:
  "is_caller m \<Longrightarrow>
     well_paired (m # ms) \<longleftrightarrow>
       answered_exactly (m, takeWhile is_user ms) \<and> well_paired (dropWhile is_user ms)"
  by (simp add: well_paired_def exchanges.simps)

lemma well_paired_skip: "\<not> is_caller m \<Longrightarrow> well_paired (m # ms) = well_paired ms"
  by (simp add: well_paired_def)

lemma same_skeleton_well_paired: "same_skeleton xs ys \<Longrightarrow> well_paired xs = well_paired ys"
proof (induction xs arbitrary: ys rule: exchanges.induct)
  case (2 m ms)
  then obtain y ys' where ys: "ys = y # ys'" "skeleton m = skeleton y" "same_skeleton ms ys'" by auto
  note same = same_skeleton_takeWhile [OF ys(3)]
  show ?case
  proof (cases "is_caller m")
    case True
    with skeleton_eqD [OF ys(2)] 2(1) [OF True] same
      same_skeleton_answers [of "takeWhile is_user ms" "takeWhile is_user ys'"] show ?thesis
      by (simp add: ys(1) well_paired_caller answered_exactly_def)
  next
    case False
    with skeleton_eqD(2) [OF ys(2)] 2(2) [OF False ys(3)] show ?thesis
      by (simp add: ys(1) well_paired_skip)
  qed
qed simp

lemma same_skeleton_ids: "same_skeleton xs ys \<Longrightarrow> all_call_ids xs = all_call_ids ys"
proof (induction xs arbitrary: ys)
  case (Cons x xs)
  then obtain y ys' where "ys = y # ys'" "skeleton x = skeleton y" "same_skeleton xs ys'" by auto
  with Cons.IH [of ys'] skeleton_eqD [of x y] show ?case by (simp add: all_call_ids_def)
qed simp

lemma same_skeleton_strangers: "same_skeleton xs ys \<Longrightarrow> no_strangers xs = no_strangers ys"
proof -
  assume same: "same_skeleton xs ys"
  have "list_all (\<lambda>m. is_user m \<longrightarrow> set (answered_ids m) \<subseteq> K) xs =
      list_all (\<lambda>m. is_user m \<longrightarrow> set (answered_ids m) \<subseteq> K) ys" for K
    using same
  proof (induction xs arbitrary: ys)
    case (Cons x xs)
    then obtain y ys' where "ys = y # ys'" "skeleton x = skeleton y" "same_skeleton xs ys'" by auto
    with Cons.IH [of ys'] skeleton_eqD [of x y] show ?case by simp
  qed simp
  then show ?thesis by (simp add: no_strangers_def same_skeleton_ids [OF same])
qed

subsection \<open>Passes that keep it\<close>

lemma map_filter_map: "List.map_filter f (map g xs) = List.map_filter (f \<circ> g) xs"
  by (induction xs) (simp_all add: map_filter_simps split: option.split)

lemma map_filter_fun_cong:
  "(\<And>x. f x = g x) \<Longrightarrow> List.map_filter f xs = List.map_filter g xs"
  by presburger

lemma map_map_filter: "map h (List.map_filter f xs) = List.map_filter (map_option h \<circ> f) xs"
  by (induction xs) (simp_all add: map_filter_simps split: option.split)

text \<open>A rewriting of blocks that keeps what a block calls and answers.\<close>

definition keeps_ids :: "(content_block \<Rightarrow> content_block option) \<Rightarrow> bool" where
  "keeps_ids f \<longleftrightarrow>
     (\<forall>b b'. f b = Some b' \<longrightarrow>
        map_option (\<lambda>u. (use_id u, use_name u)) (as_tool_use b') =
          map_option (\<lambda>u. (use_id u, use_name u)) (as_tool_use b) \<and>
        map_option result_use_id (as_tool_result b') = map_option result_use_id (as_tool_result b))"

lemma skeleton_rewrite:
  assumes "keeps_ids f"
  shows "skeleton (rewrite_message f m) = skeleton m"
proof -
  let ?g = "\<lambda>b. case f b of Some b' \<Rightarrow> b' | None \<Rightarrow> b"
  have "map_option (\<lambda>u. (use_id u, use_name u)) (as_tool_use (?g b)) =
      map_option (\<lambda>u. (use_id u, use_name u)) (as_tool_use b)"
    and "map_option result_use_id (as_tool_result (?g b)) = map_option result_use_id (as_tool_result b)" for b
    using assms by (auto simp: keeps_ids_def split: option.split)
  then show ?thesis
    by (simp add: skeleton_def rewrite_message_def calls_of_def answered_ids_def map_filter_map
        map_map_filter comp_def)
qed

lemma same_skeleton_prefix:
  assumes "\<And>m. skeleton (g m) = skeleton m"
  shows "same_skeleton (map g (take n ms) @ drop n ms) ms"
proof -
  have "map skeleton (map g (take n ms)) = map skeleton (take n ms)" using assms by simp
  then show ?thesis by (simp only: map_append) (simp only: map_append [symmetric] append_take_drop_id)
qed

lemma skeleton_rewrite_prefix:
  "keeps_ids f \<Longrightarrow> same_skeleton (fst (rewrite_prefix who f n ms)) ms"
  unfolding rewrite_prefix_def fst_conv
  by (rule same_skeleton_prefix) (simp add: skeleton_rewrite)

lemma keeps_ids_clear: "keeps_ids (clear_unless safe)"
  by (auto simp: keeps_ids_def clear_unless_def clear_result_def as_tool_result_def as_tool_use_def
      split: content_block.splits if_splits)

lemma keeps_ids_purge: "keeps_ids (purge_input failed)"
  by (auto simp: keeps_ids_def purge_input_def as_tool_result_def as_tool_use_def
      split: content_block.splits if_splits)

lemma skeleton_strip [simp]: "skeleton (strip_thinking m) = skeleton m"
proof -
  have "List.map_filter f (filter (\<lambda>b. \<not> is_thinking b) bs) = List.map_filter f bs"
    if "\<And>b. is_thinking b \<Longrightarrow> f b = None" for f :: "content_block \<Rightarrow> 'x option" and bs
    using that by (induction bs) (auto simp: map_filter_simps split: option.split)
  note f = this
  have "is_thinking b \<Longrightarrow> as_tool_use b = None" "is_thinking b \<Longrightarrow> as_tool_result b = None" for b
    by (auto simp: is_thinking_def as_tool_use_def as_tool_result_def split: content_block.splits)
  with f [of as_tool_use "content m"] f [of as_tool_result "content m"] show ?thesis
    by (simp add: skeleton_def strip_thinking_def calls_of_def answered_ids_def)
qed

lemma skeleton_strip_old: "same_skeleton (fst (strip_old_thinking_blocks n a ms)) ms"
  unfolding strip_old_thinking_blocks_def Let_def fst_conv by (rule same_skeleton_prefix) simp

lemma skeleton_clear_old: "same_skeleton (fst (clear_old_tool_results n a ms)) ms"
  by (simp add: clear_old_tool_results_def Let_def skeleton_rewrite_prefix keeps_ids_clear)

lemma skeleton_purge: "same_skeleton (fst (purge_error_inputs n a ms)) ms"
  by (simp add: purge_error_inputs_def Let_def skeleton_rewrite_prefix keeps_ids_purge)

definition clear_each :: "content_block \<Rightarrow> content_block" where
  "clear_each b = (case clear_unless (\<lambda>_. False) b of Some b' \<Rightarrow> b' | None \<Rightarrow> b)"

lemma sweep_blocks_ids:
  "\<exists>k. fst (sweep_blocks limit n bs) = map clear_each (take k bs) @ drop k bs"
proof (induction limit n bs rule: sweep_blocks.induct)
  case (2 limit n b bs)
  show ?case
  proof (cases "clear_unless (\<lambda>_. False) b")
    case None
    with 2(1) obtain k where "fst (sweep_blocks limit n bs) = map clear_each (take k bs) @ drop k bs"
      by blast
    with None show ?thesis
      by (intro exI [of _ "Suc k"]) (simp add: case_prod_beta clear_each_def)
  next
    case (Some b')
    show ?thesis
    proof (cases "n + 1 \<ge> limit")
      case True
      with Some show ?thesis by (intro exI [of _ 1]) (simp add: clear_each_def)
    next
      case False
      with 2(2) [OF Some] obtain k where
        "fst (sweep_blocks limit (n + 1) bs) = map clear_each (take k bs) @ drop k bs"
        by blast
      with Some False show ?thesis
        by (intro exI [of _ "Suc k"]) (simp add: case_prod_beta clear_each_def)
    qed
  qed
qed simp

lemma sweep_blocks_ids_of:
  "\<exists>k. rev (fst (sweep_blocks limit n (rev bs))) =
     take (length bs - k) bs @ map clear_each (drop (length bs - k) bs)"
proof -
  obtain k where "fst (sweep_blocks limit n (rev bs)) = map clear_each (take k (rev bs)) @ drop k (rev bs)"
    using sweep_blocks_ids by blast
  then show ?thesis by (intro exI [of _ k]) (simp add: take_rev drop_rev rev_map)
qed

definition block_ids :: "content_block \<Rightarrow> (string \<times> string) option \<times> string option" where
  "block_ids b =
     (map_option (\<lambda>u. (use_id u, use_name u)) (as_tool_use b), map_option result_use_id (as_tool_result b))"

lemma skeleton_blocks:
  "skeleton m =
     (role_of m, List.map_filter fst (map block_ids (content m)), List.map_filter snd (map block_ids (content m)))"
  by (simp add: skeleton_def calls_of_def answered_ids_def map_filter_map map_map_filter comp_def
      block_ids_def)

lemma block_ids_clear_each [simp]: "block_ids (clear_each b) = block_ids b"
  by (auto simp: block_ids_def clear_each_def clear_unless_def clear_result_def as_tool_result_def
      as_tool_use_def split: content_block.splits)

lemma block_ids_part_cleared:
  "map block_ids (take k bs @ map clear_each (drop k bs)) = map block_ids bs"
proof -
  have "map block_ids (map clear_each xs) = map block_ids xs" for xs by (induction xs) simp_all
  then show ?thesis by (simp only: map_append) (simp only: map_append [symmetric] append_take_drop_id)
qed

lemma skeleton_sweep:
  "skeleton (m\<lparr>content := rev (fst (sweep_blocks limit n (rev (content m))))\<rparr>) = skeleton m"
proof -
  obtain k where "rev (fst (sweep_blocks limit n (rev (content m)))) =
      take k (content m) @ map clear_each (drop k (content m))"
    using sweep_blocks_ids_of by blast
  then show ?thesis by (simp add: skeleton_blocks block_ids_part_cleared del: map_append)
qed

lemma skeleton_sweep_messages: "same_skeleton (fst (sweep_messages limit n ms)) ms"
proof (induction limit n ms rule: sweep_messages.induct)
  case (2 limit n m ms)
  show ?case
  proof (cases "is_user m")
    case False
    with 2(1) show ?thesis by (simp add: case_prod_beta)
  next
    case True
    obtain bs k stop where run: "sweep_blocks limit n (rev (content m)) = (bs, k, stop)"
      by (cases "sweep_blocks limit n (rev (content m))")
    have "skeleton (m\<lparr>content := rev bs\<rparr>) = skeleton m"
      using skeleton_sweep [of limit n m] by (simp add: run)
    with 2(2) [of "(bs, k, stop)" bs "(k, stop)" k stop] True run show ?thesis
      by (auto simp: case_prod_beta Let_def)
  qed
qed simp

lemma skeleton_sweep_recent: "same_skeleton (fst (sweep_recent_tool_results wanted ms)) ms"
proof -
  have "same_skeleton (fst (sweep_messages limit 0 (rev ms))) (rev ms)" for limit
    by (rule skeleton_sweep_messages)
  then show ?thesis
    by (simp add: sweep_recent_tool_results_def Let_def case_prod_beta rev_map [symmetric])
qed

subsection \<open>Pruning as a whole\<close>

lemma skeleton_prune_old:
  assumes "level \<noteq> Aggressive"
  shows "same_skeleton (fst (prune_old config provider level (ms, delta))) ms"
  using assms
  by (simp add: prune_old_def Let_def case_prod_beta skeleton_clear_old skeleton_strip_old)

lemma skeleton_prune:
  assumes "level \<noteq> Aggressive"
  shows "same_skeleton (fst (prune config provider ms level sweep preserve)) ms"
proof -
  have old: "same_skeleton (fst (prune_old config provider level st)) (fst st)" for st
    using skeleton_prune_old [OF assms] by (cases st) simp
  show ?thesis
    using skeleton_sweep_recent
    by (auto simp: prune_def Let_def case_prod_beta old split: option.split)
qed

text \<open>C37. Below the aggressive level pruning never breaks a tool call from its result, whatever the
  provider, the ages configured and the sweep asked for: a history whose calls are all answered goes
  out with its calls all answered.\<close>

theorem pruning_keeps_calls_answered:
  assumes "well_paired ms" and "no_strangers ms" and "level \<noteq> Aggressive"
  shows "well_paired (fst (prune config provider ms level sweep preserve)) \<and>
    no_strangers (fst (prune config provider ms level sweep preserve))"
  using skeleton_prune [OF assms(3), of config provider ms sweep preserve] assms(1,2)
    same_skeleton_well_paired same_skeleton_strangers by blast

theorem pruning_keeps_calls_answered_witness:
  "let ms = [user_text ''hi'', cut_off_call ''a'', bare_result ''a'', assistant_text ''done'', user_text ''ok'']
   in well_paired (fst (prune \<lparr>protected_recent_turns = 1, tool_result_max_age_turns = 0,
        error_purge_age_turns = 0\<rparr> ''openai'' ms Conservative (Some (Some 1)) False))"
proof -
  have "well_paired [user_text ''hi'', cut_off_call ''a'', bare_result ''a'', assistant_text ''done'', user_text ''ok'']"
    and "no_strangers [user_text ''hi'', cut_off_call ''a'', bare_result ''a'', assistant_text ''done'', user_text ''ok'']"
    by code_simp+
  from pruning_keeps_calls_answered [OF this, of Conservative] show ?thesis by (simp add: Let_def)
qed

subsection \<open>The protected tail\<close>

lemma drop_prefix:
  assumes "n \<le> b"
  shows "drop b (map g (take n ms) @ drop n ms) = drop b ms"
proof (cases "n \<le> length ms")
  case True
  with assms show ?thesis by (simp add: min_absorb2)
qed (use assms in simp)

lemma rewrite_prefix_tail:
  "n \<le> b \<Longrightarrow> drop b (fst (rewrite_prefix who f n ms)) = drop b ms"
  "length (fst (rewrite_prefix who f n ms)) = length ms"
  by (simp_all add: rewrite_prefix_def drop_prefix del: drop_append)

lemma strip_old_tail:
  "drop b (fst (strip_old_thinking_blocks b age ms)) = drop b ms"
  "length (fst (strip_old_thinking_blocks b age ms)) = length ms"
  by (simp_all add: strip_old_thinking_blocks_def Let_def drop_prefix del: drop_append)

lemma clear_old_tail:
  "drop b (fst (clear_old_tool_results b age ms)) = drop b ms"
  "length (fst (clear_old_tool_results b age ms)) = length ms"
  by (simp_all add: clear_old_tool_results_def Let_def rewrite_prefix_tail)

lemma purge_tail:
  "drop b (fst (purge_error_inputs b age ms)) = drop b ms"
  "length (fst (purge_error_inputs b age ms)) = length ms"
  by (simp_all add: purge_error_inputs_def Let_def rewrite_prefix_tail)

lemma deduplicate_tail: "\<exists>front. deduplicate_tool_calls b ms = front @ drop b ms \<and> (b = 0 \<longrightarrow> front = [])"
proof (cases "doomed_ids b ms = []")
  case True
  then show ?thesis
    by (intro exI [of _ "take b ms"]) (simp add: deduplicate_tool_calls_def)
qed (simp add: deduplicate_tool_calls_def Let_def)

lemma prune_aggressively_tail:
  "suffix (drop (protection_boundary config (length ms)) ms) (fst (prune_aggressively config (ms, delta)))"
proof -
  let ?b = "protection_boundary config (length ms)"
  let ?tail = "drop ?b ms"
  obtain front where kept: "deduplicate_tool_calls ?b ms = front @ ?tail" and front: "?b = 0 \<longrightarrow> front = []"
    using deduplicate_tail by blast
  let ?b' = "protection_boundary config (length (front @ ?tail))"
  have "drop ?b' (front @ ?tail) = ?tail"
    using front by (cases "?b = 0") (auto simp: protection_boundary_def)
  then have "drop ?b' (fst (purge_error_inputs ?b' (error_purge_age_turns config) (front @ ?tail))) = ?tail"
    by (simp add: purge_tail del: length_append drop_append)
  then show ?thesis
    by (simp add: prune_aggressively_def Let_def case_prod_beta kept del: length_append drop_append)
      (metis suffix_drop)
qed

lemma prune_old_tail:
  "suffix (drop (protection_boundary config (length ms)) ms)
     (fst (prune_old config provider level (ms, delta)))"
proof -
  let ?b = "protection_boundary config (length ms)" and ?age = "tool_result_max_age_turns config"
  let ?thought = "if provider_requires_reasoning_roundtrip provider then ms
    else fst (strip_old_thinking_blocks ?b ?age ms)"
  let ?cleared = "fst (clear_old_tool_results ?b ?age ?thought)"
  have "length ?cleared = length ms" "drop ?b ?cleared = drop ?b ms"
    by (simp_all add: clear_old_tail strip_old_tail)
  with prune_aggressively_tail [of config ?cleared] suffix_drop [of ?b ?cleared] show ?thesis
    by (simp add: prune_old_def Let_def case_prod_beta) (auto simp: if_distrib [of fst])
qed

text \<open>Unless a sweep was asked for, the messages of the protected turns go out as they are, at the
  end, at every level: what the model has just said and seen is never rewritten.\<close>

theorem pruning_spares_the_recent_turns:
  "suffix (drop (protection_boundary config (length ms)) ms)
     (fst (prune config provider ms level None preserve))"
  using prune_old_tail by (auto simp: prune_def Let_def suffix_drop)

subsection \<open>Providers with a prefix cache\<close>

text \<open>For a provider whose cache is keyed on the exact prefix, a request goes out unchanged when no
  sweep is pending, at every level.\<close>

lemma prefix_cache_keeps_messages:
  assumes "should_preserve_prefix_cache (provider_name client) name \<or> prefix_cache_is_byte_exact client"
    and "sweep_pending h = 0"
  shows "fst (create_message_stream config client cell name ms h) = ms"
proof -
  have "sweep_pending (set_context_window_for_model name h) = 0"
    using assms(2) by (simp add: set_context_window_for_model_def case_prod_beta)
  then show ?thesis
    using assms(1)
    by (auto simp: create_message_stream_def Let_def case_prod_beta take_sweep_def prune_def)
qed

text \<open>Every request takes what is pending: the sweep, and a forced compaction, which it does not do.\<close>

lemma request_takes_what_is_pending:
  assumes "create_message_stream config client cell name ms h = (out, h')"
  shows "sweep_pending h' = 0 \<and> \<not> force_compact_flag (handle_budget h') \<and>
    requests_processed (handle_stats h') = requests_processed (handle_stats h) + 1 \<and>
    messages_truncated (handle_stats h') = messages_truncated (handle_stats h)"
proof -
  have "delta_truncated (snd (prune config p xs l sweep preserve)) = 0" for p xs l sweep preserve
    by (auto simp: prune_def prune_old_def prune_aggressively_def no_delta_def Let_def case_prod_beta
        split: option.split)
  moreover have "\<not> force_compact_flag (snd (take_compact_once b))" for b
    by (simp add: take_compact_once_def)
  ultimately show ?thesis
    using assms
    by (auto simp: create_message_stream_def Let_def case_prod_beta take_sweep_def add_delta_def
        set_context_window_for_model_def split: if_splits)
qed

end
