(* ===== verification/Microcompact_Facts.thy ===== *)
theory Microcompact_Facts
  imports Prune_Facts
begin

text \<open>
  Which results are cleared. Of microcompact: only those it may, those nearest the end of the
  history first, as many as it takes and no more. Of the clearing of old results: never the latest
  read of a slice of a file. Of the removal of identical calls: the newest one stays, and what
  happens to a result on the other side of the boundary.
\<close>

subsection \<open>How many\<close>

definition freed_sum :: "candidate list \<Rightarrow> nat" where
  "freed_sum cs = sum_list (map (unat \<circ> freed_tokens) cs)"

lemma freed_sum_simps [simp]:
  "freed_sum [] = 0" "freed_sum (c # cs) = unat (freed_tokens c) + freed_sum cs"
  by (simp_all add: freed_sum_def)

lemma unat_sat_sub: "unat (saturating_sub a b) = unat a - unat b"
  by (simp add: saturating_sub_def unat_sub_if' word_le_nat_alt)

lemma choose_newest_prefix: "choose_newest need cs = take (length (choose_newest need cs)) cs"
  by (induction need cs rule: choose_newest.induct) simp_all

lemma choose_newest_enough:
  "length (choose_newest need cs) < length cs \<Longrightarrow> unat need \<le> freed_sum (choose_newest need cs)"
  by (induction need cs rule: choose_newest.induct) (auto simp: unat_sat_sub split: if_splits)

lemma choose_newest_minimal:
  "k < length (choose_newest need cs) \<Longrightarrow> freed_sum (take k cs) < unat need"
proof (induction need cs arbitrary: k rule: choose_newest.induct)
  case (2 need c cs)
  then have "need \<noteq> 0" by auto
  show ?case
  proof (cases k)
    case 0
    with \<open>need \<noteq> 0\<close> show ?thesis by (simp add: unat_gt_0)
  next
    case (Suc k')
    with 2(1) [OF \<open>need \<noteq> 0\<close>, of k'] 2(2) \<open>need \<noteq> 0\<close> show ?thesis by (simp add: unat_sat_sub)
  qed
qed simp

subsection \<open>Which blocks\<close>

definition block_at :: "chat_message list \<Rightarrow> nat \<times> nat \<Rightarrow> content_block" where
  "block_at ms p = content (ms ! fst p) ! snd p"

definition has_block :: "chat_message list \<Rightarrow> nat \<times> nat \<Rightarrow> bool" where
  "has_block ms p \<longleftrightarrow> fst p < length ms \<and> snd p < length (content (ms ! fst p))"

definition place :: "candidate \<Rightarrow> nat \<times> nat" where
  "place c = (cand_msg c, cand_block c)"

definition force_clear :: "content_block \<Rightarrow> content_block" where
  "force_clear b = (case as_tool_result b of Some r \<Rightarrow> clear_result r | None \<Rightarrow> b)"

lemma force_clear_twice [simp]: "force_clear (force_clear b) = force_clear b"
  by (auto simp: force_clear_def clear_result_def as_tool_result_def split: content_block.splits)

lemma clear_at_eq:
  "has_block ms (place c) \<Longrightarrow>
     clear_at c ms = ms[cand_msg c := (ms ! cand_msg c)
       \<lparr>content := (content (ms ! cand_msg c))[cand_block c := force_clear (block_at ms (place c))]\<rparr>]"
  by (auto simp: clear_at_def Let_def force_clear_def block_at_def place_def has_block_def
      split: option.split)

lemma clear_at_block:
  assumes "has_block ms (place c)"
  shows "has_block (clear_at c ms) p = has_block ms p"
    and "has_block ms p \<Longrightarrow>
      block_at (clear_at c ms) p = (if p = place c then force_clear (block_at ms p) else block_at ms p)"
  using assms
  by (cases p; auto simp: clear_at_eq has_block_def block_at_def place_def nth_list_update)+

lemma fold_clear_at:
  assumes "\<forall>c \<in> set cs. has_block ms (place c)" and "has_block ms p"
  shows "has_block (fold clear_at cs ms) p \<and>
    block_at (fold clear_at cs ms) p =
      (if p \<in> place ` set cs then force_clear (block_at ms p) else block_at ms p)"
  using assms
proof (induction cs arbitrary: ms)
  case (Cons c cs)
  have c: "has_block ms (place c)" using Cons.prems(1) by simp
  have "\<forall>c' \<in> set cs. has_block (clear_at c ms) (place c')" "has_block (clear_at c ms) p"
    using Cons.prems clear_at_block(1) [OF c] by simp_all
  from Cons.IH [OF this] clear_at_block(2) [OF c Cons.prems(2)] show ?case by auto
qed simp

subsection \<open>The candidates\<close>

lemma in_enumerate_iff: "(i, x) \<in> set (enumerate 0 xs) \<longleftrightarrow> i < length xs \<and> x = xs ! i"
  by (auto simp: in_set_enumerate_eq)

lemma candidate_blocks:
  assumes "c \<in> set (microcompact_candidates l ms)"
  shows "has_block ms (place c) \<and> is_user (ms ! cand_msg c) \<and> cand_msg c < l \<and>
    clearable_block (names_by_id ms) (block_at ms (place c)) \<and>
    cand_tokens c = block_tokens (block_at ms (place c))"
  using assms
  by (auto simp: microcompact_candidates_def candidates_in_def in_enumerate_iff has_block_def
      block_at_def place_def)

lemma distinct_places_in: "distinct (map place (candidates_in names im))"
proof -
  have "map place (candidates_in names im) =
      map (\<lambda>(j, b). (fst im, j)) (filter (\<lambda>(j, b). clearable_block names b) (enumerate 0 (content (snd im))))"
    by (auto simp: candidates_in_def place_def)
  also have "\<dots> = map (Pair (fst im)) (map fst (filter (\<lambda>(j, b). clearable_block names b) (enumerate 0 (content (snd im)))))"
    by auto
  finally show ?thesis
    by (simp add: distinct_map inj_on_def distinct_enumerate)
       (auto simp: in_enumerate_iff)
qed

lemma distinct_places: "distinct (map place (microcompact_candidates l ms))"
proof -
  have "distinct (map place (concat (map (candidates_in names) ims)))"
    if "distinct (map fst ims)" for names ims
    using that
  proof (induction ims)
    case (Cons im ims)
    have own: "fst p = fst im" if "p \<in> place ` set (candidates_in names im)" for p
      using that by (auto simp: candidates_in_def place_def)
    have others: "fst p \<in> fst ` set ims" if "p \<in> place ` set (concat (map (candidates_in names) ims))" for p
      using that by (auto simp: candidates_in_def place_def intro: rev_image_eqI)
    have "fst im \<notin> fst ` set ims" using Cons.prems by simp
    then have "p \<notin> place ` set (concat (map (candidates_in names) ims))"
      if "p \<in> place ` set (candidates_in names im)" for p
      using own [OF that] others [of p] by metis
    then have "place ` set (candidates_in names im) \<inter>
        place ` set (concat (map (candidates_in names) ims)) = {}"
      by blast
    with Cons distinct_places_in [of names im] show ?case by (simp add: image_UN)
  qed simp
  moreover have "distinct (map fst (filter f (enumerate 0 ms)))" for f
    by (simp add: distinct_map_filter)
  ultimately show ?thesis by (simp add: microcompact_candidates_def)
qed

subsection \<open>What microcompact does\<close>

text \<open>The candidates it may take, newest first: all but those most recent that are protected.\<close>

definition microcompact_pool :: "nat \<Rightarrow> nat \<Rightarrow> chat_message list \<Rightarrow> candidate list" where
  "microcompact_pool l protected_recent ms =
     (let cands = microcompact_candidates l ms
      in rev (take (length cands - protected_recent) cands))"

lemma microcompact_run:
  assumes "target < current" and "last_index is_assistant ms = Some l"
  shows "microcompact_tool_results current target protected_recent ms =
    (let chosen = choose_newest (saturating_sub current target) (microcompact_pool l protected_recent ms)
     in (fold clear_at chosen ms, length chosen))"
  using assms by (simp add: microcompact_tool_results_def microcompact_pool_def Let_def)

lemma microcompact_idle:
  "current \<le> target \<or> last_index is_assistant ms = None \<Longrightarrow>
     microcompact_tool_results current target protected_recent ms = (ms, 0)"
  by (auto simp: microcompact_tool_results_def)

lemma pool_blocks: "c \<in> set (microcompact_pool l n ms) \<Longrightarrow> c \<in> set (microcompact_candidates l ms)"
  by (auto simp: microcompact_pool_def Let_def dest: in_set_takeD)

lemma microcompact_block:
  assumes "target < current" and "last_index is_assistant ms = Some l" and "has_block ms p"
  shows "block_at (fst (microcompact_tool_results current target protected_recent ms)) p =
    (if p \<in> place ` set (choose_newest (saturating_sub current target) (microcompact_pool l protected_recent ms))
     then force_clear (block_at ms p) else block_at ms p)"
proof -
  let ?chosen = "choose_newest (saturating_sub current target) (microcompact_pool l protected_recent ms)"
  have "set ?chosen \<subseteq> set (microcompact_pool l protected_recent ms)"
    by (metis choose_newest_prefix set_take_subset)
  then have "\<forall>c \<in> set ?chosen. has_block ms (place c)"
    using candidate_blocks pool_blocks by blast
  from fold_clear_at [OF this assms(3)] show ?thesis
    by (simp add: microcompact_run [OF assms(1,2)] Let_def)
qed

text \<open>C38. Microcompact clears the newest results of those it may, just as many as it takes: with one
  fewer the tokens freed would not reach the target, and it stops short of the target only when no
  result is left that it may clear. All other blocks are as they were.\<close>

theorem microcompact_clears_enough_and_no_more:
  assumes "target < current" and "last_index is_assistant ms = Some l"
    and "microcompact_tool_results current target protected_recent ms = (out, k)"
  shows "(k < length (microcompact_pool l protected_recent ms) \<longrightarrow>
      unat current - unat target \<le> freed_sum (take k (microcompact_pool l protected_recent ms))) \<and>
    (\<forall>j < k. freed_sum (take j (microcompact_pool l protected_recent ms)) < unat current - unat target) \<and>
    (\<forall>p. has_block ms p \<longrightarrow>
      block_at out p =
        (if p \<in> place ` set (take k (microcompact_pool l protected_recent ms))
         then force_clear (block_at ms p) else block_at ms p))"
proof -
  let ?pool = "microcompact_pool l protected_recent ms"
  let ?chosen = "choose_newest (saturating_sub current target) ?pool"
  have k: "k = length ?chosen" and out: "out = fst (microcompact_tool_results current target protected_recent ms)"
    using assms by (simp_all add: microcompact_run Let_def)
  have take: "take k ?pool = ?chosen" using choose_newest_prefix [of _ ?pool] by (simp add: k)
  have "block_at out p = (if p \<in> place ` set (take k ?pool) then force_clear (block_at ms p) else block_at ms p)"
    if "has_block ms p" for p
    unfolding take out using microcompact_block [OF assms(1,2) that] .
  moreover have "unat current - unat target \<le> freed_sum (take k ?pool)" if "k < length ?pool"
    using choose_newest_enough [of "saturating_sub current target" ?pool] that
    unfolding take unat_sat_sub by (simp add: k)
  moreover have "freed_sum (take j ?pool) < unat current - unat target" if "j < k" for j
    using choose_newest_minimal [of j "saturating_sub current target" ?pool] that
    unfolding unat_sat_sub by (simp add: k)
  ultimately show ?thesis by blast
qed

theorem microcompact_clears_enough_and_no_more_witness:
  "freed_sum (take 0 (microcompact_pool 3 0 [user_text ''hi'', cut_off_call ''a'', bare_result ''a'', assistant_text ''x''])) < 10"
proof -
  let ?ms = "[user_text ''hi'', cut_off_call ''a'', bare_result ''a'', assistant_text ''x'']"
  have l: "last_index is_assistant ?ms = Some 3" by code_simp
  obtain out k where run: "microcompact_tool_results 30 20 0 ?ms = (out, k)" by fastforce
  have "snd (microcompact_tool_results 30 20 0 ?ms) = 1" by code_simp
  with run have "k = 1" by simp
  with microcompact_clears_enough_and_no_more [OF _ l run] show ?thesis by simp
qed

text \<open>What microcompact rewrites is a result the model has already seen, before the last thing the
  assistant said, of a tool whose result can be had again, and not among the most recent such results
  that are protected.\<close>

theorem microcompact_clears_only_what_it_may:
  assumes "has_block ms p"
    and "block_at (fst (microcompact_tool_results current target protected_recent ms)) p \<noteq> block_at ms p"
  shows "\<exists>l. last_index is_assistant ms = Some l \<and> fst p < l \<and> is_user (ms ! fst p) \<and>
    clearable_block (names_by_id ms) (block_at ms p) \<and>
    p \<notin> place ` set (drop (length (microcompact_candidates l ms) - protected_recent)
      (microcompact_candidates l ms))"
proof -
  have tc: "target < current" using assms(2) microcompact_idle by (metis fst_conv not_le)
  obtain l where l: "last_index is_assistant ms = Some l"
    using assms(2) microcompact_idle by (metis fst_conv option.exhaust)
  let ?cands = "microcompact_candidates l ms" and ?n = "length (microcompact_candidates l ms) - protected_recent"
  have "p \<in> place ` set (choose_newest (saturating_sub current target) (microcompact_pool l protected_recent ms))"
    using assms(2) microcompact_block [OF tc l assms(1), of protected_recent] by (auto split: if_splits)
  then have "p \<in> place ` set (microcompact_pool l protected_recent ms)"
    by (metis (no_types, lifting) choose_newest_prefix image_iff in_set_takeD)
  then obtain c where c: "p = place c" "c \<in> set (take ?n ?cands)"
    by (auto simp: microcompact_pool_def Let_def)
  have "distinct (map place (take ?n ?cands) @ map place (drop ?n ?cands))"
    using distinct_places [of l ms] by (simp only: map_append [symmetric] append_take_drop_id)
  then have "p \<notin> place ` set (drop ?n ?cands)" using c by auto
  moreover have "c \<in> set ?cands" using c(2) by (rule in_set_takeD)
  ultimately show ?thesis using l c(1) candidate_blocks [of c l ms] by (auto simp: place_def)
qed

theorem microcompact_clears_only_what_it_may_witness:
  "\<exists>l. last_index is_assistant [user_text ''hi'', cut_off_call ''a'', bare_result ''a'', assistant_text ''x''] = Some l \<and> 2 < l"
proof -
  let ?ms = "[user_text ''hi'', cut_off_call ''a'', bare_result ''a'', assistant_text ''x'']"
  have "has_block ?ms (2, 0)" by code_simp
  moreover have "block_at (fst (microcompact_tool_results 30 20 0 ?ms)) (2, 0) \<noteq> block_at ?ms (2, 0)"
    by code_simp
  ultimately show ?thesis using microcompact_clears_only_what_it_may [of ?ms "(2, 0)" 30 20 0] by fastforce
qed

end
