(* ===== verification/Dedup_Facts.thy ===== *)
theory Dedup_Facts
  imports Microcompact_Facts
begin

text \<open>
  The two passes that look for the newest of several: the clearing of old results never takes the
  latest read of a slice of a file, and the removal of identical calls keeps the newest. Then what
  that removal does to a result on the other side of the boundary, and how it is counted.
\<close>

subsection \<open>The latest read\<close>

lemma map_of_updates:
  "map_of (fold (\<lambda>(k, v). AList.update k v) ps al) = map_of al ++ map_of (rev ps)"
  by (induction ps arbitrary: al) (auto simp: update_conv' fun_eq_iff map_add_def split: option.split)

lemma latest_read_protected:
  "map_of (rev (reads_made ms)) s = Some i \<Longrightarrow> i \<in> set (protected_file_read_ids ms)"
proof -
  let ?latest = "fold (\<lambda>(k, v). AList.update k v) (reads_made ms) []"
  assume "map_of (rev (reads_made ms)) s = Some i"
  then have "map_of ?latest s = Some i" by (simp add: map_of_updates)
  then have "(s, i) \<in> set ?latest" by (rule map_of_SomeD)
  then show ?thesis unfolding protected_file_read_ids_def by (force simp: image_iff)
qed

lemma has_block_rewrite:
  "has_block (fst (rewrite_prefix who f n ms)) p = has_block ms p"
  by (cases p) (auto simp: has_block_def rewrite_prefix_def rewrite_message_def nth_append)

lemma block_at_rewrite:
  assumes "has_block ms p"
  shows "block_at (fst (rewrite_prefix who f n ms)) p =
    (if fst p < n \<and> who (ms ! fst p)
     then (case f (block_at ms p) of Some b \<Rightarrow> b | None \<Rightarrow> block_at ms p) else block_at ms p)"
  using assms
  by (cases p)
    (auto simp: has_block_def block_at_def rewrite_prefix_def rewrite_message_def nth_append
      split: option.split)

text \<open>Clearing old results never takes away what the model last read of a slice of a file, however
  long ago: of the reads with the same path and the same window the result of the latest stays, in its
  place.\<close>

theorem latest_read_is_kept:
  assumes "map_of (rev (reads_made ms)) s = Some (result_use_id r)"
    and "has_block ms p" and "block_at ms p = ToolResult r"
  shows "block_at (fst (clear_old_tool_results boundary max_age ms)) p = ToolResult r"
  using latest_read_protected [OF assms(1)] assms(2,3)
  by (auto simp: clear_old_tool_results_def Let_def block_at_rewrite clear_unless_def as_tool_result_def)

definition read_call :: "string \<Rightarrow> string \<Rightarrow> chat_message" where
  "read_call i path =
     \<lparr>role_of = RoleAssistant,
      content = [ToolUse \<lparr>use_id = i, use_name = ''Read'',
        use_input = JObject [(''file_path'', JString path)]\<rparr>]\<rparr>"

theorem latest_read_is_kept_witness:
  "block_at (fst (clear_old_tool_results 4 0
      [read_call ''a'' ''f'', bare_result ''a'', read_call ''b'' ''f'', bare_result ''b''])) (3, 0) =
    ToolResult \<lparr>result_use_id = ''b'', result_content = ResultText ''ok'', result_is_error = False\<rparr> \<and>
   block_at (fst (clear_old_tool_results 4 0
      [read_call ''a'' ''f'', bare_result ''a'', read_call ''b'' ''f'', bare_result ''b''])) (1, 0) =
    ToolResult \<lparr>result_use_id = ''a'', result_content = ResultText TOOL_RESULT_CLEARED, result_is_error = False\<rparr>"
proof
  let ?ms = "[read_call ''a'' ''f'', bare_result ''a'', read_call ''b'' ''f'', bare_result ''b'']"
  show "block_at (fst (clear_old_tool_results 4 0 ?ms)) (3, 0) =
      ToolResult \<lparr>result_use_id = ''b'', result_content = ResultText ''ok'', result_is_error = False\<rparr>"
  proof (rule latest_read_is_kept)
    show "map_of (rev (reads_made ?ms))
        \<lparr>read_path = ''f'', read_offset = None, read_limit = None, read_selectors = None\<rparr> =
      Some (result_use_id \<lparr>result_use_id = ''b'', result_content = ResultText ''ok'', result_is_error = False\<rparr>)"
      by code_simp
    show "has_block ?ms (3, 0)" by code_simp
    show "block_at ?ms (3, 0) =
        ToolResult \<lparr>result_use_id = ''b'', result_content = ResultText ''ok'', result_is_error = False\<rparr>"
      by code_simp
  qed
  show "block_at (fst (clear_old_tool_results 4 0 ?ms)) (1, 0) =
      ToolResult \<lparr>result_use_id = ''a'', result_content = ResultText TOOL_RESULT_CLEARED, result_is_error = False\<rparr>"
    by code_simp
qed

subsection \<open>The newest of identical calls\<close>

lemma json_same_refl: "json_same j j"
proof (induction j)
  case (JArray vs)
  then show ?case by (simp add: json_same.simps list.rel_refl_strong)
next
  case (JObject kvs)
  have "json_same v v" if "(k, v) \<in> set kvs" for k v
    using JObject [OF that, of v] by simp
  then show ?case by (auto simp: json_same.simps)
qed (simp_all add: json_same.simps)

lemma same_call_refl: "same_call c c"
  by (simp add: same_call_def json_same_refl)

text \<open>What the scan keeps true of the calls it has seen: each has a kept one like it, which is a call
  seen whose identifier is not to be removed.\<close>

definition scan_ok ::
  "(nat \<times> tool_use_block) list \<Rightarrow> string list \<times> (string \<times> json) list \<Rightarrow> bool" where
  "scan_ok seen st \<longleftrightarrow>
     set (fst st) \<subseteq> use_id ` snd ` set seen \<and>
     (\<forall>s \<in> set (snd st). \<exists>v \<in> snd ` set seen. call_signature v = s \<and> use_id v \<notin> set (fst st)) \<and>
     (\<forall>u \<in> snd ` set seen. \<exists>s \<in> set (snd st). same_call (call_signature u) s)"

lemma scan_ok_mark:
  assumes "scan_ok seen st" and "use_id u \<notin> use_id ` snd ` set seen"
  shows "scan_ok (seen @ [(i, u)]) (mark_call boundary (i, u) st)"
proof (cases "list_ex (same_call (call_signature u)) (snd st)")
  case True
  then obtain s where "s \<in> set (snd st)" "same_call (call_signature u) s" by (auto simp: list_ex_iff)
  moreover have "use_id v \<noteq> use_id u" if "v \<in> snd ` set seen" for v
    using assms(2) that by (metis image_eqI)
  ultimately show ?thesis
    using True assms(1) unfolding scan_ok_def mark_call_def
    by (cases st) (auto 0 4 simp: Let_def)
next
  case False
  have "use_id u \<notin> set (fst st)" using assms by (auto simp: scan_ok_def)
  then show ?thesis
    using False assms(1) same_call_refl unfolding scan_ok_def mark_call_def
    by (cases st) (auto 0 4 simp: Let_def)
qed

lemma scan_ok_fold:
  assumes "scan_ok seen st" and "distinct (map (use_id \<circ> snd) (seen @ cs))"
  shows "scan_ok (seen @ cs) (fold (mark_call boundary) cs st)"
  using assms
proof (induction cs arbitrary: seen st)
  case (Cons c cs)
  obtain i u where c: "c = (i, u)" by (cases c)
  have "use_id u \<notin> use_id ` snd ` set seen" using Cons.prems(2) by (auto simp: c image_image)
  from scan_ok_mark [OF Cons.prems(1) this, of i boundary]
    Cons.IH [of "seen @ [c]" "mark_call boundary c st"] Cons.prems(2)
  show ?case by (simp add: c)
qed simp

lemma map_snd_indexed:
  "map snd (indexed_calls ms) =
     concat (rev (map (\<lambda>m. List.map_filter as_tool_use (content m)) (filter is_assistant ms)))"
proof -
  let ?h = "\<lambda>m. List.map_filter as_tool_use (content m)"
  have "map snd (concat (map (\<lambda>(i, m). map (Pair i) (?h m)) xs)) = concat (map ?h (map snd xs))"
    for xs :: "(nat \<times> chat_message) list"
    by (induction xs) (auto simp: comp_def)
  moreover have "map snd (filter (\<lambda>(i, m). is_assistant m) xs) = filter is_assistant (map snd xs)"
    for xs :: "(nat \<times> chat_message) list"
    by (induction xs) auto
  moreover have "map snd (rev (enumerate 0 ms)) = rev ms"
    by (simp only: rev_map [symmetric] map_snd_enumerate)
  ultimately have "map snd (indexed_calls ms) = concat (map ?h (filter is_assistant (rev ms)))"
    unfolding indexed_calls_def by (simp only: map_map [symmetric])
  then show ?thesis by (simp only: rev_filter [symmetric] rev_map [symmetric])
qed

lemma mset_indexed: "mset (map snd (indexed_calls ms)) = mset (calls_made ms)"
proof -
  have "mset (concat (rev xss)) = mset (concat xss)" for xss :: "tool_use_block list list"
    by (induction xss) (auto simp: union_commute)
  then show ?thesis by (simp only: map_snd_indexed calls_made_def)
qed

lemma distinct_indexed:
  assumes "distinct (map use_id (calls_made ms))"
  shows "distinct (map (use_id \<circ> snd) (indexed_calls ms))"
proof -
  have "mset (map use_id (map snd (indexed_calls ms))) = mset (map use_id (calls_made ms))"
    using mset_indexed [of ms] by (simp only: mset_map)
  with assms show ?thesis by (metis map_map mset_eq_imp_distinct_iff)
qed

lemma set_indexed: "snd ` set (indexed_calls ms) = set (calls_made ms)"
  using mset_indexed [of ms] by (metis list.set_map set_mset_mset)

lemma in_calls_made:
  "v \<in> set (calls_made ms) \<longleftrightarrow> (\<exists>m \<in> set ms. is_assistant m \<and> ToolUse v \<in> set (content m))"
proof -
  have "v \<in> set (List.map_filter as_tool_use bs) \<longleftrightarrow> ToolUse v \<in> set bs" for bs
    by (induction bs) (auto simp: map_filter_simps as_tool_use_def split: content_block.splits)
  then show ?thesis by (auto simp: calls_made_def)
qed

lemma undoomed_call_stays:
  assumes "v \<in> set (calls_made ms)" and "use_id v \<notin> set (doomed_ids boundary ms)"
  shows "v \<in> set (calls_made (deduplicate_tool_calls boundary ms))"
proof (cases "doomed_ids boundary ms = []")
  case True
  with assms(1) show ?thesis by (simp add: deduplicate_tool_calls_def)
next
  case False
  obtain m where m: "m \<in> set ms" "is_assistant m" "ToolUse v \<in> set (content m)"
    using assms(1) by (auto simp: in_calls_made)
  let ?doomed = "doomed_ids boundary ms"
  have stays: "ToolUse v \<in> set (content (without_calls ?doomed m))" "is_assistant (without_calls ?doomed m)"
    using m assms(2) by (simp_all add: without_calls_def is_assistant_def)
  have "m \<in> set (take boundary ms) \<or> m \<in> set (drop boundary ms)"
    using m(1) by (metis Un_iff append_take_drop_id set_append)
  then show ?thesis
  proof
    assume "m \<in> set (take boundary ms)"
    moreover have "content (without_calls ?doomed m) \<noteq> []" using stays(1) by auto
    ultimately show ?thesis
      using False stays by (auto simp: deduplicate_tool_calls_def Let_def in_calls_made)
  next
    assume "m \<in> set (drop boundary ms)"
    with False m show ?thesis by (auto simp: deduplicate_tool_calls_def Let_def in_calls_made)
  qed
qed

text \<open>Removing identical calls never removes a call altogether: as long as no two calls have the
  same identifier, for every call of the history one with the same tool and the same input is left.\<close>

theorem identical_calls_leave_one:
  assumes "distinct (map use_id (calls_made ms))" and "u \<in> set (calls_made ms)"
  shows "\<exists>v \<in> set (calls_made (deduplicate_tool_calls boundary ms)).
    same_call (call_signature u) (call_signature v)"
proof -
  let ?st = "fold (mark_call boundary) (indexed_calls ms) ([], [])"
  have "scan_ok ([] @ indexed_calls ms) ?st"
    by (rule scan_ok_fold) (simp_all add: scan_ok_def distinct_indexed [OF assms(1)])
  then have kept: "\<forall>s \<in> set (snd ?st). \<exists>v \<in> set (calls_made ms).
      call_signature v = s \<and> use_id v \<notin> set (doomed_ids boundary ms)"
    and like: "\<exists>s \<in> set (snd ?st). same_call (call_signature u) s"
    using assms(2) by (simp_all add: scan_ok_def doomed_ids_def set_indexed)
  from like obtain s where "s \<in> set (snd ?st)" "same_call (call_signature u) s" by blast
  with kept obtain v where "v \<in> set (calls_made ms)" "use_id v \<notin> set (doomed_ids boundary ms)"
    "same_call (call_signature u) (call_signature v)"
    by metis
  with undoomed_call_stays show ?thesis by blast
qed

theorem identical_calls_leave_one_witness:
  "\<exists>v \<in> set (calls_made (deduplicate_tool_calls 4
       [read_call ''a'' ''f'', bare_result ''a'', read_call ''b'' ''f'', bare_result ''b''])).
     same_call (''Read'', JObject [(''file_path'', JString ''f'')]) (call_signature v)"
proof -
  let ?ms = "[read_call ''a'' ''f'', bare_result ''a'', read_call ''b'' ''f'', bare_result ''b'']"
  let ?u = "\<lparr>use_id = ''a'', use_name = ''Read'', use_input = JObject [(''file_path'', JString ''f'')]\<rparr>"
  have "distinct (map use_id (calls_made ?ms))" and "?u \<in> set (calls_made ?ms)"
    by (simp_all add: calls_made_def read_call_def bare_result_def is_assistant_def map_filter_simps
        as_tool_use_def)
  from identical_calls_leave_one [OF this, of 4] show ?thesis by (simp add: call_signature_def)
qed

subsection \<open>Where it falls short\<close>

text \<open>The boundary may lie between a call and its result: the call is taken out of the old part, its
  result stays in the protected one, and the request holds a result without a call. The middleware
  does not repair what it sends.\<close>

definition split_history :: "chat_message list" where
  "split_history =
     [user_text ''hi'', read_call ''a'' ''f'', user_text ''note'', bare_result ''a'',
      read_call ''b'' ''f'', bare_result ''b'', user_text ''go on'']"

theorem aggressive_pruning_orphans_a_result:
  "well_paired split_history \<and> no_strangers split_history \<and>
   \<not> no_strangers (fst (prune full_history_replay ''openai'' split_history Aggressive None False))"
  by (intro conjI; code_simp)

text \<open>What is counted as removed pairs is half of the messages that went: a pair taken out of messages
  that keep a text is not counted.\<close>

definition chatty :: "chat_message \<Rightarrow> chat_message" where
  "chatty m = m\<lparr>content := TextBlock ''so'' # content m\<rparr>"

theorem removed_pair_is_not_counted:
  "let ms = [chatty (read_call ''a'' ''f''), chatty (bare_result ''a''), read_call ''b'' ''f'', bare_result ''b''];
       (out, delta) = prune \<lparr>protected_recent_turns = 1, tool_result_max_age_turns = 1,
         error_purge_age_turns = 1\<rparr> ''openai'' ms Aggressive None False
   in length (calls_made ms) = 2 \<and> length (calls_made out) = 1 \<and> delta_duplicates delta = 0"
  by code_simp

text \<open>Microcompact counts what a block would free, but takes one that frees nothing all the same: a
  short result gives way to a longer placeholder.\<close>

theorem short_result_makes_way_for_a_longer_one:
  "block_at (fst (microcompact_tool_results 30 20 0
      [user_text ''hi'', cut_off_call ''a'', bare_result ''a'', assistant_text ''x''])) (2, 0) =
    ToolResult \<lparr>result_use_id = ''a'', result_content = ResultText TOOL_RESULT_CLEARED, result_is_error = False\<rparr>"
  by code_simp

end
