(* ===== verification/Context_Truncate.thy ===== *)
theory Context_Truncate
  imports Context_Prune Ordered_Map
begin

text \<open>
  The truncation a compaction falls back to, \<open>crates/rebon-api/src/context_prune.rs\<close>: the
  old messages give way to the user's own texts within a token budget, a count of the tool calls
  made, and a note with the last thing the assistant said; the recent ones follow, with their tool
  calls paired again.
\<close>

subsection \<open>Texts and counts\<close>

definition approx_tokens :: "string \<Rightarrow> nat" where
  "approx_tokens s = byte_len s div 4"

definition COMPACT_USER_MESSAGE_MAX_TOKENS :: nat where
  "COMPACT_USER_MESSAGE_MAX_TOKENS = 20000"

definition COMPACT_ASSISTANT_SUMMARY_MAX_TOKENS :: nat where
  "COMPACT_ASSISTANT_SUMMARY_MAX_TOKENS = 8000"

definition truncate_text_to_approx_tokens :: "nat \<Rightarrow> string \<Rightarrow> string" where
  "truncate_text_to_approx_tokens max_tokens s =
     (if byte_len s \<le> max_tokens * 4 then s else take (max_tokens * 4) s)"

record execution_history_summary =
  total_calls :: nat
  calls_by_name :: "(string \<times> nat) list"
  succeeded :: nat
  errored :: nat

definition render_history :: "execution_history_summary \<Rightarrow> string" where
  "render_history s =
     ''[EXECUTION HISTORY COMPACTION: '' @ decimal (total_calls s) @
     '' older tool calls were summarized. Tool calls by name: '' @
     join '', '' (map (\<lambda>(n, k). n @ ''='' @ decimal k) (calls_by_name s)) @
     ''. Results: '' @ decimal (succeeded s) @ '' succeeded, '' @ decimal (errored s) @
     '' errored. Raw old tool outputs and thinking blocks were omitted.]''"

definition count_name :: "string \<Rightarrow> (string \<times> nat) list \<Rightarrow> (string \<times> nat) list" where
  "count_name n m = map_insert n ((case map_of m n of Some k \<Rightarrow> k | None \<Rightarrow> 0) + 1) m"

definition count_result ::
  "(string \<Rightarrow> string option) \<Rightarrow> tool_result_block \<Rightarrow> execution_history_summary
     \<Rightarrow> execution_history_summary"
where
  "count_result names r s =
     (case names (result_use_id r) of
        None \<Rightarrow> s
      | Some n \<Rightarrow>
          s\<lparr>total_calls := total_calls s + 1, calls_by_name := count_name n (calls_by_name s),
            succeeded := succeeded s + (if result_is_error r then 0 else 1),
            errored := errored s + (if result_is_error r then 1 else 0)\<rparr>)"

definition results_given :: "chat_message list \<Rightarrow> tool_result_block list" where
  "results_given ms = concat (map (\<lambda>m. List.map_filter as_tool_result (content m)) (filter is_user ms))"

definition summarize_complete_execution_history ::
  "chat_message list \<Rightarrow> execution_history_summary option" where
  "summarize_complete_execution_history ms =
     (if calls_made ms = [] then None
      else
        (let s = fold (count_result (names_by_id ms)) (results_given ms)
           \<lparr>total_calls = 0, calls_by_name = [], succeeded = 0, errored = 0\<rparr>
         in if total_calls s > 0 then Some s else None))"

subsection \<open>Where the tail begins\<close>

definition holds_result :: "chat_message \<Rightarrow> bool" where
  "holds_result m = list_ex (\<lambda>b. as_tool_result b \<noteq> None) (content m)"

definition adjusted_keep_from :: "chat_message list \<Rightarrow> nat \<Rightarrow> nat" where
  "adjusted_keep_from ms keep_from =
     (if keep_from = 0 \<or> keep_from \<ge> length ms then keep_from
      else if \<not> is_user (ms ! keep_from) \<or> \<not> holds_result (ms ! keep_from) then keep_from
      else if is_caller (ms ! (keep_from - 1)) then keep_from - 1
      else keep_from)"

subsection \<open>What is kept of the old messages\<close>

text \<open>The texts of one message within the tokens left; the loop ends when none are.\<close>

fun collect_texts :: "nat \<Rightarrow> string list \<Rightarrow> string list \<times> nat" where
  "collect_texts left [] = ([], left)"
| "collect_texts left (t # ts) =
     (if t = TOOL_RESULT_CLEARED \<or> approx_tokens t = 0 then collect_texts left ts
      else
        (let (pushed, left') =
           (if approx_tokens t \<le> left then ([t], left - approx_tokens t)
            else if left > 0 then (if take (left * 4) t = [] then [] else [take (left * 4) t], 0)
            else ([], left))
         in if left' = 0 then (pushed, 0)
            else (let (more, left'') = collect_texts left' ts in (pushed @ more, left''))))"

definition message_texts :: "chat_message \<Rightarrow> string list" where
  "message_texts m = List.map_filter block_text (content m)"

fun collect_user_texts :: "nat \<Rightarrow> chat_message list \<Rightarrow> string list" where
  "collect_user_texts left [] = []"
| "collect_user_texts left (m # ms) =
     (if \<not> is_user m then collect_user_texts left ms
      else
        (let (texts, left') = collect_texts left (message_texts m)
         in if left' = 0 then texts else texts @ collect_user_texts left' ms))"

definition preserved_user_texts :: "chat_message list \<Rightarrow> string list" where
  "preserved_user_texts dropped =
     rev (collect_user_texts COMPACT_USER_MESSAGE_MAX_TOKENS (rev dropped))"

definition find_map :: "('a \<Rightarrow> 'b option) \<Rightarrow> 'a list \<Rightarrow> 'b option" where
  "find_map f xs = (case List.map_filter f xs of [] \<Rightarrow> None | y # _ \<Rightarrow> Some y)"

definition worthwhile_text :: "content_block \<Rightarrow> string option" where
  "worthwhile_text b =
     (case block_text b of
        Some t \<Rightarrow> if t \<noteq> [] \<and> t \<noteq> TOOL_RESULT_CLEARED then Some t else None
      | None \<Rightarrow> None)"

definition last_assistant_text :: "chat_message list \<Rightarrow> string option" where
  "last_assistant_text dropped =
     find_map (\<lambda>m. if is_assistant m then find_map worthwhile_text (content m) else None) (rev dropped)"

definition compaction_note :: "nat \<Rightarrow> nat \<Rightarrow> string option \<Rightarrow> string" where
  "compaction_note keep_from protected_turns said =
     (let header = ''[CONTEXT COMPACTION: '' @ decimal keep_from @
            '' earlier messages were compacted to stay within the context window. '' @
            ''The user messages above are preserved from the original conversation. The most recent '' @
            decimal protected_turns @ '' turns follow below.]''
      in case said of
           Some t \<Rightarrow> header @ [ch_lf, ch_lf] @ ''Here is the summary from the previous work:'' @
             [ch_lf, ch_lf] @ truncate_text_to_approx_tokens COMPACT_ASSISTANT_SUMMARY_MAX_TOKENS t
         | None \<Rightarrow> header)"

definition text_separator :: string where
  "text_separator = [ch_lf, ch_lf] @ ''---'' @ [ch_lf, ch_lf]"

definition compacted_prefix :: "nat \<Rightarrow> chat_message list \<Rightarrow> chat_message list" where
  "compacted_prefix protected_turns dropped =
     (let texts = preserved_user_texts dropped
      in (if texts = [] then [] else [user_text (join text_separator texts)]) @
         (case summarize_complete_execution_history dropped of
            Some s \<Rightarrow> [user_text (render_history s)] | None \<Rightarrow> []) @
         [user_text (compaction_note (length dropped) protected_turns (last_assistant_text dropped))])"

subsection \<open>The truncations\<close>

definition auto_compact_truncate_from ::
  "string \<Rightarrow> nat \<Rightarrow> nat \<Rightarrow> chat_message list \<Rightarrow> chat_message list" where
  "auto_compact_truncate_from dash keep_from protected_turns ms =
     (let keep = adjusted_keep_from ms keep_from
      in if keep = 0 \<or> keep \<ge> length ms then ms
         else ensure_tool_result_pairing dash
           (compacted_prefix protected_turns (take keep ms) @ drop keep ms))"

definition auto_compact_truncate :: "string \<Rightarrow> nat \<Rightarrow> chat_message list \<Rightarrow> chat_message list" where
  "auto_compact_truncate dash protected_turns ms =
     (if length ms \<le> protected_turns * 2 + 1 then ms
      else auto_compact_truncate_from dash
        (adjusted_keep_from ms (length ms - protected_turns * 2)) protected_turns ms)"

definition auto_compact_truncate_cache_stable ::
  "string \<Rightarrow> nat \<Rightarrow> chat_message list \<Rightarrow> chat_message list" where
  "auto_compact_truncate_cache_stable dash protected_turns ms =
     (if length ms \<le> protected_turns * 2 + 1 then ms
      else
        (let quantum = max (protected_turns * 2) 1;
             keep_from = (length ms - protected_turns * 2) div quantum * quantum
         in if keep_from = 0 then ms
            else auto_compact_truncate_from dash keep_from protected_turns ms))"

end
