(* ===== verification/Truncate_Facts.thy ===== *)
theory Truncate_Facts
  imports Context_Truncate Pairing_Facts
begin

text \<open>
  What a truncation gives: a history a provider takes, with the user speaking first, every call
  answered, and the recent messages in it; user texts within their budget; and, for the variant the
  replay window uses, a projection that only grows while its boundary stands. Then where texts and
  results are lost or change places.
\<close>

subsection \<open>The shape\<close>

lemma user_text_user [simp]: "is_user (user_text t)" "other_blocks (user_text t) = content (user_text t)"
  "\<not> is_caller (user_text t)" "answered_ids (user_text t) = []" "\<not> is_assistant (user_text t)"
  by (simp_all add: is_user_def user_text_def other_blocks_def as_tool_result_def is_caller_def
      is_assistant_def answered_ids_def map_filter_simps)

lemma compacted_prefix_texts:
  "list_all (\<lambda>m. \<exists>t. m = user_text t) (compacted_prefix turns dropped) \<and> compacted_prefix turns dropped \<noteq> []"
  by (auto simp: compacted_prefix_def Let_def split: option.split)

lemma well_paired_texts:
  "list_all (\<lambda>m. \<exists>t. m = user_text t) xs \<Longrightarrow> well_paired (xs @ ms) = well_paired ms"
  by (induction xs) (auto simp: well_paired_def)

lemma all_call_ids_texts:
  "list_all (\<lambda>m. \<exists>t. m = user_text t) xs \<Longrightarrow> all_call_ids (xs @ ms) = all_call_ids ms"
  by (induction xs) (auto simp: all_call_ids_def)

lemma no_strangers_texts:
  "list_all (\<lambda>m. \<exists>t. m = user_text t) xs \<Longrightarrow> no_strangers (xs @ ms) = no_strangers ms"
  by (auto simp: no_strangers_def all_call_ids_texts list_all_iff)



lemma truncate_from_cases:
  "auto_compact_truncate_from dash keep_from turns ms =
     (let keep = adjusted_keep_from ms keep_from
      in if 0 < keep \<and> keep < length ms
         then ensure_tool_result_pairing dash (compacted_prefix turns (take keep ms) @ drop keep ms)
         else ms)"
  by (simp add: auto_compact_truncate_from_def Let_def)



subsection \<open>The budget of user texts\<close>

definition token_sum :: "string list \<Rightarrow> nat" where
  "token_sum ts = sum_list (map approx_tokens ts)"

lemma approx_tokens_take: "is_ascii t \<Longrightarrow> approx_tokens (take (n * 4) t) \<le> n"
proof -
  assume "is_ascii t"
  then have "is_ascii (take (n * 4) t)" unfolding is_ascii_def by (metis append_take_drop_id list_all_append)
  then show ?thesis by (simp add: approx_tokens_def byte_len_ascii)
qed

lemma collect_texts_within:
  assumes "list_all is_ascii ts"
  shows "token_sum (fst (collect_texts left ts)) + snd (collect_texts left ts) \<le> left"
  using assms
proof (induction left ts rule: collect_texts.induct)
  case (2 left t ts)
  have "is_ascii t" "list_all is_ascii ts" using 2(3) by simp_all
  show ?case
  proof (cases "t = TOOL_RESULT_CLEARED \<or> approx_tokens t = 0")
    case True
    with 2(1) \<open>list_all is_ascii ts\<close> show ?thesis by simp
  next
    case False
    consider "approx_tokens t < left" | "approx_tokens t = left" | "left < approx_tokens t" by linarith
    then show ?thesis
    proof cases
      case 1
      have "token_sum (fst (collect_texts (left - approx_tokens t) ts)) +
          snd (collect_texts (left - approx_tokens t) ts) \<le> left - approx_tokens t"
        by (rule 2(2) [OF False _ refl]) (use 1 \<open>list_all is_ascii ts\<close> in simp_all)
      with False 1 show ?thesis by (simp add: Let_def case_prod_beta token_sum_def)
    next
      case 2
      with False show ?thesis by (simp add: token_sum_def)
    next
      case 3
      with False approx_tokens_take [OF \<open>is_ascii t\<close>, of left] show ?thesis by (simp add: token_sum_def)
    qed
  qed
qed (simp add: token_sum_def)

lemma collect_user_texts_within:
  assumes "\<forall>m \<in> set ms. list_all is_ascii (message_texts m)"
  shows "token_sum (collect_user_texts left ms) \<le> left"
  using assms
proof (induction left ms rule: collect_user_texts.induct)
  case (2 left m ms)
  show ?case
  proof (cases "is_user m")
    case True
    obtain texts left' where run: "collect_texts left (message_texts m) = (texts, left')"
      by (cases "collect_texts left (message_texts m)")
    have "token_sum texts + left' \<le> left"
      using collect_texts_within [of "message_texts m" left] 2(3) by (simp add: run)
    moreover have "token_sum (collect_user_texts left' ms) \<le> left'" if "left' \<noteq> 0"
      using 2(2) [of "(texts, left')" texts left'] True run that 2(3) by simp
    ultimately show ?thesis using True by (cases "left' = 0") (simp_all add: run token_sum_def)
  next
    case False
    with 2(1) [OF False] 2(3) show ?thesis by simp
  qed
qed (simp add: token_sum_def)

text \<open>The user's old texts that a truncation carries over fit their budget of tokens, when they are
  in ASCII.\<close>

theorem preserved_texts_fit_the_budget:
  assumes "\<forall>m \<in> set dropped. list_all is_ascii (message_texts m)"
  shows "sum_list (map approx_tokens (preserved_user_texts dropped)) \<le> COMPACT_USER_MESSAGE_MAX_TOKENS"
proof -
  have "token_sum (collect_user_texts COMPACT_USER_MESSAGE_MAX_TOKENS (rev dropped)) \<le>
      COMPACT_USER_MESSAGE_MAX_TOKENS"
    using assms by (intro collect_user_texts_within) simp
  then show ?thesis by (simp add: token_sum_def preserved_user_texts_def rev_map [symmetric] sum_list_rev)
qed

theorem preserved_texts_fit_the_budget_witness:
  "sum_list (map approx_tokens (preserved_user_texts [user_text ''please go on''])) \<le> 20000"
proof -
  have "\<forall>m \<in> set [user_text ''please go on'']. list_all is_ascii (message_texts m)" by code_simp
  from preserved_texts_fit_the_budget [OF this] show ?thesis
    by (simp only: COMPACT_USER_MESSAGE_MAX_TOKENS_def)
qed

subsection \<open>The projection of the replay window\<close>

text \<open>Where the cache-stable variant cuts, before the adjustment to a call.\<close>

definition stable_keep_from :: "nat \<Rightarrow> nat \<Rightarrow> nat" where
  "stable_keep_from turns n = (n - turns * 2) div max (turns * 2) 1 * max (turns * 2) 1"

lemma stable_keep_from_le: "stable_keep_from turns n \<le> n - turns * 2"
  by (simp add: stable_keep_from_def)

lemma repair_id_messages: "well_paired ms \<Longrightarrow> no_strangers ms \<Longrightarrow> ensure_tool_result_pairing dash ms = ms"
  by (simp add: ensure_tool_result_pairing_def repair_id)

lemma adjusted_keep_from_append:
  "keep < length ms \<Longrightarrow> adjusted_keep_from (ms @ later) keep = adjusted_keep_from ms keep"
  by (simp add: adjusted_keep_from_def nth_append less_imp_diff_less)

lemma adjusted_keep_from_le: "adjusted_keep_from ms keep \<le> keep"
  by (simp add: adjusted_keep_from_def)

lemma stable_run:
  assumes "turns * 2 + 1 < length ms" and "0 < turns"
    and "keep = adjusted_keep_from ms (stable_keep_from turns (length ms))" and "0 < keep"
    and "well_paired (drop keep ms)" and "no_strangers (drop keep ms)"
  shows "auto_compact_truncate_cache_stable dash turns ms =
    compacted_prefix turns (take keep ms) @ drop keep ms"
proof -
  let ?k = "stable_keep_from turns (length ms)"
  have "?k \<le> length ms - turns * 2" by (rule stable_keep_from_le)
  then have lt: "?k < length ms" using assms(1,2) by linarith
  have "?k \<noteq> 0" using assms(3,4) adjusted_keep_from_le [of ms ?k] by linarith
  moreover have "keep \<le> ?k" by (simp add: assms(3) adjusted_keep_from_le)
  moreover have "auto_compact_truncate_cache_stable dash turns ms =
      auto_compact_truncate_from dash ?k turns ms"
    using assms(1) \<open>?k \<noteq> 0\<close> by (simp add: auto_compact_truncate_cache_stable_def stable_keep_from_def Let_def)
  moreover have "list_all (\<lambda>m. \<exists>t. m = user_text t) (compacted_prefix turns (take keep ms))"
    using compacted_prefix_texts by blast
  ultimately show ?thesis
    using assms(3-6) lt
    by (simp add: truncate_from_cases Let_def repair_id_messages well_paired_texts no_strangers_texts)
qed

text \<open>While the history grows within one window of turns, the projection of the replay window only
  grows: what was sent is a prefix of what is sent next, so a provider's prefix cache holds. (The
  recent part is taken to be paired before and after; the boundary is the multiple of the window
  below the protected turns.)\<close>

theorem stable_projection_only_grows:
  assumes "turns * 2 + 1 < length ms" and "0 < turns"
    and "stable_keep_from turns (length (ms @ later)) = stable_keep_from turns (length ms)"
    and "keep = adjusted_keep_from ms (stable_keep_from turns (length ms))" and "0 < keep"
    and "well_paired (drop keep ms) \<and> no_strangers (drop keep ms)"
    and "well_paired (drop keep (ms @ later)) \<and> no_strangers (drop keep (ms @ later))"
  shows "prefix (auto_compact_truncate_cache_stable dash turns ms)
    (auto_compact_truncate_cache_stable dash turns (ms @ later))"
proof -
  let ?k = "stable_keep_from turns (length ms)"
  have "?k < length ms" using stable_keep_from_le [of turns "length ms"] assms(1,2) by linarith
  then have keep: "keep = adjusted_keep_from (ms @ later) (stable_keep_from turns (length (ms @ later)))"
    by (simp only: assms(3,4) adjusted_keep_from_append)
  have "keep \<le> ?k" by (simp add: assms(4) adjusted_keep_from_le)
  then have "keep < length ms" using \<open>?k < length ms\<close> by simp
  have "auto_compact_truncate_cache_stable dash turns ms = compacted_prefix turns (take keep ms) @ drop keep ms"
    using assms by (intro stable_run) simp_all
  moreover have "auto_compact_truncate_cache_stable dash turns (ms @ later) =
      compacted_prefix turns (take keep (ms @ later)) @ drop keep (ms @ later)"
    using assms(1,2,5,7) keep by (intro stable_run) simp_all
  ultimately show ?thesis using \<open>keep < length ms\<close> by simp
qed

definition talk :: "nat \<Rightarrow> chat_message list" where
  "talk n = concat (replicate n [user_text ''hello'', assistant_text ''hi'']) "

theorem stable_projection_only_grows_witness:
  "prefix (auto_compact_truncate_cache_stable ''-'' 2 (talk 4))
    (auto_compact_truncate_cache_stable ''-'' 2 (talk 4 @ talk 1))"
proof (rule stable_projection_only_grows [of 2 "talk 4" "talk 1" 4])
  show "2 * 2 + 1 < length (talk 4)" by code_simp
  show "stable_keep_from 2 (length (talk 4 @ talk 1)) = stable_keep_from 2 (length (talk 4))" by code_simp
  show "4 = adjusted_keep_from (talk 4) (stable_keep_from 2 (length (talk 4)))" by code_simp
  show "well_paired (drop 4 (talk 4)) \<and> no_strangers (drop 4 (talk 4))" by code_simp
  show "well_paired (drop 4 (talk 4 @ talk 1)) \<and> no_strangers (drop 4 (talk 4 @ talk 1))" by code_simp
qed simp_all

subsection \<open>Where it falls short\<close>

text \<open>The texts are gathered from the newest message to the oldest, but within a message from the first
  block to the last, and then all turned round: two texts of one message change places.\<close>

theorem texts_of_a_message_change_places:
  "preserved_user_texts
     [\<lparr>role_of = RoleUser, content = [TextBlock ''first text'', TextBlock ''second text'']\<rparr>,
      user_text ''third text''] =
   [''second text'', ''first text'', ''third text'']"
  by code_simp

text \<open>A text of fewer than four bytes counts as no tokens and is dropped: a plain answer is lost.\<close>

theorem short_answers_are_dropped:
  "preserved_user_texts [user_text ''Delete the tables?'', user_text ''no''] = [''Delete the tables?'']"
  by code_simp

text \<open>A text that does not fit is cut to four characters a token, but measured in bytes: outside ASCII
  what is carried over can be twice the budget.\<close>

lemma byte_len_replicate: "byte_len (replicate n c) = n * utf8_width c"
  by (simp add: byte_len_def sum_list_replicate)

lemma collect_one:
  "t \<noteq> TOOL_RESULT_CLEARED \<Longrightarrow> left < approx_tokens t \<Longrightarrow> 0 < left \<Longrightarrow> take (left * 4) t \<noteq> [] \<Longrightarrow>
     collect_texts left [t] = ([take (left * 4) t], 0)"
  by simp

lemma preserved_one:
  "collect_texts COMPACT_USER_MESSAGE_MAX_TOKENS [t] = (ts, 0) \<Longrightarrow>
     preserved_user_texts [user_text t] = rev ts"
  by (simp add: preserved_user_texts_def message_texts_def user_text_def is_user_def map_filter_simps
      del: collect_texts.simps)

theorem wide_text_exceeds_the_budget:
  "preserved_user_texts [user_text (replicate 80000 (char_of (233::nat)))] =
     [replicate 80000 (char_of (233::nat))] \<and>
   approx_tokens (replicate 80000 (char_of (233::nat))) = 40000"
proof -
  let ?c = "char_of (233::nat)"
  let ?t = "replicate 80000 ?c"
  have w: "utf8_width ?c = 2" by code_simp
  have t: "approx_tokens ?t = 40000" by (simp add: approx_tokens_def byte_len_replicate w)
  moreover have "?t \<noteq> TOOL_RESULT_CLEARED"
  proof
    assume "?t = TOOL_RESULT_CLEARED"
    then have "length ?t = length TOOL_RESULT_CLEARED" by (rule arg_cong)
    then show False by (simp add: TOOL_RESULT_CLEARED_def)
  qed
  moreover have "take (20000 * 4) ?t = ?t" by (rule take_all) simp
  ultimately have "collect_texts 20000 [?t] = ([?t], 0)"
    using collect_one [of ?t 20000] by (simp only: t) simp
  with t show ?thesis
    using preserved_one [of ?t "[?t]"] by (simp only: COMPACT_USER_MESSAGE_MAX_TOKENS_def) simp
qed

text \<open>The repair looks for results in all user messages after a call, the adjustment of the boundary
  only at the one message before it. With a note between the call and its result the boundary stays
  between them, and the result of a recent call is thrown away.\<close>

definition noted_history :: "chat_message list" where
  "noted_history =
     [user_text ''hello'', assistant_text ''hi'', user_text ''look it up'', cut_off_call ''a'',
      user_text ''note'', bare_result ''a'', assistant_text ''done'']"

lemma no_calls_no_results:
  assumes "all_call_ids ms = []"
  shows "list_all (\<lambda>m. is_user m \<longrightarrow> result_blocks m = []) (ensure_tool_result_pairing dash ms)"
  using repaired_no_strangers [of dash ms] assms
  by (simp add: no_strangers_def all_call_ids_repair answered_ids_blocks)

theorem recent_result_is_lost:
  "well_paired noted_history \<and> no_strangers noted_history \<and>
   noted_history ! (length noted_history - 2) = bare_result ''a'' \<and>
   list_all (\<lambda>m. is_user m \<longrightarrow> result_blocks m = []) (auto_compact_truncate ''-'' 1 noted_history)"
proof (intro conjI)
  show "well_paired noted_history" and "no_strangers noted_history" by code_simp+
  show "noted_history ! (length noted_history - 2) = bare_result ''a''" by code_simp
  have n: "length noted_history = 7" by code_simp
  have k: "adjusted_keep_from noted_history 5 = 5" by code_simp
  have "all_call_ids (drop 5 noted_history) = []" by code_simp
  then have "all_call_ids (compacted_prefix 1 (take 5 noted_history) @ drop 5 noted_history) = []"
    using all_call_ids_texts compacted_prefix_texts by metis
  moreover have "auto_compact_truncate ''-'' 1 noted_history =
      ensure_tool_result_pairing ''-'' (compacted_prefix 1 (take 5 noted_history) @ drop 5 noted_history)"
    by (simp add: auto_compact_truncate_def truncate_from_cases n k)
  ultimately show "list_all (\<lambda>m. is_user m \<longrightarrow> result_blocks m = []) (auto_compact_truncate ''-'' 1 noted_history)"
    using no_calls_no_results by simp
qed

end
