(* ===== verification/Spec2Isabelle.thy ===== *)
theory Spec2Isabelle
  imports Shell_Quoting PowerShell_Shape Json_Value Read_Only Rule_Value Policy_Facts
    Permission_Modes Denial_Facts Verdict_Cache Registry_Facts Supervisor_Facts
    Frame_Facts Remote_Facts Rc_Ledger Uplink_Keys Auto_Facts Deletion_Facts
    Transcript_Facts Classifier_Facts Gate_Facts Broker_Facts Hook_Facts Chain_Facts
    Catalog_Facts Dispatch_Facts Path_Facts Response_Registry
    Budget_Facts Dedup_Facts Truncate_Facts
begin

text \<open>
  A verification development for the decision core of Rebon, a coding agent whose model proposes
  tool calls that a person, a policy or a remote controller has to let through.

  \<^bold>\<open>The program.\<close> An agent session runs tools: it edits files, runs shell commands, calls plugins.
  Three parts of the program decide what happens to such a call, and are modelled here, with the part
  that keeps the conversation within what the model takes.

  \<^item> The \<^emph>\<open>permission core\<close>. The engine (\<open>rebon-core\<close>) finds the tool of a call in its catalog, checks the
    input against the schema and hands the tool's own decision to a chain of brokers: hooks
    (\<open>rebon-hooks\<close>), stored rules, and at its end the permission mode and a person; a worker's broker
    (\<open>rebon-tool\<close>) stands before the chain of its session. A shell command is read into argument vectors
    (\<open>rebon-shell-policy\<close>), judged read-only or not, and compared with the rules of the policy store
    (\<open>rebon-permissions\<close>); in automatic mode a classifier model reads the transcript and judges the
    call, its verdicts are cached and its denials kept for review.
  \<^item> The \<^emph>\<open>plugin plane\<close>. Plugins run in a host process; the supervisor (\<open>rebon-plugin-supervisor\<close>)
    opens scopes, sends calls and matches answers by the ledger and the registry of
    \<open>rebon-plugin-protocol\<close>.
  \<^item> The \<^emph>\<open>remote-control runner\<close> (\<open>rebon-rc-runner\<close> over \<open>rebon-bridge\<close> and \<open>rebon-session-host\<close>). It
    takes work items from a server, opens the session on this machine, and relays: session events go
    up as frames, prompts and decisions of controllers come down.

  \<^item> The \<^emph>\<open>context pruning\<close> (\<open>rebon-api\<close>). Before a history is sent it is pruned, compacted or truncated to
    fit the context window, and its tool calls are paired with their results.

  \<^bold>\<open>Theories.\<close> Each theory opens with the file it models; a definition has the name of the Rust item
  unless that name is taken, and a theory \<open>X_Facts\<close> holds what is proved of \<open>X\<close>.

  \<^item> \<open>Rust_Prelude\<close>: the string, option and result operations of the Rust standard library the sources
    use; \<open>Json_Value\<close>: JSON values and the part of \<open>serde_json\<close> they use; \<open>Ordered_Map\<close>: the
    \<open>BTreeMap\<close> and \<open>BTreeSet\<close> as ordered lists, both instances of the locale \<open>finite_store\<close>.
  \<^item> \<open>Shell_Lexer\<close>, \<open>Shell_Quoting\<close> (\<open>lexer.rs\<close>): the segment scanner with its five grammars, instances
    of the locale \<open>argv_grammar\<close>; \<open>PowerShell_Shape\<close> (\<open>powershell_shape.rs\<close>); \<open>Read_Only\<close>
    (\<open>read_only.rs\<close>).
  \<^item> \<open>Shell_Words\<close>, \<open>Sensitive_Shell\<close>, \<open>Heredoc\<close>, \<open>Deletion_Scope\<close>, \<open>Auto_Input\<close> (\<open>lib.rs\<close> of
    \<open>rebon-shell-policy\<close> and the path comparison of \<open>rebon-tools-core\<close>): the classifiers automatic mode
    asks about a command, here-documents, deletions confined to a root, and the ordered classification;
    \<open>Shell_Risk\<close>, \<open>Auto_Facts\<close>, \<open>Deletion_Facts\<close> hold what is shown of them.
  \<^item> \<open>Rule_Value\<close> (\<open>rule_value.rs\<close>, rule types), \<open>Shell_Runtime\<close> (\<open>shell_runtime.rs\<close>), \<open>Tool_Facts\<close>
    (the table of \<open>rebon-tools-core\<close>), \<open>Policy\<close> and \<open>Policy_Facts\<close> (\<open>policy.rs\<close>): the store, the
    matchers, the evaluator and the broker.
  \<^item> \<open>Messages\<close> (\<open>types.rs\<close>, \<open>request.rs\<close> of \<open>rebon-api\<close>), \<open>Auto_Transcript\<close>, \<open>Auto_Classifier\<close>,
    \<open>Transcript_Facts\<close>, \<open>Classifier_Facts\<close> (\<open>auto_mode_classifier.rs\<close>): the conversation, the transcript the
    classifier reads, its two stages and their replies.
  \<^item> \<open>Permission_Seat\<close> (\<open>permission_seat.rs\<close>), \<open>Permission_Gate\<close>, \<open>Gate_Facts\<close>, \<open>Permission_Broker\<close>,
    \<open>Broker_Facts\<close> (\<open>permission.rs\<close>): the rules features register, the gate of automatic mode and the
    resolution of an ask under every mode, and the broker that ends at a prompt; \<open>Acp_Broker\<close>,
    \<open>Acp_Facts\<close> (\<open>lib.rs\<close>): the same over the ACP transport; \<open>Path_Scope\<close>, \<open>Path_Facts\<close> (\<open>path_scope.rs\<close>):
    where a tool may read and write.
  \<^item> \<open>Hook_Protocol\<close>, \<open>Hook_Runtime\<close>, \<open>Hook_Facts\<close> (\<open>rebon-hooks\<close>): what a hook answers, which hooks fire
    and what becomes of their answers; \<open>Policy_Seat\<close> (\<open>policy_seat.rs\<close>, \<open>hooks.rs\<close>): the subscribers of an
    event and the gates over them.
  \<^item> \<open>Broker_Chain\<close>, \<open>Chain_Facts\<close> (\<open>lib.rs\<close> of \<open>rebon-tool\<close>, \<open>hooks.rs\<close>, \<open>permission.rs\<close>): the brokers as a
    datatype, the worker's broker, the resolution of a decision by a chain.
  \<^item> \<open>Tool_Catalog\<close>, \<open>Catalog_Facts\<close> (\<open>filter.rs\<close>, \<open>validation.rs\<close>, \<open>tool_exposure.rs\<close>, \<open>tool_seat.rs\<close>):
    which tools there are, which are shown, what fits a schema; \<open>Tool_Dispatch\<close>, \<open>Dispatch_Facts\<close>
    (\<open>lib.rs\<close> and \<open>turn_control.rs\<close> of \<open>rebon-core\<close>): a call from the model to the broker.
  \<^item> \<open>Context_Budget\<close>, \<open>Budget_Facts\<close>, \<open>Tool_Pairing\<close>, \<open>Pairing_Facts\<close>, \<open>Context_Prune\<close>,
    \<open>Prune_Facts\<close>, \<open>Microcompact_Facts\<close>, \<open>Dedup_Facts\<close>, \<open>Context_Truncate\<close>, \<open>Truncate_Facts\<close>
    (\<open>context_prune.rs\<close> of \<open>rebon-api\<close>): the token budget, the pairing of calls and results, the passes
    that shorten old messages and the truncation.
  \<^item> \<open>Permission_Modes\<close>, \<open>Denial_Store\<close>, \<open>Denial_Facts\<close>, \<open>Verdict_Cache\<close>: the modes, the denial store
    and the verdict cache of automatic mode (the three queues of the cache are instances of the locale
    \<open>bounded_fifo\<close>).
  \<^item> \<open>Plugin_Methods\<close>, \<open>Call_Ledger\<close>, \<open>Ledger_Facts\<close>, \<open>Plugin_Registry\<close>, \<open>Registry_Facts\<close>,
    \<open>Supervisor_State\<close>, \<open>Supervisor_Facts\<close>: typed payloads and their validation, the ledger of call
    identities, the plugin registry, the state of the supervisor over the ledger.
  \<^item> \<open>Session_Frame\<close>, \<open>Frame_Facts\<close> (\<open>session_stream.rs\<close>): the frames and their reading and writing;
    \<open>Remote_Permission\<close> (\<open>remote_permission.rs\<close>, \<open>control_request.rs\<close>), \<open>Response_Registry\<close>
    (\<open>permission_callbacks.rs\<close>); \<open>Session_Host\<close> (prompts,
    questions, status); \<open>Rc_Downlink\<close>, \<open>Remote_Facts\<close> (\<open>downlink.rs\<close> and the handlers of \<open>session.rs\<close>,
    \<open>host.rs\<close>); \<open>Rc_Work\<close> (\<open>work.rs\<close>, \<open>owner.rs\<close>, close and error verdicts); \<open>Rc_Ledger\<close>
    (\<open>ledger.rs\<close>); \<open>Rc_Limits\<close> (\<open>limits.rs\<close>); \<open>Rc_Uplink\<close>, \<open>Uplink_Facts\<close>, \<open>Uplink_Keys\<close>
    (\<open>uplink.rs\<close>, \<open>state.rs\<close>, \<open>ids.rs\<close>).

  \<^bold>\<open>How the code is modelled.\<close> Structures are records, enumerations datatypes, results \<open>error + value\<close>,
  \<open>u16\<close>, \<open>u32\<close> and \<open>u64\<close> words of their width; a length is a natural number. A method with \<open>&mut self\<close>
  returns the state it leaves. A \<open>HashMap\<close> whose order is never observed is a partial function. Loops
  are recursive functions whose termination is proved; the only fuel is the bound the source itself
  has, the 256 passes of \<open>fit_message\<close>.

  A string is a list of characters below 256, the code points of Latin-1: slices and lengths count the
  UTF-8 bytes of such a character (one or two), so panics and cuts at a character boundary are real in
  the model. Case folding and white space are the ASCII or Unicode ones the source calls, restricted to
  that range.

  What the code calls and does not define is an argument: the host part of a URL, the encoder of a
  payload, the digest of a prompt, the text and the size of a JSON value, the marker of a cut (it holds
  a character above 255), the projection of a prompt to its request, the decoding of a work secret, the
  errors of the file system and its resolution of links (\<open>std::fs::canonicalize\<close>). A slice of the classifier that
  panics is a value of the model. Paths and \<open>cfg\<close> choices are those of a Unix build.

  So are, for the permission core: the client of a model and the texts of its prompts, the printer of JSON
  and the hash of a cache key, the decoder and the regular expressions of hooks and the result of a
  hook's command, the answer of a person at a prompt (an answer, no answer or a closed channel), the
  classifier of git commands inside a workflow, the decoder of the gateway's input and the index of
  the tool search. A tool is a record of its functions: what it answers about an input, and its call. A
  subscriber that panics or runs out of time is a value. What reads the state of the session while a
  decision is made (mode, grants, rules) is a record of what each reading sees, so a change between two
  readings is a behaviour of the model.

  \<^bold>\<open>What is shown.\<close>

  \<^item> The call of a tool: it runs only when the session has the tool, the plan allows it, the input fits
    and the whole chain approved; the gateway to deferred tools is the direct call or an error. A
    worker's broker leaves sensitive calls to its session and, unattended, asks nobody; the transport of a
    prompt makes no difference. A confined tool reads and writes inside its roots, delegation only
    narrows them, and the credentials of a session are refused under every name.
  \<^item> Modes: what each does with an ask; rules of the seat only add prompts; automatic mode runs only on
    evidence; a denial outlives whatever the agent does, because its key is the transcript up to the
    person's last words, and the lines of the person in it are what the person said.
  \<^item> The classifier: it allows only on a literal \<open>no\<close>, a block names a rule, no reply makes it panic, no
    cut turns a verdict around.
  \<^item> Hooks: the strongest answer of a firing decides, effects fit their event, a gate opens only by
    the consent of every subscriber asked.
  \<^item> The history sent to a model: after the repair every call is answered and nothing but results was
    touched, its report is true, repairing is idempotent; pruning below the aggressive level keeps a
    paired history paired and never rewrites the protected turns, the latest read of a file slice keeps
    its result, of identical calls the newest stays; microcompact clears the newest results it may, as many as
    it takes; a truncation begins with the user and keeps the recent turns, and while its boundary
    stands what it gives only grows; compaction is due before the window is full.
  \<^item> Quoting and shapes: what the scanners accept has no live metacharacter, argument vectors are read
    back from their quoted rendering, accepted links compose.
  \<^item> Policy: a denied call stays denied, allow rules cover every link, no reachable store holds a rule
    that frees a shell, the evaluator is the choice of the first covering rule, order does not matter,
    the broker never asks about a denied call.
  \<^item> Automatic mode: bounds and uniqueness of the denial store, records only move forward, closing the
    dialog replays once; the cache is bounded, an exemption admits once. Wrappers and lists hide no risk
    from the classifiers, a script for review is the whole input of its interpreter, an authorised or
    excused deletion stays inside its root.
  \<^item> Plugin plane: at most one terminal per call, identities once stale stay stale, a failed host
    answers every pending call exactly once, call ids do not repeat before the counter wraps, work is
    routed only as declared and only while ready, a drain ends with the last call.
  \<^item> Remote control: a frame survives a relay; a remote decision lands on the prompt it names or is
    refused with nothing called; a control answer says what happened; a prompt is granted once; every
    update is sent exactly once and in order, under distinct ids; a reconnect repeats what stands; cuts
    keep the bounds and the text.

  The steps of the denial store, the policy store, the plugin registry and the supervisor are inductive
  relations; their invariants are proved by rule induction and used through the reachability
  predicates.

  Lemmas under \<open>Findings\<close> in the \<open>_Facts\<close> theories are concrete runs on which the code does not do what a
  comment or a neighbouring branch says.

  \<^bold>\<open>Not modelled.\<close> Locks, threads and asynchronous waiting (an operation under a lock is a step),
  sockets, processes, files and HTTP, the terminal interface, the model services, the tools themselves
  and the plugins built on the plane: effects around the decisions above. Of the permission core: the
  settings loader, the status line and the HTTP executor of \<open>rebon-hooks\<close>, the query loop around the
  dispatch, and the workflow token stream of \<open>lexer.rs\<close> with the git operations a workflow step may run. Of \<open>rebon-plugin-protocol\<close>: the exact parsing of wire integers.
\<close>

end
